(* ===== verification/Prelude.thy ===== *)
theory Prelude
  imports Main "HOL-Library.Char_ord"
begin

section \<open>Shared vocabulary of the model\<close>

text \<open>
  What every component of the school gateway (\<open>web-server/src\<close>) shares: the HTTP exceptions a
  handler may throw, JavaScript's truthiness on optional strings, the ASCII string functions the
  code calls, and tenant tables as row lists with the SQL statements the services issue
  (\<open>SELECT ... LIMIT 1\<close>, \<open>INSERT\<close> with its primary key, \<open>UPDATE ... WHERE\<close>, \<open>DELETE ... WHERE\<close>).

  A handler is a function \<open>'s \<Rightarrow> ('a result) \<times> 's\<close>: an exception is \<open>Inl\<close>, and the state
  that goes with it is the state the writes before the exception left behind (the services open
  no transaction).  Strings are char lists of ASCII characters.
\<close>

subsection \<open>Exceptions\<close>

datatype http_error =
    BadRequest string
  | Forbidden string
  | NotFound string
  | Unauthorized string
  | Conflict string
  | ServiceUnavailable string
  | DbError

type_synonym 'a result = "http_error + 'a"

definition is_ok :: "'a result \<Rightarrow> bool" where
  "is_ok r = (case r of Inl _ \<Rightarrow> False | Inr _ \<Rightarrow> True)"

lemma is_ok_simps [simp]: "is_ok (Inr x) = True" "is_ok (Inl e) = False"
  by (simp_all add: is_ok_def)

lemma is_ok_E: "is_ok r \<Longrightarrow> (\<And>x. r = Inr x \<Longrightarrow> P) \<Longrightarrow> P"
  by (cases r) auto

lemma map_sum_result:
  "map_sum f id r = Inr x \<longleftrightarrow> r = Inr x" "map_sum id g r = Inr z \<longleftrightarrow> (\<exists>y. r = Inr y \<and> z = g y)" "map_sum f id r = Inl e \<longleftrightarrow> (\<exists>e'. r = Inl e' \<and> e = f e')"
  by (cases r; auto)+

definition bind_result :: "'a result \<Rightarrow> ('a \<Rightarrow> 'b result) \<Rightarrow> 'b result" where
  "bind_result r f = (case r of Inl e \<Rightarrow> Inl e | Inr x \<Rightarrow> f x)"

lemma bind_result_Inr [simp]: "bind_result r f = Inr y \<longleftrightarrow> (\<exists>x. r = Inr x \<and> f x = Inr y)"
  by (auto simp: bind_result_def split: sum.split)

text \<open>What a column \<open>varchar(n)\<close> takes.\<close>

definition width_of :: "nat \<Rightarrow> string option \<Rightarrow> bool" where
  "width_of n x = (case x of None \<Rightarrow> True | Some s \<Rightarrow> length s \<le> n)"

subsection \<open>Arrays and sets\<close>

text \<open>\<open>[...new Set(xs)]\<close>: the first occurrence of every element, in order.\<close>

definition js_uniq :: "'a list \<Rightarrow> 'a list" where
  "js_uniq xs = rev (remdups (rev xs))"

lemma set_js_uniq [simp]: "set (js_uniq xs) = set xs"
  by (simp add: js_uniq_def)

lemma distinct_js_uniq [simp]: "distinct (js_uniq xs)"
  by (simp add: js_uniq_def)

lemma js_uniq_id: "distinct xs \<Longrightarrow> js_uniq xs = xs"
  by (simp add: js_uniq_def distinct_remdups_id)

lemma list_all2_in2: "list_all2 R xs ys \<Longrightarrow> y \<in> set ys \<Longrightarrow> \<exists>x\<in>set xs. R x y"
  by (induction rule: list_all2_induct) auto

lemma list_all2_in1: "list_all2 R xs ys \<Longrightarrow> x \<in> set xs \<Longrightarrow> \<exists>y\<in>set ys. R x y"
  by (induction rule: list_all2_induct) auto

subsection \<open>JavaScript truthiness and strings\<close>

text \<open>\<open>x || null\<close> on an optional string: the empty string is falsy.\<close>

definition or_null :: "string option \<Rightarrow> string option" where
  "or_null x = (case x of Some (c # cs) \<Rightarrow> Some (c # cs) | _ \<Rightarrow> None)"

definition truthy :: "string option \<Rightarrow> bool" where
  "truthy x = (or_null x \<noteq> None)"

text \<open>\<open>x || d\<close> with a string default.\<close>

definition or_else :: "string option \<Rightarrow> string \<Rightarrow> string" where
  "or_else x d = (case or_null x of Some s \<Rightarrow> s | None \<Rightarrow> d)"

lemma or_null_simps [simp]:
  "or_null None = None" "or_null (Some []) = None" "or_null (Some (c # cs)) = Some (c # cs)"
  by (simp_all add: or_null_def)

lemma or_null_None_iff: "or_null x = None \<longleftrightarrow> x = None \<or> x = Some []"
  by (auto simp: or_null_def split: option.splits list.splits)

lemma or_null_Some_iff: "or_null x = Some s \<longleftrightarrow> x = Some s \<and> s \<noteq> []"
  by (auto simp: or_null_def split: option.splits list.splits)

lemma truthy_simps [simp]:
  "truthy None = False" "truthy (Some s) = (s \<noteq> [])"
  by (simp_all add: truthy_def or_null_def split: list.splits)

lemma truthy_iff: "truthy x \<longleftrightarrow> (\<exists>s. x = Some s \<and> s \<noteq> [])"
  by (cases x) auto

definition to_lower_char :: "char \<Rightarrow> char" where
  "to_lower_char c = (let n = of_char c :: nat in if 65 \<le> n \<and> n \<le> 90 then char_of (n + 32) else c)"

definition to_upper_char :: "char \<Rightarrow> char" where
  "to_upper_char c = (let n = of_char c :: nat in if 97 \<le> n \<and> n \<le> 122 then char_of (n - 32) else c)"

definition toLowerCase :: "string \<Rightarrow> string" where
  "toLowerCase s = map to_lower_char s"

definition toUpperCase :: "string \<Rightarrow> string" where
  "toUpperCase s = map to_upper_char s"

definition js_space :: "char \<Rightarrow> bool" where
  "js_space c = (let n = of_char c :: nat in n = 32 \<or> (9 \<le> n \<and> n \<le> 13))"

definition trim :: "string \<Rightarrow> string" where
  "trim s = rev (dropWhile js_space (rev (dropWhile js_space s)))"

definition startsWith :: "string \<Rightarrow> string \<Rightarrow> bool" where
  "startsWith s p = (take (length p) s = p)"

definition endsWith :: "string \<Rightarrow> string \<Rightarrow> bool" where
  "endsWith s p = (length p \<le> length s \<and> drop (length s - length p) s = p)"

text \<open>\<open>s.split(c)\<close> for a one-character separator: always at least one piece.\<close>

fun split_on :: "char \<Rightarrow> string \<Rightarrow> string list" where
  "split_on c [] = [[]]"
| "split_on c (x # xs) =
     (if x = c then [] # split_on c xs
      else (case split_on c xs of [] \<Rightarrow> [[x]] | y # ys \<Rightarrow> (x # y) # ys))"

lemma split_on_not_Nil [simp]: "split_on c s \<noteq> []"
  by (induction s) (auto split: list.splits)

lemma startsWith_append [simp]: "startsWith (p @ s) p"
  by (simp add: startsWith_def)

lemma startsWith_iff: "startsWith s p \<longleftrightarrow> (\<exists>r. s = p @ r)"
proof
  assume "startsWith s p"
  then have "s = p @ drop (length p) s"
    by (metis append_take_drop_id startsWith_def)
  then show "\<exists>r. s = p @ r" ..
qed (auto simp: startsWith_def)

lemma startsWith_Nil [simp]: "startsWith s []"
  by (simp add: startsWith_def)

lemma to_lower_char_idem [simp]: "to_lower_char (to_lower_char c) = to_lower_char c"
proof (cases "65 \<le> (of_char c :: nat) \<and> (of_char c :: nat) \<le> 90")
  case True
  then have "(of_char (char_of (of_char c + 32 :: nat)) :: nat) = of_char c + 32"
    by simp
  with True show ?thesis by (simp add: to_lower_char_def)
qed (auto simp: to_lower_char_def)

lemma toLowerCase_idem [simp]: "toLowerCase (toLowerCase s) = toLowerCase s"
  by (simp add: toLowerCase_def)

text \<open>\<open>s.replace(/[\s-]+/g, '_')\<close>: every maximal run of blanks and dashes becomes one underscore.\<close>

definition is_sep :: "char \<Rightarrow> bool" where
  "is_sep c = (js_space c \<or> c = CHR ''-'')"

fun collapse_sep :: "string \<Rightarrow> string" where
  "collapse_sep [] = []"
| "collapse_sep [c] = (if is_sep c then [CHR ''_''] else [c])"
| "collapse_sep (c # d # s) =
     (if is_sep c then (if is_sep d then collapse_sep (d # s) else CHR ''_'' # collapse_sep (d # s))
      else c # collapse_sep (d # s))"

text \<open>\<open>String(role).trim().toLowerCase().replace(/[\s-]+/g, '_')\<close>\<close>

definition role_slug :: "string \<Rightarrow> string" where
  "role_slug r = collapse_sep (toLowerCase (trim r))"

lemma dropWhile_id: "(s = [] \<or> \<not> P (hd s)) \<Longrightarrow> dropWhile P s = s"
  by (cases s) auto

lemma trim_id: "s = [] \<or> (\<not> js_space (hd s) \<and> \<not> js_space (last s)) \<Longrightarrow> trim s = s"
  by (cases "s = []") (simp_all add: trim_def dropWhile_id hd_rev)

lemma trim_no_space: "list_all (\<lambda>c. \<not> js_space c) s \<Longrightarrow> trim s = s"
  by (rule trim_id) (auto simp: list_all_iff)

lemma collapse_sep_id: "list_all (\<lambda>c. \<not> is_sep c) s \<Longrightarrow> collapse_sep s = s"
  by (induction s rule: collapse_sep.induct) auto

end
