(* ===== verification/RolePermissions.thy ===== *)
theory RolePermissions
  imports Prelude
begin

section \<open>Roles, permissions and custom capabilities\<close>

text \<open>
  \<open>common/auth/role-permissions.ts\<close>: the server-side catalogue of what each role may do, the
  derivation of a user's effective permissions, and the validation of custom capability
  overrides.  The tables are the source's, entry by entry; role and permission names are strings
  as in the source.
\<close>

definition ROLE_IDS :: "string list" where
  "ROLE_IDS =
    [''director'', ''school_admin'', ''it_admin'', ''head_teacher'', ''principal'',
     ''vice_principal'', ''assistant_head_teacher'', ''bursar'', ''class_teacher'',
     ''subject_teacher'', ''administrative_staff'', ''student'', ''parent'', ''driver'',
     ''guard'', ''nurse'']"

definition PRIVILEGE_GRANTOR_ROLES :: "string list" where
  "PRIVILEGE_GRANTOR_ROLES =
    [''director'', ''it_admin'', ''school_admin'']"

definition SCHOOL_LEADER_PERMISSIONS :: "string list" where
  "SCHOOL_LEADER_PERMISSIONS =
    [''ai:use'', ''results:read'', ''results:view_all'', ''results:approve'',
     ''students:update'', ''staff:read'', ''staff_records:view'', ''dashboards:view'',
     ''dashboards:view_strategic'', ''reports:view'', ''reports:generate'', ''analytics:view'',
     ''classes:read'', ''subjects:read'', ''student_attendance:read'',
     ''student_attendance:view_all'', ''staff_attendance:read'', ''staff_attendance:view_all'',
     ''staff_attendance:create'', ''biometric:verify'', ''notifications:view'',
     ''assignments:read'', ''curriculum:view'', ''curriculum:manage'', ''cbt:read'',
     ''cbt:manage'', ''cbt:publish'', ''inventory:read'', ''inventory:manage'', ''budgets:read'',
     ''budgets:manage'', ''payroll:read'', ''payroll:manage'', ''analytics:view'', ''ai:use'',
     ''consent:read'', ''consent:manage'', ''emergency:send'', ''hostel:read'',
     ''hostel:manage'', ''push:register'', ''push:send'', ''sync:write'', ''timetable:read'',
     ''timetable:manage'', ''lesson_notes:read'', ''lesson_notes:manage'']"

definition director_permissions :: "string list" where
  "director_permissions =
    [''ai:use'', ''organization:view'', ''organization:update'',
     ''organization_settings:configure'', ''dashboards:view'', ''dashboards:view_strategic'',
     ''reports:view'', ''reports:generate'', ''reports:export'', ''analytics:view'',
     ''audit_logs:view'', ''staff:read'', ''staff_records:view'', ''staff_attendance:view_all'',
     ''students:read'', ''students:update'', ''student_records:view'',
     ''student_attendance:view_all'', ''results:read'', ''results:view_all'', ''classes:read'',
     ''subjects:read'', ''curriculum:view'', ''fees:view'', ''fee_structures:read'',
     ''payments:view'', ''invoices:read'', ''users:read'', ''roles:assign'',
     ''announcements:read'', ''announcements:create'', ''notifications:view'',
     ''correspondence:manage'', ''calendar:manage'', ''cbt:read'', ''cbt:manage'',
     ''cbt:publish'', ''transport:read'', ''transport:manage'', ''clinic:read'',
     ''clinic:manage'', ''inventory:read'', ''inventory:manage'', ''budgets:read'',
     ''budgets:manage'']"

definition it_admin_permissions :: "string list" where
  "it_admin_permissions =
    [''ai:use'', ''organization:view'', ''users:create'', ''users:read'', ''users:update'',
     ''users:delete'', ''users:manage'', ''accounts:create'', ''accounts:manage'',
     ''accounts:reset'', ''roles:assign'', ''classes:read'', ''classes:create'',
     ''classes:update'', ''subjects:read'', ''subjects:create'', ''students:read'',
     ''students:update'', ''biometric:configure'', ''biometric:verify'', ''audit_logs:view'',
     ''system_config:view'', ''system_config:manage'', ''notifications:manage'',
     ''dashboards:view'']"

definition school_admin_permissions :: "string list" where
  "school_admin_permissions =
    [''ai:use'', ''organization:view'', ''organization:update'',
     ''organization_settings:configure'', ''academic_sessions:manage'',
     ''academic_terms:manage'', ''departments:manage'', ''school_levels:manage'', ''staff:read'',
     ''staff:create'', ''staff:update'', ''users:read'', ''users:create'', ''users:update'',
     ''roles:assign'', ''classes:manage'', ''classes:read'', ''classes:create'',
     ''classes:update'', ''classes:delete'', ''subjects:create'', ''subjects:read'',
     ''subjects:update'', ''subjects:delete'', ''results:read'', ''assignments:read'',
     ''curriculum:view'', ''reports:view'', ''reports:generate'', ''dashboards:view'',
     ''announcements:create'', ''announcements:read'', ''announcements:update'',
     ''announcements:delete'', ''correspondence:manage'', ''calendar:manage'', ''cbt:read'',
     ''cbt:manage'', ''cbt:publish'', ''transport:read'', ''transport:manage'', ''clinic:read'',
     ''clinic:manage'', ''inventory:read'', ''inventory:manage'', ''budgets:read'',
     ''budgets:manage'', ''student_attendance:read'', ''student_attendance:view_all'',
     ''student_attendance:create'', ''student_attendance:update'', ''staff_attendance:read'',
     ''staff_attendance:view_all'', ''staff_attendance:create'', ''biometric:configure'',
     ''biometric:verify'', ''notifications:view'', ''notifications:manage'', ''fees:view'',
     ''fee_structures:read'', ''payments:view'', ''invoices:read'', ''students:read'',
     ''students:create'', ''students:update'', ''student_records:view'', ''system_config:view'',
     ''nursery:read'', ''nursery:manage'']"

definition administrative_staff_permissions :: "string list" where
  "administrative_staff_permissions =
    [''ai:use'', ''students:create'', ''students:read'', ''students:update'',
     ''student_records:view'', ''student_records:update'', ''classes:read'',
     ''correspondence:manage'', ''calendar:manage'', ''cbt:read'', ''cbt:manage'',
     ''transport:read'', ''transport:manage'', ''clinic:read'', ''clinic:manage'',
     ''inventory:read'', ''inventory:manage'', ''budgets:read'', ''budgets:manage'',
     ''announcements:read'', ''reports:view'', ''dashboards:view'']"

definition head_teacher_permissions :: "string list" where
  "head_teacher_permissions =
    SCHOOL_LEADER_PERMISSIONS @ [''nursery:read'', ''nursery:manage'']"

definition principal_permissions :: "string list" where
  "principal_permissions =
    SCHOOL_LEADER_PERMISSIONS"

definition vice_principal_permissions :: "string list" where
  "vice_principal_permissions =
    SCHOOL_LEADER_PERMISSIONS"

definition assistant_head_teacher_permissions :: "string list" where
  "assistant_head_teacher_permissions =
    [''ai:use'', ''results:read'', ''results:view_all'', ''students:update'', ''reports:view'',
     ''reports:generate'', ''analytics:view'', ''curriculum:view'', ''classes:read'',
     ''subjects:read'', ''staff:read'', ''staff_records:view'', ''staff_attendance:read'',
     ''staff_attendance:view_all'', ''staff_attendance:create'', ''dashboards:view'',
     ''nursery:read'', ''nursery:manage'']"

definition class_teacher_permissions :: "string list" where
  "class_teacher_permissions =
    [''ai:use'', ''sync:write'', ''timetable:read'', ''lesson_notes:read'',
     ''lesson_notes:manage'', ''cbt:read'', ''cbt:manage'', ''transport:read'', ''clinic:read'',
     ''student_attendance:create'', ''student_attendance:read'', ''student_attendance:update'',
     ''staff_attendance:create'', ''staff_attendance:read'', ''biometric:configure'',
     ''biometric:verify'', ''results:create'', ''results:read'', ''results:update'',
     ''assignments:create'', ''assignments:read'', ''assignments:update'',
     ''assignments:delete'', ''correspondence:manage'', ''announcements:create'',
     ''announcements:read'', ''students:read'', ''student_records:view'', ''classes:read'',
     ''subjects:read'', ''notifications:view'', ''dashboards:view'', ''nursery:read'',
     ''nursery:manage'']"

definition subject_teacher_permissions :: "string list" where
  "subject_teacher_permissions =
    [''ai:use'', ''sync:write'', ''timetable:read'', ''lesson_notes:read'',
     ''lesson_notes:manage'', ''cbt:read'', ''cbt:manage'', ''transport:read'', ''clinic:read'',
     ''results:create'', ''results:read'', ''results:update'', ''staff_attendance:create'',
     ''staff_attendance:read'', ''biometric:configure'', ''biometric:verify'',
     ''assignments:create'', ''assignments:read'', ''assignments:update'',
     ''assignments:delete'', ''students:read'', ''student_records:view'', ''classes:read'',
     ''subjects:read'', ''announcements:read'', ''notifications:view'', ''dashboards:view'']"

definition bursar_permissions :: "string list" where
  "bursar_permissions =
    [''inventory:read'', ''inventory:manage'', ''budgets:read'', ''budgets:manage'',
     ''payroll:read'', ''payroll:manage'', ''analytics:view'', ''fee_structures:create'',
     ''fee_structures:read'', ''fee_structures:update'', ''fee_structures:delete'',
     ''fees:view'', ''fees:manage'', ''payments:view'', ''payments:process'',
     ''biometric:verify'', ''staff_attendance:create'', ''staff_attendance:read'',
     ''invoices:create'', ''invoices:read'', ''scholarships:manage'', ''refunds:process'',
     ''reports:view'', ''reports:generate'', ''reports:export'', ''notifications:view'',
     ''dashboards:view'', ''students:read'', ''classes:read'']"

definition student_permissions :: "string list" where
  "student_permissions =
    [''ai:use'', ''consent:read'', ''hostel:read'', ''push:register'', ''timetable:read'',
     ''lesson_notes:read'', ''cbt:read'', ''cbt:take'', ''transport:read'', ''clinic:read'',
     ''results:read'', ''student_attendance:read'', ''assignments:read'', ''announcements:read'',
     ''fees:view'', ''notifications:view'', ''dashboards:view'']"

definition parent_permissions :: "string list" where
  "parent_permissions =
    [''ai:use'', ''consent:read'', ''consent:respond'', ''hostel:read'', ''push:register'',
     ''timetable:read'', ''lesson_notes:read'', ''cbt:read'', ''transport:read'',
     ''clinic:read'', ''results:read'', ''student_attendance:read'', ''assignments:read'',
     ''announcements:read'', ''fees:view'', ''payments:process'', ''biometric:verify'',
     ''notifications:view'', ''correspondence:manage'', ''dashboards:view'']"

definition driver_permissions :: "string list" where
  "driver_permissions =
    [''transport:read'', ''dashboards:view'', ''notifications:view'', ''students:read'',
     ''announcements:read'']"

definition guard_permissions :: "string list" where
  "guard_permissions =
    [''dashboards:view'', ''notifications:view'', ''biometric:verify'', ''students:read'',
     ''announcements:read'']"

definition nurse_permissions :: "string list" where
  "nurse_permissions =
    [''clinic:read'', ''clinic:manage'', ''dashboards:view'', ''notifications:view'',
     ''students:read'', ''results:read'', ''announcements:read'']"

definition ROLE_PERMISSIONS :: "(string \<times> string list) list" where
  "ROLE_PERMISSIONS =
    [(''director'', director_permissions),
     (''it_admin'', it_admin_permissions),
     (''school_admin'', school_admin_permissions),
     (''administrative_staff'', administrative_staff_permissions),
     (''head_teacher'', head_teacher_permissions),
     (''principal'', principal_permissions),
     (''vice_principal'', vice_principal_permissions),
     (''assistant_head_teacher'', assistant_head_teacher_permissions),
     (''class_teacher'', class_teacher_permissions),
     (''subject_teacher'', subject_teacher_permissions),
     (''bursar'', bursar_permissions),
     (''student'', student_permissions),
     (''parent'', parent_permissions),
     (''driver'', driver_permissions),
     (''guard'', guard_permissions),
     (''nurse'', nurse_permissions)]"

definition ROLE_ONLY_CAPABILITIES :: "string list" where
  "ROLE_ONLY_CAPABILITIES =
    [''payments:process'', ''refunds:process'', ''fees:manage'', ''fee_structures:create'',
     ''fee_structures:update'', ''fee_structures:delete'', ''scholarships:manage'',
     ''invoices:create'', ''results:approve'', ''results:update'', ''results:create'',
     ''users:manage'', ''users:delete'', ''users:create'', ''accounts:create'',
     ''accounts:manage'', ''accounts:reset'', ''roles:assign'', ''roles:manage'',
     ''system_config:manage'', ''audit_logs:view'', ''ai_features:configure'']"

text \<open>\<open>Object.values(ROLE_PERMISSIONS).flat()\<close>\<close>

definition KNOWN_PERMISSIONS :: "string list" where
  "KNOWN_PERMISSIONS = concat (map snd ROLE_PERMISSIONS)"

definition isValidRole :: "string \<Rightarrow> bool" where
  "isValidRole role = List.member ROLE_IDS role"

definition findInvalidRoles :: "string list \<Rightarrow> string list" where
  "findInvalidRoles roles = filter (\<lambda>role. \<not> isValidRole role) roles"

definition role_permissions :: "string \<Rightarrow> string list" where
  "role_permissions role = (case map_of ROLE_PERMISSIONS role of Some ps \<Rightarrow> ps | None \<Rightarrow> [])"

definition derivePermissionsForRoles :: "string list \<Rightarrow> string list" where
  "derivePermissionsForRoles roles =
     js_uniq (concat (map (\<lambda>role. if isValidRole role then role_permissions role else []) roles))"

definition findUnknownCapabilities :: "string list \<Rightarrow> string list" where
  "findUnknownCapabilities capabilities =
     filter (\<lambda>cap. cap = [] \<or> trim cap = [] \<or> trim cap = ''*'' \<or>
                   \<not> List.member KNOWN_PERMISSIONS (trim cap)) capabilities"

definition findRoleOnlyCapabilities :: "string list \<Rightarrow> string list" where
  "findRoleOnlyCapabilities capabilities =
     filter (\<lambda>cap. List.member ROLE_ONLY_CAPABILITIES (trim cap)) capabilities"

definition arraysEqualAsSets :: "string list \<Rightarrow> string list \<Rightarrow> bool" where
  "arraysEqualAsSets a b = (length a = length b \<and> list_all (\<lambda>x. List.member b x) a)"

record actor =
  permissions :: "string list"
  capabilities :: "string list"

definition granted :: "actor \<Rightarrow> string list" where
  "granted a = permissions a @ capabilities a"

definition actorHasWildcard :: "actor \<Rightarrow> bool" where
  "actorHasWildcard a = List.member (granted a) ''*''"

text \<open>\<open>const [resource] = permission.split(':')\<close>\<close>

definition permission_resource :: "string \<Rightarrow> string" where
  "permission_resource p = hd (split_on CHR '':'' p)"

definition actorHasPermission :: "actor \<Rightarrow> string \<Rightarrow> bool" where
  "actorHasPermission a p =
     (if List.member (granted a) ''*'' then True
      else if List.member (granted a) p then True
      else List.member (granted a) (permission_resource p @ '':manage'') \<or>
           List.member (granted a) (permission_resource p @ '':*''))"

subsection \<open>Evaluating the catalogue\<close>

lemmas catalogue_defs =
  ROLE_PERMISSIONS_def SCHOOL_LEADER_PERMISSIONS_def director_permissions_def
  it_admin_permissions_def school_admin_permissions_def administrative_staff_permissions_def
  head_teacher_permissions_def principal_permissions_def vice_principal_permissions_def
  assistant_head_teacher_permissions_def class_teacher_permissions_def
  subject_teacher_permissions_def bursar_permissions_def student_permissions_def
  parent_permissions_def driver_permissions_def guard_permissions_def nurse_permissions_def

lemma dom_ROLE_PERMISSIONS: "set (map fst ROLE_PERMISSIONS) = set ROLE_IDS"
  by (auto simp: ROLE_PERMISSIONS_def ROLE_IDS_def)

lemma isValidRole_iff: "isValidRole r \<longleftrightarrow> r \<in> set ROLE_IDS"
  by (simp add: isValidRole_def)

lemma role_permissions_known: "p \<in> set (role_permissions r) \<Longrightarrow> p \<in> set KNOWN_PERMISSIONS"
proof (cases "map_of ROLE_PERMISSIONS r")
  case (Some ps)
  then have "(r, ps) \<in> set ROLE_PERMISSIONS" by (rule map_of_SomeD)
  then have "set ps \<subseteq> set KNOWN_PERMISSIONS" by (force simp: KNOWN_PERMISSIONS_def)
  moreover assume "p \<in> set (role_permissions r)"
  ultimately show ?thesis using Some by (auto simp: role_permissions_def)
qed (simp add: role_permissions_def)

lemma invalid_role_no_permissions: "\<not> isValidRole r \<Longrightarrow> role_permissions r = []"
proof -
  assume "\<not> isValidRole r"
  then have "r \<notin> set (map fst ROLE_PERMISSIONS)"
    by (simp only: dom_ROLE_PERMISSIONS isValidRole_iff not_False_eq_True)
  then have "map_of ROLE_PERMISSIONS r = None"
    by (simp add: map_of_eq_None_iff)
  then show ?thesis by (simp add: role_permissions_def)
qed

lemma set_derive: "set (derivePermissionsForRoles roles) = (\<Union>r\<in>set roles. set (role_permissions r))"
  using invalid_role_no_permissions
  by (fastforce simp: derivePermissionsForRoles_def split: if_splits)

lemma derive_known: "set (derivePermissionsForRoles roles) \<subseteq> set KNOWN_PERMISSIONS"
  by (auto simp: set_derive dest: role_permissions_known)

text \<open>The resources of the role-only capabilities.\<close>

definition role_only_resources :: "string list" where
  "role_only_resources =
    [''payments'', ''refunds'', ''fees'', ''fee_structures'', ''scholarships'', ''invoices'',
     ''results'', ''users'', ''accounts'', ''roles'', ''system_config'', ''audit_logs'', ''ai_features'']"

text \<open>No permission of the catalogue is the wildcard of one of these resources, and none is the manage
  permission of one of them unless it is role-only itself.\<close>

definition inert_against :: "string list \<Rightarrow> string list \<Rightarrow> bool" where
  "inert_against bad ps = list_all (\<lambda>k. \<not> List.member bad k) ps"

definition conferring_grants :: "string list" where
  "conferring_grants =
     filter (\<lambda>g. \<not> List.member ROLE_ONLY_CAPABILITIES g) (map (\<lambda>r. r @ '':manage'') role_only_resources) @
     map (\<lambda>r. r @ '':*'') role_only_resources"

lemma leader_permissions_inert: "inert_against conferring_grants SCHOOL_LEADER_PERMISSIONS"
  by code_simp

lemma other_permissions_inert:
  "list_all (inert_against conferring_grants)
     [director_permissions, it_admin_permissions, school_admin_permissions, administrative_staff_permissions,
      [''nursery:read'', ''nursery:manage''], assistant_head_teacher_permissions, class_teacher_permissions, subject_teacher_permissions]"
  by code_simp

lemma remaining_permissions_inert:
  "list_all (inert_against conferring_grants)
     [bursar_permissions, student_permissions, parent_permissions, driver_permissions, guard_permissions,
      nurse_permissions]"
  by code_simp

lemma known_override_safe: "k \<in> set KNOWN_PERMISSIONS \<Longrightarrow> k \<notin> set conferring_grants"
  using leader_permissions_inert other_permissions_inert remaining_permissions_inert
  by (auto simp: KNOWN_PERMISSIONS_def ROLE_PERMISSIONS_def inert_against_def list_all_iff
      head_teacher_permissions_def principal_permissions_def vice_principal_permissions_def)

lemma role_only_resource:
  "list_all (\<lambda>p. List.member role_only_resources (permission_resource p)) ROLE_ONLY_CAPABILITIES"
  by code_simp

text \<open>Neither the role-only capabilities nor their resources begin or end with white space.\<close>

definition tight :: "string \<Rightarrow> bool" where
  "tight p = (p \<noteq> [] \<and> \<not> js_space (hd p) \<and> \<not> js_space (last p))"

lemma role_only_tight: "list_all tight (ROLE_ONLY_CAPABILITIES @ role_only_resources)"
  by code_simp

lemma trim_tight: "tight p \<Longrightarrow> trim p = p"
  by (simp add: trim_id tight_def)

lemma actorHasPermission_iff:
  "actorHasPermission a p \<longleftrightarrow>
     (\<exists>g\<in>set (granted a). g = ''*'' \<or> g = p \<or> g = permission_resource p @ '':manage'' \<or>
                         g = permission_resource p @ '':*'')"
  by (auto simp: actorHasPermission_def)

lemma trim_star: "trim ''*'' = ''*''"
  by code_simp

lemma split_on_prefix: "c \<notin> set r \<Longrightarrow> split_on c (r @ c # s) = r # split_on c s"
  by (induction r) auto

lemma endsWith_append [simp]: "endsWith (s @ t) t"
  by (simp add: endsWith_def)

text \<open>No accepted override is one of the four grants that would confer a role-only capability.\<close>

lemma accepted_override_inert:
  assumes unknown: "findUnknownCapabilities caps = []"
    and roleonly: "findRoleOnlyCapabilities caps = []"
    and p: "p \<in> set ROLE_ONLY_CAPABILITIES"
    and cap: "cap \<in> set caps"
  shows "cap \<noteq> ''*'' \<and> cap \<noteq> p \<and> cap \<noteq> permission_resource p @ '':manage'' \<and>
         cap \<noteq> permission_resource p @ '':*''"
proof -
  from unknown cap have known: "trim cap \<in> set KNOWN_PERMISSIONS" and star: "trim cap \<noteq> ''*''"
    by (auto simp: findUnknownCapabilities_def filter_empty_conv)
  from roleonly cap have notonly: "trim cap \<notin> set ROLE_ONLY_CAPABILITIES"
    by (auto simp: findRoleOnlyCapabilities_def filter_empty_conv)
  from p have res: "permission_resource p \<in> set role_only_resources"
    using role_only_resource by (auto simp: list_all_iff)
  then have tight: "tight p" "tight (permission_resource p)"
    using role_only_tight p by (auto simp: list_all_iff)
  have "cap \<noteq> permission_resource p @ '':manage''"
  proof
    assume eq: "cap = permission_resource p @ '':manage''"
    then have "trim cap = cap"
      using tight(2) by (simp add: trim_tight tight_def js_space_def)
    then show False
      using known_override_safe [OF known] res notonly by (auto simp: conferring_grants_def eq)
  qed
  moreover have "cap \<noteq> permission_resource p @ '':*''"
  proof
    assume eq: "cap = permission_resource p @ '':*''"
    then have "trim cap = cap"
      using tight(2) by (simp add: trim_tight tight_def js_space_def)
    then show False
      using known_override_safe [OF known] res by (auto simp: conferring_grants_def eq)
  qed
  moreover have "cap \<noteq> p"
    using notonly p trim_tight [OF tight(1)] by auto
  moreover have "cap \<noteq> ''*''" using star trim_star by auto
  ultimately show ?thesis by simp
qed

subsection \<open>What the catalogue grants\<close>

definition conferring :: "string \<Rightarrow> string list" where
  "conferring p = [''*'', p, permission_resource p @ '':manage'', permission_resource p @ '':*'']"

lemma actorHasPermission_derived:
  "actorHasPermission \<lparr>permissions = derivePermissionsForRoles [r], capabilities = []\<rparr> p \<longleftrightarrow>
     list_ex (List.member (role_permissions r)) (conferring p)"
  by (auto simp: actorHasPermission_iff granted_def set_derive list_ex_iff conferring_def)

definition finance_writes :: "string list" where
  "finance_writes = [''payments:process'', ''fee_structures:create'', ''fee_structures:update'',
     ''fee_structures:delete'', ''refunds:process'', ''fees:manage'', ''invoices:create'', ''scholarships:manage'']"

definition result_writes :: "string list" where
  "result_writes = [''results:approve'', ''results:update'', ''results:create'']"

lemma owners_hold_no_writes:
  "list_all (\<lambda>p. \<not> list_ex (List.member (role_permissions ''director'')) (conferring p) \<and>
                   \<not> list_ex (List.member (role_permissions ''school_admin'')) (conferring p))
     (finance_writes @ result_writes)"
  by code_simp

lemma approving_roles:
  "filter (\<lambda>r. list_ex (List.member (role_permissions r)) (conferring ''results:approve'')) ROLE_IDS
     = [''head_teacher'', ''principal'', ''vice_principal'']"
  by code_simp

lemma approvers_hold_no_finance:
  "list_all (\<lambda>r. list_all (\<lambda>p. \<not> list_ex (List.member (role_permissions r)) (conferring p)) finance_writes)
     [''head_teacher'', ''principal'', ''vice_principal'']"
  by code_simp

text \<open>C2: a list of custom capability overrides that passes validation never confers a role-only
  power: whatever role-only capability the actor holds with the overrides, the actor already holds
  without them.\<close>

theorem overrides_never_confer_role_only:
  assumes "findUnknownCapabilities caps = []" and "findRoleOnlyCapabilities caps = []"
    and "p \<in> set ROLE_ONLY_CAPABILITIES"
    and "actorHasPermission \<lparr>permissions = perms, capabilities = caps\<rparr> p"
  shows "actorHasPermission \<lparr>permissions = perms, capabilities = []\<rparr> p"
  using assms(4) accepted_override_inert [OF assms(1-3)]
  by (auto simp: actorHasPermission_iff granted_def)

theorem overrides_never_confer_role_only_witness:
  "findUnknownCapabilities [''clinic:manage''] = [] \<and> findRoleOnlyCapabilities [''clinic:manage''] = [] \<and>
   actorHasPermission \<lparr>permissions = [''results:approve''], capabilities = []\<rparr> ''results:approve''"
proof -
  have a: "findUnknownCapabilities [''clinic:manage''] = []" by code_simp
  have b: "findRoleOnlyCapabilities [''clinic:manage''] = []" by code_simp
  have c: "''results:approve'' \<in> set ROLE_ONLY_CAPABILITIES" by (simp add: ROLE_ONLY_CAPABILITIES_def)
  have d: "actorHasPermission \<lparr>permissions = [''results:approve''], capabilities = [''clinic:manage'']\<rparr> ''results:approve''"
    by (simp add: actorHasPermission_def granted_def)
  show ?thesis using a b overrides_never_confer_role_only [OF a b c d] by blast
qed

text \<open>separation of duties in the catalogue: director and school_admin may neither process
  payments or edit fee structures nor write or approve results, whatever wildcard rule
  \<open>actorHasPermission\<close> applies; results are approved by exactly head teacher, principal and vice
  principal, and no role that approves results holds a finance write.\<close>

theorem separation_of_duties:
  "list_all (\<lambda>p. \<not> actorHasPermission \<lparr>permissions = derivePermissionsForRoles [''director''], capabilities = []\<rparr> p \<and>
              \<not> actorHasPermission \<lparr>permissions = derivePermissionsForRoles [''school_admin''], capabilities = []\<rparr> p)
     (finance_writes @ result_writes) \<and>
   filter (\<lambda>r. actorHasPermission \<lparr>permissions = derivePermissionsForRoles [r], capabilities = []\<rparr> ''results:approve'') ROLE_IDS
     = [''head_teacher'', ''principal'', ''vice_principal''] \<and>
   list_all (\<lambda>r. list_all (\<lambda>p. \<not> actorHasPermission \<lparr>permissions = derivePermissionsForRoles [r], capabilities = []\<rparr> p) finance_writes)
     [''head_teacher'', ''principal'', ''vice_principal'']"
  unfolding actorHasPermission_derived
  by (intro conjI owners_hold_no_writes approving_roles approvers_hold_no_finance)

text \<open>the effective permissions of a user are exactly the union of what the valid roles list,
  without repetition: an unrecognised role grants nothing, and adding roles only adds grants.\<close>

theorem derive_union:
  "distinct (derivePermissionsForRoles roles) \<and>
   (p \<in> set (derivePermissionsForRoles roles) \<longleftrightarrow>
      (\<exists>r. r \<in> set roles \<and> r \<notin> set (findInvalidRoles roles) \<and> p \<in> set (role_permissions r))) \<and>
   set (derivePermissionsForRoles roles) \<union> set (derivePermissionsForRoles extra)
     = set (derivePermissionsForRoles (roles @ extra))"
proof (intro conjI)
  show "distinct (derivePermissionsForRoles roles)" by (simp add: derivePermissionsForRoles_def)
  show "p \<in> set (derivePermissionsForRoles roles) \<longleftrightarrow>
      (\<exists>r. r \<in> set roles \<and> r \<notin> set (findInvalidRoles roles) \<and> p \<in> set (role_permissions r))"
    using invalid_role_no_permissions by (fastforce simp: set_derive findInvalidRoles_def)
qed (simp add: set_derive)

end
