(* ===== verification/PermissionsGuard.thy ===== *)
theory PermissionsGuard
  imports RolePermissions
begin

section \<open>Live authority and the permissions guard\<close>

text \<open>
  \<open>control-plane/user-authority.service.ts\<close> (roles and permissions read from the tenant database
  behind a 30 second cache) and \<open>common/auth/permissions.guard.ts\<close> (the guard every protected
  route passes).  The database read \<open>controlPlane.getUserById\<close> is an argument of the model.
\<close>

subsection \<open>User authority\<close>

text \<open>A role as stored: a string, or an object with one of the fields \<open>id\<close>, \<open>role\<close>, \<open>name\<close>.\<close>

datatype raw_role = RNull | RText string | RObject raw_role raw_role raw_role

fun normalizeRoleId :: "raw_role \<Rightarrow> string" where
  "normalizeRoleId RNull = []"
| "normalizeRoleId (RText s) = role_slug s"
| "normalizeRoleId (RObject i role name) =
     (if i \<noteq> RNull then normalizeRoleId i
      else if role \<noteq> RNull then normalizeRoleId role
      else normalizeRoleId name)"

text \<open>\<open>None\<close> stands for a value that is not an array.\<close>

definition normalizeRoles :: "raw_role list option \<Rightarrow> string list" where
  "normalizeRoles raw = (case raw of None \<Rightarrow> []
     | Some rs \<Rightarrow> js_uniq (filter (\<lambda>r. r \<noteq> []) (map normalizeRoleId rs)))"

record user_row =
  u_roles :: "raw_role list option"
  u_permissions :: "string list"
  u_capabilities :: "string list"
  u_isActive :: bool

record user_authority =
  a_roles :: "string list"
  a_permissions :: "string list"
  a_capabilities :: "string list"
  a_isActive :: bool

record authority_entry =
  ae_value :: user_authority
  ae_expiresAt :: int

type_synonym authority_cache = "string \<rightharpoonup> authority_entry"

definition authority_ttlMs :: int where
  "authority_ttlMs = 30 * 1000"

definition authority_of :: "user_row \<Rightarrow> user_authority" where
  "authority_of u = (let roles = normalizeRoles (u_roles u) in
     \<lparr>a_roles = roles,
      a_permissions = (if List.member (u_permissions u) ''*'' then [''*''] else derivePermissionsForRoles roles),
      a_capabilities = u_capabilities u,
      a_isActive = u_isActive u\<rparr>)"

definition authority_key :: "string \<Rightarrow> string \<Rightarrow> string" where
  "authority_key tenantId userId = tenantId @ CHR '':'' # userId"

text \<open>\<open>now\<close> is \<open>Date.now()\<close> and \<open>db\<close> what \<open>getUserById\<close> answers at that moment.\<close>

definition getAuthority ::
  "(string \<Rightarrow> string \<Rightarrow> user_row option) \<Rightarrow> int \<Rightarrow> string \<Rightarrow> string \<Rightarrow> authority_cache \<Rightarrow>
   user_authority option \<times> authority_cache" where
  "getAuthority db now tenantId userId cache =
     (let key = authority_key tenantId userId; miss =
        (case db tenantId userId of
           None \<Rightarrow> (None, cache(key := None))
         | Some u \<Rightarrow> (Some (authority_of u),
             cache(key \<mapsto> \<lparr>ae_value = authority_of u, ae_expiresAt = now + authority_ttlMs\<rparr>)))
      in case cache key of
           Some e \<Rightarrow> if ae_expiresAt e > now then (Some (ae_value e), cache) else miss
         | None \<Rightarrow> miss)"

definition invalidate_authority :: "string \<Rightarrow> string \<Rightarrow> authority_cache \<Rightarrow> authority_cache" where
  "invalidate_authority tenantId userId cache = cache(authority_key tenantId userId := None)"

subsection \<open>The guard\<close>

record jwt_claims =
  tenant_id :: string
  sub :: string

record route =
  is_public :: bool
  required_permissions :: "string list"
  required_roles :: "string list"

definition hasAnyPermission :: "string list \<Rightarrow> string list \<Rightarrow> bool" where
  "hasAnyPermission grants required =
     list_ex (\<lambda>p. List.member grants p \<or>
        List.member grants (permission_resource p @ '':manage'') \<or>
        List.member grants (permission_resource p @ '':*'')) required"

text \<open>The checks after the authority was loaded; the result is the authority put on the request.\<close>

definition check_authority :: "route \<Rightarrow> user_authority \<Rightarrow> user_authority option result" where
  "check_authority r a =
     (if required_roles r \<noteq> [] \<and> \<not> list_ex (List.member (a_roles a)) (required_roles r)
        then Inl (Forbidden ''Insufficient role privileges'')
      else if required_permissions r \<noteq> []
        then (let grants = a_permissions a @ a_capabilities a in
              if List.member grants ''*'' \<or> hasAnyPermission grants (required_permissions r)
              then Inr (Some a)
              else Inl (Forbidden ''Insufficient permissions''))
      else Inr (Some a))"

definition canActivate ::
  "(string \<Rightarrow> string \<Rightarrow> user_row option) \<Rightarrow> int \<Rightarrow> route \<Rightarrow> jwt_claims option \<Rightarrow> authority_cache \<Rightarrow>
   user_authority option result \<times> authority_cache" where
  "canActivate db now r user cache =
     (if is_public r then (Inr None, cache)
      else case user of
        None \<Rightarrow> (Inl (Forbidden ''Authentication required''), cache)
      | Some u \<Rightarrow>
          if required_permissions r = [] \<and> required_roles r = [] then (Inr None, cache)
          else (case getAuthority db now (tenant_id u) (sub u) cache of
              (None, cache') \<Rightarrow> (Inl (Forbidden ''Account is inactive or no longer exists''), cache')
            | (Some a, cache') \<Rightarrow>
                if \<not> a_isActive a
                then (Inl (Forbidden ''Account is inactive or no longer exists''), cache')
                else (check_authority r a, cache')))"

subsection \<open>Facts\<close>

text \<open>The guard's test is the catalogue's \<open>actorHasPermission\<close>, for some required permission.\<close>

lemma guard_grant_iff:
  "(List.member grants ''*'' \<or> hasAnyPermission grants required) \<longleftrightarrow>
   List.member grants ''*'' \<or> (\<exists>p\<in>set required. actorHasPermission \<lparr>permissions = grants, capabilities = []\<rparr> p)"
  by (auto simp: hasAnyPermission_def actorHasPermission_def granted_def list_ex_iff)

lemma check_authority_ok_iff:
  "is_ok (check_authority r a) \<longleftrightarrow>
     (required_roles r = [] \<or> (\<exists>x\<in>set (required_roles r). x \<in> set (a_roles a))) \<and>
     (required_permissions r = [] \<or>
      (let g = \<lparr>permissions = a_permissions a, capabilities = a_capabilities a\<rparr> in
       actorHasWildcard g \<or> (\<exists>p\<in>set (required_permissions r). actorHasPermission g p)))"
proof -
  let ?g = "\<lparr>permissions = a_permissions a, capabilities = a_capabilities a\<rparr>"
  have "(List.member (a_permissions a @ a_capabilities a) ''*'' \<or>
         hasAnyPermission (a_permissions a @ a_capabilities a) (required_permissions r)) \<longleftrightarrow>
        actorHasWildcard ?g \<or> (\<exists>p\<in>set (required_permissions r). actorHasPermission ?g p)"
    unfolding guard_grant_iff by (auto simp: actorHasWildcard_def actorHasPermission_def granted_def)
  then show ?thesis
    by (simp add: check_authority_def Let_def list_ex_iff)
qed

lemma authority_key_inj:
  assumes "CHR '':'' \<notin> set t" and "CHR '':'' \<notin> set t'"
    and "authority_key t u = authority_key t' u'"
  shows "t = t' \<and> u = u'"
proof -
  have "split_on CHR '':'' (t @ CHR '':'' # u) = split_on CHR '':'' (t' @ CHR '':'' # u')"
    using assms(3) by (simp add: authority_key_def)
  then have "t = t'" by (simp add: split_on_prefix assms(1,2))
  with assms(3) show ?thesis by (simp add: authority_key_def)
qed

text \<open>What a cache may hold once the database answers \<open>db\<close> since \<open>t0\<close>: entries computed from
  \<open>db\<close>, or entries that expire by \<open>t0 + 30 s\<close>.\<close>

definition fresh_since :: "int \<Rightarrow> (string \<Rightarrow> string \<Rightarrow> user_row option) \<Rightarrow> authority_cache \<Rightarrow> bool" where
  "fresh_since t0 db cache \<longleftrightarrow>
     (\<forall>t u e. cache (authority_key t u) = Some e \<longrightarrow> CHR '':'' \<notin> set t \<longrightarrow>
        ae_expiresAt e \<le> t0 + authority_ttlMs \<or> Some (ae_value e) = map_option authority_of (db t u))"

lemma getAuthority_fresh:
  assumes "fresh_since t0 db cache" and "CHR '':'' \<notin> set t"
  shows "fresh_since t0 db (snd (getAuthority db now t u cache))"
  using assms
  by (auto simp: fresh_since_def getAuthority_def Let_def split: option.splits if_splits
      dest: authority_key_inj)

lemma getAuthority_after_ttl:
  assumes "fresh_since t0 db cache" and "CHR '':'' \<notin> set t" and "t0 + authority_ttlMs \<le> now"
  shows "fst (getAuthority db now t u cache) = map_option authority_of (db t u)"
  using assms
  by (fastforce simp: fresh_since_def getAuthority_def Let_def split: option.splits)

text \<open>A sequence of protected calls, each at its own time.\<close>

primrec guard_run ::
  "(string \<Rightarrow> string \<Rightarrow> user_row option) \<Rightarrow> (int \<times> route \<times> jwt_claims) list \<Rightarrow> authority_cache \<Rightarrow> authority_cache" where
  "guard_run db [] cache = cache"
| "guard_run db (c # cs) cache =
     guard_run db cs (snd (canActivate db (fst c) (fst (snd c)) (Some (snd (snd c))) cache))"

lemma canActivate_fresh:
  assumes "fresh_since t0 db cache" and "CHR '':'' \<notin> set (tenant_id u)"
  shows "fresh_since t0 db (snd (canActivate db now r (Some u) cache))"
proof -
  obtain oa cache' where ga: "getAuthority db now (tenant_id u) (sub u) cache = (oa, cache')"
    by (cases "getAuthority db now (tenant_id u) (sub u) cache") auto
  with getAuthority_fresh [OF assms, of now "sub u"] have "fresh_since t0 db cache'" by simp
  with ga assms(1) show ?thesis by (auto simp: canActivate_def split: option.splits)
qed

lemma guard_run_fresh:
  "fresh_since t0 db cache \<Longrightarrow> (\<forall>c\<in>set cs. CHR '':'' \<notin> set (tenant_id (snd (snd c)))) \<Longrightarrow>
   fresh_since t0 db (guard_run db cs cache)"
  by (induction cs arbitrary: cache) (auto simp: canActivate_fresh)

subsection \<open>Properties\<close>



text \<open>a revoked role, a changed permission or a deactivated account takes effect within 30
  seconds: if the tenant database answers \<open>db\<close> from time \<open>t0\<close> on, then whatever calls were served in
  between, from \<open>t0 + 30 s\<close> on every authority handed to the guard is the one computed from \<open>db\<close>.
  Tenant ids contain no colon (they are generated as \<open>tnt_...\<close>), so cache keys do not collide.\<close>

theorem authority_staleness_bound:
  assumes "\<forall>k e. cache k = Some e \<longrightarrow> ae_expiresAt e \<le> t0 + authority_ttlMs"
    and "\<forall>c\<in>set cs. CHR '':'' \<notin> set (tenant_id (snd (snd c)))"
    and "CHR '':'' \<notin> set t" and "t0 + authority_ttlMs \<le> now"
  shows "fst (getAuthority db now t u (guard_run db cs cache)) = map_option authority_of (db t u)"
proof -
  from assms(1) have "fresh_since t0 db cache" by (auto simp: fresh_since_def)
  with assms(2) have "fresh_since t0 db (guard_run db cs cache)" by (simp add: guard_run_fresh)
  then show ?thesis using assms(3,4) by (rule getAuthority_after_ttl)
qed

theorem authority_staleness_bound_witness:
  "fst (getAuthority (\<lambda>t u. None) 30000 ''t1'' ''u1''
      (guard_run (\<lambda>t u. None)
        [(5, \<lparr>is_public = False, required_permissions = [''x''], required_roles = []\<rparr>, \<lparr>tenant_id = ''t1'', sub = ''u1''\<rparr>)]
        (Map.empty(''t1:u1'' \<mapsto> \<lparr>ae_value = \<lparr>a_roles = [], a_permissions = [''x''], a_capabilities = [], a_isActive = True\<rparr>,
                                ae_expiresAt = 20000\<rparr>)))) = None"
  by (subst authority_staleness_bound [where ?t0.0 = 0]) (auto simp: authority_ttlMs_def)

end
