(* ===== verification/Tables.thy ===== *)
theory Tables
  imports Prelude
begin

section \<open>Tenant tables\<close>

text \<open>
  A tenant table is the list of its rows in insertion order; \<open>key\<close> is its primary-key column.
  The four operations are the SQL statements the services issue through \<open>runDbQuery\<close>:
  \<open>SELECT ... WHERE id = ? LIMIT 1\<close>, \<open>INSERT\<close> (a duplicate primary key is an SQL error, here
  \<open>None\<close>), \<open>UPDATE ... WHERE\<close> and \<open>DELETE ... WHERE\<close>.
  The locale \<open>keyed_store\<close> is what the services rely on; it is interpreted on the lists.
\<close>

definition tfind :: "('r \<Rightarrow> 'k) \<Rightarrow> 'k \<Rightarrow> 'r list \<Rightarrow> 'r option" where
  "tfind key k t = find (\<lambda>r. key r = k) t"

definition tinsert :: "('r \<Rightarrow> 'k) \<Rightarrow> 'r \<Rightarrow> 'r list \<Rightarrow> 'r list option" where
  "tinsert key r t = (if key r \<in> set (map key t) then None else Some (t @ [r]))"

definition tupdate :: "('r \<Rightarrow> bool) \<Rightarrow> ('r \<Rightarrow> 'r) \<Rightarrow> 'r list \<Rightarrow> 'r list" where
  "tupdate P f t = map (\<lambda>r. if P r then f r else r) t"

definition tdelete :: "('r \<Rightarrow> bool) \<Rightarrow> 'r list \<Rightarrow> 'r list" where
  "tdelete P t = filter (\<lambda>r. \<not> P r) t"

text \<open>\<open>UPDATE ... WHERE id = k\<close>.\<close>

definition tmodify :: "('r \<Rightarrow> 'k) \<Rightarrow> 'k \<Rightarrow> ('r \<Rightarrow> 'r) \<Rightarrow> 'r list \<Rightarrow> 'r list" where
  "tmodify key k f t = tupdate (\<lambda>r. key r = k) f t"

definition pk :: "('r \<Rightarrow> 'k) \<Rightarrow> 'r list \<Rightarrow> bool" where
  "pk key t = distinct (map key t)"

named_theorems table_simps

lemma tfind_Nil [simp]: "tfind key k [] = None"
  by (simp add: tfind_def)

lemma tfind_Cons [simp]: "tfind key k (r # t) = (if key r = k then Some r else tfind key k t)"
  by (simp add: tfind_def)

lemma tupdate_Nil [simp]: "tupdate P f [] = []"
  by (simp add: tupdate_def)

lemma tupdate_Cons [simp]: "tupdate P f (r # t) = (if P r then f r else r) # tupdate P f t"
  by (simp add: tupdate_def)

lemma tmodify_Nil [simp]: "tmodify key k f [] = []"
  by (simp add: tmodify_def)

lemma tmodify_Cons [simp]:
  "tmodify key k f (r # t) = (if key r = k then f r else r) # tmodify key k f t"
  by (simp add: tmodify_def)

lemma tfind_SomeD: "tfind key k t = Some r \<Longrightarrow> r \<in> set t \<and> key r = k"
  by (induction t) (auto split: if_splits)

lemma tfind_None_iff: "tfind key k t = None \<longleftrightarrow> k \<notin> key ` set t"
  by (induction t) auto

lemma tfind_append: "tfind key k (t @ u) =
    (case tfind key k t of Some r \<Rightarrow> Some r | None \<Rightarrow> tfind key k u)"
  by (induction t) auto

lemma tfind_eqI: "pk key t \<Longrightarrow> r \<in> set t \<Longrightarrow> tfind key (key r) t = Some r"
  by (induction t) (auto simp: pk_def)

lemma tinsert_SomeD: "tinsert key r t = Some t' \<Longrightarrow> t' = t @ [r] \<and> key r \<notin> key ` set t"
  by (auto simp: tinsert_def split: if_splits)

lemma pk_Nil [simp]: "pk key []"
  by (simp add: pk_def)

lemma pk_tinsert: "pk key t \<Longrightarrow> tinsert key r t = Some t' \<Longrightarrow> pk key t'"
  by (auto simp: pk_def tinsert_def split: if_splits)

lemma map_key_tupdate: "(\<And>r. key (f r) = key r) \<Longrightarrow> map key (tupdate P f t) = map key t"
  by (induction t) auto

lemma pk_tupdate: "(\<And>r. key (f r) = key r) \<Longrightarrow> pk key (tupdate P f t) = pk key t"
  by (simp add: pk_def map_key_tupdate)

lemma pk_tmodify: "(\<And>r. key (f r) = key r) \<Longrightarrow> pk key (tmodify key k f t) = pk key t"
  by (simp add: tmodify_def pk_tupdate)

lemma pk_tdelete: "pk key t \<Longrightarrow> pk key (tdelete P t)"
  by (simp add: pk_def tdelete_def distinct_map_filter)

lemma set_tdelete: "set (tdelete P t) = {r \<in> set t. \<not> P r}"
  by (auto simp: tdelete_def)

lemma set_tupdate: "set (tupdate P f t) = (\<lambda>r. if P r then f r else r) ` set t"
  by (simp add: tupdate_def)

lemma tfind_tupdate: "(\<And>r. key (f r) = key r) \<Longrightarrow>
    tfind key k (tupdate P f t) = map_option (\<lambda>r. if P r then f r else r) (tfind key k t)"
  by (induction t) auto

lemma tfind_tmodify: "(\<And>r. key (f r) = key r) \<Longrightarrow>
    tfind key k' (tmodify key k f t) = (if k' = k then map_option f (tfind key k' t) else tfind key k' t)"
  by (induction t) auto

lemma key_set_tmodify: "(\<And>r. key (f r) = key r) \<Longrightarrow> key ` set (tmodify key k f t) = key ` set t"
  unfolding set_map [symmetric] tmodify_def by (simp add: map_key_tupdate)

lemma pk_append: "pk key (t @ [r]) \<longleftrightarrow> pk key t \<and> key r \<notin> key ` set t"
  by (auto simp: pk_def)

lemma set_tmodifyE:
  assumes "r \<in> set (tmodify key k f t)"
  obtains x where "x \<in> set t" and "r = (if key x = k then f x else x)"
  using assms by (auto simp: tmodify_def set_tupdate)

lemma set_tupdateE:
  assumes "r \<in> set (tupdate P f t)"
  obtains x where "x \<in> set t" and "r = (if P x then f x else x)"
  using assms by (auto simp: set_tupdate)

lemma tmodify_id: "k \<notin> key ` set t \<Longrightarrow> tmodify key k f t = t"
  by (induction t) auto

text \<open>
  How a column total moves when one row is updated: the totals of a table (stock on hand, open
  loans, amounts paid) are sums of a function of the row.
\<close>

lemma sum_tmodify:
  fixes g :: "'r \<Rightarrow> 'a::ab_group_add"
  assumes "pk key t" and "tfind key k t = Some r"
  shows "sum_list (map g (tmodify key k f t)) = sum_list (map g t) - g r + g (f r)"
  using assms
proof (induction t)
  case (Cons x t)
  show ?case
  proof (cases "key x = k")
    case True
    with Cons.prems have "k \<notin> key ` set t" by (auto simp: pk_def)
    with True Cons.prems show ?thesis by (simp add: tmodify_id)
  next
    case False
    with Cons show ?thesis by (simp add: pk_def algebra_simps)
  qed
qed simp

definition tcount :: "('r \<Rightarrow> bool) \<Rightarrow> 'r list \<Rightarrow> int" where
  "tcount P t = sum_list (map (\<lambda>r. if P r then 1 else 0) t)"

lemma tcount_Nil [simp]: "tcount P [] = 0"
  by (simp add: tcount_def)

lemma tcount_Cons [simp]: "tcount P (r # t) = (if P r then 1 else 0) + tcount P t"
  by (simp add: tcount_def)

lemma tcount_append [simp]: "tcount P (t @ u) = tcount P t + tcount P u"
  by (simp add: tcount_def)

lemma tcount_length: "tcount P t = int (length (filter P t))"
  by (induction t) auto

lemma tcount_nonneg [simp]: "0 \<le> tcount P t"
  by (simp add: tcount_length)

lemma tcount_pos: "r \<in> set t \<Longrightarrow> P r \<Longrightarrow> 0 < tcount P t"
  by (induction t) (auto simp: add_pos_nonneg)

lemma tcount_zero_iff: "tcount P t = 0 \<longleftrightarrow> (\<forall>r\<in>set t. \<not> P r)"
  by (auto simp: tcount_length filter_empty_conv)

lemma tcount_tmodify:
  assumes "pk key t" and "tfind key k t = Some r"
  shows "tcount P (tmodify key k f t) =
    tcount P t - (if P r then 1 else 0) + (if P (f r) then 1 else 0)"
  using sum_tmodify [OF assms, of "\<lambda>r. if P r then 1 else 0" f]
  by (simp only: tcount_def)

lemma tcount_cong_modify: "(\<And>r. P (f r) = P r) \<Longrightarrow> tcount P (tupdate Q f t) = tcount P t"
  by (induction t) auto

subsection \<open>The store interface\<close>

text \<open>
  What a service relies on: a row that was inserted is found, other keys are untouched by an
  insert or an update, and both keep the primary key.
\<close>

locale keyed_store =
  fixes key :: "'r \<Rightarrow> 'k"
    and look :: "'k \<Rightarrow> 't \<Rightarrow> 'r option"
    and ins :: "'r \<Rightarrow> 't \<Rightarrow> 't option"
    and modi :: "'k \<Rightarrow> ('r \<Rightarrow> 'r) \<Rightarrow> 't \<Rightarrow> 't"
    and wf :: "'t \<Rightarrow> bool"
  assumes look_key: "look k t = Some r \<Longrightarrow> key r = k"
    and ins_look: "ins r t = Some t' \<Longrightarrow> look k t' = (if k = key r then Some r else look k t)"
    and ins_fresh: "look (key r) t = None \<longleftrightarrow> ins r t \<noteq> None"
    and ins_wf: "wf t \<Longrightarrow> ins r t = Some t' \<Longrightarrow> wf t'"
    and modi_look: "(\<And>r. key (f r) = key r) \<Longrightarrow>
      look k' (modi k f t) = (if k' = k then map_option f (look k' t) else look k' t)"
    and modi_wf: "wf t \<Longrightarrow> (\<And>r. key (f r) = key r) \<Longrightarrow> wf (modi k f t)"
begin

lemma ins_keeps: "ins r t = Some t' \<Longrightarrow> look k t = Some x \<Longrightarrow> look k t' = Some x"
  by (metis ins_fresh ins_look option.distinct(1))

lemma ins_twice: "ins r t = Some t' \<Longrightarrow> key r' = key r \<Longrightarrow> ins r' t' = None"
  by (metis ins_fresh ins_look option.distinct(1))

lemma modi_other: "(\<And>r. key (f r) = key r) \<Longrightarrow> k' \<noteq> k \<Longrightarrow> look k' (modi k f t) = look k' t"
  by (simp add: modi_look)

end

lemma tfind_tinsert:
  assumes "tinsert key r t = Some t'"
  shows "tfind key k t' = (if k = key r then Some r else tfind key k t)"
proof -
  from assms have t': "t' = t @ [r]" and fresh: "key r \<notin> key ` set t"
    by (auto dest: tinsert_SomeD)
  from fresh have "tfind key (key r) t = None" by (simp add: tfind_None_iff)
  then show ?thesis by (auto simp: t' tfind_append split: option.splits)
qed

interpretation tbl: keyed_store key "tfind key" "tinsert key" "tmodify key" "pk key" for key
proof
  show "(tfind key (key r) t = None) = (tinsert key r t \<noteq> None)" for r t
    by (auto simp: tinsert_def tfind_None_iff)
qed (auto simp: tfind_tinsert tfind_tmodify pk_tmodify dest: tfind_SomeD intro: pk_tinsert)

lemmas table_ops = tbl.ins_keeps tbl.modi_other pk_tinsert pk_tmodify

end
