(* ===== verification/TeacherScope.thy ===== *)
theory TeacherScope
  imports Tables
begin

section \<open>Teacher, parent and student scope\<close>

text \<open>
  \<open>common/auth/teacher-scope.util.ts\<close>: which classes, subjects and students an actor may see.
  The tables it reads are the fields of \<open>scope_db\<close>.  A JSON column is given by how
  \<open>JSON.parse\<close> classifies its value: an array, another JSON value, or text that is no JSON.
\<close>

datatype json_column =
    JArray "string list"
  | JOther
  | JText string

record scope_db =
  user_roles :: "string \<rightharpoonup> json_column"
  parent_links :: "(string \<times> string) list"        \<comment> \<open>parent_student_links: parent, student\<close>
  enrollments :: "(string \<times> string) list"          \<comment> \<open>student_class_enrollments: student, class\<close>
  class_teacher_links :: "(string \<times> string) list"  \<comment> \<open>academic_class_teacher_links: teacher, class\<close>
  class_rows :: "(string \<times> string option) list"    \<comment> \<open>academic_classes: id, class_teacher_id\<close>
  subject_links :: "(string \<times> string) list"        \<comment> \<open>academic_subject_teacher_links: teacher, subject\<close>
  subject_rows :: "(string \<times> json_column) list"    \<comment> \<open>academic_subjects: id, class_ids\<close>

record teacher_scope =
  isTeacher :: bool
  classIds :: "string list"
  subjectIds :: "string list"
  subjectClassIds :: "string list"

definition ACADEMIC_MANAGEMENT_ROLES :: "string list" where
  "ACADEMIC_MANAGEMENT_ROLES = [''director'', ''school_admin'', ''head_teacher'', ''principal'',
     ''vice_principal'', ''assistant_head_teacher'']"

definition hasAcademicManagementRole :: "string list \<Rightarrow> bool" where
  "hasAcademicManagementRole roles = list_ex (List.member ACADEMIC_MANAGEMENT_ROLES) roles"

definition hasTenantWideRole :: "string list \<Rightarrow> bool" where
  "hasTenantWideRole roles = list_ex (List.member [''director'', ''school_admin'', ''it_admin'']) roles"

definition comma_values :: "string \<Rightarrow> string list" where
  "comma_values s = filter (\<lambda>v. v \<noteq> []) (map trim (split_on CHR '','' s))"

fun parseRoleList :: "json_column \<Rightarrow> string list" where
  "parseRoleList (JArray rs) = map toLowerCase rs"
| "parseRoleList JOther = []"
| "parseRoleList (JText s) = map toLowerCase (comma_values s)"

text \<open>\<open>loadUserRoles\<close>; a user without a row has no roles.\<close>

definition loadUserRoles :: "scope_db \<Rightarrow> string \<Rightarrow> string list" where
  "loadUserRoles db userId = (case user_roles db userId of None \<Rightarrow> [] | Some c \<Rightarrow> parseRoleList c)"

fun parse_class_ids :: "json_column \<Rightarrow> string list" where
  "parse_class_ids (JArray xs) = xs"
| "parse_class_ids JOther = []"
| "parse_class_ids (JText s) = comma_values s"

definition is_teacher_role :: "string list \<Rightarrow> bool" where
  "is_teacher_role roles = (List.member roles ''teacher'' \<or> List.member roles ''class_teacher'' \<or>
     List.member roles ''subject_teacher'')"

definition owned_classes :: "scope_db \<Rightarrow> string \<Rightarrow> string list" where
  "owned_classes db userId = map fst (filter (\<lambda>c. snd c = Some userId) (class_rows db))"

text \<open>The \<open>JOIN\<close> of subject links with subjects: subject id and class list, per link of the teacher.\<close>

definition taught_subjects :: "scope_db \<Rightarrow> string \<Rightarrow> (string \<times> json_column) list" where
  "taught_subjects db userId =
     concat (map (\<lambda>l. filter (\<lambda>s. fst s = snd l) (subject_rows db))
                 (filter (\<lambda>l. fst l = userId) (subject_links db)))"

definition getTeacherScope :: "scope_db \<Rightarrow> string \<Rightarrow> teacher_scope" where
  "getTeacherScope db userId =
     (let roles = loadUserRoles db userId in
      if \<not> is_teacher_role roles
      then \<lparr>isTeacher = False, classIds = [], subjectIds = [], subjectClassIds = []\<rparr>
      else
        let linked = map snd (filter (\<lambda>l. fst l = userId) (class_teacher_links db));
            owned = owned_classes db userId;
            classes = js_uniq (linked @ owned);
            subjects = taught_subjects db userId;
            subjectClasses = concat (map (parse_class_ids \<circ> snd) subjects)
        in \<lparr>isTeacher = True,
            classIds = filter (\<lambda>c. List.member owned c \<or> \<not> List.member subjectClasses c) classes,
            subjectIds = map fst subjects,
            subjectClassIds = subjectClasses\<rparr>)"

text \<open>\<open>getVisibleStudentIds\<close>: \<open>None\<close> is the source's \<open>null\<close>, every student of the tenant.\<close>

definition getVisibleStudentIds :: "scope_db \<Rightarrow> string \<Rightarrow> string list option" where
  "getVisibleStudentIds db userId =
     (let roles = loadUserRoles db userId in
      if hasTenantWideRole roles \<or> hasAcademicManagementRole roles then None
      else if List.member roles ''student'' then Some [userId]
      else if List.member roles ''parent''
        then Some (map snd (filter (\<lambda>l. fst l = userId) (parent_links db)))
      else if is_teacher_role roles then
        (let scope = getTeacherScope db userId in
         if classIds scope = [] \<and> subjectClassIds scope = [] then Some []
         else let cs = js_uniq (classIds scope @ subjectClassIds scope) in
           Some (js_uniq (map fst (filter (\<lambda>e. List.member cs (snd e)) (enrollments db)))))
      else Some [])"

definition assertTeacherMayAccess ::
  "scope_db \<Rightarrow> string \<Rightarrow> string option \<Rightarrow> string option \<Rightarrow> unit result" where
  "assertTeacherMayAccess db userId classId subjectId =
     (if hasTenantWideRole (loadUserRoles db userId) then Inr ()
      else let scope = getTeacherScope db userId in
        if \<not> isTeacher scope then Inr ()
        else
          let classAllowed = (truthy classId \<and> List.member (classIds scope) (the classId));
              subjectAllowed = (truthy subjectId \<and> List.member (subjectIds scope) (the subjectId));
              subjectClassAllowed = (subjectAllowed \<and>
                (\<not> truthy classId \<or> subjectClassIds scope = [] \<or>
                 List.member (subjectClassIds scope) (the classId)))
          in if \<not> classAllowed \<and> \<not> subjectClassAllowed
             then Inl (Forbidden ''Teacher is not assigned to this class or subject'')
             else Inr ())"

definition assertTeacherMayMarkClass :: "scope_db \<Rightarrow> string \<Rightarrow> string option \<Rightarrow> unit result" where
  "assertTeacherMayMarkClass db userId classId =
     (if hasTenantWideRole (loadUserRoles db userId) then Inr ()
      else let scope = getTeacherScope db userId in
        if \<not> isTeacher scope then Inr ()
        else if \<not> truthy classId then Inl (BadRequest ''Class is required for teacher attendance'')
        else if List.member (classIds scope) (the classId) \<or>
                List.member (subjectClassIds scope) (the classId) then Inr ()
        else Inl (Forbidden ''Teacher is not assigned to this class''))"

definition assertClassTeacherMayAccess :: "scope_db \<Rightarrow> string \<Rightarrow> string option \<Rightarrow> unit result" where
  "assertClassTeacherMayAccess db userId classId =
     (let roles = loadUserRoles db userId in
      if hasTenantWideRole roles then Inr ()
      else if \<not> List.member roles ''class_teacher'' then Inr ()
      else if \<not> truthy classId then Inl (BadRequest ''Class is required for class teacher attendance'')
      else if \<not> List.member (classIds (getTeacherScope db userId)) (the classId)
        then Inl (Forbidden ''Class teacher is not assigned to this class'')
      else Inr ())"

subsection \<open>Facts\<close>

lemma isTeacher_scope: "isTeacher (getTeacherScope db u) = is_teacher_role (loadUserRoles db u)"
  by (simp add: getTeacherScope_def Let_def)

text \<open>A class is taught through a subject when a subject linked to the teacher lists it.\<close>

definition teaches_in :: "scope_db \<Rightarrow> string \<Rightarrow> string \<Rightarrow> bool" where
  "teaches_in db u c = (\<exists>s col. (u, s) \<in> set (subject_links db) \<and> (s, col) \<in> set (subject_rows db) \<and>
      c \<in> set (parse_class_ids col))"

definition homeroom :: "scope_db \<Rightarrow> string \<Rightarrow> string \<Rightarrow> bool" where
  "homeroom db u c = ((c, Some u) \<in> set (class_rows db) \<or>
      (u, c) \<in> set (class_teacher_links db) \<and> \<not> teaches_in db u c)"

lemma set_taught_subjects:
  "set (taught_subjects db u) = {(s, col). (u, s) \<in> set (subject_links db) \<and> (s, col) \<in> set (subject_rows db)}"
  by (force simp: taught_subjects_def)

lemma subjectClassIds_iff:
  "is_teacher_role (loadUserRoles db u) \<Longrightarrow>
   c \<in> set (subjectClassIds (getTeacherScope db u)) \<longleftrightarrow> teaches_in db u c"
  by (force simp: getTeacherScope_def Let_def set_taught_subjects teaches_in_def)

lemma classIds_iff:
  assumes "is_teacher_role (loadUserRoles db u)"
  shows "c \<in> set (classIds (getTeacherScope db u)) \<longleftrightarrow> homeroom db u c"
proof -
  have "c \<in> set (concat (map (parse_class_ids \<circ> snd) (taught_subjects db u))) \<longleftrightarrow> teaches_in db u c"
    by (force simp: set_taught_subjects teaches_in_def)
  moreover have "c \<in> set (owned_classes db u) \<longleftrightarrow> (c, Some u) \<in> set (class_rows db)"
    by (force simp: owned_classes_def)
  ultimately show ?thesis
    using assms by (force simp: getTeacherScope_def Let_def homeroom_def)
qed

lemma subjectIds_iff:
  "is_teacher_role (loadUserRoles db u) \<Longrightarrow>
   s \<in> set (subjectIds (getTeacherScope db u)) \<longleftrightarrow>
     (u, s) \<in> set (subject_links db) \<and> s \<in> fst ` set (subject_rows db)"
  by (force simp: getTeacherScope_def Let_def set_taught_subjects)

lemmas scope_iffs = isTeacher_scope subjectClassIds_iff classIds_iff subjectIds_iff

subsection \<open>Properties\<close>

definition sample_scope_db :: scope_db where
  "sample_scope_db = \<lparr>
     user_roles = [''t1'' \<mapsto> JArray [''class_teacher'', ''subject_teacher''], ''p1'' \<mapsto> JText ''Parent''],
     parent_links = [(''p1'', ''s1'')],
     enrollments = [(''s1'', ''c1''), (''s2'', ''c2''), (''s3'', ''c3'')],
     class_teacher_links = [(''t1'', ''c2'')],
     class_rows = [(''c1'', Some ''t1''), (''c2'', None), (''c3'', None)],
     subject_links = [(''t1'', ''maths''), (''t1'', ''physics'')],
     subject_rows = [(''maths'', JArray [''c1'', ''c2'']), (''physics'', JText ''c3'')]\<rparr>"

text \<open>no student leaks through the visibility filter: for an actor who is not a tenant-wide or
  academic manager, the visible students are exactly the student himself, a parent's linked wards,
  or the students enrolled in a class the teacher has as homeroom or teaches a subject in (in that
  precedence), and nobody at all for every other role.\<close>

theorem visible_students:
  assumes "getVisibleStudentIds db u = Some ids"
  shows "s \<in> set ids \<longleftrightarrow>
    (let roles = set (loadUserRoles db u) in
     if ''student'' \<in> roles then s = u
     else if ''parent'' \<in> roles then (u, s) \<in> set (parent_links db)
     else is_teacher_role (loadUserRoles db u) \<and>
       (\<exists>c. (s, c) \<in> set (enrollments db) \<and> (homeroom db u c \<or> teaches_in db u c)))"
proof (cases "is_teacher_role (loadUserRoles db u)")
  case True
  show ?thesis
    using assms
    by (force simp: getVisibleStudentIds_def Let_def True classIds_iff [OF True, symmetric]
        subjectClassIds_iff [OF True, symmetric] split: if_splits)
next
  case False
  then show ?thesis
    using assms by (auto simp: getVisibleStudentIds_def Let_def split: if_splits) force+
qed

theorem visible_students_witness:
  "getVisibleStudentIds sample_scope_db ''p1'' = Some [''s1''] \<and> ''s2'' \<notin> set [''s1'' :: string]"
proof -
  have a: "getVisibleStudentIds sample_scope_db ''p1'' = Some [''s1'']" by code_simp
  have b: "loadUserRoles sample_scope_db ''p1'' = [''parent'']" by code_simp
  have "''s2'' \<notin> set [''s1'' :: string]"
    unfolding visible_students [OF a] Let_def b by (simp add: sample_scope_db_def)
  with a show ?thesis by simp
qed

text \<open>student attendance is homeroom ownership: a class teacher without a tenant-wide role
  passes the attendance guard for a class exactly when she owns the class (\<open>class_teacher_id\<close>) or is
  linked to it and teaches no subject there; a missing class is a \<open>BadRequest\<close>, any other class a
  \<open>Forbidden\<close>.\<close>

theorem attendance_is_homeroom:
  assumes "''class_teacher'' \<in> set (loadUserRoles db u)" and "\<not> hasTenantWideRole (loadUserRoles db u)"
  shows "assertClassTeacherMayAccess db u cid =
    (case or_null cid of
       None \<Rightarrow> Inl (BadRequest ''Class is required for class teacher attendance'')
     | Some c \<Rightarrow> if homeroom db u c then Inr ()
                 else Inl (Forbidden ''Class teacher is not assigned to this class''))"
proof -
  from assms(1) have "is_teacher_role (loadUserRoles db u)" by (simp add: is_teacher_role_def)
  with assms show ?thesis
    by (cases cid) (auto simp: assertClassTeacherMayAccess_def Let_def classIds_iff or_null_def
        split: list.splits)
qed

lemma sample_t1_roles: "loadUserRoles sample_scope_db ''t1'' = [''class_teacher'', ''subject_teacher'']"
  by (simp add: sample_scope_db_def loadUserRoles_def toLowerCase_def to_lower_char_def)

theorem attendance_is_homeroom_witness:
  "assertClassTeacherMayAccess sample_scope_db ''t1'' (Some ''c1'') = Inr () \<and>
   assertClassTeacherMayAccess sample_scope_db ''t1'' (Some ''c2'') =
     Inl (Forbidden ''Class teacher is not assigned to this class'')"
proof -
  have h1: "homeroom sample_scope_db ''t1'' ''c1''"
    by (simp add: homeroom_def sample_scope_db_def)
  have h2: "\<not> homeroom sample_scope_db ''t1'' ''c2''"
    by (auto simp: homeroom_def teaches_in_def sample_scope_db_def)
  have "''class_teacher'' \<in> set (loadUserRoles sample_scope_db ''t1'')"
    and "\<not> hasTenantWideRole (loadUserRoles sample_scope_db ''t1'')"
    by (simp_all add: sample_t1_roles hasTenantWideRole_def)
  from attendance_is_homeroom [OF this] h1 h2 show ?thesis by simp
qed

text \<open>subject and class scope: a teacher without a tenant-wide role may work on class \<open>c\<close> and
  subject \<open>s\<close> exactly when \<open>c\<close> is her homeroom, or \<open>s\<close> is one of her subjects and either \<open>c\<close> is a class
  of \<^emph>\<open>some\<close> subject of hers or none of her subjects lists any class.\<close>

theorem teacher_access:
  assumes "is_teacher_role (loadUserRoles db u)" and "\<not> hasTenantWideRole (loadUserRoles db u)"
    and "c \<noteq> []" and "s \<noteq> []"
  shows "assertTeacherMayAccess db u (Some c) (Some s) =
    (if homeroom db u c \<or>
        ((u, s) \<in> set (subject_links db) \<and> s \<in> fst ` set (subject_rows db) \<and>
         (teaches_in db u c \<or> (\<forall>d. \<not> teaches_in db u d)))
     then Inr () else Inl (Forbidden ''Teacher is not assigned to this class or subject''))"
proof -
  have "subjectClassIds (getTeacherScope db u) = [] \<longleftrightarrow> (\<forall>d. \<not> teaches_in db u d)"
    using subjectClassIds_iff [OF assms(1)] by (metis empty_iff empty_set list.set_cases list.set_intros(1) neq_Nil_conv)
  with assms show ?thesis
    by (simp add: assertTeacherMayAccess_def Let_def isTeacher_scope classIds_iff [OF assms(1)]
        subjectIds_iff [OF assms(1)] subjectClassIds_iff [OF assms(1)])
qed

theorem teacher_access_witness:
  "assertTeacherMayAccess sample_scope_db ''t1'' (Some ''c3'') (Some ''maths'') = Inr ()"
proof -
  have "is_teacher_role (loadUserRoles sample_scope_db ''t1'')"
    and "\<not> hasTenantWideRole (loadUserRoles sample_scope_db ''t1'')"
    by (simp_all add: sample_t1_roles hasTenantWideRole_def is_teacher_role_def)
  moreover have "teaches_in sample_scope_db ''t1'' ''c3''"
    by (force simp: teaches_in_def sample_scope_db_def comma_values_def trim_def js_space_def)
  moreover have "(''t1'', ''maths'') \<in> set (subject_links sample_scope_db)"
    and "''maths'' \<in> fst ` set (subject_rows sample_scope_db)"
    by (simp_all add: sample_scope_db_def)
  ultimately show ?thesis
    by (subst teacher_access) auto
qed

text \<open>Maths is not offered in class \<open>c3\<close>, yet the teacher of maths (elsewhere) and of physics in
  \<open>c3\<close> is allowed to write maths results for it: the class list the check consults is the union over
  all the teacher's subjects.\<close>

lemma teacher_access_crosses_subjects:
  "\<not> (\<exists>col. (''maths'', col) \<in> set (subject_rows sample_scope_db) \<and> ''c3'' \<in> set (parse_class_ids col)) \<and>
   is_ok (assertTeacherMayAccess sample_scope_db ''t1'' (Some ''c3'') (Some ''maths''))"
proof -
  have "is_ok (assertTeacherMayAccess sample_scope_db ''t1'' (Some ''c3'') (Some ''maths''))"
    by code_simp
  then show ?thesis by (simp add: sample_scope_db_def)
qed

end
