(* ===== verification/FeatureFlags.thy ===== *)
theory FeatureFlags
  imports Prelude
begin

section \<open>Tenant runtime configuration and feature flags\<close>

text \<open>
  \<open>platform-config/runtime-config.types.ts\<close>, \<open>policy-snapshot.util.ts\<close> and
  \<open>feature-flag.service.ts\<close>: the configuration the control plane sends for a tenant, and the two
  ways the gateway answers "is this feature on": one key at a time (\<open>resolveFromConfig\<close>, asked by every
  service) and the whole map (\<open>getEffectiveFeatures\<close>, sent to the client at start-up).
\<close>

datatype tenant_status = Active | Suspended | Restricted | Blacklisted | Provisioning | Archived

record enforcement_policy =
  schoolBlacklisted :: bool
  blockedUserIds :: "string list"
  blockedEmails :: "string list"
  blockedIpCidrs :: "string list"
  capabilityFreezes :: "string list"
  denyLogin :: bool
  enf_message :: "string option"

record fee_split_allocation =
  destination :: string
  percentage_bps :: int

record fee_split_rule =
  feeType :: string
  split_providerId :: string
  allocations :: "fee_split_allocation list"

record runtime_config =
  rc_tenantId :: string
  rc_status :: tenant_status
  rc_features :: "string \<rightharpoonup> bool"
  rc_providers :: "string \<rightharpoonup> string"     \<comment> \<open>capability to provider id\<close>
  rc_enforcement :: enforcement_policy
  rc_killSwitches :: "string list"
  rc_feeSplits :: "fee_split_rule list"
  rc_ttlSeconds :: "int option"
  rc_configVersion :: int

definition FAIL_CLOSED_FEATURES :: "string list" where
  "FAIL_CLOSED_FEATURES = [''fees.gateway'', ''fees.advance_payment'', ''comms.sms'', ''comms.email'',
     ''comms.push'', ''ai.assistant'', ''ai.support_chatbot'', ''ai.performance_detection'',
     ''ai.performance_recommendations'', ''ai.risk_analytics'', ''ai.essay_grading'', ''ai.tutor'',
     ''ai.teacher_copilot'', ''ai.report_comments'', ''ai.timetable_solver'',
     ''tutoring.marketplace'', ''tutoring.payments'', ''tutoring.ai_hybrid'', ''comms.meetings'']"

definition FOUNDATION_DEFAULTS_ON :: "string list" where
  "FOUNDATION_DEFAULTS_ON = [''auth.login'', ''auth.register'', ''auth.password_reset'',
     ''auth.biometric_webauthn'', ''auth.remember_me'', ''users.management'', ''users.passport_photo'',
     ''org.profile'', ''org.branding'', ''org.subscription_view'', ''audit.logs'', ''rbac.permissions'',
     ''academic.sessions_terms'', ''academic.classes'', ''academic.subjects'', ''academic.enrollments'',
     ''academic.assignments'', ''academic.results'', ''academic.results_approve'',
     ''academic.scheme_of_work'', ''academic.grading_matrix'', ''attendance.students'',
     ''attendance.staff'', ''attendance.manual_codes'', ''attendance.geo_verification'',
     ''attendance.auto_absent_eod'', ''fees.structures'', ''fees.invoices'', ''fees.payments_manual'',
     ''fees.scholarships'', ''fees.refunds'', ''comms.announcements'', ''comms.in_app_notifications'',
     ''reports.view'', ''users.parent_activation'', ''ops.safeguarding'', ''comms.inbox'',
     ''comms.messaging'', ''comms.pta'', ''portal.parent'']"

text \<open>A freeze \<open>prefix*\<close> freezes every feature with that prefix.\<close>

definition freeze_prefix :: "string \<Rightarrow> string option" where
  "freeze_prefix f = (if endsWith f ''*'' then Some (take (length f - 1) f) else None)"

definition freeze_hits :: "string \<Rightarrow> string \<Rightarrow> bool" where
  "freeze_hits f key = (case freeze_prefix f of Some p \<Rightarrow> startsWith key p | None \<Rightarrow> False)"

definition resolveFromConfig :: "runtime_config \<Rightarrow> string \<Rightarrow> bool" where
  "resolveFromConfig cfg key =
     (if List.member (rc_killSwitches cfg) key then False
      else if List.member (capabilityFreezes (rc_enforcement cfg)) key then False
      else if list_ex (\<lambda>f. freeze_hits f key) (capabilityFreezes (rc_enforcement cfg)) then False
      else case rc_features cfg key of
             Some b \<Rightarrow> b
           | None \<Rightarrow> List.member FOUNDATION_DEFAULTS_ON key)"

subsection \<open>The policy snapshot carried by a token\<close>

text \<open>\<open>sha\<close> stands for the SHA-256 digest (node's crypto) of the version and the sorted list of enabled
  features; the enabled features are passed as a set.\<close>

type_synonym digest_fn = "int \<Rightarrow> string set \<Rightarrow> string"

definition enabled_features :: "runtime_config \<Rightarrow> string set" where
  "enabled_features cfg = {k. rc_features cfg k = Some True}"

record policy_claims =
  config_version :: "int option"      \<comment> \<open>\<open>None\<close>: \<open>Number(...)\<close> is NaN\<close>
  features_digest :: "string option"

definition policySnapshotMatches ::
  "digest_fn \<Rightarrow> runtime_config option \<Rightarrow> policy_claims \<Rightarrow> bool" where
  "policySnapshotMatches sha peek claims =
     (case peek of
        None \<Rightarrow> False
      | Some cfg \<Rightarrow>
          (case config_version claims of
             None \<Rightarrow> False
           | Some v \<Rightarrow>
               if v \<le> 0 then False
               else case or_null (features_digest claims) of
                      None \<Rightarrow> rc_configVersion cfg = v
                    | Some d \<Rightarrow> rc_configVersion cfg = v \<and>
                               sha (rc_configVersion cfg) (enabled_features cfg) = d))"

text \<open>\<open>resolve\<close>: \<open>peek\<close> is the cached configuration (of any age), \<open>fetched\<close> what
  \<open>runtimeConfig.getConfig\<close> returns.\<close>

definition resolve ::
  "bool \<Rightarrow> digest_fn \<Rightarrow> string \<Rightarrow> string \<Rightarrow> policy_claims \<Rightarrow> runtime_config option \<Rightarrow> runtime_config \<Rightarrow> bool" where
  "resolve production sha tenantId key claims peek fetched =
     (if tenantId = ''__registration__'' \<and> \<not> production \<and> List.member FOUNDATION_DEFAULTS_ON key then True
      else if policySnapshotMatches sha peek claims then resolveFromConfig (the peek) key
      else resolveFromConfig fetched key)"

definition assertEnabled :: "bool \<Rightarrow> string \<Rightarrow> unit result" where
  "assertEnabled on key = (if \<not> on then Inl (Forbidden (''Feature disabled: '' @ key)) else Inr ())"

subsection \<open>The effective feature map\<close>

definition kill_features :: "string list \<Rightarrow> (string \<rightharpoonup> bool) \<Rightarrow> (string \<rightharpoonup> bool)" where
  "kill_features keys m = fold (\<lambda>k m. m(k \<mapsto> False)) keys m"

definition apply_freeze :: "string \<Rightarrow> (string \<rightharpoonup> bool) \<Rightarrow> (string \<rightharpoonup> bool)" where
  "apply_freeze f m = (case freeze_prefix f of
      Some p \<Rightarrow> (\<lambda>k. if m k \<noteq> None \<and> startsWith k p then Some False else m k)
    | None \<Rightarrow> m(f \<mapsto> False))"

definition getEffectiveFeatures :: "runtime_config \<Rightarrow> (string \<rightharpoonup> bool)" where
  "getEffectiveFeatures cfg =
     fold apply_freeze (capabilityFreezes (rc_enforcement cfg))
       (kill_features (rc_killSwitches cfg)
         ((\<lambda>k. if List.member FOUNDATION_DEFAULTS_ON k then Some True else None) ++ rc_features cfg))"

subsection \<open>Facts\<close>

lemma kill_features_at: "kill_features ks m k = (if k \<in> set ks then Some False else m k)"
  by (induction ks arbitrary: m) (auto simp: kill_features_def)

lemma freeze_prefix_None: "freeze_prefix f = None \<Longrightarrow> \<not> freeze_hits f k"
  by (simp add: freeze_hits_def)

lemma apply_freeze_at:
  "apply_freeze f m k =
     (if freeze_prefix f = None then (if k = f then Some False else m k)
      else if m k \<noteq> None \<and> freeze_hits f k then Some False else m k)"
  by (auto simp: apply_freeze_def freeze_hits_def split: option.splits)

lemma freeze_hits_self: "freeze_prefix f \<noteq> None \<Longrightarrow> freeze_hits f f"
proof -
  have "startsWith f (take n f)" for n
    using startsWith_append [of "take n f" "drop n f"] by simp
  then show "freeze_prefix f \<noteq> None \<Longrightarrow> freeze_hits f f"
    by (auto simp: freeze_hits_def freeze_prefix_def split: if_splits)
qed

definition frozen_by :: "string list \<Rightarrow> string \<Rightarrow> bool" where
  "frozen_by fs k = (\<exists>f\<in>set fs. k = f \<or> freeze_hits f k)"

lemma apply_freeze_on:
  "apply_freeze f m k = Some True \<longleftrightarrow> m k = Some True \<and> \<not> (k = f \<or> freeze_hits f k)"
  using freeze_hits_self [of f] by (auto simp: apply_freeze_at freeze_hits_def split: option.splits)

lemma fold_freeze_on:
  "fold apply_freeze fs m k = Some True \<longleftrightarrow> m k = Some True \<and> \<not> frozen_by fs k"
  by (induction fs arbitrary: m) (auto simp: apply_freeze_on frozen_by_def)

lemma resolveFromConfig_iff:
  "resolveFromConfig cfg k \<longleftrightarrow>
     k \<notin> set (rc_killSwitches cfg) \<and> \<not> frozen_by (capabilityFreezes (rc_enforcement cfg)) k \<and>
     (case rc_features cfg k of Some b \<Rightarrow> b | None \<Rightarrow> k \<in> set FOUNDATION_DEFAULTS_ON)"
  by (auto simp: resolveFromConfig_def frozen_by_def list_ex_iff split: option.splits)

lemma assertEnabled_simps [simp]:
  "assertEnabled True key = Inr ()"
  "assertEnabled False key = Inl (Forbidden (''Feature disabled: '' @ key))"
  by (simp_all add: assertEnabled_def)

subsection \<open>Properties\<close>

text \<open>the start-up feature map and the per-request check agree: a key is \<open>true\<close> in the effective
  map exactly when \<open>resolveFromConfig\<close> grants it, for every configuration, kill switch and freeze
  pattern.\<close>

theorem effective_features_agree:
  "getEffectiveFeatures cfg k = Some True \<longleftrightarrow> resolveFromConfig cfg k"
  by (auto simp: getEffectiveFeatures_def fold_freeze_on kill_features_at resolveFromConfig_iff
      map_add_def split: option.splits)

end
