(* ===== verification/Enforcement.thy ===== *)
theory Enforcement
  imports FeatureFlags "HOL-Library.Word"
begin

unbundle bit_operations_syntax

section \<open>Control-plane blocks\<close>

text \<open>
  \<open>platform-config/enforcement.service.ts\<close>: the blocks applied before sensitive work, with the IPv4
  CIDR match on 32-bit integers (JavaScript's bit operators work on 32 bits, and \<open>>>> 0\<close> reads the
  result as unsigned, so a \<open>32 word\<close> is the value).  \<open>Number(text)\<close> on the pieces of an address is
  \<open>js_integer\<close>: the integer the text denotes in decimal notation (surrounding blanks and a sign are
  accepted, the empty text is 0), \<open>None\<close> for every other text; hexadecimal, exponent and fraction
  notations of \<open>Number\<close> are not modelled and count as no integer.
\<close>

definition digit_val :: "char \<Rightarrow> int option" where
  "digit_val c = (let n = of_char c :: int in if 48 \<le> n \<and> n \<le> 57 then Some (n - 48) else None)"

fun digits_val :: "int \<Rightarrow> string \<Rightarrow> int option" where
  "digits_val acc [] = Some acc"
| "digits_val acc (c # s) = (case digit_val c of None \<Rightarrow> None | Some d \<Rightarrow> digits_val (10 * acc + d) s)"

definition js_integer :: "string \<Rightarrow> int option" where
  "js_integer text = (case trim text of
      [] \<Rightarrow> Some 0
    | c # s \<Rightarrow>
        if c = CHR ''-'' then (if s = [] then None else map_option uminus (digits_val 0 s))
        else if c = CHR ''+'' then (if s = [] then None else digits_val 0 s)
        else digits_val 0 (c # s))"

definition octets :: "string \<Rightarrow> int list option" where
  "octets value =
     (let parts = map js_integer (split_on CHR ''.'' value) in
      if length parts \<noteq> 4 \<or>
         list_ex (\<lambda>p. case p of None \<Rightarrow> True | Some n \<Rightarrow> n < 0 \<or> n > 255) parts
      then None else Some (map the parts))"

definition ipv4_toInt :: "string \<Rightarrow> 32 word option" where
  "ipv4_toInt value = (case octets value of
      Some [a, b, c, d] \<Rightarrow>
        Some (push_bit 24 (word_of_int a) + push_bit 16 (word_of_int b) + push_bit 8 (word_of_int c) + word_of_int d)
    | _ \<Rightarrow> None)"

text \<open>\<open>bits === 0 ? 0 : (~0 << (32 - bits)) >>> 0\<close>\<close>

definition cidr_mask :: "int \<Rightarrow> 32 word" where
  "cidr_mask bits = (if bits = 0 then 0 else push_bit (nat (32 - bits)) (NOT 0))"

definition ipv4InCidr :: "string \<Rightarrow> string \<Rightarrow> bool" where
  "ipv4InCidr ip cidr =
     (if \<not> List.member cidr CHR ''/'' then False
      else case split_on CHR ''/'' cidr of
        rng # bitsRaw # _ \<Rightarrow>
          (case (ipv4_toInt ip, ipv4_toInt rng, js_integer bitsRaw) of
             (Some ipInt, Some rangeInt, Some bits) \<Rightarrow>
               if bits < 0 \<or> bits > 32 then False
               else ipInt AND cidr_mask bits = rangeInt AND cidr_mask bits
           | _ \<Rightarrow> False)
      | _ \<Rightarrow> False)"

definition ipBlocked :: "string \<Rightarrow> string list \<Rightarrow> bool" where
  "ipBlocked ip cidrs = (if List.member cidrs ip then True else list_ex (ipv4InCidr ip) cidrs)"

record enforcement_opts =
  o_userId :: "string option"
  o_email :: "string option"
  o_ip :: "string option"

definition assertFromConfig :: "runtime_config \<Rightarrow> enforcement_opts \<Rightarrow> unit result" where
  "assertFromConfig cfg opts =
     (let enf = rc_enforcement cfg in
      if rc_status cfg = Blacklisted \<or> schoolBlacklisted enf
        then Inl (Forbidden (or_else (enf_message enf)
               ''This school has been blocked from the platform. Contact support.''))
      else if rc_status cfg = Suspended \<or> rc_status cfg = Restricted \<or> denyLogin enf
        then Inl (Forbidden (or_else (enf_message enf)
               (if rc_status cfg = Restricted then ''This school is restricted. Contact support.''
                else ''This school is suspended. Contact support.'')))
      else if truthy (o_userId opts) \<and> List.member (blockedUserIds enf) (the (o_userId opts))
        then Inl (Forbidden ''Your account has been blocked.'')
      else if truthy (o_email opts) \<and>
              List.member (map toLowerCase (blockedEmails enf)) (toLowerCase (the (o_email opts)))
        then Inl (Forbidden ''Your account has been blocked.'')
      else if truthy (o_ip opts) \<and> ipBlocked (the (o_ip opts)) (blockedIpCidrs enf)
        then Inl (Forbidden ''Access denied from this network.'')
      else Inr ())"

text \<open>\<open>assertTenantAllowed\<close>: a token whose policy snapshot matches the cached configuration is judged
  by the cache, any other by a fresh configuration.\<close>

definition assertTenantAllowed ::
  "digest_fn \<Rightarrow> policy_claims \<Rightarrow> runtime_config option \<Rightarrow> runtime_config \<Rightarrow> enforcement_opts \<Rightarrow> unit result" where
  "assertTenantAllowed sha claims peek fetched opts =
     (if policySnapshotMatches sha peek claims then assertFromConfig (the peek) opts
      else assertFromConfig fetched opts)"

subsection \<open>The CIDR match is prefix equality\<close>

lemma bit_cidr_mask:
  assumes "0 \<le> bits" "bits \<le> 32" "i < 32"
  shows "bit (cidr_mask bits) i \<longleftrightarrow> nat (32 - bits) \<le> i"
  using assms by (auto simp: cidr_mask_def bit_push_bit_iff bit_not_iff bit_mask_iff)

lemma masked_eq_iff:
  assumes "0 \<le> bits" and "bits \<le> 32"
  shows "x AND cidr_mask bits = y AND cidr_mask bits \<longleftrightarrow>
         drop_bit (nat (32 - bits)) x = (drop_bit (nat (32 - bits)) y :: 32 word)"
proof
  assume eq: "x AND cidr_mask bits = y AND cidr_mask bits"
  show "drop_bit (nat (32 - bits)) x = drop_bit (nat (32 - bits)) y"
  proof (rule bit_word_eqI)
    fix i :: nat assume "i < LENGTH(32)"
    show "bit (drop_bit (nat (32 - bits)) x) i = bit (drop_bit (nat (32 - bits)) y) i"
    proof (cases "nat (32 - bits) + i < 32")
      case True
      then have "bit (cidr_mask bits) (nat (32 - bits) + i)" using assms by (simp add: bit_cidr_mask)
      moreover have "bit (x AND cidr_mask bits) (nat (32 - bits) + i) = bit (y AND cidr_mask bits) (nat (32 - bits) + i)"
        using eq by simp
      ultimately show ?thesis by (simp add: bit_drop_bit_eq bit_and_iff)
    next
      case False
      then show ?thesis using bit_imp_le_length [of x] bit_imp_le_length [of y]
        by (fastforce simp: bit_drop_bit_eq)
    qed
  qed
next
  assume eq: "drop_bit (nat (32 - bits)) x = drop_bit (nat (32 - bits)) y"
  show "x AND cidr_mask bits = y AND cidr_mask bits"
  proof (rule bit_word_eqI)
    fix i :: nat assume i: "i < LENGTH(32)"
    show "bit (x AND cidr_mask bits) i = bit (y AND cidr_mask bits) i"
    proof (cases "nat (32 - bits) \<le> i")
      case True
      have "bit (drop_bit (nat (32 - bits)) x) (i - nat (32 - bits)) = bit (drop_bit (nat (32 - bits)) y) (i - nat (32 - bits))"
        using eq by simp
      then show ?thesis using True by (simp add: bit_drop_bit_eq bit_and_iff)
    next
      case False
      then show ?thesis using i assms by (simp add: bit_and_iff bit_cidr_mask)
    qed
  qed
qed

lemma octets_bounds:
  "octets v = Some xs \<Longrightarrow> length xs = 4 \<and> (\<forall>x\<in>set xs. 0 \<le> x \<and> x \<le> 255)"
  by (fastforce simp: octets_def Let_def list_ex_iff split: if_splits option.splits)

definition octets_int :: "int list \<Rightarrow> int" where
  "octets_int xs = foldl (\<lambda>acc x. 256 * acc + x) 0 xs"

lemma octets_sum_word:
  "push_bit 24 (word_of_int a) + push_bit 16 (word_of_int b) + push_bit 8 (word_of_int c) + word_of_int d
     = (word_of_int (octets_int [a, b, c, d]) :: 32 word)"
  by (simp add: octets_int_def push_bit_eq_mult algebra_simps of_int_add of_int_mult)

lemma octets_int_bounds:
  assumes "length xs = 4" and "\<forall>x\<in>set xs. 0 \<le> x \<and> x \<le> 255"
  shows "0 \<le> octets_int xs \<and> octets_int xs < 2 ^ 32"
proof -
  from assms(1) obtain a b c d where "xs = [a, b, c, d]"
    by (auto simp: numeral_eq_Suc length_Suc_conv)
  with assms(2) show ?thesis by (auto simp: octets_int_def)
qed

lemma ipv4_toInt_octets:
  "ipv4_toInt v = map_option (word_of_int \<circ> octets_int) (octets v)"
proof (cases "octets v")
  case (Some xs)
  then obtain a b c d where "xs = [a, b, c, d]"
    using octets_bounds by (fastforce simp: numeral_eq_Suc length_Suc_conv)
  with Some show ?thesis by (simp add: ipv4_toInt_def octets_sum_word)
qed (simp add: ipv4_toInt_def)

lemma drop_bit_octets:
  assumes "octets v = Some xs" and "octets w = Some ys"
  shows "drop_bit n (word_of_int (octets_int xs) :: 32 word) = drop_bit n (word_of_int (octets_int ys)) \<longleftrightarrow>
         octets_int xs div 2 ^ n = octets_int ys div 2 ^ n"
proof -
  have u: "uint (drop_bit n (word_of_int (octets_int zs) :: 32 word)) = octets_int zs div 2 ^ n"
    if "octets z = Some zs" for z zs
  proof -
    have b: "0 \<le> octets_int zs \<and> octets_int zs < 2 ^ 32"
      using octets_bounds [OF that] by (intro octets_int_bounds) auto
    then have u: "uint (word_of_int (octets_int zs) :: 32 word) = octets_int zs"
      by (simp add: uint_word_of_int)
    have "uint (drop_bit n (word_of_int (octets_int zs) :: 32 word)) = drop_bit n (octets_int zs)"
      by (simp only: unsigned_drop_bit_eq u) (use b in \<open>simp add: take_bit_int_eq_self\<close>)
    then show ?thesis by (simp only: drop_bit_eq_div)
  qed
  show ?thesis by (simp only: word_uint_eq_iff u [OF assms(1)] u [OF assms(2)])
qed

subsection \<open>Properties\<close>

text \<open>C38: the CIDR block matches numerically: for a dotted-quad address and a block \<open>range/bits\<close> with
  \<open>0 \<le> bits \<le> 32\<close>, the address is in the block exactly when the two 32-bit numbers agree on their
  first \<open>bits\<close> bits; with \<open>bits\<close> out of that range it never is, and \<open>/0\<close> matches every address.\<close>

theorem cidr_is_prefix_equality:
  assumes "octets ip = Some xs" and "octets rng = Some ys" and "js_integer raw = Some bits"
    and "CHR ''/'' \<notin> set rng" and "CHR ''/'' \<notin> set raw"
  shows "ipv4InCidr ip (rng @ CHR ''/'' # raw) \<longleftrightarrow>
    0 \<le> bits \<and> bits \<le> 32 \<and> octets_int xs div 2 ^ nat (32 - bits) = octets_int ys div 2 ^ nat (32 - bits)"
proof -
  have prefix: "split_on CHR ''/'' (rng @ CHR ''/'' # raw) = rng # split_on CHR ''/'' raw"
    using assms(4) by (induction rng) auto
  have last: "split_on CHR ''/'' raw = [raw]"
    using assms(5) by (induction raw) auto
  show ?thesis
    by (simp add: ipv4InCidr_def prefix last ipv4_toInt_octets assms(1-3) masked_eq_iff
        drop_bit_octets [OF assms(1,2)])
qed

theorem cidr_is_prefix_equality_witness:
  "ipv4InCidr ''10.1.2.3'' ''10.1.0.0/16'' \<and> \<not> ipv4InCidr ''10.2.2.3'' ''10.1.0.0/16''"
proof -
  have o: "octets ''10.1.2.3'' = Some [10, 1, 2, 3]" "octets ''10.2.2.3'' = Some [10, 2, 2, 3]"
    "octets ''10.1.0.0'' = Some [10, 1, 0, 0]" and b: "js_integer ''16'' = Some 16"
    by code_simp+
  show ?thesis
    using cidr_is_prefix_equality [OF o(1,3) b] cidr_is_prefix_equality [OF o(2,3) b]
    by (simp add: octets_int_def)
qed

text \<open>the blocks are complete and their order is fixed: the check passes exactly when the school is
  neither blacklisted, suspended nor restricted (by status or by policy flag) and the user, the
  e-mail (compared without regard to case) and the address are not blocked; every refusal is a
  \<open>Forbidden\<close>; and the token fast path gives the same answer whenever the cached and the fetched
  configuration agree.\<close>

theorem enforcement_decides:
  "(is_ok (assertFromConfig cfg opts) \<longleftrightarrow>
     rc_status cfg \<notin> {Blacklisted, Suspended, Restricted} \<and>
     \<not> schoolBlacklisted (rc_enforcement cfg) \<and> \<not> denyLogin (rc_enforcement cfg) \<and>
     (\<forall>u. or_null (o_userId opts) = Some u \<longrightarrow> u \<notin> set (blockedUserIds (rc_enforcement cfg))) \<and>
     (\<forall>m. or_null (o_email opts) = Some m \<longrightarrow>
        toLowerCase m \<notin> toLowerCase ` set (blockedEmails (rc_enforcement cfg))) \<and>
     (\<forall>i. or_null (o_ip opts) = Some i \<longrightarrow> i \<notin> set (blockedIpCidrs (rc_enforcement cfg)) \<and>
        (\<forall>c\<in>set (blockedIpCidrs (rc_enforcement cfg)). \<not> ipv4InCidr i c))) \<and>
   (\<forall>e. assertFromConfig cfg opts = Inl e \<longrightarrow> (\<exists>m. e = Forbidden m)) \<and>
   assertTenantAllowed sha claims (Some cfg) cfg opts = assertFromConfig cfg opts"
  by (auto simp: assertFromConfig_def assertTenantAllowed_def Let_def or_null_Some_iff truthy_iff ipBlocked_def list_ex_iff
      split: if_splits)

definition blocked_config :: runtime_config where
  "blocked_config = \<lparr>rc_tenantId = ''t'', rc_status = Active, rc_features = Map.empty, rc_providers = Map.empty,
     rc_enforcement = \<lparr>schoolBlacklisted = False, blockedUserIds = [''u1''], blockedEmails = [''A@b.ng''],
       blockedIpCidrs = [''10.1.0.0/16''], capabilityFreezes = [], denyLogin = False, enf_message = None\<rparr>,
     rc_killSwitches = [], rc_feeSplits = [], rc_ttlSeconds = None, rc_configVersion = 3\<rparr>"

theorem enforcement_decides_witness:
  "\<not> is_ok (assertFromConfig blocked_config \<lparr>o_userId = None, o_email = Some ''a@B.ng'', o_ip = None\<rparr>)"
proof -
  let ?o = "\<lparr>o_userId = None, o_email = Some ''a@B.ng'', o_ip = None\<rparr>"
  have "toLowerCase ''a@B.ng'' \<in> toLowerCase ` set (blockedEmails (rc_enforcement blocked_config))"
    by code_simp
  moreover have "or_null (o_email ?o) = Some ''a@B.ng''" by simp
  ultimately show ?thesis
    using enforcement_decides [of blocked_config ?o "\<lambda>_ _. []"] by blast
qed

end
