(* ===== verification/JsMap.thy ===== *)
theory JsMap
  imports Prelude
begin

section \<open>JavaScript's Map, and the generation guard of the caches\<close>

text \<open>
  A \<open>Map\<close> keeps its entries in insertion order, which the eviction loops of the caches depend on:
  \<open>set\<close> on a present key keeps the key's place, on a new key appends.
\<close>

type_synonym ('k, 'v) jsmap = "('k \<times> 'v) list"

definition mget :: "'k \<Rightarrow> ('k, 'v) jsmap \<Rightarrow> 'v option" where
  "mget k m = map_of m k"

fun mset :: "'k \<Rightarrow> 'v \<Rightarrow> ('k, 'v) jsmap \<Rightarrow> ('k, 'v) jsmap" where
  "mset k v [] = [(k, v)]"
| "mset k v (e # m) = (if fst e = k then (k, v) # m else e # mset k v m)"

definition mdel :: "'k \<Rightarrow> ('k, 'v) jsmap \<Rightarrow> ('k, 'v) jsmap" where
  "mdel k m = filter (\<lambda>e. fst e \<noteq> k) m"

definition wf_map :: "('k, 'v) jsmap \<Rightarrow> bool" where
  "wf_map m = distinct (map fst m)"

named_theorems map_simps

lemma mget_Nil [simp, map_simps]: "mget k [] = None"
  by (simp add: mget_def)

lemma mget_mset [simp, map_simps]: "mget k' (mset k v m) = (if k' = k then Some v else mget k' m)"
  by (induction m) (auto simp: mget_def)

lemma mget_mdel [simp, map_simps]: "mget k' (mdel k m) = (if k' = k then None else mget k' m)"
  by (induction m) (auto simp: mget_def mdel_def)

lemma keys_mset: "fst ` set (mset k v m) = insert k (fst ` set m)"
  by (induction m) auto

lemma wf_map_Nil [simp]: "wf_map []"
  by (simp add: wf_map_def)

lemma wf_map_mset [simp]: "wf_map m \<Longrightarrow> wf_map (mset k v m)"
  by (induction m) (auto simp: wf_map_def keys_mset)

lemma wf_map_filter: "wf_map m \<Longrightarrow> wf_map (filter P m)"
  by (simp add: wf_map_def distinct_map_filter)

lemma wf_map_mdel [simp]: "wf_map m \<Longrightarrow> wf_map (mdel k m)"
  by (simp add: mdel_def wf_map_filter)

lemma length_mset: "length (mset k v m) = (if mget k m = None then Suc (length m) else length m)"
  by (induction m) (auto simp: mget_def)

lemma length_mdel_le: "length (mdel k m) \<le> length m"
  by (simp add: mdel_def)

lemma length_mdel_mem: "mget k m \<noteq> None \<Longrightarrow> length (mdel k m) < length m"
proof (induction m)
  case (Cons e m)
  then show ?case
    by (auto simp: mdel_def mget_def le_imp_less_Suc)
qed simp

lemma mget_filter_key: "wf_map m \<Longrightarrow> mget k (filter (\<lambda>e. P (fst e)) m) = (if P k then mget k m else None)"
  by (induction m) (auto simp: mget_def wf_map_def)

text \<open>The key of the entry with the least age mark; the first one of equals, as the eviction loop's
  strict comparison picks it.\<close>

fun oldest :: "('v \<Rightarrow> int) \<Rightarrow> ('k, 'v) jsmap \<Rightarrow> ('k \<times> int) option" where
  "oldest age [] = None"
| "oldest age (e # m) = (case oldest age m of
      None \<Rightarrow> Some (fst e, age (snd e))
    | Some (k, a) \<Rightarrow> if a < age (snd e) then Some (k, a) else Some (fst e, age (snd e)))"

lemma oldest_None [simp]: "oldest age m = None \<longleftrightarrow> m = []"
  by (cases m) (auto split: option.splits)

lemma oldest_mem: "oldest age m = Some (k, a) \<Longrightarrow> k \<in> fst ` set m"
  by (induction m arbitrary: k a) (auto split: option.splits if_splits)

lemma oldest_least: "oldest age m = Some (k, a) \<Longrightarrow> e \<in> set m \<Longrightarrow> a \<le> age (snd e)"
  by (induction m arbitrary: k a) (fastforce split: option.splits if_splits)+

lemma mget_None_iff: "mget k m = None \<longleftrightarrow> k \<notin> fst ` set m"
  by (simp add: mget_def map_of_eq_None_iff)

text \<open>
  The caches guard a write-back with a generation number: a load remembers the generation of its key,
  an invalidation bumps it, and a finished load stores its value only when the number is unchanged.
  That works exactly when no step ever lowers a generation.
\<close>

locale generation_guard =
  fixes gen :: "'s \<Rightarrow> 'k \<Rightarrow> nat"
    and step :: "'e \<Rightarrow> 's \<Rightarrow> 's"
  assumes gen_mono: "gen s k \<le> gen (step e s) k"
begin

lemma gen_fold_mono: "gen s k \<le> gen (fold step es s) k"
proof (induction es arbitrary: s)
  case (Cons e es)
  have "gen s k \<le> gen (step e s) k" by (rule gen_mono)
  also have "\<dots> \<le> gen (fold step es (step e s)) k" by (rule Cons.IH)
  finally show ?case by simp
qed simp

lemma captured_stays_stale: "g < gen s k \<Longrightarrow> gen (fold step es s) k \<noteq> g"
  using gen_fold_mono [of s k es] by simp

end

end
