(* ===== verification/RuntimeConfig.thy ===== *)
theory RuntimeConfig
  imports FeatureFlags JsMap
begin

section \<open>The runtime-configuration cache\<close>

text \<open>
  \<open>platform-config/runtime-config.service.ts\<close> with its Redis layer
  (\<open>runtime-config-redis.store.ts\<close>).  One event is one run of the JavaScript event loop between two
  \<open>await\<close>s: a call of \<open>getConfig\<close> up to its first wait, the arrival of a Redis answer, the end of a
  pull from the control plane, an invalidation by the webhook.  A pull is a numbered task that
  remembers the generations it saw when it started.  Redis writes and deletions, which the source
  fires without waiting, take effect at once, and Redis expiry is not modelled.
\<close>

record cache_entry =
  ce_config :: runtime_config
  ce_fetchedAt :: int

record pull_task =
  pt_tenant :: string
  pt_gen :: nat
  pt_global :: nat

record rc_env =
  redis_enabled :: bool
  client_configured :: bool
  ttl_setting :: int            \<comment> \<open>CONTROL_CONFIG_TTL_SECONDS, 60 when unset\<close>
  ceiling_setting :: int        \<comment> \<open>CONTROL_CONFIG_STALE_CEILING_SECONDS, 300 when unset\<close>

record rc_state =
  rcs_cache :: "(string, cache_entry) jsmap"
  rcs_lastVersion :: "(string, int) jsmap"
  rcs_inFlight :: "(string, nat) jsmap"
  rcs_generation :: "string \<Rightarrow> nat"
  rcs_global :: nat
  rcs_tasks :: "nat \<rightharpoonup> pull_task"
  rcs_next :: nat
  rcs_redis :: "string \<rightharpoonup> cache_entry"
  rcs_reads :: "nat \<rightharpoonup> (string \<times> cache_entry option)"   \<comment> \<open>Redis reads under way\<close>

definition rc_init :: rc_state where
  "rc_init = \<lparr>rcs_cache = [], rcs_lastVersion = [], rcs_inFlight = [], rcs_generation = (\<lambda>_. 0), rcs_global = 0,
     rcs_tasks = Map.empty, rcs_next = 0, rcs_redis = Map.empty, rcs_reads = Map.empty\<rparr>"

definition MAX_TRACKED_TENANTS :: nat where
  "MAX_TRACKED_TENANTS = 500"

definition peekCached :: "string \<Rightarrow> rc_state \<Rightarrow> runtime_config option" where
  "peekCached tid s = (if tid = [] then None else map_option ce_config (mget tid (rcs_cache s)))"

definition defaultTtlMs :: "rc_env \<Rightarrow> int" where
  "defaultTtlMs env = max 5 (min (ttl_setting env) 60) * 1000"

definition staleCeilingMs :: "rc_env \<Rightarrow> int" where
  "staleCeilingMs env = max 30 (min (ceiling_setting env) 900) * 1000"

definition localFallback :: "string \<Rightarrow> runtime_config" where
  "localFallback tid = \<lparr>rc_tenantId = tid, rc_status = Active, rc_features = Map.empty, rc_providers = Map.empty,
     rc_enforcement = \<lparr>schoolBlacklisted = False, blockedUserIds = [], blockedEmails = [], blockedIpCidrs = [],
       capabilityFreezes = [], denyLogin = False, enf_message = None\<rparr>,
     rc_killSwitches = [], rc_feeSplits = [], rc_ttlSeconds = None, rc_configVersion = 0\<rparr>"

definition failClosedConfig :: "string \<Rightarrow> runtime_config option \<Rightarrow> runtime_config" where
  "failClosedConfig tid stale =
     (let base = (case stale of Some c \<Rightarrow> c | None \<Rightarrow> localFallback tid) in
      base\<lparr>rc_features := kill_features FAIL_CLOSED_FEATURES (rc_features base),
           rc_providers := Map.empty\<rparr>)"

definition entry_ttl :: "rc_env \<Rightarrow> cache_entry option \<Rightarrow> int" where
  "entry_ttl env cached = (case cached of
      Some e \<Rightarrow> (case rc_ttlSeconds (ce_config e) of
          Some t \<Rightarrow> if t = 0 then defaultTtlMs env else min t 60 * 1000
        | None \<Rightarrow> defaultTtlMs env)
    | None \<Rightarrow> defaultTtlMs env)"

text \<open>\<open>refresh\<close>: join the pull under way or start one.\<close>

definition refresh :: "string \<Rightarrow> rc_state \<Rightarrow> nat \<times> rc_state" where
  "refresh tid s = (case mget tid (rcs_inFlight s) of
      Some task \<Rightarrow> (task, s)
    | None \<Rightarrow> (rcs_next s,
        s\<lparr>rcs_tasks := (rcs_tasks s)(rcs_next s \<mapsto>
              \<lparr>pt_tenant = tid, pt_gen = rcs_generation s tid, pt_global = rcs_global s\<rparr>),
          rcs_inFlight := mset tid (rcs_next s) (rcs_inFlight s),
          rcs_next := Suc (rcs_next s)\<rparr>))"

datatype config_answer =
    Answer runtime_config             \<comment> \<open>resolved at once\<close>
  | AwaitRedis nat                    \<comment> \<open>waiting for a Redis read\<close>
  | AwaitPull nat "cache_entry option" \<comment> \<open>waiting for a pull; the stale entry, if any, for the error path\<close>

definition getConfig_rest ::
  "rc_env \<Rightarrow> int \<Rightarrow> bool \<Rightarrow> string \<Rightarrow> rc_state \<Rightarrow> config_answer \<times> rc_state" where
  "getConfig_rest env now force tid s =
     (let cached = mget tid (rcs_cache s);
          ttl = entry_ttl env cached;
          age_below = (\<lambda>limit. case cached of Some e \<Rightarrow> now - ce_fetchedAt e < limit | None \<Rightarrow> False)
      in if \<not> force \<and> age_below ttl then (Answer (ce_config (the cached)), s)
         else if \<not> client_configured env then (Answer (localFallback tid), s)
         else if \<not> force \<and> age_below (staleCeilingMs env)
           then (Answer (ce_config (the cached)), snd (refresh tid s))
         else (AwaitPull (fst (refresh tid s)) cached, snd (refresh tid s)))"

definition getConfig ::
  "rc_env \<Rightarrow> int \<Rightarrow> bool \<Rightarrow> string \<Rightarrow> rc_state \<Rightarrow> config_answer \<times> rc_state" where
  "getConfig env now force tid s =
     (if tid = [] then (Answer (localFallback ''unknown''), s)
      else if mget tid (rcs_cache s) = None \<and> \<not> force \<and> redis_enabled env
        then (AwaitRedis (rcs_next s),
              s\<lparr>rcs_reads := (rcs_reads s)(rcs_next s \<mapsto> (tid, rcs_redis s tid)), rcs_next := Suc (rcs_next s)\<rparr>)
      else getConfig_rest env now force tid s)"

text \<open>The Redis answer arrives: it is put into the cache, then the call goes on.\<close>

definition redis_reply :: "rc_env \<Rightarrow> int \<Rightarrow> nat \<Rightarrow> rc_state \<Rightarrow> config_answer option \<times> rc_state" where
  "redis_reply env now rid s = (case rcs_reads s rid of
      None \<Rightarrow> (None, s)
    | Some (tid, hit) \<Rightarrow>
        let s1 = s\<lparr>rcs_reads := (rcs_reads s)(rid := None)\<rparr>;
            s2 = (case hit of Some e \<Rightarrow> s1\<lparr>rcs_cache := mset tid e (rcs_cache s1)\<rparr> | None \<Rightarrow> s1);
            r = getConfig_rest env now False tid s2
        in (Some (fst r), snd r))"

definition evictIfFull :: "rc_state \<Rightarrow> rc_state" where
  "evictIfFull s =
     (if length (rcs_cache s) < MAX_TRACKED_TENANTS then s
      else case oldest ce_fetchedAt (rcs_cache s) of
        Some (oldestId, _) \<Rightarrow>
          if oldestId = [] then s
          else s\<lparr>rcs_cache := mdel oldestId (rcs_cache s), rcs_lastVersion := mdel oldestId (rcs_lastVersion s)\<rparr>
      | None \<Rightarrow> s)"

text \<open>The end of a pull, with the configuration it fetched; then the task leaves the in-flight map.\<close>

definition finish_task :: "nat \<Rightarrow> string \<Rightarrow> rc_state \<Rightarrow> rc_state" where
  "finish_task n tid s =
     (let s1 = s\<lparr>rcs_tasks := (rcs_tasks s)(n := None)\<rparr> in
      if mget tid (rcs_inFlight s1) = Some n then s1\<lparr>rcs_inFlight := mdel tid (rcs_inFlight s1)\<rparr> else s1)"

definition pull_done :: "int \<Rightarrow> nat \<Rightarrow> runtime_config \<Rightarrow> rc_state \<Rightarrow> rc_state" where
  "pull_done now n cfg s = (case rcs_tasks s n of
      None \<Rightarrow> s
    | Some t \<Rightarrow>
        let tid = pt_tenant t in
        if rcs_generation s tid \<noteq> pt_gen t \<or> rcs_global s \<noteq> pt_global t then finish_task n tid s
        else
          let s1 = evictIfFull s; e = \<lparr>ce_config = cfg, ce_fetchedAt = now\<rparr>
          in finish_task n tid
               (s1\<lparr>rcs_cache := mset tid e (rcs_cache s1),
                   rcs_redis := (rcs_redis s1)(tid \<mapsto> e),
                   rcs_lastVersion := mset tid (rc_configVersion cfg) (rcs_lastVersion s1)\<rparr>))"

definition pull_failed :: "nat \<Rightarrow> rc_state \<Rightarrow> rc_state" where
  "pull_failed n s = (case rcs_tasks s n of None \<Rightarrow> s | Some t \<Rightarrow> finish_task n (pt_tenant t) s)"

text \<open>What the waiting call of \<open>getConfig\<close> answers when its pull fails.\<close>

definition getConfig_error :: "string \<Rightarrow> cache_entry option \<Rightarrow> runtime_config" where
  "getConfig_error tid cached = failClosedConfig tid (map_option ce_config cached)"

definition invalidate_config :: "string option \<Rightarrow> rc_state \<Rightarrow> rc_state" where
  "invalidate_config tid s =
     (if truthy tid
      then let t = the tid in
        s\<lparr>rcs_cache := mdel t (rcs_cache s), rcs_inFlight := mdel t (rcs_inFlight s),
          rcs_generation := (rcs_generation s)(t := Suc (rcs_generation s t)),
          rcs_redis := (rcs_redis s)(t := None)\<rparr>
      else s\<lparr>rcs_cache := [], rcs_inFlight := [], rcs_global := Suc (rcs_global s)\<rparr>)"

text \<open>\<open>pullOrRegister\<close>: the answers of the control client, in the order they are asked for, are
  arguments; a failed call is \<open>Inl\<close> of its message.\<close>

definition contains :: "string \<Rightarrow> string \<Rightarrow> bool" where
  "contains s sub_text = list_ex (\<lambda>i. startsWith (drop i s) sub_text) [0..<Suc (length s)]"

definition tenant_missing :: "string \<Rightarrow> bool" where
  "tenant_missing msg = (contains msg ''404'' \<or> contains (toLowerCase msg) ''not registered'' \<or>
     contains (toLowerCase msg) ''tenant not found'')"

definition pullOrRegister ::
  "bool \<Rightarrow> string + runtime_config \<Rightarrow> bool \<Rightarrow> string + runtime_config \<Rightarrow> string + unit \<Rightarrow> string + runtime_config \<Rightarrow>
   string + runtime_config" where
  "pullOrRegister production fetched activated refetched registered registered_fetch =
     (case fetched of
        Inr cfg \<Rightarrow>
          if rc_status cfg = Suspended \<and> \<not> production
          then (if activated then (case refetched of Inr c \<Rightarrow> Inr c | Inl _ \<Rightarrow> Inr cfg) else Inr cfg)
          else Inr cfg
      | Inl msg \<Rightarrow>
          if \<not> tenant_missing msg then Inl msg
          else (case registered of Inl e \<Rightarrow> Inl e | Inr _ \<Rightarrow> registered_fetch))"

subsection \<open>Events\<close>

datatype rc_event =
    EvGet int bool string
  | EvRedis int nat
  | EvPulled int nat runtime_config
  | EvPullFailed nat
  | EvInvalidate "string option"

fun rc_step :: "rc_env \<Rightarrow> rc_event \<Rightarrow> rc_state \<Rightarrow> rc_state" where
  "rc_step env (EvGet now force tid) s = snd (getConfig env now force tid s)"
| "rc_step env (EvRedis now rid) s = snd (redis_reply env now rid s)"
| "rc_step env (EvPulled now n cfg) s = pull_done now n cfg s"
| "rc_step env (EvPullFailed n) s = pull_failed n s"
| "rc_step env (EvInvalidate tid) s = invalidate_config tid s"

subsection \<open>Generations never fall\<close>

definition rc_gen :: "rc_state \<Rightarrow> string option \<Rightarrow> nat" where
  "rc_gen s k = (case k of Some t \<Rightarrow> rcs_generation s t | None \<Rightarrow> rcs_global s)"

definition same_gens :: "rc_state \<Rightarrow> rc_state \<Rightarrow> bool" where
  "same_gens s s' \<longleftrightarrow> rcs_generation s' = rcs_generation s \<and> rcs_global s' = rcs_global s"

lemma refresh_frame [simp]:
  "rcs_generation (snd (refresh t s)) = rcs_generation s" "rcs_global (snd (refresh t s)) = rcs_global s"
  "rcs_cache (snd (refresh t s)) = rcs_cache s" "rcs_reads (snd (refresh t s)) = rcs_reads s"
  "rcs_redis (snd (refresh t s)) = rcs_redis s"
  by (simp_all add: refresh_def split: option.splits)

lemma rest_frame [simp]:
  "rcs_generation (snd (getConfig_rest env now f t s)) = rcs_generation s"
  "rcs_global (snd (getConfig_rest env now f t s)) = rcs_global s"
  "rcs_cache (snd (getConfig_rest env now f t s)) = rcs_cache s"
  "rcs_reads (snd (getConfig_rest env now f t s)) = rcs_reads s"
  by (simp_all add: getConfig_rest_def Let_def)

lemma finish_frame [simp]:
  "rcs_generation (finish_task n t s) = rcs_generation s" "rcs_global (finish_task n t s) = rcs_global s"
  "rcs_cache (finish_task n t s) = rcs_cache s" "rcs_reads (finish_task n t s) = rcs_reads s"
  "rcs_next (finish_task n t s) = rcs_next s" "rcs_tasks (finish_task n t s) = (rcs_tasks s)(n := None)"
  by (simp_all add: finish_task_def Let_def)

lemma evict_frame [simp]:
  "rcs_generation (evictIfFull s) = rcs_generation s" "rcs_global (evictIfFull s) = rcs_global s"
  "rcs_reads (evictIfFull s) = rcs_reads s" "rcs_next (evictIfFull s) = rcs_next s"
  "rcs_tasks (evictIfFull s) = rcs_tasks s"
  by (simp_all add: evictIfFull_def split: option.splits)

lemma rc_gen_step: "rc_gen s k \<le> rc_gen (rc_step env e s) k"
  by (cases e) (auto simp: rc_gen_def getConfig_def redis_reply_def pull_done_def pull_failed_def
      invalidate_config_def Let_def split: option.splits)

interpretation rcg: generation_guard rc_gen "rc_step env" for env
  by unfold_locales (rule rc_gen_step)

subsection \<open>Well-formed states\<close>

definition rc_wf :: "rc_env \<Rightarrow> rc_state \<Rightarrow> bool" where
  "rc_wf env s \<longleftrightarrow>
     (\<forall>n t. rcs_tasks s n = Some t \<longrightarrow> n < rcs_next s \<and> pt_tenant t \<noteq> [] \<and>
        pt_gen t \<le> rcs_generation s (pt_tenant t) \<and> pt_global t \<le> rcs_global s) \<and>
     (\<forall>n r. rcs_reads s n = Some r \<longrightarrow> redis_enabled env \<and> fst r \<noteq> []) \<and>
     wf_map (rcs_cache s) \<and> [] \<notin> fst ` set (rcs_cache s)"

lemma rc_wf_init: "rc_wf env rc_init"
  by (simp add: rc_wf_def rc_init_def)

lemma rc_wf_refresh: "rc_wf env s \<Longrightarrow> t \<noteq> [] \<Longrightarrow> rc_wf env (snd (refresh t s))"
  by (auto simp: rc_wf_def refresh_def less_SucI split: option.splits)

lemma rc_wf_rest: "rc_wf env s \<Longrightarrow> t \<noteq> [] \<Longrightarrow> rc_wf env (snd (getConfig_rest env now f t s))"
  by (auto simp: getConfig_rest_def Let_def rc_wf_refresh)

lemma rc_wf_get: "rc_wf env s \<Longrightarrow> rc_wf env (snd (getConfig env now f t s))"
  by (auto simp: getConfig_def rc_wf_rest) (auto simp: rc_wf_def less_SucI)

lemma rc_wf_redis: "rc_wf env s \<Longrightarrow> rc_wf env (snd (redis_reply env now r s))"
proof -
  assume wf: "rc_wf env s"
  show ?thesis
  proof (cases "rcs_reads s r")
    case (Some p)
    obtain t hit where p: "p = (t, hit)" by (cases p)
    define s2 where "s2 = (case hit of Some e \<Rightarrow> s\<lparr>rcs_reads := (rcs_reads s)(r := None),
        rcs_cache := mset t e (rcs_cache s)\<rparr> | None \<Rightarrow> s\<lparr>rcs_reads := (rcs_reads s)(r := None)\<rparr>)"
    have t: "t \<noteq> []" using wf Some p by (fastforce simp: rc_wf_def)
    have "rc_wf env s2" using wf t by (auto simp: rc_wf_def s2_def keys_mset split: option.splits)
    then have "rc_wf env (snd (getConfig_rest env now False t s2))" using t by (rule rc_wf_rest)
    then show ?thesis using Some p by (simp add: redis_reply_def s2_def Let_def cong: option.case_cong)
  qed (simp add: redis_reply_def wf)
qed

lemma rc_wf_finish: "rc_wf env s \<Longrightarrow> rc_wf env (finish_task n t s)"
  by (auto simp: rc_wf_def split: if_splits)

lemma cache_evict_subset: "set (rcs_cache (evictIfFull s)) \<subseteq> set (rcs_cache s)"
  by (auto simp: evictIfFull_def mdel_def split: option.splits)

lemma rc_wf_evict: "rc_wf env s \<Longrightarrow> rc_wf env (evictIfFull s)"
proof -
  assume wf: "rc_wf env s"
  then have "wf_map (rcs_cache (evictIfFull s))"
    by (auto simp: evictIfFull_def rc_wf_def split: option.splits)
  then show ?thesis using wf cache_evict_subset [of s] by (auto simp: rc_wf_def)
qed

lemma rc_wf_pulled: "rc_wf env s \<Longrightarrow> rc_wf env (pull_done now n cfg s)"
proof (cases "rcs_tasks s n")
  case (Some t)
  assume wf: "rc_wf env s"
  then have "pt_tenant t \<noteq> []" using Some by (auto simp: rc_wf_def)
  with rc_wf_evict [OF wf]
  have "rc_wf env ((evictIfFull s)\<lparr>rcs_cache := mset (pt_tenant t) e (rcs_cache (evictIfFull s)),
      rcs_redis := x, rcs_lastVersion := y\<rparr>)" for e x y
    by (auto simp: rc_wf_def keys_mset)
  then show ?thesis using wf Some by (auto simp: pull_done_def Let_def rc_wf_finish)
qed (simp add: pull_done_def)

lemma rc_wf_invalidate: "rc_wf env s \<Longrightarrow> rc_wf env (invalidate_config t s)"
  by (auto simp: rc_wf_def invalidate_config_def Let_def mdel_def wf_map_filter le_SucI) (metis le_SucI)

lemma rc_wf_step: "rc_wf env s \<Longrightarrow> rc_wf env (rc_step env e s)"
  by (cases e) (auto simp: rc_wf_get rc_wf_redis rc_wf_pulled rc_wf_invalidate pull_failed_def rc_wf_finish
      split: option.splits)

lemma rc_wf_run: "rc_wf env s \<Longrightarrow> rc_wf env (fold (rc_step env) es s)"
  by (induction es arbitrary: s) (auto simp: rc_wf_step)

subsection \<open>Stale pulls\<close>

definition stale_task :: "rc_state \<Rightarrow> pull_task \<Rightarrow> bool" where
  "stale_task s t \<longleftrightarrow> pt_gen t < rc_gen s (Some (pt_tenant t)) \<or> pt_global t < rc_gen s None"

lemma stale_task_step: "stale_task s t \<Longrightarrow> stale_task (rc_step env e s) t"
  unfolding stale_task_def by (metis rcg.gen_mono less_le_trans)

text \<open>Where a cached entry can come from in one event.\<close>

lemma cache_step_origin:
  assumes wf: "rc_wf env s" and redis: "\<not> redis_enabled env"
    and hit: "mget t (rcs_cache (rc_step env ev s)) = Some e"
  shows "mget t (rcs_cache s) = Some e \<or>
    (\<exists>now n cfg tk. ev = EvPulled now n cfg \<and> rcs_tasks s n = Some tk \<and> pt_tenant tk = t \<and>
       \<not> stale_task s tk \<and> e = \<lparr>ce_config = cfg, ce_fetchedAt = now\<rparr>)"
proof -
  have evict: "mget t (rcs_cache (evictIfFull s)) = Some e \<Longrightarrow> mget t (rcs_cache s) = Some e"
    by (auto simp: evictIfFull_def split: option.splits if_splits)
  have noreads: "rcs_reads s n = None" for n
    using wf redis by (cases "rcs_reads s n") (auto simp: rc_wf_def)
  show ?thesis
  proof (cases ev)
    case (EvPulled now n cfg)
    show ?thesis
    proof (cases "rcs_tasks s n")
      case (Some tk)
      have "\<not> (rcs_generation s (pt_tenant tk) \<noteq> pt_gen tk \<or> rcs_global s \<noteq> pt_global tk) \<Longrightarrow> \<not> stale_task s tk"
        by (simp add: stale_task_def rc_gen_def)
      with hit EvPulled Some evict show ?thesis
        by (auto simp: pull_done_def Let_def split: if_splits)
    qed (use hit EvPulled in \<open>simp add: pull_done_def\<close>)
  next
    case (EvRedis now n)
    with hit noreads show ?thesis by (simp add: redis_reply_def)
  qed (use hit redis in \<open>auto simp: getConfig_def pull_failed_def invalidate_config_def Let_def
        split: option.splits if_splits\<close>)
qed

lemma tasks_step_origin:
  assumes "rcs_tasks (rc_step env ev s) n = Some tk" and "n < rcs_next s"
  shows "rcs_tasks s n = Some tk"
  using assms
  by (cases ev) (auto simp: getConfig_def getConfig_rest_def refresh_def redis_reply_def pull_done_def pull_failed_def
      invalidate_config_def Let_def split: option.splits if_splits)

lemma next_step_mono: "rcs_next s \<le> rcs_next (rc_step env ev s)"
  by (cases ev) (auto simp: getConfig_def getConfig_rest_def refresh_def redis_reply_def pull_done_def
      pull_failed_def invalidate_config_def Let_def split: option.splits)

definition pulled_after :: "nat \<Rightarrow> rc_event list \<Rightarrow> cache_entry \<Rightarrow> bool" where
  "pulled_after n0 es e \<longleftrightarrow>
     (\<exists>now n cfg. EvPulled now n cfg \<in> set es \<and> n0 \<le> n \<and> e = \<lparr>ce_config = cfg, ce_fetchedAt = now\<rparr>)"

lemma no_stale_write_run:
  assumes redis: "\<not> redis_enabled env" and wf: "rc_wf env s"
    and stale: "\<And>n tk. rcs_tasks s n = Some tk \<Longrightarrow> pt_tenant tk = t \<Longrightarrow> stale_task s tk"
    and empty: "mget t (rcs_cache s) = None"
  shows "(\<forall>e. mget t (rcs_cache (fold (rc_step env) es s)) = Some e \<longrightarrow> pulled_after (rcs_next s) es e) \<and>
    (\<forall>n tk. rcs_tasks (fold (rc_step env) es s) n = Some tk \<longrightarrow> pt_tenant tk = t \<longrightarrow> n < rcs_next s \<longrightarrow>
        stale_task (fold (rc_step env) es s) tk) \<and>
    rcs_next s \<le> rcs_next (fold (rc_step env) es s)"
proof (induction es rule: rev_induct)
  case Nil
  then show ?case using stale empty by simp
next
  case (snoc ev es)
  let ?u = "fold (rc_step env) es s"
  have wfu: "rc_wf env ?u" using wf by (rule rc_wf_run)
  have mono: "rcs_next s \<le> rcs_next ?u" using snoc.IH by blast
  have "pulled_after (rcs_next s) (es @ [ev]) e"
    if hit: "mget t (rcs_cache (rc_step env ev ?u)) = Some e" for e
    using cache_step_origin [OF wfu redis hit]
  proof
    assume "mget t (rcs_cache ?u) = Some e"
    with snoc.IH show ?thesis by (auto simp: pulled_after_def)
  next
    assume "\<exists>now n cfg tk. ev = EvPulled now n cfg \<and> rcs_tasks ?u n = Some tk \<and> pt_tenant tk = t \<and>
       \<not> stale_task ?u tk \<and> e = \<lparr>ce_config = cfg, ce_fetchedAt = now\<rparr>"
    then obtain now n cfg tk where ev: "ev = EvPulled now n cfg" and tk: "rcs_tasks ?u n = Some tk"
      "pt_tenant tk = t" "\<not> stale_task ?u tk" and e: "e = \<lparr>ce_config = cfg, ce_fetchedAt = now\<rparr>" by blast
    have "rcs_next s \<le> n" by (rule ccontr) (use snoc.IH tk in auto)
    with ev e show ?thesis by (auto simp: pulled_after_def)
  qed
  moreover have "stale_task (rc_step env ev ?u) tk"
    if "rcs_tasks (rc_step env ev ?u) n = Some tk" "pt_tenant tk = t" "n < rcs_next s" for n tk
    using that tasks_step_origin [of env ev ?u n tk] snoc.IH mono
    by (auto intro: stale_task_step)
  ultimately show ?case using mono next_step_mono [of ?u env ev] by auto
qed

lemma invalidate_stales:
  assumes wf: "rc_wf env s" and "or_null x = Some t \<or> or_null x = None"
    and "rcs_tasks (invalidate_config x s) n = Some tk" and "pt_tenant tk = t"
  shows "stale_task (invalidate_config x s) tk"
proof -
  from assms(3) have "rcs_tasks s n = Some tk" by (simp add: invalidate_config_def Let_def split: if_splits)
  with wf have "pt_gen tk \<le> rcs_generation s (pt_tenant tk)" "pt_global tk \<le> rcs_global s"
    by (auto simp: rc_wf_def)
  with assms(2,4) show ?thesis
    by (auto simp: stale_task_def rc_gen_def invalidate_config_def Let_def or_null_Some_iff or_null_None_iff)
qed

lemma invalidate_empties:
  "or_null x = Some t \<or> or_null x = None \<Longrightarrow> mget t (rcs_cache (invalidate_config x s)) = None"
  by (auto simp: invalidate_config_def Let_def or_null_Some_iff or_null_None_iff)

subsection \<open>Properties\<close>

text \<open>C27: the webhook wins over pulls under way: without Redis, whatever happens after an
  invalidation of tenant \<open>t\<close> (or of all tenants), an entry cached for \<open>t\<close> was fetched by a pull that
  started after the invalidation; a pull started before it never writes its configuration back.\<close>

theorem no_stale_write_after_invalidate:
  assumes "\<not> redis_enabled env" and "or_null x = Some t \<or> or_null x = None"
    and "s = fold (rc_step env) before rc_init"
    and "mget t (rcs_cache (fold (rc_step env) after (invalidate_config x s))) = Some e"
  shows "\<exists>now n cfg. EvPulled now n cfg \<in> set after \<and> rcs_next s \<le> n \<and>
           e = \<lparr>ce_config = cfg, ce_fetchedAt = now\<rparr>"
proof -
  have wf: "rc_wf env s" unfolding assms(3) by (rule rc_wf_run [OF rc_wf_init])
  have nx: "rcs_next (invalidate_config x s) = rcs_next s"
    by (simp add: invalidate_config_def Let_def)
  from no_stale_write_run [OF assms(1) rc_wf_invalidate [OF wf] invalidate_stales [OF wf assms(2)]
      invalidate_empties [OF assms(2)]] assms(4)
  have "pulled_after (rcs_next s) after e" by (auto simp: nx)
  then show ?thesis by (simp add: pulled_after_def)
qed

definition sample_env :: rc_env where
  "sample_env = \<lparr>redis_enabled = False, client_configured = True, ttl_setting = 60, ceiling_setting = 300\<rparr>"

definition sample_config :: runtime_config where
  "sample_config = (localFallback ''t'')\<lparr>rc_features := [''fees.gateway'' \<mapsto> True], rc_configVersion := 1\<rparr>"

lemmas rc_run_defs = sample_env_def rc_init_def getConfig_def getConfig_rest_def entry_ttl_def refresh_def
  defaultTtlMs_def staleCeilingMs_def pull_done_def finish_task_def evictIfFull_def MAX_TRACKED_TENANTS_def
  invalidate_config_def redis_reply_def Let_def mget_def mdel_def

theorem no_stale_write_after_invalidate_witness:
  "\<exists>now n cfg. EvPulled now n cfg \<in> set [EvGet 5 False ''t'', EvPulled 6 0 sample_config, EvPulled 7 1 sample_config] \<and>
     rcs_next (fold (rc_step sample_env) [EvGet 0 False ''t''] rc_init) \<le> n \<and>
     \<lparr>ce_config = sample_config, ce_fetchedAt = 7\<rparr> = \<lparr>ce_config = cfg, ce_fetchedAt = now\<rparr>"
proof (rule no_stale_write_after_invalidate [where env = sample_env and x = "Some ''t''" and t = "''t''"
      and before = "[EvGet 0 False ''t'']", OF _ _ refl])
  show "\<not> redis_enabled sample_env" by (simp add: sample_env_def)
  show "mget ''t'' (rcs_cache (fold (rc_step sample_env) [EvGet 5 False ''t'', EvPulled 6 0 sample_config, EvPulled 7 1 sample_config]
      (invalidate_config (Some ''t'') (fold (rc_step sample_env) [EvGet 0 False ''t''] rc_init)))) =
    Some \<lparr>ce_config = sample_config, ce_fetchedAt = 7\<rparr>"
    by (simp add: rc_run_defs)
qed simp_all



text \<open>bounded staleness: with the control client configured, an answer that did not wait for a pull
  is the cached configuration, younger than its lifetime or the stale ceiling, and in any case
  younger than 15 minutes; a forced read always waits for a pull.\<close>

theorem served_age_bounded:
  assumes "client_configured env" and "fst (getConfig_rest env now force tid s) = Answer c"
  shows "\<not> force \<and> (\<exists>e. mget tid (rcs_cache s) = Some e \<and> c = ce_config e \<and>
    now - ce_fetchedAt e < max (entry_ttl env (Some e)) (staleCeilingMs env) \<and>
    now - ce_fetchedAt e < 900000)"
proof -
  have "staleCeilingMs env \<le> 900000" by (simp add: staleCeilingMs_def)
  moreover have "entry_ttl env x \<le> 60000" for x
    by (auto simp: entry_ttl_def defaultTtlMs_def split: option.splits)
  ultimately have bound: "entry_ttl env x \<le> 60000 \<and> staleCeilingMs env \<le> 900000" for x
    by blast
  show ?thesis
  proof (cases "mget tid (rcs_cache s)")
    case None
    with assms show ?thesis by (simp add: getConfig_rest_def Let_def)
  next
    case (Some e)
    have "entry_ttl env (Some e) \<le> 60000" "staleCeilingMs env \<le> 900000"
      using bound by blast+
    with Some assms show ?thesis
      by (simp add: getConfig_rest_def Let_def less_max_iff_disj split: if_splits)
  qed
qed

theorem served_age_bounded_witness:
  "\<exists>e. mget ''t'' [(''t'', \<lparr>ce_config = sample_config, ce_fetchedAt = 0\<rparr>)] = Some e \<and> 200000 - ce_fetchedAt e < 900000"
proof -
  let ?s = "rc_init\<lparr>rcs_cache := [(''t'', \<lparr>ce_config = sample_config, ce_fetchedAt = 0\<rparr>)]\<rparr>"
  have "fst (getConfig_rest sample_env 200000 False ''t'' ?s) = Answer sample_config"
    by (simp add: rc_run_defs sample_config_def localFallback_def)
  from served_age_bounded [OF _ this] show ?thesis by (auto simp: sample_env_def)
qed

text \<open>A global invalidation does not reach Redis: with Redis enabled the next read serves the
  configuration from before the flush.\<close>

lemma global_flush_misses_redis:
  "let env = sample_env\<lparr>redis_enabled := True\<rparr>;
       s = fold (rc_step env) [EvGet 0 False ''t'', EvRedis 0 0, EvPulled 1 1 sample_config, EvInvalidate None,
                               EvGet 2 False ''t''] rc_init
   in mget ''t'' (rcs_cache s) = None \<and> fst (redis_reply env 2 2 s) = Some (Answer sample_config)"
  by (simp add: rc_run_defs sample_config_def localFallback_def)

text \<open>Filling the cache from Redis skips the eviction, so the cap of 500 tenants does not hold.\<close>

lemma redis_fill_skips_eviction:
  assumes "rcs_reads s r = Some (t, Some e)" and "mget t (rcs_cache s) = None"
  shows "length (rcs_cache (snd (redis_reply env now r s))) = Suc (length (rcs_cache s))"
  using assms by (simp add: redis_reply_def Let_def length_mset)

end
