(* ===== verification/ListCache.thy ===== *)
theory ListCache
  imports JsMap
begin

section \<open>The list cache\<close>

text \<open>
  \<open>common/cache/list-cache.service.ts\<close>: list answers cached under a key that starts with
  \<open>tenant:<id>:\<close>.  A load is a numbered task; its \<open>then\<close> (store the value) and its \<open>finally\<close> (leave
  the in-flight map) are separate events.  Values are copied on every read and write, so a value
  is a plain value here.
\<close>

record 'v list_entry =
  le_value :: 'v
  touchedAt :: int
  expiresAt :: int

record load_task =
  lt_key :: string
  lt_gen :: nat
  lt_ttl :: int

record 'v lc_state =
  lcs_entries :: "(string, 'v list_entry) jsmap"
  lcs_inFlight :: "(string, nat) jsmap"
  lcs_generations :: "(string, nat) jsmap"
  lcs_loads :: "nat \<rightharpoonup> load_task"      \<comment> \<open>loads whose \<open>then\<close> has not run\<close>
  lcs_keys :: "nat \<rightharpoonup> string"          \<comment> \<open>the key of every load started\<close>
  lcs_next :: nat

definition lc_init :: "'v lc_state" where
  "lc_init = \<lparr>lcs_entries = [], lcs_inFlight = [], lcs_generations = [], lcs_loads = Map.empty,
     lcs_keys = Map.empty, lcs_next = 0\<rparr>"

definition MAX_ENTRIES :: nat where
  "MAX_ENTRIES = 5000"

text \<open>\<open>LIST_CACHE_TTL_MS\<close>, 45 seconds when unset, and never under a second.\<close>

definition lc_defaultTtlMs :: "int option \<Rightarrow> int" where
  "lc_defaultTtlMs env = max 1000 (case env of Some t \<Rightarrow> if t = 0 then 45000 else t | None \<Rightarrow> 45000)"

definition generation_of :: "string \<Rightarrow> 'v lc_state \<Rightarrow> nat" where
  "generation_of k s = (case mget k (lcs_generations s) of Some g \<Rightarrow> g | None \<Rightarrow> 0)"

definition lc_evict :: "string \<Rightarrow> (string, 'v list_entry) jsmap \<Rightarrow> (string, 'v list_entry) jsmap" where
  "lc_evict key m =
     (if MAX_ENTRIES \<le> length m \<and> mget key m = None
      then case oldest touchedAt m of
             Some (oldestKey, _) \<Rightarrow> if oldestKey = [] then m else mdel oldestKey m
           | None \<Rightarrow> m
      else m)"

definition lc_set :: "int \<Rightarrow> string \<Rightarrow> 'v \<Rightarrow> int \<Rightarrow> 'v lc_state \<Rightarrow> 'v lc_state" where
  "lc_set now key v ttl s = s\<lparr>lcs_entries := mset key
     \<lparr>le_value = v, touchedAt = now, expiresAt = now + max 1000 ttl\<rparr> (lc_evict key (lcs_entries s))\<rparr>"

datatype 'v load_answer = Cached 'v | AwaitLoad nat

text \<open>The part of \<open>getOrLoad\<close> after the cached entry was refused: join the pending load or start one.\<close>

definition lc_load :: "int option \<Rightarrow> string \<Rightarrow> int option \<Rightarrow> 'v lc_state \<Rightarrow> 'v load_answer \<times> 'v lc_state" where
  "lc_load env key ttlMs s = (case mget key (lcs_inFlight s) of
      Some n \<Rightarrow> (AwaitLoad n, s)
    | None \<Rightarrow>
        let n = lcs_next s;
            ttl = (case ttlMs of Some t \<Rightarrow> if 0 < t then t else lc_defaultTtlMs env | None \<Rightarrow> lc_defaultTtlMs env)
        in (AwaitLoad n,
            s\<lparr>lcs_loads := (lcs_loads s)(n \<mapsto> \<lparr>lt_key = key, lt_gen = generation_of key s, lt_ttl = ttl\<rparr>),
              lcs_keys := (lcs_keys s)(n \<mapsto> key),
              lcs_inFlight := mset key n (lcs_inFlight s), lcs_next := Suc n\<rparr>))"

definition getOrLoad ::
  "int option \<Rightarrow> int \<Rightarrow> string \<Rightarrow> bool \<Rightarrow> int option \<Rightarrow> 'v lc_state \<Rightarrow> 'v load_answer \<times> 'v lc_state" where
  "getOrLoad env now key force ttlMs s =
     (if force then lc_load env key ttlMs s
      else case mget key (lcs_entries s) of
        Some e \<Rightarrow>
          if now < expiresAt e
          then (Cached (le_value e), s\<lparr>lcs_entries := mset key (e\<lparr>touchedAt := now\<rparr>) (lcs_entries s)\<rparr>)
          else lc_load env key ttlMs (s\<lparr>lcs_entries := mdel key (lcs_entries s)\<rparr>)
      | None \<Rightarrow> lc_load env key ttlMs s)"

definition load_then :: "int \<Rightarrow> nat \<Rightarrow> 'v \<Rightarrow> 'v lc_state \<Rightarrow> 'v lc_state" where
  "load_then now n v s = (case lcs_loads s n of
      None \<Rightarrow> s
    | Some t \<Rightarrow>
        let s1 = s\<lparr>lcs_loads := (lcs_loads s)(n := None)\<rparr> in
        if generation_of (lt_key t) s1 = lt_gen t then lc_set now (lt_key t) v (lt_ttl t) s1 else s1)"

text \<open>A rejected loader has no \<open>then\<close>: its \<open>finally\<close> also ends the load.\<close>

definition load_finally :: "nat \<Rightarrow> 'v lc_state \<Rightarrow> 'v lc_state" where
  "load_finally n s = (case lcs_keys s n of
      None \<Rightarrow> s
    | Some key \<Rightarrow>
        let s1 = s\<lparr>lcs_loads := (lcs_loads s)(n := None)\<rparr> in
        if mget key (lcs_inFlight s1) = Some n then s1\<lparr>lcs_inFlight := mdel key (lcs_inFlight s1)\<rparr> else s1)"

definition bump :: "string \<Rightarrow> (string, nat) jsmap \<Rightarrow> (string, nat) jsmap" where
  "bump key m = mset key (Suc (case mget key m of Some g \<Rightarrow> g | None \<Rightarrow> 0)) m"

definition lc_invalidate :: "string \<Rightarrow> 'v lc_state \<Rightarrow> 'v lc_state" where
  "lc_invalidate prefix s =
     s\<lparr>lcs_entries := filter (\<lambda>e. \<not> startsWith (fst e) prefix) (lcs_entries s),
       lcs_inFlight := filter (\<lambda>e. \<not> startsWith (fst e) prefix) (lcs_inFlight s),
       lcs_generations := fold bump (filter (\<lambda>k. startsWith k prefix) (map fst (lcs_inFlight s))) (lcs_generations s)\<rparr>"

definition tenant_prefix :: "string \<Rightarrow> string" where
  "tenant_prefix tid = ''tenant:'' @ tid @ '':''"

definition invalidateTenant :: "string \<Rightarrow> 'v lc_state \<Rightarrow> 'v lc_state" where
  "invalidateTenant tid = lc_invalidate (tenant_prefix tid)"

definition lc_clear :: "'v lc_state \<Rightarrow> 'v lc_state" where
  "lc_clear s = s\<lparr>lcs_entries := [], lcs_inFlight := [], lcs_generations := []\<rparr>"

datatype 'v lc_event =
    LcGet int string bool "int option"
  | LcThen int nat 'v
  | LcFinally nat
  | LcSet int string 'v int
  | LcInvalidate string

fun lc_step :: "int option \<Rightarrow> 'v lc_event \<Rightarrow> 'v lc_state \<Rightarrow> 'v lc_state" where
  "lc_step env (LcGet now key force ttl) s = snd (getOrLoad env now key force ttl s)"
| "lc_step env (LcThen now n v) s = load_then now n v s"
| "lc_step env (LcFinally n) s = load_finally n s"
| "lc_step env (LcSet now key v ttl) s = lc_set now key v ttl s"
| "lc_step env (LcInvalidate prefix) s = lc_invalidate prefix s"

subsection \<open>Generations\<close>

lemma mget_bumps:
  "mget k (fold bump ks m) =
     (if k \<in> set ks then Some ((case mget k m of Some g \<Rightarrow> g | None \<Rightarrow> 0) + count_list ks k) else mget k m)"
  by (induction ks arbitrary: m) (auto simp: bump_def)

definition lc_gen :: "'v lc_state \<Rightarrow> string \<Rightarrow> nat" where
  "lc_gen s k = generation_of k s"

lemma count_list_distinct: "distinct xs \<Longrightarrow> count_list xs x = (if x \<in> set xs then 1 else 0)"
  by (induction xs) auto

lemma lc_set_frame [simp]:
  "lcs_generations (lc_set now k v ttl s) = lcs_generations s" "lcs_inFlight (lc_set now k v ttl s) = lcs_inFlight s"
  "lcs_loads (lc_set now k v ttl s) = lcs_loads s" "lcs_keys (lc_set now k v ttl s) = lcs_keys s"
  "lcs_next (lc_set now k v ttl s) = lcs_next s"
  by (simp_all add: lc_set_def)

lemma lc_load_frame [simp]:
  "lcs_generations (snd (lc_load env k ttl s)) = lcs_generations s"
  "lcs_entries (snd (lc_load env k ttl s)) = lcs_entries s"
  by (simp_all add: lc_load_def Let_def split: option.splits)

lemma getOrLoad_generations [simp]: "lcs_generations (snd (getOrLoad env now k f ttl s)) = lcs_generations s"
  by (simp add: getOrLoad_def split: option.splits)

lemma lc_gen_step: "lc_gen s k \<le> lc_gen (lc_step env e s) k"
proof (cases e)
  case (LcInvalidate prefix)
  then show ?thesis
    by (auto simp: lc_gen_def generation_of_def lc_invalidate_def mget_bumps split: option.splits)
qed (auto simp: lc_gen_def generation_of_def load_then_def load_finally_def Let_def split: option.splits)

interpretation lcg: generation_guard lc_gen "lc_step env" for env
  by unfold_locales (rule lc_gen_step)

subsection \<open>Well-formed caches\<close>

definition lc_wf :: "'v lc_state \<Rightarrow> bool" where
  "lc_wf s \<longleftrightarrow> wf_map (lcs_entries s) \<and> wf_map (lcs_inFlight s) \<and>
     (\<forall>n t. lcs_loads s n = Some t \<longrightarrow> n < lcs_next s \<and> lcs_keys s n = Some (lt_key t) \<and>
        lt_gen t \<le> generation_of (lt_key t) s \<and>
        (lt_gen t = generation_of (lt_key t) s \<longrightarrow> mget (lt_key t) (lcs_inFlight s) = Some n))"

lemma lc_wf_init: "lc_wf lc_init"
  by (simp add: lc_wf_def lc_init_def)

lemma lc_wfI:
  assumes "wf_map (lcs_entries s)" "wf_map (lcs_inFlight s)"
    and "\<And>n t. lcs_loads s n = Some t \<Longrightarrow> n < lcs_next s \<and> lcs_keys s n = Some (lt_key t) \<and>
        lt_gen t \<le> generation_of (lt_key t) s \<and>
        (lt_gen t = generation_of (lt_key t) s \<longrightarrow> mget (lt_key t) (lcs_inFlight s) = Some n)"
  shows "lc_wf s"
  using assms by (simp add: lc_wf_def)

lemma lc_wf_load:
  assumes "lc_wf s" and "lcs_loads s n = Some t"
  shows "n < lcs_next s" "lcs_keys s n = Some (lt_key t)" "lt_gen t \<le> generation_of (lt_key t) s"
    "lt_gen t = generation_of (lt_key t) s \<Longrightarrow> mget (lt_key t) (lcs_inFlight s) = Some n"
  using assms by (auto simp: lc_wf_def)

lemma lc_wf_maps: "lc_wf s \<Longrightarrow> wf_map (lcs_entries s)" "lc_wf s \<Longrightarrow> wf_map (lcs_inFlight s)"
  by (auto simp: lc_wf_def)

lemma wf_lc_evict [simp]: "wf_map m \<Longrightarrow> wf_map (lc_evict k m)"
  by (simp add: lc_evict_def split: option.splits)

lemma mget_lc_evict: "mget k' (lc_evict k m) = Some e \<Longrightarrow> mget k' m = Some e"
  by (auto simp: lc_evict_def split: if_splits option.splits)

lemma lc_wf_entries: "lc_wf s \<Longrightarrow> wf_map es \<Longrightarrow> lc_wf (s\<lparr>lcs_entries := es\<rparr>)"
  by (auto simp: lc_wf_def generation_of_def)

lemma lc_wf_set: "lc_wf s \<Longrightarrow> lc_wf (lc_set now k v ttl s)"
  by (simp add: lc_set_def lc_wf_entries lc_wf_maps)

lemma lc_wf_start:
  assumes wf: "lc_wf s"
  shows "lc_wf (snd (lc_load env k ttl s))"
proof (cases "mget k (lcs_inFlight s)")
  case None
  show ?thesis
  proof (rule lc_wfI)
    fix n t assume "lcs_loads (snd (lc_load env k ttl s)) n = Some t"
    with None lc_wf_load [OF wf, of n t]
    show "n < lcs_next (snd (lc_load env k ttl s)) \<and>
        lcs_keys (snd (lc_load env k ttl s)) n = Some (lt_key t) \<and>
        lt_gen t \<le> generation_of (lt_key t) (snd (lc_load env k ttl s)) \<and>
        (lt_gen t = generation_of (lt_key t) (snd (lc_load env k ttl s)) \<longrightarrow>
         mget (lt_key t) (lcs_inFlight (snd (lc_load env k ttl s))) = Some n)"
      by (auto simp: lc_load_def Let_def generation_of_def split: if_splits)
  qed (use None wf in \<open>simp_all add: lc_load_def Let_def lc_wf_maps\<close>)
qed (simp add: lc_load_def wf)

lemma lc_wf_get:
  assumes wf: "lc_wf s"
  shows "lc_wf (snd (getOrLoad env now k force ttl s))"
  using wf by (auto simp: getOrLoad_def lc_wf_start lc_wf_entries lc_wf_maps split: option.splits)

lemma lc_wf_drop_load: "lc_wf s \<Longrightarrow> lc_wf (s\<lparr>lcs_loads := (lcs_loads s)(n := None)\<rparr>)"
  by (auto simp: lc_wf_def generation_of_def)

lemma lc_wf_then: "lc_wf s \<Longrightarrow> lc_wf (load_then now n v s)"
  by (simp add: load_then_def Let_def lc_wf_drop_load lc_wf_set split: option.splits)

lemma lc_wf_finally:
  assumes wf: "lc_wf s"
  shows "lc_wf (load_finally n s)"
proof (cases "lcs_keys s n")
  case (Some k)
  show ?thesis
  proof (rule lc_wfI)
    fix m t assume "lcs_loads (load_finally n s) m = Some t"
    with Some lc_wf_load [OF wf, of m t]
    show "m < lcs_next (load_finally n s) \<and> lcs_keys (load_finally n s) m = Some (lt_key t) \<and>
        lt_gen t \<le> generation_of (lt_key t) (load_finally n s) \<and>
        (lt_gen t = generation_of (lt_key t) (load_finally n s) \<longrightarrow>
         mget (lt_key t) (lcs_inFlight (load_finally n s)) = Some m)"
      by (auto simp: load_finally_def Let_def generation_of_def split: if_splits)
  qed (use Some wf in \<open>simp_all add: load_finally_def Let_def lc_wf_maps\<close>)
qed (simp add: load_finally_def wf)

lemma invalidate_generation:
  assumes "wf_map (lcs_inFlight s)"
  shows "generation_of k (lc_invalidate p s) = generation_of k s +
    (if startsWith k p \<and> mget k (lcs_inFlight s) \<noteq> None then 1 else 0)"
proof -
  let ?ks = "filter (\<lambda>k. startsWith k p) (map fst (lcs_inFlight s))"
  have "distinct ?ks" using assms by (simp add: wf_map_def)
  then have "count_list ?ks k = (if k \<in> set ?ks then 1 else 0)" by (rule count_list_distinct)
  moreover have "k \<in> set ?ks \<longleftrightarrow> startsWith k p \<and> mget k (lcs_inFlight s) \<noteq> None"
    by (auto simp: mget_None_iff)
  ultimately show ?thesis
    by (auto simp: generation_of_def lc_invalidate_def mget_bumps split: option.splits)
qed

lemma mget_invalidate:
  assumes "lc_wf s"
  shows "mget k (lcs_entries (lc_invalidate p s)) = (if startsWith k p then None else mget k (lcs_entries s))"
    and "mget k (lcs_inFlight (lc_invalidate p s)) = (if startsWith k p then None else mget k (lcs_inFlight s))"
  using mget_filter_key [OF lc_wf_maps(1) [OF assms], of k "\<lambda>k. \<not> startsWith k p"]
    mget_filter_key [OF lc_wf_maps(2) [OF assms], of k "\<lambda>k. \<not> startsWith k p"]
  by (simp_all add: lc_invalidate_def)

lemma invalidate_loads [simp]:
  "lcs_loads (lc_invalidate p s) = lcs_loads s" "lcs_keys (lc_invalidate p s) = lcs_keys s"
  "lcs_next (lc_invalidate p s) = lcs_next s"
  by (simp_all add: lc_invalidate_def)

text \<open>An invalidation outdates every load of a matching key.\<close>

lemma invalidate_outdates:
  assumes wf: "lc_wf s" and "lcs_loads s n = Some t" and "startsWith (lt_key t) p"
  shows "lt_gen t < generation_of (lt_key t) (lc_invalidate p s)"
  using lc_wf_load [OF wf assms(2)] assms(3)
  by (cases "lt_gen t = generation_of (lt_key t) s") (auto simp: invalidate_generation [OF lc_wf_maps(2) [OF wf]])

lemma lc_wf_invalidate:
  assumes wf: "lc_wf s"
  shows "lc_wf (lc_invalidate p s)"
proof (rule lc_wfI)
  fix n t assume "lcs_loads (lc_invalidate p s) n = Some t"
  then have t: "lcs_loads s n = Some t" by simp
  show "n < lcs_next (lc_invalidate p s) \<and> lcs_keys (lc_invalidate p s) n = Some (lt_key t) \<and>
      lt_gen t \<le> generation_of (lt_key t) (lc_invalidate p s) \<and>
      (lt_gen t = generation_of (lt_key t) (lc_invalidate p s) \<longrightarrow>
       mget (lt_key t) (lcs_inFlight (lc_invalidate p s)) = Some n)"
  proof (cases "startsWith (lt_key t) p")
    case True
    from invalidate_outdates [OF wf t True] lc_wf_load(1,2) [OF wf t] show ?thesis by simp
  next
    case False
    with lc_wf_load [OF wf t] show ?thesis
      by (simp add: mget_invalidate [OF wf] invalidate_generation [OF lc_wf_maps(2) [OF wf]])
  qed
qed (use wf in \<open>auto simp: lc_invalidate_def lc_wf_maps wf_map_filter\<close>)

lemmas lc_wf_ops = lc_wf_get lc_wf_then lc_wf_finally lc_wf_set lc_wf_invalidate

lemma lc_wf_step: "lc_wf s \<Longrightarrow> lc_wf (lc_step env e s)"
  by (cases e) (simp_all add: lc_wf_ops)

lemma lc_wf_run: "lc_wf s \<Longrightarrow> lc_wf (fold (lc_step env) es s)"
  by (induction es arbitrary: s) (auto simp: lc_wf_step)

subsection \<open>What follows an invalidation\<close>

text \<open>Values a later event brought in: written by \<open>set\<close>, or by a load numbered \<open>N\<close> or above.\<close>

definition fresh_value :: "'v lc_event list \<Rightarrow> nat \<Rightarrow> 'v \<Rightarrow> bool" where
  "fresh_value es N v \<longleftrightarrow> (\<exists>now n. LcThen now n v \<in> set es \<and> N \<le> n) \<or> (\<exists>now k ttl. LcSet now k v ttl \<in> set es)"

definition lc_fresh :: "'v lc_event list \<Rightarrow> nat \<Rightarrow> string \<Rightarrow> 'v lc_state \<Rightarrow> bool" where
  "lc_fresh es N p s \<longleftrightarrow> lc_wf s \<and> N \<le> lcs_next s \<and>
     (\<forall>n t. lcs_loads s n = Some t \<and> n < N \<and> startsWith (lt_key t) p \<longrightarrow> lt_gen t < generation_of (lt_key t) s) \<and>
     (\<forall>k e. mget k (lcs_entries s) = Some e \<and> startsWith k p \<longrightarrow> fresh_value es N (le_value e))"

lemma lc_freshD:
  assumes "lc_fresh es N p s"
  shows "lc_wf s" "N \<le> lcs_next s"
    "lcs_loads s n = Some t \<Longrightarrow> n < N \<Longrightarrow> startsWith (lt_key t) p \<Longrightarrow> lt_gen t < generation_of (lt_key t) s"
    "mget k (lcs_entries s) = Some e \<Longrightarrow> startsWith k p \<Longrightarrow> fresh_value es N (le_value e)"
  using assms by (auto simp: lc_fresh_def)

lemma lc_fresh_entries:
  assumes "lc_fresh es N p s" "wf_map m"
    and "\<And>k e. mget k m = Some e \<Longrightarrow> startsWith k p \<Longrightarrow> fresh_value es N (le_value e)"
  shows "lc_fresh es N p (s\<lparr>lcs_entries := m\<rparr>)"
  using assms by (auto simp: lc_fresh_def lc_wf_entries generation_of_def)

lemma lc_fresh_set:
  assumes f: "lc_fresh es N p s" and v: "startsWith k p \<Longrightarrow> fresh_value es N v"
  shows "lc_fresh es N p (lc_set now k v ttl s)"
  unfolding lc_set_def
proof (rule lc_fresh_entries [OF f])
  show "wf_map (mset k \<lparr>le_value = v, touchedAt = now, expiresAt = now + max 1000 ttl\<rparr> (lc_evict k (lcs_entries s)))"
    using lc_freshD(1) [OF f] by (simp add: lc_wf_maps)
qed (use v lc_freshD(4) [OF f] in \<open>auto dest: mget_lc_evict split: if_splits\<close>)

lemma lc_fresh_load:
  assumes f: "lc_fresh es N p s"
  shows "lc_fresh es N p (snd (lc_load env k ttl s))"
proof -
  have N: "N \<le> lcs_next s" by (rule lc_freshD(2) [OF f])
  have "lt_gen t < generation_of (lt_key t) (snd (lc_load env k ttl s))"
    if "lcs_loads (snd (lc_load env k ttl s)) n = Some t" "n < N" "startsWith (lt_key t) p" for n t
    using that N lc_freshD(3) [OF f, of n t]
    by (auto simp: lc_load_def Let_def generation_of_def split: option.splits if_splits)
  moreover have "N \<le> lcs_next (snd (lc_load env k ttl s))"
    using N by (auto simp: lc_load_def Let_def split: option.splits)
  ultimately show ?thesis
    using lc_wf_start [OF lc_freshD(1) [OF f]] lc_freshD(4) [OF f] unfolding lc_fresh_def by auto
qed

lemma lc_fresh_get:
  assumes f: "lc_fresh es N p s"
  shows "lc_fresh es N p (snd (getOrLoad env now k force ttl s))"
proof (cases "force \<or> mget k (lcs_entries s) = None")
  case True
  then show ?thesis by (auto simp: getOrLoad_def lc_fresh_load [OF f])
next
  case False
  then obtain e where e: "\<not> force" "mget k (lcs_entries s) = Some e" by auto
  note wf = lc_wf_maps(1) [OF lc_freshD(1) [OF f]]
  show ?thesis
  proof (cases "now < expiresAt e")
    case True
    have "lc_fresh es N p (s\<lparr>lcs_entries := mset k (e\<lparr>touchedAt := now\<rparr>) (lcs_entries s)\<rparr>)"
      by (rule lc_fresh_entries [OF f]) (use wf e(2) lc_freshD(4) [OF f] in \<open>auto split: if_splits\<close>)
    with e True show ?thesis by (simp add: getOrLoad_def)
  next
    case False
    have "lc_fresh es N p (s\<lparr>lcs_entries := mdel k (lcs_entries s)\<rparr>)"
      by (rule lc_fresh_entries [OF f]) (use wf lc_freshD(4) [OF f] in \<open>auto split: if_splits\<close>)
    with e False show ?thesis by (simp add: getOrLoad_def lc_fresh_load)
  qed
qed

lemma lc_fresh_drop: "lc_fresh es N p s \<Longrightarrow> lc_fresh es N p (s\<lparr>lcs_loads := (lcs_loads s)(n := None)\<rparr>)"
  by (auto simp: lc_fresh_def lc_wf_drop_load generation_of_def split: if_splits)

lemma lc_fresh_then:
  assumes f: "lc_fresh es N p s" and ev: "LcThen now n v \<in> set es"
  shows "lc_fresh es N p (load_then now n v s)"
proof (cases "lcs_loads s n")
  case (Some t)
  have "fresh_value es N v" if "startsWith (lt_key t) p" "generation_of (lt_key t) s = lt_gen t"
  proof (cases "n < N")
    case True
    with lc_freshD(3) [OF f Some] that show ?thesis by simp
  next
    case False
    then have "N \<le> n" by simp
    with ev show ?thesis unfolding fresh_value_def by blast
  qed
  then show ?thesis using Some lc_fresh_drop [OF f, of n]
    by (auto simp: load_then_def Let_def generation_of_def intro: lc_fresh_set)
qed (simp add: load_then_def f)

lemma lc_fresh_finally:
  assumes f: "lc_fresh es N p s"
  shows "lc_fresh es N p (load_finally n s)"
proof -
  have fr: "lcs_entries (load_finally n s) = lcs_entries s" "lcs_next (load_finally n s) = lcs_next s"
    "generation_of k (load_finally n s) = generation_of k s" for k
    by (auto simp: load_finally_def Let_def generation_of_def split: option.splits)
  have ld: "lcs_loads s m = Some t" if "lcs_loads (load_finally n s) m = Some t" for m t
    using that by (auto simp: load_finally_def Let_def split: option.splits if_splits)
  show ?thesis unfolding lc_fresh_def
  proof (intro conjI allI impI)
    fix m t assume "lcs_loads (load_finally n s) m = Some t \<and> m < N \<and> startsWith (lt_key t) p"
    then show "lt_gen t < generation_of (lt_key t) (load_finally n s)"
      unfolding fr using lc_freshD(3) [OF f ld] by blast
  qed (use lc_freshD [OF f] lc_wf_finally [OF lc_freshD(1) [OF f]] in \<open>auto simp: fr\<close>)
qed

lemma generation_of_invalidate_le: "generation_of k s \<le> generation_of k (lc_invalidate q s)"
  using lc_gen_step [of s k None "LcInvalidate q"] by (simp add: lc_gen_def)

lemma lc_fresh_invalidate:
  assumes f: "lc_fresh es N p s"
  shows "lc_fresh es N p (lc_invalidate q s)"
  unfolding lc_fresh_def
proof (intro conjI allI impI)
  fix n t assume "lcs_loads (lc_invalidate q s) n = Some t \<and> n < N \<and> startsWith (lt_key t) p"
  then have "lt_gen t < generation_of (lt_key t) s" using lc_freshD(3) [OF f] by auto
  then show "lt_gen t < generation_of (lt_key t) (lc_invalidate q s)"
    using generation_of_invalidate_le by (rule less_le_trans)
next
  fix k e assume "mget k (lcs_entries (lc_invalidate q s)) = Some e \<and> startsWith k p"
  then show "fresh_value es N (le_value e)"
    using lc_freshD(4) [OF f] by (auto simp: mget_invalidate(1) [OF lc_freshD(1) [OF f]] split: if_splits)
qed (use lc_freshD [OF f] lc_wf_invalidate in auto)

lemma lc_fresh_run:
  assumes "set es \<subseteq> set all"
  shows "lc_fresh all N p s \<Longrightarrow> lc_fresh all N p (fold (lc_step env) es s)"
  using assms
proof (induction es arbitrary: s)
  case (Cons e es)
  have "lc_fresh all N p (lc_step env e s)"
  proof (cases e)
    case (LcSet now k v ttl)
    with Cons.prems have "fresh_value all N v" by (auto simp: fresh_value_def)
    with LcSet Cons.prems show ?thesis by (simp add: lc_fresh_set)
  qed (use Cons.prems in \<open>auto intro: lc_fresh_get lc_fresh_then lc_fresh_finally lc_fresh_invalidate\<close>)
  with Cons show ?case by simp
qed simp

lemma lc_fresh_start:
  assumes wf: "lc_wf s"
  shows "lc_fresh es (lcs_next s) p (lc_invalidate p s)"
  using invalidate_outdates [OF wf] lc_wf_invalidate [OF wf]
  by (auto simp: lc_fresh_def mget_invalidate [OF wf])

subsection \<open>The size bound\<close>

definition lc_bounded :: "'v lc_state \<Rightarrow> bool" where
  "lc_bounded s \<longleftrightarrow> length (lcs_entries s) \<le> MAX_ENTRIES \<and> mget [] (lcs_entries s) = None \<and>
     (\<forall>n t. lcs_loads s n = Some t \<longrightarrow> lt_key t \<noteq> [])"

fun lc_event_key :: "'v lc_event \<Rightarrow> string option" where
  "lc_event_key (LcGet now key force ttl) = Some key"
| "lc_event_key (LcSet now key v ttl) = Some key"
| "lc_event_key _ = None"

lemma length_lc_evict:
  assumes "length m \<le> MAX_ENTRIES" and "mget [] m = None"
  shows "length (mset k v (lc_evict k m)) \<le> MAX_ENTRIES"
proof (cases "MAX_ENTRIES \<le> length m \<and> mget k m = None")
  case True
  then have "m \<noteq> []" by (auto simp: MAX_ENTRIES_def)
  then obtain o_key a where o: "oldest touchedAt m = Some (o_key, a)" by (cases "oldest touchedAt m") auto
  then have mem: "mget o_key m \<noteq> None" using oldest_mem [OF o] by (simp add: mget_None_iff)
  with assms(2) have "o_key \<noteq> []" by auto
  with True o have "lc_evict k m = mdel o_key m" by (simp add: lc_evict_def)
  with length_mdel_mem [OF mem] assms(1) show ?thesis by (simp add: length_mset)
next
  case False
  then have "lc_evict k m = m" by (auto simp: lc_evict_def)
  with False assms(1) show ?thesis by (auto simp: length_mset)
qed

lemma lc_bounded_set: "lc_bounded s \<Longrightarrow> k \<noteq> [] \<Longrightarrow> lc_bounded (lc_set now k v ttl s)"
  using length_lc_evict [of "lcs_entries s" k] mget_lc_evict [of "[]" k "lcs_entries s"]
  by (cases "mget [] (lc_evict k (lcs_entries s))") (auto simp: lc_bounded_def lc_set_def)

lemma lc_bounded_load: "lc_bounded s \<Longrightarrow> k \<noteq> [] \<Longrightarrow> lc_bounded (snd (lc_load env k ttl s))"
  by (auto simp: lc_bounded_def lc_load_def Let_def split: option.splits if_splits)

lemma lc_bounded_mono:
  assumes "lc_bounded s" and "length (lcs_entries s') \<le> length (lcs_entries s)"
    and "\<And>e. mget [] (lcs_entries s') = Some e \<Longrightarrow> mget [] (lcs_entries s) \<noteq> None"
    and "\<And>n t. lcs_loads s' n = Some t \<Longrightarrow> lcs_loads s n = Some t"
  shows "lc_bounded s'"
  unfolding lc_bounded_def
proof (intro conjI allI impI)
  show "mget [] (lcs_entries s') = None"
    using assms(1,3) by (cases "mget [] (lcs_entries s')") (auto simp: lc_bounded_def)
  fix n t assume "lcs_loads s' n = Some t"
  then show "lt_key t \<noteq> []" using assms(1) assms(4) [of n t] by (simp add: lc_bounded_def)
qed (use assms(1,2) in \<open>simp add: lc_bounded_def\<close>)

lemma lc_bounded_drop: "lc_bounded s \<Longrightarrow> lc_bounded (s\<lparr>lcs_loads := (lcs_loads s)(n := None)\<rparr>)"
  by (erule lc_bounded_mono) (auto split: if_splits)

lemma lc_bounded_get:
  assumes b: "lc_bounded s" and k: "k \<noteq> []"
  shows "lc_bounded (snd (getOrLoad env now k force ttl s))"
proof -
  have "lc_bounded (s\<lparr>lcs_entries := mdel k (lcs_entries s)\<rparr>)"
    by (rule lc_bounded_mono [OF b]) (auto simp: length_mdel_le split: if_splits)
  moreover have "lc_bounded (s\<lparr>lcs_entries := mset k (e\<lparr>touchedAt := now\<rparr>) (lcs_entries s)\<rparr>)"
    if "mget k (lcs_entries s) = Some e" for e
    by (rule lc_bounded_mono [OF b]) (use that k in \<open>auto simp: length_mset split: if_splits\<close>)
  ultimately show ?thesis using b k by (auto simp: getOrLoad_def lc_bounded_load split: option.splits)
qed

lemma lc_bounded_step:
  assumes b: "lc_bounded s" and k: "lc_event_key e \<noteq> Some []"
  shows "lc_bounded (lc_step env e s)"
proof (cases e)
  case (LcThen now n v)
  have "lt_key t \<noteq> []" if "lcs_loads s n = Some t" for t using b that by (auto simp: lc_bounded_def)
  with LcThen lc_bounded_drop [OF b, of n] show ?thesis
    using b by (auto simp: load_then_def Let_def lc_bounded_set split: option.splits)
next
  case (LcFinally n)
  have "lc_bounded (load_finally n s)"
    by (rule lc_bounded_mono [OF b]) (auto simp: load_finally_def Let_def split: option.splits if_splits)
  with LcFinally show ?thesis by simp
next
  case (LcInvalidate p)
  have "lc_bounded (lc_invalidate p s)"
    by (rule lc_bounded_mono [OF b])
      (auto simp: lc_invalidate_def mget_def map_of_eq_None_iff dest!: map_of_SomeD intro: rev_image_eqI)
  with LcInvalidate show ?thesis by simp
qed (use b k in \<open>auto intro: lc_bounded_get lc_bounded_set\<close>)

lemma lc_bounded_run: "lc_bounded s \<Longrightarrow> \<forall>e\<in>set es. lc_event_key e \<noteq> Some [] \<Longrightarrow> lc_bounded (fold (lc_step env) es s)"
  by (induction es arbitrary: s) (auto simp: lc_bounded_step)

subsection \<open>Properties\<close>

text \<open>after \<open>invalidateTenant\<close> no list answer from before it comes back: whatever loads were under
  way and whatever happens next, a value cached later under the tenant's prefix was stored by \<open>set\<close>
  after the invalidation or loaded by a load that started after it.\<close>

theorem no_stale_list_after_invalidate:
  assumes "s = fold (lc_step env) before lc_init"
    and "mget k (lcs_entries (fold (lc_step env) after (invalidateTenant tid s))) = Some e"
    and "startsWith k (tenant_prefix tid)"
  shows "fresh_value after (lcs_next s) (le_value e)"
proof -
  have "lc_fresh after (lcs_next s) (tenant_prefix tid) (invalidateTenant tid s)"
    unfolding invalidateTenant_def assms(1) by (rule lc_fresh_start) (rule lc_wf_run [OF lc_wf_init])
  from lc_fresh_run [OF subset_refl this] assms(2,3) show ?thesis by (blast dest: lc_freshD(4))
qed

theorem no_stale_list_after_invalidate_witness:
  "fresh_value [LcGet 5 ''tenant:a:x'' False None, LcThen 6 0 (1::int), LcThen 7 1 2] 1 (2::int)"
proof -
  let ?e = "\<lparr>le_value = 2::int, touchedAt = 7, expiresAt = 45007\<rparr>"
  have "mget ''tenant:a:x'' (lcs_entries (fold (lc_step None)
      [LcGet 5 ''tenant:a:x'' False None, LcThen 6 0 1, LcThen 7 1 2]
      (invalidateTenant ''a'' (fold (lc_step None) [LcGet 0 ''tenant:a:x'' False None] lc_init)))) = Some ?e"
    by code_simp
  moreover have "lcs_next (fold (lc_step None) [LcGet 0 ''tenant:a:x'' False None] (lc_init :: int lc_state)) = 1"
    by code_simp
  ultimately show ?thesis
    using no_stale_list_after_invalidate [OF refl, where env = None and tid = "''a''" and k = "''tenant:a:x''"
        and before = "[LcGet 0 ''tenant:a:x'' False None]" and e = ?e
        and after = "[LcGet 5 ''tenant:a:x'' False None, LcThen 6 0 (1::int), LcThen 7 1 2]"]
    by (simp add: tenant_prefix_def startsWith_def)
qed

text \<open>the cache never holds more than 5000 lists, over every run whose keys are non-empty.\<close>

theorem list_cache_bounded:
  assumes "\<forall>e\<in>set es. lc_event_key e \<noteq> Some []"
  shows "length (lcs_entries (fold (lc_step env) es lc_init)) \<le> MAX_ENTRIES"
proof -
  have "lc_bounded lc_init" by (simp add: lc_bounded_def lc_init_def)
  from lc_bounded_run [OF this assms] show ?thesis by (simp add: lc_bounded_def)
qed

theorem list_cache_bounded_witness:
  "length (lcs_entries (fold (lc_step None) [LcSet 0 ''a'' True 5, LcGet 1 ''b'' False None, LcThen 2 0 True] lc_init)) \<le> MAX_ENTRIES"
  by (rule list_cache_bounded) simp

text \<open>\<open>clear\<close> drops the generations too, so a load under way writes its old value back after it.\<close>

lemma clear_lets_stale_loads_back:
  "let s = load_then 6 0 (1::int) (lc_clear (fold (lc_step None)
        [LcGet 0 ''tenant:a:x'' False None, LcGet 1 ''tenant:a:x'' True None] lc_init))
   in map_option le_value (mget ''tenant:a:x'' (lcs_entries s)) = Some 1"
  by code_simp

end
