(* ===== verification/ProviderSecrets.thy ===== *)
theory ProviderSecrets
  imports JsMap
begin

section \<open>The provider-secrets cache\<close>

text \<open>
  \<open>platform-config/provider-secrets.service.ts\<close>: the secrets of a tenant's payment, SMS and e-mail
  providers, one bucket per tenant with its own generation number.  A fetch from the control vault is
  a numbered task; its answer and its end (\<open>finally\<close>) are taken as one event.
\<close>

record 'p secrets_entry =
  se_fetchedAt :: int
  se_payload :: 'p

record 'p bucket =
  b_entries :: "(string, 'p secrets_entry) jsmap"
  b_inFlight :: "(string, nat) jsmap"
  b_generation :: nat

record secrets_task =
  st_tenant :: string
  st_capability :: string
  st_gen :: nat

record 'p ps_state =
  pss_cache :: "(string, 'p bucket) jsmap"
  pss_tasks :: "nat \<rightharpoonup> secrets_task"
  pss_next :: nat

record ps_env =
  ps_configured :: bool
  secrets_ttl :: int        \<comment> \<open>CONTROL_SECRETS_TTL_SECONDS, 60 when unset\<close>
  secrets_ceiling :: int    \<comment> \<open>CONTROL_SECRETS_STALE_CEILING_SECONDS, 300 when unset\<close>

definition ps_init :: "'p ps_state" where
  "ps_init = \<lparr>pss_cache = [], pss_tasks = Map.empty, pss_next = 0\<rparr>"

definition ps_MAX_TRACKED_TENANTS :: nat where
  "ps_MAX_TRACKED_TENANTS = 500"

definition ps_ttlMs :: "ps_env \<Rightarrow> int" where
  "ps_ttlMs env = max 5 (min (secrets_ttl env) 60) * 1000"

definition ps_staleCeilingMs :: "ps_env \<Rightarrow> int" where
  "ps_staleCeilingMs env = max 30 (min (secrets_ceiling env) 900) * 1000"

definition empty_bucket :: "'p bucket" where
  "empty_bucket = \<lparr>b_entries = [], b_inFlight = [], b_generation = 0\<rparr>"

text \<open>The oldest bucket is the first key of the map.\<close>

definition ps_evictIfFull :: "(string, 'p bucket) jsmap \<Rightarrow> (string, 'p bucket) jsmap" where
  "ps_evictIfFull m = (if length m < ps_MAX_TRACKED_TENANTS then m
     else case m of [] \<Rightarrow> m | e # _ \<Rightarrow> if fst e = [] then m else mdel (fst e) m)"

definition bucket_of :: "string \<Rightarrow> (string, 'p bucket) jsmap \<Rightarrow> 'p bucket \<times> (string, 'p bucket) jsmap" where
  "bucket_of tid m = (case mget tid m of
      Some b \<Rightarrow> (b, m)
    | None \<Rightarrow> (empty_bucket, mset tid empty_bucket (ps_evictIfFull m)))"

definition ps_refresh :: "string \<Rightarrow> string \<Rightarrow> 'p ps_state \<Rightarrow> nat \<times> 'p ps_state" where
  "ps_refresh tid cap s =
     (let (b, m) = bucket_of tid (pss_cache s) in
      case mget cap (b_inFlight b) of
        Some n \<Rightarrow> (n, s\<lparr>pss_cache := m\<rparr>)
      | None \<Rightarrow> let n = pss_next s in
          (n, s\<lparr>pss_cache := mset tid (b\<lparr>b_inFlight := mset cap n (b_inFlight b)\<rparr>) m,
                pss_tasks := (pss_tasks s)(n \<mapsto> \<lparr>st_tenant = tid, st_capability = cap, st_gen = b_generation b\<rparr>),
                pss_next := Suc n\<rparr>))"

datatype 'p secrets_answer = Payload 'p | NoSecrets | AwaitSecrets nat

definition getSecrets ::
  "ps_env \<Rightarrow> int \<Rightarrow> string \<Rightarrow> string \<Rightarrow> 'p ps_state \<Rightarrow> 'p secrets_answer \<times> 'p ps_state" where
  "getSecrets env now tid cap s =
     (if \<not> ps_configured env then (NoSecrets, s)
      else
        let (b, m) = bucket_of tid (pss_cache s); s1 = s\<lparr>pss_cache := m\<rparr>;
            wait = (let r = ps_refresh tid cap s1 in (AwaitSecrets (fst r), snd r))
        in case mget cap (b_entries b) of
             Some hit \<Rightarrow>
               if now - se_fetchedAt hit < ps_ttlMs env then (Payload (se_payload hit), s1)
               else if now - se_fetchedAt hit < ps_staleCeilingMs env
                 then (Payload (se_payload hit), snd (ps_refresh tid cap s1))
               else wait
           | None \<Rightarrow> wait)"

definition secrets_finally :: "secrets_task \<Rightarrow> 'p ps_state \<Rightarrow> 'p ps_state" where
  "secrets_finally t s = (case mget (st_tenant t) (pss_cache s) of
      Some b \<Rightarrow> if b_generation b = st_gen t
        then s\<lparr>pss_cache := mset (st_tenant t) (b\<lparr>b_inFlight := mdel (st_capability t) (b_inFlight b)\<rparr>) (pss_cache s)\<rparr>
        else s
    | None \<Rightarrow> s)"

definition secrets_arrive :: "int \<Rightarrow> nat \<Rightarrow> 'p \<Rightarrow> 'p ps_state \<Rightarrow> 'p ps_state" where
  "secrets_arrive now n p s = (case pss_tasks s n of
      None \<Rightarrow> s
    | Some t \<Rightarrow>
        let s1 = s\<lparr>pss_tasks := (pss_tasks s)(n := None)\<rparr> in
        secrets_finally t
          (case mget (st_tenant t) (pss_cache s1) of
             None \<Rightarrow> s1
           | Some b \<Rightarrow> if b_generation b \<noteq> st_gen t then s1
               else s1\<lparr>pss_cache := mset (st_tenant t)
                   (b\<lparr>b_entries := mset (st_capability t) \<lparr>se_fetchedAt = now, se_payload = p\<rparr> (b_entries b)\<rparr>)
                   (pss_cache s1)\<rparr>))"

text \<open>A failed fetch answers with whatever payload the bucket still holds.\<close>

definition secrets_fail :: "nat \<Rightarrow> 'p ps_state \<Rightarrow> 'p option \<times> 'p ps_state" where
  "secrets_fail n s = (case pss_tasks s n of
      None \<Rightarrow> (None, s)
    | Some t \<Rightarrow>
        (case mget (st_tenant t) (pss_cache s) of
           None \<Rightarrow> None
         | Some b \<Rightarrow> map_option se_payload (mget (st_capability t) (b_entries b)),
         secrets_finally t (s\<lparr>pss_tasks := (pss_tasks s)(n := None)\<rparr>)))"

definition invalidate_secrets :: "string option \<Rightarrow> string option \<Rightarrow> 'p ps_state \<Rightarrow> 'p ps_state" where
  "invalidate_secrets tid cap s = (case or_null tid of
      None \<Rightarrow> s\<lparr>pss_cache := []\<rparr>
    | Some t \<Rightarrow>
        (case or_null cap of
           Some c \<Rightarrow>
             (case mget t (pss_cache s) of
                None \<Rightarrow> s
              | Some b \<Rightarrow> s\<lparr>pss_cache := mset t
                  \<lparr>b_entries = mdel c (b_entries b), b_inFlight = mdel c (b_inFlight b), b_generation = Suc (b_generation b)\<rparr>
                  (pss_cache s)\<rparr>)
         | None \<Rightarrow> s\<lparr>pss_cache := mdel t (pss_cache s)\<rparr>))"

subsection \<open>Facts\<close>

lemma fst_bucket_of: "fst (bucket_of t m) = (case mget t m of Some b \<Rightarrow> b | None \<Rightarrow> empty_bucket)"
  by (simp add: bucket_of_def split: option.splits)

lemma mget_bucket_of: "mget t (snd (bucket_of t m)) = Some (fst (bucket_of t m))"
  by (simp add: bucket_of_def split: option.splits)

text \<open>After a flush of a capability, of its tenant or of everything, the bucket found for the tenant
  has no entry and no pull for the capability.\<close>

definition flushes :: "string option \<Rightarrow> string option \<Rightarrow> string \<Rightarrow> string \<Rightarrow> bool" where
  "flushes x y tid cap \<longleftrightarrow> or_null x = None \<or> (or_null x = Some tid \<and> (or_null y = None \<or> or_null y = Some cap))"

lemma flushed_bucket:
  assumes "flushes x y tid cap"
  shows "mget cap (b_entries (fst (bucket_of tid (pss_cache (invalidate_secrets x y s))))) = None"
    and "mget cap (b_inFlight (fst (bucket_of tid (pss_cache (invalidate_secrets x y s))))) = None"
  using assms by (auto simp: flushes_def invalidate_secrets_def fst_bucket_of empty_bucket_def split: option.splits)

lemma invalidate_secrets_next [simp]:
  "pss_next (invalidate_secrets x y s) = pss_next s" "pss_tasks (invalidate_secrets x y s) = pss_tasks s"
  by (simp_all add: invalidate_secrets_def split: option.splits)

lemma bucket_of_again: "bucket_of t (snd (bucket_of t m)) = (fst (bucket_of t m), snd (bucket_of t m))"
  by (simp add: bucket_of_def split: option.splits)

lemma ps_refresh_new:
  assumes "mget cap (b_inFlight (fst (bucket_of tid (pss_cache s)))) = None"
  shows "fst (ps_refresh tid cap s) = pss_next s"
    and "pss_tasks (snd (ps_refresh tid cap s)) (pss_next s) =
      Some \<lparr>st_tenant = tid, st_capability = cap, st_gen = b_generation (fst (bucket_of tid (pss_cache s)))\<rparr>"
  using assms by (simp_all add: ps_refresh_def Let_def split_beta)

lemma flushed_fetch:
  assumes "ps_configured env" and "flushes x y tid cap"
  shows "fst (getSecrets env now tid cap (invalidate_secrets x y s)) = AwaitSecrets (pss_next s)"
    and "map_option st_tenant (pss_tasks (snd (getSecrets env now tid cap (invalidate_secrets x y s))) (pss_next s)) = Some tid"
proof -
  let ?s = "invalidate_secrets x y s"
  let ?s1 = "?s\<lparr>pss_cache := snd (bucket_of tid (pss_cache ?s))\<rparr>"
  note fl = flushed_bucket [OF assms(2), of s]
  have "fst (bucket_of tid (pss_cache ?s1)) = fst (bucket_of tid (pss_cache ?s))"
    by (simp add: bucket_of_again)
  with fl(2) have "mget cap (b_inFlight (fst (bucket_of tid (pss_cache ?s1)))) = None" by simp
  from ps_refresh_new [OF this] assms(1) fl(1)
  show "fst (getSecrets env now tid cap ?s) = AwaitSecrets (pss_next s)"
    and "map_option st_tenant (pss_tasks (snd (getSecrets env now tid cap ?s)) (pss_next s)) = Some tid"
    by (simp_all add: getSecrets_def Let_def split_beta)
qed

subsection \<open>Properties\<close>

text \<open>bounded staleness: an answer given without waiting is the payload cached for that tenant and
  capability, fetched less than its lifetime or the stale ceiling ago, in any case less than
  15 minutes; without a control client there are no secrets.\<close>

theorem secrets_age_bounded:
  assumes "fst (getSecrets env now tid cap s) = Payload p"
  shows "ps_configured env \<and> (\<exists>b e. mget tid (pss_cache s) = Some b \<and> mget cap (b_entries b) = Some e \<and>
    p = se_payload e \<and> now - se_fetchedAt e < max (ps_ttlMs env) (ps_staleCeilingMs env) \<and>
    now - se_fetchedAt e < 900000)"
proof -
  have bounds: "ps_ttlMs env \<le> 60000" "ps_staleCeilingMs env \<le> 900000"
    by (simp_all add: ps_ttlMs_def ps_staleCeilingMs_def)
  let ?b = "fst (bucket_of tid (pss_cache s))"
  obtain e where e: "ps_configured env" "mget cap (b_entries ?b) = Some e" "p = se_payload e"
    "now - se_fetchedAt e < ps_ttlMs env \<or> now - se_fetchedAt e < ps_staleCeilingMs env"
    using assms by (auto simp: getSecrets_def Let_def split_beta split: option.splits if_splits)
  then have "mget tid (pss_cache s) = Some ?b"
    by (auto simp: fst_bucket_of empty_bucket_def split: option.splits)
  with e bounds show ?thesis by auto
qed

theorem secrets_age_bounded_witness:
  "\<exists>b e. mget ''t'' [(''t'', \<lparr>b_entries = [(''sms'', \<lparr>se_fetchedAt = 0, se_payload = 7::nat\<rparr>)], b_inFlight = [], b_generation = 0\<rparr>)] = Some b \<and>
     mget ''sms'' (b_entries b) = Some e \<and> 7 = se_payload e \<and> 200000 - se_fetchedAt e < 900000"
proof -
  let ?env = "\<lparr>ps_configured = True, secrets_ttl = 60, secrets_ceiling = 300\<rparr>"
  let ?s = "\<lparr>pss_cache = [(''t'', \<lparr>b_entries = [(''sms'', \<lparr>se_fetchedAt = 0, se_payload = 7::nat\<rparr>)], b_inFlight = [], b_generation = 0\<rparr>)],
     pss_tasks = Map.empty, pss_next = 0\<rparr>"
  have "fst (getSecrets ?env 200000 ''t'' ''sms'' ?s) = Payload 7" by code_simp
  from secrets_age_bounded [OF this] show ?thesis by auto
qed

text \<open>a flush is felt at once: after a flush of the capability, of the tenant or of everything, the
  next read of that capability is not served from the cache and does not join a fetch from before
  the flush: it waits for a fetch that starts now.\<close>

theorem flush_forces_fetch:
  assumes "ps_configured env" and "flushes x y tid cap"
  shows "fst (getSecrets env now tid cap (invalidate_secrets x y s)) = AwaitSecrets (pss_next s) \<and>
    map_option st_tenant (pss_tasks (snd (getSecrets env now tid cap (invalidate_secrets x y s))) (pss_next s)) = Some tid"
  using flushed_fetch [OF assms] by blast

theorem flush_forces_fetch_witness:
  "fst (getSecrets \<lparr>ps_configured = True, secrets_ttl = 60, secrets_ceiling = 300\<rparr> 5 ''t'' ''sms''
      (invalidate_secrets (Some ''t'') None (ps_init :: nat ps_state))) = AwaitSecrets 0"
proof -
  have "flushes (Some ''t'') None ''t'' ''sms''" by (simp add: flushes_def)
  from flush_forces_fetch [where s = "ps_init :: nat ps_state", OF _ this] show ?thesis by (simp add: ps_init_def)
qed

text \<open>The write-back guard fails for a tenant flush: the bucket is dropped, the next read makes a bucket
  of generation 0 again, and the fetch from before the flush stores its old payload.\<close>

lemma stale_secrets_after_tenant_flush:
  "let env = \<lparr>ps_configured = True, secrets_ttl = 60, secrets_ceiling = 300\<rparr>;
       s1 = snd (getSecrets env 0 ''t'' ''payment'' (ps_init :: string ps_state));
       s2 = snd (getSecrets env 10 ''t'' ''payment'' (invalidate_secrets (Some ''t'') None s1));
       s3 = secrets_arrive 20 1 ''new key'' s2;
       s4 = secrets_arrive 30 0 ''old key'' s3
   in fst (getSecrets env 40 ''t'' ''payment'' s4) = Payload ''old key''"
  by code_simp

end
