(* ===== verification/ControlWebhook.thy ===== *)
theory ControlWebhook
  imports Enforcement RuntimeConfig ProviderSecrets
begin

section \<open>The control-plane webhook\<close>

text \<open>
  \<open>platform-config/control-webhook.controller.ts\<close>: authentication of the control plane's outbox
  calls and the flush of the two caches.  \<open>hmac\<close> (HMAC-SHA256, hexadecimal) is node's crypto and an
  argument of the model.  \<open>Number(timestamp)\<close> is read as in \<open>Enforcement\<close>, for whole seconds; \<open>now\<close> is
  \<open>Date.now()\<close> in milliseconds.
\<close>

record webhook_env =
  webhook_secret :: "string option"
  in_production :: bool

record webhook_request =
  h_secret :: "string option"
  h_signature :: "string option"
  h_timestamp :: "string option"
  raw_body :: string

definition MAX_SIGNATURE_AGE_SECONDS :: int where
  "MAX_SIGNATURE_AGE_SECONDS = 300"

definition signature_age_ms :: "int \<Rightarrow> string \<Rightarrow> int option" where
  "signature_age_ms now ts = map_option (\<lambda>t. \<bar>now - 1000 * t\<bar>) (js_integer ts)"

definition expected_secret :: "webhook_env \<Rightarrow> string" where
  "expected_secret env = trim (or_else (webhook_secret env) [])"

definition verify ::
  "(string \<Rightarrow> string \<Rightarrow> string) \<Rightarrow> webhook_env \<Rightarrow> int \<Rightarrow> webhook_request \<Rightarrow> unit result" where
  "verify hmac env now req =
     (let expected = expected_secret env in
      if expected = []
        then (if in_production env then Inl (Unauthorized ''CONTROL_WEBHOOK_SECRET is not configured'') else Inr ())
      else case (or_null (h_signature req), or_null (h_timestamp req)) of
        (Some sig, Some ts) \<Rightarrow>
          (case signature_age_ms now ts of
             None \<Rightarrow> Inl (Unauthorized ''Webhook timestamp outside tolerance'')
           | Some age \<Rightarrow>
               if age > 1000 * MAX_SIGNATURE_AGE_SECONDS then Inl (Unauthorized ''Webhook timestamp outside tolerance'')
               else if hmac expected (ts @ ''.'' @ raw_body req) \<noteq> sig then Inl (Unauthorized ''Invalid webhook signature'')
               else Inr ())
      | _ \<Rightarrow>
          (case or_null (h_secret req) of
             None \<Rightarrow> Inl (Unauthorized ''Invalid webhook secret'')
           | Some secret \<Rightarrow> if secret \<noteq> expected then Inl (Unauthorized ''Invalid webhook secret'') else Inr ()))"

record outbox_event =
  eventType :: "string option"
  aggregateType :: "string option"
  aggregateId :: "string option"
  p_tenantId :: "string option"
  p_tenant_id :: "string option"
  p_invalidateAll :: bool
  p_adminEmail :: "string option"
  p_admin_email :: "string option"
  p_title :: "string option"
  p_message :: "string option"

definition or_option :: "string option \<Rightarrow> string option \<Rightarrow> string option" where
  "or_option x y = (if truthy x then x else y)"

subsection \<open>Trial and billing notices\<close>

text \<open>What goes out, in order: an in-app notification, a push, an e-mail.  \<open>findUser\<close> is the tenant's
  user lookup and \<open>stored\<close> says whether the notification could be stored; push and e-mail failures are
  swallowed.\<close>

datatype delivery =
    InApp string string string string      \<comment> \<open>tenant, user, title, message\<close>
  | PushTo string string string string
  | EmailTo string string string string    \<comment> \<open>tenant, address, subject, text\<close>

definition deliverTrialNotification ::
  "(string \<Rightarrow> string \<Rightarrow> string option) \<Rightarrow> bool \<Rightarrow> outbox_event \<Rightarrow> delivery list result" where
  "deliverTrialNotification findUser stored ev =
     (let tid = or_else (or_option (p_tenantId ev) (p_tenant_id ev)) [];
          email = or_else (or_option (p_adminEmail ev) (p_admin_email ev)) [];
          title = or_else (p_title ev) ''School account update'';
          message = or_else (p_message ev) [];
          mail = (if email \<noteq> [] then [EmailTo tid email title message] else [])
      in if tid = [] \<or> message = [] then Inr []
         else case (if email \<noteq> [] then findUser tid email else None) of
           Some userId \<Rightarrow>
             if \<not> stored then Inl DbError
             else Inr ([InApp tid userId title message, PushTo tid userId title message] @ mail)
         | None \<Rightarrow> Inr mail)"

record 'p caches =
  cs_config :: rc_state
  cs_secrets :: "'p ps_state"

definition webhook_tenant :: "outbox_event \<Rightarrow> string option" where
  "webhook_tenant ev = or_option (p_tenantId ev) (or_option (p_tenant_id ev)
     (if aggregateType ev = Some ''tenant'' then aggregateId ev else None))"

definition webhook_flush :: "outbox_event \<Rightarrow> 'p caches \<Rightarrow> 'p caches" where
  "webhook_flush ev s =
     (let t = webhook_tenant ev in
      if p_invalidateAll ev \<or> \<not> truthy t
      then \<lparr>cs_config = invalidate_config None (cs_config s), cs_secrets = invalidate_secrets None None (cs_secrets s)\<rparr>
      else \<lparr>cs_config = invalidate_config t (cs_config s), cs_secrets = invalidate_secrets t None (cs_secrets s)\<rparr>)"

definition configChanged ::
  "(string \<Rightarrow> string \<Rightarrow> string) \<Rightarrow> webhook_env \<Rightarrow> int \<Rightarrow> (string \<Rightarrow> string \<Rightarrow> string option) \<Rightarrow> bool \<Rightarrow>
   webhook_request \<Rightarrow> outbox_event \<Rightarrow> 'p caches \<Rightarrow> delivery list result \<times> 'p caches" where
  "configChanged hmac env now findUser stored req ev s =
     (case verify hmac env now req of
        Inl e \<Rightarrow> (Inl e, s)
      | Inr _ \<Rightarrow>
          (case (if eventType ev = Some ''trial.notification'' \<or> eventType ev = Some ''billing.notification''
                 then deliverTrialNotification findUser stored ev else Inr []) of
             Inl e \<Rightarrow> (Inl e, s)
           | Inr sent \<Rightarrow> (Inr sent, webhook_flush ev s)))"

subsection \<open>Facts\<close>

definition concerns :: "outbox_event \<Rightarrow> string \<Rightarrow> bool" where
  "concerns ev t \<longleftrightarrow> p_invalidateAll ev \<or> or_null (webhook_tenant ev) = None \<or> webhook_tenant ev = Some t"

lemma flush_config_empty:
  assumes "concerns ev t" and "t \<noteq> []"
  shows "mget t (rcs_cache (cs_config (webhook_flush ev s))) = None \<and>
         mget t (rcs_inFlight (cs_config (webhook_flush ev s))) = None"
  using assms by (auto simp: concerns_def webhook_flush_def Let_def invalidate_config_def truthy_def or_null_Some_iff
      or_null_None_iff)

lemma flush_secrets:
  assumes "concerns ev t" and "t \<noteq> []"
  shows "\<exists>x. flushes x None t cap \<and> cs_secrets (webhook_flush ev s) = invalidate_secrets x None (cs_secrets s)"
proof (cases "p_invalidateAll ev \<or> \<not> truthy (webhook_tenant ev)")
  case True
  then have "cs_secrets (webhook_flush ev s) = invalidate_secrets None None (cs_secrets s)"
    by (simp add: webhook_flush_def Let_def)
  then show ?thesis by (intro exI [of _ None]) (simp add: flushes_def)
next
  case False
  with assms have "webhook_tenant ev = Some t" by (auto simp: concerns_def truthy_def)
  with False assms(2) have "cs_secrets (webhook_flush ev s) = invalidate_secrets (Some t) None (cs_secrets s)"
    by (simp add: webhook_flush_def Let_def)
  moreover have "flushes (Some t) None t cap" using assms(2) by (simp add: flushes_def or_null_Some_iff)
  ultimately show ?thesis by blast
qed

subsection \<open>Properties\<close>

text \<open>authentication: with a secret configured, a call passes exactly when it carries a signature
  with a timestamp within 300 seconds of the clock that is the HMAC of \<open>timestamp.body\<close> under the
  secret, or, when signature or timestamp is missing, the plain secret; in production a missing
  configuration refuses every call; and a refused call changes no cache.\<close>

theorem webhook_authenticates:
  "(is_ok (verify hmac env now req) \<longleftrightarrow>
      (if expected_secret env = [] then \<not> in_production env
       else if truthy (h_signature req) \<and> truthy (h_timestamp req)
       then (\<exists>t. js_integer (the (h_timestamp req)) = Some t \<and> \<bar>now - 1000 * t\<bar> \<le> 300000) \<and>
            h_signature req = Some (hmac (expected_secret env) (the (h_timestamp req) @ ''.'' @ raw_body req))
       else h_secret req = Some (expected_secret env))) \<and>
    (is_ok (verify hmac env now req) \<or> snd (configChanged hmac env now findUser stored req ev s) = s)"
proof -
  have "snd (configChanged hmac env now findUser stored req ev s) = s" if "\<not> is_ok (verify hmac env now req)"
    using that by (auto simp: configChanged_def split: sum.splits)
  moreover have "is_ok (verify hmac env now req) \<longleftrightarrow>
      (if expected_secret env = [] then \<not> in_production env
       else if truthy (h_signature req) \<and> truthy (h_timestamp req)
       then (\<exists>t. js_integer (the (h_timestamp req)) = Some t \<and> \<bar>now - 1000 * t\<bar> \<le> 300000) \<and>
            h_signature req = Some (hmac (expected_secret env) (the (h_timestamp req) @ ''.'' @ raw_body req))
       else h_secret req = Some (expected_secret env))"
    by (auto simp: verify_def Let_def truthy_def or_null_Some_iff or_null_None_iff signature_age_ms_def
        MAX_SIGNATURE_AGE_SECONDS_def split: option.splits)
  ultimately show ?thesis by blast
qed

text \<open>an accepted event about tenant \<open>t\<close> (or about all tenants) empties both caches for \<open>t\<close> before
  it answers: the next configuration read waits for a new pull when the control client is there
  and Redis is off, and the next secrets read waits for a new fetch.\<close>

theorem accepted_event_flushes:
  assumes "fst (configChanged hmac env now findUser stored req ev s) = Inr sent"
    and "concerns ev t" and "t \<noteq> []"
    and "client_configured renv" and "\<not> redis_enabled renv" and "ps_configured penv"
    and "snd (configChanged hmac env now findUser stored req ev s) = s'"
  shows "is_ok (verify hmac env now req) \<and>
    fst (getConfig renv now2 False t (cs_config s')) = AwaitPull (rcs_next (cs_config s)) None \<and>
    fst (getSecrets penv now3 t cap (cs_secrets s')) = AwaitSecrets (pss_next (cs_secrets s))"
proof -
  have s': "s' = webhook_flush ev s" and ok: "is_ok (verify hmac env now req)"
    using assms(1,7) by (auto simp: configChanged_def split: sum.splits)
  have "rcs_next (cs_config s') = rcs_next (cs_config s)"
    by (simp add: s' webhook_flush_def Let_def invalidate_config_def)
  then have "fst (getConfig renv now2 False t (cs_config s')) = AwaitPull (rcs_next (cs_config s)) None"
    using flush_config_empty [OF assms(2,3), of s] assms(3-5)
    by (simp add: s' getConfig_def getConfig_rest_def refresh_def Let_def)
  moreover obtain x where "flushes x None t cap" "cs_secrets s' = invalidate_secrets x None (cs_secrets s)"
    using flush_secrets [OF assms(2,3)] s' by blast
  then have "fst (getSecrets penv now3 t cap (cs_secrets s')) = AwaitSecrets (pss_next (cs_secrets s))"
    using flushed_fetch(1) [OF assms(6)] by simp
  ultimately show ?thesis using ok by blast
qed

theorem accepted_event_flushes_witness:
  "fst (getSecrets \<lparr>ps_configured = True, secrets_ttl = 60, secrets_ceiling = 300\<rparr> 7 ''t'' ''sms''
      (invalidate_secrets (Some ''t'') None (ps_init :: nat ps_state))) = AwaitSecrets 0"
proof -
  let ?ev = "\<lparr>eventType = None, aggregateType = Some ''tenant'', aggregateId = Some ''t'', p_tenantId = None, p_tenant_id = None,
     p_invalidateAll = False, p_adminEmail = None, p_admin_email = None, p_title = None, p_message = None\<rparr>"
  let ?req = "\<lparr>h_secret = Some ''key'', h_signature = None, h_timestamp = None, raw_body = []\<rparr>"
  let ?env = "\<lparr>webhook_secret = Some ''key'', in_production = True\<rparr>"
  let ?s = "\<lparr>cs_config = rc_init, cs_secrets = (ps_init :: nat ps_state)\<rparr>"
  have tenant: "webhook_tenant ?ev = Some ''t''" by code_simp
  have "expected_secret ?env = ''key''" by code_simp
  then have run: "configChanged (\<lambda>_ _. []) ?env 0 (\<lambda>_ _. None) True ?req ?ev ?s = (Inr [], webhook_flush ?ev ?s)"
    by (simp add: configChanged_def verify_def)
  have flush: "cs_secrets (webhook_flush ?ev ?s) = invalidate_secrets (Some ''t'') None ps_init"
    by (simp add: webhook_flush_def tenant truthy_def Let_def)
  have "concerns ?ev ''t''" by (simp add: concerns_def tenant)
  from accepted_event_flushes [OF _ this, of "\<lambda>_ _. []" ?env 0 "\<lambda>_ _. None" True ?req ?s "[]" sample_env
      "\<lparr>ps_configured = True, secrets_ttl = 60, secrets_ceiling = 300\<rparr>" "webhook_flush ?ev ?s" 7 7 "''sms''"] flush run
  show ?thesis by (simp add: sample_env_def ps_init_def)
qed

text \<open>A notice that cannot be stored ends the call before the flush, although delivery is meant not to
  prevent it.\<close>

lemma failed_notice_skips_flush:
  assumes "verify hmac env now req = Inr ()" and "eventType ev = Some ''billing.notification''"
    and "deliverTrialNotification findUser False ev = Inl DbError"
  shows "configChanged hmac env now findUser False req ev s = (Inl DbError, s)"
  using assms by (simp add: configChanged_def)

end
