(* ===== verification/Machines.thy ===== *)
theory Machines
  imports Prelude
begin

section \<open>Service machines\<close>

text \<open>
  A service is a step function: a request (with what the call reads from outside: the clock,
  fresh identifiers, the feature gate) and the tenant database give a response and the new
  database.  Two contracts recur: an invariant every operation keeps, and a feature gate that,
  when it is off, leaves the database alone.  Each is a locale, interpreted by every service.
\<close>

primrec run_reqs :: "('q \<Rightarrow> 's \<Rightarrow> 'r \<times> 's) \<Rightarrow> 'q list \<Rightarrow> 's \<Rightarrow> 's" where
  "run_reqs step [] s = s"
| "run_reqs step (q # qs) s = run_reqs step qs (snd (step q s))"

lemma run_reqs_append [simp]: "run_reqs step (xs @ ys) s = run_reqs step ys (run_reqs step xs s)"
  by (induction xs arbitrary: s) auto

locale invariant_machine =
  fixes step :: "'q \<Rightarrow> 's \<Rightarrow> 'r \<times> 's"
    and inv :: "'s \<Rightarrow> bool"
  assumes step_inv: "inv s \<Longrightarrow> inv (snd (step q s))"
begin

lemma run_inv: "inv s \<Longrightarrow> inv (run_reqs step qs s)"
  by (induction qs arbitrary: s) (auto simp: step_inv)

lemma run_inv_prefix: "inv s \<Longrightarrow> inv (run_reqs step (take n qs) s)"
  by (rule run_inv)

end

text \<open>A mark that every operation keeps: a row that is final, an identifier that is taken.\<close>

locale stable_machine = invariant_machine step inv
  for step :: "'q \<Rightarrow> 's \<Rightarrow> 'r \<times> 's" and inv :: "'s \<Rightarrow> bool" +
  fixes mark :: "'s \<Rightarrow> bool"
  assumes mark_stays: "inv s \<Longrightarrow> mark s \<Longrightarrow> mark (snd (step q s))"
begin

lemma run_mark: "inv s \<Longrightarrow> mark s \<Longrightarrow> mark (run_reqs step qs s)"
  by (induction qs arbitrary: s) (auto simp: step_inv mark_stays)

end

locale gated_machine =
  fixes step :: "'q \<Rightarrow> 's \<Rightarrow> 'a result \<times> 's"
    and open_for :: "'q \<Rightarrow> bool"
  assumes closed_error: "\<not> open_for q \<Longrightarrow> \<exists>e. step q s = (Inl e, s)"
begin

lemma closed_state: "\<not> open_for q \<Longrightarrow> snd (step q s) = s"
  by (metis closed_error snd_conv)

lemma closed_run: "(\<And>q. q \<in> set qs \<Longrightarrow> \<not> open_for q) \<Longrightarrow> run_reqs step qs s = s"
  by (induction qs arbitrary: s) (auto simp: closed_state)

lemma ok_open: "fst (step q s) = Inr x \<Longrightarrow> open_for q"
  by (metis closed_error fst_conv Inr_not_Inl)

end

locale gated_invariant_machine = invariant_machine step inv + gated_machine step open_for
  for step :: "'q \<Rightarrow> 's \<Rightarrow> 'a result \<times> 's" and inv :: "'s \<Rightarrow> bool" and open_for :: "'q \<Rightarrow> bool"
begin

text \<open>Only requests whose gate is open move the state, so an invariant plus the open
  requests decide what is reachable.\<close>

lemma run_open_only: "run_reqs step qs s = run_reqs step (filter open_for qs) s"
  by (induction qs arbitrary: s) (auto simp: closed_state)

end

text \<open>The answers of a run, and the contract of an operation that may succeed once: some state mark stays
  once set, excludes the answer, and is set by it.\<close>

primrec answers :: "('q \<Rightarrow> 's \<Rightarrow> 'r \<times> 's) \<Rightarrow> 'q list \<Rightarrow> 's \<Rightarrow> 'r list" where
  "answers step [] s = []"
| "answers step (q # qs) s = fst (step q s) # answers step qs (snd (step q s))"

locale one_shot_on =
  fixes step :: "'q \<Rightarrow> 's \<Rightarrow> 'r \<times> 's"
    and inv :: "'s \<Rightarrow> bool"
    and spent :: "'s \<Rightarrow> bool"
    and hit :: "'r \<Rightarrow> bool"
    and allowed :: "'q \<Rightarrow> bool"
  assumes inv_step: "allowed q \<Longrightarrow> inv s \<Longrightarrow> inv (snd (step q s))"
    and spent_stays: "allowed q \<Longrightarrow> inv s \<Longrightarrow> spent s \<Longrightarrow> spent (snd (step q s))"
    and spent_no_hit: "allowed q \<Longrightarrow> inv s \<Longrightarrow> spent s \<Longrightarrow> \<not> hit (fst (step q s))"
    and hit_spends: "allowed q \<Longrightarrow> inv s \<Longrightarrow> hit (fst (step q s)) \<Longrightarrow> spent (snd (step q s))"
begin

lemma none_when_spent: "list_all allowed qs \<Longrightarrow> inv s \<Longrightarrow> spent s \<Longrightarrow> filter hit (answers step qs s) = []"
  by (induction qs arbitrary: s) (auto simp: inv_step spent_stays spent_no_hit)

lemma at_most_once: "list_all allowed qs \<Longrightarrow> inv s \<Longrightarrow> length (filter hit (answers step qs s)) \<le> 1"
  by (induction qs arbitrary: s) (auto simp: inv_step none_when_spent hit_spends)

end

text \<open>The same contract when every request is allowed.\<close>

locale one_shot =
  fixes step :: "'q \<Rightarrow> 's \<Rightarrow> 'r \<times> 's"
    and inv :: "'s \<Rightarrow> bool"
    and spent :: "'s \<Rightarrow> bool"
    and hit :: "'r \<Rightarrow> bool"
  assumes inv_step: "inv s \<Longrightarrow> inv (snd (step q s))"
    and spent_stays: "inv s \<Longrightarrow> spent s \<Longrightarrow> spent (snd (step q s))"
    and spent_no_hit: "inv s \<Longrightarrow> spent s \<Longrightarrow> \<not> hit (fst (step q s))"
    and hit_spends: "inv s \<Longrightarrow> hit (fst (step q s)) \<Longrightarrow> spent (snd (step q s))"

sublocale one_shot \<subseteq> every: one_shot_on step inv spent hit "\<lambda>_. True"
  by unfold_locales (rule inv_step spent_stays spent_no_hit hit_spends; assumption)+

context one_shot begin

lemma at_most_once: "inv s \<Longrightarrow> length (filter hit (answers step qs s)) \<le> 1"
  by (rule every.at_most_once) (simp_all add: list_all_iff)

end

text \<open>Refinement: what a service answers is a trace of the events of an abstract machine, which accepts every
  one of them, and the abstraction of the database follows it.\<close>

primrec replay :: "('e \<Rightarrow> 'a \<Rightarrow> 'a option) \<Rightarrow> 'e list \<Rightarrow> 'a \<Rightarrow> 'a option" where
  "replay astep [] a = Some a"
| "replay astep (e # es) a = (case astep e a of None \<Rightarrow> None | Some a' \<Rightarrow> replay astep es a')"

primrec events_of :: "('r \<Rightarrow> 'e option) \<Rightarrow> 'r list \<Rightarrow> 'e list" where
  "events_of event [] = []"
| "events_of event (r # rs) = (case event r of None \<Rightarrow> events_of event rs | Some e \<Rightarrow> e # events_of event rs)"

locale refinement = invariant_machine step inv
  for step :: "'q \<Rightarrow> 's \<Rightarrow> 'r \<times> 's" and inv :: "'s \<Rightarrow> bool" +
  fixes event :: "'r \<Rightarrow> 'e option"
    and astep :: "'e \<Rightarrow> 'a \<Rightarrow> 'a option"
    and abs :: "'s \<Rightarrow> 'a"
  assumes silent: "inv s \<Longrightarrow> event (fst (step q s)) = None \<Longrightarrow> abs (snd (step q s)) = abs s"
    and visible: "inv s \<Longrightarrow> event (fst (step q s)) = Some e \<Longrightarrow> astep e (abs s) = Some (abs (snd (step q s)))"
begin

lemma trace: "inv s \<Longrightarrow> replay astep (events_of event (answers step qs s)) (abs s) = Some (abs (run_reqs step qs s))"
proof (induction qs arbitrary: s)
  case (Cons q qs)
  then have "replay astep (events_of event (answers step qs (snd (step q s)))) (abs (snd (step q s))) =
      Some (abs (run_reqs step qs (snd (step q s))))" by (simp add: step_inv)
  with Cons.prems show ?case
    by (cases "event (fst (step q s))") (simp_all add: silent visible)
qed simp

end

end
