(* ===== verification/Services.thy ===== *)
theory Services
  imports Machines TeacherScope "HOL-Library.List_Lexorder"
begin

section \<open>What the tenant services share\<close>

text \<open>
  Every call of a tenant service starts with \<open>flags.assertEnabled\<close> and \<open>getTenantDs\<close>, and most read
  the roles of the actor from \<open>users.roles\<close>.  A call carries the answers of the first two; the
  roles are read from \<open>scope_db\<close>.  \<open>CREATE TABLE IF NOT EXISTS\<close> makes no change the model sees.
  A handler runs as one step of the machine unless a theory says otherwise.
\<close>

record call =
  feature_on :: bool
  tenant_found :: bool

definition open_service :: "call \<Rightarrow> bool" where
  "open_service c \<longleftrightarrow> feature_on c \<and> tenant_found c"

text \<open>\<open>with_service\<close> runs the body of a handler behind the two checks.\<close>

definition with_service :: "string \<Rightarrow> call \<Rightarrow> 's \<Rightarrow> ('s \<Rightarrow> 'a result \<times> 's) \<Rightarrow> 'a result \<times> 's" where
  "with_service feature c s body =
     (if \<not> feature_on c then (Inl (Forbidden (''Feature disabled: '' @ feature)), s)
      else if \<not> tenant_found c then (Inl (NotFound ''Tenant not found''), s)
      else body s)"

lemma with_service_open: "open_service c \<Longrightarrow> with_service f c s body = body s"
  by (simp add: with_service_def open_service_def)

lemma with_service_closed: "\<not> open_service c \<Longrightarrow> \<exists>e. with_service f c s body = (Inl e, s)"
  by (auto simp: with_service_def open_service_def)

lemma with_service_closed_snd: "\<not> open_service c \<Longrightarrow> snd (with_service f c s body) = s"
  by (auto simp: with_service_def open_service_def)

lemma with_service_inv: "I s \<Longrightarrow> I (snd (body s)) \<Longrightarrow> I (snd (with_service f c s body))"
  by (simp add: with_service_def)

text \<open>Handlers without a feature check only resolve the tenant.\<close>

definition with_tenant :: "call \<Rightarrow> 's \<Rightarrow> ('s \<Rightarrow> 'a result \<times> 's) \<Rightarrow> 'a result \<times> 's" where
  "with_tenant c s body = (if \<not> tenant_found c then (Inl (NotFound ''Tenant not found''), s) else body s)"

lemma with_tenant_inv: "I s \<Longrightarrow> I (snd (body s)) \<Longrightarrow> I (snd (with_tenant c s body))"
  by (simp add: with_tenant_def)

text \<open>\<open>getUserRoles\<close> of the library, inventory and examination services: a JSON array, or nothing (the
  fallback reads a column \<open>role\<close> the query does not select).\<close>

definition getUserRoles :: "scope_db \<Rightarrow> string \<Rightarrow> string list" where
  "getUserRoles db userId = (case user_roles db userId of
      Some (JArray rs) \<Rightarrow> map toLowerCase rs
    | _ \<Rightarrow> [])"

definition has_any_role :: "string list \<Rightarrow> string list \<Rightarrow> bool" where
  "has_any_role roles allowed = list_ex (List.member allowed) roles"

lemma has_any_role_iff: "has_any_role roles allowed \<longleftrightarrow> (\<exists>r\<in>set roles. r \<in> set allowed)"
  by (auto simp: has_any_role_def list_ex_iff)

definition linked_to :: "scope_db \<Rightarrow> string \<Rightarrow> string \<Rightarrow> bool" where
  "linked_to db parentId studentId = List.member (parent_links db) (parentId, studentId)"

text \<open>\<open>INSERT\<close>: a duplicate key is an SQL error that leaves the table alone.\<close>

definition sql_insert :: "('r \<Rightarrow> string) \<Rightarrow> 'r \<Rightarrow> 'r list \<Rightarrow> ('r list \<Rightarrow> 's \<Rightarrow> 's) \<Rightarrow> 's \<Rightarrow> 's option" where
  "sql_insert key r t put s = map_option (\<lambda>t'. put t' s) (tinsert key r t)"

text \<open>\<open>ORDER BY ... DESC LIMIT n\<close>; rows with equal marks keep the table's order.\<close>

definition newest :: "('r \<Rightarrow> int) \<Rightarrow> nat \<Rightarrow> 'r list \<Rightarrow> 'r list" where
  "newest mark n rows = take n (sort_key (\<lambda>r. - mark r) rows)"

lemma set_newest: "set (newest mark n rows) \<subseteq> set rows"
  using set_take_subset [of n "sort_key (\<lambda>r. - mark r) rows"] by (simp add: newest_def)

definition nobody :: scope_db where
  "nobody = \<lparr>user_roles = Map.empty, parent_links = [], enrollments = [], class_teacher_links = [],
     class_rows = [], subject_links = [], subject_rows = []\<rparr>"

text \<open>A run in which no SQL error happened.\<close>

primrec no_db_error :: "('q \<Rightarrow> 's \<Rightarrow> 'a result \<times> 's) \<Rightarrow> 'q list \<Rightarrow> 's \<Rightarrow> bool" where
  "no_db_error step [] s = True"
| "no_db_error step (q # qs) s = (fst (step q s) \<noteq> Inl DbError \<and> no_db_error step qs (snd (step q s)))"

lemma run_clean_inv:
  assumes "\<And>q s. I s \<Longrightarrow> fst (step q s) \<noteq> Inl DbError \<Longrightarrow> I (snd (step q s))"
  shows "I s \<Longrightarrow> no_db_error step qs s \<Longrightarrow> I (run_reqs step qs s)"
  using assms by (induction qs arbitrary: s) auto

end
