(* ===== verification/Library.thy ===== *)
theory Library
  imports Services
begin

section \<open>The library\<close>

text \<open>
  \<open>library/library.service.ts\<close>: items with a count of available copies, and loans.  \<open>now\<close> is
  \<open>CURRENT_TIMESTAMP\<close>, \<open>fresh\<close> what \<open>randomToken\<close> returns.
\<close>

record library_item =
  i_id :: string
  i_title :: string
  i_author :: "string option"
  i_isbn :: "string option"
  i_copies :: int
  i_available :: int

record library_loan =
  l_id :: string
  l_item :: string
  l_borrower :: string
  l_borrowedAt :: int
  l_dueAt :: "string option"
  l_returnedAt :: "int option"

record library_db =
  lib_items :: "library_item list"
  lib_loans :: "library_loan list"
  lib_scope :: scope_db

record item_body =
  ib_title :: string
  ib_author :: "string option"
  ib_isbn :: "string option"
  ib_copies :: "int option"

record loan_body =
  lb_itemId :: string
  lb_borrowerId :: "string option"
  lb_dueAt :: "string option"

datatype loan_status = Open | Returned

datatype library_response =
    RItems "library_item list"
  | RLoans "(library_loan \<times> string option) list"   \<comment> \<open>loan and item title\<close>
  | RItem string int
  | RLoan string string
  | RReturned bool                                  \<comment> \<open>was it returned already\<close>

definition resolveBorrowerId :: "string list \<Rightarrow> string \<Rightarrow> string option \<Rightarrow> string option" where
  "resolveBorrowerId roles actorId requested = (if List.member roles ''student'' then Some actorId else requested)"

definition listItems :: "library_db \<Rightarrow> library_item list" where
  "listItems db = take 200 (sort_key i_title (lib_items db))"

definition status_match :: "loan_status option \<Rightarrow> library_loan \<Rightarrow> bool" where
  "status_match status l = (case status of
      Some Open \<Rightarrow> l_returnedAt l = None
    | Some Returned \<Rightarrow> l_returnedAt l \<noteq> None
    | None \<Rightarrow> True)"

definition loan_scope :: "scope_db \<Rightarrow> string \<Rightarrow> library_loan \<Rightarrow> bool" where
  "loan_scope db actorId l =
     (let roles = getUserRoles db actorId in
      if List.member roles ''student'' then l_borrower l = actorId
      else if List.member roles ''parent'' then linked_to db actorId (l_borrower l)
      else True)"

definition listLoans :: "string \<Rightarrow> loan_status option \<Rightarrow> library_db \<Rightarrow> (library_loan \<times> string option) list" where
  "listLoans actorId status db =
     map (\<lambda>l. (l, map_option i_title (tfind i_id (l_item l) (lib_items db))))
       (newest l_borrowedAt 200
          (filter (\<lambda>l. status_match status l \<and> loan_scope (lib_scope db) actorId l) (lib_loans db)))"

definition createItem :: "string \<Rightarrow> item_body \<Rightarrow> library_db \<Rightarrow> library_response result \<times> library_db" where
  "createItem fresh body db =
     (let copies = max 1 (case ib_copies body of Some n \<Rightarrow> if n = 0 then 1 else n | None \<Rightarrow> 1);
          row = \<lparr>i_id = fresh, i_title = ib_title body, i_author = or_null (ib_author body),
                 i_isbn = or_null (ib_isbn body), i_copies = copies, i_available = copies\<rparr>
      in case tinsert i_id row (lib_items db) of
           None \<Rightarrow> (Inl DbError, db)
         | Some t \<Rightarrow> (Inr (RItem fresh copies), db\<lparr>lib_items := t\<rparr>))"

text \<open>\<open>loan\<close> in two parts, the reads with their guards and the two writes: other calls may run between
  them.\<close>

definition loan_check :: "string \<Rightarrow> loan_body \<Rightarrow> library_db \<Rightarrow> string result" where
  "loan_check actorId body db =
     (let roles = getUserRoles (lib_scope db) actorId in
      case or_null (resolveBorrowerId roles actorId (lb_borrowerId body)) of
        None \<Rightarrow> Inl (NotFound ''Borrower is required'')
      | Some borrowerId \<Rightarrow>
          if List.member roles ''parent'' \<and> \<not> linked_to (lib_scope db) actorId borrowerId
            then Inl (NotFound ''Borrower is not linked to this parent'')
          else case tfind i_id (lb_itemId body) (lib_items db) of
            None \<Rightarrow> Inl (NotFound ''Item not found'')
          | Some it \<Rightarrow> if i_available it < 1 then Inl (NotFound ''No copies available'') else Inr borrowerId)"

definition loan_write :: "int \<Rightarrow> string \<Rightarrow> string \<Rightarrow> loan_body \<Rightarrow> library_db \<Rightarrow> library_response result \<times> library_db" where
  "loan_write now fresh borrowerId body db =
     (let row = \<lparr>l_id = fresh, l_item = lb_itemId body, l_borrower = borrowerId, l_borrowedAt = now,
                 l_dueAt = or_null (lb_dueAt body), l_returnedAt = None\<rparr>
      in case tinsert l_id row (lib_loans db) of
           None \<Rightarrow> (Inl DbError, db)
         | Some t \<Rightarrow> (Inr (RLoan fresh borrowerId),
             db\<lparr>lib_loans := t,
                lib_items := tmodify i_id (lb_itemId body) (\<lambda>i. i\<lparr>i_available := i_available i - 1\<rparr>) (lib_items db)\<rparr>))"

definition loan :: "int \<Rightarrow> string \<Rightarrow> string \<Rightarrow> loan_body \<Rightarrow> library_db \<Rightarrow> library_response result \<times> library_db" where
  "loan now fresh actorId body db = (case loan_check actorId body db of
      Inl e \<Rightarrow> (Inl e, db)
    | Inr borrowerId \<Rightarrow> loan_write now fresh borrowerId body db)"

definition returnLoan :: "int \<Rightarrow> string \<Rightarrow> library_db \<Rightarrow> library_response result \<times> library_db" where
  "returnLoan now loanId db = (case tfind l_id loanId (lib_loans db) of
      None \<Rightarrow> (Inl (NotFound ''Loan not found''), db)
    | Some l \<Rightarrow>
        if l_returnedAt l \<noteq> None then (Inr (RReturned True), db)
        else (Inr (RReturned False),
          db\<lparr>lib_loans := tmodify l_id loanId (\<lambda>l. l\<lparr>l_returnedAt := Some now\<rparr>) (lib_loans db),
             lib_items := tmodify i_id (l_item l) (\<lambda>i. i\<lparr>i_available := i_available i + 1\<rparr>) (lib_items db)\<rparr>))"

datatype library_request =
    ListItems call
  | ListLoans call string "loan_status option"
  | CreateItem call string item_body
  | Loan call int string string loan_body
  | ReturnLoan call int string

fun lib_call :: "library_request \<Rightarrow> call" where
  "lib_call (ListItems c) = c"
| "lib_call (ListLoans c actor status) = c"
| "lib_call (CreateItem c fresh body) = c"
| "lib_call (Loan c now fresh actor body) = c"
| "lib_call (ReturnLoan c now loanId) = c"

fun lib_body :: "library_request \<Rightarrow> library_db \<Rightarrow> library_response result \<times> library_db" where
  "lib_body (ListItems c) db = (Inr (RItems (listItems db)), db)"
| "lib_body (ListLoans c actor status) db = (Inr (RLoans (listLoans actor status db)), db)"
| "lib_body (CreateItem c fresh body) db = createItem fresh body db"
| "lib_body (Loan c now fresh actor body) db = loan now fresh actor body db"
| "lib_body (ReturnLoan c now loanId) db = returnLoan now loanId db"

definition lib_step :: "library_request \<Rightarrow> library_db \<Rightarrow> library_response result \<times> library_db" where
  "lib_step q db = with_service ''ops.library'' (lib_call q) db (lib_body q)"

subsection \<open>Copies are conserved\<close>

definition open_loans :: "string \<Rightarrow> library_loan list \<Rightarrow> int" where
  "open_loans itemId ls = tcount (\<lambda>l. l_item l = itemId \<and> l_returnedAt l = None) ls"

definition lib_inv :: "library_db \<Rightarrow> bool" where
  "lib_inv db \<longleftrightarrow> pk i_id (lib_items db) \<and> pk l_id (lib_loans db) \<and>
     (\<forall>l\<in>set (lib_loans db). l_item l \<in> i_id ` set (lib_items db)) \<and>
     (\<forall>i\<in>set (lib_items db). 0 \<le> i_available i \<and> i_available i + open_loans (i_id i) (lib_loans db) = i_copies i)"

lemma createItem_inv:
  assumes inv: "lib_inv db"
  shows "lib_inv (snd (createItem fresh body db))"
proof (cases "fresh \<in> i_id ` set (lib_items db)")
  case True
  then show ?thesis using inv by (simp add: createItem_def tinsert_def Let_def)
next
  case False
  have "open_loans fresh (lib_loans db) = 0"
    using inv False by (auto simp: lib_inv_def open_loans_def tcount_zero_iff)
  with inv False show ?thesis
    by (auto simp: createItem_def tinsert_def Let_def lib_inv_def pk_def)
qed

lemma lib_inv_frame:
  assumes inv: "lib_inv db" and items: "lib_items db' = tmodify i_id k (\<lambda>i. i\<lparr>i_available := i_available i + d\<rparr>) (lib_items db)"
    and loans: "pk l_id (lib_loans db')" "\<And>l. l \<in> set (lib_loans db') \<Longrightarrow> l_item l \<in> i_id ` set (lib_items db)"
    and count: "\<And>j. open_loans j (lib_loans db') = open_loans j (lib_loans db) - (if j = k then d else 0)"
    and nonneg: "\<And>i. i \<in> set (lib_items db) \<Longrightarrow> i_id i = k \<Longrightarrow> 0 \<le> i_available i + d"
  shows "lib_inv db'"
  unfolding lib_inv_def
proof (intro conjI ballI)
  show "pk i_id (lib_items db')" using inv by (simp add: items pk_tmodify lib_inv_def)
  show "l_item l \<in> i_id ` set (lib_items db')" if "l \<in> set (lib_loans db')" for l
    using loans(2) [OF that] by (simp add: items key_set_tmodify)
next
  fix i assume "i \<in> set (lib_items db')"
  then obtain x where x: "x \<in> set (lib_items db)" "i = (if i_id x = k then x\<lparr>i_available := i_available x + d\<rparr> else x)"
    unfolding items by (rule set_tmodifyE)
  then have old: "0 \<le> i_available x" "i_available x + open_loans (i_id x) (lib_loans db) = i_copies x"
    using inv by (auto simp: lib_inv_def)
  show "0 \<le> i_available i" using x old nonneg [OF x(1)] by simp
  show "i_available i + open_loans (i_id i) (lib_loans db') = i_copies i" using x old by (auto simp: count)
qed (rule loans(1))

lemma loan_inv:
  assumes inv: "lib_inv db"
  shows "lib_inv (snd (loan now fresh actor body db))"
proof (cases "loan_check actor body db")
  case (Inr b)
  then obtain it where it: "tfind i_id (lb_itemId body) (lib_items db) = Some it" "1 \<le> i_available it"
    by (auto simp: loan_check_def Let_def split: option.splits if_splits)
  then have mem: "it \<in> set (lib_items db)" "i_id it = lb_itemId body" by (auto dest: tfind_SomeD)
  from mem have item: "lb_itemId body \<in> i_id ` set (lib_items db)" by (metis image_eqI)
  have same: "i = it" if "i \<in> set (lib_items db)" "i_id i = lb_itemId body" for i
    using tfind_eqI [of i_id "lib_items db" i] inv that it by (simp add: lib_inv_def)
  show ?thesis
  proof (cases "fresh \<in> l_id ` set (lib_loans db)")
    case True
    then show ?thesis using inv Inr by (simp add: loan_def loan_write_def Let_def tinsert_def)
  next
    case False
    let ?row = "\<lparr>l_id = fresh, l_item = lb_itemId body, l_borrower = b, l_borrowedAt = now, l_dueAt = or_null (lb_dueAt body),
       l_returnedAt = None\<rparr>"
    have new: "snd (loan now fresh actor body db) = db\<lparr>lib_loans := lib_loans db @ [?row],
        lib_items := tmodify i_id (lb_itemId body) (\<lambda>i. i\<lparr>i_available := i_available i + (-1)\<rparr>) (lib_items db)\<rparr>"
      using Inr False by (simp add: loan_def loan_write_def Let_def tinsert_def)
    show ?thesis
      unfolding new
    proof (rule lib_inv_frame [OF inv, where k = "lb_itemId body" and d = "-1"], goal_cases)
      case 2 show ?case using inv False by (simp add: lib_inv_def pk_def)
    next
      case (3 l) then show ?case using inv item by (auto simp: lib_inv_def)
    next
      case (5 i) then show ?case using same it by auto
    qed (simp_all add: open_loans_def)
  qed
qed (simp add: loan_def inv)

lemma returnLoan_inv:
  assumes inv: "lib_inv db"
  shows "lib_inv (snd (returnLoan now loanId db))"
proof (cases "tfind l_id loanId (lib_loans db)")
  case (Some l)
  show ?thesis
  proof (cases "l_returnedAt l")
    case None
    have pk: "pk l_id (lib_loans db)" using inv by (simp add: lib_inv_def)
    let ?ls = "tmodify l_id loanId (\<lambda>l. l\<lparr>l_returnedAt := Some now\<rparr>) (lib_loans db)"
    have new: "snd (returnLoan now loanId db) = db\<lparr>lib_loans := ?ls,
        lib_items := tmodify i_id (l_item l) (\<lambda>i. i\<lparr>i_available := i_available i + 1\<rparr>) (lib_items db)\<rparr>"
      using Some None by (simp add: returnLoan_def)
    show ?thesis
      unfolding new
    proof (rule lib_inv_frame [OF inv, where k = "l_item l" and d = 1], goal_cases)
      case (3 l')
      then obtain x where "x \<in> set (lib_loans db)" "l_item l' = l_item x"
        by (auto elim: set_tmodifyE)
      with inv show ?case by (auto simp: lib_inv_def)
    next
      case (4 j)
      show ?case unfolding open_loans_def by (simp add: tcount_tmodify [OF pk Some] None)
    next
      case (5 i)
      with inv have "0 \<le> i_available i" by (simp add: lib_inv_def)
      then show ?case by simp
    qed (use pk in \<open>simp_all add: pk_tmodify\<close>)
  qed (use inv Some in \<open>simp add: returnLoan_def\<close>)
qed (simp add: returnLoan_def inv)

lemmas lib_ops_inv = createItem_inv loan_inv returnLoan_inv

lemma lib_step_inv: "lib_inv db \<Longrightarrow> lib_inv (snd (lib_step q db))"
  unfolding lib_step_def by (rule with_service_inv, assumption) (cases q; simp add: lib_ops_inv)

interpretation library: gated_invariant_machine lib_step lib_inv "\<lambda>q. open_service (lib_call q)"
proof
  show "lib_inv (snd (lib_step q s))" if "lib_inv s" for q s using that by (rule lib_step_inv)
  show "\<exists>e. lib_step q s = (Inl e, s)" if "\<not> open_service (lib_call q)" for q s
    unfolding lib_step_def by (rule with_service_closed [OF that])
qed

lemma loan_ok_borrower:
  assumes "fst (loan now fresh actor body db) = Inr (RLoan k b)"
  shows "loan_check actor body db = Inr b"
  using assms by (auto simp: loan_def loan_write_def Let_def split: sum.splits option.splits)

lemma loan_check_scope:
  assumes "loan_check actor body db = Inr b"
  shows "(List.member (getUserRoles (lib_scope db) actor) ''student'' \<longrightarrow> b = actor) \<and>
    (List.member (getUserRoles (lib_scope db) actor) ''parent'' \<longrightarrow> linked_to (lib_scope db) actor b)"
  using assms
  by (auto simp: loan_check_def resolveBorrowerId_def Let_def or_null_Some_iff split: if_splits option.splits)

definition empty_library :: "scope_db \<Rightarrow> library_db" where
  "empty_library sc = \<lparr>lib_items = [], lib_loans = [], lib_scope = sc\<rparr>"

lemma lib_inv_empty: "lib_inv (empty_library sc)"
  by (simp add: lib_inv_def empty_library_def)

subsection \<open>Properties\<close>


definition sample_calls :: "library_request list" where
  "sample_calls =
     (let ok = \<lparr>feature_on = True, tenant_found = True\<rparr> in
      [CreateItem ok ''i1'' \<lparr>ib_title = ''Things Fall Apart'', ib_author = None, ib_isbn = None, ib_copies = Some 2\<rparr>,
       Loan ok 1 ''l1'' ''staff'' \<lparr>lb_itemId = ''i1'', lb_borrowerId = Some ''ada'', lb_dueAt = None\<rparr>])"


text \<open>who sees and who gets: the loans a student lists are their own and those a parent lists are
  their children's; and a loan that succeeds goes to the student who asks, or to a linked child of
  the parent who asks.\<close>

theorem library_scope:
  assumes "List.member (getUserRoles (lib_scope db) actor) ''student'' \<or> List.member (getUserRoles (lib_scope db) actor) ''parent''"
  shows "(\<forall>r\<in>set (listLoans actor status db). l_borrower (fst r) = actor \<or> linked_to (lib_scope db) actor (l_borrower (fst r))) \<and>
    (\<forall>c now fresh body k b. fst (lib_step (Loan c now fresh actor body) db) = Inr (RLoan k b) \<longrightarrow>
       b = actor \<or> linked_to (lib_scope db) actor b)"
proof -
  have "l_borrower (fst r) = actor \<or> linked_to (lib_scope db) actor (l_borrower (fst r))"
    if r: "r \<in> set (listLoans actor status db)" for r
  proof -
    from r have "fst r \<in> set (filter (\<lambda>l. status_match status l \<and> loan_scope (lib_scope db) actor l) (lib_loans db))"
      using set_newest by (fastforce simp: listLoans_def)
    then have "loan_scope (lib_scope db) actor (fst r)" by simp
    with assms show ?thesis by (auto simp: loan_scope_def Let_def split: if_splits)
  qed
  moreover have "b = actor \<or> linked_to (lib_scope db) actor b"
    if "fst (lib_step (Loan c now fresh actor body) db) = Inr (RLoan k b)" for c now fresh body k b
  proof -
    from that have "fst (loan now fresh actor body db) = Inr (RLoan k b)"
      by (simp add: lib_step_def with_service_def split: if_splits)
    from loan_check_scope [OF loan_ok_borrower [OF this]] assms show ?thesis by blast
  qed
  ultimately show ?thesis by blast
qed

theorem library_scope_witness:
  "''bayo'' \<notin> (l_borrower \<circ> fst) ` set (listLoans ''ada'' None \<lparr>lib_items = [], lib_loans =
      [\<lparr>l_id = ''l1'', l_item = ''i1'', l_borrower = ''bayo'', l_borrowedAt = 1, l_dueAt = None, l_returnedAt = None\<rparr>],
      lib_scope = nobody\<lparr>user_roles := [''ada'' \<mapsto> JArray [''Student'']]\<rparr>\<rparr>)"
proof -
  let ?sc = "nobody\<lparr>user_roles := [''ada'' \<mapsto> JArray [''Student'']]\<rparr>"
  let ?db = "\<lparr>lib_items = [], lib_loans = [\<lparr>l_id = ''l1'', l_item = ''i1'', l_borrower = ''bayo'', l_borrowedAt = 1,
     l_dueAt = None, l_returnedAt = None\<rparr>], lib_scope = ?sc\<rparr>"
  have "getUserRoles ?sc ''ada'' = [''student'']" by code_simp
  moreover have "linked_to ?sc ''ada'' ''bayo'' = False" by code_simp
  ultimately show ?thesis using library_scope [of ?db "''ada''" None] by fastforce
qed

text \<open>Two calls of \<open>loan\<close> that both read before either writes lend the last copy twice.\<close>

lemma interleaved_loans_overdraw:
  "let db = \<lparr>lib_items = [\<lparr>i_id = ''i1'', i_title = ''t'', i_author = None, i_isbn = None, i_copies = 1, i_available = 1\<rparr>],
             lib_loans = [], lib_scope = nobody\<rparr>;
       body = \<lparr>lb_itemId = ''i1'', lb_borrowerId = Some ''ada'', lb_dueAt = None\<rparr>
   in loan_check ''s'' body db = Inr ''ada'' \<and>
      map i_available (lib_items (snd (loan_write 2 ''l2'' ''ada'' body (snd (loan_write 1 ''l1'' ''ada'' body db))))) = [-1]"
  by code_simp

end
