(* ===== verification/Inventory.thy ===== *)
theory Inventory
  imports Services
begin

section \<open>The inventory\<close>

text \<open>
  \<open>finance/inventory/inventory.service.ts\<close>: items with a stock on hand and a journal of movements.
  Quantities are integers; \<open>None\<close> as a movement's quantity stands for a number that is not an
  integer.  Unit costs are in hundredths.
\<close>

record inventory_item =
  n_id :: string
  n_sku :: "string option"
  n_name :: string
  n_category :: "string option"
  n_qtyOnHand :: int
  n_unitCost :: int
  n_currency :: string
  n_createdAt :: int

record inventory_movement =
  m_id :: string
  m_item :: string
  m_in :: bool             \<comment> \<open>direction\<close>
  m_qty :: int
  m_reason :: "string option"
  m_by :: string
  m_createdAt :: int

record inventory_db =
  inv_items :: "inventory_item list"
  inv_movements :: "inventory_movement list"
  inv_scope :: scope_db

record new_item =
  ni_sku :: "string option"
  ni_name :: "string option"
  ni_category :: "string option"
  ni_qtyOnHand :: "int option"
  ni_unitCost :: "int option"
  ni_currency :: "string option"

record movement_body =
  mb_itemId :: string
  mb_direction :: string
  mb_qty :: "int option"
  mb_reason :: "string option"

datatype inventory_response =
    NItems "inventory_item list"
  | NMovements "inventory_movement list"
  | NId string

definition inventory_roles :: "string list" where
  "inventory_roles = [''director'', ''school_admin'', ''it_admin'', ''principal'', ''head_teacher'',
     ''administrative_staff'', ''bursar'']"

definition assertAccess :: "scope_db \<Rightarrow> string \<Rightarrow> bool \<Rightarrow> unit result" where
  "assertAccess sc actorId write =
     (let roles = getUserRoles sc actorId in
      if \<not> has_any_role roles inventory_roles
        then Inl (NotFound ''Inventory access is restricted to authorized finance staff'')
      else if write \<and> \<not> List.member roles ''principal'' \<and> \<not> List.member roles ''head_teacher'' \<and>
              \<not> List.member roles ''bursar'' \<and> \<not> List.member roles ''director'' \<and>
              \<not> List.member roles ''school_admin'' \<and> \<not> List.member roles ''it_admin'' \<and>
              \<not> List.member roles ''administrative_staff''
        then Inl (NotFound ''Inventory writes are restricted to authorized finance staff'')
      else Inr ())"

definition inventory_listItems :: "string \<Rightarrow> inventory_db \<Rightarrow> inventory_response result" where
  "inventory_listItems actorId db = (case assertAccess (inv_scope db) actorId False of
      Inl e \<Rightarrow> Inl e
    | Inr _ \<Rightarrow> Inr (NItems (newest n_createdAt 200 (inv_items db))))"

definition inventory_createItem ::
  "int \<Rightarrow> string \<Rightarrow> string \<Rightarrow> new_item \<Rightarrow> inventory_db \<Rightarrow> inventory_response result \<times> inventory_db" where
  "inventory_createItem now fresh actorId body db = (case assertAccess (inv_scope db) actorId True of
      Inl e \<Rightarrow> (Inl e, db)
    | Inr _ \<Rightarrow>
        let name = (case ni_name body of Some n \<Rightarrow> n | None \<Rightarrow> []);
            qty = (case ni_qtyOnHand body of Some n \<Rightarrow> n | None \<Rightarrow> 0);
            cost = (case ni_unitCost body of Some n \<Rightarrow> n | None \<Rightarrow> 0)
        in if trim name = [] \<or> qty < 0 \<or> cost < 0
             then (Inl (NotFound ''Inventory item values are invalid''), db)
           else case tinsert n_id
               \<lparr>n_id = fresh, n_sku = or_null (ni_sku body), n_name = name, n_category = or_null (ni_category body),
                n_qtyOnHand = qty, n_unitCost = cost, n_currency = or_else (ni_currency body) ''NGN'', n_createdAt = now\<rparr>
               (inv_items db) of
             None \<Rightarrow> (Inl DbError, db)
           | Some t \<Rightarrow> (Inr (NId fresh), db\<lparr>inv_items := t\<rparr>))"

text \<open>The guards of \<open>recordMovement\<close>; the value is the quantity and the change of the stock.\<close>

definition movement_check :: "string \<Rightarrow> movement_body \<Rightarrow> inventory_db \<Rightarrow> (int \<times> int) result" where
  "movement_check userId body db = (case assertAccess (inv_scope db) userId True of
      Inl e \<Rightarrow> Inl e
    | Inr _ \<Rightarrow>
        (case mb_qty body of
           None \<Rightarrow> Inl (NotFound ''Inventory movement is invalid'')
         | Some qty \<Rightarrow>
             if \<not> List.member [''in'', ''out''] (mb_direction body) \<or> qty \<le> 0
               then Inl (NotFound ''Inventory movement is invalid'')
             else case tfind n_id (mb_itemId body) (inv_items db) of
               None \<Rightarrow> Inl (NotFound ''Inventory item not found'')
             | Some item \<Rightarrow>
                 if mb_direction body = ''out'' \<and> n_qtyOnHand item < qty then Inl (NotFound ''Insufficient stock'')
                 else Inr (qty, if mb_direction body = ''in'' then qty else - qty)))"

text \<open>The stock is written before the journal, so an error of the second statement leaves the first.\<close>

definition recordMovement ::
  "int \<Rightarrow> string \<Rightarrow> string \<Rightarrow> movement_body \<Rightarrow> inventory_db \<Rightarrow> inventory_response result \<times> inventory_db" where
  "recordMovement now fresh userId body db = (case movement_check userId body db of
      Inl e \<Rightarrow> (Inl e, db)
    | Inr (qty, delta) \<Rightarrow>
        let db1 = db\<lparr>inv_items := tmodify n_id (mb_itemId body)
                    (\<lambda>i. i\<lparr>n_qtyOnHand := n_qtyOnHand i + delta\<rparr>) (inv_items db)\<rparr>
        in case tinsert m_id
             \<lparr>m_id = fresh, m_item = mb_itemId body, m_in = (mb_direction body = ''in''), m_qty = qty,
              m_reason = or_null (mb_reason body), m_by = userId, m_createdAt = now\<rparr>
             (inv_movements db1) of
           None \<Rightarrow> (Inl DbError, db1)
         | Some t \<Rightarrow> (Inr (NId fresh), db1\<lparr>inv_movements := t\<rparr>))"

definition listMovements :: "string \<Rightarrow> string option \<Rightarrow> inventory_db \<Rightarrow> inventory_response result" where
  "listMovements actorId itemId db = (case assertAccess (inv_scope db) actorId False of
      Inl e \<Rightarrow> Inl e
    | Inr _ \<Rightarrow> (case or_null itemId of
          Some i \<Rightarrow> Inr (NMovements (newest m_createdAt 100 (filter (\<lambda>m. m_item m = i) (inv_movements db))))
        | None \<Rightarrow> Inr (NMovements (newest m_createdAt 200 (inv_movements db)))))"

datatype inventory_request =
    NListItems call string
  | NCreate call int string string new_item
  | NMove call int string string movement_body
  | NListMovements call string "string option"

fun inv_call :: "inventory_request \<Rightarrow> call" where
  "inv_call (NListItems c actor) = c"
| "inv_call (NCreate c now fresh actor body) = c"
| "inv_call (NMove c now fresh actor body) = c"
| "inv_call (NListMovements c actor item) = c"

fun inv_body :: "inventory_request \<Rightarrow> inventory_db \<Rightarrow> inventory_response result \<times> inventory_db" where
  "inv_body (NListItems c actor) db = (inventory_listItems actor db, db)"
| "inv_body (NCreate c now fresh actor body) db = inventory_createItem now fresh actor body db"
| "inv_body (NMove c now fresh actor body) db = recordMovement now fresh actor body db"
| "inv_body (NListMovements c actor item) db = (listMovements actor item db, db)"

definition inv_step :: "inventory_request \<Rightarrow> inventory_db \<Rightarrow> inventory_response result \<times> inventory_db" where
  "inv_step q db = with_service ''finance.inventory'' (inv_call q) db (inv_body q)"

subsection \<open>Stock stays non-negative\<close>

definition stock_inv :: "inventory_db \<Rightarrow> bool" where
  "stock_inv db \<longleftrightarrow> pk n_id (inv_items db) \<and> pk m_id (inv_movements db) \<and>
     (\<forall>i\<in>set (inv_items db). 0 \<le> n_qtyOnHand i) \<and> (\<forall>m\<in>set (inv_movements db). 0 < m_qty m)"

lemma movement_check_ok:
  assumes "movement_check userId body db = Inr (qty, delta)"
  shows "\<exists>item. tfind n_id (mb_itemId body) (inv_items db) = Some item \<and> 0 < qty \<and> 0 \<le> max (n_qtyOnHand item + delta) delta \<and>
    delta = (if mb_direction body = ''in'' then qty else - qty)"
  using assms by (auto simp: movement_check_def split: sum.splits option.splits if_splits)

lemma assertAccess_error: "assertAccess sc actor w \<noteq> Inl DbError"
  by (simp add: assertAccess_def Let_def)

lemma movement_check_error: "movement_check userId body db \<noteq> Inl DbError"
  using assertAccess_error by (auto simp: movement_check_def split: sum.splits option.splits)

text \<open>Stock only moves as \<open>qty_on_hand + delta\<close> on the row of one item.\<close>

lemma stock_inv_items:
  assumes inv: "stock_inv db" and "tfind n_id k (inv_items db) = Some item" and "0 \<le> n_qtyOnHand item + delta"
  shows "stock_inv (db\<lparr>inv_items := tmodify n_id k (\<lambda>i. i\<lparr>n_qtyOnHand := n_qtyOnHand i + delta\<rparr>) (inv_items db)\<rparr>)"
proof -
  have pk: "pk n_id (inv_items db)" using inv by (simp add: stock_inv_def)
  have "0 \<le> n_qtyOnHand i"
    if mem: "i \<in> set (tmodify n_id k (\<lambda>i. i\<lparr>n_qtyOnHand := n_qtyOnHand i + delta\<rparr>) (inv_items db))" for i
  proof -
    obtain x where x: "x \<in> set (inv_items db)" "i = (if n_id x = k then x\<lparr>n_qtyOnHand := n_qtyOnHand x + delta\<rparr> else x)"
      by (rule set_tmodifyE [OF mem])
    show ?thesis
    proof (cases "n_id x = k")
      case True
      with tfind_eqI [OF pk x(1)] assms(2) have "x = item" by simp
      with True x assms(3) show ?thesis by simp
    next
      case False
      with x inv show ?thesis by (simp add: stock_inv_def)
    qed
  qed
  with inv show ?thesis by (simp add: stock_inv_def pk_tmodify)
qed

lemma recordMovement_inv:
  assumes inv: "stock_inv db"
  shows "stock_inv (snd (recordMovement now fresh userId body db))"
proof (cases "movement_check userId body db")
  case (Inr p)
  obtain qty delta where p: "p = (qty, delta)" by (cases p)
  with Inr movement_check_ok obtain item where item: "tfind n_id (mb_itemId body) (inv_items db) = Some item" "0 < qty"
    "0 \<le> max (n_qtyOnHand item + delta) delta" by blast
  then have "item \<in> set (inv_items db)" by (auto dest: tfind_SomeD)
  with inv have "0 \<le> n_qtyOnHand item" by (simp add: stock_inv_def)
  with item have "0 \<le> n_qtyOnHand item + delta" by auto
  from stock_inv_items [OF inv item(1) this] item(2) Inr p show ?thesis
    by (auto simp: recordMovement_def Let_def stock_inv_def tinsert_def pk_def)
qed (simp add: recordMovement_def inv)

lemma inventory_create_inv: "stock_inv db \<Longrightarrow> stock_inv (snd (inventory_createItem now fresh actor body db))"
  by (auto simp: inventory_createItem_def Let_def stock_inv_def tinsert_def pk_def split: sum.splits)

lemma inv_step_inv: "stock_inv db \<Longrightarrow> stock_inv (snd (inv_step q db))"
  unfolding inv_step_def by (rule with_service_inv, assumption) (cases q; simp add: inventory_create_inv recordMovement_inv)

interpretation inventory: gated_invariant_machine inv_step stock_inv "\<lambda>q. open_service (inv_call q)"
proof
  show "stock_inv (snd (inv_step q s))" if "stock_inv s" for q s using that by (rule inv_step_inv)
  show "\<exists>e. inv_step q s = (Inl e, s)" if "\<not> open_service (inv_call q)" for q s
    unfolding inv_step_def by (rule with_service_closed [OF that])
qed

subsection \<open>The ledger\<close>

definition movement_delta :: "inventory_movement \<Rightarrow> int" where
  "movement_delta m = (if m_in m then m_qty m else - m_qty m)"

definition net_movement :: "string \<Rightarrow> inventory_db \<Rightarrow> int" where
  "net_movement k db = sum_list (map movement_delta (filter (\<lambda>m. m_item m = k) (inv_movements db)))"

definition in_ledger :: "string \<Rightarrow> int \<Rightarrow> inventory_db \<Rightarrow> bool" where
  "in_ledger k q0 db \<longleftrightarrow> (\<exists>i. tfind n_id k (inv_items db) = Some i \<and> n_qtyOnHand i = q0 + net_movement k db)"

lemma recordMovement_ledger:
  assumes led: "in_ledger k q0 db" and ok: "fst (recordMovement now fresh userId body db) \<noteq> Inl DbError"
  shows "in_ledger k q0 (snd (recordMovement now fresh userId body db))"
proof (cases "movement_check userId body db")
  case (Inr p)
  obtain qty delta where p: "p = (qty, delta)" by (cases p)
  with Inr movement_check_ok have delta: "delta = (if mb_direction body = ''in'' then qty else - qty)" by blast
  show ?thesis
  proof (cases "fresh \<in> m_id ` set (inv_movements db)")
    case True
    with ok Inr p show ?thesis by (simp add: recordMovement_def Let_def tinsert_def)
  next
    case False
    with led Inr p delta show ?thesis
      by (auto simp: recordMovement_def Let_def tinsert_def in_ledger_def tfind_tmodify net_movement_def movement_delta_def)
  qed
qed (simp add: recordMovement_def led)

lemma create_frame:
  "inv_movements (snd (inventory_createItem now fresh actor body db)) = inv_movements db"
  "inv_items (snd (inventory_createItem now fresh actor body db)) = inv_items db \<or>
   (\<exists>r. tinsert n_id r (inv_items db) = Some (inv_items (snd (inventory_createItem now fresh actor body db))))"
  by (auto simp: inventory_createItem_def Let_def split: sum.splits option.splits)

lemma create_ledger:
  assumes led: "in_ledger k q0 db"
  shows "in_ledger k q0 (snd (inventory_createItem now fresh actor body db))"
proof -
  let ?db = "snd (inventory_createItem now fresh actor body db)"
  have net: "net_movement k ?db = net_movement k db" by (simp add: net_movement_def create_frame(1))
  from led obtain i where i: "tfind n_id k (inv_items db) = Some i" "n_qtyOnHand i = q0 + net_movement k db"
    by (auto simp: in_ledger_def)
  have "tfind n_id k (inv_items ?db) = Some i"
    using create_frame(2) [of now fresh actor body db] tbl.ins_keeps [OF _ i(1)] i(1) by metis
  with i(2) show ?thesis by (simp add: in_ledger_def net)
qed

lemma inv_step_ledger:
  assumes "in_ledger k q0 db" and "fst (inv_step q db) \<noteq> Inl DbError"
  shows "in_ledger k q0 (snd (inv_step q db))"
proof (cases "open_service (inv_call q)")
  case True
  with assms show ?thesis
    by (cases q) (auto simp: inv_step_def with_service_open recordMovement_ledger create_ledger)
next
  case False
  with inventory.closed_state [OF this] assms(1) show ?thesis by simp
qed

subsection \<open>Properties\<close>

definition empty_inventory :: "scope_db \<Rightarrow> inventory_db" where
  "empty_inventory sc = \<lparr>inv_items = [], inv_movements = [], inv_scope = sc\<rparr>"

lemma stock_inv_empty: "stock_inv (empty_inventory sc)"
  by (simp add: stock_inv_def empty_inventory_def)

text \<open>stock never goes below zero, over every sequence of calls, SQL errors included; and as long as
  no SQL error happens, the stock of an item is its stock at the start plus everything moved in
  minus everything moved out since.\<close>

theorem stock_ledger:
  assumes "no_db_error inv_step qs (run_reqs inv_step before (empty_inventory sc))"
    and "tfind n_id k (inv_items (run_reqs inv_step before (empty_inventory sc))) = Some i"
  shows "\<exists>j. tfind n_id k (inv_items (run_reqs inv_step (before @ qs) (empty_inventory sc))) = Some j \<and> 0 \<le> n_qtyOnHand j \<and>
    n_qtyOnHand j - n_qtyOnHand i =
      net_movement k (run_reqs inv_step (before @ qs) (empty_inventory sc)) - net_movement k (run_reqs inv_step before (empty_inventory sc))"
proof -
  let ?s = "run_reqs inv_step before (empty_inventory sc)" and ?t = "run_reqs inv_step (before @ qs) (empty_inventory sc)"
  have "in_ledger k (n_qtyOnHand i - net_movement k ?s) ?s" using assms(2) by (simp add: in_ledger_def)
  then have "in_ledger k (n_qtyOnHand i - net_movement k ?s) ?t"
    using run_clean_inv [of "in_ledger k (n_qtyOnHand i - net_movement k ?s)" inv_step, OF inv_step_ledger] assms(1) by simp
  then obtain j where j: "tfind n_id k (inv_items ?t) = Some j" "n_qtyOnHand j = n_qtyOnHand i - net_movement k ?s + net_movement k ?t"
    by (auto simp: in_ledger_def)
  have "stock_inv ?t" by (rule inventory.run_inv [OF stock_inv_empty])
  moreover have "j \<in> set (inv_items ?t)" using tfind_SomeD [OF j(1)] by simp
  ultimately have "0 \<le> n_qtyOnHand j" unfolding stock_inv_def by blast
  with j show ?thesis by auto
qed

definition bursar_scope :: scope_db where
  "bursar_scope = nobody\<lparr>user_roles := [''b'' \<mapsto> JArray [''bursar'']]\<rparr>"

definition sample_create :: inventory_request where
  "sample_create = NCreate \<lparr>feature_on = True, tenant_found = True\<rparr> 1 ''i1'' ''b''
     \<lparr>ni_sku = None, ni_name = Some ''chalk'', ni_category = None, ni_qtyOnHand = Some 10, ni_unitCost = None, ni_currency = None\<rparr>"

definition sample_out :: inventory_request where
  "sample_out = NMove \<lparr>feature_on = True, tenant_found = True\<rparr> 2 ''m1'' ''b''
     \<lparr>mb_itemId = ''i1'', mb_direction = ''out'', mb_qty = Some 4, mb_reason = None\<rparr>"

theorem stock_ledger_witness:
  "\<exists>j. tfind n_id ''i1'' (inv_items (run_reqs inv_step [sample_create, sample_out] (empty_inventory bursar_scope))) = Some j \<and>
     n_qtyOnHand j = 6"
proof -
  let ?e = "empty_inventory bursar_scope"
  have c: "no_db_error inv_step [sample_out] (run_reqs inv_step [sample_create] ?e)"
    "map_option n_qtyOnHand (tfind n_id ''i1'' (inv_items (run_reqs inv_step [sample_create] ?e))) = Some 10"
    "net_movement ''i1'' (run_reqs inv_step [sample_create] ?e) = 0"
    "net_movement ''i1'' (run_reqs inv_step [sample_create, sample_out] ?e) = -4"
    by code_simp+
  then obtain i where i: "tfind n_id ''i1'' (inv_items (run_reqs inv_step [sample_create] ?e)) = Some i" "n_qtyOnHand i = 10"
    by auto
  from stock_ledger [OF c(1) i(1)] i(2) c(3,4) show ?thesis by auto
qed

text \<open>The stock and the journal are two statements without a transaction: when the second fails, stock has
  moved and no movement says so.\<close>

lemma failed_journal_loses_movement:
  "let db = run_reqs inv_step [sample_create, sample_out] (empty_inventory bursar_scope);
       r = inv_step sample_out db
   in fst r = Inl DbError \<and> map n_qtyOnHand (inv_items (snd r)) = [2] \<and> net_movement ''i1'' (snd r) = -4"
  by code_simp

end
