(* ===== verification/Hostel.thy ===== *)
theory Hostel
  imports Services
begin

section \<open>The hostel\<close>

text \<open>
  \<open>ops/hostel/hostel.service.ts\<close>: houses, beds and allocations of beds to students.
\<close>

record hostel_house =
  hs_id :: string
  hs_name :: string
  hs_gender :: "string option"
  hs_capacity :: int

record hostel_bed =
  bd_id :: string
  bd_house :: string
  bd_label :: string
  bd_status :: string

record hostel_allocation =
  al_id :: string
  al_bed :: string
  al_student :: string
  al_from :: "string option"
  al_to :: "string option"

record hostel_db =
  ho_houses :: "hostel_house list"
  ho_beds :: "hostel_bed list"
  ho_allocations :: "hostel_allocation list"
  ho_scope :: scope_db

definition hostel_managers :: "string list" where
  "hostel_managers = [''director'', ''school_admin'', ''it_admin'', ''principal'', ''head_teacher'', ''administrative_staff'']"

definition canViewHostelRole :: "string list \<Rightarrow> bool" where
  "canViewHostelRole roles = has_any_role roles (hostel_managers @ [''parent'', ''student''])"

definition assertManager :: "scope_db \<Rightarrow> string \<Rightarrow> unit result" where
  "assertManager sc actorId =
     (if \<not> has_any_role (getUserRoles sc actorId) hostel_managers then Inl (NotFound ''Hostel management is restricted'')
      else Inr ())"

datatype hostel_response =
    HHouses "(hostel_house \<times> hostel_bed list) list"
  | HId string

text \<open>A parent sees the beds ever allocated to a linked child, a student those allocated to them.\<close>

definition bed_visible :: "hostel_db \<Rightarrow> string \<Rightarrow> string list \<Rightarrow> hostel_bed \<Rightarrow> bool" where
  "bed_visible db actorId roles b =
     (if has_any_role roles [''parent'', ''student'']
      then list_ex (\<lambda>a. al_bed a = bd_id b \<and>
             (if List.member roles ''parent'' then linked_to (ho_scope db) actorId (al_student a)
              else al_student a = actorId)) (ho_allocations db)
      else True)"

definition listHouses :: "string \<Rightarrow> hostel_db \<Rightarrow> hostel_response result" where
  "listHouses actorId db =
     (let roles = getUserRoles (ho_scope db) actorId in
      if \<not> canViewHostelRole roles then Inl (NotFound ''Hostel access is restricted'')
      else let houses = sort_key hs_name (ho_houses db);
               beds = sort_key bd_label (filter (\<lambda>b. bd_house b \<in> hs_id ` set houses \<and> bed_visible db actorId roles b)
                        (ho_beds db))
           in Inr (HHouses (map (\<lambda>h. (h, filter (\<lambda>b. bd_house b = hs_id h) beds)) houses)))"

definition createHouse ::
  "string \<Rightarrow> string \<Rightarrow> string \<Rightarrow> string option \<Rightarrow> int option \<Rightarrow> hostel_db \<Rightarrow> hostel_response result \<times> hostel_db" where
  "createHouse fresh actorId name gender capacity db = (case assertManager (ho_scope db) actorId of
      Inl e \<Rightarrow> (Inl e, db)
    | Inr _ \<Rightarrow>
        let cap = (case capacity of Some n \<Rightarrow> n | None \<Rightarrow> 0) in
        if trim name = [] \<or> cap < 0 then (Inl (BadRequest ''House values are invalid''), db)
        else case tinsert hs_id \<lparr>hs_id = fresh, hs_name = name, hs_gender = or_null gender, hs_capacity = cap\<rparr> (ho_houses db) of
          None \<Rightarrow> (Inl DbError, db)
        | Some t \<Rightarrow> (Inr (HId fresh), db\<lparr>ho_houses := t\<rparr>))"

definition addBed ::
  "string \<Rightarrow> string \<Rightarrow> string \<Rightarrow> string \<Rightarrow> hostel_db \<Rightarrow> hostel_response result \<times> hostel_db" where
  "addBed fresh actorId houseId label db = (case assertManager (ho_scope db) actorId of
      Inl e \<Rightarrow> (Inl e, db)
    | Inr _ \<Rightarrow>
        if houseId = [] \<or> trim label = [] then (Inl (BadRequest ''Bed values are invalid''), db)
        else if tfind hs_id houseId (ho_houses db) = None then (Inl (NotFound ''House not found''), db)
        else case tinsert bd_id \<lparr>bd_id = fresh, bd_house = houseId, bd_label = label, bd_status = ''available''\<rparr> (ho_beds db) of
          None \<Rightarrow> (Inl DbError, db)
        | Some t \<Rightarrow> (Inr (HId fresh), db\<lparr>ho_beds := t\<rparr>))"

record allocation_body =
  ab_bedId :: string
  ab_studentId :: string
  ab_from :: "string option"
  ab_to :: "string option"

text \<open>JavaScript compares the two dates as strings.\<close>

definition dates_reversed :: "allocation_body \<Rightarrow> bool" where
  "dates_reversed body = (case (or_null (ab_from body), or_null (ab_to body)) of
      (Some f, Some t) \<Rightarrow> t < f
    | _ \<Rightarrow> False)"

definition allocate ::
  "string \<Rightarrow> string \<Rightarrow> allocation_body \<Rightarrow> hostel_db \<Rightarrow> hostel_response result \<times> hostel_db" where
  "allocate fresh actorId body db = (case assertManager (ho_scope db) actorId of
      Inl e \<Rightarrow> (Inl e, db)
    | Inr _ \<Rightarrow>
        if ab_bedId body = [] \<or> ab_studentId body = [] \<or> dates_reversed body
          then (Inl (BadRequest ''Allocation values are invalid''), db)
        else case tfind bd_id (ab_bedId body) (ho_beds db) of
          None \<Rightarrow> (Inl (NotFound ''Bed not found''), db)
        | Some bed \<Rightarrow>
            if bd_status bed \<noteq> ''available'' then (Inl (BadRequest ''Bed is not available''), db)
            else case tinsert al_id
                \<lparr>al_id = fresh, al_bed = ab_bedId body, al_student = ab_studentId body,
                 al_from = or_null (ab_from body), al_to = or_null (ab_to body)\<rparr> (ho_allocations db) of
              None \<Rightarrow> (Inl DbError, db)
            | Some t \<Rightarrow> (Inr (HId fresh),
                db\<lparr>ho_allocations := t,
                   ho_beds := tmodify bd_id (ab_bedId body) (\<lambda>b. b\<lparr>bd_status := ''occupied''\<rparr>) (ho_beds db)\<rparr>))"

datatype hostel_request =
    HList call string
  | HCreateHouse call string string string "string option" "int option"
  | HAddBed call string string string string
  | HAllocate call string string allocation_body

fun ho_call :: "hostel_request \<Rightarrow> call" where
  "ho_call (HList c actor) = c"
| "ho_call (HCreateHouse c fresh actor name gender capacity) = c"
| "ho_call (HAddBed c fresh actor house label) = c"
| "ho_call (HAllocate c fresh actor body) = c"

fun ho_body :: "hostel_request \<Rightarrow> hostel_db \<Rightarrow> hostel_response result \<times> hostel_db" where
  "ho_body (HList c actor) db = (listHouses actor db, db)"
| "ho_body (HCreateHouse c fresh actor name gender capacity) db = createHouse fresh actor name gender capacity db"
| "ho_body (HAddBed c fresh actor house label) db = addBed fresh actor house label db"
| "ho_body (HAllocate c fresh actor body) db = allocate fresh actor body db"

definition ho_step :: "hostel_request \<Rightarrow> hostel_db \<Rightarrow> hostel_response result \<times> hostel_db" where
  "ho_step q db = with_service ''ops.hostel'' (ho_call q) db (ho_body q)"

subsection \<open>A bed has one occupant\<close>

definition bed_allocations :: "string \<Rightarrow> hostel_allocation list \<Rightarrow> int" where
  "bed_allocations k as = tcount (\<lambda>a. al_bed a = k) as"

definition ho_inv :: "hostel_db \<Rightarrow> bool" where
  "ho_inv db \<longleftrightarrow> pk bd_id (ho_beds db) \<and> pk al_id (ho_allocations db) \<and> pk hs_id (ho_houses db) \<and>
     (\<forall>a\<in>set (ho_allocations db). al_bed a \<in> bd_id ` set (ho_beds db)) \<and>
     (\<forall>b\<in>set (ho_beds db). bd_house b \<in> hs_id ` set (ho_houses db)) \<and>
     (\<forall>b\<in>set (ho_beds db).
        (bd_status b = ''available'' \<and> bed_allocations (bd_id b) (ho_allocations db) = 0) \<or>
        (bd_status b = ''occupied'' \<and> bed_allocations (bd_id b) (ho_allocations db) = 1))"

lemma createHouse_inv: "ho_inv db \<Longrightarrow> ho_inv (snd (createHouse fresh actor name gender capacity db))"
  by (auto simp: createHouse_def Let_def tinsert_def ho_inv_def pk_def split: sum.splits)

lemma addBed_inv:
  assumes inv: "ho_inv db"
  shows "ho_inv (snd (addBed fresh actor house label db))"
proof (cases "fresh \<in> bd_id ` set (ho_beds db) \<or> tfind hs_id house (ho_houses db) = None")
  case True
  then show ?thesis using inv by (auto simp: addBed_def tinsert_def split: sum.splits)
next
  case False
  then have house: "house \<in> hs_id ` set (ho_houses db)" by (auto simp: tfind_None_iff)
  have none: "bed_allocations fresh (ho_allocations db) = 0"
    using inv False by (auto simp: ho_inv_def bed_allocations_def tcount_zero_iff)
  have "ho_inv (db\<lparr>ho_beds := ho_beds db @ [\<lparr>bd_id = fresh, bd_house = house, bd_label = label, bd_status = ''available''\<rparr>]\<rparr>)"
    using inv False house none by (auto simp: ho_inv_def pk_def)
  with inv False show ?thesis by (auto simp: addBed_def tinsert_def split: sum.splits)
qed

lemma allocate_inv:
  assumes inv: "ho_inv db"
  shows "ho_inv (snd (allocate fresh actor body db))"
proof (cases "snd (allocate fresh actor body db) = db")
  case False
  let ?k = "ab_bedId body"
  let ?row = "\<lparr>al_id = fresh, al_bed = ?k, al_student = ab_studentId body, al_from = or_null (ab_from body), al_to = or_null (ab_to body)\<rparr>"
  let ?beds = "tmodify bd_id ?k (\<lambda>b. b\<lparr>bd_status := ''occupied''\<rparr>) (ho_beds db)"
  obtain bed where bed: "tfind bd_id ?k (ho_beds db) = Some bed" "bd_status bed = ''available''"
    and new: "fresh \<notin> al_id ` set (ho_allocations db)"
    and db': "snd (allocate fresh actor body db) = db\<lparr>ho_allocations := ho_allocations db @ [?row], ho_beds := ?beds\<rparr>"
    using False by (auto simp: allocate_def tinsert_def split: sum.splits option.splits if_splits)
  have mem: "bed \<in> set (ho_beds db)" "bd_id bed = ?k" using tfind_SomeD [OF bed(1)] by auto
  then have k: "?k \<in> bd_id ` set (ho_beds db)" by (metis image_eqI)
  have zero: "bed_allocations ?k (ho_allocations db) = 0" using inv mem bed(2) by (auto simp: ho_inv_def)
  show ?thesis unfolding db' ho_inv_def
  proof (intro conjI ballI)
    fix b assume "b \<in> set (ho_beds (db\<lparr>ho_allocations := ho_allocations db @ [?row], ho_beds := ?beds\<rparr>))"
    then obtain x where x: "x \<in> set (ho_beds db)" "b = (if bd_id x = ?k then x\<lparr>bd_status := ''occupied''\<rparr> else x)"
      by (auto elim: set_tmodifyE)
    show "bd_house b \<in> hs_id ` set (ho_houses (db\<lparr>ho_allocations := ho_allocations db @ [?row], ho_beds := ?beds\<rparr>))"
      using inv x by (auto simp: ho_inv_def)
    show "(bd_status b = ''available'' \<and> bed_allocations (bd_id b)
          (ho_allocations (db\<lparr>ho_allocations := ho_allocations db @ [?row], ho_beds := ?beds\<rparr>)) = 0) \<or>
        (bd_status b = ''occupied'' \<and> bed_allocations (bd_id b)
          (ho_allocations (db\<lparr>ho_allocations := ho_allocations db @ [?row], ho_beds := ?beds\<rparr>)) = 1)"
      using inv x zero by (auto simp: ho_inv_def bed_allocations_def)
  qed (use inv k new in \<open>auto simp: ho_inv_def pk_tmodify key_set_tmodify pk_append\<close>)
qed (simp add: inv)

lemma ho_step_inv: "ho_inv db \<Longrightarrow> ho_inv (snd (ho_step q db))"
  unfolding ho_step_def
  by (rule with_service_inv, assumption) (cases q; simp add: createHouse_inv addBed_inv allocate_inv)

interpretation hostel: gated_invariant_machine ho_step ho_inv "\<lambda>q. open_service (ho_call q)"
proof
  show "ho_inv (snd (ho_step q s))" if "ho_inv s" for q s using that by (rule ho_step_inv)
  show "\<exists>e. ho_step q s = (Inl e, s)" if "\<not> open_service (ho_call q)" for q s
    unfolding ho_step_def by (rule with_service_closed [OF that])
qed

definition empty_hostel :: "scope_db \<Rightarrow> hostel_db" where
  "empty_hostel sc = \<lparr>ho_houses = [], ho_beds = [], ho_allocations = [], ho_scope = sc\<rparr>"

lemma ho_inv_empty: "ho_inv (empty_hostel sc)"
  by (simp add: ho_inv_def empty_hostel_def)

subsection \<open>Properties\<close>

text \<open>no bed is given twice: over every sequence of calls each bed belongs to a house, and is either
  available with no allocation or occupied with exactly one.\<close>

theorem one_occupant:
  assumes "b \<in> set (ho_beds (run_reqs ho_step qs (empty_hostel sc)))"
  shows "(\<exists>h\<in>set (ho_houses (run_reqs ho_step qs (empty_hostel sc))). hs_id h = bd_house b) \<and>
    length (filter (\<lambda>a. al_bed a = bd_id b) (ho_allocations (run_reqs ho_step qs (empty_hostel sc)))) =
      (if bd_status b = ''available'' then 0 else 1)"
proof -
  have inv: "ho_inv (run_reqs ho_step qs (empty_hostel sc))" by (rule hostel.run_inv [OF ho_inv_empty])
  have "int (length (filter (\<lambda>a. al_bed a = bd_id b) (ho_allocations (run_reqs ho_step qs (empty_hostel sc))))) =
      (if bd_status b = ''available'' then 0 else 1)"
    using inv assms by (auto simp: ho_inv_def bed_allocations_def tcount_length)
  moreover have "bd_house b \<in> hs_id ` set (ho_houses (run_reqs ho_step qs (empty_hostel sc)))"
    using inv assms by (simp add: ho_inv_def)
  ultimately show ?thesis by (auto split: if_splits)
qed

definition sample_hostel :: "hostel_request list" where
  "sample_hostel =
     (let ok = \<lparr>feature_on = True, tenant_found = True\<rparr> in
      [HCreateHouse ok ''h1'' ''p'' ''Red'' None (Some 10), HAddBed ok ''b1'' ''p'' ''h1'' ''A1'',
       HAllocate ok ''a1'' ''p'' \<lparr>ab_bedId = ''b1'', ab_studentId = ''ada'', ab_from = None, ab_to = None\<rparr>,
       HAllocate ok ''a2'' ''p'' \<lparr>ab_bedId = ''b1'', ab_studentId = ''bayo'', ab_from = None, ab_to = None\<rparr>])"

definition principal_scope :: scope_db where
  "principal_scope = nobody\<lparr>user_roles := [''p'' \<mapsto> JArray [''principal'']]\<rparr>"

theorem one_occupant_witness:
  "\<exists>b :: hostel_bed. bd_status b = ''occupied'' \<and>
     length (filter (\<lambda>a. al_bed a = bd_id b) (ho_allocations (run_reqs ho_step sample_hostel (empty_hostel principal_scope)))) = 1"
proof -
  have "ho_beds (run_reqs ho_step sample_hostel (empty_hostel principal_scope)) =
      [\<lparr>bd_id = ''b1'', bd_house = ''h1'', bd_label = ''A1'', bd_status = ''occupied''\<rparr>]" by code_simp
  then have b: "\<lparr>bd_id = ''b1'', bd_house = ''h1'', bd_label = ''A1'', bd_status = ''occupied''\<rparr>
      \<in> set (ho_beds (run_reqs ho_step sample_hostel (empty_hostel principal_scope)))" by simp
  from one_occupant [OF b] show ?thesis by (intro exI [of _ "\<lparr>bd_id = ''b1'', bd_house = ''h1'', bd_label = ''A1'', bd_status = ''occupied''\<rparr>"]) simp
qed

end
