(* ===== verification/Safeguarding.thy ===== *)
theory Safeguarding
  imports Services
begin

section \<open>Exit permissions\<close>

text \<open>
  \<open>safeguarding/safeguarding.service.ts\<close>: authorised adults, one-day delegations and exeats (exit
  permissions) with their reviews, the parent's one-time password and the digital exit pass.  \<open>sha\<close>
  is SHA-256 in hexadecimal; random digits and identifiers and the clock are arguments of a request.
  The notifications an operation sends are appended to \<open>sg_outbox\<close> as receiver and title.
\<close>

datatype exeat_status = PendingParent | PendingFormTeacher | PendingPrincipal | Declined | Approved | Used

datatype exeat_kind = ParentInitiated | SchoolInitiated

record exeat =
  ex_id :: string
  ex_student :: string
  ex_kind :: exeat_kind
  ex_reason :: string
  ex_pickupAt :: string
  ex_adultName :: string
  ex_adultPhone :: "string option"
  ex_adultId :: "string option"
  ex_status :: exeat_status
  ex_formTeacher :: "string option"
  ex_formTeacherAt :: "int option"
  ex_principal :: "string option"
  ex_principalAt :: "int option"
  ex_otpHash :: "string option"
  ex_otpExpires :: "int option"
  ex_confirmedAt :: "int option"
  ex_passCode :: "string option"
  ex_passExpires :: "int option"
  ex_gateUsedAt :: "int option"
  ex_gateUsedBy :: "string option"
  ex_note :: "string option"
  ex_createdBy :: string
  ex_createdAt :: int

record pickup_adult =
  ad_id :: string
  ad_student :: string
  ad_name :: string
  ad_phone :: "string option"
  ad_photo :: "string option"
  ad_relationship :: "string option"
  ad_idNumber :: "string option"
  ad_createdBy :: string
  ad_createdAt :: int

record delegation =
  de_id :: string
  de_student :: string
  de_adultName :: string
  de_phone :: "string option"
  de_photo :: "string option"
  de_idCapture :: "string option"
  de_validOn :: string
  de_createdBy :: string

record sg_db =
  sg_adults :: "pickup_adult list"
  sg_delegations :: "delegation list"
  sg_exeats :: "exeat list"
  sg_scope :: scope_db
  sg_active_users :: "(string \<times> json_column) list"   \<comment> \<open>users with is_active, and their roles\<close>
  sg_outbox :: "(string \<times> string) list"

definition hashValue :: "(string \<Rightarrow> string) \<Rightarrow> string \<Rightarrow> string" where
  "hashValue sha v = sha (toUpperCase (trim v))"

definition assertWard :: "scope_db \<Rightarrow> string \<Rightarrow> string \<Rightarrow> unit result" where
  "assertWard sc parentId studentId =
     (if \<not> linked_to sc parentId studentId then Inl (Forbidden ''Student is not linked to this parent'') else Inr ())"

text \<open>The class teacher of the latest enrolment (the tables keep insertion order).\<close>

definition formTeacherId :: "scope_db \<Rightarrow> string \<Rightarrow> string option" where
  "formTeacherId sc studentId =
     (case rev [c. (s, k) \<leftarrow> enrollments sc, s = studentId, c \<leftarrow> class_rows sc, fst c = k] of
        [] \<Rightarrow> None
      | c # _ \<Rightarrow> or_null (snd c))"

definition leaderIds :: "sg_db \<Rightarrow> string list" where
  "leaderIds db = map fst (filter (\<lambda>u. has_any_role (parseRoleList (snd u)) [''principal'', ''head_teacher'']) (sg_active_users db))"

definition notifyMany :: "string list \<Rightarrow> string \<Rightarrow> sg_db \<Rightarrow> sg_db" where
  "notifyMany users title db =
     db\<lparr>sg_outbox := sg_outbox db @ map (\<lambda>u. (u, title)) (js_uniq (filter (\<lambda>u. u \<noteq> []) users))\<rparr>"

definition notifyParents :: "string \<Rightarrow> string \<Rightarrow> sg_db \<Rightarrow> sg_db" where
  "notifyParents studentId title db =
     notifyMany (map fst (filter (\<lambda>l. snd l = studentId) (parent_links (sg_scope db)))) title db"

datatype sg_response =
    SgId string
  | SgAdults "pickup_adult list"
  | SgExeats "exeat list"
  | SgCreated string exeat_status "string option"   \<comment> \<open>with the one-time password\<close>
  | SgStatus string exeat_status
  | SgPass string string int                        \<comment> \<open>approved: pass code and expiry\<close>
  | SgNoPass
  | SgAlreadyUsed string
  | SgExpired string
  | SgRedeemed string

subsection \<open>Adults and delegations\<close>

definition ward_checked :: "scope_db \<Rightarrow> string \<Rightarrow> string \<Rightarrow> unit result" where
  "ward_checked sc actorId studentId =
     (if List.member (loadUserRoles sc actorId) ''parent'' then assertWard sc actorId studentId else Inr ())"

definition listAdults :: "string \<Rightarrow> string \<Rightarrow> sg_db \<Rightarrow> sg_response result" where
  "listAdults studentId actorId db = (case ward_checked (sg_scope db) actorId studentId of
      Inl e \<Rightarrow> Inl e
    | Inr _ \<Rightarrow> Inr (SgAdults (sort_key (\<lambda>a. - ad_createdAt a) (filter (\<lambda>a. ad_student a = studentId) (sg_adults db)))))"

record adult_body =
  au_student :: string
  au_name :: string
  au_phone :: "string option"
  au_photo :: "string option"
  au_relationship :: "string option"
  au_idNumber :: "string option"

definition addAdult :: "int \<Rightarrow> string \<Rightarrow> string \<Rightarrow> adult_body \<Rightarrow> sg_db \<Rightarrow> sg_response result \<times> sg_db" where
  "addAdult now fresh actorId body db = (case ward_checked (sg_scope db) actorId (au_student body) of
      Inl e \<Rightarrow> (Inl e, db)
    | Inr _ \<Rightarrow>
        (case tinsert ad_id \<lparr>ad_id = fresh, ad_student = au_student body, ad_name = au_name body,
                ad_phone = or_null (au_phone body), ad_photo = or_null (au_photo body),
                ad_relationship = or_null (au_relationship body), ad_idNumber = or_null (au_idNumber body),
                ad_createdBy = actorId, ad_createdAt = now\<rparr> (sg_adults db) of
           None \<Rightarrow> (Inl DbError, db)
         | Some t \<Rightarrow> (Inr (SgId fresh), db\<lparr>sg_adults := t\<rparr>)))"

definition removeAdult :: "string \<Rightarrow> string \<Rightarrow> sg_db \<Rightarrow> sg_response result \<times> sg_db" where
  "removeAdult actorId adultId db =
     (let roles = loadUserRoles (sg_scope db) actorId;
          delete = (Inr (SgId adultId), db\<lparr>sg_adults := tdelete (\<lambda>a. ad_id a = adultId) (sg_adults db)\<rparr>)
      in case tfind ad_id adultId (sg_adults db) of
           None \<Rightarrow> (Inl (NotFound ''Authorized adult not found''), db)
         | Some adult \<Rightarrow>
             if List.member roles ''parent''
               then (case assertWard (sg_scope db) actorId (ad_student adult) of Inl e \<Rightarrow> (Inl e, db) | Inr _ \<Rightarrow> delete)
             else if \<not> has_any_role roles [''director'', ''school_admin'', ''it_admin'', ''principal'', ''head_teacher'']
               then (Inl (Forbidden ''You cannot remove authorized adults''), db)
             else delete)"

record delegation_body =
  dg_student :: string
  dg_adultName :: string
  dg_phone :: "string option"
  dg_photo :: "string option"
  dg_idCapture :: "string option"
  dg_validOn :: string

definition addDelegation :: "string \<Rightarrow> string \<Rightarrow> delegation_body \<Rightarrow> sg_db \<Rightarrow> sg_response result \<times> sg_db" where
  "addDelegation fresh actorId body db = (case ward_checked (sg_scope db) actorId (dg_student body) of
      Inl e \<Rightarrow> (Inl e, db)
    | Inr _ \<Rightarrow>
        (case tinsert de_id \<lparr>de_id = fresh, de_student = dg_student body, de_adultName = dg_adultName body,
                de_phone = or_null (dg_phone body), de_photo = or_null (dg_photo body),
                de_idCapture = or_null (dg_idCapture body), de_validOn = dg_validOn body, de_createdBy = actorId\<rparr>
              (sg_delegations db) of
           None \<Rightarrow> (Inl DbError, db)
         | Some t \<Rightarrow> (Inr (SgId fresh), db\<lparr>sg_delegations := t\<rparr>)))"

subsection \<open>Exeats\<close>

text \<open>The joins of \<open>listExeats\<close>: an exeat appears once per joined row.\<close>

definition listExeats :: "string \<Rightarrow> string option \<Rightarrow> sg_db \<Rightarrow> exeat list" where
  "listExeats actorId studentId db =
     (let sc = sg_scope db; roles = loadUserRoles sc actorId;
          rows = (if List.member roles ''parent''
                  then [e. e \<leftarrow> sg_exeats db, l \<leftarrow> parent_links sc, l = (actorId, ex_student e)]
                  else if List.member roles ''class_teacher'' \<and> \<not> List.member roles ''principal'' \<and>
                          \<not> List.member roles ''head_teacher''
                  then [e. e \<leftarrow> sg_exeats db, (s, k) \<leftarrow> enrollments sc, s = ex_student e, c \<leftarrow> class_rows sc,
                           fst c = k \<and> (snd c = Some actorId \<or> List.member (class_teacher_links sc) (actorId, k))]
                  else sg_exeats db);
          chosen = (case or_null studentId of Some s \<Rightarrow> filter (\<lambda>e. ex_student e = s) rows | None \<Rightarrow> rows)
      in newest ex_createdAt 200 chosen)"

record exeat_body =
  eb_student :: string
  eb_kind :: "exeat_kind option"
  eb_reason :: string
  eb_pickupAt :: string
  eb_adultName :: string
  eb_adultPhone :: "string option"
  eb_adultId :: "string option"

definition createExeat ::
  "(string \<Rightarrow> string) \<Rightarrow> int \<Rightarrow> string \<Rightarrow> string \<Rightarrow> string \<Rightarrow> exeat_body \<Rightarrow> sg_db \<Rightarrow> sg_response result \<times> sg_db" where
  "createExeat sha now fresh otp actorId body db =
     (let sc = sg_scope db;
          parent = List.member (loadUserRoles sc actorId) ''parent'';
          kind = (case eb_kind body of Some k \<Rightarrow> k | None \<Rightarrow> if parent then ParentInitiated else SchoolInitiated)
      in if parent \<and> \<not> linked_to sc actorId (eb_student body)
           then (Inl (Forbidden ''Student is not linked to this parent''), db)
         else if parent \<and> kind \<noteq> ParentInitiated
           then (Inl (Forbidden ''Parents can only create parent-initiated exeats''), db)
         else
           let teacher = formTeacherId sc (eb_student body);
               school = (kind = SchoolInitiated);
               status = (if school then PendingParent else if teacher \<noteq> None then PendingFormTeacher else PendingPrincipal);
               row = \<lparr>ex_id = fresh, ex_student = eb_student body, ex_kind = kind, ex_reason = eb_reason body,
                      ex_pickupAt = eb_pickupAt body, ex_adultName = eb_adultName body,
                      ex_adultPhone = or_null (eb_adultPhone body), ex_adultId = or_null (eb_adultId body),
                      ex_status = status, ex_formTeacher = None, ex_formTeacherAt = None, ex_principal = None,
                      ex_principalAt = None, ex_otpHash = (if school then Some (hashValue sha otp) else None),
                      ex_otpExpires = (if school then Some (now + 15 * 60000) else None), ex_confirmedAt = None,
                      ex_passCode = None, ex_passExpires = None, ex_gateUsedAt = None, ex_gateUsedBy = None,
                      ex_note = None, ex_createdBy = actorId, ex_createdAt = now\<rparr>
           in case tinsert ex_id row (sg_exeats db) of
                None \<Rightarrow> (Inl DbError, db)
              | Some t \<Rightarrow>
                  let db1 = db\<lparr>sg_exeats := t\<rparr> in
                  (Inr (SgCreated fresh status (if school then Some otp else None)),
                   if school then notifyParents (eb_student body) ''School exit consent required'' db1
                   else case teacher of
                     Some f \<Rightarrow> notifyMany [f] ''Exeat request pending review'' db1
                   | None \<Rightarrow> notifyMany (leaderIds db1) ''Exeat request pending approval'' db1))"

definition may_review :: "scope_db \<Rightarrow> string \<Rightarrow> string \<Rightarrow> bool" where
  "may_review sc actorId studentId \<longleftrightarrow> formTeacherId sc studentId = Some actorId \<or>
     has_any_role (loadUserRoles sc actorId) [''principal'', ''head_teacher'', ''school_admin'']"

definition review ::
  "int \<Rightarrow> string \<Rightarrow> string \<Rightarrow> bool \<Rightarrow> string option \<Rightarrow> sg_db \<Rightarrow> sg_response result \<times> sg_db" where
  "review now actorId k approve note db = (case tfind ex_id k (sg_exeats db) of
      None \<Rightarrow> (Inl (NotFound ''Exeat not found''), db)
    | Some row \<Rightarrow>
        if ex_status row \<noteq> PendingFormTeacher
          then (Inl (BadRequest ''Exeat is not waiting for form-teacher review''), db)
        else if \<not> may_review (sg_scope db) actorId (ex_student row)
          then (Inl (Forbidden ''Only the form teacher can review this request''), db)
        else if \<not> approve
          then (Inr (SgStatus k Declined), notifyParents (ex_student row) ''Exeat declined''
                 (db\<lparr>sg_exeats := tmodify ex_id k (\<lambda>e. e\<lparr>ex_status := Declined, ex_formTeacher := Some actorId,
                        ex_formTeacherAt := Some now, ex_note := or_null note\<rparr>) (sg_exeats db)\<rparr>))
        else let db1 = db\<lparr>sg_exeats := tmodify ex_id k (\<lambda>e. e\<lparr>ex_status := PendingPrincipal,
                        ex_formTeacher := Some actorId, ex_formTeacherAt := Some now\<rparr>) (sg_exeats db)\<rparr>
          in (Inr (SgStatus k PendingPrincipal), notifyMany (leaderIds db1) ''Exeat pending principal approval'' db1))"

text \<open>\<open>COALESCE(x, v)\<close> keeps a value that is there.\<close>

definition coalesce :: "'a option \<Rightarrow> 'a \<Rightarrow> 'a option" where
  "coalesce x v = (case x of Some y \<Rightarrow> Some y | None \<Rightarrow> Some v)"

definition with_pass :: "int \<Rightarrow> string \<Rightarrow> string \<Rightarrow> exeat \<Rightarrow> exeat" where
  "with_pass now code actorId e = e\<lparr>ex_status := Approved, ex_principal := coalesce (ex_principal e) actorId,
     ex_principalAt := coalesce (ex_principalAt e) now, ex_passCode := Some code,
     ex_passExpires := Some (now + 6 * 3600000)\<rparr>"

definition issuePass :: "int \<Rightarrow> string \<Rightarrow> string \<Rightarrow> string \<Rightarrow> sg_db \<Rightarrow> sg_db" where
  "issuePass now code k actorId db = db\<lparr>sg_exeats := tmodify ex_id k (with_pass now code actorId) (sg_exeats db)\<rparr>"

definition exeat_leader :: "scope_db \<Rightarrow> string \<Rightarrow> bool" where
  "exeat_leader sc actorId \<longleftrightarrow>
     has_any_role (loadUserRoles sc actorId) [''principal'', ''head_teacher'', ''school_admin'', ''director'']"

definition decide ::
  "int \<Rightarrow> string \<Rightarrow> string \<Rightarrow> string \<Rightarrow> bool \<Rightarrow> string option \<Rightarrow> sg_db \<Rightarrow> sg_response result \<times> sg_db" where
  "decide now code actorId k approve note db =
     (if \<not> exeat_leader (sg_scope db) actorId then (Inl (Forbidden ''Only a school leader can approve exeats''), db)
      else case tfind ex_id k (sg_exeats db) of
        None \<Rightarrow> (Inl (NotFound ''Exeat not found''), db)
      | Some row \<Rightarrow>
          if ex_status row \<noteq> PendingPrincipal \<and> ex_status row \<noteq> PendingFormTeacher
            then (Inl (BadRequest ''Exeat is not waiting for approval''), db)
          else if \<not> approve
            then (Inr (SgStatus k Declined), notifyParents (ex_student row) ''Exeat declined''
                   (db\<lparr>sg_exeats := tmodify ex_id k (\<lambda>e. e\<lparr>ex_status := Declined, ex_principal := Some actorId,
                          ex_principalAt := Some now, ex_note := or_null note\<rparr>) (sg_exeats db)\<rparr>))
          else (Inr (SgPass k code (now + 6 * 3600000)),
                notifyParents (ex_student row) ''Exeat approved'' (issuePass now code k actorId db)))"

definition confirmParentOtp ::
  "(string \<Rightarrow> string) \<Rightarrow> int \<Rightarrow> string \<Rightarrow> string \<Rightarrow> string \<Rightarrow> string \<Rightarrow> sg_db \<Rightarrow> sg_response result \<times> sg_db" where
  "confirmParentOtp sha now code parentId k otp db = (case tfind ex_id k (sg_exeats db) of
      None \<Rightarrow> (Inl (NotFound ''Exeat not found''), db)
    | Some row \<Rightarrow>
        (case assertWard (sg_scope db) parentId (ex_student row) of
           Inl e \<Rightarrow> (Inl e, db)
         | Inr _ \<Rightarrow>
             if ex_status row \<noteq> PendingParent
               then (Inl (BadRequest ''This request is not waiting for parent confirmation''), db)
             else (case (or_null (ex_otpHash row), ex_otpExpires row) of
                (Some h, Some expires) \<Rightarrow>
                  if expires < now then (Inl (BadRequest ''OTP expired''), db)
                  else if h \<noteq> hashValue sha otp then (Inl (Forbidden ''Invalid OTP''), db)
                  else let db1 = issuePass now code k parentId db
                    in (Inr (SgPass k code (now + 6 * 3600000)),
                        db1\<lparr>sg_exeats := tmodify ex_id k (\<lambda>e. e\<lparr>ex_confirmedAt := Some now\<rparr>) (sg_exeats db1)\<rparr>)
              | _ \<Rightarrow> (Inl (BadRequest ''OTP is not available''), db))))"

definition redeemPass :: "int \<Rightarrow> string \<Rightarrow> string \<Rightarrow> sg_db \<Rightarrow> sg_response result \<times> sg_db" where
  "redeemPass now actorId code db = (case find (\<lambda>e. ex_passCode e = Some code) (sg_exeats db) of
      None \<Rightarrow> (Inr SgNoPass, db)
    | Some row \<Rightarrow>
        if ex_gateUsedAt row \<noteq> None then (Inr (SgAlreadyUsed (ex_id row)), db)
        else if ex_status row \<noteq> Approved \<or> (case ex_passExpires row of Some x \<Rightarrow> x < now | None \<Rightarrow> True)
          then (Inr (SgExpired (ex_id row)), notifyMany (leaderIds db) ''Invalid exit pass attempt'' db)
        else (Inr (SgRedeemed (ex_id row)),
          notifyParents (ex_student row) ''Student left school''
            (db\<lparr>sg_exeats := tmodify ex_id (ex_id row) (\<lambda>e. e\<lparr>ex_status := Used, ex_gateUsedAt := Some now,
                   ex_gateUsedBy := Some actorId\<rparr>) (sg_exeats db)\<rparr>)))"

datatype sg_request =
    SListAdults call string string
  | SAddAdult call int string string adult_body
  | SRemoveAdult call string string
  | SDelegate call string string delegation_body
  | SList call string "string option"
  | SCreate call int string string string exeat_body
  | SReview call int string string bool "string option"
  | SDecide call int string string string bool "string option"
  | SConfirm call int string string string string
  | SRedeem call int string string

fun sg_call :: "sg_request \<Rightarrow> call" where
  "sg_call (SListAdults c student actor) = c"
| "sg_call (SAddAdult c now fresh actor body) = c"
| "sg_call (SRemoveAdult c actor k) = c"
| "sg_call (SDelegate c fresh actor body) = c"
| "sg_call (SList c actor student) = c"
| "sg_call (SCreate c now fresh otp actor body) = c"
| "sg_call (SReview c now actor k approve note) = c"
| "sg_call (SDecide c now code actor k approve note) = c"
| "sg_call (SConfirm c now code parent k otp) = c"
| "sg_call (SRedeem c now actor code) = c"

fun sg_body :: "(string \<Rightarrow> string) \<Rightarrow> sg_request \<Rightarrow> sg_db \<Rightarrow> sg_response result \<times> sg_db" where
  "sg_body sha (SListAdults c student actor) db = (listAdults student actor db, db)"
| "sg_body sha (SAddAdult c now fresh actor body) db = addAdult now fresh actor body db"
| "sg_body sha (SRemoveAdult c actor k) db = removeAdult actor k db"
| "sg_body sha (SDelegate c fresh actor body) db = addDelegation fresh actor body db"
| "sg_body sha (SList c actor student) db = (Inr (SgExeats (listExeats actor student db)), db)"
| "sg_body sha (SCreate c now fresh otp actor body) db = createExeat sha now fresh otp actor body db"
| "sg_body sha (SReview c now actor k approve note) db = review now actor k approve note db"
| "sg_body sha (SDecide c now code actor k approve note) db = decide now code actor k approve note db"
| "sg_body sha (SConfirm c now code parent k otp) db = confirmParentOtp sha now code parent k otp db"
| "sg_body sha (SRedeem c now actor code) db = redeemPass now actor code db"

definition sg_step :: "(string \<Rightarrow> string) \<Rightarrow> sg_request \<Rightarrow> sg_db \<Rightarrow> sg_response result \<times> sg_db" where
  "sg_step sha q db = with_service ''ops.safeguarding'' (sg_call q) db (sg_body sha q)"

subsection \<open>The contract of an exeat\<close>

text \<open>What may happen to one exeat, and who may do it.\<close>

inductive exeat_move :: "scope_db \<Rightarrow> exeat \<Rightarrow> exeat \<Rightarrow> bool" for sc where
  reviewed: "ex_status e = PendingFormTeacher \<Longrightarrow> may_review sc actor (ex_student e) \<Longrightarrow>
    exeat_move sc e (e\<lparr>ex_status := PendingPrincipal, ex_formTeacher := Some actor, ex_formTeacherAt := Some now\<rparr>)"
| review_declined: "ex_status e = PendingFormTeacher \<Longrightarrow> may_review sc actor (ex_student e) \<Longrightarrow>
    exeat_move sc e (e\<lparr>ex_status := Declined, ex_formTeacher := Some actor, ex_formTeacherAt := Some now, ex_note := note\<rparr>)"
| decided: "ex_status e = PendingPrincipal \<or> ex_status e = PendingFormTeacher \<Longrightarrow> exeat_leader sc actor \<Longrightarrow>
    exeat_move sc e (with_pass now code actor e)"
| decision_declined: "ex_status e = PendingPrincipal \<or> ex_status e = PendingFormTeacher \<Longrightarrow> exeat_leader sc actor \<Longrightarrow>
    exeat_move sc e (e\<lparr>ex_status := Declined, ex_principal := Some actor, ex_principalAt := Some now, ex_note := note\<rparr>)"
| confirmed: "ex_status e = PendingParent \<Longrightarrow> linked_to sc parent (ex_student e) \<Longrightarrow> ex_otpExpires e = Some x \<Longrightarrow> now \<le> x \<Longrightarrow>
    exeat_move sc e ((with_pass now code parent e)\<lparr>ex_confirmedAt := Some now\<rparr>)"
| redeemed: "ex_status e = Approved \<Longrightarrow> ex_gateUsedAt e = None \<Longrightarrow> ex_passExpires e = Some x \<Longrightarrow> now \<le> x \<Longrightarrow>
    exeat_move sc e (e\<lparr>ex_status := Used, ex_gateUsedAt := Some now, ex_gateUsedBy := Some actor\<rparr>)"

inductive_cases exeat_moveE: "exeat_move sc e e'"

definition new_exeat :: "exeat \<Rightarrow> bool" where
  "new_exeat e \<longleftrightarrow> ex_gateUsedAt e = None \<and> ex_passCode e = None \<and> ex_principal e = None \<and> ex_principalAt e = None \<and>
     ex_confirmedAt e = None \<and>
     (if ex_kind e = SchoolInitiated
      then ex_status e = PendingParent \<and> ex_otpExpires e = Some (ex_createdAt e + 900000)
      else ex_status e = PendingFormTeacher \<or> ex_status e = PendingPrincipal)"

text \<open>What may happen to the table: nothing, a new row, or a move of the row of one identifier.\<close>

inductive exeat_change :: "scope_db \<Rightarrow> exeat list \<Rightarrow> exeat list \<Rightarrow> bool" for sc where
  keep: "exeat_change sc es es"
| create: "new_exeat e \<Longrightarrow> ex_id e \<notin> ex_id ` set es \<Longrightarrow> exeat_change sc es (es @ [e])"
| move: "tfind ex_id k es = Some e \<Longrightarrow> exeat_move sc e (f e) \<Longrightarrow> (\<And>r. ex_id (f r) = ex_id r) \<Longrightarrow>
    exeat_change sc es (tmodify ex_id k f es)"

inductive_cases exeat_changeE: "exeat_change sc es es'"

lemma notify_frame [simp]:
  "sg_exeats (notifyMany us t db) = sg_exeats db" "sg_scope (notifyMany us t db) = sg_scope db"
  "sg_exeats (notifyParents st t db) = sg_exeats db" "sg_scope (notifyParents st t db) = sg_scope db"
  by (simp_all add: notifyMany_def notifyParents_def)

lemma with_pass_frame [simp]:
  "ex_id (with_pass now code a e) = ex_id e" "ex_student (with_pass now code a e) = ex_student e"
  "ex_kind (with_pass now code a e) = ex_kind e" "ex_status (with_pass now code a e) = Approved"
  "ex_passCode (with_pass now code a e) = Some code" "ex_passExpires (with_pass now code a e) = Some (now + 6 * 3600000)"
  "ex_gateUsedAt (with_pass now code a e) = ex_gateUsedAt e" "ex_confirmedAt (with_pass now code a e) = ex_confirmedAt e"
  "ex_otpExpires (with_pass now code a e) = ex_otpExpires e" "ex_createdAt (with_pass now code a e) = ex_createdAt e"
  "ex_principal (with_pass now code a e) = coalesce (ex_principal e) a"
  "ex_principalAt (with_pass now code a e) = coalesce (ex_principalAt e) now"
  by (simp_all add: with_pass_def)

lemma assertWard_ok [simp]: "assertWard sc p st = Inr u \<longleftrightarrow> linked_to sc p st"
  by (simp add: assertWard_def)

lemma tmodify_tmodify: "(\<And>r. key (f r) = key r) \<Longrightarrow> tmodify key k g (tmodify key k f t) = tmodify key k (\<lambda>r. g (f r)) t"
  by (induction t) auto

lemma createExeat_change:
  "exeat_change (sg_scope db) (sg_exeats db) (sg_exeats (snd (createExeat sha now fresh otp actor body db)))"
  by (auto simp: createExeat_def Let_def tinsert_def new_exeat_def intro!: exeat_change.keep exeat_change.create
      split: option.splits)

lemma review_change: "exeat_change (sg_scope db) (sg_exeats db) (sg_exeats (snd (review now actor k approve note db)))"
  by (auto simp: review_def Let_def intro: exeat_change.intros exeat_move.intros split: option.splits)

lemma decide_change: "exeat_change (sg_scope db) (sg_exeats db) (sg_exeats (snd (decide now code actor k approve note db)))"
  by (auto simp: decide_def issuePass_def intro!: exeat_change.keep exeat_change.move intro: exeat_move.intros split: option.splits)

lemma confirm_change:
  "exeat_change (sg_scope db) (sg_exeats db) (sg_exeats (snd (confirmParentOtp sha now code parent k otp db)))"
  by (auto simp: confirmParentOtp_def Let_def issuePass_def tmodify_tmodify not_less assertWard_def
      intro!: exeat_change.keep exeat_change.move intro: exeat_move.confirmed split: option.splits)

lemma redeem_change:
  assumes pk: "pk ex_id (sg_exeats db)"
  shows "exeat_change (sg_scope db) (sg_exeats db) (sg_exeats (snd (redeemPass now actor code db)))"
proof (cases "find (\<lambda>e. ex_passCode e = Some code) (sg_exeats db)")
  case (Some row)
  then have "row \<in> set (sg_exeats db)" by (auto simp: find_Some_iff)
  then have "tfind ex_id (ex_id row) (sg_exeats db) = Some row" by (rule tfind_eqI [OF pk])
  with Some show ?thesis
    by (auto simp: redeemPass_def not_less intro!: exeat_change.keep exeat_change.move intro: exeat_move.intros split: option.splits)
qed (simp add: redeemPass_def exeat_change.keep)

lemma ward_ops_frame [simp]:
  "sg_exeats (snd (addAdult now fresh actor abody db)) = sg_exeats db"
  "sg_exeats (snd (removeAdult actor k db)) = sg_exeats db"
  "sg_exeats (snd (addDelegation fresh actor dbody db)) = sg_exeats db"
  by (auto simp: addAdult_def removeAdult_def addDelegation_def Let_def split: sum.splits option.splits)

lemma createExeat_scope [simp]: "sg_scope (snd (createExeat sha now fresh otp actor body db)) = sg_scope db"
  by (simp add: createExeat_def Let_def split: option.splits)

lemma review_scope [simp]: "sg_scope (snd (review now actor k approve note db)) = sg_scope db"
  by (simp add: review_def Let_def split: option.splits)

lemma decide_scope [simp]: "sg_scope (snd (decide now code actor k approve note db)) = sg_scope db"
  by (simp add: decide_def issuePass_def split: option.splits)

lemma confirm_scope [simp]: "sg_scope (snd (confirmParentOtp sha now code parent k otp db)) = sg_scope db"
  by (simp add: confirmParentOtp_def issuePass_def Let_def split: option.splits sum.splits)

lemma redeem_scope [simp]: "sg_scope (snd (redeemPass now actor code db)) = sg_scope db"
  by (simp add: redeemPass_def split: option.splits)

lemma ward_ops_scope [simp]:
  "sg_scope (snd (addAdult now fresh actor abody db)) = sg_scope db"
  "sg_scope (snd (removeAdult actor k db)) = sg_scope db"
  "sg_scope (snd (addDelegation fresh actor dbody db)) = sg_scope db"
  by (auto simp: addAdult_def removeAdult_def addDelegation_def Let_def split: sum.splits option.splits)

lemma sg_scope_step [simp]: "sg_scope (snd (sg_step sha q db)) = sg_scope db"
  by (cases q) (simp_all add: sg_step_def with_service_def)

lemma sg_step_change:
  assumes "pk ex_id (sg_exeats db)"
  shows "exeat_change (sg_scope db) (sg_exeats db) (sg_exeats (snd (sg_step sha q db)))"
proof (cases "open_service (sg_call q)")
  case True
  then show ?thesis
    by (cases q) (simp_all add: sg_step_def with_service_open createExeat_change review_change decide_change confirm_change
        redeem_change [OF assms] exeat_change.keep)
next
  case False
  then have "snd (sg_step sha q db) = db" by (simp add: sg_step_def with_service_closed_snd)
  then show ?thesis by (simp add: exeat_change.keep)
qed

subsection \<open>Who authorised a pass\<close>

definition exeat_ok :: "scope_db \<Rightarrow> exeat \<Rightarrow> bool" where
  "exeat_ok sc e \<longleftrightarrow>
     (ex_passCode e \<noteq> None \<longleftrightarrow> ex_status e = Approved \<or> ex_status e = Used) \<and>
     (ex_gateUsedAt e \<noteq> None \<longleftrightarrow> ex_status e = Used) \<and>
     (ex_kind e = SchoolInitiated \<longrightarrow> ex_status e \<in> {PendingParent, Approved, Used}) \<and>
     (ex_status e = PendingParent \<longrightarrow> ex_kind e = SchoolInitiated \<and> ex_otpExpires e = Some (ex_createdAt e + 900000)) \<and>
     (ex_status e \<in> {PendingParent, PendingFormTeacher, PendingPrincipal} \<longrightarrow>
        ex_principal e = None \<and> ex_principalAt e = None \<and> ex_confirmedAt e = None) \<and>
     (ex_status e \<in> {Approved, Used} \<longrightarrow>
        (\<exists>p t. ex_principal e = Some p \<and> ex_principalAt e = Some t \<and> ex_passExpires e = Some (t + 21600000) \<and>
          (if ex_kind e = SchoolInitiated
           then linked_to sc p (ex_student e) \<and> ex_confirmedAt e = Some t \<and> t \<le> ex_createdAt e + 900000
           else exeat_leader sc p)))"

lemma new_exeat_ok: "new_exeat e \<Longrightarrow> exeat_ok sc e"
  by (cases "ex_kind e") (auto simp: new_exeat_def exeat_ok_def)

lemma move_ok: "exeat_move sc e e' \<Longrightarrow> exeat_ok sc e \<Longrightarrow> exeat_ok sc e'"
proof (induction rule: exeat_move.induct)
  case (decided e actor now code)
  then show ?case by (cases "ex_kind e") (auto simp: exeat_ok_def coalesce_def)
next
  case (confirmed e parent x now code)
  then show ?case by (simp add: exeat_ok_def coalesce_def)
next
  case (redeemed e x now actor)
  then show ?case by (cases "ex_kind e") (auto simp: exeat_ok_def)
qed (auto simp: exeat_ok_def)

lemma change_ok:
  assumes "exeat_change sc es es'" and "pk ex_id es \<and> (\<forall>e\<in>set es. exeat_ok sc e)"
  shows "pk ex_id es' \<and> (\<forall>e\<in>set es'. exeat_ok sc e)"
  using assms
proof (induction rule: exeat_change.induct)
  case (create e es)
  then show ?case by (auto simp: pk_append new_exeat_ok)
next
  case (move k es e f)
  have "exeat_ok sc r" if mem: "r \<in> set (tmodify ex_id k f es)" for r
  proof -
    obtain x where x: "x \<in> set es" "r = (if ex_id x = k then f x else x)" by (rule set_tmodifyE [OF mem])
    show ?thesis
    proof (cases "ex_id x = k")
      case True
      with tfind_eqI [of ex_id es x] move x(1) have "x = e" by simp
      with True x(2) move_ok [OF move(2)] move x(1) show ?thesis by simp
    next
      case False
      with x move show ?thesis by simp
    qed
  qed
  with move show ?case by (simp add: pk_tmodify)
qed simp

definition sg_inv :: "sg_db \<Rightarrow> bool" where
  "sg_inv db \<longleftrightarrow> pk ex_id (sg_exeats db) \<and> (\<forall>e\<in>set (sg_exeats db). exeat_ok (sg_scope db) e)"

lemma sg_step_inv: "sg_inv db \<Longrightarrow> sg_inv (snd (sg_step sha q db))"
  using change_ok [OF sg_step_change [of db sha q]] by (simp add: sg_inv_def)

interpretation safeguarding: gated_invariant_machine "sg_step sha" sg_inv "\<lambda>q. open_service (sg_call q)" for sha
proof
  show "sg_inv (snd (sg_step sha q s))" if "sg_inv s" for q s using that by (rule sg_step_inv)
  show "\<exists>e. sg_step sha q s = (Inl e, s)" if "\<not> open_service (sg_call q)" for q s
    unfolding sg_step_def by (rule with_service_closed [OF that])
qed

subsection \<open>A pass is used once\<close>

definition pass_spent :: "string \<Rightarrow> sg_db \<Rightarrow> bool" where
  "pass_spent k db \<longleftrightarrow> (\<exists>e. tfind ex_id k (sg_exeats db) = Some e \<and> ex_status e = Used)"

lemma change_spent:
  assumes "exeat_change sc es es'" and "tfind ex_id k es = Some e" and "ex_status e = Used"
  shows "tfind ex_id k es' = Some e"
  using assms
proof (induction rule: exeat_change.induct)
  case (move k' es e' f)
  have "k' \<noteq> k" using move by (auto elim: exeat_moveE)
  with move show ?case by (simp add: tfind_tmodify)
qed (simp_all add: tfind_append)

lemma redeemPass_hit:
  assumes "fst (redeemPass now actor code db) = Inr (SgRedeemed k)" and "pk ex_id (sg_exeats db)"
  shows "\<exists>e x. tfind ex_id k (sg_exeats db) = Some e \<and> ex_status e = Approved \<and> ex_passCode e = Some code \<and>
    ex_passExpires e = Some x \<and> now \<le> x \<and>
    sg_exeats (snd (redeemPass now actor code db)) = tmodify ex_id k
      (\<lambda>e. e\<lparr>ex_status := Used, ex_gateUsedAt := Some now, ex_gateUsedBy := Some actor\<rparr>) (sg_exeats db)"
proof (cases "find (\<lambda>e. ex_passCode e = Some code) (sg_exeats db)")
  case (Some row)
  then have "row \<in> set (sg_exeats db)" "ex_passCode row = Some code" by (auto simp: find_Some_iff)
  with tfind_eqI [OF assms(2)] have "tfind ex_id (ex_id row) (sg_exeats db) = Some row" by simp
  with Some assms(1) \<open>ex_passCode row = Some code\<close> show ?thesis
    by (auto simp: redeemPass_def split: if_splits option.splits)
qed (use assms(1) in \<open>simp add: redeemPass_def\<close>)

lemma only_redeem_hits:
  assumes "fst (sg_step sha q db) = Inr (SgRedeemed k)"
  shows "\<exists>c now actor code. q = SRedeem c now actor code \<and> sg_step sha q db = redeemPass now actor code db"
  using assms
  by (cases q) (auto simp: sg_step_def with_service_def listAdults_def addAdult_def removeAdult_def addDelegation_def
      createExeat_def review_def decide_def confirmParentOtp_def Let_def split: if_splits sum.splits option.splits)

lemma redeem_hit_effect:
  assumes hit: "fst (sg_step sha q db) = Inr (SgRedeemed k)" and pk: "pk ex_id (sg_exeats db)"
  shows "\<not> pass_spent k db" and "pass_spent k (snd (sg_step sha q db))"
proof -
  obtain now actor code where q: "sg_step sha q db = redeemPass now actor code db"
    using only_redeem_hits [OF hit] by blast
  obtain e where e: "tfind ex_id k (sg_exeats db) = Some e" "ex_status e = Approved"
    and new: "sg_exeats (snd (redeemPass now actor code db)) = tmodify ex_id k
      (\<lambda>e. e\<lparr>ex_status := Used, ex_gateUsedAt := Some now, ex_gateUsedBy := Some actor\<rparr>) (sg_exeats db)"
    using redeemPass_hit [OF _ pk, of now actor code k] hit q by auto
  show "\<not> pass_spent k db" using e by (simp add: pass_spent_def)
  show "pass_spent k (snd (sg_step sha q db))" using e by (simp add: q new pass_spent_def tfind_tmodify)
qed

interpretation exit_pass: one_shot "sg_step sha" sg_inv "pass_spent k" "\<lambda>r. r = Inr (SgRedeemed k)" for sha k
proof
  fix q s assume inv: "sg_inv s"
  then have pk: "pk ex_id (sg_exeats s)" by (simp add: sg_inv_def)
  show "sg_inv (snd (sg_step sha q s))" by (rule sg_step_inv [OF inv])
  show "pass_spent k (snd (sg_step sha q s))" if "pass_spent k s"
    using that change_spent [OF sg_step_change [OF pk]] unfolding pass_spent_def by blast
  show "fst (sg_step sha q s) \<noteq> Inr (SgRedeemed k)" if "pass_spent k s"
    using that redeem_hit_effect(1) [OF _ pk] by blast
  show "pass_spent k (snd (sg_step sha q s))" if "fst (sg_step sha q s) = Inr (SgRedeemed k)"
    by (rule redeem_hit_effect(2) [OF that pk])
qed

subsection \<open>Properties\<close>

definition sg_start :: "scope_db \<Rightarrow> (string \<times> json_column) list \<Rightarrow> sg_db" where
  "sg_start sc users = \<lparr>sg_adults = [], sg_delegations = [], sg_exeats = [], sg_scope = sc, sg_active_users = users, sg_outbox = []\<rparr>"

lemma sg_inv_start: "sg_inv (sg_start sc users)"
  by (simp add: sg_inv_def sg_start_def)

lemma sg_scope_run [simp]: "sg_scope (run_reqs (sg_step sha) qs db) = sg_scope db"
  by (induction qs arbitrary: db) simp_all


definition family :: scope_db where
  "family = nobody\<lparr>user_roles := [''head'' \<mapsto> JArray [''principal''], ''mum'' \<mapsto> JArray [''parent''], ''gate'' \<mapsto> JArray [''guard'']],
     parent_links := [(''mum'', ''ada'')]\<rparr>"

definition exit_calls :: "sg_request list" where
  "exit_calls =
     (let ok = \<lparr>feature_on = True, tenant_found = True\<rparr> in
      [SCreate ok 1000 ''e1'' ''123456'' ''head'' \<lparr>eb_student = ''ada'', eb_kind = None, eb_reason = ''ill'', eb_pickupAt = ''noon'',
         eb_adultName = ''aunt'', eb_adultPhone = None, eb_adultId = None\<rparr>,
       SConfirm ok 5000 ''777777'' ''mum'' ''e1'' ''123456'',
       SRedeem ok 9000 ''gate'' ''777777'', SRedeem ok 9001 ''gate'' ''777777''])"


text \<open>an exit pass works once: in every sequence of calls, from every state the service can reach, at
  most one call answers that the pass of a given exeat was redeemed.\<close>

theorem pass_once:
  "length (filter (\<lambda>r. r = Inr (SgRedeemed k))
     (answers (sg_step sha) qs (run_reqs (sg_step sha) before (sg_start sc users)))) \<le> 1"
  by (rule exit_pass.at_most_once) (rule safeguarding.run_inv [OF sg_inv_start])

text \<open>consent by one-time password: a confirmation goes through only for a linked parent, on a request
  still waiting for the parent, in time, and with the password whose hash was stored; then the pass
  it answers is the one stored.\<close>

theorem otp_consent:
  assumes "fst (confirmParentOtp sha now code parent k otp db) = Inr r"
  shows "\<exists>e x. tfind ex_id k (sg_exeats db) = Some e \<and> linked_to (sg_scope db) parent (ex_student e) \<and>
    ex_status e = PendingParent \<and> ex_otpHash e = Some (sha (toUpperCase (trim otp))) \<and> ex_otpExpires e = Some x \<and> now \<le> x \<and>
    r = SgPass k code (now + 6 * 3600000) \<and>
    map_option ex_passCode (tfind ex_id k (sg_exeats (snd (confirmParentOtp sha now code parent k otp db)))) = Some (Some code)"
proof -
  obtain e x where e: "tfind ex_id k (sg_exeats db) = Some e" "linked_to (sg_scope db) parent (ex_student e)"
    "ex_status e = PendingParent" "or_null (ex_otpHash e) = Some (hashValue sha otp)" "ex_otpExpires e = Some x" "now \<le> x"
    and r: "r = SgPass k code (now + 6 * 3600000)"
    using assms by (auto simp: confirmParentOtp_def Let_def split: option.splits sum.splits if_splits)
  then have "map_option ex_passCode (tfind ex_id k (sg_exeats (snd (confirmParentOtp sha now code parent k otp db)))) = Some (Some code)"
    by (simp add: confirmParentOtp_def Let_def issuePass_def tfind_tmodify assertWard_def)
  with e r show ?thesis by (auto simp: or_null_Some_iff hashValue_def)
qed

theorem otp_consent_witness:
  "\<exists>r. fst (sg_step id (exit_calls ! 1) (run_reqs (sg_step id) [exit_calls ! 0] (sg_start family []))) = Inr r \<and>
     r = SgPass ''e1'' ''777777'' (5000 + 6 * 3600000)"
proof -
  let ?db = "run_reqs (sg_step id) [exit_calls ! 0] (sg_start family [])"
  have "fst (confirmParentOtp id 5000 ''777777'' ''mum'' ''e1'' ''123456'' ?db) = Inr (SgPass ''e1'' ''777777'' 21605000)"
    by code_simp
  moreover have "sg_step id (exit_calls ! 1) db = confirmParentOtp id 5000 ''777777'' ''mum'' ''e1'' ''123456'' db" for db
    by (simp add: sg_step_def exit_calls_def with_service_def Let_def)
  ultimately show ?thesis using otp_consent [of id 5000 "''777777''" "''mum''" "''e1''" "''123456''" ?db] by simp
qed

text \<open>Pass codes are six random digits and not unique: a valid pass whose code was drawn before is answered
  as the older, used one.\<close>

lemma colliding_pass_refused:
  assumes "sg_exeats db = e1 # e2 # []" and "ex_passCode e1 = Some code" and "ex_gateUsedAt e1 \<noteq> None"
    and "ex_passCode e2 = Some code" and "ex_status e2 = Approved"
  shows "fst (redeemPass now actor code db) = Inr (SgAlreadyUsed (ex_id e1))"
  using assms by (simp add: redeemPass_def)

end
