(* ===== verification/Gate.thy ===== *)
theory Gate
  imports Safeguarding
begin

section \<open>The gate\<close>

text \<open>
  \<open>ops/gate/gate.service.ts\<close>: one-time pickup codes issued by staff and parents and redeemed at the
  gate, where a code is first tried as a digital exit pass.  A redemption call carries the answers of
  the feature checks of both services.  The random six-digit code is an argument.
\<close>

record gate_token =
  gt_id :: string
  gt_student :: string
  gt_guardian :: "string option"
  gt_code :: string
  gt_validUntil :: int
  gt_usedAt :: "int option"
  gt_createdBy :: string
  gt_createdAt :: int

record gate_db =
  ga_tokens :: "gate_token list"
  ga_sg :: sg_db

datatype gate_response =
    GTokens "gate_token list"
  | GIssued string string int
  | GUsed string
  | GExpired string
  | GRedeemed string
  | GPass sg_response

definition gate_list :: "gate_db \<Rightarrow> gate_token list" where
  "gate_list db = newest gt_createdAt 200 (ga_tokens db)"

definition issueToken ::
  "int \<Rightarrow> string \<Rightarrow> string \<Rightarrow> string \<Rightarrow> string \<Rightarrow> string option \<Rightarrow> int option \<Rightarrow> gate_db \<Rightarrow> gate_response result \<times> gate_db" where
  "issueToken now fresh code userId studentId guardian validHours db =
     (let sc = sg_scope (ga_sg db); roles = loadUserRoles sc userId in
      if List.member roles ''guard'' then (Inl (NotFound ''Guards may redeem pickup codes only''), db)
      else if List.member roles ''parent'' \<and> \<not> linked_to sc userId studentId
        then (Inl (NotFound ''Student is not linked to this parent''), db)
      else
        let hours = min (max (case validHours of Some h \<Rightarrow> h | None \<Rightarrow> 4) 1) 72;
            validUntil = now + hours * 3600000;
            row = \<lparr>gt_id = fresh, gt_student = studentId, gt_guardian = or_null guardian, gt_code = code,
                   gt_validUntil = validUntil, gt_usedAt = None, gt_createdBy = userId, gt_createdAt = now\<rparr>
        in if code \<in> gt_code ` set (ga_tokens db) then (Inl DbError, db)   \<comment> \<open>token_code is UNIQUE\<close>
           else case tinsert gt_id row (ga_tokens db) of
             None \<Rightarrow> (Inl DbError, db)
           | Some t \<Rightarrow> (Inr (GIssued fresh code validUntil), db\<lparr>ga_tokens := t\<rparr>))"

definition gate_roles :: "string list" where
  "gate_roles = [''guard'', ''director'', ''school_admin'', ''it_admin'', ''principal'', ''head_teacher'']"

text \<open>The part of \<open>redeem\<close> after the exit pass was not found.\<close>

definition redeem_token :: "int \<Rightarrow> string \<Rightarrow> string \<Rightarrow> gate_db \<Rightarrow> gate_response result \<times> gate_db" where
  "redeem_token now userId code db = (case tfind gt_code code (ga_tokens db) of
      None \<Rightarrow> (Inl (NotFound ''Token not found''), db\<lparr>ga_sg := notifyMany [userId] ''Unknown exit pass'' (ga_sg db)\<rparr>)
    | Some row \<Rightarrow>
        if gt_usedAt row \<noteq> None then (Inr (GUsed (gt_id row)), db)
        else if gt_validUntil row < now then (Inr (GExpired (gt_id row)), db)
        else (Inr (GRedeemed (gt_id row)),
          db\<lparr>ga_tokens := tmodify gt_id (gt_id row) (\<lambda>t. t\<lparr>gt_usedAt := Some now\<rparr>) (ga_tokens db),
             ga_sg := (ga_sg db)\<lparr>sg_outbox := sg_outbox (ga_sg db) @
               map (\<lambda>l. (fst l, ''Student left school'')) (filter (\<lambda>l. snd l = gt_student row)
                 (parent_links (sg_scope (ga_sg db))))\<rparr>\<rparr>))"

definition gate_redeem ::
  "(string \<Rightarrow> string) \<Rightarrow> call \<Rightarrow> int \<Rightarrow> string \<Rightarrow> string \<Rightarrow> gate_db \<Rightarrow> gate_response result \<times> gate_db" where
  "gate_redeem sha sgCall now userId code db =
     (if \<not> has_any_role (loadUserRoles (sg_scope (ga_sg db)) userId) gate_roles
      then (Inl (NotFound ''You are not authorized to redeem pickup codes''), db)
      else let r = sg_step sha (SRedeem sgCall now userId code) (ga_sg db); db1 = db\<lparr>ga_sg := snd r\<rparr> in
        case fst r of
          Inl e \<Rightarrow> (Inl e, db1)
        | Inr SgNoPass \<Rightarrow> redeem_token now userId code db1
        | Inr a \<Rightarrow> (Inr (GPass a), db1))"

datatype gate_request =
    GList call
  | GIssue call int string string string string "string option" "int option"
  | GRedeem call call int string string
  | GExeat sg_request                     \<comment> \<open>a call of the safeguarding service between gate calls\<close>

fun gate_step :: "(string \<Rightarrow> string) \<Rightarrow> gate_request \<Rightarrow> gate_db \<Rightarrow> gate_response result \<times> gate_db" where
  "gate_step sha (GList c) db = with_service ''ops.gate_security'' c db (\<lambda>db. (Inr (GTokens (gate_list db)), db))"
| "gate_step sha (GIssue c now fresh code userId student guardian hours) db =
     with_service ''ops.gate_security'' c db (issueToken now fresh code userId student guardian hours)"
| "gate_step sha (GRedeem c sgCall now userId code) db =
     with_service ''ops.gate_security'' c db (gate_redeem sha sgCall now userId code)"
| "gate_step sha (GExeat q) db = (let r = sg_step sha q (ga_sg db) in
     (map_sum id GPass (fst r), db\<lparr>ga_sg := snd r\<rparr>))"

subsection \<open>Codes and their use\<close>

definition ga_inv :: "gate_db \<Rightarrow> bool" where
  "ga_inv db \<longleftrightarrow> sg_inv (ga_sg db) \<and> pk gt_id (ga_tokens db) \<and> pk gt_code (ga_tokens db) \<and>
     (\<forall>t\<in>set (ga_tokens db). gt_createdAt t + 3600000 \<le> gt_validUntil t \<and> gt_validUntil t \<le> gt_createdAt t + 72 * 3600000 \<and>
        (\<forall>u. gt_usedAt t = Some u \<longrightarrow> u \<le> gt_validUntil t) \<and>
        \<not> List.member (loadUserRoles (sg_scope (ga_sg db)) (gt_createdBy t)) ''guard'' \<and>
        (List.member (loadUserRoles (sg_scope (ga_sg db)) (gt_createdBy t)) ''parent'' \<longrightarrow>
           linked_to (sg_scope (ga_sg db)) (gt_createdBy t) (gt_student t)))"

lemma sg_inv_outbox: "sg_inv (s\<lparr>sg_outbox := x\<rparr>) = sg_inv s"
  by (simp add: sg_inv_def)

lemma sg_inv_notify [simp]: "sg_inv (notifyMany us t s) = sg_inv s"
  by (simp add: notifyMany_def sg_inv_outbox)

lemma issueToken_inv:
  assumes "ga_inv db"
  shows "ga_inv (snd (issueToken now fresh code userId student guardian hours db))"
  using assms by (auto simp: issueToken_def Let_def ga_inv_def tinsert_def pk_append)

lemma pk_same: "pk key t \<Longrightarrow> r \<in> set t \<Longrightarrow> r' \<in> set t \<Longrightarrow> key r = key r' \<Longrightarrow> r = r'"
  by (metis option.inject tfind_eqI)

lemma redeem_token_inv:
  assumes inv: "ga_inv db"
  shows "ga_inv (snd (redeem_token now userId code db))"
proof (cases "tfind gt_code code (ga_tokens db)")
  case None
  then show ?thesis using inv by (simp add: redeem_token_def ga_inv_def)
next
  case (Some row)
  then have row: "row \<in> set (ga_tokens db)" by (auto dest: tfind_SomeD)
  show ?thesis
  proof (cases "gt_usedAt row \<noteq> None \<or> gt_validUntil row < now")
    case True
    then show ?thesis using inv Some by (auto simp: redeem_token_def)
  next
    case False
    let ?ts = "tmodify gt_id (gt_id row) (\<lambda>t. t\<lparr>gt_usedAt := Some now\<rparr>) (ga_tokens db)"
    have "\<exists>x\<in>set (ga_tokens db). gt_createdAt t = gt_createdAt x \<and> gt_validUntil t = gt_validUntil x \<and>
        gt_createdBy t = gt_createdBy x \<and> gt_student t = gt_student x \<and>
        (gt_usedAt t = gt_usedAt x \<or> gt_usedAt t = Some now \<and> now \<le> gt_validUntil x)"
      if mem: "t \<in> set ?ts" for t
    proof -
      obtain x where x: "x \<in> set (ga_tokens db)" "t = (if gt_id x = gt_id row then x\<lparr>gt_usedAt := Some now\<rparr> else x)"
        by (rule set_tmodifyE [OF mem])
      moreover have "x = row" if "gt_id x = gt_id row"
        using pk_same [of gt_id "ga_tokens db" x row] x(1) row that inv by (simp add: ga_inv_def)
      ultimately show ?thesis using False by (auto intro!: bexI [of _ x])
    qed
    note old = this
    have tok: "gt_createdAt t + 3600000 \<le> gt_validUntil t \<and> gt_validUntil t \<le> gt_createdAt t + 72 * 3600000 \<and>
        (\<forall>u. gt_usedAt t = Some u \<longrightarrow> u \<le> gt_validUntil t) \<and>
        \<not> List.member (loadUserRoles (sg_scope (ga_sg db)) (gt_createdBy t)) ''guard'' \<and>
        (List.member (loadUserRoles (sg_scope (ga_sg db)) (gt_createdBy t)) ''parent'' \<longrightarrow>
           linked_to (sg_scope (ga_sg db)) (gt_createdBy t) (gt_student t))" if "t \<in> set ?ts" for t
      using old [OF that] inv unfolding ga_inv_def by auto
    have "pk gt_id ?ts" "pk gt_code ?ts" using inv by (simp_all add: ga_inv_def pk_tmodify tmodify_def pk_tupdate)
    moreover have "ga_tokens (snd (redeem_token now userId code db)) = ?ts"
      "sg_inv (ga_sg (snd (redeem_token now userId code db)))"
      "sg_scope (ga_sg (snd (redeem_token now userId code db))) = sg_scope (ga_sg db)"
      using False Some inv by (auto simp: redeem_token_def sg_inv_outbox ga_inv_def)
    ultimately show ?thesis using tok unfolding ga_inv_def by simp
  qed
qed

lemma ga_inv_sg:
  assumes "ga_inv db"
  shows "ga_inv (db\<lparr>ga_sg := snd (sg_step sha q (ga_sg db))\<rparr>)"
  using assms by (simp add: ga_inv_def sg_step_inv)

lemma gate_redeem_inv:
  assumes inv: "ga_inv db"
  shows "ga_inv (snd (gate_redeem sha sgCall now userId code db))"
  using inv ga_inv_sg [OF inv] redeem_token_inv [OF ga_inv_sg [OF inv]]
  by (auto simp: gate_redeem_def Let_def split: sum.splits sg_response.splits)

lemma gate_step_inv: "ga_inv db \<Longrightarrow> ga_inv (snd (gate_step sha q db))"
  by (cases q) (auto simp: with_service_def issueToken_inv gate_redeem_inv ga_inv_sg Let_def)

interpretation gate: invariant_machine "gate_step sha" ga_inv for sha
  by unfold_locales (rule gate_step_inv)

definition token_spent :: "string \<Rightarrow> gate_db \<Rightarrow> bool" where
  "token_spent k db \<longleftrightarrow> (\<exists>t. tfind gt_id k (ga_tokens db) = Some t \<and> gt_usedAt t \<noteq> None)"

lemma issueToken_spent: "token_spent k db \<Longrightarrow> token_spent k (snd (issueToken now fresh code userId student guardian hours db))"
  by (auto simp: token_spent_def issueToken_def Let_def tinsert_def tfind_append)

lemma redeem_token_spent: "token_spent k db \<Longrightarrow> token_spent k (snd (redeem_token now userId code db))"
  by (auto simp: token_spent_def redeem_token_def tfind_tmodify split: option.splits)

lemma redeem_token_hit:
  assumes "fst (redeem_token now userId code db) = Inr (GRedeemed k)" and "pk gt_id (ga_tokens db)"
  shows "\<not> token_spent k db \<and> token_spent k (snd (redeem_token now userId code db))"
proof -
  obtain row where row: "tfind gt_code code (ga_tokens db) = Some row" "gt_usedAt row = None" "k = gt_id row"
    using assms(1) by (auto simp: redeem_token_def split: option.splits if_splits)
  then have "row \<in> set (ga_tokens db)" by (auto dest: tfind_SomeD)
  then have "tfind gt_id k (ga_tokens db) = Some row" using tfind_eqI [OF assms(2)] row(3) by simp
  with row assms(1) show ?thesis
    by (auto simp: token_spent_def redeem_token_def tfind_tmodify split: if_splits)
qed

lemma token_spent_sg [simp]: "token_spent k (db\<lparr>ga_sg := s\<rparr>) = token_spent k db"
  by (simp add: token_spent_def)

lemma gate_redeem_spent: "token_spent k db \<Longrightarrow> token_spent k (snd (gate_redeem sha sgCall now userId code db))"
  by (auto simp: gate_redeem_def Let_def redeem_token_spent split: sum.splits sg_response.splits)

lemma gate_redeem_hit:
  assumes "fst (gate_redeem sha sgCall now userId code db) = Inr (GRedeemed k)" and "pk gt_id (ga_tokens db)"
  shows "\<not> token_spent k db \<and> token_spent k (snd (gate_redeem sha sgCall now userId code db))"
  using assms redeem_token_hit [of now userId code "db\<lparr>ga_sg := snd (sg_step sha (SRedeem sgCall now userId code) (ga_sg db))\<rparr>" k]
  by (auto simp: gate_redeem_def Let_def split: sum.splits sg_response.splits if_splits)

lemma issue_no_hit: "fst (issueToken now fresh code userId student guardian hours db) \<noteq> Inr (GRedeemed k)"
  by (auto simp: issueToken_def Let_def split: option.splits)

lemma gate_step_spent: "token_spent k db \<Longrightarrow> token_spent k (snd (gate_step sha q db))"
  by (cases q) (auto simp: with_service_def issueToken_spent gate_redeem_spent Let_def)

lemma gate_step_hit:
  assumes "fst (gate_step sha q db) = Inr (GRedeemed k)" and "pk gt_id (ga_tokens db)"
  shows "\<not> token_spent k db \<and> token_spent k (snd (gate_step sha q db))"
proof (cases q)
  case (GRedeem c sgCall now userId code)
  with assms gate_redeem_hit [OF _ assms(2), of sha sgCall now userId code k] show ?thesis
    by (auto simp: with_service_def split: if_splits)
next
  case (GIssue c now fresh code userId student guardian hours)
  with assms issue_no_hit show ?thesis by (auto simp: with_service_def split: if_splits)
next
  case (GList c)
  with assms show ?thesis by (auto simp: with_service_def split: if_splits)
next
  case (GExeat q')
  with assms show ?thesis by (cases "fst (sg_step sha q' (ga_sg db))") (auto simp: Let_def)
qed

interpretation pickup: one_shot "gate_step sha" ga_inv "token_spent k" "\<lambda>r. r = Inr (GRedeemed k)" for sha k
proof
  fix q s assume inv: "ga_inv s"
  then have pk: "pk gt_id (ga_tokens s)" by (simp add: ga_inv_def)
  show "ga_inv (snd (gate_step sha q s))" by (rule gate_step_inv [OF inv])
  show "token_spent k (snd (gate_step sha q s))" if "token_spent k s" using that by (rule gate_step_spent)
  show "fst (gate_step sha q s) \<noteq> Inr (GRedeemed k)" if "token_spent k s"
    using that gate_step_hit [OF _ pk] by blast
  show "token_spent k (snd (gate_step sha q s))" if "fst (gate_step sha q s) = Inr (GRedeemed k)"
    using gate_step_hit [OF that pk] by simp
qed

subsection \<open>Properties\<close>

definition gate_start :: "scope_db \<Rightarrow> (string \<times> json_column) list \<Rightarrow> gate_db" where
  "gate_start sc users = \<lparr>ga_tokens = [], ga_sg = sg_start sc users\<rparr>"

lemma ga_inv_start: "ga_inv (gate_start sc users)"
  by (simp add: ga_inv_def gate_start_def sg_inv_start)

text \<open>a pickup code opens the gate once: in every sequence of calls of the gate and of the safeguarding
  service, at most one call answers that a given code was redeemed.\<close>

theorem token_once:
  "length (filter (\<lambda>r. r = Inr (GRedeemed k))
     (answers (gate_step sha) qs (run_reqs (gate_step sha) before (gate_start sc users)))) \<le> 1"
  by (rule pickup.at_most_once) (rule gate.run_inv [OF ga_inv_start])

lemma gate_scope_step [simp]: "sg_scope (ga_sg (snd (gate_step sha q db))) = sg_scope (ga_sg db)"
proof -
  have r: "sg_scope (ga_sg (snd (redeem_token now u c d))) = sg_scope (ga_sg d)" for now u c d
    by (simp add: redeem_token_def split: option.splits)
  have i: "sg_scope (ga_sg (snd (issueToken now f c u st g h d))) = sg_scope (ga_sg d)" for now f c u st g h d
    by (simp add: issueToken_def Let_def split: option.splits)
  have "sg_scope (ga_sg (snd (gate_redeem sha sc now u c d))) = sg_scope (ga_sg d)" for sc now u c d
    by (simp add: gate_redeem_def Let_def r split: sum.splits sg_response.splits)
  then show ?thesis by (cases q) (simp_all add: with_service_def i Let_def)
qed

lemma gate_scope_run [simp]: "sg_scope (ga_sg (run_reqs (gate_step sha) qs db)) = sg_scope (ga_sg db)"
  by (induction qs arbitrary: db) simp_all

text \<open>pickup codes are short-lived and have an owner: over every sequence of calls, a stored code is
  valid for 1 to 72 hours from its issue, was used, if at all, while valid, is unique, and was not
  issued by a guard nor by a parent for a child that is not theirs.\<close>

theorem tokens_bounded:
  assumes "t \<in> set (ga_tokens (run_reqs (gate_step sha) qs (gate_start sc users)))"
  shows "gt_createdAt t + 1 * 3600000 \<le> gt_validUntil t \<and> gt_validUntil t \<le> gt_createdAt t + 72 * 3600000 \<and>
    (case gt_usedAt t of Some u \<Rightarrow> u \<le> gt_validUntil t | None \<Rightarrow> True) \<and>
    ''guard'' \<notin> set (loadUserRoles sc (gt_createdBy t)) \<and>
    (''parent'' \<notin> set (loadUserRoles sc (gt_createdBy t)) \<or> linked_to sc (gt_createdBy t) (gt_student t)) \<and>
    tfind gt_code (gt_code t) (ga_tokens (run_reqs (gate_step sha) qs (gate_start sc users))) = Some t"
proof -
  have inv: "ga_inv (run_reqs (gate_step sha) qs (gate_start sc users))" by (rule gate.run_inv [OF ga_inv_start])
  then have "pk gt_code (ga_tokens (run_reqs (gate_step sha) qs (gate_start sc users)))" by (simp add: ga_inv_def)
  from tfind_eqI [OF this assms] inv assms show ?thesis
    by (auto simp: ga_inv_def gate_start_def sg_start_def split: option.splits)
qed

definition gate_calls :: "gate_request list" where
  "gate_calls =
     (let ok = \<lparr>feature_on = True, tenant_found = True\<rparr> in
      [GIssue ok 0 ''t1'' ''424242'' ''mum'' ''ada'' (Some ''aunt'') (Some 100), GRedeem ok ok 500 ''gate'' ''424242''])"

theorem tokens_bounded_witness:
  "\<exists>t :: gate_token. gt_code t = ''424242'' \<and> gt_validUntil t \<le> gt_createdAt t + 72 * 3600000 \<and> linked_to family ''mum'' (gt_student t)"
proof -
  let ?s = "run_reqs (gate_step id) gate_calls (gate_start family [])"
  have c: "map gt_code (ga_tokens ?s) = [''424242'']" "map gt_createdBy (ga_tokens ?s) = [''mum'']"
    "List.member (loadUserRoles family ''mum'') ''parent''"
    by code_simp+
  then obtain t where t: "ga_tokens ?s = [t]" by (auto simp: map_eq_Cons_conv)
  with tokens_bounded [of t id gate_calls family "[]"] c show ?thesis by auto
qed

text \<open>A pickup code cannot be redeemed while the separate feature \<open>ops.safeguarding\<close> is off: the exit-pass
  lookup throws first.\<close>

lemma pickup_needs_safeguarding:
  assumes "has_any_role (loadUserRoles (sg_scope (ga_sg db)) userId) gate_roles" and "\<not> feature_on sgCall"
  shows "gate_redeem sha sgCall now userId code db = (Inl (Forbidden ''Feature disabled: ops.safeguarding''), db)"
  using assms by (simp add: gate_redeem_def sg_step_def with_service_def Let_def)

end
