(* ===== verification/Cbt.thy ===== *)
theory Cbt
  imports Services
begin

section \<open>Computer-based tests\<close>

text \<open>
  \<open>cbt/cbt.service.ts\<close>: exams with multiple-choice questions, attempts and scoring.  Times are
  milliseconds, points integers (the column is an \<open>int\<close>); \<open>None\<close> for a number of a request body is
  the absent field, and the answers of an attempt are a map from question to option index, as the
  JSON text of the column reads back.
\<close>

datatype exam_status = Draft | Published

record cbt_exam =
  xe_id :: string
  xe_title :: string
  xe_subject :: "string option"
  xe_class :: "string option"
  xe_minutes :: int
  xe_status :: exam_status
  xe_by :: string
  xe_createdAt :: int

record cbt_question =
  xq_id :: string
  xq_exam :: string
  xq_prompt :: string
  xq_options :: "string list"
  xq_correct :: int
  xq_points :: int

record cbt_attempt =
  xa_id :: string
  xa_exam :: string
  xa_student :: string
  xa_submitted :: bool
  xa_answers :: "string \<rightharpoonup> int"
  xa_score :: int
  xa_max :: int
  xa_startedAt :: int
  xa_submittedAt :: "int option"

record cbt_db =
  cbt_exams :: "cbt_exam list"
  cbt_questions :: "cbt_question list"
  cbt_attempts :: "cbt_attempt list"
  cbt_scope :: scope_db

record question_body =
  qb_prompt :: string
  qb_options :: "string list"
  qb_correct :: int
  qb_points :: "int option"

record exam_body =
  xb_title :: string
  xb_subject :: "string option"
  xb_class :: "string option"
  xb_minutes :: "int option"
  xb_questions :: "question_body list"

definition check_question :: "question_body \<Rightarrow> unit result" where
  "check_question q =
     (if trim (qb_prompt q) = [] \<or> length (qb_options q) < 2
        then Inl (BadRequest ''Every question needs a prompt and at least two options'')
      else if qb_correct q < 0 \<or> int (length (qb_options q)) \<le> qb_correct q
        then Inl (BadRequest ''Every question needs a valid correct answer'')
      else if (case qb_points q of Some p \<Rightarrow> p < 1 | None \<Rightarrow> False)
        then Inl (BadRequest ''Question points must be positive'')
      else Inr ())"

fun first_error :: "unit result list \<Rightarrow> unit result" where
  "first_error [] = Inr ()"
| "first_error (Inl e # rs) = Inl e"
| "first_error (Inr u # rs) = first_error rs"

definition validateExamBody :: "exam_body \<Rightarrow> unit result" where
  "validateExamBody body =
     (let minutes = (case xb_minutes body of Some m \<Rightarrow> m | None \<Rightarrow> 60) in
      if trim (xb_title body) = [] then Inl (BadRequest ''Exam title is required'')
      else if minutes < 1 \<or> 480 < minutes
        then Inl (BadRequest ''Exam duration must be between 1 and 480 minutes'')
      else first_error (map check_question (xb_questions body)))"

datatype cbt_response =
    XExams "(cbt_exam \<times> nat) list"
  | XCreated string nat
  | XPublished string
  | XQuestions "(string \<times> string \<times> string list \<times> int) list"                  \<comment> \<open>no answers\<close>
  | XAnswers "(string \<times> string \<times> string list \<times> int \<times> int) list"
  | XStarted string "(string \<times> string \<times> string list \<times> int) list"
  | XScored string int int int                                              \<comment> \<open>attempt, score, maximum, percent\<close>

definition question_count :: "cbt_db \<Rightarrow> string \<Rightarrow> nat" where
  "question_count db examId = length (filter (\<lambda>q. xq_exam q = examId) (cbt_questions db))"

definition listExams :: "string \<Rightarrow> cbt_db \<Rightarrow> (cbt_exam \<times> nat) list" where
  "listExams actorId db =
     (let roles = getUserRoles (cbt_scope db) actorId;
          visible = (\<lambda>e. if List.member roles ''student''
            then xe_status e = Published \<and>
                 (case xe_class e of None \<Rightarrow> True | Some c \<Rightarrow> List.member (enrollments (cbt_scope db)) (actorId, c))
            else True)
      in if List.member roles ''parent'' then []
         else map (\<lambda>e. (e, question_count db (xe_id e))) (newest xe_createdAt 100 (filter visible (cbt_exams db))))"

fun insert_questions :: "string \<Rightarrow> string list \<Rightarrow> question_body list \<Rightarrow> cbt_question list \<Rightarrow> bool \<times> cbt_question list" where
  "insert_questions examId (i # ids) (q # qs) t =
     (case tinsert xq_id \<lparr>xq_id = i, xq_exam = examId, xq_prompt = qb_prompt q, xq_options = qb_options q,
                          xq_correct = qb_correct q, xq_points = (case qb_points q of Some p \<Rightarrow> p | None \<Rightarrow> 1)\<rparr> t of
        None \<Rightarrow> (False, t)
      | Some t' \<Rightarrow> insert_questions examId ids qs t')"
| "insert_questions examId [] (q # qs) t = (False, t)"
| "insert_questions examId ids [] t = (True, t)"

definition createExam ::
  "int \<Rightarrow> string \<Rightarrow> string list \<Rightarrow> string \<Rightarrow> exam_body \<Rightarrow> cbt_db \<Rightarrow> cbt_response result \<times> cbt_db" where
  "createExam now fresh ids userId body db = (case validateExamBody body of
      Inl e \<Rightarrow> (Inl e, db)
    | Inr _ \<Rightarrow>
        (case tinsert xe_id \<lparr>xe_id = fresh, xe_title = trim (xb_title body), xe_subject = or_null (xb_subject body),
                xe_class = or_null (xb_class body), xe_minutes = (case xb_minutes body of Some m \<Rightarrow> m | None \<Rightarrow> 60),
                xe_status = Draft, xe_by = userId, xe_createdAt = now\<rparr> (cbt_exams db) of
           None \<Rightarrow> (Inl DbError, db)
         | Some t \<Rightarrow>
             let r = insert_questions fresh ids (xb_questions body) (cbt_questions db);
                 db1 = db\<lparr>cbt_exams := t, cbt_questions := snd r\<rparr>
             in (if fst r then Inr (XCreated fresh (length (xb_questions body))) else Inl DbError, db1)))"

definition publishExam :: "string \<Rightarrow> string \<Rightarrow> cbt_db \<Rightarrow> cbt_response result \<times> cbt_db" where
  "publishExam actorId examId db = (case tfind xe_id examId (cbt_exams db) of
      None \<Rightarrow> (Inl (NotFound ''Exam not found''), db)
    | Some e \<Rightarrow>
        if xe_by e \<noteq> actorId \<and> \<not> has_any_role (getUserRoles (cbt_scope db) actorId)
             [''director'', ''school_admin'', ''principal'', ''head_teacher'']
        then (Inl (BadRequest ''Only the author or school leadership may publish this exam''), db)
        else (Inr (XPublished examId),
              db\<lparr>cbt_exams := tmodify xe_id examId (\<lambda>e. e\<lparr>xe_status := Published\<rparr>) (cbt_exams db)\<rparr>))"

definition exam_questions :: "string \<Rightarrow> cbt_db \<Rightarrow> cbt_question list" where
  "exam_questions examId db = sort_key xq_id (filter (\<lambda>q. xq_exam q = examId) (cbt_questions db))"

definition getExamQuestions :: "string \<Rightarrow> bool \<Rightarrow> cbt_db \<Rightarrow> cbt_response" where
  "getExamQuestions examId includeAnswers db =
     (if includeAnswers
      then XAnswers (map (\<lambda>q. (xq_id q, xq_prompt q, xq_options q, xq_points q, xq_correct q)) (exam_questions examId db))
      else XQuestions (map (\<lambda>q. (xq_id q, xq_prompt q, xq_options q, xq_points q)) (exam_questions examId db)))"

definition shown_questions :: "string \<Rightarrow> cbt_db \<Rightarrow> (string \<times> string \<times> string list \<times> int) list" where
  "shown_questions examId db = map (\<lambda>q. (xq_id q, xq_prompt q, xq_options q, xq_points q)) (exam_questions examId db)"

definition running :: "string \<Rightarrow> string \<Rightarrow> cbt_attempt \<Rightarrow> bool" where
  "running examId studentId a \<longleftrightarrow> xa_exam a = examId \<and> xa_student a = studentId \<and> \<not> xa_submitted a"

definition startAttempt ::
  "int \<Rightarrow> string \<Rightarrow> string \<Rightarrow> string \<Rightarrow> cbt_db \<Rightarrow> cbt_response result \<times> cbt_db" where
  "startAttempt now fresh studentId examId db = (case tfind xe_id examId (cbt_exams db) of
      None \<Rightarrow> (Inl (NotFound ''Exam not found''), db)
    | Some e \<Rightarrow>
        if \<not> List.member (getUserRoles (cbt_scope db) studentId) ''student''
          then (Inl (BadRequest ''Only student accounts may start a CBT attempt''), db)
        else if xe_status e \<noteq> Published then (Inl (BadRequest ''This exam is not published''), db)
        else if (case or_null (xe_class e) of Some c \<Rightarrow> \<not> List.member (enrollments (cbt_scope db)) (studentId, c) | None \<Rightarrow> False)
          then (Inl (BadRequest ''Student is not enrolled in this exam class''), db)
        else case find (running examId studentId) (cbt_attempts db) of
          Some a \<Rightarrow> (Inr (XStarted (xa_id a) (shown_questions examId db)), db)
        | None \<Rightarrow>
            (case tinsert xa_id \<lparr>xa_id = fresh, xa_exam = examId, xa_student = studentId, xa_submitted = False,
                    xa_answers = Map.empty, xa_score = 0, xa_max = 0, xa_startedAt = now, xa_submittedAt = None\<rparr>
                  (cbt_attempts db) of
               None \<Rightarrow> (Inl DbError, db)
             | Some t \<Rightarrow> (Inr (XStarted fresh (shown_questions examId db)), db\<lparr>cbt_attempts := t\<rparr>)))"

text \<open>\<open>Number(q.points || 1)\<close>; the loop adds up score and maximum.\<close>

definition weight :: "cbt_question \<Rightarrow> int" where
  "weight q = (if xq_points q = 0 then 1 else xq_points q)"

fun tally :: "(string \<rightharpoonup> int) \<Rightarrow> cbt_question list \<Rightarrow> int \<times> int \<Rightarrow> int \<times> int" where
  "tally ans [] acc = acc"
| "tally ans (q # qs) (score, maxScore) =
     tally ans qs (if ans (xq_id q) = Some (xq_correct q) then score + weight q else score, maxScore + weight q)"

text \<open>\<open>Math.round((score / maxScore) * 100)\<close>: half goes up.\<close>

definition percent :: "int \<Rightarrow> int \<Rightarrow> int" where
  "percent score maxScore = (if 0 < maxScore then (200 * score + maxScore) div (2 * maxScore) else 0)"

definition scoreAttempt :: "int \<Rightarrow> string \<Rightarrow> cbt_db \<Rightarrow> cbt_response result \<times> cbt_db" where
  "scoreAttempt now attemptId db = (case tfind xa_id attemptId (cbt_attempts db) of
      None \<Rightarrow> (Inl (NotFound ''Attempt not found''), db)
    | Some a \<Rightarrow>
        let (score, maxScore) = tally (xa_answers a) (exam_questions (xa_exam a) db) (0, 0) in
        (Inr (XScored attemptId score maxScore (percent score maxScore)),
         db\<lparr>cbt_attempts := tmodify xa_id attemptId (\<lambda>a. a\<lparr>xa_submitted := True, xa_score := score, xa_max := maxScore,
               xa_submittedAt := Some now\<rparr>) (cbt_attempts db)\<rparr>))"

definition submitAnswers ::
  "int \<Rightarrow> string \<Rightarrow> string \<Rightarrow> (string \<rightharpoonup> int) \<Rightarrow> cbt_db \<Rightarrow> cbt_response result \<times> cbt_db" where
  "submitAnswers now studentId attemptId ans db = (case tfind xa_id attemptId (cbt_attempts db) of
      None \<Rightarrow> (Inl (NotFound ''Attempt not found''), db)
    | Some a \<Rightarrow>
        if xa_student a \<noteq> studentId then (Inl (BadRequest ''Attempt does not belong to this student''), db)
        else if xa_submitted a then (Inl (BadRequest ''Attempt already submitted''), db)
        else
          let minutes = (case tfind xe_id (xa_exam a) (cbt_exams db) of
                Some e \<Rightarrow> if xe_minutes e = 0 then 60 else xe_minutes e | None \<Rightarrow> 60)
          in if xa_startedAt a + minutes * 60000 < now then (Inl (BadRequest ''Exam time has expired''), db)
             else scoreAttempt now attemptId
               (db\<lparr>cbt_attempts := tmodify xa_id attemptId (\<lambda>a. a\<lparr>xa_answers := ans\<rparr>) (cbt_attempts db)\<rparr>))"

datatype cbt_request =
    XList call string
  | XCreate call int string "string list" string exam_body
  | XPublish call string string
  | XShow call string bool
  | XStart call int string string string
  | XSubmit call int string string "string \<rightharpoonup> int"

fun cbt_call :: "cbt_request \<Rightarrow> call" where
  "cbt_call (XList c actor) = c"
| "cbt_call (XCreate c now fresh ids user body) = c"
| "cbt_call (XPublish c actor exam) = c"
| "cbt_call (XShow c exam withAnswers) = c"
| "cbt_call (XStart c now fresh student exam) = c"
| "cbt_call (XSubmit c now student attempt ans) = c"

fun cbt_body :: "cbt_request \<Rightarrow> cbt_db \<Rightarrow> cbt_response result \<times> cbt_db" where
  "cbt_body (XList c actor) db = (Inr (XExams (listExams actor db)), db)"
| "cbt_body (XCreate c now fresh ids user body) db = createExam now fresh ids user body db"
| "cbt_body (XPublish c actor exam) db = publishExam actor exam db"
| "cbt_body (XShow c exam withAnswers) db = (Inr (getExamQuestions exam withAnswers db), db)"
| "cbt_body (XStart c now fresh student exam) db = startAttempt now fresh student exam db"
| "cbt_body (XSubmit c now student attempt ans) db = submitAnswers now student attempt ans db"

definition cbt_step :: "cbt_request \<Rightarrow> cbt_db \<Rightarrow> cbt_response result \<times> cbt_db" where
  "cbt_step q db = with_service ''academic.cbt'' (cbt_call q) db (cbt_body q)"

subsection \<open>Marks\<close>

lemma first_error_ok: "first_error rs = Inr () \<longleftrightarrow> (\<forall>r\<in>set rs. r = Inr ())"
  by (induction rs rule: first_error.induct) auto

lemma check_question_ok: "check_question q = Inr () \<Longrightarrow> (case qb_points q of Some p \<Rightarrow> 1 \<le> p | None \<Rightarrow> True)"
  by (auto simp: check_question_def split: if_splits option.splits)

lemma validated_points:
  assumes "validateExamBody body = Inr ()" and "q \<in> set (xb_questions body)"
  shows "case qb_points q of Some p \<Rightarrow> 1 \<le> p | None \<Rightarrow> True"
  using assms check_question_ok [of q]
  by (auto simp: validateExamBody_def first_error_ok Let_def split: if_splits)

definition right :: "(string \<rightharpoonup> int) \<Rightarrow> cbt_question \<Rightarrow> bool" where
  "right ans q \<longleftrightarrow> ans (xq_id q) = Some (xq_correct q)"

lemma tally_sums:
  "tally ans qs (a, b) = (a + sum_list (map weight (filter (right ans) qs)), b + sum_list (map weight qs))"
  by (induction qs arbitrary: a b) (auto simp: right_def)

lemma sum_filter_le:
  assumes "\<forall>q\<in>set qs. 1 \<le> xq_points q"
  shows "0 \<le> sum_list (map weight (filter P qs)) \<and> sum_list (map weight (filter P qs)) \<le> sum_list (map weight qs) \<and>
    (sum_list (map weight (filter P qs)) = sum_list (map weight qs) \<longleftrightarrow> (\<forall>q\<in>set qs. P q))"
  using assms
proof (induction qs)
  case (Cons q qs)
  then show ?case by (auto simp: weight_def)
qed simp

lemma percent_bounds:
  assumes "0 \<le> score" and "score \<le> maxScore"
  shows "0 \<le> percent score maxScore \<and> percent score maxScore \<le> 100"
proof (cases "0 < maxScore")
  case True
  have "(200 * score + maxScore) div (2 * maxScore) \<le> (200 * maxScore + maxScore) div (2 * maxScore)"
    by (rule zdiv_mono1) (use assms True in auto)
  also have "\<dots> = (maxScore + 100 * (2 * maxScore)) div (2 * maxScore)" by (simp add: algebra_simps)
  also have "\<dots> = 100 + maxScore div (2 * maxScore)" using True by (intro div_mult_self1) simp
  also have "maxScore div (2 * maxScore) = 0" using True by (intro div_pos_pos_trivial) auto
  finally show ?thesis using True assms by (simp add: percent_def pos_imp_zdiv_nonneg_iff)
qed (simp add: percent_def)

definition cbt_inv :: "cbt_db \<Rightarrow> bool" where
  "cbt_inv db \<longleftrightarrow> pk xa_id (cbt_attempts db) \<and> (\<forall>q\<in>set (cbt_questions db). 1 \<le> xq_points q) \<and>
     (\<forall>a\<in>set (cbt_attempts db). 0 \<le> xa_score a \<and> xa_score a \<le> xa_max a) \<and>
     (\<forall>e st. tcount (running e st) (cbt_attempts db) \<le> 1)"

lemma set_exam_questions: "set (exam_questions e db) = {q \<in> set (cbt_questions db). xq_exam q = e}"
  by (auto simp: exam_questions_def)

lemma insert_questions_points:
  assumes "\<forall>q\<in>set qs. case qb_points q of Some p \<Rightarrow> 1 \<le> p | None \<Rightarrow> True" and "\<forall>q\<in>set t. 1 \<le> xq_points q"
  shows "\<forall>q\<in>set (snd (insert_questions e ids qs t)). 1 \<le> xq_points q"
  using assms
proof (induction qs arbitrary: ids t)
  case (Cons q qs)
  show ?case
  proof (cases ids)
    case (Cons i ids')
    show ?thesis
    proof (cases "i \<in> xq_id ` set t")
      case False
      let ?r = "\<lparr>xq_id = i, xq_exam = e, xq_prompt = qb_prompt q, xq_options = qb_options q,
         xq_correct = qb_correct q, xq_points = (case qb_points q of Some p \<Rightarrow> p | None \<Rightarrow> 1)\<rparr>"
      have "1 \<le> xq_points ?r" using Cons.prems by (auto split: option.splits)
      with Cons.prems have "\<forall>q\<in>set (t @ [?r]). 1 \<le> xq_points q" by auto
      moreover have "\<forall>q\<in>set qs. case qb_points q of Some p \<Rightarrow> 1 \<le> p | None \<Rightarrow> True" using Cons.prems(1) by simp
      ultimately have "\<forall>q\<in>set (snd (insert_questions e ids' qs (t @ [?r]))). 1 \<le> xq_points q"
        by (intro Cons.IH)
      with False \<open>ids = i # ids'\<close> show ?thesis by (simp add: tinsert_def)
    qed (use Cons.prems \<open>ids = i # ids'\<close> in \<open>simp add: tinsert_def\<close>)
  qed (use Cons.prems in simp)
qed (cases ids; simp)

lemma createExam_inv:
  assumes inv: "cbt_inv db"
  shows "cbt_inv (snd (createExam now fresh ids user body db))"
proof (cases "snd (createExam now fresh ids user body db) = db")
  case False
  then have ok: "validateExamBody body = Inr ()"
    and new: "cbt_questions (snd (createExam now fresh ids user body db)) =
      snd (insert_questions fresh ids (xb_questions body) (cbt_questions db))"
      "cbt_attempts (snd (createExam now fresh ids user body db)) = cbt_attempts db"
    by (auto simp: createExam_def Let_def split: sum.splits option.splits)
  from inv have "\<forall>q\<in>set (cbt_questions db). 1 \<le> xq_points q" by (simp add: cbt_inv_def)
  moreover have "\<forall>q\<in>set (xb_questions body). case qb_points q of Some p \<Rightarrow> 1 \<le> p | None \<Rightarrow> True"
    using validated_points [OF ok] by blast
  ultimately have "\<forall>q\<in>set (snd (insert_questions fresh ids (xb_questions body) (cbt_questions db))). 1 \<le> xq_points q"
    by (intro insert_questions_points)
  with inv show ?thesis by (simp add: cbt_inv_def new)
qed (simp add: inv)

lemma publishExam_frame [simp]:
  "cbt_questions (snd (publishExam actor exam db)) = cbt_questions db"
  "cbt_attempts (snd (publishExam actor exam db)) = cbt_attempts db"
  by (simp_all add: publishExam_def split: option.splits)

lemma startAttempt_inv:
  assumes inv: "cbt_inv db"
  shows "cbt_inv (snd (startAttempt now fresh student exam db))"
proof (cases "snd (startAttempt now fresh student exam db) = db")
  case False
  let ?a = "\<lparr>xa_id = fresh, xa_exam = exam, xa_student = student, xa_submitted = False, xa_answers = Map.empty,
     xa_score = 0, xa_max = 0, xa_startedAt = now, xa_submittedAt = None\<rparr>"
  from False have none: "find (running exam student) (cbt_attempts db) = None" and fresh: "fresh \<notin> xa_id ` set (cbt_attempts db)"
    and new: "snd (startAttempt now fresh student exam db) = db\<lparr>cbt_attempts := cbt_attempts db @ [?a]\<rparr>"
    by (auto simp: startAttempt_def tinsert_def split: option.splits if_splits)
  have "tcount (running exam student) (cbt_attempts db) = 0"
    using none by (auto simp: tcount_zero_iff find_None_iff)
  then have "tcount (running e st) (cbt_attempts db @ [?a]) \<le> 1" for e st
    using inv by (auto simp: cbt_inv_def running_def)
  with inv fresh show ?thesis unfolding new by (simp add: cbt_inv_def pk_append)
qed (simp add: inv)

lemma tcount_running_tmodify:
  assumes "\<And>a. running e st (f a) \<Longrightarrow> running e st a"
  shows "tcount (running e st) (tmodify key k f t) \<le> tcount (running e st) t"
  using assms by (induction t) auto

lemma scoreAttempt_result:
  assumes "tfind xa_id k (cbt_attempts db) = Some a"
  shows "scoreAttempt now k db =
    (let qs = exam_questions (xa_exam a) db; score = sum_list (map weight (filter (right (xa_answers a)) qs));
         maxScore = sum_list (map weight qs)
     in (Inr (XScored k score maxScore (percent score maxScore)),
         db\<lparr>cbt_attempts := tmodify xa_id k (\<lambda>a. a\<lparr>xa_submitted := True, xa_score := score, xa_max := maxScore,
               xa_submittedAt := Some now\<rparr>) (cbt_attempts db)\<rparr>))"
  using assms by (simp add: scoreAttempt_def tally_sums Let_def)

lemma scoreAttempt_inv:
  assumes inv: "cbt_inv db"
  shows "cbt_inv (snd (scoreAttempt now k db))"
proof (cases "tfind xa_id k (cbt_attempts db)")
  case (Some a)
  let ?qs = "exam_questions (xa_exam a) db"
  have pts: "\<forall>q\<in>set ?qs. 1 \<le> xq_points q" using inv by (auto simp: cbt_inv_def set_exam_questions)
  let ?f = "\<lambda>a'. a'\<lparr>xa_submitted := True, xa_score := sum_list (map weight (filter (right (xa_answers a)) ?qs)),
     xa_max := sum_list (map weight ?qs), xa_submittedAt := Some now\<rparr>"
  have new: "snd (scoreAttempt now k db) = db\<lparr>cbt_attempts := tmodify xa_id k ?f (cbt_attempts db)\<rparr>"
    by (simp add: scoreAttempt_result [OF Some] Let_def)
  have "0 \<le> xa_score b \<and> xa_score b \<le> xa_max b" if mem: "b \<in> set (tmodify xa_id k ?f (cbt_attempts db))" for b
  proof -
    obtain x where x: "x \<in> set (cbt_attempts db)" "b = (if xa_id x = k then ?f x else x)" by (rule set_tmodifyE [OF mem])
    then show ?thesis using sum_filter_le [OF pts, of "right (xa_answers a)"] inv by (auto simp: cbt_inv_def)
  qed
  moreover have "tcount (running e st) (tmodify xa_id k ?f (cbt_attempts db)) \<le> 1" for e st
  proof -
    have "tcount (running e st) (tmodify xa_id k ?f (cbt_attempts db)) \<le> tcount (running e st) (cbt_attempts db)"
      by (rule tcount_running_tmodify) (simp add: running_def)
    also have "\<dots> \<le> 1" using inv by (simp add: cbt_inv_def)
    finally show ?thesis .
  qed
  ultimately show ?thesis using inv unfolding new by (simp add: cbt_inv_def pk_tmodify)
qed (simp add: scoreAttempt_def inv)

lemma answers_inv:
  assumes inv: "cbt_inv db"
  shows "cbt_inv (db\<lparr>cbt_attempts := tmodify xa_id k (\<lambda>a. a\<lparr>xa_answers := ans\<rparr>) (cbt_attempts db)\<rparr>)"
proof -
  have "tcount (running e st) (tmodify xa_id k (\<lambda>a. a\<lparr>xa_answers := ans\<rparr>) (cbt_attempts db)) \<le> 1" for e st
    using inv tcount_cong_modify [of "running e st" "\<lambda>a. a\<lparr>xa_answers := ans\<rparr>" "\<lambda>a. xa_id a = k" "cbt_attempts db"]
    by (simp add: cbt_inv_def tmodify_def running_def)
  then show ?thesis using inv by (auto simp: cbt_inv_def pk_tmodify elim!: set_tmodifyE)
qed

lemma submitAnswers_inv: "cbt_inv db \<Longrightarrow> cbt_inv (snd (submitAnswers now student k ans db))"
  by (simp add: submitAnswers_def Let_def scoreAttempt_inv answers_inv split: option.splits)

lemma publishExam_inv: "cbt_inv db \<Longrightarrow> cbt_inv (snd (publishExam actor exam db))"
  by (simp add: cbt_inv_def)

lemma cbt_step_inv: "cbt_inv db \<Longrightarrow> cbt_inv (snd (cbt_step q db))"
  unfolding cbt_step_def
  by (rule with_service_inv, assumption)
    (cases q; simp add: createExam_inv publishExam_inv startAttempt_inv submitAnswers_inv)

interpretation cbt: gated_invariant_machine cbt_step cbt_inv "\<lambda>q. open_service (cbt_call q)"
proof
  show "cbt_inv (snd (cbt_step q s))" if "cbt_inv s" for q s using that by (rule cbt_step_inv)
  show "\<exists>e. cbt_step q s = (Inl e, s)" if "\<not> open_service (cbt_call q)" for q s
    unfolding cbt_step_def by (rule with_service_closed [OF that])
qed

subsection \<open>A submission is final\<close>

definition handed_in :: "string \<Rightarrow> cbt_attempt \<Rightarrow> cbt_db \<Rightarrow> bool" where
  "handed_in k a db \<longleftrightarrow> tfind xa_id k (cbt_attempts db) = Some a \<and> xa_submitted a"

lemma submitAnswers_final:
  assumes "handed_in k a db"
  shows "handed_in k a (snd (submitAnswers now student k' ans db))"
proof (cases "snd (submitAnswers now student k' ans db) = db")
  case False
  let ?db1 = "db\<lparr>cbt_attempts := tmodify xa_id k' (\<lambda>a. a\<lparr>xa_answers := ans\<rparr>) (cbt_attempts db)\<rparr>"
  from False obtain b where b: "tfind xa_id k' (cbt_attempts db) = Some b" "\<not> xa_submitted b"
    and new: "snd (submitAnswers now student k' ans db) = snd (scoreAttempt now k' ?db1)"
    by (auto simp: submitAnswers_def Let_def split: option.splits if_splits)
  have other: "k' \<noteq> k" using b assms by (auto simp: handed_in_def)
  have b1: "tfind xa_id k' (cbt_attempts ?db1) = Some (b\<lparr>xa_answers := ans\<rparr>)" by (simp add: tfind_tmodify b)
  show ?thesis unfolding new
    using assms other by (simp add: scoreAttempt_result [OF b1] Let_def handed_in_def tfind_tmodify)
qed (simp add: assms)

lemma startAttempt_final: "handed_in k a db \<Longrightarrow> handed_in k a (snd (startAttempt now fresh student exam db))"
  by (auto simp: handed_in_def startAttempt_def tinsert_def tfind_append split: option.splits)

lemma cbt_step_final:
  assumes "handed_in k a db"
  shows "handed_in k a (snd (cbt_step q db))"
proof -
  have "cbt_attempts (snd (createExam now fresh ids user body db)) = cbt_attempts db" for now fresh ids user body
    by (simp add: createExam_def Let_def split: sum.splits option.splits)
  then have "handed_in k a (snd (createExam now fresh ids user body db))" for now fresh ids user body
    using assms by (simp add: handed_in_def)
  moreover have "handed_in k a (snd (publishExam actor exam db))" for actor exam
    using assms by (simp add: handed_in_def)
  ultimately show ?thesis using assms
    by (cases q) (simp_all add: cbt_step_def with_service_def submitAnswers_final startAttempt_final)
qed

lemma cbt_run_final: "handed_in k a db \<Longrightarrow> handed_in k a (run_reqs cbt_step qs db)"
  by (induction qs arbitrary: db) (simp_all add: cbt_step_final)

subsection \<open>Properties\<close>

definition cbt_start :: "scope_db \<Rightarrow> cbt_db" where
  "cbt_start sc = \<lparr>cbt_exams = [], cbt_questions = [], cbt_attempts = [], cbt_scope = sc\<rparr>"

lemma cbt_inv_start: "cbt_inv (cbt_start sc)"
  by (simp add: cbt_inv_def cbt_start_def)

text \<open>marks are sound: over every sequence of calls each attempt's score lies between 0 and its
  maximum and its percentage between 0 and 100, and a student never has two attempts of one exam
  running.\<close>

theorem marks_sound:
  assumes "a \<in> set (cbt_attempts (run_reqs cbt_step qs (cbt_start sc)))"
  shows "0 \<le> xa_score a \<and> xa_score a \<le> xa_max a \<and> 0 \<le> percent (xa_score a) (xa_max a) \<and> percent (xa_score a) (xa_max a) \<le> 100 \<and>
    length (filter (running e st) (cbt_attempts (run_reqs cbt_step qs (cbt_start sc)))) \<le> 1"
proof -
  have inv: "cbt_inv (run_reqs cbt_step qs (cbt_start sc))" by (rule cbt.run_inv [OF cbt_inv_start])
  then have "tcount (running e st) (cbt_attempts (run_reqs cbt_step qs (cbt_start sc))) \<le> 1" by (simp add: cbt_inv_def)
  moreover have "0 \<le> xa_score a" "xa_score a \<le> xa_max a" using inv assms by (auto simp: cbt_inv_def)
  ultimately show ?thesis using percent_bounds [of "xa_score a" "xa_max a"] by (simp add: tcount_length)
qed

definition student_scope :: scope_db where
  "student_scope = nobody\<lparr>user_roles := [''ada'' \<mapsto> JArray [''student'']]\<rparr>"

definition cbt_calls :: "cbt_request list" where
  "cbt_calls =
     (let ok = \<lparr>feature_on = True, tenant_found = True\<rparr> in
      [XCreate ok 0 ''x1'' [''q1'', ''q2''] ''teacher'' \<lparr>xb_title = ''Maths'', xb_subject = None, xb_class = None, xb_minutes = Some 30,
         xb_questions = [\<lparr>qb_prompt = ''1+1'', qb_options = [''2'', ''3''], qb_correct = 0, qb_points = Some 2\<rparr>,
                         \<lparr>qb_prompt = ''2+2'', qb_options = [''5'', ''4''], qb_correct = 1, qb_points = None\<rparr>]\<rparr>,
       XPublish ok ''teacher'' ''x1'', XStart ok 0 ''a1'' ''ada'' ''x1'', XSubmit ok 60000 ''ada'' ''a1'' [''q1'' \<mapsto> 0, ''q2'' \<mapsto> 0]])"

theorem marks_sound_witness:
  "\<exists>a :: cbt_attempt. xa_score a = 2 \<and> xa_max a = 3 \<and> percent (xa_score a) (xa_max a) \<le> 100"
proof -
  let ?s = "run_reqs cbt_step cbt_calls (cbt_start student_scope)"
  have c: "map xa_score (cbt_attempts ?s) = [2]" "map xa_max (cbt_attempts ?s) = [3]" by code_simp+
  then obtain a where "cbt_attempts ?s = [a]" by (auto simp: map_eq_Cons_conv)
  with marks_sound [of a cbt_calls student_scope] c show ?thesis by auto
qed

text \<open>C32: scoring: a submission that is accepted belongs to the student, was not handed in before and is
  within the time; its score is the weight of the questions answered right, its maximum the weight of
  all questions of the exam, and full marks mean that every question was answered right.\<close>

theorem submission_scored:
  assumes "cbt_inv db" and "fst (submitAnswers now student k ans db) = Inr (XScored k score maxScore pct)"
  shows "\<exists>a. tfind xa_id k (cbt_attempts db) = Some a \<and> xa_student a = student \<and> \<not> xa_submitted a \<and>
    score = sum_list (map weight (filter (right ans) (exam_questions (xa_exam a) db))) \<and>
    maxScore = sum_list (map weight (exam_questions (xa_exam a) db)) \<and> pct = percent score maxScore \<and>
    (score = maxScore \<longleftrightarrow> (\<forall>q\<in>set (cbt_questions db). xq_exam q = xa_exam a \<longrightarrow> right ans q)) \<and>
    (\<forall>e. tfind xe_id (xa_exam a) (cbt_exams db) = Some e \<and> 0 < xe_minutes e \<longrightarrow> now \<le> xa_startedAt a + xe_minutes e * 60000)"
proof -
  let ?db1 = "db\<lparr>cbt_attempts := tmodify xa_id k (\<lambda>a. a\<lparr>xa_answers := ans\<rparr>) (cbt_attempts db)\<rparr>"
  obtain a where a: "tfind xa_id k (cbt_attempts db) = Some a" "xa_student a = student" "\<not> xa_submitted a"
    and time: "\<not> xa_startedAt a + (case tfind xe_id (xa_exam a) (cbt_exams db) of
        Some e \<Rightarrow> if xe_minutes e = 0 then 60 else xe_minutes e | None \<Rightarrow> 60) * 60000 < now"
    and sc: "fst (scoreAttempt now k ?db1) = Inr (XScored k score maxScore pct)"
    using assms(2) by (auto simp: submitAnswers_def Let_def split: option.splits if_splits)
  have a1: "tfind xa_id k (cbt_attempts ?db1) = Some (a\<lparr>xa_answers := ans\<rparr>)" by (simp add: tfind_tmodify a)
  have qs: "exam_questions (xa_exam a) ?db1 = exam_questions (xa_exam a) db" by (simp add: exam_questions_def)
  have pts: "\<forall>q\<in>set (exam_questions (xa_exam a) db). 1 \<le> xq_points q"
    using assms(1) by (auto simp: cbt_inv_def set_exam_questions)
  have score: "score = sum_list (map weight (filter (right ans) (exam_questions (xa_exam a) db)))"
    "maxScore = sum_list (map weight (exam_questions (xa_exam a) db))" "pct = percent score maxScore"
    using sc by (auto simp: scoreAttempt_result [OF a1] Let_def qs)
  have "score = maxScore \<longleftrightarrow> (\<forall>q\<in>set (cbt_questions db). xq_exam q = xa_exam a \<longrightarrow> right ans q)"
    using sum_filter_le [OF pts, of "right ans"] score by (auto simp: set_exam_questions)
  with a score time show ?thesis by auto
qed

theorem submission_scored_witness:
  "\<exists>a. tfind xa_id ''a1'' (cbt_attempts (run_reqs cbt_step (take 3 cbt_calls) (cbt_start student_scope))) = Some a \<and> xa_student a = ''ada''"
proof -
  let ?db = "run_reqs cbt_step (take 3 cbt_calls) (cbt_start student_scope)"
  have "fst (submitAnswers 60000 ''ada'' ''a1'' [''q1'' \<mapsto> 0] ?db) = Inr (XScored ''a1'' 2 3 67)" by code_simp
  from submission_scored [OF cbt.run_inv [OF cbt_inv_start] this] show ?thesis by blast
qed

text \<open>a submission is final: after an attempt was handed in, no sequence of calls changes its row, and
  handing it in again is refused.\<close>

theorem submission_final:
  assumes "tfind xa_id k (cbt_attempts db) = Some a" and "xa_submitted a"
  shows "tfind xa_id k (cbt_attempts (run_reqs cbt_step qs db)) = Some a \<and>
    (\<exists>m. fst (submitAnswers now student k ans (run_reqs cbt_step qs db)) = Inl (BadRequest m))"
proof -
  have "handed_in k a (run_reqs cbt_step qs db)" by (rule cbt_run_final) (simp add: assms handed_in_def)
  then show ?thesis by (auto simp: handed_in_def submitAnswers_def)
qed

theorem submission_final_witness:
  "\<exists>a. tfind xa_id ''a1'' (cbt_attempts (run_reqs cbt_step cbt_calls (run_reqs cbt_step cbt_calls (cbt_start student_scope)))) = Some a \<and> xa_score a = 2"
proof -
  let ?db = "run_reqs cbt_step cbt_calls (cbt_start student_scope)"
  have c: "map_option xa_submitted (tfind xa_id ''a1'' (cbt_attempts ?db)) = Some True"
    "map_option xa_score (tfind xa_id ''a1'' (cbt_attempts ?db)) = Some 2" by code_simp+
  then obtain a where "tfind xa_id ''a1'' (cbt_attempts ?db) = Some a" "xa_submitted a" "xa_score a = 2" by auto
  with submission_final [of "''a1''" ?db a cbt_calls] show ?thesis by blast
qed

text \<open>Nothing stops a student who has handed in from starting the exam again.\<close>

lemma retake_allowed:
  "let ok = \<lparr>feature_on = True, tenant_found = True\<rparr>;
       s = run_reqs cbt_step (cbt_calls @ [XStart ok 70000 ''a2'' ''ada'' ''x1'', XSubmit ok 80000 ''ada'' ''a2'' [''q1'' \<mapsto> 0, ''q2'' \<mapsto> 1]])
             (cbt_start student_scope)
   in map xa_score (cbt_attempts s) = [2, 3]"
  by code_simp

end
