(* ===== verification/Grading.thy ===== *)
theory Grading
  imports Services Complex_Main
begin

section \<open>The grading matrix\<close>

text \<open>
  \<open>academic/grading-matrix.service.ts\<close> and \<open>academic/grading-matrix.defaults.ts\<close>: the weights of
  continuous assessment and examination, the grade bands and the total of a pupil.  Numbers are
  rational (the rounding of doubles is not modelled); \<open>None\<close> as a bound is a value \<open>Number\<close> turns into
  something not finite.  The stored bands are read back as they were written.
\<close>

record grade_band =
  grade_title :: string
  grade_name :: string
  gb_min :: "rat option"
  gb_max :: "rat option"

record grading_matrix =
  caWeight :: rat
  examWeight :: rat
  gradeBands :: "grade_band list"

definition band :: "string \<Rightarrow> string \<Rightarrow> rat \<Rightarrow> rat \<Rightarrow> grade_band" where
  "band title name lo hi = \<lparr>grade_title = title, grade_name = name, gb_min = Some lo, gb_max = Some hi\<rparr>"

definition DEFAULT_GRADE_BANDS :: "grade_band list" where
  "DEFAULT_GRADE_BANDS =
     [band ''A'' ''Distinction'' 70 100, band ''B'' ''Very Good'' 60 69, band ''C'' ''Credit'' 50 59,
      band ''D'' ''Poor'' 40 49, band ''E'' ''Very Poor'' 30 39, band ''F'' ''Failed'' 20 29]"

definition DEFAULT_GRADING_MATRIX :: grading_matrix where
  "DEFAULT_GRADING_MATRIX = \<lparr>caWeight = 40, examWeight = 60, gradeBands = DEFAULT_GRADE_BANDS\<rparr>"

definition bad_range :: "grade_band \<Rightarrow> bool" where
  "bad_range b = (case (gb_min b, gb_max b) of
      (Some lo, Some hi) \<Rightarrow> lo < 0 \<or> 100 < hi \<or> hi < lo
    | _ \<Rightarrow> True)"

fun overlapping :: "grade_band list \<Rightarrow> bool" where
  "overlapping (a # b # bs) = (the (gb_min b) \<le> the (gb_max a) \<or> overlapping (b # bs))"
| "overlapping _ = False"

definition validateGradingBands :: "grade_band list \<Rightarrow> unit result" where
  "validateGradingBands bands =
     (if bands = [] then Inl (BadRequest ''At least one grading band is required'')
      else if list_ex bad_range bands then Inl (BadRequest ''Grade band ranges must be between 0 and 100'')
      else if \<not> distinct (map gb_min bands) then Inl (BadRequest ''Grade band minimums must be unique'')
      else if list_ex (\<lambda>b. trim (grade_title b) = [] \<or> trim (grade_name b) = []) bands
        then Inl (BadRequest ''Every grading band needs a title and name'')
      else if overlapping (sort_key (\<lambda>b. the (gb_min b)) bands)
        then Inl (BadRequest ''Grade band ranges must not overlap'')
      else Inr ())"

definition in_band :: "rat \<Rightarrow> grade_band \<Rightarrow> bool" where
  "in_band score b = (case (gb_min b, gb_max b) of
      (Some lo, Some hi) \<Rightarrow> lo \<le> score \<and> score \<le> hi
    | _ \<Rightarrow> False)"

definition letter :: "rat \<Rightarrow> grade_band list \<Rightarrow> string option" where
  "letter score bands = (case find (in_band score) bands of
      Some b \<Rightarrow> Some (grade_title b)
    | None \<Rightarrow> or_null (map_option grade_title (find (\<lambda>b. grade_title b = ''F'') bands)))"

text \<open>\<open>Math.round(total * 100) / 100\<close>.\<close>

definition round2 :: "rat \<Rightarrow> rat" where
  "round2 x = of_int \<lfloor>x * 100 + 1 / 2\<rfloor> / 100"

text \<open>\<open>matrix\<close> is what \<open>get\<close> answers, \<open>None\<close> when it throws.\<close>

definition computeTotal ::
  "bool \<Rightarrow> grading_matrix option \<Rightarrow> rat option \<Rightarrow> rat option \<Rightarrow> rat option \<times> string option" where
  "computeTotal enabled matrix caScore examScore =
     (case (caScore, examScore) of
        (Some ca, Some ex) \<Rightarrow>
          if \<not> enabled then (Some (ca + ex), letter (ca + ex) DEFAULT_GRADE_BANDS)
          else let m = (case matrix of Some m \<Rightarrow> m | None \<Rightarrow> DEFAULT_GRADING_MATRIX);
                   total = ca * caWeight m / 100 + ex * examWeight m / 100
               in (Some (round2 total), letter total (gradeBands m))
      | _ \<Rightarrow> (None, None))"

text \<open>\<open>set\<close> and \<open>get\<close> on the one row of \<open>academic_grading_matrix\<close>; \<open>None\<close> as a weight is a value that is
  not a finite number.\<close>

definition get_matrix :: "grading_matrix option \<Rightarrow> grading_matrix" where
  "get_matrix row = (case row of None \<Rightarrow> DEFAULT_GRADING_MATRIX | Some m \<Rightarrow> m)"

definition set_matrix ::
  "rat option \<Rightarrow> rat option \<Rightarrow> grade_band list option \<Rightarrow> grading_matrix option \<Rightarrow>
   grading_matrix result \<times> grading_matrix option" where
  "set_matrix ca ex bands row =
     (case (ca, ex) of
        (Some c, Some e) \<Rightarrow>
          if c < 0 \<or> e < 0 \<or> 100 < c \<or> 100 < e \<or> c + e \<noteq> 100
            then (Inl (BadRequest ''caWeight + examWeight must equal 100''), row)
          else let bs = (case bands of Some b \<Rightarrow> b | None \<Rightarrow> gradeBands (get_matrix row)) in
            (case validateGradingBands bs of
               Inl err \<Rightarrow> (Inl err, row)
             | Inr _ \<Rightarrow>
                 let m = \<lparr>caWeight = c, examWeight = e, gradeBands = bs\<rparr> in (Inr (get_matrix (Some m)), Some m))
      | _ \<Rightarrow> (Inl (BadRequest ''caWeight + examWeight must equal 100''), row))"

datatype matrix_request =
    MGet call
  | MSet call "rat option" "rat option" "grade_band list option"

fun matrix_step :: "matrix_request \<Rightarrow> grading_matrix option \<Rightarrow> grading_matrix result \<times> grading_matrix option" where
  "matrix_step (MGet c) row = with_service ''academic.grading_matrix'' c row (\<lambda>row. (Inr (get_matrix row), row))"
| "matrix_step (MSet c ca ex bands) row = with_service ''academic.grading_matrix'' c row (set_matrix ca ex bands)"

subsection \<open>Valid bands are disjoint\<close>

definition disjoint_bands :: "grade_band \<Rightarrow> grade_band \<Rightarrow> bool" where
  "disjoint_bands a b \<longleftrightarrow> the (gb_max a) < the (gb_min b) \<or> the (gb_max b) < the (gb_min a)"

lemma not_overlapping:
  assumes "\<not> overlapping bs" and "\<forall>b\<in>set bs. the (gb_min b) \<le> the (gb_max b)"
  shows "sorted_wrt (\<lambda>a b. the (gb_max a) < the (gb_min b)) bs"
  using assms
proof (induction bs rule: overlapping.induct)
  case (1 a b bs)
  then have tail: "sorted_wrt (\<lambda>a b. the (gb_max a) < the (gb_min b)) (b # bs)" and ab: "the (gb_max a) < the (gb_min b)"
    by auto
  have "the (gb_max a) < the (gb_min c)" if "c \<in> set bs" for c
  proof -
    have "the (gb_min b) \<le> the (gb_max b)" using 1 by simp
    also have "\<dots> < the (gb_min c)" using tail that by simp
    finally show ?thesis using ab by simp
  qed
  with tail ab show ?case by simp
qed simp_all

lemma sorted_wrt_pairs:
  "sorted_wrt P xs \<Longrightarrow> x \<in> set xs \<Longrightarrow> y \<in> set xs \<Longrightarrow> x = y \<or> P x y \<or> P y x"
  by (induction xs) auto

lemma valid_ranges:
  assumes "validateGradingBands bands = Inr ()" and "b \<in> set bands"
  obtains lo hi where "gb_min b = Some lo" "gb_max b = Some hi" "0 \<le> lo" "lo \<le> hi" "hi \<le> 100"
proof -
  have "\<not> bad_range b" using assms by (auto simp: validateGradingBands_def list_ex_iff split: if_splits)
  then show ?thesis using that by (cases "gb_min b"; cases "gb_max b") (auto simp: bad_range_def)
qed

lemma valid_disjoint:
  assumes ok: "validateGradingBands bands = Inr ()" and a: "a \<in> set bands" and b: "b \<in> set bands"
    and sa: "in_band score a" and sb: "in_band score b"
  shows "a = b"
proof -
  let ?bs = "sort_key (\<lambda>b. the (gb_min b)) bands"
  have "\<not> overlapping ?bs" using ok by (auto simp: validateGradingBands_def split: if_splits)
  moreover have "\<forall>b\<in>set ?bs. the (gb_min b) \<le> the (gb_max b)"
    by (auto elim: valid_ranges [OF ok])
  ultimately have "sorted_wrt (\<lambda>a b. the (gb_max a) < the (gb_min b)) ?bs" by (rule not_overlapping)
  then have "a = b \<or> the (gb_max a) < the (gb_min b) \<or> the (gb_max b) < the (gb_min a)"
    using sorted_wrt_pairs [of _ ?bs a b] a b by simp
  moreover obtain l h where "gb_min a = Some l" "gb_max a = Some h" by (rule valid_ranges [OF ok a])
  moreover obtain l' h' where "gb_min b = Some l'" "gb_max b = Some h'" by (rule valid_ranges [OF ok b])
  ultimately show ?thesis using sa sb by (auto simp: in_band_def)
qed

lemma letter_in_band:
  assumes ok: "validateGradingBands bands = Inr ()" and b: "b \<in> set bands" and s: "in_band score b"
  shows "letter score bands = Some (grade_title b)"
proof (cases "find (in_band score) bands")
  case None
  with b s show ?thesis by (auto simp: find_None_iff)
next
  case (Some c)
  then have "c \<in> set bands" "in_band score c" by (auto simp: find_Some_iff)
  with valid_disjoint [OF ok _ b _ s] have "c = b" by blast
  with Some show ?thesis by (simp add: letter_def)
qed

subsection \<open>The stored matrix is valid\<close>

definition valid_matrix :: "grading_matrix \<Rightarrow> bool" where
  "valid_matrix m \<longleftrightarrow> 0 \<le> caWeight m \<and> 0 \<le> examWeight m \<and> caWeight m + examWeight m = 100 \<and>
     validateGradingBands (gradeBands m) = Inr ()"

lemma default_bands_valid: "validateGradingBands DEFAULT_GRADE_BANDS = Inr ()"
  by code_simp

lemma default_matrix_valid: "valid_matrix DEFAULT_GRADING_MATRIX"
  by (simp add: valid_matrix_def DEFAULT_GRADING_MATRIX_def default_bands_valid)

definition matrix_inv :: "grading_matrix option \<Rightarrow> bool" where
  "matrix_inv row \<longleftrightarrow> valid_matrix (get_matrix row)"

lemma set_matrix_inv: "matrix_inv row \<Longrightarrow> matrix_inv (snd (set_matrix ca ex bands row))"
  by (auto simp: set_matrix_def matrix_inv_def get_matrix_def valid_matrix_def Let_def split: option.splits sum.splits)

lemma matrix_step_inv: "matrix_inv row \<Longrightarrow> matrix_inv (snd (matrix_step q row))"
  by (cases q) (auto intro: with_service_inv set_matrix_inv)

interpretation matrix: invariant_machine matrix_step matrix_inv
  by unfold_locales (rule matrix_step_inv)

lemma round2_bounds: "0 \<le> x \<Longrightarrow> x \<le> 100 \<Longrightarrow> 0 \<le> round2 x \<and> round2 x \<le> 100"
proof -
  assume x: "0 \<le> x" "x \<le> 100"
  have "(0::int) \<le> \<lfloor>x * 100 + 1 / 2\<rfloor>" using x by (simp add: le_floor_iff)
  moreover have "\<lfloor>x * 100 + 1 / 2\<rfloor> < 10001" using x by (simp add: floor_less_iff)
  then have "\<lfloor>x * 100 + 1 / 2\<rfloor> \<le> 10000" by simp
  then have "(of_int \<lfloor>x * 100 + 1 / 2\<rfloor> :: rat) \<le> of_int 10000" by (simp only: of_int_le_iff)
  ultimately show ?thesis by (simp add: round2_def)
qed

subsection \<open>Properties\<close>

text \<open>C40: one grade per mark: for bands that pass the validation, a mark lies in at most one band, and
  when it lies in one its letter is that band's title, in whatever order the bands are stored.\<close>

theorem one_band_per_mark:
  assumes "validateGradingBands bands = Inr ()" and "b \<in> set bands" and "in_band score b"
  shows "letter score bands = Some (grade_title b) \<and> (\<forall>c\<in>set bands. in_band score c \<longrightarrow> c = b) \<and>
    (\<forall>bands'. set bands' = set bands \<longrightarrow> letter score bands' = letter score bands)"
proof -
  have u: "c = b" if "c \<in> set bands" "in_band score c" for c
    by (rule valid_disjoint [OF assms(1) that(1) assms(2) that(2) assms(3)])
  have l: "letter score bands' = Some (grade_title b)" if eq: "set bands' = set bands" for bands'
  proof (cases "find (in_band score) bands'")
    case None
    with assms eq show ?thesis by (auto simp: find_None_iff)
  next
    case (Some c)
    then have "c \<in> set bands" "in_band score c" using eq by (auto simp: find_Some_iff)
    with u have "c = b" by blast
    with Some show ?thesis by (simp add: letter_def)
  qed
  show ?thesis using l [OF refl] l u by simp
qed

theorem one_band_per_mark_witness: "letter 65 (rev DEFAULT_GRADE_BANDS) = Some ''B''"
proof -
  have b: "band ''B'' ''Very Good'' 60 69 \<in> set DEFAULT_GRADE_BANDS" "in_band 65 (band ''B'' ''Very Good'' 60 69)"
    by (simp_all add: DEFAULT_GRADE_BANDS_def band_def in_band_def)
  have "set (rev DEFAULT_GRADE_BANDS) = set DEFAULT_GRADE_BANDS" by simp
  with one_band_per_mark [OF default_bands_valid b] show ?thesis by (metis band_def grade_band.select_convs(1))
qed

text \<open>weighted totals stay in range: whatever settings were stored through the service, for marks
  between 0 and 100 the total is between 0 and 100, and a pupil whose two marks are equal gets that
  mark (to two decimals).\<close>

theorem weighted_total_in_range:
  assumes "0 \<le> ca" "ca \<le> 100" "0 \<le> ex" "ex \<le> 100"
  shows "\<exists>t. fst (computeTotal True (Some (get_matrix (run_reqs matrix_step qs None))) (Some ca) (Some ex)) = Some t \<and>
    0 \<le> t \<and> t \<le> 100 \<and> (ca = ex \<longrightarrow> t = round2 ca)"
proof -
  let ?m = "get_matrix (run_reqs matrix_step qs None)"
  have "matrix_inv (run_reqs matrix_step qs None)"
    by (rule matrix.run_inv) (simp add: matrix_inv_def get_matrix_def default_matrix_valid)
  then have w: "0 \<le> caWeight ?m" "0 \<le> examWeight ?m" "caWeight ?m + examWeight ?m = 100"
    by (auto simp: matrix_inv_def valid_matrix_def)
  let ?t = "ca * caWeight ?m / 100 + ex * examWeight ?m / 100"
  have "ca * caWeight ?m + ex * examWeight ?m \<le> 100 * caWeight ?m + 100 * examWeight ?m"
    using assms w by (intro add_mono mult_right_mono)
  also have "\<dots> = 100 * 100" using w(3) by (simp flip: distrib_left)
  finally have "?t \<le> 100" by (simp add: add_divide_distrib [symmetric])
  moreover have "0 \<le> ?t" using assms w by simp
  moreover have "ca = ex \<longrightarrow> ?t = ca"
    using w(3) by (simp add: add_divide_distrib [symmetric] distrib_left [symmetric])
  ultimately show ?thesis using round2_bounds [of ?t] by (auto simp: computeTotal_def Let_def)
qed

theorem weighted_total_in_range_witness:
  "\<exists>t. fst (computeTotal True (Some (get_matrix (run_reqs matrix_step
      [MSet \<lparr>feature_on = True, tenant_found = True\<rparr> (Some 30) (Some 70) None] None))) (Some 80) (Some 60)) = Some t \<and> 0 \<le> t \<and> t \<le> 100"
  using weighted_total_in_range [of 80 60 "[MSet \<lparr>feature_on = True, tenant_found = True\<rparr> (Some 30) (Some 70) None]"] by auto

text \<open>Valid bands may leave gaps: with the default bands a total of 69.5 lies between B and A and is
  graded F.\<close>

lemma gap_grades_F: "letter (139 / 2) DEFAULT_GRADE_BANDS = Some ''F''"
  by (simp add: letter_def DEFAULT_GRADE_BANDS_def band_def in_band_def)

text \<open>The letter is taken of the unrounded total: 69.996 is shown as 70 and graded F.\<close>

lemma rounded_total_other_grade:
  "computeTotal True None (Some (69996 / 1000)) (Some (69996 / 1000)) = (Some 70, Some ''F'')"
  by code_simp

end
