(* ===== verification/Finance.thy ===== *)
theory Finance
  imports Services
begin

section \<open>Invoices and payments\<close>

text \<open>
  \<open>financial/financial.service.ts\<close> and \<open>financial/balance-freeze.service.ts\<close>, and the tables the online
  payments of \<open>Gateway\<close> share with them.  Amounts are integers in minor units (the columns are
  \<open>decimal(15,2)\<close>); statuses are the strings of the columns.  The list cache the services invalidate is
  the subject of \<open>ListCache\<close> and not repeated.
\<close>

record invoice =
  iv_id :: string
  iv_student :: string
  iv_fee :: "string option"
  iv_title :: string
  iv_amount :: int
  iv_currency :: string
  iv_term :: string
  iv_session :: "string option"
  iv_status :: string
  iv_plan :: string
  iv_dueDate :: "string option"
  iv_notes :: "string option"
  iv_createdBy :: "string option"
  iv_archivedAt :: "int option"
  iv_createdAt :: int

record payment =
  py_id :: string
  py_student :: string
  py_invoice :: "string option"
  py_installment :: "string option"
  py_amount :: int
  py_method :: string
  py_reference :: "string option"
  py_status :: string
  py_biometric :: bool
  py_recordedBy :: "string option"
  py_provider :: "string option"
  py_providerRef :: "string option"
  py_receipt :: string
  py_createdAt :: int

record installment_plan =
  pl_id :: string
  pl_student :: string
  pl_invoice :: "string option"
  pl_title :: string
  pl_total :: int
  pl_surcharge :: int          \<comment> \<open>percent\<close>
  pl_createdBy :: "string option"
  pl_createdAt :: int

record installment =
  is_id :: string
  is_plan :: string
  is_sequence :: int
  is_amount :: int
  is_dueDate :: "string option"
  is_status :: string
  is_paidAt :: "int option"

record fee_reminder =
  fr_id :: string
  fr_invoice :: string
  fr_student :: string
  fr_dueDate :: "string option"
  fr_status :: string
  fr_nextSend :: "int option"
  fr_lastSent :: "int option"

record payment_proof =
  pp_id :: string
  pp_invoice :: string
  pp_status :: string
  pp_createdAt :: int

record advance_credit =
  ac_id :: string
  ac_student :: string
  ac_amount :: int
  ac_currency :: string
  ac_term :: "string option"
  ac_session :: "string option"
  ac_payment :: string
  ac_reference :: string
  ac_createdAt :: int

record checkout_session =
  cs_id :: string
  cs_student :: string
  cs_invoice :: "string option"
  cs_installment :: "string option"
  cs_amount :: int
  cs_currency :: string
  cs_reference :: string
  cs_provider :: string
  cs_providerRef :: "string option"
  cs_status :: string
  cs_kind :: string
  cs_term :: "string option"
  cs_label :: "string option"
  cs_createdBy :: "string option"

record refund =
  rf_id :: string
  rf_payment :: "string option"
  rf_student :: string
  rf_amount :: int
  rf_reason :: "string option"
  rf_method :: string
  rf_status :: string
  rf_by :: "string option"

record fin_db =
  fin_invoices :: "invoice list"
  fin_payments :: "payment list"
  fin_plans :: "installment_plan list"
  fin_installments :: "installment list"
  fin_reminders :: "fee_reminder list"
  fin_proofs :: "payment_proof list"
  fin_credits :: "advance_credit list"
  fin_sessions :: "checkout_session list"
  fin_refunds :: "refund list"
  fin_scope :: scope_db
  fin_outbox :: "(string \<times> string) list"

definition stop_reminders :: "string \<Rightarrow> fin_db \<Rightarrow> fin_db" where
  "stop_reminders invoiceId db = db\<lparr>fin_reminders :=
     tupdate (\<lambda>r. fr_invoice r = invoiceId \<and> fr_status r = ''pending'') (\<lambda>r. r\<lparr>fr_status := ''stopped''\<rparr>) (fin_reminders db)\<rparr>"

definition set_invoice_status :: "string \<Rightarrow> string \<Rightarrow> fin_db \<Rightarrow> fin_db" where
  "set_invoice_status invoiceId status db =
     db\<lparr>fin_invoices := tmodify iv_id invoiceId (\<lambda>i. i\<lparr>iv_status := status\<rparr>) (fin_invoices db)\<rparr>"

definition pay_installment :: "int \<Rightarrow> string \<Rightarrow> fin_db \<Rightarrow> fin_db" where
  "pay_installment now k db =
     db\<lparr>fin_installments := tmodify is_id k (\<lambda>i. i\<lparr>is_status := ''paid'', is_paidAt := Some now\<rparr>) (fin_installments db)\<rparr>"

text \<open>The join of an installment with its plan.\<close>

definition find_installment :: "fin_db \<Rightarrow> string \<Rightarrow> (installment \<times> installment_plan) option" where
  "find_installment db k = (case tfind is_id k (fin_installments db) of
      None \<Rightarrow> None
    | Some i \<Rightarrow> (case tfind pl_id (is_plan i) (fin_plans db) of None \<Rightarrow> None | Some p \<Rightarrow> Some (i, p)))"

definition completed_total :: "fin_db \<Rightarrow> string \<Rightarrow> int" where
  "completed_total db invoiceId =
     sum_list (map py_amount (filter (\<lambda>p. py_invoice p = Some invoiceId \<and> py_status p = ''completed'') (fin_payments db)))"

definition pending_installments :: "fin_db \<Rightarrow> string \<Rightarrow> nat" where
  "pending_installments db invoiceId = length (filter (\<lambda>i. is_status i = ''pending'' \<and>
     (case tfind pl_id (is_plan i) (fin_plans db) of Some p \<Rightarrow> pl_invoice p = Some invoiceId | None \<Rightarrow> False)) (fin_installments db))"

subsection \<open>Payments recorded by staff\<close>

record payment_body =
  bp_student :: string
  bp_invoice :: "string option"
  bp_installment :: "string option"
  bp_amount :: int
  bp_method :: string
  bp_reference :: "string option"
  bp_status :: "string option"

datatype fin_response = FId string | FPayment string string

text \<open>The guards; the value is the invoice the payment goes to.\<close>

definition payment_check :: "string option \<Rightarrow> payment_body \<Rightarrow> fin_db \<Rightarrow> string option result" where
  "payment_check recordedBy body db =
     (if \<not> truthy recordedBy then Inl (BadRequest ''Authenticated recorder is required'')
      else
        let invoiceId = or_null (bp_invoice body);
            rest = (case or_null (bp_installment body) of
                None \<Rightarrow> Inr invoiceId
              | Some k \<Rightarrow>
                  (case find_installment db k of
                     None \<Rightarrow> Inl (NotFound ''Installment not found for student and invoice'')
                   | Some (i, p) \<Rightarrow>
                       if pl_student p \<noteq> bp_student body \<or> (invoiceId \<noteq> None \<and> pl_invoice p \<noteq> invoiceId)
                         then Inl (NotFound ''Installment not found for student and invoice'')
                       else if toLowerCase (is_status i) \<noteq> ''pending''
                         then Inl (BadRequest ''This installment is no longer outstanding'')
                       else Inr (case invoiceId of Some v \<Rightarrow> Some v | None \<Rightarrow> pl_invoice p)))
        in case invoiceId of
             None \<Rightarrow> rest
           | Some v \<Rightarrow>
               (case tfind iv_id v (fin_invoices db) of
                  None \<Rightarrow> Inl (NotFound ''Invoice not found for student'')
                | Some iv \<Rightarrow>
                    if iv_student iv \<noteq> bp_student body then Inl (NotFound ''Invoice not found for student'')
                    else if toLowerCase (iv_status iv) = ''cancelled''
                      then Inl (BadRequest ''Cannot record a payment against a cancelled invoice'')
                    else rest))"

definition status_after_payment :: "fin_db \<Rightarrow> string \<Rightarrow> string" where
  "status_after_payment db invoiceId =
     (let amount = (case tfind iv_id invoiceId (fin_invoices db) of Some i \<Rightarrow> iv_amount i | None \<Rightarrow> 0);
          paid = completed_total db invoiceId
      in if 0 < pending_installments db invoiceId \<and> paid < amount
         then (if 0 < paid then ''partial'' else ''unpaid'')
         else if amount \<le> paid then ''paid'' else ''partial'')"

definition settle_invoice :: "string \<Rightarrow> fin_db \<Rightarrow> fin_db" where
  "settle_invoice invoiceId db =
     (let status = status_after_payment db invoiceId; db1 = set_invoice_status invoiceId status db
      in if status = ''paid'' then stop_reminders invoiceId db1 else db1)"

definition notify_parents :: "string \<Rightarrow> string \<Rightarrow> fin_db \<Rightarrow> fin_db" where
  "notify_parents studentId title db = db\<lparr>fin_outbox := fin_outbox db @
     map (\<lambda>l. (fst l, title)) (filter (\<lambda>l. snd l = studentId) (parent_links (fin_scope db)))\<rparr>"

definition createPayment ::
  "int \<Rightarrow> string \<Rightarrow> string \<Rightarrow> string option \<Rightarrow> payment_body \<Rightarrow> fin_db \<Rightarrow> fin_response result \<times> fin_db" where
  "createPayment now fresh receipt recordedBy body db = (case payment_check recordedBy body db of
      Inl e \<Rightarrow> (Inl e, db)
    | Inr invoiceId \<Rightarrow>
        (case tinsert py_id \<lparr>py_id = fresh, py_student = bp_student body, py_invoice = invoiceId,
                py_installment = or_null (bp_installment body), py_amount = bp_amount body, py_method = bp_method body,
                py_reference = or_null (bp_reference body), py_status = or_else (bp_status body) ''completed'',
                py_biometric = True, py_recordedBy = recordedBy, py_provider = None, py_providerRef = None,
                py_receipt = receipt, py_createdAt = now\<rparr> (fin_payments db) of
           None \<Rightarrow> (Inl DbError, db)
         | Some t \<Rightarrow>
             let db1 = db\<lparr>fin_payments := t\<rparr>;
                 db2 = (case or_null (bp_installment body) of Some k \<Rightarrow> pay_installment now k db1 | None \<Rightarrow> db1);
                 db3 = (case or_null invoiceId of Some v \<Rightarrow> settle_invoice v db2 | None \<Rightarrow> db2);
                 db4 = notify_parents (bp_student body) ''Fee payment recorded'' db3
             in (Inr (FPayment fresh receipt), db4\<lparr>fin_outbox := fin_outbox db4 @ [(the recordedBy, ''Payment recorded'')]\<rparr>)))"

definition deletePayment :: "string \<Rightarrow> fin_db \<Rightarrow> fin_response result \<times> fin_db" where
  "deletePayment k db =
     (Inr (FId k), db\<lparr>fin_payments := tmodify py_id k (\<lambda>p. p\<lparr>py_status := ''archived''\<rparr>) (fin_payments db)\<rparr>)"

subsection \<open>Invoices\<close>

record invoice_body =
  bi_student :: string
  bi_fee :: "string option"
  bi_title :: string
  bi_amount :: int
  bi_currency :: "string option"
  bi_term :: string
  bi_session :: "string option"
  bi_status :: "string option"
  bi_plan :: "string option"
  bi_dueDate :: "string option"
  bi_notes :: "string option"

definition createInvoice ::
  "int \<Rightarrow> string \<Rightarrow> string \<Rightarrow> string option \<Rightarrow> invoice_body \<Rightarrow> fin_db \<Rightarrow> fin_response result \<times> fin_db" where
  "createInvoice now fresh reminderId createdBy body db =
     (case tinsert iv_id \<lparr>iv_id = fresh, iv_student = bi_student body, iv_fee = or_null (bi_fee body), iv_title = bi_title body,
             iv_amount = bi_amount body, iv_currency = toUpperCase (or_else (bi_currency body) ''NGN''), iv_term = bi_term body,
             iv_session = or_null (bi_session body), iv_status = or_else (bi_status body) ''unpaid'',
             iv_plan = or_else (bi_plan body) ''full'', iv_dueDate = or_null (bi_dueDate body),
             iv_notes = or_null (bi_notes body), iv_createdBy = or_null createdBy, iv_archivedAt = None, iv_createdAt = now\<rparr>
           (fin_invoices db) of
        None \<Rightarrow> (Inl DbError, db)
      | Some t \<Rightarrow>
          let db1 = db\<lparr>fin_invoices := t\<rparr> in
          (case tinsert fr_id \<lparr>fr_id = reminderId, fr_invoice = fresh, fr_student = bi_student body,
                  fr_dueDate = or_null (bi_dueDate body), fr_status = ''pending'', fr_nextSend = Some now, fr_lastSent = None\<rparr>
                (fin_reminders db1) of
             None \<Rightarrow> (Inl DbError, db1)
           | Some r \<Rightarrow> (Inr (FId fresh), db1\<lparr>fin_reminders := r\<rparr>)))"

text \<open>The absent fields of the update are \<open>None\<close>; for \<open>notes\<close> the inner \<open>None\<close> is a null.\<close>

record invoice_update =
  up_status :: "string option"
  up_plan :: "string option"
  up_amount :: "int option"
  up_notes :: "string option option"

definition apply_invoice_update :: "invoice_update \<Rightarrow> invoice \<Rightarrow> invoice" where
  "apply_invoice_update u i =
     (let i1 = (case up_status u of Some s \<Rightarrow> i\<lparr>iv_status := s\<rparr> | None \<Rightarrow> i);
          i2 = (case up_plan u of Some p \<Rightarrow> i1\<lparr>iv_plan := p\<rparr> | None \<Rightarrow> i1);
          i3 = (case up_amount u of Some a \<Rightarrow> i2\<lparr>iv_amount := a\<rparr> | None \<Rightarrow> i2)
      in (case up_notes u of Some n \<Rightarrow> i3\<lparr>iv_notes := or_null n\<rparr> | None \<Rightarrow> i3))"

definition updateInvoice :: "string \<Rightarrow> invoice_update \<Rightarrow> fin_db \<Rightarrow> fin_response result \<times> fin_db" where
  "updateInvoice k u db =
     (if tfind iv_id k (fin_invoices db) = None then (Inl (NotFound ''Invoice not found''), db)
      else if up_status u = None \<and> up_plan u = None \<and> up_amount u = None \<and> up_notes u = None
        then (Inl (BadRequest ''No fields to update''), db)
      else (Inr (FId k), db\<lparr>fin_invoices := tmodify iv_id k (apply_invoice_update u) (fin_invoices db)\<rparr>))"

definition latest_proof :: "fin_db \<Rightarrow> string \<Rightarrow> payment_proof option" where
  "latest_proof db k = (case newest pp_createdAt 1 (filter (\<lambda>p. pp_invoice p = k) (fin_proofs db)) of
      [] \<Rightarrow> None | p # _ \<Rightarrow> Some p)"

definition deleteInvoice :: "int \<Rightarrow> string \<Rightarrow> fin_db \<Rightarrow> fin_response result \<times> fin_db" where
  "deleteInvoice now k db = (case tfind iv_id k (fin_invoices db) of
      None \<Rightarrow> (Inl (NotFound ''Invoice not found''), db)
    | Some iv \<Rightarrow>
        let status = toLowerCase (iv_status iv); proof_row = latest_proof db k in
        if status = ''paid'' \<or> status = ''pending'' \<or> status = ''partial''
          then (Inl (BadRequest ''Paid, partial, or pending invoices cannot be deleted''), db)
        else if (case proof_row of Some p \<Rightarrow> toLowerCase (pp_status p) = ''pending'' | None \<Rightarrow> False)
          then (Inl (BadRequest ''An invoice with a payment proof pending review cannot be deleted''), db)
        else if status = ''unpaid'' \<and> proof_row \<noteq> None
          then (Inl (BadRequest ''An unpaid invoice with payment proof cannot be deleted''), db)
        else (Inr (FId k), db\<lparr>fin_invoices := tmodify iv_id k (\<lambda>i. i\<lparr>iv_status := ''cancelled'', iv_archivedAt := Some now\<rparr>)
               (fin_invoices db)\<rparr>))"

definition createRefund :: "refund \<Rightarrow> fin_db \<Rightarrow> fin_response result \<times> fin_db" where
  "createRefund row db = (case tinsert rf_id row (fin_refunds db) of
      None \<Rightarrow> (Inl DbError, db)
    | Some t \<Rightarrow> (Inr (FId (rf_id row)), db\<lparr>fin_refunds := t\<rparr>))"

subsection \<open>Arrears\<close>

record balance_snapshot =
  arrears :: int
  prepaidCredits :: int
  netBalance :: int
  hasArrears :: bool
  frozen :: bool

definition computeStudentBalance :: "bool \<Rightarrow> fin_db \<Rightarrow> string \<Rightarrow> balance_snapshot" where
  "computeStudentBalance freezeEnabled db studentId =
     (let due = sum_list (map iv_amount (filter (\<lambda>i. iv_student i = studentId \<and>
                  (iv_status i = ''unpaid'' \<or> iv_status i = ''partial'')) (fin_invoices db)));
          credit = sum_list (map ac_amount (filter (\<lambda>c. ac_student c = studentId) (fin_credits db)));
          net = credit - due
      in \<lparr>arrears = due, prepaidCredits = credit, netBalance = net, hasArrears = (0 < due \<and> net < 0),
          frozen = (freezeEnabled \<and> 0 < due \<and> net < 0)\<rparr>)"

definition computeParentBalance :: "bool \<Rightarrow> fin_db \<Rightarrow> string \<Rightarrow> bool \<times> balance_snapshot list" where
  "computeParentBalance freezeEnabled db parentId =
     (let wards = map (\<lambda>l. computeStudentBalance freezeEnabled db (snd l))
                    (filter (\<lambda>l. fst l = parentId) (parent_links (fin_scope db)))
      in (list_ex frozen wards, wards))"

subsection \<open>Facts\<close>

lemma settle_frame [simp]:
  "fin_payments (settle_invoice v db) = fin_payments db" "fin_installments (settle_invoice v db) = fin_installments db"
  "fin_scope (settle_invoice v db) = fin_scope db" "fin_outbox (settle_invoice v db) = fin_outbox db"
  by (simp_all add: settle_invoice_def stop_reminders_def set_invoice_status_def Let_def)

lemma pay_installment_frame [simp]:
  "fin_payments (pay_installment now k db) = fin_payments db" "fin_invoices (pay_installment now k db) = fin_invoices db"
  "fin_reminders (pay_installment now k db) = fin_reminders db" "fin_plans (pay_installment now k db) = fin_plans db"
  by (simp_all add: pay_installment_def)

lemma notify_parents_frame [simp]:
  "fin_payments (notify_parents st t db) = fin_payments db" "fin_invoices (notify_parents st t db) = fin_invoices db"
  "fin_reminders (notify_parents st t db) = fin_reminders db" "fin_installments (notify_parents st t db) = fin_installments db"
  by (simp_all add: notify_parents_def)

lemma completed_total_cong: "fin_payments db' = fin_payments db \<Longrightarrow> completed_total db' v = completed_total db v"
  by (simp add: completed_total_def)

lemma settled_invoices:
  "fin_invoices (settle_invoice v db) = tmodify iv_id v (\<lambda>i. i\<lparr>iv_status := status_after_payment db v\<rparr>) (fin_invoices db)"
  by (simp add: settle_invoice_def stop_reminders_def set_invoice_status_def Let_def)

lemma status_after_payment_paid:
  assumes "tfind iv_id v (fin_invoices db) = Some iv"
  shows "status_after_payment db v = ''paid'' \<longleftrightarrow> iv_amount iv \<le> completed_total db v"
    and "status_after_payment db v \<in> {''paid'', ''partial'', ''unpaid''}"
  using assms by (simp_all add: status_after_payment_def Let_def)

lemma reminders_stopped:
  assumes "status_after_payment db v = ''paid''" and "r \<in> set (fin_reminders (settle_invoice v db))" and "fr_invoice r = v"
  shows "fr_status r \<noteq> ''pending''"
proof -
  have new: "fin_reminders (settle_invoice v db) = tupdate (\<lambda>r. fr_invoice r = v \<and> fr_status r = ''pending'')
      (\<lambda>r. r\<lparr>fr_status := ''stopped''\<rparr>) (fin_reminders db)"
    using assms(1) by (simp add: settle_invoice_def stop_reminders_def set_invoice_status_def Let_def)
  obtain x where x: "r = (if fr_invoice x = v \<and> fr_status x = ''pending'' then x\<lparr>fr_status := ''stopped''\<rparr> else x)"
    by (rule set_tupdateE [OF assms(2) [unfolded new]])
  show ?thesis
  proof (cases "fr_invoice x = v \<and> fr_status x = ''pending''")
    case True
    with x show ?thesis by simp
  next
    case False
    with x assms(3) show ?thesis by auto
  qed
qed

lemma payment_check_invoice:
  assumes "payment_check by body db = Inr w" and "or_null (bp_invoice body) = Some v"
  shows "w = Some v \<and> (\<exists>iv. tfind iv_id v (fin_invoices db) = Some iv \<and> iv_student iv = bp_student body \<and>
    toLowerCase (iv_status iv) \<noteq> ''cancelled'')"
  using assms
  by (auto simp: payment_check_def Let_def split: option.splits if_splits prod.splits)

definition paid_by_staff :: "int \<Rightarrow> string \<Rightarrow> string \<Rightarrow> string option \<Rightarrow> payment_body \<Rightarrow> string \<Rightarrow> fin_db \<Rightarrow> fin_db" where
  "paid_by_staff now fresh receipt by body v db =
     (let db1 = db\<lparr>fin_payments := fin_payments db @
            [\<lparr>py_id = fresh, py_student = bp_student body, py_invoice = Some v,
                py_installment = or_null (bp_installment body), py_amount = bp_amount body, py_method = bp_method body,
                py_reference = or_null (bp_reference body), py_status = or_else (bp_status body) ''completed'',
                py_biometric = True, py_recordedBy = by, py_provider = None, py_providerRef = None,
                py_receipt = receipt, py_createdAt = now\<rparr>]\<rparr>
      in (case or_null (bp_installment body) of Some k \<Rightarrow> pay_installment now k db1 | None \<Rightarrow> db1))"

lemma paid_by_staff_frame [simp]:
  "fin_invoices (paid_by_staff now fresh receipt by body v db) = fin_invoices db"
  "fin_reminders (paid_by_staff now fresh receipt by body v db) = fin_reminders db"
  by (simp_all add: paid_by_staff_def Let_def split: option.splits)

lemma paid_by_staff_total:
  assumes "or_else (bp_status body) ''completed'' = ''completed''"
  shows "completed_total (paid_by_staff now fresh receipt by body v db) v = completed_total db v + bp_amount body"
  using assms by (simp add: paid_by_staff_def completed_total_def Let_def split: option.splits)

lemma createPayment_ok:
  assumes "createPayment now fresh receipt by body db = (Inr resp, db')" and "payment_check by body db = Inr (Some v)" and "v \<noteq> []"
  shows "fin_invoices db' = fin_invoices (settle_invoice v (paid_by_staff now fresh receipt by body v db))"
    and "fin_reminders db' = fin_reminders (settle_invoice v (paid_by_staff now fresh receipt by body v db))"
    and "completed_total db' v = completed_total (paid_by_staff now fresh receipt by body v db) v"
proof -
  have "tinsert py_id r (fin_payments db) = Some t \<Longrightarrow> t = fin_payments db @ [r]" for r t
    by (auto simp: tinsert_def split: if_splits)
  then have "db' = (let db4 = notify_parents (bp_student body) ''Fee payment recorded''
        (settle_invoice v (paid_by_staff now fresh receipt by body v db))
      in db4\<lparr>fin_outbox := fin_outbox db4 @ [(the by, ''Payment recorded'')]\<rparr>)"
    using assms by (auto simp: createPayment_def paid_by_staff_def Let_def or_null_def split: option.splits list.splits)
  then show "fin_invoices db' = fin_invoices (settle_invoice v (paid_by_staff now fresh receipt by body v db))"
    "fin_reminders db' = fin_reminders (settle_invoice v (paid_by_staff now fresh receipt by body v db))"
    "completed_total db' v = completed_total (paid_by_staff now fresh receipt by body v db) v"
    by (simp_all add: Let_def completed_total_def)
qed

subsection \<open>Properties\<close>


definition one_invoice :: fin_db where
  "one_invoice = \<lparr>fin_invoices = [\<lparr>iv_id = ''v1'', iv_student = ''ada'', iv_fee = None, iv_title = ''fees'', iv_amount = 5000,
       iv_currency = ''NGN'', iv_term = ''first'', iv_session = None, iv_status = ''unpaid'', iv_plan = ''full'', iv_dueDate = None,
       iv_notes = None, iv_createdBy = None, iv_archivedAt = None, iv_createdAt = 0\<rparr>],
     fin_payments = [], fin_plans = [], fin_installments = [],
     fin_reminders = [\<lparr>fr_id = ''r1'', fr_invoice = ''v1'', fr_student = ''ada'', fr_dueDate = None, fr_status = ''pending'',
       fr_nextSend = None, fr_lastSent = None\<rparr>],
     fin_proofs = [], fin_credits = [], fin_sessions = [], fin_refunds = [], fin_scope = nobody, fin_outbox = []\<rparr>"

definition cash :: "int \<Rightarrow> string option \<Rightarrow> payment_body" where
  "cash amount status = \<lparr>bp_student = ''ada'', bp_invoice = Some ''v1'', bp_installment = None, bp_amount = amount,
     bp_method = ''cash'', bp_reference = None, bp_status = status\<rparr>"


text \<open>an invoice can be deleted exactly when it is not paid, part-paid or pending, no payment proof
  waits for review and an unpaid one has no proof at all; deleting keeps the row, cancelled, and from
  then on every payment against it is refused.\<close>

theorem invoice_deletion:
  "(is_ok (fst (deleteInvoice now k db)) \<longleftrightarrow>
     (\<exists>iv. tfind iv_id k (fin_invoices db) = Some iv \<and> toLowerCase (iv_status iv) \<notin> {''paid'', ''pending'', ''partial''} \<and>
        (case latest_proof db k of
           None \<Rightarrow> True
         | Some p \<Rightarrow> toLowerCase (pp_status p) \<noteq> ''pending'' \<and> toLowerCase (iv_status iv) \<noteq> ''unpaid''))) \<and>
   (if is_ok (fst (deleteInvoice now k db))
    then map_option iv_status (tfind iv_id k (fin_invoices (snd (deleteInvoice now k db)))) = Some ''cancelled'' \<and>
         (if or_null (bp_invoice body) = Some k
          then \<not> is_ok (fst (createPayment now2 fresh receipt by body (snd (deleteInvoice now k db)))) else True)
    else snd (deleteInvoice now k db) = db)"
proof -
  have "toLowerCase ''cancelled'' = ''cancelled''" by code_simp
  then have low: "toLowerCase (iv_status iv) = ''cancelled''" if "iv_status iv = ''cancelled''" for iv :: invoice
    using that by simp
  have refused: "\<not> is_ok (fst (createPayment now2 fresh receipt by body db'))"
    if inv: "or_null (bp_invoice body) = Some k"
      "map_option iv_status (tfind iv_id k (fin_invoices db')) = Some ''cancelled''" for db'
  proof (cases "payment_check by body db'")
    case (Inr w)
    from payment_check_invoice [OF Inr inv(1)] inv(2) low show ?thesis by auto
  qed (simp add: createPayment_def)
  let ?cancelled = "db\<lparr>fin_invoices := tmodify iv_id k (\<lambda>i. i\<lparr>iv_status := ''cancelled'', iv_archivedAt := Some now\<rparr>) (fin_invoices db)\<rparr>"
  have no: "is_ok (fst (createPayment now2 fresh receipt by body ?cancelled)) \<longleftrightarrow> False"
    if "or_null (bp_invoice body) = Some k" "tfind iv_id k (fin_invoices db) = Some iv" for iv
    using refused [OF that(1), of ?cancelled] that(2) by (simp add: tfind_tmodify)
  show ?thesis
    by (cases "latest_proof db k"; cases "tfind iv_id k (fin_invoices db)")
      (simp_all add: deleteInvoice_def Let_def tfind_tmodify no)
qed

text \<open>A payment that is not completed still changes the invoice: an unpaid one becomes \<open>partial\<close> with
  nothing received.\<close>

lemma pending_payment_marks_partial:
  "let db = snd (createPayment 9 ''p1'' ''R1'' (Some ''bursar'') (cash 5000 (Some ''pending'')) one_invoice)
   in map iv_status (fin_invoices db) = [''partial''] \<and> completed_total db ''v1'' = 0"
  by code_simp

text \<open>Archiving the payment leaves the invoice paid.\<close>

lemma archived_payment_keeps_paid:
  "let db = snd (deletePayment ''p1'' (snd (createPayment 9 ''p1'' ''R1'' (Some ''bursar'') (cash 5000 None) one_invoice)))
   in map iv_status (fin_invoices db) = [''paid''] \<and> completed_total db ''v1'' = 0"
  by code_simp

text \<open>The arrears of a part-paid invoice are its whole amount.\<close>

lemma arrears_ignore_part_payments:
  "let db = snd (createPayment 9 ''p1'' ''R1'' (Some ''bursar'') (cash 4999 None) one_invoice)
   in arrears (computeStudentBalance True db ''ada'') = 5000 \<and> completed_total db ''v1'' = 4999"
  by code_simp

end
