(* ===== verification/FeesOps.thy ===== *)
theory FeesOps
  imports Services FeatureFlags
begin

section \<open>Fee splits and bank reconciliation\<close>

text \<open>
  \<open>fees-ops/fees-ops.service.ts\<close>: the share of a school-fee payment that goes to the platform, recorded
  by hand or after an online settlement, and the bank rows to reconcile.  Amounts are minor units and
  shares basis points, both integers.
\<close>

record split_settlement =
  sp_id :: string
  sp_reference :: string
  sp_gross :: int
  sp_school :: int
  sp_saas :: int
  sp_currency :: string
  sp_status :: string
  sp_createdAt :: int

record recon_entry =
  rc_id :: string
  rc_bankRef :: string
  rc_amount :: int
  rc_currency :: string
  rc_matched :: "string option"
  rc_state :: string
  rc_notes :: string
  rc_createdAt :: int

record fo_db =
  fo_splits :: "split_settlement list"
  fo_recon :: "recon_entry list"

text \<open>\<open>Math.round((gross * bps) / 10_000)\<close>: half goes up.\<close>

definition saas_share :: "int \<Rightarrow> int \<Rightarrow> int" where
  "saas_share gross bps = (2 * gross * bps + 10000) div 20000"

definition split_row :: "int \<Rightarrow> string \<Rightarrow> string \<Rightarrow> int \<Rightarrow> int \<Rightarrow> string option \<Rightarrow> split_settlement" where
  "split_row now fresh reference gross bps currency =
     \<lparr>sp_id = fresh, sp_reference = reference, sp_gross = gross, sp_school = gross - saas_share gross bps,
      sp_saas = saas_share gross bps, sp_currency = or_else currency ''NGN'', sp_status = ''pending'', sp_createdAt = now\<rparr>"

datatype fo_response =
    FoSplits "split_settlement list"
  | FoSplit split_settlement int
  | FoRecon "recon_entry list"
  | FoMatched string string

definition listSplits :: "fo_db \<Rightarrow> split_settlement list" where
  "listSplits db = newest sp_createdAt 200 (fo_splits db)"

definition createSplit ::
  "int \<Rightarrow> string \<Rightarrow> string \<Rightarrow> int \<Rightarrow> int option \<Rightarrow> string option \<Rightarrow> fo_db \<Rightarrow> fo_response result \<times> fo_db" where
  "createSplit now fresh reference gross bpsOpt currency db =
     (let bps = (case bpsOpt of Some b \<Rightarrow> b | None \<Rightarrow> 250); row = split_row now fresh reference gross bps currency
      in case tinsert sp_id row (fo_splits db) of
           None \<Rightarrow> (Inl DbError, db)
         | Some t \<Rightarrow> (Inr (FoSplit row bps), db\<lparr>fo_splits := t\<rparr>))"

record auto_split =
  as_reference :: string
  as_gross :: int
  as_currency :: string
  as_provider :: string
  as_kind :: string

text \<open>The rule for school fees: the provider's own rule first, any other otherwise.\<close>

definition fee_rule :: "runtime_config \<Rightarrow> string \<Rightarrow> fee_split_rule option" where
  "fee_rule cfg provider =
     (case find (\<lambda>r. feeType r = ''school_fees'' \<and> split_providerId r = provider) (rc_feeSplits cfg) of
        Some r \<Rightarrow> Some r
      | None \<Rightarrow> find (\<lambda>r. feeType r = ''school_fees'') (rc_feeSplits cfg))"

definition platform_bps :: "fee_split_rule option \<Rightarrow> int option" where
  "platform_bps rule = (case rule of
      None \<Rightarrow> None
    | Some r \<Rightarrow> (case find (\<lambda>a. destination a = ''platform'') (allocations r) of
          None \<Rightarrow> None
        | Some a \<Rightarrow> if percentage_bps a \<le> 0 then None else Some (percentage_bps a)))"

text \<open>\<open>enabled\<close> is the answer of the feature check; every failure is swallowed, so only the table matters.\<close>

definition maybeRecordAutoSplit ::
  "bool \<Rightarrow> runtime_config \<Rightarrow> bool \<Rightarrow> int \<Rightarrow> string \<Rightarrow> auto_split \<Rightarrow> fo_db \<Rightarrow> fo_db" where
  "maybeRecordAutoSplit enabled cfg tenantFound now fresh input db =
     (if as_kind input = ''saas_subscription'' \<or> \<not> enabled then db
      else case platform_bps (fee_rule cfg (as_provider input)) of
        None \<Rightarrow> db
      | Some bps \<Rightarrow>
          if \<not> tenantFound \<or> as_reference input \<in> sp_reference ` set (fo_splits db) then db
          else case tinsert sp_id (split_row now fresh (as_reference input) (as_gross input) bps (Some (as_currency input)))
              (fo_splits db) of
            None \<Rightarrow> db
          | Some t \<Rightarrow> db\<lparr>fo_splits := t\<rparr>)"

definition listRecon :: "fo_db \<Rightarrow> recon_entry list" where
  "listRecon db = newest rc_createdAt 200 (fo_recon db)"

definition ingestBankRow ::
  "int \<Rightarrow> string \<Rightarrow> string \<Rightarrow> int \<Rightarrow> string option \<Rightarrow> string option \<Rightarrow> string option \<Rightarrow> fo_db \<Rightarrow> fo_response result \<times> fo_db" where
  "ingestBankRow now fresh bankRef amount currency matchedRef notes db =
     (let status = (if truthy matchedRef then ''matched'' else ''unmatched'') in
      case tinsert rc_id \<lparr>rc_id = fresh, rc_bankRef = bankRef, rc_amount = amount, rc_currency = or_else currency ''NGN'',
              rc_matched = or_null matchedRef, rc_state = status, rc_notes = or_else notes ''Stub bank feed row'',
              rc_createdAt = now\<rparr> (fo_recon db) of
        None \<Rightarrow> (Inl DbError, db)
      | Some t \<Rightarrow> (Inr (FoMatched fresh status), db\<lparr>fo_recon := t\<rparr>))"

datatype fo_request =
    FoListSplits call
  | FoCreate call int string string int "int option" "string option"
  | FoAuto bool runtime_config bool int string auto_split
  | FoListRecon call
  | FoIngest call int string string int "string option" "string option" "string option"

fun fo_step :: "fo_request \<Rightarrow> fo_db \<Rightarrow> fo_response result \<times> fo_db" where
  "fo_step (FoListSplits c) db = with_service ''fees.split_settlement'' c db (\<lambda>db. (Inr (FoSplits (listSplits db)), db))"
| "fo_step (FoCreate c now fresh reference gross bps currency) db =
     with_service ''fees.split_settlement'' c db (createSplit now fresh reference gross bps currency)"
| "fo_step (FoAuto enabled cfg found now fresh input) db =
     (Inr (FoSplits []), maybeRecordAutoSplit enabled cfg found now fresh input db)"
| "fo_step (FoListRecon c) db = with_service ''fees.bank_reconciliation'' c db (\<lambda>db. (Inr (FoRecon (listRecon db)), db))"
| "fo_step (FoIngest c now fresh bankRef amount currency matchedRef notes) db =
     with_service ''fees.bank_reconciliation'' c db (ingestBankRow now fresh bankRef amount currency matchedRef notes)"

subsection \<open>Splits add up\<close>

definition fo_inv :: "fo_db \<Rightarrow> bool" where
  "fo_inv db \<longleftrightarrow> pk sp_id (fo_splits db) \<and> pk rc_id (fo_recon db) \<and>
     (\<forall>r\<in>set (fo_splits db). sp_school r + sp_saas r = sp_gross r) \<and>
     (\<forall>r\<in>set (fo_recon db). rc_state r = (if rc_matched r = None then ''unmatched'' else ''matched''))"

lemma createSplit_inv: "fo_inv db \<Longrightarrow> fo_inv (snd (createSplit now fresh reference gross bps currency db))"
  by (auto simp: createSplit_def Let_def fo_inv_def tinsert_def pk_append split_row_def)

lemma maybeRecordAutoSplit_inv: "fo_inv db \<Longrightarrow> fo_inv (maybeRecordAutoSplit enabled cfg found now fresh input db)"
  by (auto simp: maybeRecordAutoSplit_def fo_inv_def tinsert_def pk_append split_row_def split: option.splits)

lemma ingestBankRow_inv: "fo_inv db \<Longrightarrow> fo_inv (snd (ingestBankRow now fresh bankRef amount currency matchedRef notes db))"
  by (auto simp: ingestBankRow_def Let_def fo_inv_def tinsert_def pk_append truthy_def)

lemma fo_step_inv: "fo_inv db \<Longrightarrow> fo_inv (snd (fo_step q db))"
  by (cases q) (simp_all add: with_service_def createSplit_inv maybeRecordAutoSplit_inv ingestBankRow_inv)

interpretation fees: invariant_machine fo_step fo_inv
  by unfold_locales (rule fo_step_inv)

lemma saas_share_bounds:
  assumes "0 \<le> gross" "0 \<le> bps" "bps \<le> 10000"
  shows "0 \<le> saas_share gross bps \<and> saas_share gross bps \<le> gross"
proof -
  have "0 \<le> gross * bps" using assms by simp
  then have lo: "0 \<le> saas_share gross bps" by (simp add: saas_share_def)
  have "gross * bps \<le> gross * 10000" using assms by (intro mult_left_mono)
  then have "2 * gross * bps + 10000 < 20000 * (gross + 1)" by simp
  then have "(2 * gross * bps + 10000) div 20000 < gross + 1" by (simp add: div_less_iff_less_mult)
  with lo show ?thesis by (simp add: saas_share_def)
qed

lemma saas_share_error: "\<bar>10000 * saas_share gross bps - gross * bps\<bar> \<le> 5000"
proof -
  have "(2 * gross * bps + 10000) mod 20000 = 2 * gross * bps + 10000 - 20000 * saas_share gross bps"
    by (simp add: saas_share_def minus_div_mult_eq_mod [symmetric] algebra_simps)
  moreover have "0 \<le> (2 * gross * bps + 10000) mod 20000" "(2 * gross * bps + 10000) mod 20000 < 20000" by simp_all
  ultimately show ?thesis by simp
qed

subsection \<open>Properties\<close>

text \<open>no money is lost in a split: over every sequence of calls the two shares of every stored split
  add up to the gross amount; and the platform's share of a non-negative amount at 0 to 100 percent
  lies between 0 and the amount, within half a minor unit of the exact share.\<close>

theorem splits_add_up:
  assumes "r \<in> set (fo_splits (run_reqs fo_step qs \<lparr>fo_splits = [], fo_recon = []\<rparr>))"
    and "0 \<le> gross" "0 \<le> bps" "bps \<le> 10000"
  shows "sp_school r + sp_saas r = sp_gross r \<and> 0 \<le> saas_share gross bps \<and> saas_share gross bps \<le> gross \<and>
    \<bar>2 * (10000 * saas_share gross bps - gross * bps)\<bar> \<le> 10000"
proof -
  have "fo_inv (run_reqs fo_step qs \<lparr>fo_splits = [], fo_recon = []\<rparr>)" by (rule fees.run_inv) (simp add: fo_inv_def)
  with assms(1) have "sp_school r + sp_saas r = sp_gross r" by (simp add: fo_inv_def)
  with saas_share_bounds [OF assms(2-4)] saas_share_error [of gross bps] show ?thesis by simp
qed

theorem splits_add_up_witness:
  "sp_school (split_row 0 ''s1'' ''ref'' 99999 250 None) + sp_saas (split_row 0 ''s1'' ''ref'' 99999 250 None) = 99999"
proof -
  let ?q = "FoCreate \<lparr>feature_on = True, tenant_found = True\<rparr> 0 ''s1'' ''ref'' 99999 None None"
  have "fo_splits (run_reqs fo_step [?q] \<lparr>fo_splits = [], fo_recon = []\<rparr>) = [split_row 0 ''s1'' ''ref'' 99999 250 None]"
    by (simp add: with_service_def createSplit_def tinsert_def Let_def)
  then have "split_row 0 ''s1'' ''ref'' 99999 250 None \<in> set (fo_splits (run_reqs fo_step [?q] \<lparr>fo_splits = [], fo_recon = []\<rparr>))"
    by simp
  from splits_add_up [OF this, of 99999 250] show ?thesis by (simp add: split_row_def)
qed

text \<open>an online payment is split once: recording a settlement again, with whatever configuration and
  identifier, changes nothing when its reference has a split.\<close>

theorem auto_split_once:
  assumes "db' = maybeRecordAutoSplit enabled cfg found now fresh input db" and "fo_splits db' \<noteq> fo_splits db"
  shows "maybeRecordAutoSplit enabled2 cfg2 found2 now2 fresh2 (input\<lparr>as_gross := g, as_provider := p\<rparr>) db' = db' \<and>
    length (filter (\<lambda>r. sp_reference r = as_reference input) (fo_splits db')) = 1"
proof -
  obtain bps where none: "as_reference input \<notin> sp_reference ` set (fo_splits db)"
    and new: "fo_splits db' = fo_splits db @ [split_row now fresh (as_reference input) (as_gross input) bps (Some (as_currency input))]"
    using assms by (auto simp: maybeRecordAutoSplit_def tinsert_def split: option.splits if_splits)
  have "filter (\<lambda>r. sp_reference r = as_reference input) (fo_splits db) = []"
    using none by (simp add: filter_empty_conv image_iff) metis
  then have "length (filter (\<lambda>r. sp_reference r = as_reference input) (fo_splits db')) = 1"
    by (simp add: new split_row_def)
  moreover have "as_reference input \<in> sp_reference ` set (fo_splits db')"
    by (simp add: new split_row_def)
  ultimately show ?thesis by (simp add: maybeRecordAutoSplit_def split: option.splits)
qed

definition split_config :: runtime_config where
  "split_config = \<lparr>rc_tenantId = ''t'', rc_status = Active, rc_features = Map.empty, rc_providers = Map.empty,
     rc_enforcement = \<lparr>schoolBlacklisted = False, blockedUserIds = [], blockedEmails = [], blockedIpCidrs = [],
       capabilityFreezes = [], denyLogin = False, enf_message = None\<rparr>,
     rc_killSwitches = [], rc_feeSplits = [\<lparr>feeType = ''school_fees'', split_providerId = ''paystack'',
       allocations = [\<lparr>destination = ''platform'', percentage_bps = 250\<rparr>]\<rparr>], rc_ttlSeconds = None, rc_configVersion = 1\<rparr>"

theorem auto_split_once_witness:
  "let input = \<lparr>as_reference = ''ref'', as_gross = 1000, as_currency = ''NGN'', as_provider = ''paystack'', as_kind = ''invoice''\<rparr>;
       db = maybeRecordAutoSplit True split_config True 0 ''s1'' input \<lparr>fo_splits = [], fo_recon = []\<rparr>
   in length (filter (\<lambda>r. sp_reference r = ''ref'') (fo_splits db)) = 1"
proof -
  let ?input = "\<lparr>as_reference = ''ref'', as_gross = 1000, as_currency = ''NGN'', as_provider = ''paystack'', as_kind = ''invoice''\<rparr>"
  let ?db = "maybeRecordAutoSplit True split_config True 0 ''s1'' ?input \<lparr>fo_splits = [], fo_recon = []\<rparr>"
  have "length (fo_splits ?db) = 1" by code_simp
  then have "fo_splits ?db \<noteq> fo_splits \<lparr>fo_splits = [], fo_recon = []\<rparr>" by auto
  from auto_split_once [OF refl this] show ?thesis by (simp add: Let_def)
qed

end
