(* ===== verification/Gateway.thy ===== *)
theory Gateway
  imports Complex_Main Finance FeesOps Enforcement
begin

section \<open>Online payments\<close>

text \<open>
  \<open>financial/gateway-payments.service.ts\<close> with the webhook side of the payment adapters
  (\<open>platform-config/providers\<close>): checkout sessions, their settlement by verification or by webhook,
  installment plans and fee reminders, on the tables of \<open>Finance\<close>.  The answers of the payment
  service, of the providers' HTTP interfaces and of the control plane come with the request; the
  hash-based message code is node's and an argument.  Amounts in the tables are minor units; the
  amounts a provider reports are rationals, \<open>Math.round\<close> is \<open>round\<close>.  Comparisons with a tolerance are
  exact here, while the code's floating point may go either way at the tolerance itself.
\<close>

record gw_state =
  gw_db :: fin_db
  gw_saas :: "(int \<times> int) list"        \<comment> \<open>invoice and amount reported to the control plane\<close>
  gw_splits :: "auto_split list"        \<comment> \<open>the calls of \<open>recordAutoSplit\<close>, in order\<close>

record fee_flags =
  fl_gateway :: bool
  fl_advance :: bool
  fl_installments :: bool

text \<open>The identifier a settlement returns: a payment or session, or \<open>saas-invoice-n\<close>.\<close>

datatype paid_ref = PayRef string | SaasRef int

datatype gw_response =
    GwCheckout string string string              \<comment> \<open>session, reference, provider\<close>
  | GwStatus string "paid_ref option"
  | GwPlanId string
  | GwPlans "(installment_plan \<times> installment list) list"
  | GwCredits "advance_credit list"
  | GwSent nat
  | GwStaff fin_response

abbreviation (input) saas_kind :: string where "saas_kind \<equiv> ''saas_subscription''"

definition settled :: "checkout_session \<Rightarrow> bool" where
  "settled x \<longleftrightarrow> cs_status x = ''settled'' \<or> cs_status x = ''success''"

definition settled_total :: "fin_db \<Rightarrow> string \<Rightarrow> int" where
  "settled_total db v = sum_list (map cs_amount (filter (\<lambda>x. cs_invoice x = Some v \<and> settled x) (fin_sessions db)))"

subsection \<open>Checkout\<close>

record checkout_body =
  ck_student :: string
  ck_invoice :: "string option"
  ck_installment :: "string option"
  ck_amount :: int
  ck_currency :: "string option"
  ck_kind :: "string option"
  ck_term :: "string option"
  ck_label :: "string option"

definition checkoutFeatures :: "fee_flags \<Rightarrow> string \<Rightarrow> bool \<Rightarrow> string list" where
  "checkoutFeatures fl kind hasInstallment =
     (if kind \<noteq> saas_kind \<and> fl_gateway fl then [''fees.gateway''] else []) @
     (if kind = ''advance'' \<and> fl_advance fl then [''fees.advance_payment''] else []) @
     (if (kind = ''installment'' \<or> hasInstallment) \<and> fl_installments fl then [''fees.installments''] else [])"

text \<open>Where a request to a provider goes: the payment service, or the tenant's own adapter by its id.\<close>

datatype 'a routing = Remote "'a result" | LocalGateway string "'a result"

definition routed :: "'a routing \<Rightarrow> 'a result" where
  "routed r = (case r of
      Remote x \<Rightarrow> x
    | LocalGateway provider x \<Rightarrow>
        if provider = ''disabled'' then Inl (Forbidden ''Payment gateway unavailable'') else x)"

definition feature_check :: "fee_flags \<Rightarrow> checkout_body \<Rightarrow> unit result" where
  "feature_check fl b =
     (if ck_kind b \<noteq> Some saas_kind \<and> \<not> fl_gateway fl then Inl (Forbidden ''Feature disabled: fees.gateway'')
      else if ck_kind b = Some ''advance'' \<and> \<not> fl_advance fl then Inl (Forbidden ''Feature disabled: fees.advance_payment'')
      else if (ck_kind b = Some ''installment'' \<or> truthy (ck_installment b)) \<and> \<not> fl_installments fl
        then Inl (Forbidden ''Feature disabled: fees.installments'')
      else Inr ())"

definition invoice_check :: "checkout_body \<Rightarrow> fin_db \<Rightarrow> unit result" where
  "invoice_check b db = (case or_null (ck_invoice b) of
      None \<Rightarrow> Inl (BadRequest ''Invoice id is required for invoice payments'')
    | Some v \<Rightarrow>
        (case tfind iv_id v (fin_invoices db) of
           None \<Rightarrow> Inl (NotFound ''Invoice not found for student'')
         | Some iv \<Rightarrow>
             let outstanding = iv_amount iv - settled_total db v in
             if iv_student iv \<noteq> ck_student b then Inl (NotFound ''Invoice not found for student'')
             else if toLowerCase (iv_status iv) = ''paid'' then Inl (BadRequest ''Invoice is already paid'')
             else if outstanding \<le> 0 then Inl (BadRequest ''Invoice is already fully paid'')
             else if ck_amount b > outstanding then Inl (BadRequest ''Payment exceeds invoice balance'')
             else Inr ()))"

definition installment_check :: "checkout_body \<Rightarrow> fin_db \<Rightarrow> unit result" where
  "installment_check b db = (case or_null (ck_installment b) of
      None \<Rightarrow> Inr ()
    | Some k \<Rightarrow>
        (case find_installment db k of
           None \<Rightarrow> Inl (NotFound ''Installment not found for student'')
         | Some (i, p) \<Rightarrow>
             if pl_student p \<noteq> ck_student b \<or> (truthy (ck_invoice b) \<and> pl_invoice p \<noteq> ck_invoice b)
               then Inl (NotFound ''Installment not found for student'')
             else if toLowerCase (is_status i) \<noteq> ''pending'' then Inl (BadRequest ''Installment is no longer payable'')
             else if \<bar>ck_amount b - is_amount i\<bar> > 1 then Inl (BadRequest ''Payment amount does not match the installment'')
             else Inr ()))"

definition checkout_kind :: "checkout_body \<Rightarrow> string" where
  "checkout_kind b = or_else (ck_kind b) ''invoice''"

definition checkout_check :: "fee_flags \<Rightarrow> bool \<Rightarrow> checkout_body \<Rightarrow> fin_db \<Rightarrow> unit result" where
  "checkout_check fl tenantFound b db = (case feature_check fl b of
      Inl e \<Rightarrow> Inl e
    | Inr _ \<Rightarrow>
        if ck_amount b \<le> 0 then Inl (BadRequest ''Invalid amount'')
        else if \<not> tenantFound then Inl (NotFound ''Tenant not found'')
        else case (if checkout_kind b = ''invoice'' then invoice_check b db else Inr ()) of
          Inl e \<Rightarrow> Inl e
        | Inr _ \<Rightarrow> installment_check b db)"

definition checkout_row :: "string \<Rightarrow> string \<Rightarrow> string \<Rightarrow> string option \<Rightarrow> checkout_body \<Rightarrow> checkout_session" where
  "checkout_row fresh reference provider createdBy b =
     \<lparr>cs_id = fresh, cs_student = ck_student b, cs_invoice = or_null (ck_invoice b),
      cs_installment = or_null (ck_installment b), cs_amount = ck_amount b,
      cs_currency = toUpperCase (or_else (ck_currency b) ''NGN''), cs_reference = reference, cs_provider = provider,
      cs_providerRef = None, cs_status = ''pending'', cs_kind = checkout_kind b, cs_term = ck_term b,
      cs_label = ck_label b, cs_createdBy = or_null createdBy\<rparr>"

definition createCheckout ::
  "fee_flags \<Rightarrow> bool \<Rightarrow> string \<Rightarrow> string \<Rightarrow> string routing \<Rightarrow> string option \<Rightarrow> checkout_body \<Rightarrow> gw_state \<Rightarrow> gw_response result \<times> gw_state" where
  "createCheckout fl tenantFound fresh reference reply createdBy b s =
     (let db = gw_db s in
      case checkout_check fl tenantFound b db of
        Inl e \<Rightarrow> (Inl e, s)
      | Inr _ \<Rightarrow> (case routed reply of
          Inl e \<Rightarrow> (Inl e, s)
        | Inr gatewayId \<Rightarrow>
            let provider = (case reply of Remote _ \<Rightarrow> gatewayId | LocalGateway p _ \<Rightarrow> p);
                row = checkout_row fresh reference provider createdBy b
            in if reference \<in> cs_reference ` set (fin_sessions db) then (Inl DbError, s)
               else case tinsert cs_id row (fin_sessions db) of
                 None \<Rightarrow> (Inl DbError, s)
               | Some t \<Rightarrow> (Inr (GwCheckout fresh reference provider), s\<lparr>gw_db := db\<lparr>fin_sessions := t\<rparr>\<rparr>)))"

subsection \<open>Settlement\<close>

record settle_input =
  st_reference :: string
  st_amount :: rat
  st_currency :: string
  st_provider :: string
  st_providerRef :: string

datatype settle_plan =
    Done string
  | SaasSettle checkout_session int
  | Matched checkout_session string
  | Credit checkout_session

definition invoice_number :: "string option \<Rightarrow> int option" where
  "invoice_number v = (case js_integer (case v of None \<Rightarrow> [] | Some t \<Rightarrow> t) of
      None \<Rightarrow> None | Some n \<Rightarrow> if n \<le> 0 then None else Some n)"

text \<open>\<open>settleSuccess\<close> up to its first write, which decides what the rest does.\<close>

definition settle_check :: "settle_input \<Rightarrow> fin_db \<Rightarrow> settle_plan result" where
  "settle_check inp db = (case tfind cs_reference (st_reference inp) (fin_sessions db) of
      None \<Rightarrow> Inl (NotFound ''Checkout session not found'')
    | Some x \<Rightarrow>
        let received = round (st_amount inp) in
        if settled x then Inr (Done (cs_id x))
        else if received \<le> 0 \<or> received \<noteq> cs_amount x
          then Inl (BadRequest ''Payment amount does not match checkout session'')
        else if toUpperCase (st_currency inp) \<noteq> toUpperCase (or_else (Some (cs_currency x)) ''NGN'')
          then Inl (BadRequest ''Payment currency does not match checkout session'')
        else if cs_kind x = saas_kind then
          (case invoice_number (cs_invoice x) of
             None \<Rightarrow> Inl (BadRequest ''SaaS invoice reference is invalid'')
           | Some n \<Rightarrow> Inr (SaasSettle x n))
        else (case tfind py_providerRef (Some (st_providerRef inp)) (fin_payments db) of
             Some p \<Rightarrow> Inr (Matched x (py_id p))
           | None \<Rightarrow> Inr (Credit x)))"

definition mark_settled :: "string \<Rightarrow> string \<Rightarrow> fin_db \<Rightarrow> fin_db" where
  "mark_settled providerRef k db = db\<lparr>fin_sessions :=
     tmodify cs_id k (\<lambda>x. x\<lparr>cs_status := ''settled'', cs_providerRef := Some providerRef\<rparr>) (fin_sessions db)\<rparr>"

definition gateway_payment :: "int \<Rightarrow> string \<Rightarrow> string \<Rightarrow> settle_input \<Rightarrow> checkout_session \<Rightarrow> payment" where
  "gateway_payment now fresh receipt inp x =
     \<lparr>py_id = fresh, py_student = cs_student x, py_invoice = or_null (cs_invoice x), py_installment = or_null (cs_installment x),
      py_amount = cs_amount x, py_method = ''card'', py_reference = Some (st_reference inp), py_status = ''completed'',
      py_biometric = False, py_recordedBy = None, py_provider = Some (st_provider inp),
      py_providerRef = Some (st_providerRef inp), py_receipt = receipt, py_createdAt = now\<rparr>"

definition credit_invoice :: "string \<Rightarrow> fin_db \<Rightarrow> fin_db" where
  "credit_invoice v db =
     (let covered = (case tfind iv_id v (fin_invoices db) of Some iv \<Rightarrow> settled_total db v \<ge> iv_amount iv | None \<Rightarrow> False)
      in stop_reminders v (if covered then set_invoice_status v ''paid'' db else db))"

definition split_call :: "settle_input \<Rightarrow> checkout_session \<Rightarrow> auto_split" where
  "split_call inp x = \<lparr>as_reference = st_reference inp, as_gross = round (st_amount inp), as_currency = st_currency inp,
     as_provider = st_provider inp, as_kind = or_else (Some (cs_kind x)) ''invoice''\<rparr>"

text \<open>The tables after the payment is stored, the session settled and the invoice and installment followed.\<close>

definition credited :: "int \<Rightarrow> string \<Rightarrow> checkout_session \<Rightarrow> fin_db \<Rightarrow> fin_db" where
  "credited now providerRef x db =
     (let db2 = mark_settled providerRef (cs_id x) db;
          db3 = (case or_null (cs_invoice x) of Some v \<Rightarrow> credit_invoice v db2 | None \<Rightarrow> db2)
      in (case or_null (cs_installment x) of Some k \<Rightarrow> pay_installment now k db3 | None \<Rightarrow> db3))"

definition credit_session ::
  "int \<Rightarrow> string \<Rightarrow> string \<Rightarrow> string \<Rightarrow> settle_input \<Rightarrow> checkout_session \<Rightarrow> gw_state \<Rightarrow> paid_ref result \<times> gw_state" where
  "credit_session now fresh fresh2 receipt inp x s =
     (let db = gw_db s in
      case tinsert py_id (gateway_payment now fresh receipt inp x) (fin_payments db) of
        None \<Rightarrow> (Inl DbError, s)
      | Some t \<Rightarrow>
          let db4 = credited now (st_providerRef inp) x (db\<lparr>fin_payments := t\<rparr>);
              credit = \<lparr>ac_id = fresh2, ac_student = cs_student x, ac_amount = cs_amount x,
                ac_currency = or_else (Some (st_currency inp)) ''NGN'', ac_term = or_null (cs_term x), ac_session = or_null (cs_label x),
                ac_payment = fresh, ac_reference = st_reference inp, ac_createdAt = now\<rparr>
          in (case (if cs_kind x = ''advance'' then tinsert ac_id credit (fin_credits db4) else Some (fin_credits db4)) of
                None \<Rightarrow> (Inl DbError, s\<lparr>gw_db := db4\<rparr>)
              | Some cr \<Rightarrow>
                  let db5 = db4\<lparr>fin_credits := cr\<rparr>;
                      db6 = (case or_null (cs_createdBy x) of
                          Some u \<Rightarrow> db5\<lparr>fin_outbox := fin_outbox db5 @ [(u, ''Online payment received'')]\<rparr>
                        | None \<Rightarrow> db5)
                  in (Inr (PayRef fresh), s\<lparr>gw_db := db6, gw_splits := gw_splits s @ [split_call inp x]\<rparr>)))"

text \<open>\<open>control\<close> is the control plane's answer to \<open>settleTenantInvoice\<close>.\<close>

definition settle_saas ::
  "unit result \<Rightarrow> int \<Rightarrow> int \<Rightarrow> string \<Rightarrow> checkout_session \<Rightarrow> gw_state \<Rightarrow> paid_ref result \<times> gw_state" where
  "settle_saas control n amount providerRef x s = (case control of
      Inl e \<Rightarrow> (Inl e, s)
    | Inr _ \<Rightarrow> (Inr (SaasRef n), s\<lparr>gw_db := mark_settled providerRef (cs_id x) (gw_db s), gw_saas := gw_saas s @ [(n, amount)]\<rparr>))"

definition settle_write ::
  "int \<Rightarrow> string \<Rightarrow> string \<Rightarrow> string \<Rightarrow> unit result \<Rightarrow> settle_input \<Rightarrow> settle_plan \<Rightarrow> gw_state \<Rightarrow> paid_ref result \<times> gw_state" where
  "settle_write now fresh fresh2 receipt control inp plan s = (case plan of
      Done k \<Rightarrow> (Inr (PayRef k), s)
    | SaasSettle x n \<Rightarrow> settle_saas control n (round (st_amount inp)) (st_providerRef inp) x s
    | Matched x k \<Rightarrow> (Inr (PayRef k), s\<lparr>gw_db := mark_settled (st_providerRef inp) (cs_id x) (gw_db s),
                           gw_splits := gw_splits s @ [split_call inp x]\<rparr>)
    | Credit x \<Rightarrow> credit_session now fresh fresh2 receipt inp x s)"

definition settleSuccess ::
  "int \<Rightarrow> string \<Rightarrow> string \<Rightarrow> string \<Rightarrow> unit result \<Rightarrow> settle_input \<Rightarrow> gw_state \<Rightarrow> paid_ref result \<times> gw_state" where
  "settleSuccess now fresh fresh2 receipt control inp s = (case settle_check inp (gw_db s) of
      Inl e \<Rightarrow> (Inl e, s)
    | Inr plan \<Rightarrow> settle_write now fresh fresh2 receipt control inp plan s)"

subsection \<open>Verification\<close>

record provider_reply =
  rp_status :: string
  rp_amount :: rat
  rp_currency :: string
  rp_reference :: "string option"
  rp_gateway :: string

definition gw_verify ::
  "fee_flags \<Rightarrow> int \<Rightarrow> string \<Rightarrow> string \<Rightarrow> string \<Rightarrow> provider_reply routing \<Rightarrow> unit result \<Rightarrow> string \<Rightarrow>
   gw_state \<Rightarrow> gw_response result \<times> gw_state" where
  "gw_verify fl now fresh fresh2 receipt reply control reference s =
     (let session = tfind cs_reference reference (fin_sessions (gw_db s));
          saas = (case session of Some x \<Rightarrow> cs_kind x = saas_kind | None \<Rightarrow> False)
      in if \<not> saas \<and> \<not> fl_gateway fl then (Inl (Forbidden ''Feature disabled: fees.gateway''), s)
         else case routed reply of
           Inl e \<Rightarrow> (Inl e, s)
         | Inr v \<Rightarrow>
             let providerRef = or_else (rp_reference v) reference;
                 provider = (case reply of Remote _ \<Rightarrow> rp_gateway v | LocalGateway p _ \<Rightarrow> p)
             in if rp_status v \<noteq> ''success'' then (Inr (GwStatus (rp_status v) None), s)
                else
                  let (r, s') = (if saas
                      then (case invoice_number (cs_invoice (the session)) of
                          None \<Rightarrow> (Inl (BadRequest ''SaaS invoice reference is invalid''), s)
                        | Some n \<Rightarrow> settle_saas control n (round (rp_amount v)) providerRef (the session) s)
                      else settleSuccess now fresh fresh2 receipt control
                        \<lparr>st_reference = reference, st_amount = rp_amount v, st_currency = rp_currency v,
                         st_provider = (if provider \<noteq> [] then provider else case session of Some x \<Rightarrow> cs_provider x | None \<Rightarrow> []),
                         st_providerRef = providerRef\<rparr> s)
                  in (map_sum id (\<lambda>k. GwStatus ''success'' (Some k)) r, s'))"

subsection \<open>Webhooks\<close>

text \<open>The fields of a parsed body that are read; amounts as the number the body carries.\<close>

record webhook_body =
  wb_raw :: string
  wb_parses :: bool
  wb_tenantId :: "string option"      \<comment> \<open>\<open>data.metadata.tenantId\<close>\<close>
  wb_tenant_id :: "string option"
  wb_kind :: "string option"
  wb_event :: "string option"
  wb_reference :: "string option"     \<comment> \<open>\<open>data.reference\<close>\<close>
  wb_txRef :: "string option"         \<comment> \<open>\<open>data.tx_ref || data.txRef\<close>\<close>
  wb_status :: "string option"
  wb_amount :: "rat option"
  wb_currency :: "string option"
  wt_externalId :: "string option"    \<comment> \<open>outside \<open>data\<close>\<close>
  wt_reference :: "string option"
  wt_status :: "string option"
  wt_amount :: "rat option"
  wt_currency :: "string option"

record vaults =
  tenant_vault :: "string \<Rightarrow> string option"
  platform_vault :: "string \<Rightarrow> string option"
  env_webhook_secret :: "string option"     \<comment> \<open>\<open>FLUTTERWAVE_WEBHOOK_SECRET\<close>\<close>
  env_secret_key :: "string option"         \<comment> \<open>\<open>FLUTTERWAVE_SECRET_KEY\<close>\<close>

definition first_set :: "string option list \<Rightarrow> string" where
  "first_set xs = (case filter truthy xs of [] \<Rightarrow> [] | x # _ \<Rightarrow> the x)"

definition scope_vault :: "vaults \<Rightarrow> webhook_body \<Rightarrow> string \<Rightarrow> string option" where
  "scope_vault vs w = (if wb_kind w = Some saas_kind then platform_vault vs else tenant_vault vs)"

definition verifySignature :: "(string \<Rightarrow> string \<Rightarrow> string) \<Rightarrow> string \<Rightarrow> string \<Rightarrow> string \<Rightarrow> bool" where
  "verifySignature sha512 body signature secret \<longleftrightarrow> sha512 secret body = signature"

text \<open>What an adapter makes of a body: reference, status, amount in minor units, currency.\<close>

type_synonym webhook_result = "string \<times> string \<times> rat option \<times> string option"

definition paystack_webhook :: "webhook_body \<Rightarrow> webhook_result" where
  "paystack_webhook w =
     (let amount = (case wb_amount w of Some a \<Rightarrow> a | None \<Rightarrow> 0); currency = toUpperCase (or_else (wb_currency w) ''NGN'') in
      case or_null (wb_reference w) of
        None \<Rightarrow> ([], ''ignored'', None, None)
      | Some reference \<Rightarrow>
          if wb_event w = Some ''charge.success'' \<or> wb_status w = Some ''success''
            then (reference, ''success'', Some amount, Some currency)
          else if wb_status w = Some ''failed'' then (reference, ''failed'', Some amount, Some currency)
          else (reference, ''ignored'', None, None))"

definition flutterwave_webhook :: "(string \<Rightarrow> string \<Rightarrow> string) \<Rightarrow> vaults \<Rightarrow> string \<Rightarrow> webhook_body \<Rightarrow> webhook_result" where
  "flutterwave_webhook sha256 vs signature w =
     (let secret = first_set [env_webhook_secret vs, env_secret_key vs] in
      if secret = [] \<or> signature = [] then ([], ''ignored'', None, None)
      else if signature \<noteq> secret \<and> sha256 secret (wb_raw w) \<noteq> signature then ([], ''ignored'', None, None)
      else (or_else (wb_txRef w) [],
            if toLowerCase (or_else (wb_status w) []) = ''successful'' then ''success'' else ''failed'',
            Some (of_int (round (100 * (case wb_amount w of Some a \<Rightarrow> a | None \<Rightarrow> 0)))),
            Some (or_else (wb_currency w) ''NGN'')))"

definition momo_webhook :: "webhook_body \<Rightarrow> webhook_result" where
  "momo_webhook w =
     (first_set [wt_externalId w, wt_reference w],
      if wt_status w = Some ''SUCCESSFUL'' then ''success'' else ''ignored'',
      (case wt_amount w of Some a \<Rightarrow> if a = 0 then None else Some (of_int (round (100 * a))) | None \<Rightarrow> None),
      Some (or_else (wt_currency w) ''NGN''))"

text \<open>The registered adapters; OPay and PalmPay ignore every call.\<close>

definition handleWebhook :: "(string \<Rightarrow> string \<Rightarrow> string) \<Rightarrow> vaults \<Rightarrow> string \<Rightarrow> string \<Rightarrow> webhook_body \<Rightarrow> webhook_result" where
  "handleWebhook sha256 vs provider signature w =
     (if provider = ''paystack'' then paystack_webhook w
      else if provider = ''flutterwave'' then flutterwave_webhook sha256 vs signature w
      else if provider = ''momo'' then momo_webhook w
      else ([], ''ignored'', None, None))"

text \<open>The signature checks of \<open>settleFromWebhook\<close>; \<open>signature\<close> is the provider's own header.\<close>

definition signature_check ::
  "(string \<Rightarrow> string \<Rightarrow> string) \<Rightarrow> vaults \<Rightarrow> string \<Rightarrow> string \<Rightarrow> webhook_body \<Rightarrow> unit result" where
  "signature_check sha512 vs provider signature w =
     (let vault = scope_vault vs w in
      if provider = ''paystack'' then
        (let secret = first_set [vault ''secret_key'', vault ''secretKey'', vault ''SECRET_KEY''] in
         if secret = [] \<or> \<not> verifySignature sha512 (wb_raw w) signature secret
         then Inl (Forbidden ''Invalid Paystack signature'') else Inr ())
      else if provider = ''flutterwave'' then
        (let secret = first_set [vault ''secret_hash'', vault ''secretHash'', vault ''webhook_secret'', vault ''secret_key'',
             env_webhook_secret vs] in
         if secret = [] then Inl (Forbidden ''Flutterwave webhook secret is not configured in the control vault'')
         else if signature = [] \<or> signature \<noteq> secret then Inl (Forbidden ''Invalid Flutterwave signature'')
         else Inr ())
      else Inr ())"

record webhook_call =
  wc_provider :: string           \<comment> \<open>of the path\<close>
  wc_gateway :: string            \<comment> \<open>id of the adapter the tenant resolves to\<close>
  wc_signature :: string
  wc_body :: webhook_body
  wc_vaults :: vaults
  wc_tenantFound :: bool

definition settleFromWebhook ::
  "(string \<Rightarrow> string \<Rightarrow> string) \<Rightarrow> (string \<Rightarrow> string \<Rightarrow> string) \<Rightarrow> int \<Rightarrow> string \<Rightarrow> string \<Rightarrow> string \<Rightarrow> unit result \<Rightarrow>
   webhook_call \<Rightarrow> gw_state \<Rightarrow> gw_response result \<times> gw_state" where
  "settleFromWebhook sha512 sha256 now fresh fresh2 receipt control c s =
     (let w = wc_body c in
      if \<not> wb_parses w then (Inl (BadRequest ''Invalid webhook body''), s)
      else if first_set [wb_tenantId w, wb_tenant_id w] = [] then (Inr (GwStatus ''ignored'' None), s)
      else case signature_check sha512 (wc_vaults c) (wc_provider c) (wc_signature c) w of
        Inl e \<Rightarrow> (Inl e, s)
      | Inr _ \<Rightarrow>
          if wc_gateway c \<noteq> wc_provider c then (Inr (GwStatus ''ignored'' None), s)
          else (case handleWebhook sha256 (wc_vaults c) (wc_provider c) (wc_signature c) w of
            (reference, status, amount, currency) \<Rightarrow>
              if status \<noteq> ''success'' \<or> reference = [] then (Inr (GwStatus status None), s)
              else if \<not> wc_tenantFound c then (Inl (NotFound ''Tenant not found''), s)
              else (case settleSuccess now fresh fresh2 receipt control
                  \<lparr>st_reference = reference, st_amount = (case amount of Some a \<Rightarrow> a | None \<Rightarrow> 0),
                   st_currency = or_else currency ''NGN'', st_provider = wc_provider c, st_providerRef = reference\<rparr> s of
                  (r, s') \<Rightarrow> (map_sum id (\<lambda>_. GwStatus ''success'' None) r, s'))))"

subsection \<open>Installment plans and reminders\<close>

record plan_body =
  bl_student :: string
  bl_invoice :: "string option"
  bl_title :: string
  bl_total :: int
  bl_surcharge :: int
  bl_rows :: "(string \<times> int \<times> string option) list"   \<comment> \<open>new id, amount, due date\<close>

definition plan_check :: "plan_body \<Rightarrow> fin_db \<Rightarrow> string result" where
  "plan_check b db = (case or_null (bl_invoice b) of
      None \<Rightarrow> Inl (BadRequest ''Invoice id is required for an installment plan'')
    | Some v \<Rightarrow>
        (case tfind iv_id v (fin_invoices db) of
           None \<Rightarrow> Inl (NotFound ''Invoice not found for student'')
         | Some iv \<Rightarrow>
             let expected = bl_total b * (100 + bl_surcharge b); total = sum_list (map (fst \<circ> snd) (bl_rows b)) in
             if iv_student iv \<noteq> bl_student b then Inl (NotFound ''Invoice not found for student'')
             else if toLowerCase (iv_status iv) = ''paid'' \<or> toLowerCase (iv_status iv) = ''cancelled''
               then Inl (BadRequest ''An installment plan cannot be created for this invoice'')
             else if \<bar>100 * total - expected\<bar> > 500
               then Inl (BadRequest ''Installment amounts must equal the total including surcharge'')
             else Inr v))"

text \<open>The rows are inserted one by one; there is no transaction.\<close>

fun insert_installments :: "string \<Rightarrow> int \<Rightarrow> (string \<times> int \<times> string option) list \<Rightarrow> installment list \<Rightarrow> bool \<times> installment list" where
  "insert_installments planId sq [] t = (True, t)"
| "insert_installments planId sq ((k, amount, due) # rows) t =
     (case tinsert is_id \<lparr>is_id = k, is_plan = planId, is_sequence = sq, is_amount = amount, is_dueDate = or_null due,
             is_status = ''pending'', is_paidAt = None\<rparr> t of
        None \<Rightarrow> (False, t)
      | Some t' \<Rightarrow> insert_installments planId (sq + 1) rows t')"

definition createInstallmentPlan ::
  "int \<Rightarrow> string \<Rightarrow> string option \<Rightarrow> plan_body \<Rightarrow> gw_state \<Rightarrow> gw_response result \<times> gw_state" where
  "createInstallmentPlan now fresh createdBy b s = (case plan_check b (gw_db s) of
      Inl e \<Rightarrow> (Inl e, s)
    | Inr v \<Rightarrow>
        let db = gw_db s in
        (case tinsert pl_id \<lparr>pl_id = fresh, pl_student = bl_student b, pl_invoice = Some v, pl_title = bl_title b,
                pl_total = bl_total b, pl_surcharge = bl_surcharge b, pl_createdBy = or_null createdBy, pl_createdAt = now\<rparr>
              (fin_plans db) of
           None \<Rightarrow> (Inl DbError, s)
         | Some t \<Rightarrow>
             let (ok, rows) = insert_installments fresh 1 (bl_rows b) (fin_installments db);
                 db1 = db\<lparr>fin_plans := t, fin_installments := rows,
                   fin_invoices := tmodify iv_id v (\<lambda>i. i\<lparr>iv_plan := ''installment''\<rparr>) (fin_invoices db)\<rparr>
             in (if ok then Inr (GwPlanId fresh) else Inl DbError, s\<lparr>gw_db := db1\<rparr>)))"

definition listInstallmentPlans :: "string option \<Rightarrow> fin_db \<Rightarrow> (installment_plan \<times> installment list) list" where
  "listInstallmentPlans studentId db =
     map (\<lambda>p. (p, sort_key is_sequence (filter (\<lambda>i. is_plan i = pl_id p) (fin_installments db))))
       (newest pl_createdAt 200 (filter (\<lambda>p. case or_null studentId of None \<Rightarrow> True | Some st \<Rightarrow> pl_student p = st) (fin_plans db)))"

definition listAdvanceCredits :: "string option \<Rightarrow> fin_db \<Rightarrow> advance_credit list" where
  "listAdvanceCredits studentId db =
     newest ac_createdAt 200 (filter (\<lambda>c. case or_null studentId of None \<Rightarrow> True | Some st \<Rightarrow> ac_student c = st) (fin_credits db))"

definition three_days :: int where "three_days = 3 * 24 * 60 * 60 * 1000"

definition reminder_due :: "int \<Rightarrow> fin_db \<Rightarrow> fee_reminder \<Rightarrow> bool" where
  "reminder_due now db r \<longleftrightarrow> fr_status r = ''pending'' \<and>
     (case tfind iv_id (fr_invoice r) (fin_invoices db) of
        Some i \<Rightarrow> iv_status i = ''unpaid'' \<or> iv_status i = ''partial'' | None \<Rightarrow> False) \<and>
     (case fr_nextSend r of None \<Rightarrow> True | Some t \<Rightarrow> t \<le> now)"

text \<open>The notifications are assumed to be stored.\<close>

definition remind :: "int \<Rightarrow> fee_reminder \<Rightarrow> fin_db \<Rightarrow> fin_db" where
  "remind now r db =
     (let db1 = notify_parents (fr_student r) ''Fee reminder'' db
      in db1\<lparr>fin_reminders := tmodify fr_id (fr_id r)
           (\<lambda>x. x\<lparr>fr_lastSent := Some now, fr_nextSend := Some (now + three_days)\<rparr>) (fin_reminders db1)\<rparr>)"

definition runFeeReminders :: "int \<Rightarrow> gw_state \<Rightarrow> gw_response result \<times> gw_state" where
  "runFeeReminders now s =
     (let due = take 100 (filter (reminder_due now (gw_db s)) (fin_reminders (gw_db s)))
      in (Inr (GwSent (length due)), s\<lparr>gw_db := fold (remind now) due (gw_db s)\<rparr>))"

subsection \<open>The payment machine\<close>

text \<open>The requests that reach the payment tables, with the staff payments of \<open>Finance\<close> among them.\<close>

datatype gw_request =
    GwOpen fee_flags bool string string "string routing" "string option" checkout_body
  | GwVerify call fee_flags int string string string "provider_reply routing" "unit result" string
  | GwHook int string string string "unit result" webhook_call
  | GwPlan call int string "string option" plan_body
  | GwListPlans call "string option"
  | GwListCredits call "string option"
  | GwRemind call int
  | GwCash call int string string "string option" payment_body
  | GwArchive call string

definition staff :: "(fin_db \<Rightarrow> fin_response result \<times> fin_db) \<Rightarrow> gw_state \<Rightarrow> gw_response result \<times> gw_state" where
  "staff f s = (case f (gw_db s) of (r, db) \<Rightarrow> (map_sum id GwStaff r, s\<lparr>gw_db := db\<rparr>))"

fun gw_step ::
  "(string \<Rightarrow> string \<Rightarrow> string) \<Rightarrow> (string \<Rightarrow> string \<Rightarrow> string) \<Rightarrow> gw_request \<Rightarrow> gw_state \<Rightarrow> gw_response result \<times> gw_state" where
  "gw_step h5 h2 (GwOpen fl found fresh reference reply who b) s = createCheckout fl found fresh reference reply who b s"
| "gw_step h5 h2 (GwVerify c fl now fresh fresh2 receipt reply control reference) s =
     with_tenant c s (gw_verify fl now fresh fresh2 receipt reply control reference)"
| "gw_step h5 h2 (GwHook now fresh fresh2 receipt control w) s = settleFromWebhook h5 h2 now fresh fresh2 receipt control w s"
| "gw_step h5 h2 (GwPlan c now fresh by b) s = with_tenant c s (createInstallmentPlan now fresh by b)"
| "gw_step h5 h2 (GwListPlans c st) s = with_tenant c s (\<lambda>s. (Inr (GwPlans (listInstallmentPlans st (gw_db s))), s))"
| "gw_step h5 h2 (GwListCredits c st) s =
     with_service ''fees.advance_payment'' c s (\<lambda>s. (Inr (GwCredits (listAdvanceCredits st (gw_db s))), s))"
| "gw_step h5 h2 (GwRemind c now) s = with_tenant c s (runFeeReminders now)"
| "gw_step h5 h2 (GwCash c now fresh receipt by b) s = with_tenant c s (staff (createPayment now fresh receipt by b))"
| "gw_step h5 h2 (GwArchive c k) s = with_tenant c s (staff (deletePayment k))"

subsection \<open>Online money\<close>

definition session_money :: "checkout_session \<Rightarrow> int" where
  "session_money x = (if settled x \<and> cs_kind x \<noteq> saas_kind then cs_amount x else 0)"

definition settled_money :: "fin_db \<Rightarrow> int" where
  "settled_money db = sum_list (map session_money (fin_sessions db))"

definition payment_money :: "payment \<Rightarrow> int" where
  "payment_money p = (if py_providerRef p = None then 0 else py_amount p)"

definition credited_money :: "fin_db \<Rightarrow> int" where
  "credited_money db = sum_list (map payment_money (fin_payments db))"

definition provider_refs :: "fin_db \<Rightarrow> string list" where
  "provider_refs db = map the (filter (\<lambda>r. r \<noteq> None) (map py_providerRef (fin_payments db)))"

definition gw_ok :: "fin_db \<Rightarrow> bool" where
  "gw_ok db \<longleftrightarrow> pk cs_id (fin_sessions db) \<and> pk cs_reference (fin_sessions db) \<and>
     (\<forall>x\<in>set (fin_sessions db). 0 < cs_amount x) \<and> distinct (provider_refs db) \<and> credited_money db \<le> settled_money db"

lemma gw_ok_cong:
  "fin_sessions db' = fin_sessions db \<Longrightarrow> fin_payments db' = fin_payments db \<Longrightarrow> gw_ok db' = gw_ok db"
  by (simp add: gw_ok_def settled_money_def credited_money_def provider_refs_def)

named_theorems gw_frame

lemma finance_frame [gw_frame]:
  "fin_sessions (stop_reminders v db) = fin_sessions db" "fin_payments (stop_reminders v db) = fin_payments db"
  "fin_sessions (set_invoice_status v st db) = fin_sessions db" "fin_payments (set_invoice_status v st db) = fin_payments db"
  "fin_sessions (settle_invoice v db) = fin_sessions db"
  "fin_sessions (pay_installment now k db) = fin_sessions db"
  "fin_sessions (notify_parents st t db) = fin_sessions db"
  by (simp_all add: stop_reminders_def set_invoice_status_def settle_invoice_def pay_installment_def notify_parents_def Let_def)

lemma credit_invoice_frame [gw_frame]:
  "fin_sessions (credit_invoice v db) = fin_sessions db" "fin_payments (credit_invoice v db) = fin_payments db"
  by (simp_all add: credit_invoice_def Let_def gw_frame split: option.splits)

lemma mark_settled_frame [gw_frame]: "fin_payments (mark_settled r k db) = fin_payments db"
  by (simp add: mark_settled_def)

lemma credited_frame [gw_frame]:
  "fin_sessions (credited now r x db) = fin_sessions (mark_settled r (cs_id x) db)"
  "fin_payments (credited now r x db) = fin_payments db"
  by (simp_all add: credited_def Let_def gw_frame split: option.splits)

lemma remind_frame [gw_frame]: "fin_sessions (remind now r db) = fin_sessions db" "fin_payments (remind now r db) = fin_payments db"
  by (simp_all add: remind_def Let_def gw_frame)

lemma reminders_frame [gw_frame]:
  "fin_sessions (fold (remind now) rs db) = fin_sessions db" "fin_payments (fold (remind now) rs db) = fin_payments db"
  by (induction rs arbitrary: db) (simp_all add: gw_frame)

lemma set_mark_settled:
  "set (fin_sessions (mark_settled r k db)) \<subseteq> set (fin_sessions db) \<union>
     (\<lambda>x. x\<lparr>cs_status := ''settled'', cs_providerRef := Some r\<rparr>) ` set (fin_sessions db)"
  by (auto simp: mark_settled_def elim: set_tmodifyE split: if_splits)

lemma settled_money_mark:
  assumes "gw_ok db" and "x \<in> set (fin_sessions db)"
  shows "settled_money (mark_settled r (cs_id x) db) =
    settled_money db - session_money x + (if cs_kind x \<noteq> saas_kind then cs_amount x else 0)"
proof -
  have "pk cs_id (fin_sessions db)" using assms(1) by (simp add: gw_ok_def)
  moreover from this have "tfind cs_id (cs_id x) (fin_sessions db) = Some x" by (rule tfind_eqI) (rule assms(2))
  ultimately show ?thesis
    by (simp add: settled_money_def mark_settled_def sum_tmodify [of cs_id _ _ x]) (simp add: session_money_def settled_def)
qed

lemma pk_tmodify_other: "(\<And>r. key' (f r) = key' r) \<Longrightarrow> pk key' (tmodify key k f t) = pk key' t"
  by (simp add: tmodify_def pk_tupdate)

lemma gw_ok_mark:
  assumes "gw_ok db" and "x \<in> set (fin_sessions db)"
  shows "gw_ok (mark_settled r (cs_id x) db)"
proof -
  have "0 < cs_amount y" if "y \<in> set (fin_sessions (mark_settled r (cs_id x) db))" for y
    using set_mark_settled [of r "cs_id x" db] that assms(1) by (auto simp: gw_ok_def)
  moreover have "settled_money db \<le> settled_money (mark_settled r (cs_id x) db)"
    using assms by (auto simp: settled_money_mark session_money_def gw_ok_def less_imp_le)
  ultimately show ?thesis
    using assms(1) by (auto simp: gw_ok_def mark_settled_def pk_tmodify_other provider_refs_def credited_money_def)
qed

lemma gw_ok_credit:
  assumes "gw_ok db" and "x \<in> set (fin_sessions db)" and "\<not> settled x" and "cs_kind x \<noteq> saas_kind"
    and "Some ref \<notin> py_providerRef ` set (fin_payments db)"
    and "py_providerRef p = Some ref" and "py_amount p = cs_amount x"
  shows "gw_ok (mark_settled r (cs_id x) (db\<lparr>fin_payments := fin_payments db @ [p]\<rparr>))"
proof -
  let ?m = "mark_settled r (cs_id x) (db\<lparr>fin_payments := fin_payments db @ [p]\<rparr>)"
  have same: "fin_sessions ?m = fin_sessions (mark_settled r (cs_id x) db)" "fin_payments ?m = fin_payments db @ [p]"
    by (simp_all add: mark_settled_def)
  have "ref \<notin> set (provider_refs db)" using assms(5) by (force simp: provider_refs_def)
  then have "distinct (provider_refs ?m)"
    using assms(1,6) by (simp add: provider_refs_def same gw_ok_def)
  moreover have "credited_money ?m = credited_money db + cs_amount x"
    using assms(6,7) by (simp add: credited_money_def same payment_money_def)
  moreover have "settled_money ?m = settled_money db + cs_amount x"
    using settled_money_mark [OF assms(1,2), of r] assms(3,4) by (simp add: settled_money_def same session_money_def)
  ultimately show ?thesis
    using gw_ok_mark [OF assms(1,2), of r] assms(1) by (simp add: gw_ok_def same)
qed

text \<open>What an accepted check says about the session, by the kind of write that follows.\<close>

definition session_matches :: "settle_input \<Rightarrow> checkout_session \<Rightarrow> bool" where
  "session_matches inp x \<longleftrightarrow> \<not> settled x \<and> 0 < cs_amount x \<and> round (st_amount inp) = cs_amount x \<and>
     toUpperCase (st_currency inp) = toUpperCase (or_else (Some (cs_currency x)) ''NGN'')"

lemma settle_check_cases [consumes 1, case_names settled saas matched credit]:
  assumes "settle_check inp db = Inr plan"
  obtains x where "x \<in> set (fin_sessions db)" "cs_reference x = st_reference inp" "settled x" "plan = Done (cs_id x)"
  | x n where "x \<in> set (fin_sessions db)" "cs_reference x = st_reference inp" "session_matches inp x"
      "cs_kind x = saas_kind" "plan = SaasSettle x n"
  | x k where "x \<in> set (fin_sessions db)" "cs_reference x = st_reference inp" "session_matches inp x"
      "cs_kind x \<noteq> saas_kind" "plan = Matched x k"
  | x where "x \<in> set (fin_sessions db)" "cs_reference x = st_reference inp" "session_matches inp x"
      "cs_kind x \<noteq> saas_kind" "plan = Credit x" "Some (st_providerRef inp) \<notin> py_providerRef ` set (fin_payments db)"
proof -
  obtain x where x: "tfind cs_reference (st_reference inp) (fin_sessions db) = Some x"
    using assms by (auto simp: settle_check_def split: option.splits)
  show ?thesis
  proof (cases "settled x")
    case True
    with assms have "plan = Done (cs_id x)" by (simp add: settle_check_def x)
    with True tfind_SomeD [OF x] show ?thesis by (intro that(1) [of x]) simp_all
  next
    case False
    with assms have m: "0 < cs_amount x" "round (st_amount inp) = cs_amount x"
      "toUpperCase (st_currency inp) = toUpperCase (or_else (Some (cs_currency x)) ''NGN'')"
      by (auto simp: settle_check_def x Let_def split: if_splits)
    with False have ok: "session_matches inp x" by (simp add: session_matches_def)
    show ?thesis
      using assms False m tfind_SomeD [OF x] ok that(2-4)
      by (auto simp: settle_check_def x Let_def tfind_None_iff split: option.splits if_splits)
  qed
qed

lemma credit_session_ok:
  assumes "gw_ok (gw_db s)" and "x \<in> set (fin_sessions (gw_db s))" and "\<not> settled x" and "cs_kind x \<noteq> saas_kind"
    and "Some (st_providerRef inp) \<notin> py_providerRef ` set (fin_payments (gw_db s))"
  shows "gw_ok (gw_db (snd (credit_session now fresh fresh2 receipt inp x s)))"
proof (cases "tinsert py_id (gateway_payment now fresh receipt inp x) (fin_payments (gw_db s))")
  case None
  then show ?thesis using assms(1) by (simp add: credit_session_def)
next
  case (Some t)
  let ?p = "gateway_payment now fresh receipt inp x"
  have t: "t = fin_payments (gw_db s) @ [?p]" using tinsert_SomeD [OF Some] by simp
  have ok: "gw_ok (mark_settled r (cs_id x) ((gw_db s)\<lparr>fin_payments := t\<rparr>))" for r
    unfolding t by (rule gw_ok_credit [OF assms]) (simp_all add: gateway_payment_def)
  have "fin_sessions (gw_db (snd (credit_session now fresh fresh2 receipt inp x s))) =
      fin_sessions (mark_settled (st_providerRef inp) (cs_id x) ((gw_db s)\<lparr>fin_payments := t\<rparr>))"
    "fin_payments (gw_db (snd (credit_session now fresh fresh2 receipt inp x s))) = t"
    by (simp_all add: credit_session_def Some Let_def gw_frame split: option.splits)
  then show ?thesis
    by (intro gw_ok_cong [THEN iffD2, OF _ _ ok [of "st_providerRef inp"]]) (simp_all add: gw_frame)
qed

lemma settle_saas_ok:
  "gw_ok (gw_db s) \<Longrightarrow> x \<in> set (fin_sessions (gw_db s)) \<Longrightarrow> gw_ok (gw_db (snd (settle_saas control n amount r x s)))"
  by (simp add: settle_saas_def gw_ok_mark split: sum.splits)

lemma settleSuccess_ok:
  assumes "gw_ok (gw_db s)"
  shows "gw_ok (gw_db (snd (settleSuccess now fresh fresh2 receipt control inp s)))"
proof (cases "settle_check inp (gw_db s)")
  case (Inr plan)
  then show ?thesis
    by (cases rule: settle_check_cases) (simp_all add: Inr settleSuccess_def settle_write_def assms settle_saas_ok gw_ok_mark
        credit_session_ok session_matches_def)
qed (simp add: settleSuccess_def assms)

lemma createCheckout_row:
  "snd (createCheckout fl found fresh reference reply who b s) = s \<or>
   (\<exists>provider. gw_db (snd (createCheckout fl found fresh reference reply who b s)) =
        (gw_db s)\<lparr>fin_sessions := fin_sessions (gw_db s) @ [checkout_row fresh reference provider who b]\<rparr>) \<and>
   fresh \<notin> cs_id ` set (fin_sessions (gw_db s)) \<and> reference \<notin> cs_reference ` set (fin_sessions (gw_db s)) \<and>
   checkout_check fl found b (gw_db s) = Inr ()"
  by (auto simp: createCheckout_def Let_def tinsert_def checkout_row_def split: sum.split)

lemma checkout_check_amount: "checkout_check fl found b db = Inr () \<Longrightarrow> 0 < ck_amount b"
  by (simp add: checkout_check_def split: sum.splits if_splits)

lemma createCheckout_ok:
  assumes "gw_ok (gw_db s)"
  shows "gw_ok (gw_db (snd (createCheckout fl found fresh reference reply who b s)))"
  using createCheckout_row [of fl found fresh reference reply who b s]
proof
  assume "(\<exists>provider. gw_db (snd (createCheckout fl found fresh reference reply who b s)) =
        (gw_db s)\<lparr>fin_sessions := fin_sessions (gw_db s) @ [checkout_row fresh reference provider who b]\<rparr>) \<and>
   fresh \<notin> cs_id ` set (fin_sessions (gw_db s)) \<and> reference \<notin> cs_reference ` set (fin_sessions (gw_db s)) \<and>
   checkout_check fl found b (gw_db s) = Inr ()"
  then obtain provider where
    new: "gw_db (snd (createCheckout fl found fresh reference reply who b s)) =
        (gw_db s)\<lparr>fin_sessions := fin_sessions (gw_db s) @ [checkout_row fresh reference provider who b]\<rparr>"
    and fresh: "fresh \<notin> cs_id ` set (fin_sessions (gw_db s))" "reference \<notin> cs_reference ` set (fin_sessions (gw_db s))"
    and pos: "0 < ck_amount b" using checkout_check_amount by blast
  have "session_money (checkout_row fresh reference provider who b) = 0"
    by (simp add: session_money_def settled_def checkout_row_def)
  with assms fresh pos show ?thesis
    by (auto simp: new gw_ok_def pk_append settled_money_def credited_money_def provider_refs_def checkout_row_def)
qed (simp add: assms)

lemma gw_verify_ok:
  assumes "gw_ok (gw_db s)"
  shows "gw_ok (gw_db (snd (gw_verify fl now fresh fresh2 receipt reply control reference s)))"
proof -
  have "gw_ok (gw_db (snd (settle_saas control n amount r x s)))"
    if "tfind cs_reference reference (fin_sessions (gw_db s)) = Some x" for n amount r x
    using settle_saas_ok [OF assms] tfind_SomeD [OF that] by blast
  then show ?thesis
    using assms settleSuccess_ok [OF assms]
    by (simp add: gw_verify_def Let_def case_prod_beta split: sum.split option.split)
qed

lemma settleFromWebhook_ok:
  "gw_ok (gw_db s) \<Longrightarrow> gw_ok (gw_db (snd (settleFromWebhook h5 h2 now fresh fresh2 receipt control c s)))"
  using settleSuccess_ok
  by (simp add: settleFromWebhook_def Let_def case_prod_beta split: sum.split)

lemma createInstallmentPlan_ok:
  "gw_ok (gw_db s) \<Longrightarrow> gw_ok (gw_db (snd (createInstallmentPlan now fresh who b s)))"
  by (erule gw_ok_cong [THEN iffD2, rotated 2])
    (simp_all add: createInstallmentPlan_def Let_def case_prod_beta split: sum.split option.split)

lemma runFeeReminders_ok: "gw_ok (gw_db s) \<Longrightarrow> gw_ok (gw_db (snd (runFeeReminders now s)))"
  by (erule gw_ok_cong [THEN iffD2, rotated 2]) (simp_all add: runFeeReminders_def Let_def gw_frame)

lemma createPayment_rows:
  "fst (createPayment now fresh receipt who b db) = Inr x \<Longrightarrow>
    fin_sessions (snd (createPayment now fresh receipt who b db)) = fin_sessions db \<and>
    (\<exists>p. py_providerRef p = None \<and> fin_payments (snd (createPayment now fresh receipt who b db)) = fin_payments db @ [p])"
  by (simp add: createPayment_def Let_def tinsert_def gw_frame split: sum.splits option.split if_splits)

lemma staff_payment_ok:
  assumes "gw_ok db"
  shows "gw_ok (snd (createPayment now fresh receipt who b db))"
proof (cases "fst (createPayment now fresh receipt who b db)")
  case (Inl e)
  then have "snd (createPayment now fresh receipt who b db) = db"
    by (simp add: createPayment_def Let_def tinsert_def split: sum.splits if_splits)
  then show ?thesis using assms by simp
next
  case (Inr x)
  from createPayment_rows [OF this] obtain p where p: "py_providerRef p = None"
    and new: "fin_sessions (snd (createPayment now fresh receipt who b db)) = fin_sessions db"
      "fin_payments (snd (createPayment now fresh receipt who b db)) = fin_payments db @ [p]" by blast
  with assms show ?thesis
    by (simp add: gw_ok_def new settled_money_def credited_money_def provider_refs_def payment_money_def)
qed

lemma archive_ok: "gw_ok db \<Longrightarrow> gw_ok (snd (deletePayment k db))"
proof -
  have "map py_providerRef (tmodify py_id k (\<lambda>p. p\<lparr>py_status := ''archived''\<rparr>) t) = map py_providerRef t"
    "map payment_money (tmodify py_id k (\<lambda>p. p\<lparr>py_status := ''archived''\<rparr>) t) = map payment_money t" for t
    by (simp_all add: tmodify_def map_key_tupdate payment_money_def)
  then show "gw_ok db \<Longrightarrow> ?thesis"
    by (simp add: gw_ok_def deletePayment_def settled_money_def credited_money_def provider_refs_def)
qed

lemma gw_step_ok: "gw_ok (gw_db s) \<Longrightarrow> gw_ok (gw_db (snd (gw_step h5 h2 q s)))"
  by (cases q) (simp_all add: with_tenant_def with_service_def createCheckout_ok gw_verify_ok settleFromWebhook_ok
      createInstallmentPlan_ok runFeeReminders_ok staff_def staff_payment_ok archive_ok case_prod_beta)

interpretation gateway: invariant_machine "gw_step h5 h2" "\<lambda>s. gw_ok (gw_db s)"
  by unfold_locales (rule gw_step_ok)

lemma settled_mark:
  assumes "pk cs_id (fin_sessions db)" and "x \<in> set (fin_sessions db)"
  shows "\<exists>y. tfind cs_id (cs_id x) (fin_sessions (mark_settled r (cs_id x) db)) = Some y \<and> settled y \<and>
    cs_reference y = cs_reference x \<and> cs_amount y = cs_amount x"
  using tfind_eqI [OF assms] by (simp add: mark_settled_def tfind_tmodify settled_def)

lemma credit_session_done:
  assumes "credit_session now fresh fresh2 receipt inp x s = (Inr w, s')"
  shows "fin_payments (gw_db s') = fin_payments (gw_db s) @ [gateway_payment now fresh receipt inp x] \<and>
    fin_sessions (gw_db s') = fin_sessions (mark_settled (st_providerRef inp) (cs_id x) (gw_db s)) \<and>
    gw_splits s' = gw_splits s @ [split_call inp x] \<and> w = PayRef fresh"
  using assms
  by (auto simp: credit_session_def Let_def tinsert_def gw_frame mark_settled_def split: option.splits if_splits)

subsection \<open>Properties\<close>


definition demo_session :: checkout_session where
  "demo_session = \<lparr>cs_id = ''chk'', cs_student = ''ada'', cs_invoice = Some ''v1'', cs_installment = None, cs_amount = 5000,
     cs_currency = ''NGN'', cs_reference = ''ref1'', cs_provider = ''paystack'', cs_providerRef = None, cs_status = ''pending'',
     cs_kind = ''invoice'', cs_term = None, cs_label = None, cs_createdBy = None\<rparr>"

definition demo_state :: gw_state where
  "demo_state = \<lparr>gw_db = one_invoice\<lparr>fin_sessions := [demo_session]\<rparr>, gw_saas = [], gw_splits = []\<rparr>"

definition demo_body :: webhook_body where
  "demo_body = \<lparr>wb_raw = ''{}'', wb_parses = True, wb_tenantId = Some ''t1'', wb_tenant_id = None, wb_kind = None,
     wb_event = Some ''charge.success'', wb_reference = Some ''ref1'', wb_txRef = None, wb_status = Some ''success'',
     wb_amount = Some 5000, wb_currency = Some ''NGN'', wt_externalId = Some ''ref1'', wt_reference = None,
     wt_status = Some ''SUCCESSFUL'', wt_amount = Some 50, wt_currency = Some ''NGN''\<rparr>"

definition demo_hook :: "string \<Rightarrow> string \<Rightarrow> webhook_call" where
  "demo_hook provider signature = \<lparr>wc_provider = provider, wc_gateway = provider, wc_signature = signature, wc_body = demo_body,
     wc_vaults = \<lparr>tenant_vault = (\<lambda>k. if k = ''secret_key'' then Some ''sk'' else None), platform_vault = (\<lambda>_. None),
       env_webhook_secret = None, env_secret_key = None\<rparr>, wc_tenantFound = True\<rparr>"

definition demo_hash :: "string \<Rightarrow> string \<Rightarrow> string" where
  "demo_hash key text = key @ text"

definition demo_input :: settle_input where
  "demo_input = \<lparr>st_reference = ''ref1'', st_amount = 5000, st_currency = ''NGN'', st_provider = ''paystack'',
     st_providerRef = ''ref1''\<rparr>"

lemma demo_settles:
  "fst (settleSuccess 9 ''p1'' ''a1'' ''R1'' (Inr ()) demo_input demo_state) = Inr (PayRef ''p1'')"
  "fin_payments (gw_db (snd (settleSuccess 9 ''p1'' ''a1'' ''R1'' (Inr ()) demo_input demo_state))) =
    [gateway_payment 9 ''p1'' ''R1'' demo_input demo_session]"
  by code_simp+


text \<open>MTN MoMo callbacks carry no signature at all: anyone can settle a session of a tenant that uses it.\<close>

lemma momo_webhook_unsigned:
  "length (fin_payments (gw_db (snd (settleFromWebhook h5 h2 9 ''p1'' ''a1'' ''R1'' (Inr ()) (demo_hook ''momo'' []) demo_state)))) = 1"
  by code_simp

text \<open>C6: a settlement that is accepted matches its session's amount and currency to the unit, leaves the
  session settled and adds at most one payment: the session's own, completed, for its amount, under a
  provider reference no payment had; a settled session is left alone.\<close>

theorem settlement_exact:
  assumes "settleSuccess now fresh fresh2 receipt control inp s = (Inr w, s')" and "gw_ok (gw_db s)"
  shows "\<exists>x\<in>set (fin_sessions (gw_db s)). cs_reference x = st_reference inp \<and>
    (if settled x then s' = s
     else session_matches inp x \<and>
       (\<exists>y. tfind cs_id (cs_id x) (fin_sessions (gw_db s')) = Some y \<and> settled y \<and> cs_reference y = cs_reference x \<and>
          cs_amount y = cs_amount x) \<and>
       (fin_payments (gw_db s') = fin_payments (gw_db s) \<or>
        fin_payments (gw_db s') = fin_payments (gw_db s) @ [gateway_payment now fresh receipt inp x] \<and>
          Some (st_providerRef inp) \<notin> py_providerRef ` set (fin_payments (gw_db s))))"
proof -
  obtain plan where plan: "settle_check inp (gw_db s) = Inr plan"
    using assms(1) by (auto simp: settleSuccess_def split: sum.splits)
  then have run: "settle_write now fresh fresh2 receipt control inp plan s = (Inr w, s')"
    using assms(1) by (simp add: settleSuccess_def)
  have pk: "pk cs_id (fin_sessions (gw_db s))" using assms(2) by (simp add: gw_ok_def)
  from plan show ?thesis
  proof (cases rule: settle_check_cases)
    case (settled x)
    with run show ?thesis by (intro bexI [of _ x]) (simp_all add: settle_write_def)
  next
    case (saas x n)
    with run settled_mark [OF pk saas(1)] show ?thesis
      by (intro bexI [of _ x]) (auto simp: settle_write_def settle_saas_def gw_frame session_matches_def split: sum.splits)
  next
    case (matched x k)
    with run settled_mark [OF pk matched(1)] show ?thesis
      by (intro bexI [of _ x]) (auto simp: settle_write_def gw_frame session_matches_def)
  next
    case (credit x)
    with run have "credit_session now fresh fresh2 receipt inp x s = (Inr w, s')" by (simp add: settle_write_def)
    from credit_session_done [OF this] credit settled_mark [OF pk credit(1)] show ?thesis
      by (intro bexI [of _ x]) (simp_all add: session_matches_def)
  qed
qed

theorem settlement_exact_witness:
  "\<exists>x\<in>set (fin_sessions (gw_db demo_state)). cs_reference x = ''ref1'' \<and> \<not> settled x \<and> cs_amount x = 5000 \<and>
    fin_payments (gw_db (snd (settleSuccess 9 ''p1'' ''a1'' ''R1'' (Inr ()) demo_input demo_state))) =
      [gateway_payment 9 ''p1'' ''R1'' demo_input x]"
proof -
  have "gw_ok (gw_db demo_state)" by code_simp
  moreover have "settleSuccess 9 ''p1'' ''a1'' ''R1'' (Inr ()) demo_input demo_state =
    (Inr (PayRef ''p1''), snd (settleSuccess 9 ''p1'' ''a1'' ''R1'' (Inr ()) demo_input demo_state))"
    using demo_settles(1) by (metis prod.collapse)
  ultimately obtain x where x: "x \<in> set (fin_sessions (gw_db demo_state))" "cs_reference x = ''ref1''"
    using settlement_exact by (fastforce simp: demo_input_def)
  then show ?thesis
    using demo_settles(2) by (auto simp: demo_state_def demo_session_def settled_def)
qed



text \<open>The check and the writes of a settlement are not one transaction: a webhook and a verification that
  both pass the check before either writes store two payments for one session.\<close>

lemma interleaved_settlement_pays_twice:
  "let plan1 = settle_check demo_input (gw_db demo_state);
       plan2 = settle_check (demo_input\<lparr>st_providerRef := ''4099''\<rparr>) (gw_db demo_state);
       s1 = snd (settle_write 9 ''p1'' ''a1'' ''R1'' (Inr ()) demo_input (Credit demo_session) demo_state);
       s2 = snd (settle_write 9 ''p2'' ''a2'' ''R2'' (Inr ()) (demo_input\<lparr>st_providerRef := ''4099''\<rparr>) (Credit demo_session) s1)
   in plan1 = Inr (Credit demo_session) \<and> plan2 = Inr (Credit demo_session) \<and>
      completed_total (gw_db s2) ''v1'' = 2 * cs_amount demo_session"
  by code_simp

text \<open>The verification of a subscription compares neither amount nor currency, and can be repeated.\<close>

lemma verify_saas_unchecked:
  "let x = demo_session\<lparr>cs_kind := ''saas_subscription'', cs_invoice := Some ''7''\<rparr>;
       s = demo_state\<lparr>gw_db := (gw_db demo_state)\<lparr>fin_sessions := [x]\<rparr>\<rparr>;
       reply = Remote (Inr \<lparr>rp_status = ''success'', rp_amount = 1, rp_currency = ''USD'', rp_reference = None, rp_gateway = ''paystack''\<rparr>);
       fl = \<lparr>fl_gateway = False, fl_advance = False, fl_installments = False\<rparr>;
       s' = snd (gw_verify fl 9 ''p1'' ''a1'' ''R1'' reply (Inr ()) ''ref1'' s)
   in gw_saas s' = [(7, 1)] \<and> gw_saas (snd (gw_verify fl 9 ''p1'' ''a1'' ''R1'' reply (Inr ()) ''ref1'' s')) = [(7, 1), (7, 1)]"
  by code_simp

end
