(* ===== verification/AcademicCalendar.thy ===== *)
theory AcademicCalendar
  imports Services
begin

section \<open>Sessions and terms\<close>

text \<open>
  The calendar part of \<open>academic/academic.service.ts\<close> with the request classes of
  \<open>academic/dto/academic.dto.ts\<close> it is called through.  A response carries the list-cache prefixes the
  handler invalidates (after \<open>tenant:<id>:academic:\<close>); the cache itself is \<open>ListCache\<close>.  The month and
  year the default calendar is made from are the server's local date and come with the request.
\<close>

record acad_session =
  ses_id :: string
  ses_name :: string
  ses_start :: "string option"
  ses_end :: "string option"
  ses_current :: bool
  ses_createdAt :: int

record acad_term =
  trm_id :: string
  trm_session :: string
  trm_name :: string
  trm_code :: string
  trm_start :: "string option"
  trm_end :: "string option"
  trm_current :: bool
  trm_createdAt :: int

record cal_db =
  cal_sessions :: "acad_session list"
  cal_terms :: "acad_term list"

datatype cal_response =
    CalId string "string list"
  | CalSessions "acad_session list"
  | CalTerms "acad_term list"
  | Calendar "acad_session list" "acad_term list" "acad_session option" "acad_term option"

subsection \<open>Request bodies\<close>

text \<open>In a body for an update an absent field is \<open>None\<close>; for the dates the inner \<open>None\<close> is a null.\<close>

record session_body =
  sb_name :: string
  sb_start :: "string option"
  sb_end :: "string option"
  sb_current :: bool

record session_patch =
  sp_name :: "string option"
  sp_start :: "string option option"
  sp_end :: "string option option"
  sp_current :: "bool option"

record term_body =
  tb_session :: string
  tb_name :: string
  tb_code :: string
  tb_start :: "string option"
  tb_end :: "string option"
  tb_current :: bool

record term_patch =
  tp_session :: "string option"
  tp_name :: "string option"
  tp_code :: "string option"
  tp_start :: "string option option"
  tp_end :: "string option option"
  tp_current :: "bool option"

definition TERM_CODES :: "string list" where
  "TERM_CODES = [''first'', ''second'', ''third'']"

definition sized :: "nat \<Rightarrow> nat \<Rightarrow> string \<Rightarrow> bool" where
  "sized lo hi s \<longleftrightarrow> lo \<le> length s \<and> length s \<le> hi"

definition if_given :: "('a \<Rightarrow> bool) \<Rightarrow> 'a option \<Rightarrow> bool" where
  "if_given p x = (case x of None \<Rightarrow> True | Some y \<Rightarrow> p y)"

definition CreateSessionDto :: "session_body \<Rightarrow> bool" where
  "CreateSessionDto b \<longleftrightarrow> sized 1 128 (sb_name b) \<and> if_given (sized 0 32) (sb_start b) \<and> if_given (sized 0 32) (sb_end b)"

definition UpdateSessionDto :: "session_patch \<Rightarrow> bool" where
  "UpdateSessionDto b \<longleftrightarrow> if_given (sized 1 128) (sp_name b) \<and> if_given (if_given (sized 0 32)) (sp_start b) \<and>
     if_given (if_given (sized 0 32)) (sp_end b)"

definition CreateTermDto :: "term_body \<Rightarrow> bool" where
  "CreateTermDto b \<longleftrightarrow> 1 \<le> length (tb_session b) \<and> sized 1 64 (tb_name b) \<and> List.member TERM_CODES (tb_code b) \<and>
     if_given (sized 0 32) (tb_start b) \<and> if_given (sized 0 32) (tb_end b)"

definition UpdateTermDto :: "term_patch \<Rightarrow> bool" where
  "UpdateTermDto b \<longleftrightarrow> if_given (\<lambda>k. 1 \<le> length k) (tp_session b) \<and> if_given (sized 1 64) (tp_name b) \<and>
     if_given (List.member TERM_CODES) (tp_code b) \<and> if_given (if_given (sized 0 32)) (tp_start b) \<and>
     if_given (if_given (sized 0 32)) (tp_end b)"

subsection \<open>Sessions\<close>

definition no_current_session :: "cal_db \<Rightarrow> cal_db" where
  "no_current_session db = db\<lparr>cal_sessions := map (\<lambda>x. x\<lparr>ses_current := False\<rparr>) (cal_sessions db)\<rparr>"

definition no_current_term :: "cal_db \<Rightarrow> cal_db" where
  "no_current_term db = db\<lparr>cal_terms := map (\<lambda>x. x\<lparr>trm_current := False\<rparr>) (cal_terms db)\<rparr>"

text \<open>\<open>getRowOrThrow\<close>, for the two tables.\<close>

definition session_or_throw :: "string \<Rightarrow> cal_db \<Rightarrow> acad_session result" where
  "session_or_throw k db =
     (case tfind ses_id k (cal_sessions db) of None \<Rightarrow> Inl (NotFound ''Session not found'') | Some x \<Rightarrow> Inr x)"

definition term_or_throw :: "string \<Rightarrow> cal_db \<Rightarrow> acad_term result" where
  "term_or_throw k db =
     (case tfind trm_id k (cal_terms db) of None \<Rightarrow> Inl (NotFound ''Term not found'') | Some x \<Rightarrow> Inr x)"

definition listSessions :: "cal_db \<Rightarrow> acad_session list" where
  "listSessions db = sort_key (\<lambda>x. - ses_createdAt x) (cal_sessions db)"

definition createSession :: "int \<Rightarrow> string \<Rightarrow> session_body \<Rightarrow> cal_db \<Rightarrow> cal_response result \<times> cal_db" where
  "createSession now fresh b db =
     (let db1 = (if sb_current b then no_current_session db else db) in
      case tinsert ses_id \<lparr>ses_id = fresh, ses_name = sb_name b, ses_start = or_null (sb_start b), ses_end = or_null (sb_end b),
              ses_current = sb_current b, ses_createdAt = now\<rparr> (cal_sessions db1) of
        None \<Rightarrow> (Inl DbError, db1)
      | Some t \<Rightarrow> (Inr (CalId fresh [''sessions'']), db1\<lparr>cal_sessions := t\<rparr>))"

definition given :: "'a option \<Rightarrow> 'a \<Rightarrow> 'a" where
  "given x d = (case x of None \<Rightarrow> d | Some y \<Rightarrow> y)"

text \<open>The row after an update of \<open>old\<close> with the fields of the body.\<close>

definition merge_session :: "session_patch \<Rightarrow> acad_session \<Rightarrow> acad_session \<Rightarrow> acad_session" where
  "merge_session b old x = x\<lparr>ses_name := given (sp_name b) (ses_name old),
     ses_start := or_null (given (sp_start b) (ses_start old)), ses_end := or_null (given (sp_end b) (ses_end old)),
     ses_current := given (sp_current b) (ses_current old)\<rparr>"

definition clear_others :: "('r \<Rightarrow> string) \<Rightarrow> ('r \<Rightarrow> 'r) \<Rightarrow> bool \<Rightarrow> string \<Rightarrow> 'r list \<Rightarrow> 'r list" where
  "clear_others key unset current k t = (if current then tupdate (\<lambda>x. key x \<noteq> k) unset t else t)"

definition updateSession :: "string \<Rightarrow> session_patch \<Rightarrow> cal_db \<Rightarrow> cal_response result \<times> cal_db" where
  "updateSession k b db = (case session_or_throw k db of
      Inl e \<Rightarrow> (Inl e, db)
    | Inr old \<Rightarrow>
        let others = clear_others ses_id (ses_current_update (\<lambda>_. False)) (given (sp_current b) (ses_current old)) k (cal_sessions db)
        in (Inr (CalId k [''sessions'']), db\<lparr>cal_sessions := tmodify ses_id k (merge_session b old) others\<rparr>))"

definition deleteSession :: "string \<Rightarrow> cal_db \<Rightarrow> cal_response result \<times> cal_db" where
  "deleteSession k db = (case session_or_throw k db of
      Inl e \<Rightarrow> (Inl e, db)
    | Inr _ \<Rightarrow> (Inr (CalId k [''sessions'']),
         db\<lparr>cal_terms := tdelete (\<lambda>t. trm_session t = k) (cal_terms db),
            cal_sessions := tdelete (\<lambda>x. ses_id x = k) (cal_sessions db)\<rparr>))"

definition make_current :: "string \<Rightarrow> cal_db \<Rightarrow> cal_db" where
  "make_current k db = (let db1 = no_current_session db
     in db1\<lparr>cal_sessions := tmodify ses_id k (\<lambda>x. x\<lparr>ses_current := True\<rparr>) (cal_sessions db1)\<rparr>)"

definition setCurrentSession :: "string \<Rightarrow> cal_db \<Rightarrow> cal_response result \<times> cal_db" where
  "setCurrentSession k db = (case session_or_throw k db of
      Inl e \<Rightarrow> (Inl e, db)
    | Inr _ \<Rightarrow> (Inr (CalId k [''sessions'']), make_current k db))"

subsection \<open>Terms\<close>

definition listTerms :: "string option \<Rightarrow> cal_db \<Rightarrow> acad_term list" where
  "listTerms sessionId db = sort_key trm_createdAt
     (filter (\<lambda>t. case or_null sessionId of None \<Rightarrow> True | Some k \<Rightarrow> trm_session t = k) (cal_terms db))"

definition createTerm :: "int \<Rightarrow> string \<Rightarrow> term_body \<Rightarrow> cal_db \<Rightarrow> cal_response result \<times> cal_db" where
  "createTerm now fresh b db = (case session_or_throw (tb_session b) db of
      Inl e \<Rightarrow> (Inl e, db)
    | Inr _ \<Rightarrow>
        let db1 = (if tb_current b then no_current_term db else db) in
        (case tinsert trm_id \<lparr>trm_id = fresh, trm_session = tb_session b, trm_name = tb_name b, trm_code = tb_code b,
                trm_start = or_null (tb_start b), trm_end = or_null (tb_end b), trm_current = tb_current b, trm_createdAt = now\<rparr>
              (cal_terms db1) of
           None \<Rightarrow> (Inl DbError, db1)
         | Some t \<Rightarrow> (Inr (CalId fresh [''terms:'']), db1\<lparr>cal_terms := t\<rparr>)))"

definition merge_term :: "term_patch \<Rightarrow> acad_term \<Rightarrow> acad_term \<Rightarrow> acad_term" where
  "merge_term b old x = x\<lparr>trm_session := given (tp_session b) (trm_session old),
     trm_name := given (tp_name b) (trm_name old), trm_code := given (tp_code b) (trm_code old),
     trm_start := or_null (given (tp_start b) (trm_start old)),
     trm_end := or_null (given (tp_end b) (trm_end old)), trm_current := given (tp_current b) (trm_current old)\<rparr>"

definition new_session_check :: "term_patch \<Rightarrow> cal_db \<Rightarrow> unit result" where
  "new_session_check b db = (case or_null (tp_session b) of
      None \<Rightarrow> Inr ()
    | Some k \<Rightarrow> map_sum id (\<lambda>_. ()) (session_or_throw k db))"

definition updateTerm :: "string \<Rightarrow> term_patch \<Rightarrow> cal_db \<Rightarrow> cal_response result \<times> cal_db" where
  "updateTerm k b db = (case term_or_throw k db of
      Inl e \<Rightarrow> (Inl e, db)
    | Inr old \<Rightarrow>
        (case new_session_check b db of
           Inl e \<Rightarrow> (Inl e, db)
         | Inr _ \<Rightarrow>
             let others = clear_others trm_id (trm_current_update (\<lambda>_. False)) (given (tp_current b) (trm_current old)) k (cal_terms db)
             in (Inr (CalId k [''terms:'']), db\<lparr>cal_terms := tmodify trm_id k (merge_term b old) others\<rparr>)))"

definition deleteTerm :: "string \<Rightarrow> cal_db \<Rightarrow> cal_response result \<times> cal_db" where
  "deleteTerm k db = (case term_or_throw k db of
      Inl e \<Rightarrow> (Inl e, db)
    | Inr _ \<Rightarrow> (Inr (CalId k [''terms:'']), db\<lparr>cal_terms := tdelete (\<lambda>t. trm_id t = k) (cal_terms db)\<rparr>))"

definition setCurrentTerm :: "string \<Rightarrow> cal_db \<Rightarrow> cal_response result \<times> cal_db" where
  "setCurrentTerm k db = (case term_or_throw k db of
      Inl e \<Rightarrow> (Inl e, db)
    | Inr t \<Rightarrow>
        let db1 = no_current_term db;
            db2 = db1\<lparr>cal_terms := tmodify trm_id k (\<lambda>x. x\<lparr>trm_current := True\<rparr>) (cal_terms db1)\<rparr>
        in (Inr (CalId k [''terms:'', ''sessions'']), make_current (trm_session t) db2))"

subsection \<open>The default calendar\<close>

text \<open>The decimal notation of a natural number.\<close>

fun js_show :: "nat \<Rightarrow> string" where
  "js_show n = (if n < 10 then [char_of (48 + n)] else js_show (n div 10) @ [char_of (48 + n mod 10)])"

declare js_show.simps [simp del]

definition start_year :: "nat \<Rightarrow> nat \<Rightarrow> nat" where
  "start_year year month = (if 7 \<le> month then year else year - 1)"

definition current_code :: "nat \<Rightarrow> string" where
  "current_code month =
     (if 1 \<le> month \<and> month \<le> 3 then ''second'' else if 4 \<le> month \<and> month \<le> 7 then ''third'' else ''first'')"

definition default_terms :: "nat \<Rightarrow> (string \<times> string \<times> string \<times> string) list" where
  "default_terms y =
     [(''First Term'', ''first'', js_show y @ ''-09-01'', js_show y @ ''-12-20''),
      (''Second Term'', ''second'', js_show (y + 1) @ ''-01-08'', js_show (y + 1) @ ''-04-10''),
      (''Third Term'', ''third'', js_show (y + 1) @ ''-04-20'', js_show (y + 1) @ ''-07-31'')]"

fun seed_terms :: "int \<Rightarrow> string \<Rightarrow> string \<Rightarrow> string list \<Rightarrow> (string \<times> string \<times> string \<times> string) list \<Rightarrow>
    acad_term list \<Rightarrow> bool \<times> acad_term list" where
  "seed_terms now sessionId cur (k # ks) ((name, code, from_date, to_date) # rows) t =
     (case tinsert trm_id \<lparr>trm_id = k, trm_session = sessionId, trm_name = name, trm_code = code, trm_start = Some from_date,
             trm_end = Some to_date, trm_current = (code = cur), trm_createdAt = now\<rparr> t of
        None \<Rightarrow> (False, t)
      | Some t' \<Rightarrow> seed_terms now sessionId cur ks rows t')"
| "seed_terms now sessionId cur _ _ t = (True, t)"

definition seedDefaultCalendar :: "int \<Rightarrow> nat \<Rightarrow> nat \<Rightarrow> string \<Rightarrow> string list \<Rightarrow> cal_db \<Rightarrow> bool \<times> cal_db" where
  "seedDefaultCalendar now year month sessionId ids db =
     (let y = start_year year month in
      case tinsert ses_id \<lparr>ses_id = sessionId, ses_name = js_show y @ ''/'' @ js_show (y + 1), ses_start = Some (js_show y @ ''-09-01''),
              ses_end = Some (js_show (y + 1) @ ''-07-31''), ses_current = True, ses_createdAt = now\<rparr> (cal_sessions db) of
        None \<Rightarrow> (False, db)
      | Some t \<Rightarrow>
          let (ok, rows) = seed_terms now sessionId (current_code month) ids (default_terms y) (cal_terms db)
          in (ok, db\<lparr>cal_sessions := t, cal_terms := rows\<rparr>))"

definition getCalendar :: "int \<Rightarrow> nat \<Rightarrow> nat \<Rightarrow> string \<Rightarrow> string list \<Rightarrow> cal_db \<Rightarrow> cal_response result \<times> cal_db" where
  "getCalendar now year month sessionId ids db =
     (let (ok, db1) = (if cal_sessions db = [] then seedDefaultCalendar now year month sessionId ids db else (True, db))
      in if \<not> ok then (Inl DbError, db1)
         else let ss = listSessions db1; ts = listTerms None db1
              in (Inr (Calendar ss ts (find ses_current ss) (find trm_current ts)), db1))"

subsection \<open>The calendar machine\<close>

datatype cal_request =
    ListSessions call
  | CreateSession call int string session_body
  | UpdateSession call string session_patch
  | DeleteSession call string
  | SetCurrentSession call string
  | ListTerms call "string option"
  | CreateTerm call int string term_body
  | UpdateTerm call string term_patch
  | DeleteTerm call string
  | SetCurrentTerm call string
  | GetCalendar call int nat nat string "string list"

text \<open>The request classes are checked before the handler runs.\<close>

definition with_dto :: "bool \<Rightarrow> call \<Rightarrow> 's \<Rightarrow> ('s \<Rightarrow> 'a result \<times> 's) \<Rightarrow> 'a result \<times> 's" where
  "with_dto valid c s body = (if \<not> valid then (Inl (BadRequest ''Bad Request''), s) else with_tenant c s body)"

fun cal_step :: "cal_request \<Rightarrow> cal_db \<Rightarrow> cal_response result \<times> cal_db" where
  "cal_step (ListSessions c) db = with_tenant c db (\<lambda>db. (Inr (CalSessions (listSessions db)), db))"
| "cal_step (CreateSession c now fresh b) db = with_dto (CreateSessionDto b) c db (createSession now fresh b)"
| "cal_step (UpdateSession c k b) db = with_dto (UpdateSessionDto b) c db (updateSession k b)"
| "cal_step (DeleteSession c k) db = with_tenant c db (deleteSession k)"
| "cal_step (SetCurrentSession c k) db = with_tenant c db (setCurrentSession k)"
| "cal_step (ListTerms c k) db = with_tenant c db (\<lambda>db. (Inr (CalTerms (listTerms k db)), db))"
| "cal_step (CreateTerm c now fresh b) db = with_dto (CreateTermDto b) c db (createTerm now fresh b)"
| "cal_step (UpdateTerm c k b) db = with_dto (UpdateTermDto b) c db (updateTerm k b)"
| "cal_step (DeleteTerm c k) db = with_tenant c db (deleteTerm k)"
| "cal_step (SetCurrentTerm c k) db = with_tenant c db (setCurrentTerm k)"
| "cal_step (GetCalendar c now year month k ids) db = with_tenant c db (getCalendar now year month k ids)"

subsection \<open>One current session, one current term\<close>

definition at_most_one :: "('r \<Rightarrow> bool) \<Rightarrow> 'r list \<Rightarrow> bool" where
  "at_most_one p rows \<longleftrightarrow> tcount p rows \<le> 1"

text \<open>Identifiers are unique, at most one session and one term are current, every term belongs to a
  session and has one of the three codes.\<close>

definition cal_ok :: "cal_db \<Rightarrow> bool" where
  "cal_ok db \<longleftrightarrow> pk ses_id (cal_sessions db) \<and> pk trm_id (cal_terms db) \<and>
     at_most_one ses_current (cal_sessions db) \<and> at_most_one trm_current (cal_terms db) \<and>
     (\<forall>t\<in>set (cal_terms db). trm_session t \<in> ses_id ` set (cal_sessions db) \<and> trm_code t \<in> set TERM_CODES)"

lemma pk_Cons [simp]: "pk key (a # u) \<longleftrightarrow> key a \<notin> key ` set u \<and> pk key u"
  by (auto simp: pk_def)

lemma tcount_none: "(\<And>r. r \<in> set t \<Longrightarrow> \<not> p r) \<Longrightarrow> tcount p t = 0"
  by (simp add: tcount_zero_iff)

text \<open>Clearing the mark on every other row and writing one row leaves at most one mark.\<close>

lemma at_most_one_modify:
  assumes "pk key t" and "\<And>r. r \<in> set t \<Longrightarrow> key r \<noteq> k \<Longrightarrow> \<not> p r" and "\<And>r. key (f r) = key r"
  shows "at_most_one p (tmodify key k f t)"
proof (cases "tfind key k t")
  case None
  then have "tmodify key k f t = t" by (simp add: tmodify_id tfind_None_iff)
  moreover have "\<forall>r\<in>set t. key r \<noteq> k" using None by (auto simp: tfind_None_iff)
  ultimately have "tcount p (tmodify key k f t) = 0" using assms(2) by (simp add: tcount_zero_iff)
  then show ?thesis by (simp add: at_most_one_def)
next
  case (Some r)
  have "tcount (\<lambda>x. p x \<and> key x \<noteq> k) (tmodify key k f t) = 0"
    using assms(2,3) by (auto simp: tcount_zero_iff elim!: set_tmodifyE split: if_splits)
  moreover have "tcount p u \<le> tcount (\<lambda>x. p x \<and> key x \<noteq> k) u + tcount (\<lambda>x. key x = k) u" for u
    by (induction u) auto
  moreover have "tcount (\<lambda>x. key x = k) u \<le> 1" if "pk key u" for u
    using that
  proof (induction u)
    case (Cons a u)
    moreover have "tcount (\<lambda>x. key x = key a) u = 0"
      using Cons.prems by (intro tcount_none) (metis image_eqI pk_Cons)
    ultimately show ?case by auto
  qed simp
  moreover have "pk key (tmodify key k f t)" using assms(1,3) by (simp add: pk_tmodify)
  ultimately show ?thesis unfolding at_most_one_def by (smt (verit))
qed

lemma at_most_one_delete: "at_most_one p t \<Longrightarrow> at_most_one p (tdelete q t)"
proof -
  have "tcount p (tdelete q t) \<le> tcount p t"
    by (induction t) (auto simp: tdelete_def)
  then show "at_most_one p t \<Longrightarrow> at_most_one p (tdelete q t)" by (simp add: at_most_one_def)
qed

lemma at_most_one_insert:
  "tinsert key r t = Some t' \<Longrightarrow> (p r \<Longrightarrow> tcount p t = 0) \<Longrightarrow> at_most_one p t \<Longrightarrow> at_most_one p t'"
  by (auto dest!: tinsert_SomeD simp: at_most_one_def)

text \<open>The same for the two-step update the code makes when the row becomes current.\<close>

lemma at_most_one_update:
  assumes "pk key t" and "at_most_one p t" and "\<And>r. key (f r) = key r" and "\<And>r. key (unset r) = key r"
    and "\<And>r. \<not> p (unset r)" and "\<not> current \<Longrightarrow> (\<And>r. \<not> p (f r))"
  shows "at_most_one p (tmodify key k f (clear_others key unset current k t))"
    and "pk key (tmodify key k f (clear_others key unset current k t))"
    and "key ` set (tmodify key k f (clear_others key unset current k t)) = key ` set t"
proof -
  have keys: "map key (clear_others key unset current k t) = map key t"
    by (simp add: clear_others_def map_key_tupdate assms)
  then have pk: "pk key (clear_others key unset current k t)" using assms(1) by (simp add: pk_def)
  then show "pk key (tmodify key k f (clear_others key unset current k t))" using assms(3) by (simp add: pk_tmodify)
  show "key ` set (tmodify key k f (clear_others key unset current k t)) = key ` set t"
    using key_set_tmodify [of key f k] assms(3) keys by (metis set_map)
  show "at_most_one p (tmodify key k f (clear_others key unset current k t))"
  proof (cases current)
    case True
    have "\<not> p r" if "r \<in> set (tupdate (\<lambda>x. key x \<noteq> k) unset t)" "key r \<noteq> k" for r
      using that(1)
    proof (rule set_tupdateE)
      fix x
      assume "r = (if key x \<noteq> k then unset x else x)"
      with that(2) assms(5) show ?thesis by (cases "key x = k") simp_all
    qed
    with True show ?thesis by (intro at_most_one_modify [OF pk _ assms(3)]) (simp add: clear_others_def)
  next
    case False
    have "tcount p (tmodify key k f u) \<le> tcount p u" for u
    proof (induction u)
      case (Cons a u)
      have "\<not> p (f a)" by (rule assms(6)) (rule False)
      with Cons show ?case by simp
    qed simp
    from this [of t] False assms(2) show ?thesis by (simp add: at_most_one_def clear_others_def)
  qed
qed

lemma pk_map: "(\<And>r. key (f r) = key r) \<Longrightarrow> pk key (map f t) = pk key t"
  by (simp add: pk_def comp_def)

lemma cleared [simp]:
  "tcount ses_current (cal_sessions (no_current_session db)) = 0" "tcount trm_current (cal_terms (no_current_term db)) = 0"
  by (auto simp: no_current_session_def no_current_term_def intro!: tcount_none)

lemma clear_frame [simp]:
  "cal_terms (no_current_session db) = cal_terms db" "cal_sessions (no_current_term db) = cal_sessions db"
  "ses_id ` set (cal_sessions (no_current_session db)) = ses_id ` set (cal_sessions db)"
  by (simp_all add: no_current_session_def no_current_term_def image_image)

lemma cal_ok_clear_session: "cal_ok db \<Longrightarrow> cal_ok (no_current_session db)"
  by (simp add: cal_ok_def at_most_one_def) (simp add: no_current_session_def pk_map)

lemma cal_ok_clear_term: "cal_ok db \<Longrightarrow> cal_ok (no_current_term db)"
  by (simp add: cal_ok_def at_most_one_def) (auto simp: no_current_term_def pk_map)

lemma session_found: "session_or_throw k db = Inr x \<Longrightarrow> x \<in> set (cal_sessions db) \<and> ses_id x = k"
  by (auto simp: session_or_throw_def dest: tfind_SomeD split: option.splits)

lemma term_found: "term_or_throw k db = Inr x \<Longrightarrow> x \<in> set (cal_terms db) \<and> trm_id x = k"
  by (auto simp: term_or_throw_def dest: tfind_SomeD split: option.splits)

lemma createSession_ok: assumes "cal_ok db" shows "cal_ok (snd (createSession now fresh b db))"
proof -
  define db1 where "db1 = (if sb_current b then no_current_session db else db)"
  have ok: "cal_ok db1" using assms by (simp add: db1_def cal_ok_clear_session cal_ok_clear_term)
  define r where "r = \<lparr>ses_id = fresh, ses_name = sb_name b, ses_start = or_null (sb_start b), ses_end = or_null (sb_end b),
              ses_current = sb_current b, ses_createdAt = now\<rparr>"
  show ?thesis
  proof (cases "tinsert ses_id r (cal_sessions db1)")
    case (Some t)
    have "at_most_one ses_current t"
      by (rule at_most_one_insert [OF Some]) (use ok in \<open>auto simp: r_def db1_def cal_ok_def\<close>)
    moreover have "pk ses_id t" using ok Some by (auto simp: cal_ok_def intro: pk_tinsert)
    moreover have "snd (createSession now fresh b db) = db1\<lparr>cal_sessions := t\<rparr>"
      using Some by (simp add: createSession_def Let_def db1_def r_def)
    ultimately show ?thesis using ok tinsert_SomeD [OF Some] by (auto simp: cal_ok_def)
  qed (simp add: createSession_def Let_def ok flip: db1_def r_def)
qed

lemma updateSession_ok: assumes "cal_ok db" shows "cal_ok (snd (updateSession k b db))"
proof (cases "session_or_throw k db")
  case (Inr old)
  have pre: "pk ses_id (cal_sessions db)" "at_most_one ses_current (cal_sessions db)" using assms by (simp_all add: cal_ok_def)
  note upd = at_most_one_update [OF pre, of "merge_session b old" "ses_current_update (\<lambda>_. False)"
      "given (sp_current b) (ses_current old)" k]
  show ?thesis
    using upd assms by (simp add: updateSession_def Inr Let_def cal_ok_def merge_session_def)
qed (simp add: updateSession_def assms)

lemma deleteSession_ok: "cal_ok db \<Longrightarrow> cal_ok (snd (deleteSession k db))"
  by (auto simp: deleteSession_def cal_ok_def pk_tdelete at_most_one_delete set_tdelete split: sum.splits)

lemma make_current_ok: assumes "cal_ok db" shows "cal_ok (make_current k db)"
proof -
  let ?f = "\<lambda>x::acad_session. x\<lparr>ses_current := True\<rparr>" and ?t = "cal_sessions (no_current_session db)"
  have ok: "cal_ok (no_current_session db)" using assms by (rule cal_ok_clear_session)
  have "at_most_one ses_current (tmodify ses_id k ?f ?t)"
    by (rule at_most_one_modify) (use ok in \<open>auto simp: cal_ok_def no_current_session_def\<close>)
  moreover have "ses_id ` set (tmodify ses_id k ?f ?t) = ses_id ` set ?t" by (rule key_set_tmodify) simp
  ultimately show ?thesis using ok by (simp add: make_current_def Let_def cal_ok_def pk_tmodify)
qed

lemma setCurrentSession_ok: "cal_ok db \<Longrightarrow> cal_ok (snd (setCurrentSession k db))"
  by (simp add: setCurrentSession_def make_current_ok split: sum.split)

lemma createTerm_ok: assumes "cal_ok db" and "CreateTermDto b" shows "cal_ok (snd (createTerm now fresh b db))"
proof (cases "session_or_throw (tb_session b) db")
  case (Inr x)
  define db1 where "db1 = (if tb_current b then no_current_term db else db)"
  have ok: "cal_ok db1" using assms by (simp add: db1_def cal_ok_clear_session cal_ok_clear_term)
  have ses: "cal_sessions db1 = cal_sessions db" by (simp add: db1_def)
  define r where "r = \<lparr>trm_id = fresh, trm_session = tb_session b, trm_name = tb_name b, trm_code = tb_code b,
                trm_start = or_null (tb_start b), trm_end = or_null (tb_end b), trm_current = tb_current b, trm_createdAt = now\<rparr>"
  show ?thesis
  proof (cases "tinsert trm_id r (cal_terms db1)")
    case (Some t)
    have "at_most_one trm_current t"
      by (rule at_most_one_insert [OF Some]) (use ok in \<open>auto simp: r_def db1_def cal_ok_def\<close>)
    moreover have "pk trm_id t" using ok Some by (auto simp: cal_ok_def intro: pk_tinsert)
    moreover have "trm_session r \<in> ses_id ` set (cal_sessions db)" "trm_code r \<in> set TERM_CODES"
      using session_found [OF Inr] assms(2) by (force simp: r_def, simp add: r_def CreateTermDto_def)
    moreover have "snd (createTerm now fresh b db) = db1\<lparr>cal_terms := t\<rparr>"
      using Some Inr by (simp add: createTerm_def Let_def db1_def r_def)
    ultimately show ?thesis using ok tinsert_SomeD [OF Some] by (auto simp: cal_ok_def ses)
  qed (simp add: createTerm_def Inr Let_def ok flip: db1_def r_def)
qed (simp add: createTerm_def assms)

lemma merge_term_row:
  assumes "cal_ok db" and "UpdateTermDto b" and "old \<in> set (cal_terms db)" and "new_session_check b db = Inr w"
  shows "trm_session (merge_term b old x) \<in> ses_id ` set (cal_sessions db) \<and> trm_code (merge_term b old x) \<in> set TERM_CODES"
proof -
  have "trm_code (merge_term b old x) \<in> set TERM_CODES"
    using assms by (cases "tp_code b") (auto simp: merge_term_def given_def cal_ok_def UpdateTermDto_def if_given_def)
  moreover have "trm_session (merge_term b old x) \<in> ses_id ` set (cal_sessions db)"
  proof (cases "tp_session b")
    case None
    with assms show ?thesis by (auto simp: merge_term_def given_def cal_ok_def)
  next
    case (Some k)
    then have "or_null (tp_session b) = Some k"
      using assms(2) by (auto simp: UpdateTermDto_def if_given_def or_null_Some_iff)
    with assms(4) obtain y where "session_or_throw k db = Inr y"
      by (cases "session_or_throw k db") (auto simp: new_session_check_def)
    from session_found [OF this] show ?thesis by (auto simp: merge_term_def given_def Some)
  qed
  ultimately show ?thesis by blast
qed

lemma updateTerm_ok: assumes "cal_ok db" and "UpdateTermDto b" shows "cal_ok (snd (updateTerm k b db))"
proof (cases "term_or_throw k db")
  case (Inr old)
  show ?thesis
  proof (cases "new_session_check b db")
    case ok: (Inr w)
    define new where "new = tmodify trm_id k (merge_term b old)
      (clear_others trm_id (trm_current_update (\<lambda>_. False)) (given (tp_current b) (trm_current old)) k (cal_terms db))"
    have pre: "pk trm_id (cal_terms db)" "at_most_one trm_current (cal_terms db)" using assms by (simp_all add: cal_ok_def)
    note upd = at_most_one_update [OF pre, of "merge_term b old" "trm_current_update (\<lambda>_. False)"
        "given (tp_current b) (trm_current old)" k, folded new_def]
    have "trm_session x \<in> ses_id ` set (cal_sessions db) \<and> trm_code x \<in> set TERM_CODES" if "x \<in> set new" for x
      using that [unfolded new_def] merge_term_row [OF assms _ ok] term_found [OF Inr] assms(1)
      by (auto simp: clear_others_def cal_ok_def elim!: set_tmodifyE set_tupdateE split: if_splits)
    moreover have "snd (updateTerm k b db) = db\<lparr>cal_terms := new\<rparr>"
      by (simp add: updateTerm_def Inr ok Let_def new_def)
    ultimately show ?thesis using assms(1) upd by (simp add: cal_ok_def merge_term_def)
  qed (simp add: updateTerm_def Inr assms)
qed (simp add: updateTerm_def assms)

lemma deleteTerm_ok: "cal_ok db \<Longrightarrow> cal_ok (snd (deleteTerm k db))"
  by (auto simp: deleteTerm_def cal_ok_def pk_tdelete at_most_one_delete set_tdelete split: sum.splits)

lemma setCurrentTerm_ok: assumes "cal_ok db" shows "cal_ok (snd (setCurrentTerm k db))"
proof (cases "term_or_throw k db")
  case (Inr t)
  let ?f = "\<lambda>x::acad_term. x\<lparr>trm_current := True\<rparr>" and ?t = "cal_terms (no_current_term db)"
  have ok: "cal_ok (no_current_term db)" using assms by (rule cal_ok_clear_term)
  have "at_most_one trm_current (tmodify trm_id k ?f ?t)"
    by (rule at_most_one_modify) (use ok in \<open>auto simp: cal_ok_def no_current_term_def\<close>)
  moreover have "trm_session x \<in> ses_id ` set (cal_sessions db) \<and> trm_code x \<in> set TERM_CODES"
    if "x \<in> set (tmodify trm_id k ?f ?t)" for x
    using that
  proof (rule set_tmodifyE)
    fix y
    assume "y \<in> set ?t" and "x = (if trm_id y = k then ?f y else y)"
    with ok show ?thesis by (cases "trm_id y = k") (simp_all add: cal_ok_def)
  qed
  ultimately have "cal_ok ((no_current_term db)\<lparr>cal_terms := tmodify trm_id k ?f ?t\<rparr>)"
    using ok by (simp add: cal_ok_def pk_tmodify)
  then show ?thesis by (simp add: setCurrentTerm_def Inr Let_def make_current_ok)
qed (simp add: setCurrentTerm_def assms)

lemma seed_terms_ok:
  assumes "seed_terms now k cur ids rows t = (ok, t')" and "pk trm_id t" and "k \<in> K"
    and "\<forall>x\<in>set t. trm_session x \<in> K \<and> trm_code x \<in> set TERM_CODES"
    and "\<forall>r\<in>set rows. fst (snd r) \<in> set TERM_CODES"
    and "distinct (map (fst \<circ> snd) rows)"
    and "tcount trm_current t \<le> (if cur \<in> set (map (fst \<circ> snd) rows) then 0 else 1)"
  shows "pk trm_id t' \<and> (\<forall>x\<in>set t'. trm_session x \<in> K \<and> trm_code x \<in> set TERM_CODES) \<and> tcount trm_current t' \<le> 1"
  using assms
proof (induction now k cur ids rows t rule: seed_terms.induct)
  case (1 now sessionId cur k ks name code from_date to_date rows t)
  let ?r = "\<lparr>trm_id = k, trm_session = sessionId, trm_name = name, trm_code = code, trm_start = Some from_date,
             trm_end = Some to_date, trm_current = (code = cur), trm_createdAt = now\<rparr>"
  show ?case
  proof (cases "tinsert trm_id ?r t")
    case None
    with "1.prems" show ?thesis by (auto split: if_splits)
  next
    case (Some u)
    from tinsert_SomeD [OF Some] have u: "u = t @ [?r]" by simp
    show ?thesis
      by (rule "1.IH" [OF Some]) (use "1.prems" Some pk_tinsert [OF _ Some] in \<open>auto simp: u split: if_splits\<close>)
  qed
qed (auto split: if_splits)

lemma default_terms_codes:
  "map (fst \<circ> snd) (default_terms y) = TERM_CODES"
  by (simp add: default_terms_def TERM_CODES_def)

lemma seedDefaultCalendar_ok:
  assumes "cal_sessions db = []" and "cal_terms db = []"
  shows "cal_ok (snd (seedDefaultCalendar now year month k ids db))"
proof -
  obtain ok rows where rows: "seed_terms now k (current_code month) ids (default_terms (start_year year month)) [] = (ok, rows)"
    by fastforce
  have "distinct TERM_CODES" by code_simp
  moreover have "\<forall>r\<in>set (default_terms y). fst (snd r) \<in> set TERM_CODES" for y
    using default_terms_codes [of y] by (metis comp_apply image_eqI set_map)
  ultimately have "pk trm_id rows \<and> (\<forall>x\<in>set rows. trm_session x \<in> {k} \<and> trm_code x \<in> set TERM_CODES) \<and> tcount trm_current rows \<le> 1"
    by (intro seed_terms_ok [OF rows]) (simp_all add: default_terms_codes)
  then show ?thesis
    using assms by (simp add: seedDefaultCalendar_def Let_def tinsert_def rows cal_ok_def at_most_one_def)
qed

lemma getCalendar_ok: assumes "cal_ok db" shows "cal_ok (snd (getCalendar now year month k ids db))"
proof (cases "cal_sessions db = []")
  case True
  with assms have "cal_terms db = []" by (cases "cal_terms db") (auto simp: cal_ok_def)
  with True seedDefaultCalendar_ok [of db now year month k ids] show ?thesis
    by (simp add: getCalendar_def Let_def case_prod_beta)
qed (simp add: getCalendar_def Let_def assms)

lemma cal_step_ok: "cal_ok db \<Longrightarrow> cal_ok (snd (cal_step q db))"
  by (cases q) (simp_all add: with_dto_def with_tenant_def createSession_ok updateSession_ok deleteSession_ok setCurrentSession_ok
      createTerm_ok updateTerm_ok deleteTerm_ok setCurrentTerm_ok getCalendar_ok)

interpretation calendar: invariant_machine cal_step cal_ok
  by unfold_locales (rule cal_step_ok)

subsection \<open>Properties\<close>


lemma find_current:
  assumes "at_most_one p t" and "x \<in> set t" and "p x" shows "find p t = Some x"
proof -
  have "length (filter p t) \<le> 1" using assms(1) by (simp add: at_most_one_def tcount_length)
  moreover have "x \<in> set (filter p t)" using assms by simp
  ultimately have "filter p t = [x]" by (cases "filter p t") auto
  moreover have "find p t = (case filter p t of [] \<Rightarrow> None | y # _ \<Rightarrow> Some y)" by (induction t) auto
  ultimately show ?thesis by simp
qed

text \<open>Making a term current through \<open>createTerm\<close> (or \<open>updateTerm\<close>) does not move the current session, as
  \<open>setCurrentTerm\<close> does: the calendar then shows a current term outside the current session.\<close>

lemma current_term_outside_session:
  "let ok = \<lparr>feature_on = True, tenant_found = True\<rparr>; sb = \<lambda>n c. \<lparr>sb_name = n, sb_start = None, sb_end = None, sb_current = c\<rparr>;
       db = run_reqs cal_step
         [CreateSession ok 0 ''s1'' (sb ''2024/2025'' True), CreateSession ok 1 ''s2'' (sb ''2025/2026'' False),
          CreateTerm ok 2 ''t1'' \<lparr>tb_session = ''s2'', tb_name = ''First Term'', tb_code = ''first'', tb_start = None,
            tb_end = None, tb_current = True\<rparr>] \<lparr>cal_sessions = [], cal_terms = []\<rparr>
   in map ses_id (filter ses_current (cal_sessions db)) = [''s1''] \<and>
      map trm_session (filter trm_current (cal_terms db)) = [''s2'']"
  by code_simp

text \<open>Deleting a session deletes its terms but leaves the cached term lists.\<close>

lemma deleted_terms_stay_listed:
  assumes "session_or_throw k db = Inr x" and "t \<in> set (cal_terms db)" and "trm_session t = k"
  shows "t \<notin> set (cal_terms (snd (deleteSession k db))) \<and> fst (deleteSession k db) = Inr (CalId k [''sessions''])"
  using assms by (simp add: deleteSession_def set_tdelete)

text \<open>A calendar seeded in July starts the coming school year in its third term, which begins the April
  after.\<close>

lemma july_seed_starts_in_third_term:
  "default_terms (start_year 2025 7) ! 2 =
     (''Third Term'', current_code 7, js_show 2026 @ ''-04-20'', js_show 2026 @ ''-07-31'')"
  by (simp add: default_terms_def start_year_def current_code_def)

end
