(* ===== verification/SchoolLevel.thy ===== *)
theory SchoolLevel
  imports Grading AcademicCalendar
begin

section \<open>School levels and the roles of the academic service\<close>

text \<open>
  What the handlers of \<open>academic/academic.service.ts\<close> read about the actor before they act: the roles
  (\<open>getUserRoles\<close> of this service throws for an unknown user and does not change the case), and the
  school level that \<open>assertActorSchoolLevel\<close> compares with the level of the class and the subject.
  \<open>school_env\<close> holds the tables it reads; an exception that is no HTTP exception (a \<open>TypeError\<close>, a
  \<open>SyntaxError\<close>) answers 500 like an SQL error and is \<open>DbError\<close> here.  A roles column \<open>JOther\<close> holds a
  JSON value without array methods, a \<open>JText\<close> that is not empty is no JSON.
\<close>

record school_env =
  env_scope :: scope_db
  env_levels :: "string \<rightharpoonup> string option"          \<comment> \<open>users: school_level\<close>
  env_names :: "string \<rightharpoonup> string"                  \<comment> \<open>users: name\<close>
  env_class_levels :: "string \<rightharpoonup> string option"    \<comment> \<open>academic_classes: school_level\<close>
  env_subject_levels :: "string \<rightharpoonup> string option"  \<comment> \<open>academic_subjects: school_level\<close>

fun parse_roles :: "json_column \<Rightarrow> string list result" where
  "parse_roles (JArray rs) = Inr rs"
| "parse_roles JOther = Inl DbError"
| "parse_roles (JText s) = (if s = [] then Inr [] else Inl DbError)"

definition academic_roles :: "school_env \<Rightarrow> string \<Rightarrow> string list result" where
  "academic_roles env userId = (case user_roles (env_scope env) userId of
      None \<Rightarrow> Inl (BadRequest ''User not found for assignment'')
    | Some (JText s) \<Rightarrow> Inr []
    | Some col \<Rightarrow> parse_roles col)"

definition level_for_roles :: "string option \<Rightarrow> string list \<Rightarrow> string" where
  "level_for_roles level roles =
     (if list_ex (List.member [''director'', ''school_admin'', ''it_admin'']) roles then ''all''
      else if truthy level then toLowerCase (the level)
      else if List.member roles ''head_teacher'' \<or> List.member roles ''assistant_head_teacher'' then ''primary''
      else if List.member roles ''principal'' \<or> List.member roles ''vice_principal'' then ''secondary''
      else ''all'')"

definition getActorSchoolLevel :: "school_env \<Rightarrow> string option \<Rightarrow> string option result" where
  "getActorSchoolLevel env actor =
     (if \<not> truthy actor then Inr None
      else let level = (case env_levels env (the actor) of Some l \<Rightarrow> l | None \<Rightarrow> None);
               roles = (case user_roles (env_scope env) (the actor) of None \<Rightarrow> Inr [] | Some col \<Rightarrow> parse_roles col)
           in map_sum id (\<lambda>rs. Some (level_for_roles level rs)) roles)"

definition schoolLevelMatches :: "string \<Rightarrow> string option \<Rightarrow> bool" where
  "schoolLevelMatches userLevel itemLevel =
     (let user = toLowerCase userLevel; item = toLowerCase (or_else itemLevel []) in
      if user = ''all'' then True
      else if item = [] then False
      else if user = ''primary'' then List.member [''primary'', ''nursery''] item
      else if user = ''secondary'' then List.member [''secondary'', ''jss'', ''sss''] item
      else if item = ''secondary'' then List.member [''secondary'', ''jss'', ''sss''] user
      else user = item)"

definition level_fits :: "string \<Rightarrow> (string \<rightharpoonup> string option) \<Rightarrow> string option \<Rightarrow> bool" where
  "level_fits level rows k =
     (truthy k \<longrightarrow> (case rows (the k) of None \<Rightarrow> False | Some item \<Rightarrow> schoolLevelMatches level item))"

definition assertActorSchoolLevel :: "school_env \<Rightarrow> string option \<Rightarrow> string option \<Rightarrow> string option \<Rightarrow> unit result" where
  "assertActorSchoolLevel env actor classId subjectId = (case getActorSchoolLevel env actor of
      Inl e \<Rightarrow> Inl e
    | Inr level \<Rightarrow>
        if \<not> truthy level \<or> \<not> truthy classId \<and> \<not> truthy subjectId then Inr ()
        else if level_fits (the level) (env_class_levels env) classId \<and> level_fits (the level) (env_subject_levels env) subjectId
          then Inr ()
        else Inl (Forbidden ''User is not assigned to this school level''))"

text \<open>Two checks in a row: the second runs when the first passed.\<close>

definition and_then :: "'a result \<Rightarrow> 'b result \<Rightarrow> 'b result" where
  "and_then r s = (case r of Inl e \<Rightarrow> Inl e | Inr _ \<Rightarrow> s)"

lemma and_then_Inr [simp]: "and_then r s = Inr x \<longleftrightarrow> (\<exists>y. r = Inr y) \<and> s = Inr x"
  by (auto simp: and_then_def split: sum.split)

definition require_that :: "http_error \<Rightarrow> bool \<Rightarrow> unit result" where
  "require_that e p = (if p then Inr () else Inl e)"

lemma require_Inr [simp]: "require_that e p = Inr u \<longleftrightarrow> p"
  by (simp add: require_that_def)

text \<open>A column of type \<open>decimal(10,2)\<close> rounds what is written to two places and refuses ten digits or more
  before them.\<close>

definition sql_decimal :: "rat \<Rightarrow> rat option" where
  "sql_decimal x = (if \<bar>round2 x\<bar> < 10 ^ 8 then Some (round2 x) else None)"

lemma round2_mono: "x \<le> y \<Longrightarrow> round2 x \<le> round2 y"
  by (simp add: round2_def divide_right_mono floor_mono)

lemma round2_nonneg: "0 \<le> x \<Longrightarrow> 0 \<le> round2 x"
  using round2_mono [of 0 x] by (simp add: round2_def)

lemma sql_decimal_Some: "sql_decimal x = Some y \<longleftrightarrow> y = round2 x \<and> \<bar>y\<bar> < 10 ^ 8"
  by (auto simp: sql_decimal_def)

subsection \<open>Facts\<close>

lemma level_all: "schoolLevelMatches ''all'' x"
  by (simp add: schoolLevelMatches_def Let_def toLowerCase_def to_lower_char_def)

text \<open>The level of an actor never refuses a director, a school administrator or an IT administrator.\<close>

lemma management_has_every_level:
  assumes "user_roles (env_scope env) u = Some (JArray rs)" and "list_ex (List.member [''director'', ''school_admin'', ''it_admin'']) rs"
    and "u \<noteq> []" and "c \<in> dom (env_class_levels env)"
  shows "assertActorSchoolLevel env (Some u) (Some c) None = Inr ()"
  using assms by (auto simp: assertActorSchoolLevel_def getActorSchoolLevel_def level_for_roles_def level_fits_def level_all
      split: option.splits)

end
