(* ===== verification/ScoreSheets.thy ===== *)
theory ScoreSheets
  imports SchoolLevel
begin

section \<open>Score sheets\<close>

text \<open>
  The score-sheet handlers of \<open>academic/academic.service.ts\<close>: the categories and their default
  rows, the grade of one sheet, \<open>saveScoreSheetBatch\<close>, \<open>publishScoreSheets\<close> and \<open>deleteScoreSheet\<close>,
  with the request classes of \<open>academic/dto/academic.dto.ts\<close>.  Scores are rationals; a column of type
  \<open>decimal(10,2)\<close> rounds them.  The services open no transaction: a batch that fails at its third
  entry has stored the first two.  Random identifiers are arguments.
\<close>

subsection \<open>Rows\<close>

record score_category =
  scat_id :: string
  scat_name :: string
  scat_slug :: string
  scat_active :: bool

record score_subcategory =
  ssub_id :: string
  ssub_category :: string
  ssub_name :: string
  ssub_slug :: string
  ssub_active :: bool

record score_sheet =
  sh_id :: string
  sh_session :: string
  sh_term :: string
  sh_class :: string
  sh_student :: string
  sh_subject :: string
  sh_category :: string
  sh_subcategory :: "string option"
  sh_score :: "rat option"
  sh_obtainable :: rat
  sh_grade :: "int option"
  sh_status :: string
  sh_recorder :: string
  sh_recordedBy :: string

record sheet_db =
  sd_categories :: "score_category list"
  sd_subcategories :: "score_subcategory list"
  sd_sheets :: "score_sheet list"

datatype sheet_response =
    CategoryId string
  | Categories "(score_category \<times> score_subcategory list) list"
  | Saved "string list" string
  | Published nat "string list"
  | SheetId string

subsection \<open>Request bodies\<close>

record sheet_entry =
  en_id :: "string option"
  en_student :: string
  en_score :: "rat option"
  en_obtainable :: rat

record sheet_batch =
  bt_session :: string
  bt_term :: string
  bt_class :: string
  bt_subject :: string
  bt_category :: string
  bt_subcategory :: "string option"
  bt_status :: "string option"
  bt_entries :: "sheet_entry list"

record category_body =
  cb_name :: string
  cb_slug :: string
  cb_subs :: "(string \<times> string) list"

definition ScoreSheetEntryDto :: "sheet_entry \<Rightarrow> bool" where
  "ScoreSheetEntryDto e \<longleftrightarrow> en_student e \<noteq> [] \<and> if_given (\<lambda>s. 0 \<le> s) (en_score e) \<and> 1 / 100 \<le> en_obtainable e"

definition ScoreSheetBatchDto :: "sheet_batch \<Rightarrow> bool" where
  "ScoreSheetBatchDto b \<longleftrightarrow> bt_session b \<noteq> [] \<and> bt_term b \<noteq> [] \<and> bt_class b \<noteq> [] \<and> bt_subject b \<noteq> [] \<and> bt_category b \<noteq> [] \<and>
     if_given (List.member [''draft'', ''published'']) (bt_status b) \<and> list_all ScoreSheetEntryDto (bt_entries b)"

definition ScoreSheetCategoryDto :: "category_body \<Rightarrow> bool" where
  "ScoreSheetCategoryDto b \<longleftrightarrow> sized 1 128 (cb_name b) \<and> sized 1 128 (cb_slug b) \<and>
     list_all (\<lambda>(n, s). sized 1 128 n \<and> sized 1 128 s) (cb_subs b)"

subsection \<open>The grade of a sheet\<close>

text \<open>\<open>Math.round\<close>.\<close>

definition js_round :: "rat \<Rightarrow> int" where
  "js_round x = \<lfloor>x + 1 / 2\<rfloor>"

definition calculateScoreSheetGrade :: "rat option \<Rightarrow> rat \<Rightarrow> int option" where
  "calculateScoreSheetGrade score obtainable = (case score of
      None \<Rightarrow> None
    | Some s \<Rightarrow> if obtainable \<le> 0 then None else Some (js_round (s / obtainable * 100)))"

definition calculatePerformancePercentage :: "rat option \<Rightarrow> rat \<Rightarrow> rat option" where
  "calculatePerformancePercentage score obtainable = (case score of
      None \<Rightarrow> None
    | Some s \<Rightarrow> if obtainable \<le> 0 then None else Some (s / obtainable * 100))"

definition isLowPerformance :: "rat option \<Rightarrow> rat \<Rightarrow> bool" where
  "isLowPerformance score obtainable = (case calculatePerformancePercentage score obtainable of
      None \<Rightarrow> False
    | Some p \<Rightarrow> p < 50)"

subsection \<open>Categories\<close>

text \<open>\<open>INSERT ... ON CONFLICT (slug)\<close>: the row with the slug is kept, or rewritten and reactivated; the
  primary key is checked for a new row only.\<close>

definition upsert_category :: "bool \<Rightarrow> string \<Rightarrow> string \<Rightarrow> string \<Rightarrow> score_category list \<Rightarrow> score_category list option" where
  "upsert_category rewrite fresh name slug t =
     (if List.member (map scat_slug t) slug
      then Some (if rewrite then tupdate (\<lambda>c. scat_slug c = slug) (\<lambda>c. c\<lparr>scat_name := name, scat_active := True\<rparr>) t else t)
      else tinsert scat_id \<lparr>scat_id = fresh, scat_name = name, scat_slug = slug, scat_active = True\<rparr> t)"

definition upsert_subcategory :: "bool \<Rightarrow> string \<Rightarrow> string \<Rightarrow> string \<Rightarrow> string \<Rightarrow> score_subcategory list \<Rightarrow>
    score_subcategory list option" where
  "upsert_subcategory rewrite fresh cat name slug t =
     (if List.member (map (\<lambda>c. (ssub_category c, ssub_slug c)) t) (cat, slug)
      then Some (if rewrite then tupdate (\<lambda>c. ssub_category c = cat \<and> ssub_slug c = slug)
                                   (\<lambda>c. c\<lparr>ssub_name := name, ssub_active := True\<rparr>) t else t)
      else tinsert ssub_id \<lparr>ssub_id = fresh, ssub_category = cat, ssub_name = name, ssub_slug = slug, ssub_active = True\<rparr> t)"

text \<open>One subcategory after the other, each with its own identifier; \<open>False\<close> is an SQL error.\<close>

fun upsert_subs :: "bool \<Rightarrow> string \<Rightarrow> (string \<times> string) list \<Rightarrow> string list \<Rightarrow> score_subcategory list \<Rightarrow>
    bool \<times> score_subcategory list" where
  "upsert_subs rewrite cat ((name, slug) # rows) (k # ks) t = (case upsert_subcategory rewrite k cat name slug t of
      None \<Rightarrow> (False, t)
    | Some t' \<Rightarrow> upsert_subs rewrite cat rows ks t')"
| "upsert_subs rewrite cat _ _ t = (True, t)"

definition category_id_of :: "string \<Rightarrow> string \<Rightarrow> score_category list \<Rightarrow> string" where
  "category_id_of slug fresh t = (case find (\<lambda>c. scat_slug c = slug) t of None \<Rightarrow> fresh | Some c \<Rightarrow> scat_id c)"

text \<open>A category with its subcategories.\<close>

definition put_category :: "bool \<Rightarrow> string \<Rightarrow> string list \<Rightarrow> string \<Rightarrow> string \<Rightarrow> (string \<times> string) list \<Rightarrow>
    sheet_db \<Rightarrow> string result \<times> sheet_db" where
  "put_category rewrite fresh ks name slug subs db = (case upsert_category rewrite fresh name slug (sd_categories db) of
      None \<Rightarrow> (Inl DbError, db)
    | Some cats \<Rightarrow>
        let k = category_id_of slug fresh cats;
            (ok, rows) = upsert_subs rewrite k subs ks (sd_subcategories db)
        in (if ok then Inr k else Inl DbError, db\<lparr>sd_categories := cats, sd_subcategories := rows\<rparr>))"

definition default_subs :: "(string \<times> string) list" where
  "default_subs = [(''Note'', ''note''), (''Internal Assessment'', ''internal-assessment''), (''School Assessment'', ''school-assessment'')]"

text \<open>\<open>ensureScoreSheetDefaults\<close>; \<open>ks\<close> are the identifiers of the three subcategories.\<close>

definition ensureScoreSheetDefaults :: "string \<Rightarrow> string \<Rightarrow> string list \<Rightarrow> sheet_db \<Rightarrow> unit result \<times> sheet_db" where
  "ensureScoreSheetDefaults k1 k2 ks db =
     (if list_ex scat_active (sd_categories db) then (Inr (), db)
      else (case put_category False k1 ks ''Continuous Assessment'' ''continuous-assessment'' default_subs db of
          (Inl e, db1) \<Rightarrow> (Inl e, db1)
        | (Inr _, db1) \<Rightarrow> (case put_category False k2 [] ''Examination'' ''examination'' [] db1 of
            (r, db2) \<Rightarrow> (map_sum id (\<lambda>_. ()) r, db2))))"

definition after_defaults :: "string \<Rightarrow> string \<Rightarrow> string list \<Rightarrow> sheet_db \<Rightarrow> (sheet_db \<Rightarrow> 'a result \<times> sheet_db) \<Rightarrow> 'a result \<times> sheet_db" where
  "after_defaults k1 k2 ks db body = (case ensureScoreSheetDefaults k1 k2 ks db of
      (Inl e, db1) \<Rightarrow> (Inl e, db1)
    | (Inr _, db1) \<Rightarrow> body db1)"

definition slug_of :: "string \<Rightarrow> string" where
  "slug_of s = toLowerCase (trim s)"

definition clean_subs :: "category_body \<Rightarrow> (string \<times> string) list" where
  "clean_subs b = map (\<lambda>(n, s). (trim n, slug_of s)) (cb_subs b)"

definition createScoreSheetCategory :: "string \<Rightarrow> string list \<Rightarrow> category_body \<Rightarrow> sheet_db \<Rightarrow> sheet_response result \<times> sheet_db" where
  "createScoreSheetCategory fresh ks b db =
     (case put_category True fresh ks (trim (cb_name b)) (slug_of (cb_slug b)) (clean_subs b) db of
        (r, db') \<Rightarrow> (map_sum id CategoryId r, db'))"

text \<open>\<open>updateScoreSheetCategory\<close>: the slug column is unique, so a slug of another category is an SQL error.\<close>

definition updateScoreSheetCategory :: "string \<Rightarrow> string list \<Rightarrow> category_body \<Rightarrow> sheet_db \<Rightarrow> sheet_response result \<times> sheet_db" where
  "updateScoreSheetCategory k ks b db =
     (if tfind scat_id k (sd_categories db) = None then (Inl (NotFound ''Score sheet category not found''), db)
      else if list_ex (\<lambda>c. scat_id c \<noteq> k \<and> scat_slug c = slug_of (cb_slug b)) (sd_categories db) then (Inl DbError, db)
      else let cats = tmodify scat_id k (\<lambda>c. c\<lparr>scat_name := trim (cb_name b), scat_slug := slug_of (cb_slug b), scat_active := True\<rparr>)
                        (sd_categories db);
               (ok, rows) = upsert_subs True k (clean_subs b) ks (sd_subcategories db)
           in (if ok then Inr (CategoryId k) else Inl DbError, db\<lparr>sd_categories := cats, sd_subcategories := rows\<rparr>))"

definition deleteScoreSheetCategory :: "string \<Rightarrow> sheet_db \<Rightarrow> sheet_response result \<times> sheet_db" where
  "deleteScoreSheetCategory k db = (Inr (CategoryId k),
     db\<lparr>sd_categories := tmodify scat_id k (\<lambda>c. c\<lparr>scat_active := False\<rparr>) (sd_categories db),
        sd_subcategories := tupdate (\<lambda>c. ssub_category c = k) (\<lambda>c. c\<lparr>ssub_active := False\<rparr>) (sd_subcategories db)\<rparr>)"

definition listScoreSheetCategories :: "sheet_db \<Rightarrow> sheet_response" where
  "listScoreSheetCategories db = Categories
     (let subs = sort_key ssub_name (filter ssub_active (sd_subcategories db))
      in map (\<lambda>c. (c, filter (\<lambda>x. ssub_category x = scat_id c) subs)) (sort_key scat_id (filter scat_active (sd_categories db))))"

subsection \<open>Saving a batch\<close>

text \<open>What \<open>existing[0]\<close> holds of the selection.  The lookup by selection selects \<open>id, status\<close> only, so its
  other columns are \<open>undefined\<close> when they are compared.\<close>

record found_sheet =
  fd_id :: string
  fd_status :: string
  fd_selection :: "string \<times> string \<times> string \<times> string \<times> string \<times> string"

definition sheet_selection :: "score_sheet \<Rightarrow> string \<times> string \<times> string \<times> string \<times> string \<times> string" where
  "sheet_selection x = (sh_session x, sh_term x, sh_class x, sh_subject x, sh_category x, or_else (sh_subcategory x) [])"

definition batch_selection :: "sheet_batch \<Rightarrow> string \<times> string \<times> string \<times> string \<times> string \<times> string" where
  "batch_selection b = (bt_session b, bt_term b, bt_class b, bt_subject b, bt_category b, or_else (bt_subcategory b) [])"

definition no_selection :: "string \<times> string \<times> string \<times> string \<times> string \<times> string" where
  "no_selection = (''undefined'', ''undefined'', ''undefined'', ''undefined'', ''undefined'', [])"

definition same_slot :: "sheet_batch \<Rightarrow> sheet_entry \<Rightarrow> score_sheet \<Rightarrow> bool" where
  "same_slot b e x \<longleftrightarrow> sh_session x = bt_session b \<and> sh_term x = bt_term b \<and> sh_class x = bt_class b \<and> sh_student x = en_student e \<and>
     sh_subject x = bt_subject b \<and> sh_category x = bt_category b \<and> sh_subcategory x = or_null (bt_subcategory b)"

definition find_existing :: "sheet_batch \<Rightarrow> sheet_entry \<Rightarrow> score_sheet list \<Rightarrow> found_sheet option" where
  "find_existing b e t = (case or_null (en_id e) of
      Some k \<Rightarrow> map_option (\<lambda>x. \<lparr>fd_id = sh_id x, fd_status = sh_status x, fd_selection = sheet_selection x\<rparr>) (tfind sh_id k t)
    | None \<Rightarrow> map_option (\<lambda>x. \<lparr>fd_id = sh_id x, fd_status = sh_status x, fd_selection = no_selection\<rparr>) (find (same_slot b e) t))"

definition entry_check :: "sheet_entry \<Rightarrow> unit result" where
  "entry_check e =
     (if en_obtainable e \<le> 0 then Inl (BadRequest ''Obtainable score must be greater than zero'')
      else (case en_score e of
          None \<Rightarrow> Inr ()
        | Some s \<Rightarrow> require_that (BadRequest ''Student score must be between zero and obtainable score'')
            (0 \<le> s \<and> s \<le> en_obtainable e)))"

definition existing_check :: "sheet_batch \<Rightarrow> found_sheet option \<Rightarrow> unit result" where
  "existing_check b existing = (case existing of
      None \<Rightarrow> Inr ()
    | Some x \<Rightarrow>
        if fd_selection x \<noteq> batch_selection b then Inl (Forbidden ''Score sheet does not belong to this selection'')
        else require_that (Forbidden ''Published score sheets cannot be edited'') (fd_status x \<noteq> ''published''))"

text \<open>The score as the column stores it; \<open>None\<close> inside is SQL \<open>NULL\<close>, \<open>None\<close> outside an overflow.\<close>

definition sql_score :: "rat option \<Rightarrow> rat option option" where
  "sql_score s = (case s of None \<Rightarrow> Some None | Some v \<Rightarrow> map_option Some (sql_decimal v))"

definition batch_status :: "sheet_batch \<Rightarrow> string" where
  "batch_status b = (if bt_status b = Some ''published'' then ''published'' else ''draft'')"

text \<open>The two statements: \<open>UPDATE\<close> writes the marks, \<open>INSERT\<close> a row of the selection.\<close>

definition write_sheet :: "string \<Rightarrow> string \<Rightarrow> sheet_batch \<Rightarrow> sheet_entry \<Rightarrow> rat option \<Rightarrow> rat \<Rightarrow> score_sheet \<Rightarrow> score_sheet" where
  "write_sheet actor recordedBy b e score obtainable x =
     x\<lparr>sh_score := score, sh_obtainable := obtainable, sh_grade := calculateScoreSheetGrade (en_score e) (en_obtainable e),
       sh_status := batch_status b, sh_recorder := actor, sh_recordedBy := recordedBy\<rparr>"

definition new_sheet :: "string \<Rightarrow> string \<Rightarrow> sheet_batch \<Rightarrow> sheet_entry \<Rightarrow> rat option \<Rightarrow> rat \<Rightarrow> string \<Rightarrow> score_sheet" where
  "new_sheet actor recordedBy b e score obtainable fresh =
     \<lparr>sh_id = fresh, sh_session = bt_session b, sh_term = bt_term b, sh_class = bt_class b, sh_student = en_student e,
      sh_subject = bt_subject b, sh_category = bt_category b, sh_subcategory = or_null (bt_subcategory b), sh_score = score,
      sh_obtainable = obtainable, sh_grade = calculateScoreSheetGrade (en_score e) (en_obtainable e), sh_status = batch_status b,
      sh_recorder = actor, sh_recordedBy = recordedBy\<rparr>"

definition save_entry :: "string \<Rightarrow> string \<Rightarrow> sheet_batch \<Rightarrow> string \<Rightarrow> sheet_entry \<Rightarrow> score_sheet list \<Rightarrow> string result \<times> score_sheet list" where
  "save_entry actor recordedBy b fresh e t = (case entry_check e of
      Inl err \<Rightarrow> (Inl err, t)
    | Inr _ \<Rightarrow>
        let existing = find_existing b e t
        in (case existing_check b existing of
             Inl err \<Rightarrow> (Inl err, t)
           | Inr _ \<Rightarrow>
               (case (sql_score (en_score e), sql_decimal (en_obtainable e)) of
                  (Some score, Some obtainable) \<Rightarrow>
                    (case existing of
                       Some x \<Rightarrow> (Inr (fd_id x), tmodify sh_id (fd_id x) (write_sheet actor recordedBy b e score obtainable) t)
                     | None \<Rightarrow>
                         (case tinsert sh_id (new_sheet actor recordedBy b e score obtainable fresh) t of
                            None \<Rightarrow> (Inl DbError, t)
                          | Some t' \<Rightarrow> (Inr fresh, t')))
                | _ \<Rightarrow> (Inl DbError, t))))"

text \<open>One entry after the other; \<open>ks\<close> holds the identifier drawn for each.\<close>

fun save_entries :: "string \<Rightarrow> string \<Rightarrow> sheet_batch \<Rightarrow> string list \<Rightarrow> sheet_entry list \<Rightarrow> string list \<Rightarrow> score_sheet list \<Rightarrow>
    string list result \<times> score_sheet list" where
  "save_entries actor recordedBy b saved (e # es) (k # ks) t = (case save_entry actor recordedBy b k e t of
      (Inl err, t') \<Rightarrow> (Inl err, t')
    | (Inr i, t') \<Rightarrow> save_entries actor recordedBy b (saved @ [i]) es ks t')"
| "save_entries actor recordedBy b saved _ _ t = (Inr saved, t)"

definition valid_subcategory :: "sheet_batch \<Rightarrow> sheet_db \<Rightarrow> bool" where
  "valid_subcategory b db = (case or_null (bt_subcategory b) of
      None \<Rightarrow> True
    | Some k \<Rightarrow> list_ex (\<lambda>s. ssub_id s = k \<and> ssub_category s = bt_category b \<and> ssub_active s) (sd_subcategories db))"

definition save_check :: "school_env \<Rightarrow> string \<Rightarrow> sheet_batch \<Rightarrow> sheet_db \<Rightarrow> unit result" where
  "save_check env actor b db =
     and_then (assertActorSchoolLevel env (Some actor) (Some (bt_class b)) (Some (bt_subject b)))
       (bind_result (academic_roles env actor) (\<lambda>roles.
          and_then (require_that (Forbidden ''Only subject teachers can save score sheets'') (List.member roles ''subject_teacher''))
            (and_then (assertTeacherMayAccess (env_scope env) actor (Some (bt_class b)) (Some (bt_subject b)))
               (and_then (require_that (BadRequest ''Invalid score category'')
                    (list_ex (\<lambda>c. scat_id c = bt_category b \<and> scat_active c) (sd_categories db)))
                  (require_that (BadRequest ''Invalid score subcategory'') (valid_subcategory b db))))))"

definition actor_name :: "school_env \<Rightarrow> string \<Rightarrow> string" where
  "actor_name env actor = or_else (env_names env actor) actor"

definition saveScoreSheetBatch :: "school_env \<Rightarrow> string \<Rightarrow> string \<Rightarrow> string list \<Rightarrow> string \<Rightarrow> string list \<Rightarrow> sheet_batch \<Rightarrow>
    sheet_db \<Rightarrow> sheet_response result \<times> sheet_db" where
  "saveScoreSheetBatch env k1 k2 ks actor fresh b db = after_defaults k1 k2 ks db (\<lambda>db1. (case save_check env actor b db1 of
      Inl e \<Rightarrow> (Inl e, db1)
    | Inr _ \<Rightarrow>
        let (r, t) = save_entries actor (actor_name env actor) b [] (bt_entries b) fresh (sd_sheets db1)
        in (map_sum id (\<lambda>ids. Saved ids (batch_status b)) r, db1\<lparr>sd_sheets := t\<rparr>)))"

subsection \<open>Publishing and deleting\<close>

text \<open>The rows are examined in table order; the first offender answers.\<close>

fun publish_rows :: "scope_db \<Rightarrow> string \<Rightarrow> score_sheet list \<Rightarrow> unit result" where
  "publish_rows scope actor [] = Inr ()"
| "publish_rows scope actor (x # xs) =
     and_then (assertTeacherMayAccess scope actor (Some (sh_class x)) (Some (sh_subject x)))
       (and_then (require_that (BadRequest ''Only draft score sheets can be published'') (sh_status x = ''draft''))
          (publish_rows scope actor xs))"

definition publish_check :: "school_env \<Rightarrow> string \<Rightarrow> string list \<Rightarrow> score_sheet list \<Rightarrow> unit result" where
  "publish_check env actor ids t =
     bind_result (academic_roles env actor) (\<lambda>roles.
       and_then (require_that (Forbidden ''Only subject teachers can publish score sheets'') (List.member roles ''subject_teacher''))
         (and_then (require_that (BadRequest ''At least one score sheet is required'') (ids \<noteq> []))
            (let rows = filter (\<lambda>x. List.member ids (sh_id x)) t in
             and_then (require_that (NotFound ''One or more score sheets were not found'') (length rows = length (js_uniq ids)))
               (publish_rows (env_scope env) actor rows))))"

definition publishScoreSheets :: "school_env \<Rightarrow> string \<Rightarrow> string list \<Rightarrow> sheet_db \<Rightarrow> sheet_response result \<times> sheet_db" where
  "publishScoreSheets env actor ids db = (case publish_check env actor ids (sd_sheets db) of
      Inl e \<Rightarrow> (Inl e, db)
    | Inr _ \<Rightarrow>
        let rows = filter (\<lambda>x. List.member ids (sh_id x)) (sd_sheets db)
        in (Inr (Published (length rows) (map sh_id rows)),
            db\<lparr>sd_sheets := tupdate (\<lambda>x. List.member ids (sh_id x)) (\<lambda>x. x\<lparr>sh_status := ''published''\<rparr>) (sd_sheets db)\<rparr>))"

definition delete_check :: "school_env \<Rightarrow> string \<Rightarrow> string \<Rightarrow> score_sheet list \<Rightarrow> unit result" where
  "delete_check env actor k t =
     bind_result (academic_roles env actor) (\<lambda>roles.
       and_then (require_that (Forbidden ''Only subject teachers can delete score sheet drafts'') (List.member roles ''subject_teacher''))
         (case tfind sh_id k t of
            None \<Rightarrow> Inl (NotFound ''Score sheet not found'')
          | Some x \<Rightarrow>
              and_then (assertTeacherMayAccess (env_scope env) actor (Some (sh_class x)) (Some (sh_subject x)))
                (require_that (Forbidden ''Only the recording teacher can delete a draft score sheet'')
                   (sh_status x = ''draft'' \<and> sh_recorder x = actor))))"

definition deleteScoreSheet :: "school_env \<Rightarrow> string \<Rightarrow> string \<Rightarrow> sheet_db \<Rightarrow> sheet_response result \<times> sheet_db" where
  "deleteScoreSheet env actor k db = (case delete_check env actor k (sd_sheets db) of
      Inl e \<Rightarrow> (Inl e, db)
    | Inr _ \<Rightarrow> (Inr (SheetId k), db\<lparr>sd_sheets := tdelete (\<lambda>x. sh_id x = k) (sd_sheets db)\<rparr>))"

subsection \<open>The machine\<close>

datatype sheet_request =
    SheetCategories call string string "string list"
  | CreateCategory call string string "string list" string "string list" category_body
  | UpdateCategory call string "string list" category_body
  | DeleteCategory call string
  | SaveSheets call school_env string string "string list" string "string list" sheet_batch
  | PublishSheets call school_env string "string list"
  | DeleteSheet call school_env string string

fun sheet_step :: "sheet_request \<Rightarrow> sheet_db \<Rightarrow> sheet_response result \<times> sheet_db" where
  "sheet_step (SheetCategories c k1 k2 ks) db = with_tenant c db
     (\<lambda>db. after_defaults k1 k2 ks db (\<lambda>db. (Inr (listScoreSheetCategories db), db)))"
| "sheet_step (CreateCategory c k1 k2 ks fresh subs b) db = with_dto (ScoreSheetCategoryDto b) c db
     (\<lambda>db. after_defaults k1 k2 ks db (createScoreSheetCategory fresh subs b))"
| "sheet_step (UpdateCategory c k ks b) db = with_dto (ScoreSheetCategoryDto b) c db (updateScoreSheetCategory k ks b)"
| "sheet_step (DeleteCategory c k) db = with_tenant c db (deleteScoreSheetCategory k)"
| "sheet_step (SaveSheets c env k1 k2 ks actor fresh b) db = with_dto (ScoreSheetBatchDto b) c db
     (saveScoreSheetBatch env k1 k2 ks actor fresh b)"
| "sheet_step (PublishSheets c env actor ids) db = with_tenant c db (publishScoreSheets env actor ids)"
| "sheet_step (DeleteSheet c env actor k) db = with_tenant c db (deleteScoreSheet env actor k)"


subsection \<open>What every sheet satisfies\<close>

definition sheet_ok :: "score_sheet \<Rightarrow> bool" where
  "sheet_ok x \<longleftrightarrow> sh_status x \<in> {''draft'', ''published''} \<and> 0 < sh_obtainable x \<and>
     (sh_score x = None \<longleftrightarrow> sh_grade x = None) \<and>
     (\<forall>s\<in>set_option (sh_score x). 0 \<le> s \<and> s \<le> sh_obtainable x) \<and> set_option (sh_grade x) \<subseteq> {0..100}"

definition sheets_ok :: "sheet_db \<Rightarrow> bool" where
  "sheets_ok db \<longleftrightarrow> pk sh_id (sd_sheets db) \<and> (\<forall>x\<in>set (sd_sheets db). sheet_ok x)"

lemma grade_range:
  assumes "0 < m" and "0 \<le> s" and "s \<le> m"
  shows "0 \<le> js_round (s / m * 100) \<and> js_round (s / m * 100) \<le> 100"
proof -
  have "0 \<le> s / m" and "s / m \<le> 1" using assms by simp_all
  then show ?thesis by (simp add: js_round_def floor_le_iff zero_le_floor)
qed

lemma round2_positive: "1 / 100 \<le> x \<Longrightarrow> 0 < round2 x"
  using round2_mono [of "1 / 100" x] by (simp add: round2_def)

text \<open>What the new or rewritten row of one entry looks like.\<close>

lemma saved_values_ok:
  assumes "entry_check e = Inr ()" and "ScoreSheetEntryDto e"
    and "sql_score (en_score e) = Some (sh_score x)" and "sql_decimal (en_obtainable e) = Some (sh_obtainable x)"
    and "sh_grade x = calculateScoreSheetGrade (en_score e) (en_obtainable e)" and "sh_status x = batch_status b"
  shows "sheet_ok x"
proof -
  have m: "sh_obtainable x = round2 (en_obtainable e)" "0 < round2 (en_obtainable e)" "0 < en_obtainable e"
    using assms(1,2,4) by (auto simp: sql_decimal_Some ScoreSheetEntryDto_def round2_positive entry_check_def split: if_splits)
  show ?thesis
  proof (cases "en_score e")
    case None
    with assms m show ?thesis by (simp add: sheet_ok_def sql_score_def calculateScoreSheetGrade_def batch_status_def)
  next
    case (Some s)
    with assms(1) have s: "0 \<le> s" "s \<le> en_obtainable e" by (auto simp: entry_check_def split: if_splits)
    from Some assms(3) have score: "sh_score x = Some (round2 s)" by (auto simp: sql_score_def sql_decimal_Some)
    from Some assms(5) m have "sh_grade x = Some (js_round (s / en_obtainable e * 100))" by (simp add: calculateScoreSheetGrade_def)
    with score assms(6) m grade_range [OF m(3) s] s show ?thesis
      by (simp add: sheet_ok_def batch_status_def round2_mono round2_nonneg)
  qed
qed

lemma find_existing_SomeD:
  assumes "find_existing b e t = Some y"
  obtains x where "x \<in> set t" and "fd_id y = sh_id x" and "fd_status y = sh_status x"
    and "existing_check b (Some y) = Inr () \<Longrightarrow> sh_class x = bt_class b \<and> sh_subject x = bt_subject b"
proof (cases "or_null (en_id e)")
  case None
  with assms obtain x where x: "find (same_slot b e) t = Some x" "y = \<lparr>fd_id = sh_id x, fd_status = sh_status x, fd_selection = no_selection\<rparr>"
    by (auto simp: find_existing_def)
  then have "x \<in> set t" "same_slot b e x" by (auto simp: find_Some_iff)
  with x that show thesis by (simp add: same_slot_def)
next
  case (Some k)
  with assms obtain x where x: "tfind sh_id k t = Some x" "y = \<lparr>fd_id = sh_id x, fd_status = sh_status x, fd_selection = sheet_selection x\<rparr>"
    by (auto simp: find_existing_def)
  from tfind_SomeD [OF x(1)] have member: "x \<in> set t" by simp
  have same: "sh_class x = bt_class b \<and> sh_subject x = bt_subject b" if "existing_check b (Some y) = Inr ()"
  proof -
    from that x have "sheet_selection x = batch_selection b" by (simp add: existing_check_def split: if_splits)
    then show ?thesis by (simp add: sheet_selection_def batch_selection_def)
  qed
  show thesis by (rule that [OF member _ _ same]) (simp_all add: x)
qed

text \<open>One entry either fails and writes nothing, or rewrites one sheet that was not published, or adds one.\<close>

lemma save_entry_cases:
  assumes "save_entry actor who b fresh e t = (r, t')" and "ScoreSheetEntryDto e"
  obtains (fails) err where "r = Inl err" "t' = t"
    | (edits) x f where "x \<in> set t" "sh_status x \<noteq> ''published''" "sh_class x = bt_class b" "sh_subject x = bt_subject b"
        "r = Inr (sh_id x)" "t' = tmodify sh_id (sh_id x) f t" "\<And>z. sh_id (f z) = sh_id z" "\<And>z. sheet_ok (f z)"
        "\<And>z. sh_class (f z) = sh_class z \<and> sh_subject (f z) = sh_subject z"
    | (adds) x where "r = Inr fresh" "tinsert sh_id x t = Some t'" "sheet_ok x" "sh_class x = bt_class b" "sh_subject x = bt_subject b"
proof (cases "\<exists>err. r = Inl err")
  case True
  with assms(1) have "t' = t" by (auto simp: save_entry_def Let_def split: sum.splits option.splits)
  with True fails show thesis by blast
next
  case False
  with assms(1) obtain score m where ok: "entry_check e = Inr ()" "existing_check b (find_existing b e t) = Inr ()"
      "sql_score (en_score e) = Some score" "sql_decimal (en_obtainable e) = Some m"
    by (auto simp: save_entry_def Let_def split: sum.splits option.splits)
  have row: "sheet_ok (write_sheet actor who b e score m z)" "sheet_ok (new_sheet actor who b e score m k)" for z k
    by (rule saved_values_ok [OF ok(1) assms(2)], simp_all add: ok write_sheet_def new_sheet_def)+
  show thesis
  proof (cases "find_existing b e t")
    case None
    with assms(1) ok False obtain t2 where "tinsert sh_id (new_sheet actor who b e score m fresh) t = Some t2" "r = Inr fresh" "t' = t2"
      by (auto simp: save_entry_def split: option.splits)
    with row show thesis by (intro adds) (auto simp: new_sheet_def)
  next
    case (Some y)
    then obtain x where x: "x \<in> set t" "fd_id y = sh_id x" "fd_status y = sh_status x"
        "existing_check b (Some y) = Inr () \<Longrightarrow> sh_class x = bt_class b \<and> sh_subject x = bt_subject b"
      by (rule find_existing_SomeD) blast
    from ok Some have "fd_status y \<noteq> ''published''" by (simp add: existing_check_def split: if_splits)
    moreover from Some assms(1) ok have "r = Inr (fd_id y)" "t' = tmodify sh_id (fd_id y) (write_sheet actor who b e score m) t"
      by (simp_all add: save_entry_def)
    ultimately show thesis using x row ok(2) Some
      by (intro edits [of x "write_sheet actor who b e score m"]) (auto simp: write_sheet_def)
  qed
qed


lemma save_entry_ok:
  assumes "save_entry actor who b fresh e t = (r, t')" and "ScoreSheetEntryDto e" and "pk sh_id t" and "\<forall>x\<in>set t. sheet_ok x"
  shows "pk sh_id t' \<and> (\<forall>x\<in>set t'. sheet_ok x)"
  using assms(1,2)
proof (cases rule: save_entry_cases)
  case (edits x f)
  then show ?thesis using assms(3,4) by (auto simp: pk_tmodify elim!: set_tmodifyE)
next
  case (adds x)
  then show ?thesis using assms(3,4) pk_tinsert [OF assms(3) adds(2)] tinsert_SomeD [OF adds(2)] by auto
qed (use assms in simp)

lemma save_entry_published:
  assumes "save_entry actor who b fresh e t = (r, t')" and "ScoreSheetEntryDto e" and "pk sh_id t"
    and "y \<in> set t" and "sh_status y = ''published''"
  shows "y \<in> set t'"
  using assms(1,2)
proof (cases rule: save_entry_cases)
  case (edits x f)
  with assms have "sh_id y \<noteq> sh_id x" by (metis tfind_eqI option.inject)
  with edits assms(4) show ?thesis by (force simp: tmodify_def set_tupdate)
next
  case (adds x)
  then show ?thesis using assms(4) tinsert_SomeD [OF adds(2)] by auto
qed (use assms in simp)

lemma save_entry_new_rows:
  assumes "save_entry actor who b fresh e t = (r, t')" and "ScoreSheetEntryDto e" and "pk sh_id t"
    and "y \<in> set t'" and "y \<notin> set t"
  shows "sh_class y = bt_class b \<and> sh_subject y = bt_subject b"
  using assms(1,2)
proof (cases rule: save_entry_cases)
  case (edits x f)
  from assms(4) obtain z where z: "z \<in> set t" "y = (if sh_id z = sh_id x then f z else z)"
    unfolding edits(6) by (rule set_tmodifyE)
  with assms(5) have "sh_id z = sh_id x" "y = f z" by (auto split: if_splits)
  with edits z assms(3) show ?thesis by (metis tfind_eqI option.inject)
next
  case (adds x)
  then show ?thesis using assms(4,5) tinsert_SomeD [OF adds(2)] by auto
qed (use assms in simp)


subsection \<open>Batches and the machine\<close>

text \<open>What every entry keeps, a batch keeps, also one that fails on the way.\<close>

lemma save_entries_inv:
  assumes "save_entries actor who b saved es ks t = (r, t')" and "list_all ScoreSheetEntryDto es" and "P t"
    and "\<And>k e u s u'. save_entry actor who b k e u = (s, u') \<Longrightarrow> ScoreSheetEntryDto e \<Longrightarrow> P u \<Longrightarrow> P u'"
  shows "P t'"
  using assms
proof (induction actor who b saved es ks t arbitrary: r t' rule: save_entries.induct)
  case (1 actor who b saved e es k ks t)
  obtain s u where one: "save_entry actor who b k e t = (s, u)" by fastforce
  with 1 have "P u" by simp
  with 1 one show ?case by (cases s) auto
qed auto

lemma put_category_sheets [simp]: "sd_sheets (snd (put_category w k ks n s subs db)) = sd_sheets db"
  by (simp add: put_category_def Let_def case_prod_beta split: option.split)

lemma defaults_sheets: "sd_sheets (snd (ensureScoreSheetDefaults k1 k2 ks db)) = sd_sheets db"
  using put_category_sheets [of False k1 ks "''Continuous Assessment''" "''continuous-assessment''" default_subs db]
    put_category_sheets [of False k2 "[]" "''Examination''" "''examination''" "[]"
      "snd (put_category False k1 ks ''Continuous Assessment'' ''continuous-assessment'' default_subs db)"]
  by (auto simp: ensureScoreSheetDefaults_def case_prod_beta split: sum.split prod.split)

lemma after_defaults_sheets:
  obtains "sd_sheets (snd (after_defaults k1 k2 ks db body)) = sd_sheets db"
  | d where "sd_sheets d = sd_sheets db" and "after_defaults k1 k2 ks db body = body d"
proof -
  obtain r d where d: "ensureScoreSheetDefaults k1 k2 ks db = (r, d)" by fastforce
  with defaults_sheets [of k1 k2 ks db] have "sd_sheets d = sd_sheets db" by simp
  with d that show thesis by (cases r) (simp_all add: after_defaults_def)
qed

text \<open>How a request changes the sheet table: not at all, or by an authorised batch, publication or deletion.\<close>

lemma sheet_step_cases:
  obtains (same) "sd_sheets (snd (sheet_step q db)) = sd_sheets db"
  | (save) env actor b fresh r d where "save_check env actor b d = Inr ()" "ScoreSheetBatchDto b"
      "\<exists>c k1 k2 ks. q = SaveSheets c env k1 k2 ks actor fresh b"
      "save_entries actor (actor_name env actor) b [] (bt_entries b) fresh (sd_sheets db) = (r, sd_sheets (snd (sheet_step q db)))"
  | (publish) env actor ids where "publish_check env actor ids (sd_sheets db) = Inr ()" "\<exists>c. q = PublishSheets c env actor ids"
      "sd_sheets (snd (sheet_step q db)) =
         tupdate (\<lambda>x. List.member ids (sh_id x)) (\<lambda>x. x\<lparr>sh_status := ''published''\<rparr>) (sd_sheets db)"
  | (remove) env actor k where "delete_check env actor k (sd_sheets db) = Inr ()"
      "sd_sheets (snd (sheet_step q db)) = tdelete (\<lambda>x. sh_id x = k) (sd_sheets db)"
proof (cases q)
  case (SheetCategories c k1 k2 ks)
  show thesis
    by (rule same, rule after_defaults_sheets [of k1 k2 ks db "\<lambda>db. (Inr (listScoreSheetCategories db), db)"])
      (simp_all add: SheetCategories with_tenant_def)
next
  case (CreateCategory c k1 k2 ks fresh subs b)
  show thesis
    by (rule same, rule after_defaults_sheets [of k1 k2 ks db "createScoreSheetCategory fresh subs b"])
      (simp_all add: CreateCategory with_dto_def with_tenant_def createScoreSheetCategory_def case_prod_beta)
next
  case (UpdateCategory c k ks b)
  then show thesis
    by (intro same) (simp add: with_dto_def with_tenant_def updateScoreSheetCategory_def Let_def case_prod_beta)
next
  case (DeleteCategory c k)
  then show thesis by (intro same) (simp add: with_tenant_def deleteScoreSheetCategory_def)
next
  case (SaveSheets c env k1 k2 ks actor fresh b)
  show thesis
  proof (cases "ScoreSheetBatchDto b \<and> tenant_found c")
    case False
    then show thesis by (intro same) (simp add: SaveSheets with_dto_def with_tenant_def)
  next
    case True
    then have q: "sheet_step q db = saveScoreSheetBatch env k1 k2 ks actor fresh b db"
      by (simp add: SaveSheets with_dto_def with_tenant_def)
    show thesis
    proof (rule after_defaults_sheets [of k1 k2 ks db "\<lambda>db1. (case save_check env actor b db1 of Inl e \<Rightarrow> (Inl e, db1)
        | Inr _ \<Rightarrow> let (r, t) = save_entries actor (actor_name env actor) b [] (bt_entries b) fresh (sd_sheets db1)
                    in (map_sum id (\<lambda>ids. Saved ids (batch_status b)) r, db1\<lparr>sd_sheets := t\<rparr>))"], goal_cases)
      case 1
      then show thesis by (intro same) (simp add: q saveScoreSheetBatch_def)
    next
      case (2 d)
      show thesis
      proof (cases "save_check env actor b d")
        case (Inl e)
        with 2 show thesis by (intro same) (simp add: q saveScoreSheetBatch_def)
      next
        case (Inr u)
        let ?run = "save_entries actor (actor_name env actor) b [] (bt_entries b) fresh (sd_sheets db)"
        from 2 Inr have "sd_sheets (snd (sheet_step q db)) = snd ?run"
          by (simp add: q saveScoreSheetBatch_def Let_def case_prod_beta)
        with True Inr SaveSheets show thesis
          by (intro save [of env actor b d fresh "fst ?run"]) (simp_all del: sheet_step.simps)
      qed
    qed
  qed
next
  case (PublishSheets c env actor ids)
  then show thesis
    by (cases "tenant_found c \<and> publish_check env actor ids (sd_sheets db) = Inr ()")
      (auto simp: with_tenant_def publishScoreSheets_def Let_def intro: same publish split: sum.splits)
next
  case (DeleteSheet c env actor k)
  then show thesis
    by (cases "tenant_found c \<and> delete_check env actor k (sd_sheets db) = Inr ()")
      (auto simp: with_tenant_def deleteScoreSheet_def intro: same remove split: sum.splits)
qed


lemma sheet_ok_publish: "sheet_ok x \<Longrightarrow> sheet_ok (x\<lparr>sh_status := ''published''\<rparr>)"
  by (simp add: sheet_ok_def)

lemma publish_id: "sh_status x = ''published'' \<Longrightarrow> x\<lparr>sh_status := ''published''\<rparr> = x"
  by (cases x) simp

lemma sheets_ok_step: "sheets_ok db \<Longrightarrow> sheets_ok (snd (sheet_step q db))"
proof (cases q db rule: sheet_step_cases)
  case (save env actor b fresh r d)
  assume "sheets_ok db"
  then have "pk sh_id (sd_sheets db) \<and> (\<forall>x\<in>set (sd_sheets db). sheet_ok x)" by (simp add: sheets_ok_def)
  with save_entries_inv [OF save(4), of "\<lambda>t. pk sh_id t \<and> (\<forall>x\<in>set t. sheet_ok x)"] save_entry_ok save(2)
  show ?thesis by (fastforce simp: sheets_ok_def ScoreSheetBatchDto_def)
next
  case (publish env actor ids)
  then show "sheets_ok db \<Longrightarrow> ?thesis"
    unfolding sheets_ok_def publish(3) by (auto simp: pk_tupdate set_tupdate sheet_ok_publish)
next
  case (remove env actor k)
  then show "sheets_ok db \<Longrightarrow> ?thesis" by (auto simp: sheets_ok_def pk_tdelete set_tdelete)
qed (simp add: sheets_ok_def)

definition published_sheet :: "score_sheet \<Rightarrow> sheet_db \<Rightarrow> bool" where
  "published_sheet x db \<longleftrightarrow> sh_status x = ''published'' \<and> x \<in> set (sd_sheets db)"

lemma published_sheet_step: "sheets_ok db \<Longrightarrow> published_sheet x db \<Longrightarrow> published_sheet x (snd (sheet_step q db))"
proof (cases q db rule: sheet_step_cases)
  case (save env actor b fresh r d)
  assume "sheets_ok db" "published_sheet x db"
  then have "pk sh_id (sd_sheets db) \<and> (\<forall>y\<in>set (sd_sheets db). sheet_ok y) \<and> x \<in> set (sd_sheets db)" "sh_status x = ''published''"
    by (simp_all add: sheets_ok_def published_sheet_def)
  note start = this
  have "pk sh_id t \<and> (\<forall>y\<in>set t. sheet_ok y) \<and> x \<in> set t" if "t = sd_sheets (snd (sheet_step q db))" for t
    unfolding that
  proof (rule save_entries_inv [OF save(4)])
    show "list_all ScoreSheetEntryDto (bt_entries b)" using save(2) by (simp add: ScoreSheetBatchDto_def)
  next
    fix k e u s u'
    assume run: "save_entry actor (actor_name env actor) b k e u = (s, u')" "ScoreSheetEntryDto e"
      and "pk sh_id u \<and> (\<forall>y\<in>set u. sheet_ok y) \<and> x \<in> set u"
    then show "pk sh_id u' \<and> (\<forall>y\<in>set u'. sheet_ok y) \<and> x \<in> set u'"
      using save_entry_ok [OF run] save_entry_published [OF run] start(2) by blast
  qed (rule start(1))
  with start(2) show ?thesis by (simp add: published_sheet_def)
next
  case (publish env actor ids)
  assume "published_sheet x db"
  then have "sh_status x = ''published''" "x \<in> set (sd_sheets db)" by (simp_all add: published_sheet_def)
  then have "x \<in> set (tupdate (\<lambda>x. List.member ids (sh_id x)) (\<lambda>x. x\<lparr>sh_status := ''published''\<rparr>) (sd_sheets db))"
    unfolding set_tupdate by (intro image_eqI [of _ _ x]) (simp_all add: publish_id)
  with \<open>sh_status x = ''published''\<close> show ?thesis unfolding published_sheet_def publish(3) by simp
next
  case (remove env actor k)
  assume ok: "sheets_ok db" "published_sheet x db"
  with remove have "sh_id x \<noteq> k"
    by (auto simp: delete_check_def published_sheet_def sheets_ok_def split: option.splits dest: tfind_eqI)
  with remove ok show ?thesis by (simp add: published_sheet_def set_tdelete)
qed (simp add: published_sheet_def)

interpretation sheets: stable_machine sheet_step sheets_ok "published_sheet x" for x
  by unfold_locales (rule sheets_ok_step published_sheet_step; assumption)+

lemma publish_rows_ok:
  "publish_rows scope actor xs = Inr () \<Longrightarrow> x \<in> set xs \<Longrightarrow>
     assertTeacherMayAccess scope actor (Some (sh_class x)) (Some (sh_subject x)) = Inr () \<and> sh_status x = ''draft''"
  by (induction xs) auto

fun sheet_actor :: "sheet_request \<Rightarrow> (school_env \<times> string) option" where
  "sheet_actor (SaveSheets c env k1 k2 ks actor fresh b) = Some (env, actor)"
| "sheet_actor (PublishSheets c env actor ids) = Some (env, actor)"
| "sheet_actor _ = None"

subsection \<open>Properties\<close>

text \<open>C34: Marks: over every sequence of requests a stored sheet has a positive obtainable score, and either no
  score and no grade, or a score between zero and the obtainable score and a grade between 0 and 100.\<close>

theorem score_sheets_sound:
  "let t = sd_sheets (run_reqs sheet_step qs \<lparr>sd_categories = [], sd_subcategories = [], sd_sheets = []\<rparr>)
   in distinct (map sh_id t) \<and>
      list_all (\<lambda>x. 0 < sh_obtainable x \<and> (case (sh_score x, sh_grade x) of
          (None, None) \<Rightarrow> True
        | (Some s, Some g) \<Rightarrow> 0 \<le> s \<and> s \<le> sh_obtainable x \<and> 0 \<le> g \<and> g \<le> 100
        | _ \<Rightarrow> False)) t"
proof -
  have "sheets_ok \<lparr>sd_categories = [], sd_subcategories = [], sd_sheets = []\<rparr>" by (simp add: sheets_ok_def)
  from sheets.run_inv [OF this, of qs] show ?thesis
    by (auto simp: Let_def sheets_ok_def pk_def list_all_iff sheet_ok_def split: option.split)
qed

text \<open>C33: A published sheet is final: whatever requests follow, it stays in the table as it was published.\<close>

theorem published_sheet_final:
  assumes "x \<in> set (sd_sheets (run_reqs sheet_step qs \<lparr>sd_categories = [], sd_subcategories = [], sd_sheets = []\<rparr>))"
    and "sh_status x = ''published''"
  shows "x \<in> set (sd_sheets (run_reqs sheet_step (qs @ later) \<lparr>sd_categories = [], sd_subcategories = [], sd_sheets = []\<rparr>))"
proof -
  have "sheets_ok \<lparr>sd_categories = [], sd_subcategories = [], sd_sheets = []\<rparr>" by (simp add: sheets_ok_def)
  from sheets.run_mark [OF sheets.run_inv [OF this, of qs], of x later] assms show ?thesis
    by (simp add: published_sheet_def)
qed

text \<open>A sheet that a request writes belongs to a class and a subject the acting teacher may access, and the
  actor holds the role of a subject teacher.\<close>

theorem sheet_writes_authorised:
  assumes "pk sh_id (sd_sheets db)" and "x \<in> set (sd_sheets (snd (sheet_step q db)))" and "x \<notin> set (sd_sheets db)"
  shows "\<exists>env actor roles. sheet_actor q = Some (env, actor) \<and> academic_roles env actor = Inr roles \<and>
    ''subject_teacher'' \<in> set roles \<and>
    assertTeacherMayAccess (env_scope env) actor (Some (sh_class x)) (Some (sh_subject x)) = Inr ()"
proof (cases q db rule: sheet_step_cases)
  case (save env actor b fresh r d)
  let ?P = "\<lambda>t. pk sh_id t \<and> (\<forall>y\<in>set t. y \<in> set (sd_sheets db) \<or> sh_class y = bt_class b \<and> sh_subject y = bt_subject b)"
  have "?P (sd_sheets (snd (sheet_step q db)))"
  proof (rule save_entries_inv [OF save(4)])
    show "list_all ScoreSheetEntryDto (bt_entries b)" using save(2) by (simp add: ScoreSheetBatchDto_def)
  next
    fix k e u s u'
    assume run: "save_entry actor (actor_name env actor) b k e u = (s, u')" "ScoreSheetEntryDto e" and u: "?P u"
    then have "pk sh_id u'" by (cases rule: save_entry_cases) (auto simp: pk_tmodify pk_tinsert)
    with save_entry_new_rows [OF run] u show "?P u'" by blast
  qed (simp add: assms(1))
  with assms(2,3) have "sh_class x = bt_class b" "sh_subject x = bt_subject b" by auto
  with save(1,3) show ?thesis by (auto simp: save_check_def)
next
  case (publish env actor ids)
  from assms(2) obtain z where "z \<in> set (sd_sheets db)"
      "x = (if List.member ids (sh_id z) then z\<lparr>sh_status := ''published''\<rparr> else z)"
    unfolding publish(3) by (rule set_tupdateE)
  with assms(3) have z: "z \<in> set (filter (\<lambda>x. List.member ids (sh_id x)) (sd_sheets db))" "x = z\<lparr>sh_status := ''published''\<rparr>"
    by (auto split: if_splits)
  from publish(1) obtain roles where roles: "academic_roles env actor = Inr roles" "List.member roles ''subject_teacher''"
      "publish_rows (env_scope env) actor (filter (\<lambda>x. List.member ids (sh_id x)) (sd_sheets db)) = Inr ()"
    by (auto simp: publish_check_def Let_def)
  from publish_rows_ok [OF roles(3) z(1)] z(2) roles publish(2) show ?thesis by auto
next
  case (remove env actor k)
  with assms show ?thesis by (simp add: set_tdelete)
qed (use assms in simp)

definition sample_env :: school_env where
  "sample_env = \<lparr>env_scope = nobody\<lparr>user_roles := [''t'' \<mapsto> JArray [''subject_teacher'']], subject_links := [(''t'', ''maths'')],
      subject_rows := [(''maths'', JArray [''c1''])]\<rparr>, env_levels = Map.empty, env_names = Map.empty,
     env_class_levels = [''c1'' \<mapsto> None], env_subject_levels = [''maths'' \<mapsto> None]\<rparr>"

definition sample_save :: "string \<Rightarrow> sheet_request" where
  "sample_save status = SaveSheets \<lparr>feature_on = True, tenant_found = True\<rparr> sample_env ''k1'' ''k2'' [''a'', ''b'', ''d''] ''t'' [''sh1'']
     \<lparr>bt_session = ''s'', bt_term = ''1'', bt_class = ''c1'', bt_subject = ''maths'', bt_category = ''k2'', bt_subcategory = None,
      bt_status = Some status, bt_entries = [\<lparr>en_id = None, en_student = ''p'', en_score = Some 30, en_obtainable = 40\<rparr>]\<rparr>"

definition sample_sheet :: "string \<Rightarrow> score_sheet" where
  "sample_sheet status = \<lparr>sh_id = ''sh1'', sh_session = ''s'', sh_term = ''1'', sh_class = ''c1'', sh_student = ''p'', sh_subject = ''maths'',
     sh_category = ''k2'', sh_subcategory = None, sh_score = Some 30, sh_obtainable = 40, sh_grade = Some 75, sh_status = status,
     sh_recorder = ''t'', sh_recordedBy = ''t''\<rparr>"

lemma sample_run: "sd_sheets (snd (sheet_step (sample_save ''published'') \<lparr>sd_categories = [], sd_subcategories = [], sd_sheets = []\<rparr>)) =
    [sample_sheet ''published'']"
  by code_simp

theorem published_sheet_final_witness:
  "sample_sheet ''published'' \<in> set (sd_sheets (run_reqs sheet_step [sample_save ''published'', sample_save ''draft'',
     DeleteSheet \<lparr>feature_on = True, tenant_found = True\<rparr> sample_env ''t'' ''sh1'']
     \<lparr>sd_categories = [], sd_subcategories = [], sd_sheets = []\<rparr>))"
  using published_sheet_final [of "sample_sheet ''published''" "[sample_save ''published'']"
      "[sample_save ''draft'', DeleteSheet \<lparr>feature_on = True, tenant_found = True\<rparr> sample_env ''t'' ''sh1'']"]
  by (simp del: sheet_step.simps add: sample_run sample_sheet_def)

theorem sheet_writes_authorised_witness:
  "\<exists>env actor roles. sheet_actor (sample_save ''published'') = Some (env, actor) \<and> academic_roles env actor = Inr roles \<and>
     ''subject_teacher'' \<in> set roles \<and> assertTeacherMayAccess (env_scope env) actor (Some ''c1'') (Some ''maths'') = Inr ()"
  using sheet_writes_authorised [of "\<lparr>sd_categories = [], sd_subcategories = [], sd_sheets = []\<rparr>" "sample_sheet ''published''"
      "sample_save ''published''"]
  by (simp del: sheet_step.simps add: sample_run) (simp add: sample_sheet_def)

text \<open>A draft cannot be saved again by its selection: without the identifier the lookup returns no selection
  columns, and the comparison refuses the sheet it has just found.\<close>

lemma resave_without_id_refused:
  assumes "find (same_slot b e) t = Some x" and "or_null (en_id e) = None" and "bt_session b \<noteq> ''undefined''"
    and "entry_check e = Inr ()"
  shows "save_entry actor who b fresh e t = (Inl (Forbidden ''Score sheet does not belong to this selection''), t)"
  using assms by (simp add: save_entry_def find_existing_def existing_check_def no_selection_def batch_selection_def)

end
