(* ===== verification/Results.thy ===== *)
theory Results
  imports ScoreSheets
begin

section \<open>Results of a term\<close>

text \<open>
  The rows of \<open>academic_results\<close> in \<open>academic/academic.service.ts\<close>: \<open>upsertResult\<close> with the automatic total
  and the enrolment it adds, the two approvals, \<open>deleteResult\<close>, and what \<open>listResults\<close> and the
  summary show to whom; then the ranking of a class by its approved results
  (\<open>academic/term-ranking.service.ts\<close>, \<open>academic/report-cards.service.ts\<close>).  In a body the outer option is
  \<open>undefined\<close>, the inner one \<open>null\<close>.  The grading matrix is an argument: whether its feature is on and
  what \<open>get\<close> answers.  The list cache in front of \<open>listResults\<close> is the subject of \<open>ListCache\<close>.
\<close>

record academic_result =
  ar_id :: string
  ar_student :: "string option"
  ar_class :: string
  ar_subject :: string
  ar_term :: string
  ar_ca :: "rat option"
  ar_exam :: "rat option"
  ar_total :: "rat option"
  ar_grade :: "string option"
  ar_status :: string
  ar_comment :: "string option"
  ar_approvedBy :: "string option"
  ar_approvedAt :: "int option"
  ar_createdAt :: int
  ar_updatedAt :: int

record enrolment =
  enr_id :: string
  enr_student :: string
  enr_class :: string

record result_db =
  rs_results :: "academic_result list"
  rs_enrolments :: "enrolment list"

record result_body =
  rb_student :: "string option option"
  rb_class :: "string option"
  rb_subject :: "string option"
  rb_term :: "string option"
  rb_ca :: "rat option option"
  rb_exam :: "rat option option"
  rb_total :: "rat option option"
  rb_grade :: "string option option"
  rb_status :: "string option"

record matrix_view =
  mv_enabled :: bool
  mv_matrix :: "grading_matrix option"

datatype result_response =
    ResultId string
  | Approved string
  | ApprovedBatch nat "string list"
  | ResultList "academic_result list"

subsection \<open>Request classes\<close>

definition optional :: "('a \<Rightarrow> bool) \<Rightarrow> 'a option option \<Rightarrow> bool" where
  "optional ok x = (case x of Some (Some v) \<Rightarrow> ok v | _ \<Rightarrow> True)"

definition mark_range :: "rat \<Rightarrow> bool" where
  "mark_range v \<longleftrightarrow> 0 \<le> v \<and> v \<le> 100"

definition common_fields :: "result_body \<Rightarrow> bool" where
  "common_fields b \<longleftrightarrow> optional mark_range (rb_ca b) \<and> optional mark_range (rb_exam b) \<and> optional mark_range (rb_total b) \<and>
     optional (\<lambda>g. length g \<le> 8) (rb_grade b) \<and> if_given (List.member [''draft'', ''submitted'']) (rb_status b)"

definition UpsertResultDto :: "result_body \<Rightarrow> bool" where
  "UpsertResultDto b \<longleftrightarrow> truthy (rb_class b) \<and> truthy (rb_subject b) \<and> truthy (rb_term b) \<and> common_fields b"

definition UpdateResultDto :: "result_body \<Rightarrow> bool" where
  "UpdateResultDto b \<longleftrightarrow> if_given (\<lambda>s. s \<noteq> []) (rb_class b) \<and> if_given (\<lambda>s. s \<noteq> []) (rb_subject b) \<and>
     if_given (\<lambda>s. s \<noteq> []) (rb_term b) \<and> common_fields b"

subsection \<open>Writing a result\<close>

definition nullish :: "'a option option \<Rightarrow> 'a option" where
  "nullish x = (case x of Some v \<Rightarrow> v | None \<Rightarrow> None)"

definition result_or_throw :: "string \<Rightarrow> result_db \<Rightarrow> academic_result result" where
  "result_or_throw k db = (case tfind ar_id k (rs_results db) of None \<Rightarrow> Inl (NotFound ''Result not found'') | Some x \<Rightarrow> Inr x)"

text \<open>The checks before a result is written: the level of the actor, and a teacher's scope for the class and
  the subject the row will have.\<close>

definition upsert_check :: "school_env \<Rightarrow> string option \<Rightarrow> string option \<Rightarrow> result_body \<Rightarrow> result_db \<Rightarrow> unit result" where
  "upsert_check env actor k b db =
     and_then (assertActorSchoolLevel env actor (rb_class b) (rb_subject b))
       (and_then
          (if \<not> truthy actor then Inr ()
           else bind_result (case k of None \<Rightarrow> Inr None | Some i \<Rightarrow> map_sum id Some (result_or_throw i db)) (\<lambda>existing.
             assertTeacherMayAccess (env_scope env) (the actor)
               (case rb_class b of Some c \<Rightarrow> Some c | None \<Rightarrow> map_option ar_class existing)
               (case rb_subject b of Some s \<Rightarrow> Some s | None \<Rightarrow> map_option ar_subject existing)))
          (require_that (BadRequest ''Use the approve endpoint to approve results'') (rb_status b \<noteq> Some ''approved'')))"

definition requested_status :: "result_body \<Rightarrow> string option" where
  "requested_status b = (if rb_status b = Some ''submitted'' then Some ''submitted''
     else if rb_status b = Some ''draft'' then Some ''draft'' else None)"

text \<open>The grade column takes eight characters.\<close>

definition sql_grade :: "string option \<Rightarrow> string option option" where
  "sql_grade g = (if length (or_else g []) \<le> 8 then Some (or_null g) else None)"

text \<open>Total and grade of a new result.\<close>

definition new_marks :: "matrix_view \<Rightarrow> result_body \<Rightarrow> rat option \<times> string option" where
  "new_marks gm b =
     (let total = nullish (rb_total b); grade = or_null (nullish (rb_grade b)) in
      if nullish (rb_ca b) = None \<and> nullish (rb_exam b) = None then (total, grade)
      else let (ctotal, cgrade) = computeTotal (mv_enabled gm) (mv_matrix gm) (nullish (rb_ca b)) (nullish (rb_exam b))
           in (if rb_total b = None \<and> ctotal \<noteq> None then ctotal else total,
               if grade = None \<and> truthy cgrade then cgrade else grade))"

definition ensureStudentClassEnrollment :: "string \<Rightarrow> string \<Rightarrow> string \<Rightarrow> enrolment list \<Rightarrow> enrolment list option" where
  "ensureStudentClassEnrollment fresh studentId classId t =
     (if list_ex (\<lambda>e. enr_student e = studentId \<and> enr_class e = classId) t then Some t
      else tinsert enr_id \<lparr>enr_id = fresh, enr_student = studentId, enr_class = classId\<rparr> t)"

text \<open>The enrolment that follows the write of a result.\<close>

definition then_enrol :: "string \<Rightarrow> string option \<Rightarrow> string \<Rightarrow> result_response \<Rightarrow> result_db \<Rightarrow> result_response result \<times> result_db" where
  "then_enrol fresh student classId answer db =
     (if \<not> truthy student \<or> classId = [] then (Inr answer, db)
      else (case ensureStudentClassEnrollment fresh (the student) classId (rs_enrolments db) of
          None \<Rightarrow> (Inl DbError, db)
        | Some t \<Rightarrow> (Inr answer, db\<lparr>rs_enrolments := t\<rparr>)))"

type_synonym marks = "rat option \<times> rat option \<times> rat option \<times> string option"  \<comment> \<open>CA, examination, total, grade\<close>

text \<open>What the columns make of the marks; \<open>None\<close> is an SQL error.\<close>

definition stored_marks :: "marks \<Rightarrow> marks option" where
  "stored_marks = (\<lambda>(ca, ex, total, grade).
     (case (sql_score ca, sql_score ex, sql_score total, sql_grade grade) of
        (Some ca', Some ex', Some tot, Some g) \<Rightarrow> Some (ca', ex', tot, g)
      | _ \<Rightarrow> None))"

definition new_result :: "int \<Rightarrow> string \<Rightarrow> result_body \<Rightarrow> marks \<Rightarrow> academic_result" where
  "new_result now fresh b = (\<lambda>(ca, ex, total, grade).
     \<lparr>ar_id = fresh, ar_student = or_null (nullish (rb_student b)), ar_class = or_else (rb_class b) [],
      ar_subject = or_else (rb_subject b) [], ar_term = or_else (rb_term b) [], ar_ca = ca, ar_exam = ex, ar_total = total,
      ar_grade = grade, ar_status = or_else (requested_status b) ''draft'', ar_comment = None, ar_approvedBy = None,
      ar_approvedAt = None, ar_createdAt = now, ar_updatedAt = now\<rparr>)"

definition createResult :: "matrix_view \<Rightarrow> int \<Rightarrow> string \<Rightarrow> string \<Rightarrow> result_body \<Rightarrow> result_db \<Rightarrow> result_response result \<times> result_db" where
  "createResult gm now fresh enr b db =
     (let (total, grade) = new_marks gm b in
      case stored_marks (nullish (rb_ca b), nullish (rb_exam b), total, grade) of
        None \<Rightarrow> (Inl DbError, db)
      | Some cells \<Rightarrow>
          (case tinsert ar_id (new_result now fresh b cells) (rs_results db) of
             None \<Rightarrow> (Inl DbError, db)
           | Some t \<Rightarrow> then_enrol enr (nullish (rb_student b)) (or_else (rb_class b) []) (ResultId fresh) (db\<lparr>rs_results := t\<rparr>)))"

text \<open>The marks an update stores: the fields of the body over those of the row, and a new total when a mark
  was sent without one.\<close>

definition merged_marks :: "matrix_view \<Rightarrow> result_body \<Rightarrow> academic_result \<Rightarrow> marks" where
  "merged_marks gm b old =
     (let ca = given (rb_ca b) (ar_ca old); ex = given (rb_exam b) (ar_exam old);
          total = given (rb_total b) (ar_total old); grade = given (rb_grade b) (ar_grade old) in
      if (rb_ca b \<noteq> None \<or> rb_exam b \<noteq> None) \<and> rb_total b = None
      then let (ctotal, cgrade) = computeTotal (mv_enabled gm) (mv_matrix gm) ca ex
           in (ca, ex, if ctotal \<noteq> None then ctotal else total,
               if \<not> truthy (nullish (rb_grade b)) \<and> truthy cgrade then cgrade else grade)
      else (ca, ex, total, grade))"

definition merge_result :: "int \<Rightarrow> result_body \<Rightarrow> academic_result \<Rightarrow> marks \<Rightarrow> academic_result \<Rightarrow> academic_result" where
  "merge_result now b old = (\<lambda>(ca, ex, total, grade) x.
     x\<lparr>ar_student := or_null (given (rb_student b) (ar_student old)), ar_class := given (rb_class b) (ar_class old),
       ar_subject := given (rb_subject b) (ar_subject old), ar_term := given (rb_term b) (ar_term old), ar_ca := ca,
       ar_exam := ex, ar_total := total, ar_grade := grade, ar_status := given (requested_status b) (ar_status old),
       ar_updatedAt := now\<rparr>)"

definition updateResult :: "matrix_view \<Rightarrow> int \<Rightarrow> string \<Rightarrow> string \<Rightarrow> result_body \<Rightarrow> result_db \<Rightarrow> result_response result \<times> result_db" where
  "updateResult gm now k enr b db = (case result_or_throw k db of
      Inl e \<Rightarrow> (Inl e, db)
    | Inr old \<Rightarrow>
        (case stored_marks (merged_marks gm b old) of
           None \<Rightarrow> (Inl DbError, db)
         | Some cells \<Rightarrow>
             then_enrol enr (given (rb_student b) (ar_student old)) (given (rb_class b) (ar_class old)) (ResultId k)
               (db\<lparr>rs_results := tmodify ar_id k (merge_result now b old cells) (rs_results db)\<rparr>)))"

definition upsertResult :: "school_env \<Rightarrow> matrix_view \<Rightarrow> int \<Rightarrow> string \<Rightarrow> string \<Rightarrow> string option \<Rightarrow> string option \<Rightarrow> result_body \<Rightarrow>
    result_db \<Rightarrow> result_response result \<times> result_db" where
  "upsertResult env gm now fresh enr actor k b db = (case upsert_check env actor k b db of
      Inl e \<Rightarrow> (Inl e, db)
    | Inr _ \<Rightarrow> (case k of
          None \<Rightarrow> createResult gm now fresh enr b db
        | Some i \<Rightarrow> updateResult gm now i enr b db))"

subsection \<open>Approval\<close>

definition approvable :: "string \<Rightarrow> bool" where
  "approvable status \<longleftrightarrow> status = ''submitted'' \<or> status = ''draft''"

definition approveResult :: "int \<Rightarrow> string \<Rightarrow> string option \<Rightarrow> string option \<Rightarrow> result_db \<Rightarrow> result_response result \<times> result_db" where
  "approveResult now k approver comment db = (case result_or_throw k db of
      Inl e \<Rightarrow> (Inl e, db)
    | Inr old \<Rightarrow>
        let status = (if ar_status old = [] then ''draft'' else ar_status old) in
        if status = ''approved'' then (Inr (Approved k), db)
        else if \<not> approvable status then (Inl (BadRequest ''Cannot approve result with this status''), db)
        else (Inr (Approved k), db\<lparr>rs_results := tmodify ar_id k (\<lambda>x. x\<lparr>ar_status := ''approved'',
               ar_comment := or_null (map_option trim comment), ar_approvedBy := or_null approver, ar_approvedAt := Some now, ar_updatedAt := now\<rparr>)
               (rs_results db)\<rparr>))"

record batch_filter =
  bf_student :: "string option"
  bf_class :: "string option"
  bf_term :: "string option"

definition asked_for :: "string option \<Rightarrow> string option \<Rightarrow> bool" where
  "asked_for wanted v = (case or_null wanted of None \<Rightarrow> True | Some w \<Rightarrow> v = Some w)"

definition batch_matches :: "batch_filter \<Rightarrow> academic_result \<Rightarrow> bool" where
  "batch_matches f x \<longleftrightarrow> approvable (ar_status x) \<and> asked_for (bf_student f) (ar_student x) \<and>
     asked_for (bf_class f) (Some (ar_class x)) \<and> asked_for (bf_term f) (Some (ar_term x))"

definition approveResultsBatch :: "int \<Rightarrow> batch_filter \<Rightarrow> result_db \<Rightarrow> result_response result \<times> result_db" where
  "approveResultsBatch now f db =
     (if \<not> truthy (bf_student f) \<and> \<not> truthy (bf_class f) \<and> \<not> truthy (bf_term f)
      then (Inl (BadRequest ''Provide at least one of studentId, classId, or termId''), db)
      else let matching = filter (batch_matches f) (rs_results db)
           in (Inr (ApprovedBatch (length matching) (map ar_id matching)),
               db\<lparr>rs_results := tupdate (batch_matches f) (\<lambda>x. x\<lparr>ar_status := ''approved'', ar_updatedAt := now\<rparr>) (rs_results db)\<rparr>))"

definition deleteResult :: "string \<Rightarrow> result_db \<Rightarrow> result_response result \<times> result_db" where
  "deleteResult k db = (Inr (ResultId k), db\<lparr>rs_results := tdelete (\<lambda>x. ar_id x = k) (rs_results db)\<rparr>)"

subsection \<open>Who sees which results\<close>

definition filterByActorSchoolLevel :: "school_env \<Rightarrow> string option \<Rightarrow> ('r \<Rightarrow> string option) \<Rightarrow> 'r list \<Rightarrow> 'r list result" where
  "filterByActorSchoolLevel env actor level rows = map_sum id
     (\<lambda>l. if truthy l then filter (\<lambda>r. schoolLevelMatches (the l) (level r)) rows else rows) (getActorSchoolLevel env actor)"

definition filterStudentParentResults :: "school_env \<Rightarrow> string option \<Rightarrow> ('r \<Rightarrow> string option) \<Rightarrow> 'r list \<Rightarrow> 'r list result" where
  "filterStudentParentResults env actor student rows =
     (if \<not> truthy actor then Inr rows
      else bind_result (academic_roles env (the actor)) (\<lambda>roles.
        if \<not> List.member roles ''student'' \<and> \<not> List.member roles ''parent'' then Inr rows
        else let visible = (if List.member roles ''student'' then [the actor]
                            else map snd (filter (\<lambda>l. fst l = the actor) (parent_links (env_scope env))))
             in Inr (filter (\<lambda>r. case student r of None \<Rightarrow> List.member visible ''null'' | Some s \<Rightarrow> List.member visible s) rows)))"

definition class_level :: "school_env \<Rightarrow> string \<Rightarrow> string option" where
  "class_level env c = (case env_class_levels env c of Some l \<Rightarrow> l | None \<Rightarrow> None)"

definition teacher_rows :: "school_env \<Rightarrow> string \<Rightarrow> academic_result list \<Rightarrow> academic_result list result" where
  "teacher_rows env actor rows =
     (let scope = getTeacherScope (env_scope env) actor in
      bind_result (academic_roles env actor) (\<lambda>roles.
        if \<not> isTeacher scope \<or> hasAcademicManagementRole roles then Inr rows
        else Inr (filter (\<lambda>r. List.member (classIds scope) (ar_class r) \<or> List.member (subjectIds scope) (ar_subject r)) rows)))"

definition listResults :: "school_env \<Rightarrow> string option \<Rightarrow> result_db \<Rightarrow> academic_result list result" where
  "listResults env actor db =
     bind_result (filterStudentParentResults env actor ar_student (newest ar_createdAt 500 (rs_results db))) (\<lambda>rows.
       bind_result (filterByActorSchoolLevel env actor (\<lambda>r. class_level env (ar_class r)) rows) (\<lambda>levelScoped.
         if \<not> truthy actor then Inr levelScoped else teacher_rows env (the actor) levelScoped))"

definition APPROVERS :: "string list" where
  "APPROVERS = [''principal'', ''head_teacher'', ''director'', ''school_admin'']"

definition pendingApproval :: "school_env \<Rightarrow> string \<Rightarrow> result_db \<Rightarrow> academic_result list result" where
  "pendingApproval env actor db = bind_result (academic_roles env actor) (\<lambda>roles.
     if \<not> has_any_role roles APPROVERS then Inr []
     else Inr (newest ar_updatedAt 200 (filter (\<lambda>r. ar_status r = ''submitted'') (rs_results db))))"

subsection \<open>The machine\<close>

datatype result_request =
    CreateResult call school_env matrix_view int string string "string option" result_body
  | UpdateResult call school_env matrix_view int string string "string option" result_body
  | ApproveResult call int string "string option" "string option"
  | ApproveBatch call int batch_filter
  | DeleteResult call string
  | ListResults call school_env "string option"
  | PendingApproval call school_env string

fun result_step :: "result_request \<Rightarrow> result_db \<Rightarrow> result_response result \<times> result_db" where
  "result_step (CreateResult c env gm now fresh enr actor b) db =
     with_dto (UpsertResultDto b) c db (upsertResult env gm now fresh enr actor None b)"
| "result_step (UpdateResult c env gm now k enr actor b) db =
     with_dto (UpdateResultDto b) c db (upsertResult env gm now [] enr actor (Some k) b)"
| "result_step (ApproveResult c now k approver comment) db = with_tenant c db (approveResult now k approver comment)"
| "result_step (ApproveBatch c now f) db = with_tenant c db (approveResultsBatch now f)"
| "result_step (DeleteResult c k) db = with_tenant c db (deleteResult k)"
| "result_step (ListResults c env actor) db = with_tenant c db (\<lambda>db. (map_sum id ResultList (listResults env actor db), db))"
| "result_step (PendingApproval c env actor) db = with_tenant c db (\<lambda>db. (map_sum id ResultList (pendingApproval env actor db), db))"


subsection \<open>The ranking of a class\<close>

text \<open>\<open>GROUP BY student_id\<close> over the approved results of a class and term that have a total.  The query
  also reads a column \<open>full_name\<close>, for the display name.\<close>

definition ranked_results :: "string \<Rightarrow> string \<Rightarrow> academic_result list \<Rightarrow> academic_result list" where
  "ranked_results classId termId t =
     filter (\<lambda>r. ar_class r = classId \<and> ar_term r = termId \<and> ar_status r = ''approved'' \<and> ar_total r \<noteq> None) t"

record rank_row =
  rk_student :: "string option"
  rk_count :: nat
  rk_sum :: rat
  rk_avg :: rat

definition group_row :: "academic_result list \<Rightarrow> string option \<Rightarrow> rank_row" where
  "group_row rows s =
     (let totals = map (\<lambda>r. the (ar_total r)) (filter (\<lambda>r. ar_student r = s) rows)
      in \<lparr>rk_student = s, rk_count = length totals, rk_sum = sum_list totals, rk_avg = sum_list totals / of_nat (length totals)\<rparr>)"

definition rank_groups :: "string \<Rightarrow> string \<Rightarrow> academic_result list \<Rightarrow> rank_row list" where
  "rank_groups classId termId t =
     (let rows = ranked_results classId termId t
      in sort_key (\<lambda>r. - rk_avg r) (map (group_row rows) (js_uniq (map ar_student rows))))"

definition competitionPosition :: "rank_row list \<Rightarrow> nat \<Rightarrow> nat" where
  "competitionPosition rows index =
     (if index = 0 then 1 else length (filter (\<lambda>r. rk_avg (rows ! index) < rk_avg r) (take index rows)) + 1)"

record ranked =
  rd_position :: nat
  rd_student :: "string option"
  rd_subjectCount :: nat
  rd_average :: rat
  rd_total :: rat

definition rankClass :: "string \<Rightarrow> string \<Rightarrow> academic_result list \<Rightarrow> ranked list" where
  "rankClass classId termId t =
     (let rows = rank_groups classId termId t
      in map (\<lambda>i. \<lparr>rd_position = competitionPosition rows i, rd_student = rk_student (rows ! i), rd_subjectCount = rk_count (rows ! i),
                  rd_average = round2 (rk_avg (rows ! i)), rd_total = round2 (rk_sum (rows ! i))\<rparr>) [0..<length rows])"

text \<open>The report card: the approved results of a pupil in a term, the average of their totals and, when ranking
  is on, the place in the class of the first result.  The query sorts by the subject's name; the rows of \<open>t\<close>
  are taken in that order.\<close>

record report_card =
  rc_subjects :: "academic_result list"
  rc_average :: rat
  rc_position :: "nat option"
  rc_classSize :: "nat option"
  rc_comment :: "string option"

definition student_position :: "string \<Rightarrow> rank_row list \<Rightarrow> nat option" where
  "student_position studentId ranks =
     map_option (competitionPosition ranks) (find (\<lambda>i. rk_student (ranks ! i) = Some studentId) [0..<length ranks])"

definition report_data :: "bool \<Rightarrow> string \<Rightarrow> string \<Rightarrow> academic_result list \<Rightarrow> report_card" where
  "report_data rankingOn studentId termId t =
     (let rows = filter (\<lambda>r. ar_student r = Some studentId \<and> ar_term r = termId \<and> ar_status r = ''approved'') t;
          total = sum_list (map (\<lambda>r. case ar_total r of Some v \<Rightarrow> v | None \<Rightarrow> 0) rows);
          avg = (if rows = [] then 0 else total / of_nat (length rows));
          ranks = (if rankingOn \<and> rows \<noteq> [] \<and> ar_class (hd rows) \<noteq> [] then Some (rank_groups (ar_class (hd rows)) termId t) else None)
      in \<lparr>rc_subjects = rows, rc_average = round2 avg, rc_position = Option.bind ranks (student_position studentId),
          rc_classSize = map_option length ranks,
          rc_comment = (case find (\<lambda>r. truthy (ar_comment r)) rows of None \<Rightarrow> None | Some r \<Rightarrow> ar_comment r)\<rparr>)"


subsection \<open>Facts\<close>

fun is_approval :: "result_request \<Rightarrow> bool" where
  "is_approval (ApproveResult _ _ _ _ _) = True"
| "is_approval (ApproveBatch _ _ _) = True"
| "is_approval _ = False"

text \<open>How a request other than an approval changes the results: it adds a draft or submitted row, rewrites a
  row with its status kept or set to one of the two, or deletes rows.\<close>

lemma then_enrol_results [simp]: "rs_results (snd (then_enrol k s c a db)) = rs_results db"
  by (simp add: then_enrol_def split: option.split)

lemma requested_status_values: "requested_status b = Some s \<Longrightarrow> s = ''submitted'' \<or> s = ''draft''"
  by (auto simp: requested_status_def split: if_splits)

lemma createResult_cases:
  obtains "rs_results (snd (createResult gm now fresh enr b db)) = rs_results db"
  | cells where "rs_results (snd (createResult gm now fresh enr b db)) = rs_results db @ [new_result now fresh b cells]"
      and "fresh \<notin> ar_id ` set (rs_results db)"
proof -
  obtain total grade where m: "new_marks gm b = (total, grade)" by fastforce
  have [simp]: "ar_id (new_result now fresh b cells) = fresh" for cells
    by (simp add: new_result_def case_prod_beta)
  show thesis
  proof (cases "stored_marks (nullish (rb_ca b), nullish (rb_exam b), total, grade)")
    case None
    with m show thesis by (intro that(1)) (simp add: createResult_def)
  next
    case cells: (Some cells)
    show thesis
    proof (cases "tinsert ar_id (new_result now fresh b cells) (rs_results db)")
      case None
      with m cells show thesis by (intro that(1)) (simp add: createResult_def)
    next
      case (Some t)
      with m cells tinsert_SomeD [OF Some] show thesis by (intro that(2) [of cells]) (simp_all add: createResult_def)
    qed
  qed
qed

lemma new_result_status: "ar_status (new_result now fresh b cells) \<noteq> ''approved''"
  by (cases "requested_status b") (auto simp: new_result_def or_else_def case_prod_beta dest: requested_status_values)

lemma updateResult_cases:
  obtains "rs_results (snd (updateResult gm now k enr b db)) = rs_results db"
  | old cells where "tfind ar_id k (rs_results db) = Some old"
      and "rs_results (snd (updateResult gm now k enr b db)) = tmodify ar_id k (merge_result now b old cells) (rs_results db)"
proof (cases "tfind ar_id k (rs_results db)")
  case None
  then show thesis by (intro that(1)) (simp add: updateResult_def result_or_throw_def)
next
  case (Some old)
  then show thesis
    by (cases "stored_marks (merged_marks gm b old)")
      (simp_all add: updateResult_def result_or_throw_def that)
qed

lemma merge_result_id [simp]: "ar_id (merge_result now b old cells x) = ar_id x"
  by (simp add: merge_result_def case_prod_beta)

lemma merge_result_status: "ar_status (merge_result now b old cells x) = ''approved'' \<Longrightarrow> ar_status old = ''approved''"
  by (cases "requested_status b") (auto simp: merge_result_def given_def case_prod_beta dest: requested_status_values)


text \<open>Every result of a pupil lies in a class the pupil is enrolled in, as long as no SQL error stopped a request
  between the two writes.\<close>

definition enrolled_pairs :: "result_db \<Rightarrow> (string \<times> string) set" where
  "enrolled_pairs db = (\<lambda>e. (enr_student e, enr_class e)) ` set (rs_enrolments db)"

definition results_enrolled :: "result_db \<Rightarrow> bool" where
  "results_enrolled db \<longleftrightarrow> (\<forall>r\<in>set (rs_results db). ar_class r \<noteq> [] \<and>
     (case ar_student r of None \<Rightarrow> True | Some s \<Rightarrow> s \<noteq> [] \<and> (s, ar_class r) \<in> enrolled_pairs db))"

lemma ensureStudentClassEnrollment_Some:
  assumes "ensureStudentClassEnrollment fresh s c t = Some t'"
  shows "set t \<subseteq> set t' \<and> (s, c) \<in> (\<lambda>e. (enr_student e, enr_class e)) ` set t'"
  using assms by (force simp: ensureStudentClassEnrollment_def list_ex_iff dest: tinsert_SomeD split: if_splits)

lemma then_enrol_enrols:
  assumes "fst (then_enrol fresh student classId answer db) \<noteq> Inl DbError" and "classId \<noteq> []"
  shows "enrolled_pairs db \<subseteq> enrolled_pairs (snd (then_enrol fresh student classId answer db))"
    and "or_null student = Some s \<Longrightarrow> (s, classId) \<in> enrolled_pairs (snd (then_enrol fresh student classId answer db))"
  using assms ensureStudentClassEnrollment_Some [of fresh "the student" classId "rs_enrolments db"]
  by (auto simp: then_enrol_def enrolled_pairs_def or_null_Some_iff split: option.splits if_splits)

lemma results_enrolled_write:
  assumes "results_enrolled db" and "fst (then_enrol fresh student classId answer db1) \<noteq> Inl DbError" and "classId \<noteq> []"
    and "rs_enrolments db1 = rs_enrolments db"
    and "\<And>r. r \<in> set (rs_results db1) \<Longrightarrow> r \<in> set (rs_results db) \<or> ar_student r = or_null student \<and> ar_class r = classId"
  shows "results_enrolled (snd (then_enrol fresh student classId answer db1))"
proof -
  let ?db = "snd (then_enrol fresh student classId answer db1)"
  note enrols = then_enrol_enrols [OF assms(2,3)]
  have mono: "enrolled_pairs db \<subseteq> enrolled_pairs ?db" using enrols(1) assms(4) by (simp add: enrolled_pairs_def)
  have "ar_class r \<noteq> [] \<and> (case ar_student r of None \<Rightarrow> True | Some s \<Rightarrow> s \<noteq> [] \<and> (s, ar_class r) \<in> enrolled_pairs ?db)"
    if "r \<in> set (rs_results ?db)" for r
  proof -
    from that assms(5) [of r] have "r \<in> set (rs_results db) \<or> ar_student r = or_null student \<and> ar_class r = classId" by simp
    then show ?thesis
    proof
      assume "r \<in> set (rs_results db)"
      with assms(1) mono show ?thesis by (auto simp: results_enrolled_def split: option.splits)
    next
      assume "ar_student r = or_null student \<and> ar_class r = classId"
      with assms(3) enrols(2) show ?thesis by (auto simp: or_null_Some_iff split: option.split)
    qed
  qed
  then show ?thesis by (simp add: results_enrolled_def)
qed

lemma results_enrolled_sub:
  assumes "results_enrolled db" and "rs_enrolments db1 = rs_enrolments db"
    and "\<And>r. r \<in> set (rs_results db1) \<Longrightarrow> \<exists>x\<in>set (rs_results db). ar_class r = ar_class x \<and> ar_student r = ar_student x"
  shows "results_enrolled db1"
  unfolding results_enrolled_def
proof
  fix r assume "r \<in> set (rs_results db1)"
  with assms(3) obtain x where x: "x \<in> set (rs_results db)" "ar_class r = ar_class x" "ar_student r = ar_student x" by blast
  moreover have "enrolled_pairs db1 = enrolled_pairs db" using assms(2) by (simp add: enrolled_pairs_def)
  ultimately show "ar_class r \<noteq> [] \<and> (case ar_student r of None \<Rightarrow> True | Some s \<Rightarrow> s \<noteq> [] \<and> (s, ar_class r) \<in> enrolled_pairs db1)"
    using assms(1) by (cases "ar_student x") (auto simp: results_enrolled_def)
qed

lemma createResult_enrolled:
  assumes "results_enrolled db" and "fst (createResult gm now fresh enr b db) \<noteq> Inl DbError" and "UpsertResultDto b"
  shows "results_enrolled (snd (createResult gm now fresh enr b db))"
proof -
  obtain total grade where m: "new_marks gm b = (total, grade)" by fastforce
  with assms(2) obtain cells where cells: "stored_marks (nullish (rb_ca b), nullish (rb_exam b), total, grade) = Some cells"
    by (cases "stored_marks (nullish (rb_ca b), nullish (rb_exam b), total, grade)") (simp_all add: createResult_def)
  with m assms(2) obtain t where t: "tinsert ar_id (new_result now fresh b cells) (rs_results db) = Some t"
    by (cases "tinsert ar_id (new_result now fresh b cells) (rs_results db)") (simp_all add: createResult_def)
  have "or_else (rb_class b) [] \<noteq> []" using assms(3) by (auto simp: UpsertResultDto_def truthy_iff or_else_def neq_Nil_conv)
  with assms m cells t tinsert_SomeD [OF t] show ?thesis
    by (auto simp: createResult_def new_result_def case_prod_beta intro!: results_enrolled_write)
qed

lemma updateResult_enrolled:
  assumes "results_enrolled db" and "fst (updateResult gm now k enr b db) \<noteq> Inl DbError" and "UpdateResultDto b"
  shows "results_enrolled (snd (updateResult gm now k enr b db))"
proof (cases "tfind ar_id k (rs_results db)")
  case None
  then show ?thesis using assms(1) by (simp add: updateResult_def result_or_throw_def)
next
  case (Some old)
  with assms(2) obtain cells where cells: "stored_marks (merged_marks gm b old) = Some cells"
    by (cases "stored_marks (merged_marks gm b old)") (simp_all add: updateResult_def result_or_throw_def)
  from assms(1) tfind_SomeD [OF Some] have "ar_class old \<noteq> []" by (auto simp: results_enrolled_def)
  then have class_given: "given (rb_class b) (ar_class old) \<noteq> []"
    using assms(3) by (auto simp: UpdateResultDto_def if_given_def given_def split: option.splits)
  have "r \<in> set (rs_results db) \<or> ar_student r = or_null (given (rb_student b) (ar_student old)) \<and>
      ar_class r = given (rb_class b) (ar_class old)"
    if "r \<in> set (tmodify ar_id k (merge_result now b old cells) (rs_results db))" for r
    using that by (rule set_tmodifyE) (auto simp: merge_result_def case_prod_beta split: if_splits)
  note row = this
  let ?run = "then_enrol enr (given (rb_student b) (ar_student old)) (given (rb_class b) (ar_class old)) (ResultId k)
      (db\<lparr>rs_results := tmodify ar_id k (merge_result now b old cells) (rs_results db)\<rparr>)"
  have run: "updateResult gm now k enr b db = ?run"
    using Some cells by (simp add: updateResult_def result_or_throw_def)
  have "results_enrolled (snd ?run)"
  proof (rule results_enrolled_write [OF assms(1)])
    show "fst ?run \<noteq> Inl DbError" using assms(2) unfolding run .
  qed (use class_given row in simp_all)
  then show ?thesis by (simp only: run)
qed

lemma results_enrolled_map:
  assumes "results_enrolled db" and "\<And>x. ar_class (f x) = ar_class x \<and> ar_student (f x) = ar_student x"
  shows "results_enrolled (db\<lparr>rs_results := tupdate p f (rs_results db)\<rparr>)"
proof (rule results_enrolled_sub [OF assms(1)])
  fix r assume "r \<in> set (rs_results (db\<lparr>rs_results := tupdate p f (rs_results db)\<rparr>))"
  then obtain x where "x \<in> set (rs_results db)" "r = (if p x then f x else x)" by (auto elim: set_tupdateE)
  with assms(2) show "\<exists>x\<in>set (rs_results db). ar_class r = ar_class x \<and> ar_student r = ar_student x" by auto
qed simp

lemma approveResult_enrolled: "results_enrolled db \<Longrightarrow> results_enrolled (snd (approveResult now k who comment db))"
  by (simp add: approveResult_def Let_def tmodify_def results_enrolled_map split: sum.split)

lemma approveResultsBatch_enrolled: "results_enrolled db \<Longrightarrow> results_enrolled (snd (approveResultsBatch now f db))"
  by (simp add: approveResultsBatch_def Let_def results_enrolled_map)

lemma result_step_enrolled:
  "results_enrolled db \<Longrightarrow> fst (result_step q db) \<noteq> Inl DbError \<Longrightarrow> results_enrolled (snd (result_step q db))"
proof (cases q)
  case (DeleteResult c k)
  then show "results_enrolled db \<Longrightarrow> ?thesis"
    by (auto simp: with_tenant_def deleteResult_def set_tdelete elim!: results_enrolled_sub)
qed (auto simp: with_dto_def with_tenant_def upsertResult_def createResult_enrolled updateResult_enrolled approveResult_enrolled
      approveResultsBatch_enrolled split: if_splits sum.splits)

subsection \<open>Properties\<close>

text \<open>C26: Approval: a result is approved only by the approval requests; no creation, update or deletion makes a
  result approved that was not.\<close>

theorem approved_only_by_approval:
  assumes "x \<in> set (rs_results (snd (result_step q db)))" and "ar_status x = ''approved''"
    and "ar_id x \<notin> ar_id ` set (filter (\<lambda>r. ar_status r = ''approved'') (rs_results db))"
  shows "is_approval q"
proof -
  have old: False if "x \<in> set (rs_results db)" using that assms(2,3) by auto
  have create: False if "x \<in> set (rs_results (snd (createResult gm now fresh enr b db)))" for gm now fresh enr b
    by (rule createResult_cases [of gm now fresh enr b db]) (use that old assms(2) new_result_status in fastforce)+
  have update: False if x: "x \<in> set (rs_results (snd (updateResult gm now k enr b db)))" for gm now k enr b
  proof (rule updateResult_cases [of gm now k enr b db])
    fix r cells
    assume r: "tfind ar_id k (rs_results db) = Some r"
      and "rs_results (snd (updateResult gm now k enr b db)) = tmodify ar_id k (merge_result now b r cells) (rs_results db)"
    with x obtain z where z: "z \<in> set (rs_results db)" "x = (if ar_id z = k then merge_result now b r cells z else z)"
      by (metis set_tmodifyE)
    with old have "ar_id z = k" "x = merge_result now b r cells z" by (auto split: if_splits)
    with assms(2) have "ar_status r = ''approved''" "ar_id x = k" by (auto dest: merge_result_status)
    moreover from this tfind_SomeD [OF r] have "ar_id r \<in> ar_id ` set (filter (\<lambda>r. ar_status r = ''approved'') (rs_results db))"
      by (intro imageI) simp
    ultimately show False using assms(3) tfind_SomeD [OF r] by metis
  qed (use x old in simp)
  show ?thesis
    using assms(1) old create update
    by (cases q) (auto simp: with_dto_def with_tenant_def upsertResult_def deleteResult_def set_tdelete split: if_splits sum.splits)
qed

definition all_open :: call where
  "all_open = \<lparr>feature_on = True, tenant_found = True\<rparr>"

definition sample_body :: result_body where
  "sample_body = \<lparr>rb_student = Some (Some ''p''), rb_class = Some ''c1'', rb_subject = Some ''maths'', rb_term = Some ''1'',
     rb_ca = Some (Some 70), rb_exam = Some (Some 80), rb_total = None, rb_grade = None, rb_status = Some ''submitted''\<rparr>"

definition sample_matrix :: matrix_view where
  "sample_matrix = \<lparr>mv_enabled = True, mv_matrix = None\<rparr>"

text \<open>Seventy of a hundred in continuous assessment and eighty in the examination make 76, an A.\<close>

definition sample_results :: result_db where
  "sample_results = snd (result_step (CreateResult all_open sample_env sample_matrix 0 ''r1'' ''e1'' (Some ''t'') sample_body)
     \<lparr>rs_results = [], rs_enrolments = []\<rparr>)"

lemma sample_results_row:
  "map (\<lambda>r. (ar_id r, ar_status r, ar_total r, ar_grade r)) (rs_results sample_results) = [(''r1'', ''submitted'', Some 76, Some ''A'')] \<and>
   map (\<lambda>e. (enr_student e, enr_class e)) (rs_enrolments sample_results) = [(''p'', ''c1'')]"
  by code_simp

theorem approved_only_by_approval_witness:
  "is_approval (ApproveBatch all_open 1 \<lparr>bf_student = None, bf_class = None, bf_term = Some ''1''\<rparr>)"
proof -
  let ?q = "ApproveBatch all_open 1 \<lparr>bf_student = None, bf_class = None, bf_term = Some ''1''\<rparr>"
  have "list_ex (\<lambda>x. ar_status x = ''approved'' \<and> ar_id x \<notin> ar_id ` set (filter (\<lambda>r. ar_status r = ''approved'') (rs_results sample_results)))
      (rs_results (snd (result_step ?q sample_results)))"
    by code_simp
  then obtain x where "x \<in> set (rs_results (snd (result_step ?q sample_results)))" "ar_status x = ''approved''"
      "ar_id x \<notin> ar_id ` set (filter (\<lambda>r. ar_status r = ''approved'') (rs_results sample_results))"
    by (auto simp: list_ex_iff)
  then show ?thesis by (rule approved_only_by_approval)
qed


text \<open>Over every sequence of requests without an SQL error, each pupil with a result in a class is enrolled in it.\<close>

theorem results_have_enrolments:
  assumes "no_db_error result_step qs \<lparr>rs_results = [], rs_enrolments = []\<rparr>"
  shows "let db = run_reqs result_step qs \<lparr>rs_results = [], rs_enrolments = []\<rparr>
    in (\<lambda>r. (the (ar_student r), ar_class r)) ` set (filter (\<lambda>r. ar_student r \<noteq> None) (rs_results db)) \<subseteq>
       (\<lambda>e. (enr_student e, enr_class e)) ` set (rs_enrolments db)"
proof -
  have "results_enrolled \<lparr>rs_results = [], rs_enrolments = []\<rparr>" by (simp add: results_enrolled_def)
  then have "results_enrolled (run_reqs result_step qs \<lparr>rs_results = [], rs_enrolments = []\<rparr>)"
    by (rule run_clean_inv [where step = result_step, rotated 1]) (rule result_step_enrolled assms; assumption)+
  then show ?thesis by (fastforce simp: Let_def results_enrolled_def enrolled_pairs_def)
qed

theorem results_have_enrolments_witness:
  "(\<lambda>r. (the (ar_student r), ar_class r)) ` set (filter (\<lambda>r. ar_student r \<noteq> None) (rs_results sample_results)) \<subseteq>
     (\<lambda>e. (enr_student e, enr_class e)) ` set (rs_enrolments sample_results)"
proof -
  have "no_db_error result_step [CreateResult all_open sample_env sample_matrix 0 ''r1'' ''e1'' (Some ''t'') sample_body]
      \<lparr>rs_results = [], rs_enrolments = []\<rparr>"
    by code_simp
  from results_have_enrolments [OF this] show ?thesis by (simp add: sample_results_def Let_def del: result_step.simps)
qed

subsection \<open>What the model showed\<close>

text \<open>A pupil's list of results is filtered by the pupil, not by the status: it shows drafts and results that wait
  for approval.\<close>

definition pupil_env :: school_env where
  "pupil_env = sample_env\<lparr>env_scope := nobody\<lparr>user_roles := [''p'' \<mapsto> JArray [''student'']]\<rparr>\<rparr>"

lemma pupils_see_unapproved_results:
  "map_sum id (map ar_status) (listResults pupil_env (Some ''p'') sample_results) = Inr [''submitted'']"
  by code_simp

text \<open>An update of an approved result keeps it approved, with other marks.\<close>

lemma approved_result_stays_approved_when_edited:
  "let db = run_reqs result_step [ApproveResult all_open 1 ''r1'' (Some ''head'') None,
       UpdateResult all_open sample_env sample_matrix 2 ''r1'' ''e2'' (Some ''t'')
         \<lparr>rb_student = None, rb_class = None, rb_subject = None, rb_term = None, rb_ca = Some (Some 100), rb_exam = Some (Some 100),
          rb_total = None, rb_grade = None, rb_status = None\<rparr>] sample_results
   in map (\<lambda>r. (ar_status r, ar_total r, ar_approvedBy r)) (rs_results db) = [(''approved'', Some 100, Some ''head'')]"
  by code_simp

text \<open>A batch approval records neither who approved nor when.\<close>

lemma batch_approval_leaves_no_record:
  "let db = run_reqs result_step [ApproveBatch all_open 1 \<lparr>bf_student = None, bf_class = Some ''c1'', bf_term = None\<rparr>] sample_results
   in map (\<lambda>r. (ar_status r, ar_approvedBy r, ar_approvedAt r)) (rs_results db) = [(''approved'', None, None)]"
  by code_simp

end
