(* ===== verification/GeneratedResults.thy ===== *)
theory GeneratedResults
  imports Results
begin

section \<open>Generated results\<close>

text \<open>
  \<open>previewScoreSheets\<close>, \<open>generateScoreSheetResult\<close>, \<open>releaseGeneratedResult\<close> and
  \<open>listGeneratedResults\<close> of \<open>academic/academic.service.ts\<close>: the score sheets of a class are gathered per
  pupil and subject, turned into the record of a term and written to \<open>academic_generated_results\<close>, with the
  marks copied into \<open>academic_results\<close>; a release makes the record final and visible to pupils and parents.
  The state holds the two tables it writes; a call carries the tables it reads.  The copied columns that only
  describe the pupil and the class (names, codes, dates, gender) are left out, and so is the cache in front of the
  list (\<open>ListCache\<close>).
\<close>

subsection \<open>State\<close>

record subject_record =
  sr_subject :: string
  sr_name :: "string option"
  sr_ca :: rat
  sr_exam :: rat
  sr_total :: rat
  sr_first :: rat
  sr_second :: rat
  sr_average :: rat
  sr_grade_title :: string
  sr_grade_name :: string

record generated_result =
  gr_id :: string
  gr_session :: string
  gr_term :: string
  gr_class :: string
  gr_student :: string
  gr_opened :: nat
  gr_present :: nat
  gr_absent :: nat
  gr_records :: "subject_record list"
  gr_release :: string
  gr_approvedBy :: "string option"
  gr_approvedAt :: "int option"
  gr_generatedBy :: string
  gr_generatedAt :: int

record gen_db =
  gd_generated :: "generated_result list"
  gd_results :: "academic_result list"

text \<open>What a call reads: the actor's tables, the score sheets with their categories, the terms, the enrolments
  of pupils in classes, the names of the subjects and the attendance rows (pupil, class, status).\<close>

record gen_world =
  gw_env :: school_env
  gw_sheets :: sheet_db
  gw_terms :: "acad_term list"
  gw_enrolled :: "(string \<times> string) list"
  gw_subject_names :: "string \<rightharpoonup> string"
  gw_attendance :: "(string \<times> string \<times> string) list"
  gw_bands :: "grade_band list"

datatype gen_response =
    Generated string nat
  | Released string "string option"
  | GeneratedList "generated_result list"

subsection \<open>The preview\<close>

text \<open>\<open>replace(/[^a-z0-9]+/g, '_')\<close>: every maximal run of other characters becomes one underscore.\<close>

definition key_char :: "char \<Rightarrow> bool" where
  "key_char c = (let n = of_char c :: nat in 97 \<le> n \<and> n \<le> 122 \<or> 48 \<le> n \<and> n \<le> 57)"

fun collapse_other :: "bool \<Rightarrow> string \<Rightarrow> string" where
  "collapse_other in_run [] = []"
| "collapse_other in_run (c # cs) =
     (if key_char c then c # collapse_other False cs
      else if in_run then collapse_other True cs else CHR ''_'' # collapse_other True cs)"

definition column_key :: "string \<Rightarrow> string" where
  "column_key name = collapse_other False (toLowerCase (trim name))"

text \<open>One row of the preview of a pupil: a subject with its total and a column per assessment.\<close>

record preview_subject =
  pv_subject :: string
  pv_name :: "string option"
  pv_total :: rat
  pv_cells :: "(string \<times> rat option) list"

definition cell :: "string \<Rightarrow> (string \<times> rat option) list \<Rightarrow> rat option option" where
  "cell k cells = map_of cells k"

definition put_cell :: "string \<Rightarrow> rat option \<Rightarrow> (string \<times> rat option) list \<Rightarrow> (string \<times> rat option) list" where
  "put_cell k v cells = (if List.member (map fst cells) k then map (\<lambda>(j, w). if j = k then (j, v) else (j, w)) cells else cells @ [(k, v)])"

definition add_score :: "string \<Rightarrow> rat option \<Rightarrow> preview_subject \<Rightarrow> preview_subject" where
  "add_score k score s = (case score of
      None \<Rightarrow> if cell k (pv_cells s) = None then s\<lparr>pv_cells := put_cell k None (pv_cells s)\<rparr> else s
    | Some v \<Rightarrow> s\<lparr>pv_cells := put_cell k (Some (case cell k (pv_cells s) of Some (Some w) \<Rightarrow> w + v | _ \<Rightarrow> v)) (pv_cells s),
         pv_total := pv_total s + v\<rparr>)"

fun add_record :: "(string \<Rightarrow> string option) \<Rightarrow> string \<times> string \<times> rat option \<Rightarrow> preview_subject list \<Rightarrow> preview_subject list" where
  "add_record names (subject, k, score) [] =
     [add_score k score \<lparr>pv_subject = subject, pv_name = names subject, pv_total = 0, pv_cells = []\<rparr>]"
| "add_record names (subject, k, score) (s # ss) =
     (if pv_subject s = subject then add_score k score s # ss else s # add_record names (subject, k, score) ss)"

definition category_name :: "sheet_db \<Rightarrow> score_sheet \<Rightarrow> string option" where
  "category_name db x = map_option scat_name (tfind scat_id (sh_category x) (sd_categories db))"

definition subcategory_name :: "sheet_db \<Rightarrow> score_sheet \<Rightarrow> string option" where
  "subcategory_name db x = (case sh_subcategory x of None \<Rightarrow> None
    | Some k \<Rightarrow> map_option ssub_name (tfind ssub_id k (sd_subcategories db)))"

text \<open>\<open>String(subcategoryName || categoryName)\<close>, where the query has put the category for a missing subcategory.\<close>

definition record_key :: "sheet_db \<Rightarrow> score_sheet \<Rightarrow> string" where
  "record_key db x = column_key (or_else (subcategory_name db x) (or_else (category_name db x) []))"

text \<open>The sheets of one pupil that the preview shows: those of the class and term, for a subject teacher only
  of the own subjects, with a category that has a name, sorted by the names of category and subcategory
  (\<open>NULL\<close> last).\<close>

definition sort_names :: "sheet_db \<Rightarrow> score_sheet \<Rightarrow> string list" where
  "sort_names db x = (case category_name db x of None \<Rightarrow> [''1''] | Some n \<Rightarrow> [''0'', n]) @
     (case subcategory_name db x of None \<Rightarrow> [''1''] | Some n \<Rightarrow> [''0'', n])"

definition pupil_sheets :: "gen_world \<Rightarrow> string list option \<Rightarrow> string \<Rightarrow> string \<Rightarrow> string \<Rightarrow> string \<Rightarrow> score_sheet list" where
  "pupil_sheets w subjects sessionId termId classId studentId =
     filter (\<lambda>x. sh_subject x \<noteq> [] \<and> truthy (category_name (gw_sheets w) x))
       (sort_key (sort_names (gw_sheets w))
          (filter (\<lambda>x. sh_student x = studentId \<and> sh_class x = classId \<and> sh_session x = sessionId \<and> sh_term x = termId \<and>
                       (case subjects of None \<Rightarrow> True | Some ss \<Rightarrow> List.member ss (sh_subject x)))
             (sd_sheets (gw_sheets w))))"

definition preview_student :: "gen_world \<Rightarrow> string list option \<Rightarrow> string \<Rightarrow> string \<Rightarrow> string \<Rightarrow> string \<Rightarrow> preview_subject list" where
  "preview_student w subjects sessionId termId classId studentId =
     fold (\<lambda>x. add_record (gw_subject_names w) (sh_subject x, record_key (gw_sheets w) x, sh_score x))
       (pupil_sheets w subjects sessionId termId classId studentId) []"

definition SCORE_SHEET_READ_ROLES :: "string list" where
  "SCORE_SHEET_READ_ROLES = [''subject_teacher'', ''head_teacher'', ''principal'', ''assistant_head_teacher'']"

definition may_preview :: "bool \<Rightarrow> string \<Rightarrow> bool" where
  "may_preview allowSubjectTeacher role \<longleftrightarrow>
     role \<noteq> ''subject_teacher'' \<and> List.member SCORE_SHEET_READ_ROLES role \<or> role = ''class_teacher'' \<or>
     allowSubjectTeacher \<and> role = ''subject_teacher''"

definition preview_check :: "gen_world \<Rightarrow> string \<Rightarrow> string \<Rightarrow> bool \<Rightarrow> string list result" where
  "preview_check w actor classId allowSubjectTeacher =
     bind_result (academic_roles (gw_env w) actor) (\<lambda>roles.
       and_then (require_that (Forbidden ''Score sheet preview is restricted to academic management roles or assigned subject teachers'')
                   (list_ex (may_preview allowSubjectTeacher) roles))
         (and_then (assertActorSchoolLevel (gw_env w) (Some actor) (Some classId) None)
            (let scope = getTeacherScope (env_scope (gw_env w)) actor in
             and_then (require_that (Forbidden ''Teacher is not assigned to this class'')
                 (\<not> isTeacher scope \<or> hasAcademicManagementRole roles \<or> List.member (classIds scope) classId \<or>
                  List.member (subjectClassIds scope) classId))
               (Inr roles))))"

text \<open>The subjects a mere subject teacher is confined to.\<close>

definition preview_subjects :: "gen_world \<Rightarrow> string \<Rightarrow> string list \<Rightarrow> string list option" where
  "preview_subjects w actor roles =
     (if List.member roles ''subject_teacher'' \<and> \<not> List.member roles ''class_teacher'' \<and> \<not> hasAcademicManagementRole roles
      then let scope = getTeacherScope (env_scope (gw_env w)) actor in Some (if isTeacher scope then subjectIds scope else [])
      else None)"

definition enrolled_pupils :: "gen_world \<Rightarrow> string \<Rightarrow> string list" where
  "enrolled_pupils w classId =
     (if env_class_levels (gw_env w) classId = None then []
      else sort_key (\<lambda>s. or_else (env_names (gw_env w) s) [])
             (map fst (filter (\<lambda>e. snd e = classId \<and> env_names (gw_env w) (fst e) \<noteq> None) (gw_enrolled w))))"

definition previewScoreSheets :: "gen_world \<Rightarrow> string \<Rightarrow> string \<Rightarrow> string \<Rightarrow> string \<Rightarrow> bool \<Rightarrow> (string \<times> preview_subject list) list result" where
  "previewScoreSheets w actor sessionId termId classId allowSubjectTeacher =
     map_sum id (\<lambda>roles. map (\<lambda>s. (s, preview_student w (preview_subjects w actor roles) sessionId termId classId s)) (enrolled_pupils w classId))
       (preview_check w actor classId allowSubjectTeacher)"

subsection \<open>The record of a subject\<close>

text \<open>\<open>calculateGeneratedSubjectRecord\<close>: everything but the column \<open>examination\<close> is continuous assessment;
  \<open>historical\<close> holds the totals of the earlier terms, \<open>termIndex\<close> the place of the term, \<open>-1\<close> for none.\<close>

definition cell_value :: "rat option \<Rightarrow> rat" where
  "cell_value v = (case v of None \<Rightarrow> 0 | Some x \<Rightarrow> x)"

definition nth_total :: "rat option list \<Rightarrow> nat \<Rightarrow> rat" where
  "nth_total historical i = (if i < length historical then cell_value (historical ! i) else 0)"

definition term_average :: "int \<Rightarrow> rat \<Rightarrow> rat \<Rightarrow> rat \<Rightarrow> rat" where
  "term_average termIndex marks first second =
     (if termIndex \<le> 0 then marks else if termIndex = 1 then (marks + first) / 2 else (marks + first + second) / 3)"

definition calculateGeneratedSubjectRecord :: "preview_subject \<Rightarrow> rat option list \<Rightarrow> int \<Rightarrow> grade_band list \<Rightarrow> subject_record" where
  "calculateGeneratedSubjectRecord subject historical termIndex bands =
     (let ca = sum_list (map (cell_value \<circ> snd) (filter (\<lambda>c. fst c \<noteq> ''examination'') (pv_cells subject)));
          exam = cell_value (nullish (cell ''examination'' (pv_cells subject)));
          total = ca + exam;
          first = nth_total historical 0; second = nth_total historical 1;
          average = term_average termIndex total first second;
          b = find (in_band average) bands
      in \<lparr>sr_subject = pv_subject subject, sr_name = pv_name subject, sr_ca = ca, sr_exam = exam, sr_total = total, sr_first = first,
          sr_second = second, sr_average = round2 average,
          sr_grade_title = or_else (map_option grade_title b) ''F'', sr_grade_name = or_else (map_option grade_name b) ''Failed''\<rparr>)"

subsection \<open>Generating\<close>

definition term_rank :: "string \<Rightarrow> nat" where
  "term_rank code = (if code = ''first'' then 1 else if code = ''second'' then 2 else if code = ''third'' then 3 else 4)"

definition session_terms :: "gen_world \<Rightarrow> string \<Rightarrow> acad_term list" where
  "session_terms w sessionId = sort_key (\<lambda>t. term_rank (trm_code t)) (filter (\<lambda>t. trm_session t = sessionId) (gw_terms w))"

definition js_findIndex :: "('a \<Rightarrow> bool) \<Rightarrow> 'a list \<Rightarrow> int" where
  "js_findIndex p xs = (let i = length (takeWhile (\<lambda>x. \<not> p x) xs) in if i < length xs then int i else -1)"

text \<open>The total an earlier term recorded for the subject; the last record of a subject wins.\<close>

definition previous_total :: "generated_result list \<Rightarrow> string \<Rightarrow> string \<Rightarrow> string \<Rightarrow> string \<Rightarrow> string \<Rightarrow> rat option" where
  "previous_total t studentId classId sessionId subjectId termId =
     (case filter (\<lambda>r. sr_subject r = subjectId)
             (concat (map gr_records (filter (\<lambda>g. gr_student g = studentId \<and> gr_class g = classId \<and> gr_session g = sessionId \<and> gr_term g = termId) t))) of
        [] \<Rightarrow> None
      | rs \<Rightarrow> Some (sr_total (last rs)))"

definition attendance_count :: "gen_world \<Rightarrow> string \<Rightarrow> string \<Rightarrow> (string \<Rightarrow> bool) \<Rightarrow> nat" where
  "attendance_count w studentId classId p =
     length (filter (\<lambda>(s, c, status). s = studentId \<and> c = classId \<and> p (toLowerCase status)) (gw_attendance w))"

definition subject_records :: "gen_world \<Rightarrow> generated_result list \<Rightarrow> string \<Rightarrow> string \<Rightarrow> string \<Rightarrow> string \<Rightarrow> preview_subject list \<Rightarrow> subject_record list" where
  "subject_records w t studentId sessionId termId classId raw =
     (let terms = session_terms w sessionId;
          i = js_findIndex (\<lambda>x. trm_id x = termId) terms;
          earlier = take (nat i) terms
      in map (\<lambda>s. calculateGeneratedSubjectRecord s
                (map (\<lambda>x. previous_total t studentId classId sessionId (pv_subject s) (trm_id x)) earlier) i (gw_bands w)) raw)"

text \<open>What has to hold before anything is written: the answer is the preview of the pupil.\<close>

definition generate_check :: "gen_world \<Rightarrow> string \<Rightarrow> string \<Rightarrow> string \<Rightarrow> string \<Rightarrow> string \<Rightarrow> preview_subject list result" where
  "generate_check w actor studentId sessionId termId classId =
     bind_result (academic_roles (gw_env w) actor) (\<lambda>roles.
       and_then (require_that (Forbidden ''Only subject teachers can generate results'') (List.member roles ''subject_teacher''))
         (and_then (assertActorSchoolLevel (gw_env w) (Some actor) (Some classId) None)
            (and_then (assertTeacherMayAccess (env_scope (gw_env w)) actor (Some classId) None)
               (and_then (require_that (Forbidden ''Teacher has no assigned subjects'')
                    (subjectIds (getTeacherScope (env_scope (gw_env w)) actor) \<noteq> []))
                  (bind_result (previewScoreSheets w actor sessionId termId classId True) (\<lambda>preview.
                     case map_of preview studentId of
                       Some (s # ss) \<Rightarrow> Inr (s # ss)
                     | _ \<Rightarrow> Inl (NotFound ''No score sheets found for this student'')))))))"

definition generated_slot :: "string \<Rightarrow> string \<Rightarrow> string \<Rightarrow> string \<Rightarrow> generated_result \<Rightarrow> bool" where
  "generated_slot sessionId termId classId studentId g \<longleftrightarrow>
     gr_session g = sessionId \<and> gr_term g = termId \<and> gr_class g = classId \<and> gr_student g = studentId"

definition generated_row :: "gen_world \<Rightarrow> int \<Rightarrow> string \<Rightarrow> string \<Rightarrow> string \<Rightarrow> string \<Rightarrow> string \<Rightarrow> string \<Rightarrow> subject_record list \<Rightarrow> generated_result" where
  "generated_row w now k actor sessionId termId classId studentId records =
     \<lparr>gr_id = k, gr_session = sessionId, gr_term = termId, gr_class = classId, gr_student = studentId,
      gr_opened = attendance_count w studentId classId (\<lambda>_. True),
      gr_present = attendance_count w studentId classId (\<lambda>s. s = ''present''),
      gr_absent = attendance_count w studentId classId (\<lambda>s. s = ''absent''),
      gr_records = records, gr_release = ''pending'', gr_approvedBy = None, gr_approvedAt = None,
      gr_generatedBy = actor_name (gw_env w) actor, gr_generatedAt = now\<rparr>"

text \<open>\<open>UNIQUE (session_id, term_id, class_id, student_id)\<close> never refuses the insert: the lookup just found
  no row of the slot.\<close>

definition write_generated :: "gen_world \<Rightarrow> int \<Rightarrow> string \<Rightarrow> string \<Rightarrow> string \<Rightarrow> string \<Rightarrow> string \<Rightarrow> string \<Rightarrow> subject_record list \<Rightarrow>
    generated_result list \<Rightarrow> generated_result list option" where
  "write_generated w now fresh actor sessionId termId classId studentId records t =
     (case find (generated_slot sessionId termId classId studentId) t of
        Some g \<Rightarrow> Some (tmodify gr_id (gr_id g) (\<lambda>_. generated_row w now (gr_id g) actor sessionId termId classId studentId records) t)
      | None \<Rightarrow> tinsert gr_id (generated_row w now fresh actor sessionId termId classId studentId records) t)"

text \<open>The copies in \<open>academic_results\<close>, one subject after the other.\<close>

definition sync_result :: "int \<Rightarrow> string \<Rightarrow> string \<Rightarrow> string \<Rightarrow> string \<Rightarrow> subject_record \<Rightarrow> academic_result list \<Rightarrow> academic_result list option" where
  "sync_result now fresh studentId classId termId s t =
     (case stored_marks (Some (sr_ca s), Some (sr_exam s), Some (sr_total s), Some (sr_grade_title s)) of
        None \<Rightarrow> None
      | Some (ca, ex, tot, grade) \<Rightarrow>
          (case find (\<lambda>r. ar_student r = Some studentId \<and> ar_class r = classId \<and> ar_subject r = sr_subject s \<and> ar_term r = termId) t of
             Some r \<Rightarrow> Some (tmodify ar_id (ar_id r) (\<lambda>x. x\<lparr>ar_ca := ca, ar_exam := ex, ar_total := tot, ar_grade := grade,
                 ar_status := ''submitted'', ar_updatedAt := now\<rparr>) t)
           | None \<Rightarrow> tinsert ar_id \<lparr>ar_id = fresh, ar_student = Some studentId, ar_class = classId, ar_subject = sr_subject s,
                 ar_term = termId, ar_ca = ca, ar_exam = ex, ar_total = tot, ar_grade = grade, ar_status = ''submitted'',
                 ar_comment = None, ar_approvedBy = None, ar_approvedAt = None, ar_createdAt = now, ar_updatedAt = now\<rparr> t))"

fun sync_results :: "int \<Rightarrow> string \<Rightarrow> string \<Rightarrow> string \<Rightarrow> subject_record list \<Rightarrow> string list \<Rightarrow> academic_result list \<Rightarrow> bool \<times> academic_result list" where
  "sync_results now studentId classId termId (s # ss) (k # ks) t = (case sync_result now k studentId classId termId s t of
      None \<Rightarrow> (False, t)
    | Some t' \<Rightarrow> sync_results now studentId classId termId ss ks t')"
| "sync_results now studentId classId termId _ _ t = (True, t)"

definition generateScoreSheetResult :: "gen_world \<Rightarrow> int \<Rightarrow> string \<Rightarrow> string list \<Rightarrow> string \<Rightarrow> string \<Rightarrow> string \<Rightarrow> string \<Rightarrow> string \<Rightarrow>
    gen_db \<Rightarrow> gen_response result \<times> gen_db" where
  "generateScoreSheetResult w now fresh ks actor studentId sessionId termId classId db =
     (case generate_check w actor studentId sessionId termId classId of
        Inl e \<Rightarrow> (Inl e, db)
      | Inr raw \<Rightarrow>
          let records = subject_records w (gd_generated db) studentId sessionId termId classId raw;
              existing = find (generated_slot sessionId termId classId studentId) (gd_generated db)
          in if map_option gr_release existing = Some ''approved'' then (Inl (Forbidden ''Approved results cannot be regenerated''), db)
             else (case write_generated w now fresh actor sessionId termId classId studentId records (gd_generated db) of
                 None \<Rightarrow> (Inl DbError, db)
               | Some g \<Rightarrow>
                   let (ok, rows) = sync_results now studentId classId termId records ks (gd_results db)
                   in (if ok then Inr (Generated studentId (length records)) else Inl DbError,
                       db\<lparr>gd_generated := g, gd_results := rows\<rparr>)))"

subsection \<open>Releasing and listing\<close>

definition RELEASE_ROLES :: "string list" where
  "RELEASE_ROLES = [''director'', ''school_admin'', ''head_teacher'', ''principal'', ''vice_principal'', ''assistant_head_teacher'']"

definition releaseGeneratedResult :: "school_env \<Rightarrow> int \<Rightarrow> string \<Rightarrow> string \<Rightarrow> gen_db \<Rightarrow> gen_response result \<times> gen_db" where
  "releaseGeneratedResult env now actor k db = (case academic_roles env actor of
      Inl e \<Rightarrow> (Inl e, db)
    | Inr roles \<Rightarrow>
        if \<not> has_any_role roles RELEASE_ROLES then (Inl (Forbidden ''Only academic management roles can release results''), db)
        else (case tfind gr_id k (gd_generated db) of
            None \<Rightarrow> (Inl (NotFound ''Generated result not found''), db)
          | Some g \<Rightarrow>
              if gr_release g = ''approved'' then (Inr (Released k None), db)
              else (Inr (Released k (Some (actor_name env actor))),
                    db\<lparr>gd_generated := tmodify gr_id k (\<lambda>x. x\<lparr>gr_release := ''approved'', gr_approvedBy := Some (actor_name env actor),
                       gr_approvedAt := Some now\<rparr>) (gd_generated db)\<rparr>)))"

text \<open>Who sees which generated results: a pupil the own released ones, a parent those of the linked pupils, the
  management all; then the filters of the request and the school level.  The rows come in the order of the table, not
  by the pupil's name, which the model does not store.\<close>

definition audience :: "school_env \<Rightarrow> string \<Rightarrow> string list \<Rightarrow> generated_result \<Rightarrow> bool" where
  "audience env actor roles g =
     (if List.member roles ''student'' then gr_student g = actor \<and> gr_release g = ''approved''
      else if List.member roles ''parent'' then gr_release g = ''approved'' \<and> linked_to (env_scope env) actor (gr_student g)
      else True)"

definition listGeneratedResults :: "school_env \<Rightarrow> string \<Rightarrow> string option \<Rightarrow> string option \<Rightarrow> string option \<Rightarrow> gen_db \<Rightarrow> generated_result list result" where
  "listGeneratedResults env actor sessionId termId classId db =
     bind_result (academic_roles env actor) (\<lambda>roles.
       and_then (require_that (Forbidden ''Generated results are restricted to academic management roles'')
           (List.member roles ''student'' \<or> List.member roles ''parent'' \<or> has_any_role roles RELEASE_ROLES))
         (filterByActorSchoolLevel env (Some actor) (\<lambda>g. class_level env (gr_class g))
            (filter (\<lambda>g. audience env actor roles g \<and> asked_for sessionId (Some (gr_session g)) \<and> asked_for termId (Some (gr_term g)) \<and>
                         asked_for classId (Some (gr_class g))) (gd_generated db))))"

definition getGeneratedResult :: "school_env \<Rightarrow> string \<Rightarrow> string \<Rightarrow> gen_db \<Rightarrow> generated_result result" where
  "getGeneratedResult env actor k db = bind_result (listGeneratedResults env actor None None None db)
     (\<lambda>rows. case find (\<lambda>g. gr_id g = k) rows of None \<Rightarrow> Inl (NotFound ''Generated result not found'') | Some g \<Rightarrow> Inr g)"

subsection \<open>The machine\<close>

datatype gen_request =
    GenerateResult call gen_world int string "string list" string string string string string
  | ReleaseResult call school_env int string string
  | ListGenerated call school_env string "string option" "string option" "string option"
  | GetGenerated call school_env string string

fun gen_step :: "gen_request \<Rightarrow> gen_db \<Rightarrow> gen_response result \<times> gen_db" where
  "gen_step (GenerateResult c w now fresh ks actor student session trm cls) db =
     with_tenant c db (generateScoreSheetResult w now fresh ks actor student session trm cls)"
| "gen_step (ReleaseResult c env now actor k) db = with_tenant c db (releaseGeneratedResult env now actor k)"
| "gen_step (ListGenerated c env actor session trm cls) db =
     with_tenant c db (\<lambda>db. (map_sum id GeneratedList (listGeneratedResults env actor session trm cls db), db))"
| "gen_step (GetGenerated c env actor k) db =
     with_tenant c db (\<lambda>db. (map_sum id (\<lambda>g. GeneratedList [g]) (getGeneratedResult env actor k db), db))"


subsection \<open>Facts\<close>

definition gen_ok :: "gen_db \<Rightarrow> bool" where
  "gen_ok db \<longleftrightarrow> pk gr_id (gd_generated db) \<and>
     distinct (map (\<lambda>g. (gr_session g, gr_term g, gr_class g, gr_student g)) (gd_generated db)) \<and>
     (\<forall>g\<in>set (gd_generated db). gr_release g \<in> {''pending'', ''approved''})"

definition released :: "generated_result \<Rightarrow> gen_db \<Rightarrow> bool" where
  "released g db \<longleftrightarrow> gr_release g = ''approved'' \<and> g \<in> set (gd_generated db)"

text \<open>How a request changes the generated results: not at all, by rewriting the row of a slot that is not
  released, by adding a row for an empty slot, or by releasing a row that is pending.\<close>

lemma gen_step_cases:
  assumes "\<forall>g\<in>set (gd_generated db). gr_release g \<in> {''pending'', ''approved''}"
  obtains (same) "gd_generated (snd (gen_step q db)) = gd_generated db"
  | (rewrite) g w now actor records where "g \<in> set (gd_generated db)" "gr_release g = ''pending''"
      "gd_generated (snd (gen_step q db)) = tmodify gr_id (gr_id g)
         (\<lambda>_. generated_row w now (gr_id g) actor (gr_session g) (gr_term g) (gr_class g) (gr_student g) records) (gd_generated db)"
  | (add) w now fresh actor session trm cls student records where
      "find (generated_slot session trm cls student) (gd_generated db) = None"
      "tinsert gr_id (generated_row w now fresh actor session trm cls student records) (gd_generated db) = Some (gd_generated (snd (gen_step q db)))"
  | (release) g who now where "g \<in> set (gd_generated db)" "gr_release g = ''pending''"
      "gd_generated (snd (gen_step q db)) = tmodify gr_id (gr_id g)
         (\<lambda>x. x\<lparr>gr_release := ''approved'', gr_approvedBy := who, gr_approvedAt := now\<rparr>) (gd_generated db)"
proof (cases q)
  case (GenerateResult c w now fresh ks actor student session trm cls)
  define existing where "existing = find (generated_slot session trm cls student) (gd_generated db)"
  show thesis
  proof (cases "generate_check w actor student session trm cls")
    case (Inl e)
    then show thesis by (intro same) (simp add: GenerateResult with_tenant_def generateScoreSheetResult_def)
  next
    case (Inr raw)
    define records where "records = subject_records w (gd_generated db) student session trm cls raw"
    show thesis
    proof (cases "\<not> tenant_found c \<or> map_option gr_release existing = Some ''approved'' \<or>
        write_generated w now fresh actor session trm cls student records (gd_generated db) = None")
      case True
      with Inr show thesis
        by (intro same) (auto simp: GenerateResult with_tenant_def generateScoreSheetResult_def Let_def records_def existing_def)
    next
      case False
      then obtain t where t: "write_generated w now fresh actor session trm cls student records (gd_generated db) = Some t" by auto
      with False Inr have rows: "gd_generated (snd (gen_step q db)) = t"
        by (auto simp: GenerateResult with_tenant_def generateScoreSheetResult_def Let_def records_def existing_def case_prod_beta)
      show thesis
      proof (cases existing)
        case None
        with t rows show thesis by (intro add) (auto simp: write_generated_def existing_def)
      next
        case (Some g)
        then have g: "g \<in> set (gd_generated db)" "generated_slot session trm cls student g"
          unfolding existing_def find_Some_iff by auto
        with False Some assms have "gr_release g = ''pending''" by auto
        with g t rows Some show thesis
          by (intro rewrite [of g w now actor records]) (auto simp: write_generated_def existing_def generated_slot_def)
      qed
    qed
  qed
next
  case (ReleaseResult c env now actor k)
  show thesis
  proof (cases "tfind gr_id k (gd_generated db)")
    case None
    then show thesis
      by (intro same) (auto simp: ReleaseResult with_tenant_def releaseGeneratedResult_def split: sum.split)
  next
    case (Some g)
    from tfind_SomeD [OF Some] have g: "g \<in> set (gd_generated db)" "gr_id g = k" by auto
    show thesis
    proof (cases "gd_generated (snd (gen_step q db)) = gd_generated db")
      case False
      with Some g assms show thesis
        by (intro release [of g "Some now" "Some (actor_name env actor)"])
          (auto simp: ReleaseResult with_tenant_def releaseGeneratedResult_def split: sum.splits if_splits)
    qed (rule same)
  qed
qed (auto simp: with_tenant_def intro: same)

lemma tmodify_const_pk: "pk key t \<Longrightarrow> key r = k \<Longrightarrow> pk key (tmodify key k (\<lambda>_. r) t)"
proof -
  assume "pk key t" "key r = k"
  moreover from this have "map key (tmodify key k (\<lambda>_. r) t) = map key t" by (induction t) auto
  ultimately show ?thesis by (simp add: pk_def)
qed

lemma slots_tmodify:
  assumes "pk gr_id t" and "g \<in> set t"
    and "\<And>x. gr_session (f x) = gr_session g \<and> gr_term (f x) = gr_term g \<and> gr_class (f x) = gr_class g \<and> gr_student (f x) = gr_student g \<or>
              gr_session (f x) = gr_session x \<and> gr_term (f x) = gr_term x \<and> gr_class (f x) = gr_class x \<and> gr_student (f x) = gr_student x"
  shows "map (\<lambda>g. (gr_session g, gr_term g, gr_class g, gr_student g)) (tmodify gr_id (gr_id g) f t) =
     map (\<lambda>g. (gr_session g, gr_term g, gr_class g, gr_student g)) t"
proof -
  have "x = g" if "x \<in> set t" "gr_id x = gr_id g" for x
    using that assms(1,2) tfind_eqI by (metis option.inject)
  then show ?thesis
    unfolding tmodify_def tupdate_def map_map
    using assms(3) by (intro map_cong) fastforce+
qed

lemma gen_ok_step: "gen_ok db \<Longrightarrow> gen_ok (snd (gen_step q db))"
proof -
  assume ok: "gen_ok db"
  then have release_values: "\<forall>g\<in>set (gd_generated db). gr_release g \<in> {''pending'', ''approved''}" by (simp add: gen_ok_def)
  from ok have pk: "pk gr_id (gd_generated db)"
    and slots: "distinct (map (\<lambda>g. (gr_session g, gr_term g, gr_class g, gr_student g)) (gd_generated db))"
    by (simp_all add: gen_ok_def)
  show ?thesis
  proof (cases q rule: gen_step_cases [OF release_values, case_names same rewrite add release])
    case same
    with ok show ?thesis by (simp add: gen_ok_def)
  next
    case (rewrite g w now actor records)
    have "gr_release x \<in> {''pending'', ''approved''}" if "x \<in> set (gd_generated (snd (gen_step q db)))" for x
      using that unfolding rewrite(3) by (rule set_tmodifyE) (use release_values in \<open>auto simp: generated_row_def\<close>)
    moreover have "pk gr_id (gd_generated (snd (gen_step q db)))"
      unfolding rewrite(3) by (rule tmodify_const_pk [OF pk]) (simp add: generated_row_def)
    ultimately show ?thesis
      using slots_tmodify [OF pk rewrite(1), of "\<lambda>_. generated_row w now (gr_id g) actor (gr_session g) (gr_term g) (gr_class g) (gr_student g) records"] slots
      unfolding gen_ok_def rewrite(3) by (simp add: generated_row_def)
  next
    case (add w now fresh actor session trm cls student records)
    from tinsert_SomeD [OF add(2)] have new: "gd_generated (snd (gen_step q db)) =
        gd_generated db @ [generated_row w now fresh actor session trm cls student records]" by simp
    from add(1) have "\<forall>g\<in>set (gd_generated db). \<not> generated_slot session trm cls student g" by (simp add: find_None_iff)
    then have "(session, trm, cls, student) \<notin> (\<lambda>g. (gr_session g, gr_term g, gr_class g, gr_student g)) ` set (gd_generated db)"
      by (auto simp: generated_slot_def)
    with pk_tinsert [OF pk add(2)] slots release_values show ?thesis
      unfolding gen_ok_def by (simp add: new generated_row_def)
  next
    case (release g who now)
    have "gr_release x \<in> {''pending'', ''approved''}" if "x \<in> set (gd_generated (snd (gen_step q db)))" for x
      using that unfolding release(3) by (rule set_tmodifyE) (use release_values in auto)
    then show ?thesis
      using slots_tmodify [OF pk release(1), of "\<lambda>x. x\<lparr>gr_release := ''approved'', gr_approvedBy := who, gr_approvedAt := now\<rparr>"] slots pk
      unfolding gen_ok_def release(3) by (simp add: pk_tmodify)
  qed
qed

lemma released_step:
  assumes ok: "gen_ok db" and final: "released x db"
  shows "released x (snd (gen_step q db))"
proof -
  from ok have release_values: "\<forall>g\<in>set (gd_generated db). gr_release g \<in> {''pending'', ''approved''}" and pk: "pk gr_id (gd_generated db)"
    by (simp_all add: gen_ok_def)
  from final have x: "x \<in> set (gd_generated db)" "gr_release x = ''approved''" by (simp_all add: released_def)
  have other: "x \<in> set (tmodify gr_id (gr_id g) f (gd_generated db))" if "g \<in> set (gd_generated db)" "gr_release g = ''pending''" for g f
  proof -
    have "x \<noteq> g" using that x by auto
    then have "gr_id x \<noteq> gr_id g" using that(1) x(1) pk tfind_eqI by (metis option.inject)
    with x(1) show ?thesis by (force simp: tmodify_def set_tupdate)
  qed
  show ?thesis
  proof (cases q rule: gen_step_cases [OF release_values, case_names same rewrite add release])
    case (add w now fresh actor session trm cls student records)
    with x tinsert_SomeD [OF add(2)] show ?thesis by (simp add: released_def)
  qed (use x other in \<open>simp_all add: released_def\<close>)
qed

interpretation generated: stable_machine gen_step gen_ok "released g" for g
  by unfold_locales (rule gen_ok_step released_step; assumption)+

lemma level_filter_subset: "filterByActorSchoolLevel env actor level rows = Inr out \<Longrightarrow> set out \<subseteq> set rows"
  by (cases "getActorSchoolLevel env actor") (auto simp: filterByActorSchoolLevel_def split: if_splits)

subsection \<open>Properties\<close>

text \<open>C12: A released result is final: no later request changes or removes it.\<close>

theorem released_result_final:
  assumes "g \<in> set (gd_generated (run_reqs gen_step qs \<lparr>gd_generated = [], gd_results = []\<rparr>))" and "gr_release g = ''approved''"
  shows "g \<in> set (gd_generated (run_reqs gen_step (qs @ later) \<lparr>gd_generated = [], gd_results = []\<rparr>))"
proof -
  have "gen_ok \<lparr>gd_generated = [], gd_results = []\<rparr>" by (simp add: gen_ok_def)
  from generated.run_mark [OF generated.run_inv [OF this, of qs], of g later] assms show ?thesis
    by (simp add: released_def)
qed

text \<open>C37: A pupil who asks for generated results gets only the own released ones.\<close>

theorem pupils_see_released_results:
  assumes "listGeneratedResults env actor sessionId termId classId db = Inr rows" and "academic_roles env actor = Inr roles"
    and "''student'' \<in> set roles"
  shows "set rows \<subseteq> {g \<in> set (gd_generated db). gr_student g = actor \<and> gr_release g = ''approved''}"
proof -
  from assms have "filterByActorSchoolLevel env (Some actor) (\<lambda>g. class_level env (gr_class g))
      (filter (\<lambda>g. audience env actor roles g \<and> asked_for sessionId (Some (gr_session g)) \<and> asked_for termId (Some (gr_term g)) \<and>
         asked_for classId (Some (gr_class g))) (gd_generated db)) = Inr rows"
    by (simp add: listGeneratedResults_def)
  from level_filter_subset [OF this] assms(3) show ?thesis by (auto simp: audience_def)
qed

definition teacher_env :: school_env where
  "teacher_env = \<lparr>env_scope = nobody\<lparr>user_roles := [''t'' \<mapsto> JArray [''subject_teacher''], ''h'' \<mapsto> JArray [''head_teacher''], ''p'' \<mapsto> JArray [''student'']],
      class_rows := [(''c1'', Some ''t'')], subject_links := [(''t'', ''maths'')], subject_rows := [(''maths'', JArray [''c1''])]\<rparr>,
     env_levels = Map.empty, env_names = [''p'' \<mapsto> ''Ada'', ''t'' \<mapsto> ''Mr T'', ''h'' \<mapsto> ''Mrs H''],
     env_class_levels = [''c1'' \<mapsto> Some ''primary''], env_subject_levels = [''maths'' \<mapsto> None]\<rparr>"

text \<open>A pupil with 10 of 20 in the notes and 25 of 60 in the examination of the first term.\<close>

definition sample_sheets :: sheet_db where
  "sample_sheets = \<lparr>sd_categories = [\<lparr>scat_id = ''k1'', scat_name = ''Continuous Assessment'', scat_slug = ''continuous-assessment'', scat_active = True\<rparr>,
       \<lparr>scat_id = ''k2'', scat_name = ''Examination'', scat_slug = ''examination'', scat_active = True\<rparr>],
     sd_subcategories = [\<lparr>ssub_id = ''n'', ssub_category = ''k1'', ssub_name = ''Note'', ssub_slug = ''note'', ssub_active = True\<rparr>],
     sd_sheets = [sample_sheet ''published'', (sample_sheet ''published'')\<lparr>sh_id := ''sh2'', sh_category := ''k1'', sh_subcategory := Some ''n'',
       sh_score := Some (79 / 2)\<rparr>]\<rparr>"

definition sample_world :: gen_world where
  "sample_world = \<lparr>gw_env = teacher_env, gw_sheets = sample_sheets,
     gw_terms = [\<lparr>trm_id = ''1'', trm_session = ''s'', trm_name = ''First Term'', trm_code = ''first'', trm_start = None, trm_end = None,
       trm_current = True, trm_createdAt = 0\<rparr>],
     gw_enrolled = [(''p'', ''c1'')], gw_subject_names = [''maths'' \<mapsto> ''Mathematics''], gw_attendance = [(''p'', ''c1'', ''present'')],
     gw_bands = DEFAULT_GRADE_BANDS\<rparr>"

definition sample_generate :: gen_request where
  "sample_generate = GenerateResult all_open sample_world 5 ''g1'' [''r1''] ''t'' ''p'' ''s'' ''1'' ''c1''"

definition sample_released :: generated_result where
  "sample_released = \<lparr>gr_id = ''g1'', gr_session = ''s'', gr_term = ''1'', gr_class = ''c1'', gr_student = ''p'', gr_opened = 1, gr_present = 1,
     gr_absent = 0, gr_records = [\<lparr>sr_subject = ''maths'', sr_name = Some ''Mathematics'', sr_ca = 79 / 2, sr_exam = 30, sr_total = 139 / 2,
       sr_first = 0, sr_second = 0, sr_average = 139 / 2, sr_grade_title = ''F'', sr_grade_name = ''Failed''\<rparr>],
     gr_release = ''approved'', gr_approvedBy = Some ''Mrs H'', gr_approvedAt = Some 6, gr_generatedBy = ''Mr T'', gr_generatedAt = 5\<rparr>"

lemma sample_release: "gd_generated (run_reqs gen_step [sample_generate, ReleaseResult all_open teacher_env 6 ''h'' ''g1'']
    \<lparr>gd_generated = [], gd_results = []\<rparr>) = [sample_released]"
  by code_simp

theorem released_result_final_witness:
  "sample_released \<in> set (gd_generated (run_reqs gen_step ([sample_generate, ReleaseResult all_open teacher_env 6 ''h'' ''g1''] @ [sample_generate])
     \<lparr>gd_generated = [], gd_results = []\<rparr>))"
  by (rule released_result_final) (simp_all only: sample_release, simp_all add: sample_released_def)

theorem pupils_see_released_results_witness:
  "set [sample_released] \<subseteq> {g \<in> set [sample_released]. gr_student g = ''p'' \<and> gr_release g = ''approved''}"
proof -
  have "listGeneratedResults teacher_env ''p'' None None None \<lparr>gd_generated = [sample_released], gd_results = []\<rparr> = Inr [sample_released]"
    and "academic_roles teacher_env ''p'' = Inr [''student'']"
    by code_simp+
  from pupils_see_released_results [OF this] show ?thesis by simp
qed

text \<open>The default bands leave gaps between whole numbers: an average of 69.5 is in none of them and is recorded as
  failed.\<close>

lemma average_in_gap_fails:
  "let r = calculateGeneratedSubjectRecord \<lparr>pv_subject = ''maths'', pv_name = None, pv_total = 139 / 2, pv_cells = [(''note'', Some (79 / 2)), (''examination'', Some 30)]\<rparr>
             [] 0 DEFAULT_GRADE_BANDS
   in sr_average r = 139 / 2 \<and> sr_grade_title r = ''F'' \<and> sr_grade_name r = ''Failed''"
  by code_simp

text \<open>Generating again takes an approved result of \<open>academic_results\<close> back to submitted, and keeps who approved it.\<close>

lemma generating_unapproves_results:
  "let r = \<lparr>ar_id = ''r1'', ar_student = Some ''p'', ar_class = ''c1'', ar_subject = ''maths'', ar_term = ''1'', ar_ca = Some 40, ar_exam = Some 50,
         ar_total = Some 90, ar_grade = Some ''A'', ar_status = ''approved'', ar_comment = None, ar_approvedBy = Some ''h'', ar_approvedAt = Some 1,
         ar_createdAt = 0, ar_updatedAt = 1\<rparr>;
       db = snd (gen_step sample_generate \<lparr>gd_generated = [], gd_results = [r]\<rparr>)
   in map (\<lambda>r. (ar_status r, ar_total r, ar_approvedBy r)) (gd_results db) = [(''submitted'', Some (139 / 2), Some ''h'')]"
  by code_simp

end
