(* ===== verification/Sessions.thy ===== *)
theory Sessions
  imports Machines JsMap RolePermissions
begin

section \<open>Tokens and sessions\<close>

text \<open>
  \<open>identification/identification.service.ts\<close>: access and refresh tokens signed with HMAC-SHA256, and the
  revocation store of refresh tokens (a map in memory, and Redis when it is connected); then \<open>refresh\<close> and
  \<open>me\<close> of \<open>auth/auth.service.ts\<close> on top of it, with \<open>common/auth/session-profile.util.ts\<close> and the bearer
  check of \<open>common/auth/jwt-auth.guard.ts\<close>.  The codec is an argument: the signature as base64url text, and
  base64url of a JSON text with its inverse, which is \<open>None\<close> where \<open>JSON.parse\<close> throws.  A decoded object is a
  record of the claims the code reads, \<open>None\<close> for an absent one.  Times are seconds.
\<close>

subsection \<open>Tokens\<close>

record user_details =
  ud_email :: string
  ud_roles :: "string list"
  ud_permissions :: "string list"
  ud_capabilities :: "string list"

record jwt_claims =
  jw_sub :: "string option"
  jw_user_id :: "string option"
  jw_tenant_id :: "string option"
  jw_email :: "string option"
  jw_details :: "user_details option"
  jw_config_version :: "nat option"
  jw_tenant_status :: "string option"
  jw_features_digest :: "string option"
  jw_session_id :: "string option"
  jw_iat :: "int option"
  jw_exp :: "int option"
  jw_jti :: "string option"
  jw_iss :: "string option"
  jw_aud :: "string option"

record jwt_codec =
  jc_hmac :: "string \<Rightarrow> string \<Rightarrow> string"
  jc_header :: "string \<Rightarrow> string"                   \<comment> \<open>the encoded header of a token type\<close>
  jc_read_header :: "string \<Rightarrow> string option option" \<comment> \<open>its claim \<open>tkn\<close>; \<open>None\<close> when the text is no JSON\<close>
  jc_enc :: "jwt_claims \<Rightarrow> string"
  jc_dec :: "string \<Rightarrow> jwt_claims option"

record jwt_env =
  je_production :: bool
  je_jwt_secret :: "string option"
  je_access_secret :: "string option"
  je_issuer :: "string option"
  je_audience :: "string option"
  je_access_ttl :: int      \<comment> \<open>\<open>Number(ACCESS_TOKEN_TTL_SECONDS)\<close>, 0 when unset or no number\<close>
  je_refresh_ttl :: int

definition accessTokenTtlSeconds :: "jwt_env \<Rightarrow> int" where
  "accessTokenTtlSeconds env = (if je_access_ttl env \<noteq> 0 then je_access_ttl env else 60 * 30)"

definition refreshTokenTtlSeconds :: "jwt_env \<Rightarrow> int" where
  "refreshTokenTtlSeconds env = (if je_refresh_ttl env \<noteq> 0 then je_refresh_ttl env else 60 * 60 * 24 * 7)"

definition jwtSecret :: "jwt_env \<Rightarrow> string" where
  "jwtSecret env = or_else (je_jwt_secret env) (or_else (je_access_secret env) ''dev-local-jwt-secret-change-me'')"

definition insecureJwtSecrets :: "string list" where
  "insecureJwtSecrets = [''dev-local-jwt-secret-change-me'', ''dev-school-jwt-secret-change-me-32b'', ''change-me'',
     ''change-me-in-production'']"

definition assertJwtSecret :: "jwt_env \<Rightarrow> unit result" where
  "assertJwtSecret env =
     (if je_production env \<and> (\<not> truthy (je_jwt_secret env) \<and> \<not> truthy (je_access_secret env) \<or>
          List.member insecureJwtSecrets (jwtSecret env))
      then Inl (Unauthorized ''Server misconfigured: JWT_SECRET must be a unique production secret.'') else Inr ())"

definition issuer :: "jwt_env \<Rightarrow> string" where
  "issuer env = or_else (je_issuer env) ''mas-school-server''"

definition audience_claim :: "jwt_env \<Rightarrow> string" where
  "audience_claim env = or_else (je_audience env) ''mas-school-api''"

definition assertTokenClaims :: "jwt_env \<Rightarrow> jwt_claims \<Rightarrow> unit result" where
  "assertTokenClaims env p =
     (if jw_iss p \<noteq> Some (issuer env) \<or> jw_aud p \<noteq> Some (audience_claim env)
      then Inl (Unauthorized ''Invalid token issuer or audience'') else Inr ())"

definition signToken :: "jwt_codec \<Rightarrow> string \<Rightarrow> jwt_claims \<Rightarrow> string \<Rightarrow> string" where
  "signToken codec secret payload tokenType =
     (let signingInput = jc_header codec tokenType @ ''.'' @ jc_enc codec payload
      in signingInput @ ''.'' @ jc_hmac codec secret signingInput)"

definition verifySignature :: "jwt_codec \<Rightarrow> string \<Rightarrow> string \<Rightarrow> (string option \<times> jwt_claims) result" where
  "verifySignature codec secret token = (case split_on CHR ''.'' token of
      [h, p, s] \<Rightarrow>
        if s \<noteq> jc_hmac codec secret (h @ ''.'' @ p) then Inl (Unauthorized ''Invalid token signature'')
        else (case (jc_read_header codec h, jc_dec codec p) of
            (Some tkn, Some payload) \<Rightarrow> Inr (tkn, payload)
          | _ \<Rightarrow> Inl (Unauthorized ''Invalid token payload''))
    | _ \<Rightarrow> Inl (Unauthorized ''Invalid token format''))"

record session_input =
  si_sub :: string
  si_tenantId :: string
  si_email :: string
  si_roles :: "string list"
  si_permissions :: "string list"
  si_capabilities :: "string list"
  si_configVersion :: "nat option"
  si_tenantStatus :: "string option"
  si_featuresDigest :: "string option"
  si_refreshTtl :: "int option"

text \<open>The identifiers drawn for a session: \<open>jti\<close>, \<open>session_id\<close> and the \<open>jti\<close> of the refresh token.\<close>

record session_ids =
  sx_jti :: string
  sx_sid :: string
  sx_rjti :: string

definition access_payload :: "jwt_env \<Rightarrow> int \<Rightarrow> session_ids \<Rightarrow> session_input \<Rightarrow> jwt_claims" where
  "access_payload env now ids i =
     \<lparr>jw_sub = Some (si_sub i), jw_user_id = Some (si_sub i), jw_tenant_id = Some (si_tenantId i), jw_email = Some (si_email i),
      jw_details = Some \<lparr>ud_email = si_email i, ud_roles = si_roles i, ud_permissions = si_permissions i, ud_capabilities = si_capabilities i\<rparr>,
      jw_config_version = (case si_configVersion i of Some v \<Rightarrow> if 0 < v then Some v else None | None \<Rightarrow> None),
      jw_tenant_status = or_null (si_tenantStatus i), jw_features_digest = or_null (si_featuresDigest i), jw_session_id = None,
      jw_iat = Some now, jw_exp = Some (now + accessTokenTtlSeconds env), jw_jti = Some (sx_jti ids),
      jw_iss = Some (issuer env), jw_aud = Some (audience_claim env)\<rparr>"

definition refresh_ttl :: "jwt_env \<Rightarrow> session_input \<Rightarrow> int" where
  "refresh_ttl env i = (case si_refreshTtl i of Some t \<Rightarrow> if 0 < t then t else refreshTokenTtlSeconds env | None \<Rightarrow> refreshTokenTtlSeconds env)"

definition refresh_payload :: "jwt_env \<Rightarrow> int \<Rightarrow> session_ids \<Rightarrow> session_input \<Rightarrow> jwt_claims" where
  "refresh_payload env now ids i =
     \<lparr>jw_sub = Some (si_sub i), jw_user_id = None, jw_tenant_id = Some (si_tenantId i), jw_email = None, jw_details = None,
      jw_config_version = None, jw_tenant_status = None, jw_features_digest = None, jw_session_id = Some (sx_sid ids),
      jw_iat = Some now, jw_exp = Some (now + refresh_ttl env i), jw_jti = Some (sx_rjti ids),
      jw_iss = Some (issuer env), jw_aud = Some (audience_claim env)\<rparr>"

record session_tokens =
  st_access :: string
  st_refresh :: string

definition issueSession :: "jwt_codec \<Rightarrow> jwt_env \<Rightarrow> int \<Rightarrow> session_ids \<Rightarrow> session_input \<Rightarrow> session_tokens result" where
  "issueSession codec env now ids i = map_sum id
     (\<lambda>_. \<lparr>st_access = signToken codec (jwtSecret env) (access_payload env now ids i) ''access'',
          st_refresh = signToken codec (jwtSecret env) (refresh_payload env now ids i) ''refresh''\<rparr>) (assertJwtSecret env)"

text \<open>\<open>exp <= now\<close> is false for a token without \<open>exp\<close>.\<close>

definition expired :: "int \<Rightarrow> jwt_claims \<Rightarrow> bool" where
  "expired now p = (case jw_exp p of Some e \<Rightarrow> e \<le> now | None \<Rightarrow> False)"

definition verifyAccessToken :: "jwt_codec \<Rightarrow> jwt_env \<Rightarrow> int \<Rightarrow> string option \<Rightarrow> jwt_claims result" where
  "verifyAccessToken codec env now token = (case assertJwtSecret env of
      Inl e \<Rightarrow> Inl e
    | Inr _ \<Rightarrow>
        if \<not> truthy token then Inl (Unauthorized ''Missing access token'')
        else (case verifySignature codec (jwtSecret env) (the token) of
            Inl e \<Rightarrow> Inl e
          | Inr (tkn, p) \<Rightarrow>
              if tkn \<noteq> Some ''access'' then Inl (Unauthorized ''Invalid access token type'')
              else (case assertTokenClaims env p of
                  Inl e \<Rightarrow> Inl e
                | Inr _ \<Rightarrow>
                    if expired now p then Inl (Unauthorized ''Access token expired'')
                    else if \<not> truthy (jw_tenant_id p) \<or> \<not> truthy (jw_user_id p) \<or> jw_details p = None
                      then Inl (Unauthorized ''Missing zero-trust required claims in access token'')
                    else Inr p)))"

text \<open>\<open>auth.split(' ')\<close> of the bearer check.\<close>

definition jwt_canActivate :: "jwt_codec \<Rightarrow> jwt_env \<Rightarrow> int \<Rightarrow> bool \<Rightarrow> string option \<Rightarrow> jwt_claims option result" where
  "jwt_canActivate codec env now isPublic authorization =
     (if isPublic then Inr None
      else if \<not> truthy authorization then Inl (Unauthorized ''Missing Authorization header'')
      else (case split_on CHR '' '' (the authorization) of
          scheme # token # _ \<Rightarrow>
            if scheme \<noteq> ''Bearer'' \<or> token = [] then Inl (Unauthorized ''Invalid Authorization header'')
            else map_sum id Some (verifyAccessToken codec env now (Some token))
        | _ \<Rightarrow> Inl (Unauthorized ''Invalid Authorization header'')))"

subsection \<open>Revoked refresh tokens\<close>

text \<open>\<open>revokedRefreshTokenJtis\<close>, and the keys of Redis with the stored expiry and the time Redis drops them;
  \<open>None\<close> when Redis is not connected.\<close>

record revocations =
  rv_memory :: "(string, int) jsmap"
  rv_redis :: "(string \<rightharpoonup> int \<times> int) option"

definition cleanupRevokedRefreshTokens :: "int \<Rightarrow> revocations \<Rightarrow> revocations" where
  "cleanupRevokedRefreshTokens now s = s\<lparr>rv_memory := filter (\<lambda>e. now < snd e) (rv_memory s)\<rparr>"

definition jti_of :: "jwt_claims \<Rightarrow> string" where
  "jti_of p = (case jw_jti p of Some j \<Rightarrow> j | None \<Rightarrow> ''undefined'')"

definition verifyRefreshToken :: "jwt_codec \<Rightarrow> jwt_env \<Rightarrow> int \<Rightarrow> string option \<Rightarrow> revocations \<Rightarrow> jwt_claims result \<times> revocations" where
  "verifyRefreshToken codec env now token s = (case assertJwtSecret env of
      Inl e \<Rightarrow> (Inl e, s)
    | Inr _ \<Rightarrow>
        if \<not> truthy token then (Inl (Unauthorized ''Missing refresh token''), s)
        else (case verifySignature codec (jwtSecret env) (the token) of
            Inl e \<Rightarrow> (Inl e, s)
          | Inr (tkn, p) \<Rightarrow>
              if tkn \<noteq> Some ''refresh'' then (Inl (Unauthorized ''Invalid refresh token type''), s)
              else (case assertTokenClaims env p of
                  Inl e \<Rightarrow> (Inl e, s)
                | Inr _ \<Rightarrow>
                    if expired now p then (Inl (Unauthorized ''Refresh token expired''), s)
                    else let s' = cleanupRevokedRefreshTokens now s in
                      if mget (jti_of p) (rv_memory s') \<noteq> None then (Inl (Unauthorized ''Refresh token revoked''), s')
                      else (Inr p, s'))))"

text \<open>\<open>ok\<close> tells whether Redis answers; a read that fails counts as not revoked.\<close>

definition isRefreshRevoked :: "bool \<Rightarrow> int \<Rightarrow> string option \<Rightarrow> revocations \<Rightarrow> bool \<times> revocations" where
  "isRefreshRevoked ok now jti s =
     (if \<not> truthy jti then (False, s)
      else if mget (the jti) (rv_memory s) \<noteq> None then (True, s)
      else (case rv_redis s of
          None \<Rightarrow> (False, s)
        | Some store \<Rightarrow> (case (if ok then store (the jti) else None) of
              None \<Rightarrow> (False, s)
            | Some (e, gone) \<Rightarrow> if gone \<le> now then (False, s) else (True, s\<lparr>rv_memory := mset (the jti) e (rv_memory s)\<rparr>))))"

definition revoke_claims :: "bool \<Rightarrow> int \<Rightarrow> jwt_claims \<Rightarrow> revocations \<Rightarrow> revocations" where
  "revoke_claims ok now p s = (case (or_null (jw_jti p), jw_exp p) of
      (Some j, Some e) \<Rightarrow>
        let s' = s\<lparr>rv_memory := mset j e (rv_memory s)\<rparr>
        in (case rv_redis s' of
             None \<Rightarrow> s'
           | Some store \<Rightarrow> if ok then s'\<lparr>rv_redis := Some (store(j \<mapsto> (e, now + max 1 (e - now))))\<rparr> else s')
    | _ \<Rightarrow> s)"

definition revokeRefreshToken :: "jwt_codec \<Rightarrow> jwt_env \<Rightarrow> bool \<Rightarrow> int \<Rightarrow> string \<Rightarrow> revocations \<Rightarrow> unit result \<times> revocations" where
  "revokeRefreshToken codec env ok now token s = (case verifySignature codec (jwtSecret env) token of
      Inl e \<Rightarrow> (Inl e, s)
    | Inr (_, p) \<Rightarrow> (Inr (), revoke_claims ok now p s))"

subsection \<open>Refreshing a session\<close>

record tenant_user =
  tu_id :: string
  tu_email :: string
  tu_name :: string
  tu_schoolLevel :: "string option"
  tu_roles :: "string list"
  tu_permissions :: "string list"
  tu_capabilities :: "string list"
  tu_active :: bool

definition effectivePermissions :: "string list \<Rightarrow> string list \<Rightarrow> string list" where
  "effectivePermissions roles stored = (if List.member stored ''*'' then [''*''] else derivePermissionsForRoles roles)"

text \<open>\<open>Inl\<close> one level, \<open>Inr\<close> the levels of the tenant.\<close>

definition effectiveSchoolLevel :: "string option \<Rightarrow> string list \<Rightarrow> string list \<Rightarrow> string + string list" where
  "effectiveSchoolLevel userLevel roles tenantLevels =
     (case or_null userLevel of
        Some l \<Rightarrow> Inl l
      | None \<Rightarrow>
          if List.member roles ''head_teacher'' \<or> List.member roles ''assistant_head_teacher'' then Inl ''primary''
          else if List.member roles ''principal'' \<or> List.member roles ''vice_principal'' then Inl ''secondary''
          else Inr tenantLevels)"

record policy_snapshot =
  ps_configVersion :: nat
  ps_tenantStatus :: string
  ps_featuresDigest :: string

definition session_for :: "tenant_user \<Rightarrow> string \<Rightarrow> string list \<Rightarrow> policy_snapshot option \<Rightarrow> int option \<Rightarrow> session_input" where
  "session_for u tenantId perms policy ttl =
     \<lparr>si_sub = tu_id u, si_tenantId = tenantId, si_email = tu_email u, si_roles = tu_roles u, si_permissions = perms,
      si_capabilities = tu_capabilities u, si_configVersion = map_option ps_configVersion policy,
      si_tenantStatus = map_option ps_tenantStatus policy, si_featuresDigest = map_option ps_featuresDigest policy, si_refreshTtl = ttl\<rparr>"

text \<open>What \<open>refresh\<close> reads elsewhere: the tenants, their users and the policy of a tenant.\<close>

record auth_world =
  aw_tenant :: "string \<Rightarrow> bool"
  aw_user :: "string \<Rightarrow> string \<Rightarrow> tenant_user option"
  aw_policy :: "string \<Rightarrow> policy_snapshot option"

text \<open>The two halves of \<open>refresh\<close>, before and after the revocation: other requests may run between the reads of
  the first and the write of the second.\<close>

definition refresh_read :: "jwt_codec \<Rightarrow> jwt_env \<Rightarrow> auth_world \<Rightarrow> bool \<Rightarrow> int \<Rightarrow> string \<Rightarrow> revocations \<Rightarrow>
    (string \<times> tenant_user) result \<times> revocations" where
  "refresh_read codec env w ok now token s = (case verifyRefreshToken codec env now (Some token) s of
      (Inl e, s1) \<Rightarrow> (Inl e, s1)
    | (Inr p, s1) \<Rightarrow>
        (case isRefreshRevoked ok now (jw_jti p) s1 of
           (True, s2) \<Rightarrow> (Inl (Unauthorized ''Refresh token revoked''), s2)
         | (False, s2) \<Rightarrow>
             let tenantId = or_else (jw_tenant_id p) [] in
             if \<not> aw_tenant w tenantId then (Inl (Unauthorized ''Invalid tenant in refresh token''), s2)
             else (case aw_user w tenantId (or_else (jw_sub p) []) of
                 None \<Rightarrow> (Inl (Unauthorized ''User not found or inactive''), s2)
               | Some u \<Rightarrow> if \<not> tu_active u then (Inl (Unauthorized ''User not found or inactive''), s2) else (Inr (tenantId, u), s2))))"

definition refresh_write :: "jwt_codec \<Rightarrow> jwt_env \<Rightarrow> auth_world \<Rightarrow> bool \<Rightarrow> int \<Rightarrow> session_ids \<Rightarrow> string \<Rightarrow> string \<times> tenant_user \<Rightarrow>
    revocations \<Rightarrow> session_tokens result \<times> revocations" where
  "refresh_write codec env w ok now ids token = (\<lambda>(tenantId, u) s. case revokeRefreshToken codec env ok now token s of
      (Inl e, s1) \<Rightarrow> (Inl e, s1)
    | (Inr _, s1) \<Rightarrow>
        (issueSession codec env now ids
           (session_for u tenantId (effectivePermissions (tu_roles u) (tu_permissions u)) (aw_policy w tenantId) None), s1))"

definition refresh :: "jwt_codec \<Rightarrow> jwt_env \<Rightarrow> auth_world \<Rightarrow> bool \<Rightarrow> int \<Rightarrow> session_ids \<Rightarrow> string \<Rightarrow> revocations \<Rightarrow>
    session_tokens result \<times> revocations" where
  "refresh codec env w ok now ids token s = (case refresh_read codec env w ok now token s of
      (Inl e, s1) \<Rightarrow> (Inl e, s1)
    | (Inr x, s1) \<Rightarrow> refresh_write codec env w ok now ids token x s1)"

record profile =
  pf_user :: tenant_user
  pf_permissions :: "string list"
  pf_level :: "string + string list"

definition me :: "jwt_codec \<Rightarrow> jwt_env \<Rightarrow> auth_world \<Rightarrow> (string \<Rightarrow> string list) \<Rightarrow> int \<Rightarrow> string \<Rightarrow> profile result" where
  "me codec env w levels now token = (case verifyAccessToken codec env now (Some token) of
      Inl e \<Rightarrow> Inl e
    | Inr p \<Rightarrow>
        let tenantId = or_else (jw_tenant_id p) [] in
        if \<not> aw_tenant w tenantId then Inl (Unauthorized ''Invalid tenant context'')
        else (case aw_user w tenantId (or_else (jw_sub p) []) of
            None \<Rightarrow> Inl (Unauthorized ''User not found in tenant'')
          | Some u \<Rightarrow> Inr \<lparr>pf_user = u, pf_permissions = effectivePermissions (tu_roles u) (tu_permissions u),
              pf_level = effectiveSchoolLevel (tu_schoolLevel u) (tu_roles u) (levels tenantId)\<rparr>))"

subsection \<open>A server process\<close>

text \<open>Requests to refresh that one process answers one after the other; each comes \<open>elapsed\<close> seconds after the
  one before.\<close>

record session_server =
  ss_clock :: int
  ss_revoked :: revocations

record refresh_request =
  rq_elapsed :: nat
  rq_token :: string
  rq_ids :: session_ids
  rq_world :: auth_world
  rq_redis_ok :: bool

definition refresh_step :: "jwt_codec \<Rightarrow> jwt_env \<Rightarrow> refresh_request \<Rightarrow> session_server \<Rightarrow>
    (string \<times> session_tokens result) \<times> session_server" where
  "refresh_step codec env q s =
     (let now = ss_clock s + int (rq_elapsed q);
          (r, rv) = refresh codec env (rq_world q) (rq_redis_ok q) now (rq_ids q) (rq_token q) (ss_revoked s)
      in ((rq_token q, r), \<lparr>ss_clock = now, ss_revoked = rv\<rparr>))"


subsection \<open>Facts\<close>

lemma split_on_append:
  "c \<notin> set a \<Longrightarrow> split_on c (a @ c # b) = a # split_on c b"
  by (induction a) auto

lemma split_on_none: "c \<notin> set a \<Longrightarrow> split_on c a = [a]"
  by (induction a) auto

lemma split_on_join: "concat (map (\<lambda>x. c # x) (split_on c s)) = c # s"
  by (induction s) (auto split: list.splits)

lemma split_on_three: "split_on c s = [x, y, z] \<Longrightarrow> s = x @ [c] @ y @ [c] @ z"
  using split_on_join [of c s] by simp

lemma verifySignature_signToken:
  assumes "CHR ''.'' \<notin> set (jc_header codec k)" and "CHR ''.'' \<notin> set (jc_enc codec p)"
    and "CHR ''.'' \<notin> set (jc_hmac codec secret (jc_header codec k @ ''.'' @ jc_enc codec p))"
    and "jc_read_header codec (jc_header codec k) = Some (Some k)" and "jc_dec codec (jc_enc codec p) = Some p"
  shows "verifySignature codec secret (signToken codec secret p k) = Inr (Some k, p)"
  using assms by (simp add: verifySignature_def signToken_def Let_def split_on_append split_on_none)

lemma verifySignature_Inr:
  assumes "verifySignature codec secret token = Inr (tkn, p)"
  obtains h b where "token = h @ ''.'' @ b @ ''.'' @ jc_hmac codec secret (h @ ''.'' @ b)"
    and "jc_read_header codec h = Some tkn" and "jc_dec codec b = Some p"
proof -
  from assms obtain h b s where parts: "split_on CHR ''.'' token = [h, b, s]"
    by (auto simp: verifySignature_def split: list.splits)
  with assms have "s = jc_hmac codec secret (h @ ''.'' @ b)" "jc_read_header codec h = Some tkn" "jc_dec codec b = Some p"
    by (auto simp: verifySignature_def split: if_splits option.splits)
  with split_on_three [OF parts] that show thesis by simp
qed

lemma verifyAccessToken_Inr:
  assumes "verifyAccessToken codec env now token = Inr p"
  shows "assertJwtSecret env = Inr ()" and "truthy token"
    and "verifySignature codec (jwtSecret env) (the token) = Inr (Some ''access'', p)"
    and "assertTokenClaims env p = Inr ()" and "\<not> expired now p"
    and "truthy (jw_tenant_id p)" and "truthy (jw_user_id p)" and "jw_details p \<noteq> None"
  using assms by (auto simp: verifyAccessToken_def split: sum.splits if_splits)

lemma verifyRefreshToken_Inr:
  assumes "verifyRefreshToken codec env now token s = (Inr p, s')"
  shows "assertJwtSecret env = Inr ()" and "truthy token"
    and "verifySignature codec (jwtSecret env) (the token) = Inr (Some ''refresh'', p)"
    and "\<not> expired now p" and "s' = cleanupRevokedRefreshTokens now s" and "mget (jti_of p) (rv_memory s') = None"
  using assms by (auto simp: verifyRefreshToken_def Let_def split: sum.splits if_splits)

text \<open>What the store says of one identifier \<open>j\<close> whose token expires at \<open>e\<close>: every entry of \<open>j\<close> holds \<open>e\<close>, and
  once barred, by its entry or by its age, \<open>j\<close> stays barred.\<close>

definition about :: "string \<Rightarrow> int \<Rightarrow> revocations \<Rightarrow> bool" where
  "about j e s \<longleftrightarrow> wf_map (rv_memory s) \<and> mget j (rv_memory s) \<in> {None, Some e} \<and>
     (case rv_redis s of None \<Rightarrow> True | Some store \<Rightarrow> (case store j of None \<Rightarrow> True | Some v \<Rightarrow> fst v = e))"

definition barred :: "string \<Rightarrow> int \<Rightarrow> int \<Rightarrow> revocations \<Rightarrow> bool" where
  "barred j e now s \<longleftrightarrow> e \<le> now \<or> mget j (rv_memory s) = Some e"

definition keeps :: "string \<Rightarrow> int \<Rightarrow> int \<Rightarrow> revocations \<Rightarrow> revocations \<Rightarrow> bool" where
  "keeps j e now s s' \<longleftrightarrow> (about j e s \<longrightarrow> about j e s' \<and> (barred j e now s \<longrightarrow> barred j e now s'))"

lemma keeps_refl [simp]: "keeps j e now s s"
  by (simp add: keeps_def)

lemma keeps_trans: "keeps j e now s s' \<Longrightarrow> keeps j e now s' s'' \<Longrightarrow> keeps j e now s s''"
  by (auto simp: keeps_def)

lemma mget_younger: "wf_map m \<Longrightarrow> mget j (filter (\<lambda>x. now < snd x) m) =
    (case mget j m of None \<Rightarrow> None | Some v \<Rightarrow> if now < v then Some v else None)"
  by (induction m) (auto simp: wf_map_def mget_def image_iff split: option.splits)

lemma keeps_cleanup: "keeps j e now s (cleanupRevokedRefreshTokens now s)"
  by (auto simp: keeps_def about_def barred_def cleanupRevokedRefreshTokens_def mget_younger wf_map_filter)

lemma keeps_verify: "keeps j e now s (snd (verifyRefreshToken codec env now token s))"
  by (auto simp: verifyRefreshToken_def Let_def keeps_cleanup split: sum.split)

lemma keeps_isRefreshRevoked: "keeps j e now s (snd (isRefreshRevoked ok now k s))"
  by (auto simp: isRefreshRevoked_def keeps_def about_def barred_def truthy_iff split: option.splits if_splits)

lemma keeps_revoke:
  assumes "jw_jti p = Some j \<Longrightarrow> jw_exp p = Some e"
  shows "keeps j e now s (revoke_claims ok now p s)"
  using assms by (auto simp: revoke_claims_def Let_def keeps_def about_def barred_def or_null_Some_iff split: option.splits)

definition token_jti :: "jwt_codec \<Rightarrow> jwt_env \<Rightarrow> string \<Rightarrow> string option" where
  "token_jti codec env token = (case verifySignature codec (jwtSecret env) token of Inl _ \<Rightarrow> None | Inr (_, p) \<Rightarrow> jw_jti p)"

lemma keeps_refresh_read: "keeps j e now s (snd (refresh_read codec env w ok now token s))"
proof -
  obtain r s1 where r: "verifyRefreshToken codec env now (Some token) s = (r, s1)" by fastforce
  with keeps_verify [of j e now s codec env "Some token"] have s1: "keeps j e now s s1" by simp
  show ?thesis
  proof (cases r)
    case (Inl err)
    with r s1 show ?thesis by (simp add: refresh_read_def)
  next
    case (Inr p)
    obtain b s2 where b: "isRefreshRevoked ok now (jw_jti p) s1 = (b, s2)" by fastforce
    with keeps_isRefreshRevoked [of j e now s1 ok "jw_jti p"] have "keeps j e now s1 s2" by simp
    with s1 have "keeps j e now s s2" by (rule keeps_trans)
    with r Inr b show ?thesis by (cases b) (simp_all add: refresh_read_def Let_def split: option.split)
  qed
qed

lemma keeps_refresh:
  assumes "\<And>k p. verifySignature codec (jwtSecret env) token = Inr (k, p) \<Longrightarrow> jw_jti p = Some j \<Longrightarrow> jw_exp p = Some e"
  shows "keeps j e now s (snd (refresh codec env w ok now ids token s))"
proof -
  obtain r s1 where r: "refresh_read codec env w ok now token s = (r, s1)" by fastforce
  with keeps_refresh_read [of j e now s codec env w ok token] have "keeps j e now s s1" by simp
  moreover have "keeps j e now s1 (snd (refresh_write codec env w ok now ids token x s1))" for x
    using assms keeps_revoke by (auto simp: refresh_write_def revokeRefreshToken_def split: sum.split prod.split)
  ultimately show ?thesis by (cases r) (auto simp: refresh_def r intro: keeps_trans)
qed


text \<open>A refresh that succeeds was not barred before and is barred after.\<close>

lemma refresh_Inr:
  assumes "refresh codec env w ok now ids token s = (Inr x, s')"
    and "verifySignature codec (jwtSecret env) token = Inr (k, p)" and "jw_jti p = Some j" and "j \<noteq> []" and "jw_exp p = Some e"
    and "about j e s"
  shows "\<not> barred j e now s" and "mget j (rv_memory s') = Some e"
proof -
  obtain r s1 where read: "refresh_read codec env w ok now token s = (r, s1)" by fastforce
  with assms(1) obtain y where y: "r = Inr y" by (cases r) (auto simp: refresh_def)
  obtain v s0 where v: "verifyRefreshToken codec env now (Some token) s = (v, s0)" by fastforce
  with read y obtain p' where p': "v = Inr p'" by (cases v) (auto simp: refresh_read_def)
  note verified = verifyRefreshToken_Inr [OF v [unfolded p']]
  from verified(3) assms(2) have same: "p' = p" by simp
  have "jti_of p = j" using assms(3) by (simp add: jti_of_def)
  with verified same assms(6) show "\<not> barred j e now s"
    using assms(5) by (auto simp: barred_def about_def expired_def cleanupRevokedRefreshTokens_def mget_younger)
  have "s' = revoke_claims ok now p s1"
    using assms(1,2) read y by (auto simp: refresh_def refresh_write_def revokeRefreshToken_def split: prod.splits)
  then show "mget j (rv_memory s') = Some e"
    using assms(3,4,5) by (auto simp: revoke_claims_def Let_def or_null_def split: option.split list.split)
qed

text \<open>The contract of a refresh token of one session: used at most once.\<close>

definition own_or_other :: "jwt_codec \<Rightarrow> jwt_env \<Rightarrow> string \<Rightarrow> refresh_request \<Rightarrow> bool" where
  "own_or_other codec env token q \<longleftrightarrow> rq_token q = token \<or> token_jti codec env (rq_token q) \<noteq> token_jti codec env token"

lemma refresh_one_shot:
  assumes "verifySignature codec (jwtSecret env) token = Inr (k, p)" and "jw_jti p = Some j" and "j \<noteq> []" and "jw_exp p = Some e"
  shows "one_shot_on (refresh_step codec env) (\<lambda>s. about j e (ss_revoked s)) (\<lambda>s. barred j e (ss_clock s) (ss_revoked s))
           (\<lambda>(t, r). t = token \<and> is_ok r) (own_or_other codec env token)"
proof
  fix q and s :: session_server
  assume allowed: "own_or_other codec env token q" and about: "about j e (ss_revoked s)"
  define now where "now = ss_clock s + int (rq_elapsed q)"
  obtain r rv where run: "refresh codec env (rq_world q) (rq_redis_ok q) now (rq_ids q) (rq_token q) (ss_revoked s) = (r, rv)" by fastforce
  then have step: "refresh_step codec env q s = ((rq_token q, r), \<lparr>ss_clock = now, ss_revoked = rv\<rparr>)"
    by (simp add: refresh_step_def Let_def now_def)
  have same_exp: "jw_exp p' = Some e" if "verifySignature codec (jwtSecret env) (rq_token q) = Inr (k', p')" "jw_jti p' = Some j" for k' p'
    using that allowed assms by (auto simp: own_or_other_def token_jti_def)
  then have keep: "keeps j e now (ss_revoked s) rv" using keeps_refresh run by (metis snd_conv)
  show "about j e (ss_revoked (snd (refresh_step codec env q s)))"
    using keep about by (simp add: step keeps_def)
  have older: "barred j e (ss_clock s) (ss_revoked s) \<Longrightarrow> barred j e now (ss_revoked s)"
    by (auto simp: barred_def now_def)
  then show "barred j e (ss_clock s) (ss_revoked s) \<Longrightarrow>
      barred j e (ss_clock (snd (refresh_step codec env q s))) (ss_revoked (snd (refresh_step codec env q s)))"
    using keep about by (simp add: step keeps_def)
  have hit: "\<not> barred j e now (ss_revoked s) \<and> mget j (rv_memory rv) = Some e" if "case (rq_token q, r) of (t, r) \<Rightarrow> t = token \<and> is_ok r"
  proof -
    from that obtain x where "r = Inr x" "rq_token q = token" by (auto elim: is_ok_E)
    with run have ok: "refresh codec env (rq_world q) (rq_redis_ok q) now (rq_ids q) token (ss_revoked s) = (Inr x, rv)" by simp
    show ?thesis using refresh_Inr [OF ok assms about] by blast
  qed
  then show "barred j e (ss_clock s) (ss_revoked s) \<Longrightarrow> \<not> (case fst (refresh_step codec env q s) of (t, r) \<Rightarrow> t = token \<and> is_ok r)"
    using older by (auto simp: step)
  show "case fst (refresh_step codec env q s) of (t, r) \<Rightarrow> t = token \<and> is_ok r \<Longrightarrow>
      barred j e (ss_clock (snd (refresh_step codec env q s))) (ss_revoked (snd (refresh_step codec env q s)))"
    using hit by (simp add: step barred_def)
qed

subsection \<open>Properties\<close>

text \<open>C11: Round trip: the access token of an issued session is accepted until it expires and gives back the claims
  it was issued with, and its refresh token is accepted as a refresh token while its identifier is not
  revoked.\<close>

theorem issued_session_verifies:
  assumes "issueSession codec env now ids i = Inr tokens"
    and "{CHR ''.''} \<inter> (set (jc_header codec ''access'') \<union> set (jc_header codec ''refresh'') \<union>
           set (jc_enc codec (access_payload env now ids i)) \<union> set (jc_enc codec (refresh_payload env now ids i))) = {}"
    and "CHR ''.'' \<notin> set (jc_hmac codec (jwtSecret env) (jc_header codec ''access'' @ ''.'' @ jc_enc codec (access_payload env now ids i)))"
    and "CHR ''.'' \<notin> set (jc_hmac codec (jwtSecret env) (jc_header codec ''refresh'' @ ''.'' @ jc_enc codec (refresh_payload env now ids i)))"
    and "jc_read_header codec (jc_header codec ''access'') = Some (Some ''access'')"
    and "jc_read_header codec (jc_header codec ''refresh'') = Some (Some ''refresh'')"
    and "jc_dec codec (jc_enc codec (access_payload env now ids i)) = Some (access_payload env now ids i)"
    and "jc_dec codec (jc_enc codec (refresh_payload env now ids i)) = Some (refresh_payload env now ids i)"
    and "si_sub i \<noteq> []" and "si_tenantId i \<noteq> []"
    and "t < now + accessTokenTtlSeconds env" and "t < now + refresh_ttl env i"
    and "mget (sx_rjti ids) (rv_memory (cleanupRevokedRefreshTokens t s)) = None"
  shows "verifyAccessToken codec env t (Some (st_access tokens)) = Inr (access_payload env now ids i) \<and>
    fst (verifyRefreshToken codec env t (Some (st_refresh tokens)) s) = Inr (refresh_payload env now ids i)"
proof -
  from assms(1) have ok: "assertJwtSecret env = Inr ()"
    and tokens: "st_access tokens = signToken codec (jwtSecret env) (access_payload env now ids i) ''access''"
      "st_refresh tokens = signToken codec (jwtSecret env) (refresh_payload env now ids i) ''refresh''"
    by (cases "assertJwtSecret env"; auto simp: issueSession_def)+
  have nonempty: "signToken codec k p h \<noteq> []" for k p h by (simp add: signToken_def Let_def)
  have "verifySignature codec (jwtSecret env) (st_access tokens) = Inr (Some ''access'', access_payload env now ids i)"
    unfolding tokens using assms(2-8) by (intro verifySignature_signToken) auto
  with ok tokens assms(9-11) nonempty have access: "verifyAccessToken codec env t (Some (st_access tokens)) = Inr (access_payload env now ids i)"
    by (simp add: verifyAccessToken_def access_payload_def assertTokenClaims_def expired_def)
  have "verifySignature codec (jwtSecret env) (st_refresh tokens) = Inr (Some ''refresh'', refresh_payload env now ids i)"
    unfolding tokens using assms(2-8) by (intro verifySignature_signToken) auto
  with ok tokens assms(12,13) nonempty have "fst (verifyRefreshToken codec env t (Some (st_refresh tokens)) s) = Inr (refresh_payload env now ids i)"
    by (simp add: verifyRefreshToken_def refresh_payload_def assertTokenClaims_def expired_def jti_of_def)
  with access show ?thesis ..
qed

definition demo_env :: jwt_env where
  "demo_env = \<lparr>je_production = True, je_jwt_secret = Some ''k3y'', je_access_secret = None, je_issuer = None, je_audience = None,
     je_access_ttl = 0, je_refresh_ttl = 0\<rparr>"

definition demo_input :: session_input where
  "demo_input = \<lparr>si_sub = ''u'', si_tenantId = ''t'', si_email = ''e'', si_roles = [''director''], si_permissions = [], si_capabilities = [],
     si_configVersion = Some 3, si_tenantStatus = None, si_featuresDigest = None, si_refreshTtl = None\<rparr>"

definition demo_ids :: session_ids where
  "demo_ids = \<lparr>sx_jti = ''a1'', sx_sid = ''s1'', sx_rjti = ''r1''\<rparr>"

text \<open>A codec for one session: the text of a claims object is its \<open>jti\<close>.\<close>

definition demo_codec :: jwt_codec where
  "demo_codec = \<lparr>jc_hmac = \<lambda>k t. ''mac'', jc_header = id, jc_read_header = \<lambda>h. Some (Some h), jc_enc = jti_of,
     jc_dec = \<lambda>b. if b = ''a1'' then Some (access_payload demo_env 100 demo_ids demo_input)
                  else if b = ''r1'' then Some (refresh_payload demo_env 100 demo_ids demo_input) else None\<rparr>"

definition demo_tokens :: session_tokens where
  "demo_tokens = \<lparr>st_access = ''access.a1.mac'', st_refresh = ''refresh.r1.mac''\<rparr>"

lemma demo_issue: "issueSession demo_codec demo_env 100 demo_ids demo_input = Inr demo_tokens"
  by code_simp

lemmas demo_defs = demo_codec_def demo_env_def demo_ids_def demo_input_def

theorem issued_session_verifies_witness:
  "verifyAccessToken demo_codec demo_env 1899 (Some ''access.a1.mac'') = Inr (access_payload demo_env 100 demo_ids demo_input) \<and>
   fst (verifyRefreshToken demo_codec demo_env 1899 (Some ''refresh.r1.mac'') \<lparr>rv_memory = [], rv_redis = None\<rparr>) =
     Inr (refresh_payload demo_env 100 demo_ids demo_input)"
proof -
  have now: "(1899 :: int) < 100 + accessTokenTtlSeconds demo_env" "1899 < 100 + refresh_ttl demo_env demo_input"
    by (simp_all add: accessTokenTtlSeconds_def refresh_ttl_def refreshTokenTtlSeconds_def demo_defs)
  have store: "mget (sx_rjti demo_ids) (rv_memory (cleanupRevokedRefreshTokens 1899 \<lparr>rv_memory = [], rv_redis = None\<rparr>)) = None"
    by (simp add: cleanupRevokedRefreshTokens_def)
  show ?thesis
    using issued_session_verifies [OF demo_issue _ _ _ _ _ _ _ _ _ now store]
    by (simp add: demo_tokens_def demo_defs jti_of_def access_payload_def refresh_payload_def)
qed

text \<open>C10: A token is accepted only with the signature of the server's secret: it is three parts whose last is the
  HMAC of the others, its header names the access type, its issuer and audience are the configured ones, it
  is not expired and names a tenant and a user; in production the secret is not one of the published ones.\<close>

theorem access_needs_signature:
  assumes "verifyAccessToken codec env now (Some token) = Inr p"
  shows "(\<exists>h b. token = h @ ''.'' @ b @ ''.'' @ jc_hmac codec (jwtSecret env) (h @ ''.'' @ b) \<and>
      jc_read_header codec h = Some (Some ''access'') \<and> jc_dec codec b = Some p) \<and>
    jw_iss p = Some (issuer env) \<and> jw_aud p = Some (audience_claim env) \<and> \<not> expired now p \<and>
    truthy (jw_tenant_id p) \<and> truthy (jw_user_id p) \<and> \<not> (je_production env \<and> jwtSecret env \<in> set insecureJwtSecrets)"
proof -
  note ok = verifyAccessToken_Inr [OF assms]
  from ok(3) obtain h b where "token = h @ ''.'' @ b @ ''.'' @ jc_hmac codec (jwtSecret env) (h @ ''.'' @ b)"
      "jc_read_header codec h = Some (Some ''access'')" "jc_dec codec b = Some p"
    unfolding option.sel by (rule verifySignature_Inr)
  then have "\<exists>h b. token = h @ ''.'' @ b @ ''.'' @ jc_hmac codec (jwtSecret env) (h @ ''.'' @ b) \<and>
      jc_read_header codec h = Some (Some ''access'') \<and> jc_dec codec b = Some p" by blast
  moreover from ok have "jw_iss p = Some (issuer env) \<and> jw_aud p = Some (audience_claim env) \<and> \<not> expired now p \<and>
      truthy (jw_tenant_id p) \<and> truthy (jw_user_id p)"
    by (simp add: assertTokenClaims_def split: if_splits)
  moreover from ok(1) have "\<not> (je_production env \<and> jwtSecret env \<in> set insecureJwtSecrets)"
    by (auto simp: assertJwtSecret_def split: if_splits)
  ultimately show ?thesis by blast
qed

theorem access_needs_signature_witness:
  "\<exists>h b. ''access.a1.mac'' = h @ ''.'' @ b @ ''.'' @ jc_hmac demo_codec (jwtSecret demo_env) (h @ ''.'' @ b) \<and>
     jc_read_header demo_codec h = Some (Some ''access'') \<and> jc_dec demo_codec b = Some (access_payload demo_env 100 demo_ids demo_input)"
proof -
  have "verifyAccessToken demo_codec demo_env 101 (Some ''access.a1.mac'') = Inr (access_payload demo_env 100 demo_ids demo_input)"
    by code_simp
  from access_needs_signature [OF this] show ?thesis by blast
qed


definition demo_world :: auth_world where
  "demo_world = \<lparr>aw_tenant = \<lambda>_. True, aw_user = \<lambda>_ u. Some \<lparr>tu_id = u, tu_email = ''e'', tu_name = ''n'', tu_schoolLevel = None, tu_roles = [],
     tu_permissions = [''*''], tu_capabilities = [], tu_active = True\<rparr>, aw_policy = \<lambda>_. None\<rparr>"

definition demo_refresh :: "nat \<Rightarrow> refresh_request" where
  "demo_refresh n = \<lparr>rq_elapsed = n, rq_token = ''refresh.r1.mac'', rq_ids = \<lparr>sx_jti = ''a2'', sx_sid = ''s2'', sx_rjti = ''r2''\<rparr>,
     rq_world = demo_world, rq_redis_ok = True\<rparr>"

lemma demo_token: "verifySignature demo_codec (jwtSecret demo_env) ''refresh.r1.mac'' =
    Inr (Some ''refresh'', refresh_payload demo_env 100 demo_ids demo_input)"
  by code_simp


subsection \<open>What the model showed\<close>

text \<open>Two refreshes with one token that interleave, both reads before the first revocation, both succeed.\<close>

lemma interleaved_refreshes_both_succeed:
  "let s0 = \<lparr>rv_memory = [], rv_redis = None\<rparr>;
       ids = \<lparr>sx_jti = ''a2'', sx_sid = ''s2'', sx_rjti = ''r2''\<rparr>;
       (r1, s1) = refresh_read demo_codec demo_env demo_world True 110 ''refresh.r1.mac'' s0;
       (r2, s2) = refresh_read demo_codec demo_env demo_world True 110 ''refresh.r1.mac'' s1;
       (x1, s3) = refresh_write demo_codec demo_env demo_world True 110 ids ''refresh.r1.mac'' (projr r1) s2;
       (x2, s4) = refresh_write demo_codec demo_env demo_world True 110 ids ''refresh.r1.mac'' (projr r2) s3
   in is_ok r1 \<and> is_ok r2 \<and> is_ok x1 \<and> is_ok x2"
  by code_simp

text \<open>When Redis does not answer, a token revoked by another process is taken for a good one.\<close>

lemma redis_failure_forgets_revocations:
  "fst (isRefreshRevoked False now (Some j) \<lparr>rv_memory = [], rv_redis = Some store\<rparr>) = False"
  by (simp add: isRefreshRevoked_def)

text \<open>A refresh issues its session without a lifetime: whatever lifetime the refresh token had, the new one gets
  the default, so a session that was to be remembered for 30 days lasts seven from its first refresh on.\<close>

lemma refresh_forgets_remember_me:
  "refresh_ttl env (session_for u t perms policy None) = refreshTokenTtlSeconds env"
  by (simp add: refresh_ttl_def session_for_def)

end
