(* ===== verification/Passwords.thy ===== *)
theory Passwords
  imports Enforcement
begin

section \<open>Password hashes and school slugs\<close>

text \<open>
  \<open>common/security/password.service.ts\<close>: the encoded form of a password hash and its check, with the slugs of
  \<open>common/utils/id.util.ts\<close> and the name search of \<open>parent-activation/school-search.util.ts\<close>.  The key derivation
  (\<open>scryptSync\<close>) and base64 are Node's: an argument, with what the code relies on as hypotheses.  Bytes are
  characters.
\<close>

subsection \<open>Password hashes\<close>

record kdf =
  kd_scrypt :: "string \<Rightarrow> string \<Rightarrow> nat \<Rightarrow> int \<Rightarrow> int \<Rightarrow> int \<Rightarrow> string option"
    \<comment> \<open>of plaintext, salt, length, N, r and p; \<open>None\<close> where it throws\<close>
  kd_base64 :: "string \<Rightarrow> string"
  kd_unbase64 :: "string \<Rightarrow> string"

text \<open>The laws of the documentation: with the parameters used here the key derivation does not throw and yields as
  many bytes as asked for, base64 is decoded to what was encoded, and base64 has no dollar sign.\<close>

definition kdf_ok :: "kdf \<Rightarrow> bool" where
  "kdf_ok k \<longleftrightarrow> (\<forall>pw salt len. \<exists>d. kd_scrypt k pw salt len 16384 8 1 = Some d \<and> length d = len) \<and>
     (\<forall>b. kd_unbase64 k (kd_base64 k b) = b) \<and> (\<forall>b. CHR ''$'' \<notin> set (kd_base64 k b))"

fun join_with :: "char \<Rightarrow> string list \<Rightarrow> string" where
  "join_with c [] = []"
| "join_with c [x] = x"
| "join_with c (x # y # xs) = x @ c # join_with c (y # xs)"

text \<open>\<open>1 << n\<close> on 32 bits, as a signed integer: the shift distance is taken modulo 32.\<close>

definition one_shifted :: "int \<Rightarrow> int" where
  "one_shifted n = sint (push_bit (nat (n mod 32)) (1 :: 32 word))"

text \<open>\<open>parseInt(text, 10)\<close>: the leading digits, after blanks and a sign; \<open>None\<close> is \<open>NaN\<close>.\<close>

definition parseInt :: "string \<Rightarrow> int option" where
  "parseInt text = (let s = dropWhile js_space text;
      neg = (s \<noteq> [] \<and> hd s = CHR ''-'');
      body = (if s \<noteq> [] \<and> (hd s = CHR ''-'' \<or> hd s = CHR ''+'') then tl s else s);
      ds = takeWhile (\<lambda>c. digit_val c \<noteq> None) body
    in if ds = [] then None else map_option (\<lambda>n. if neg then - n else n) (digits_val 0 ds))"

definition hashPassword :: "kdf \<Rightarrow> string \<Rightarrow> string \<Rightarrow> string option" where
  "hashPassword k salt plaintext = map_option
     (\<lambda>derived. join_with CHR ''$'' [''scrypt'', ''14'', ''8'', ''1'', salt, kd_base64 k derived])
     (kd_scrypt k plaintext salt 32 (one_shifted 14) 8 1)"

text \<open>\<open>None\<close> when the derivation throws, as it does on a parameter that is no number; \<open>1 << NaN\<close> is 1.\<close>

definition verifyPassword :: "kdf \<Rightarrow> string \<Rightarrow> string \<Rightarrow> bool option" where
  "verifyPassword k plaintext encoded = (case split_on CHR ''$'' encoded of
      [scheme, cost, r, p, salt, text] \<Rightarrow>
        if scheme \<noteq> ''scrypt'' then Some False
        else (case (parseInt r, parseInt p) of
            (Some r', Some p') \<Rightarrow>
              let stored = kd_unbase64 k text;
                  N = one_shifted (case parseInt cost of Some n \<Rightarrow> n | None \<Rightarrow> 0)
              in map_option (\<lambda>derived. stored = derived) (kd_scrypt k plaintext salt (length stored) N r' p')
          | _ \<Rightarrow> None)
    | _ \<Rightarrow> Some False)"

lemma split_on_plain: "c \<notin> set x \<Longrightarrow> split_on c x = [x]"
  by (induction x) auto

lemma split_join: "xs \<noteq> [] \<Longrightarrow> list_all (\<lambda>x. c \<notin> set x) xs \<Longrightarrow> split_on c (join_with c xs) = xs"
proof (induction c xs rule: join_with.induct)
  case (3 c x y xs)
  have "split_on c (x @ c # rest) = x # split_on c rest" for rest
    using 3(3) by (induction x) auto
  with 3 show ?case by simp
qed (auto simp: split_on_plain)

lemma parseInt_stored: "parseInt ''14'' = Some 14" "parseInt ''8'' = Some 8" "parseInt ''1'' = Some 1"
  by code_simp+

lemma verify_hash:
  assumes "kdf_ok k" and "CHR ''$'' \<notin> set salt"
  obtains encoded d where "hashPassword k salt p = Some encoded" and "kd_scrypt k p salt 32 16384 8 1 = Some d"
    and "\<And>q. verifyPassword k q encoded = Some (kd_scrypt k q salt 32 16384 8 1 = Some d)"
proof -
  obtain d where d: "kd_scrypt k p salt 32 16384 8 1 = Some d" "length d = 32"
    using assms(1) unfolding kdf_ok_def by metis
  let ?e = "join_with CHR ''$'' [''scrypt'', ''14'', ''8'', ''1'', salt, kd_base64 k d]"
  have parts: "split_on CHR ''$'' ?e = [''scrypt'', ''14'', ''8'', ''1'', salt, kd_base64 k d]"
    using assms by (intro split_join) (simp_all add: kdf_ok_def)
  have N: "one_shifted 14 = 16384" by code_simp
  have "verifyPassword k q ?e = Some (kd_scrypt k q salt 32 16384 8 1 = Some d)" for q
  proof -
    obtain d' where "kd_scrypt k q salt 32 16384 8 1 = Some d'"
      using assms(1) unfolding kdf_ok_def by metis
    with parts N d assms(1) show ?thesis
      by (auto simp: verifyPassword_def parseInt_stored kdf_ok_def Let_def)
  qed
  moreover have "hashPassword k salt p = Some ?e" by (simp add: hashPassword_def N d)
  ultimately show ?thesis using d that by blast
qed

lemma password_hash_accepts:
  assumes "kdf_ok k" and "CHR ''$'' \<notin> set salt" and "hashPassword k salt p = Some encoded"
  shows "verifyPassword k p encoded = Some True"
proof -
  obtain encoded' d where "hashPassword k salt p = Some encoded'" "kd_scrypt k p salt 32 16384 8 1 = Some d"
    "\<And>q. verifyPassword k q encoded' = Some (kd_scrypt k q salt 32 16384 8 1 = Some d)"
    by (rule verify_hash [OF assms(1,2), of p]) blast
  with assms(3) show ?thesis by simp
qed

text \<open>C24: a stored password hash accepts exactly the passwords that derive the same key under its salt and cost,
  the password it was made of among them.\<close>

theorem password_hash_verifies:
  assumes "kdf_ok k" and "CHR ''$'' \<notin> set salt"
  shows "\<exists>encoded. hashPassword k salt p = Some encoded \<and> verifyPassword k p encoded = Some True \<and>
    verifyPassword k q encoded = Some (kd_scrypt k q salt 32 16384 8 1 = kd_scrypt k p salt 32 16384 8 1)"
proof -
  obtain encoded d where "hashPassword k salt p = Some encoded" "kd_scrypt k p salt 32 16384 8 1 = Some d"
    "\<And>q. verifyPassword k q encoded = Some (kd_scrypt k q salt 32 16384 8 1 = Some d)"
    by (rule verify_hash [OF assms, of p]) blast
  then show ?thesis by simp
qed

text \<open>A derivation and an encoding that obey the laws: padding to the length, two letters for a byte.\<close>

definition nibbles :: "char \<Rightarrow> string" where
  "nibbles c = (let n = of_char c :: nat in [char_of (97 + n div 16), char_of (97 + n mod 16)])"

fun from_nibbles :: "string \<Rightarrow> string" where
  "from_nibbles (a # b # s) = char_of (16 * (of_char a - 97) + (of_char b - 97 :: nat)) # from_nibbles s"
| "from_nibbles s = []"

lemma nibble_bounds: "(of_char c :: nat) div 16 < 16" "(of_char c :: nat) mod 16 < 16"
  by (simp_all add: less_mult_imp_div_less)

lemma from_nibbles_inverse: "from_nibbles (concat (map nibbles s)) = s"
proof (induction s)
  case (Cons c s)
  have "(of_char (char_of (97 + of_char c div 16 :: nat)) :: nat) = 97 + of_char c div 16"
    and "(of_char (char_of (97 + of_char c mod 16 :: nat)) :: nat) = 97 + of_char c mod 16"
    using nibble_bounds [of c] by simp_all
  then have "16 * (of_char (char_of (97 + of_char c div 16 :: nat)) - 97) + (of_char (char_of (97 + of_char c mod 16 :: nat)) - 97 :: nat)
      = of_char c"
    by simp
  with Cons show ?case by (simp add: nibbles_def Let_def)
qed simp

definition sample_kdf :: kdf where
  "sample_kdf = \<lparr>kd_scrypt = (\<lambda>pw salt len N r p. Some (take len (pw @ replicate len CHR ''.''))),
     kd_base64 = (\<lambda>b. concat (map nibbles b)), kd_unbase64 = from_nibbles\<rparr>"

lemma nibble_no_dollar: "CHR ''$'' \<notin> set (nibbles c)"
proof -
  have "CHR ''$'' \<noteq> char_of (97 + m)" if "m < 16" for m :: nat
  proof
    assume "CHR ''$'' = char_of (97 + m)"
    then have "(of_char CHR ''$'' :: nat) = of_char (char_of (97 + m))" by simp
    also have "\<dots> = 97 + m" using that by simp
    finally show False by simp
  qed
  from this [OF nibble_bounds(1)] this [OF nibble_bounds(2)] show ?thesis by (simp add: nibbles_def Let_def)
qed

lemma sample_kdf_ok: "kdf_ok sample_kdf"
  by (auto simp: kdf_ok_def sample_kdf_def from_nibbles_inverse nibble_no_dollar)

theorem password_hash_verifies_witness:
  "\<exists>encoded. hashPassword sample_kdf ''ab'' ''secret'' = Some encoded \<and> verifyPassword sample_kdf ''secret'' encoded = Some True \<and>
     verifyPassword sample_kdf ''guess'' encoded = Some False"
proof -
  have "kd_scrypt sample_kdf ''guess'' ''ab'' 32 16384 8 1 \<noteq> kd_scrypt sample_kdf ''secret'' ''ab'' 32 16384 8 1"
    by code_simp
  with password_hash_verifies [OF sample_kdf_ok, of "''ab''" "''secret''" "''guess''"] show ?thesis by simp
qed

subsection \<open>School slugs\<close>

definition slug_char :: "char \<Rightarrow> bool" where
  "slug_char c = (let n = of_char c :: nat in (97 \<le> n \<and> n \<le> 122) \<or> (48 \<le> n \<and> n \<le> 57))"

text \<open>\<open>replace(/[^a-z0-9]+/g, '-')\<close>: every maximal run of other characters becomes one dash.\<close>

fun dash_runs :: "string \<Rightarrow> string" where
  "dash_runs [] = []"
| "dash_runs [c] = (if slug_char c then [c] else [CHR ''-''])"
| "dash_runs (c # d # s) =
     (if slug_char c then c # dash_runs (d # s)
      else if slug_char d then CHR ''-'' # dash_runs (d # s) else dash_runs (d # s))"

text \<open>\<open>replace(/(^-|-$)/g, '')\<close>\<close>

definition strip_dashes :: "string \<Rightarrow> string" where
  "strip_dashes s = (let t = (if s \<noteq> [] \<and> hd s = CHR ''-'' then tl s else s)
     in if t \<noteq> [] \<and> last t = CHR ''-'' then butlast t else t)"

definition generateSlugFromName :: "string \<Rightarrow> string" where
  "generateSlugFromName name = strip_dashes (dash_runs (trim (toLowerCase name)))"

text \<open>\<open>/^[a-z0-9]+(?:-[a-z0-9]+)*$/\<close>: pieces between single dashes.\<close>

definition slug_pattern :: "string \<Rightarrow> bool" where
  "slug_pattern s = list_all (\<lambda>piece. piece \<noteq> [] \<and> list_all slug_char piece) (split_on CHR ''-'' s)"

definition isValidSchoolSlug :: "string \<Rightarrow> bool" where
  "isValidSchoolSlug s = (0 < length s \<and> length s \<le> 128 \<and> slug_pattern s)"

text \<open>What \<open>dash_runs\<close> leaves: slug characters, with single dashes between and around them.\<close>

fun single_dashes :: "string \<Rightarrow> bool" where
  "single_dashes [] = True"
| "single_dashes [c] = (slug_char c \<or> c = CHR ''-'')"
| "single_dashes (c # d # s) =
     ((slug_char c \<or> (c = CHR ''-'' \<and> d \<noteq> CHR ''-'')) \<and> single_dashes (d # s))"

lemma not_slug_dash [simp]: "\<not> slug_char CHR ''-''"
  by code_simp

lemma dash_runs_Nil_iff [simp]: "dash_runs s = [] \<longleftrightarrow> s = []"
  by (induction s rule: dash_runs.induct) auto

lemma dash_runs_hd: "s \<noteq> [] \<Longrightarrow> slug_char (hd s) \<Longrightarrow> hd (dash_runs s) = hd s"
  by (induction s rule: dash_runs.induct) auto

lemma single_dashes_Cons:
  "single_dashes (c # s) \<longleftrightarrow> (slug_char c \<or> c = CHR ''-'' \<and> (s = [] \<or> hd s \<noteq> CHR ''-'')) \<and> single_dashes s"
  by (cases s) auto

lemma single_dashes_runs: "single_dashes (dash_runs s)"
  by (induction s rule: dash_runs.induct) (auto simp: single_dashes_Cons dash_runs_hd)

lemma single_dashes_butlast: "single_dashes s \<Longrightarrow> single_dashes (butlast s)"
  by (induction s rule: single_dashes.induct) (auto simp: single_dashes_Cons)

text \<open>Without a dash at either end they are pieces between single dashes.\<close>

lemma single_dashes_pieces:
  "single_dashes s \<Longrightarrow> s \<noteq> [] \<Longrightarrow> last s \<noteq> CHR ''-'' \<Longrightarrow>
     list_all (\<lambda>p. list_all slug_char p) (split_on CHR ''-'' s) \<and>
     list_all (\<lambda>p. p \<noteq> []) (tl (split_on CHR ''-'' s)) \<and> (hd s \<noteq> CHR ''-'' \<longrightarrow> hd (split_on CHR ''-'' s) \<noteq> [])"
proof (induction s rule: single_dashes.induct)
  case (3 c d s)
  then have ih: "list_all (\<lambda>p. list_all slug_char p) (split_on CHR ''-'' (d # s))"
    "list_all (\<lambda>p. p \<noteq> []) (tl (split_on CHR ''-'' (d # s)))"
    "d \<noteq> CHR ''-'' \<longrightarrow> hd (split_on CHR ''-'' (d # s)) \<noteq> []" by simp_all
  obtain y ys where parts: "split_on CHR ''-'' (d # s) = y # ys"
    by (metis neq_Nil_conv split_on_not_Nil)
  have whole: "split_on CHR ''-'' (c # d # s) = (if c = CHR ''-'' then [] # y # ys else (c # y) # ys)"
    by (subst split_on.simps(2)) (simp only: parts list.case)
  have "slug_char c \<or> c = CHR ''-'' \<and> d \<noteq> CHR ''-''" using 3(2) by simp
  with ih show ?case unfolding whole parts by auto
qed auto

lemma single_dashes_snoc: "single_dashes (u @ [d]) \<Longrightarrow> u \<noteq> [] \<Longrightarrow> last u = CHR ''-'' \<Longrightarrow> d \<noteq> CHR ''-''"
  by (induction u) (auto simp: single_dashes_Cons split: if_splits)

lemma strip_dashes_ends:
  assumes s: "single_dashes s"
  shows "single_dashes (strip_dashes s) \<and> (strip_dashes s \<noteq> [] \<longrightarrow>
    hd (strip_dashes s) \<noteq> CHR ''-'' \<and> last (strip_dashes s) \<noteq> CHR ''-'')"
proof -
  define t where "t = (if s \<noteq> [] \<and> hd s = CHR ''-'' then tl s else s)"
  have t: "single_dashes t" "t \<noteq> [] \<Longrightarrow> hd t \<noteq> CHR ''-''"
    using s by (cases s; auto simp: t_def single_dashes_Cons)+
  show ?thesis
  proof (cases "t \<noteq> [] \<and> last t = CHR ''-''")
    case True
    then obtain u where u: "t = u @ [CHR ''-'']" by (metis append_butlast_last_id)
    then have "strip_dashes s = u" by (simp add: strip_dashes_def t_def [symmetric] Let_def)
    moreover have "single_dashes u" using single_dashes_butlast [OF t(1)] by (simp add: u)
    moreover have "hd u \<noteq> CHR ''-''" "last u \<noteq> CHR ''-''" if "u \<noteq> []"
      using that t single_dashes_snoc [of u "CHR ''-''"] by (auto simp: u)
    ultimately show ?thesis by simp
  next
    case False
    then have "strip_dashes s = t" by (auto simp: strip_dashes_def t_def [symmetric] Let_def)
    with False t show ?thesis by auto
  qed
qed

text \<open>C25: the slug made of a school's name is the empty text or matches the pattern every slug is checked against.\<close>

theorem generated_slug_valid:
  "generateSlugFromName name = [] \<or> slug_pattern (generateSlugFromName name)"
proof (cases "generateSlugFromName name = []")
  case False
  let ?s = "generateSlugFromName name"
  have s: "single_dashes ?s" "hd ?s \<noteq> CHR ''-''" "last ?s \<noteq> CHR ''-''"
    using strip_dashes_ends [OF single_dashes_runs] False by (simp_all add: generateSlugFromName_def)
  from single_dashes_pieces [OF s(1) False s(3)] s(2)
  have "list_all (\<lambda>p. list_all slug_char p) (split_on CHR ''-'' ?s)"
    "list_all (\<lambda>p. p \<noteq> []) (split_on CHR ''-'' ?s)"
    by (cases "split_on CHR ''-'' ?s"; auto)+
  then show ?thesis by (simp add: slug_pattern_def list_all_iff)
qed simp

end
