(* ===== verification/Tenants.thy ===== *)
theory Tenants
  imports Machines Tables JsMap Passwords Sessions
begin

section \<open>The tenant registry\<close>

text \<open>
  \<open>control-plane/control-plane.service.ts\<close> with \<open>control-plane/tenant-config-cache.service.ts\<close>: registrations waiting
  for their e-mail code, the tenants made of them, the mapping of users to tenants, the lookups of a tenant and of
  its users, and password-reset tokens.  One \<open>control\<close> record holds the tables of the control database
  (\<open>registration_staging\<close>, \<open>tenants_configs\<close>, \<open>user_tenant_mappings\<close>, \<open>password_reset_tokens\<close>, and
  \<open>public_org_branding\<close>, \<open>None\<close> until it is created), the \<open>users\<close> tables of the tenants, each row with the tenant
  whose database holds it, and the cache.  JSON columns are read as the values they encode; the hash, the encryption
  and the password derivation are arguments, as is the address of a tenant's database.  Times are milliseconds; a
  call reads one clock.
\<close>

subsection \<open>Tables\<close>

record registration =
  rg_id :: string
  rg_fullName :: string
  rg_email :: string
  rg_phone :: "string option"
  rg_installTokenHash :: "string option"
  rg_deviceHash :: "string option"
  rg_organizationName :: string
  rg_levels :: "string list"
  rg_password :: string
  rg_tokenHash :: string
  rg_expiresAt :: int
  rg_consumedAt :: "int option"
  rg_createdAt :: int

record owner_payload =
  op_fullName :: string
  op_email :: string
  op_phone :: "string option"
  op_installTokenHash :: "string option"
  op_deviceHash :: "string option"
  op_stagedAt :: int

datatype registry_status = StPending | StActive | StSuspended | StDeleted

datatype provisioning_status = ProvPending | ProvReady | ProvFailed

record tenant_config =
  tc_id :: string
  tc_slug :: string
  tc_sbo :: string
  tc_name :: string
  tc_status :: registry_status
  tc_dbName :: string
  tc_dbUri :: string
  tc_levels :: "string list"
  tc_owner :: "owner_payload option"
  tc_stagedHash :: "string option"
  tc_emailVerified :: bool
  tc_provisioning :: provisioning_status
  tc_provError :: "string option"
  tc_createdAt :: int
  tc_updatedAt :: int

record mapping_row =
  mp_id :: string
  mp_user :: string
  mp_tenant :: string
  mp_email :: string
  mp_primary :: bool
  mp_active :: bool
  mp_createdAt :: int

record user_row =
  us_tenant :: string
  us_id :: string
  us_email :: string
  us_name :: string
  us_phone :: "string option"
  us_level :: "string option"
  us_hash :: string
  us_roles :: "string list"
  us_permissions :: "string list"
  us_capabilities :: "string list"
  us_active :: bool

record reset_row =
  rt_token :: string
  rt_tenant :: string
  rt_user :: string
  rt_email :: string
  rt_expiresAt :: int
  rt_usedAt :: "int option"

record branding_payload =
  bp_name :: "string option"
  bp_schoolName :: "string option"
  bp_organizationName :: "string option"
  bp_slug :: "string option"

text \<open>The payload is \<open>None\<close> where its text does not parse or is \<open>null\<close>: no school is listed for the row.\<close>

record branding_row =
  br_tenant :: string
  br_slug :: "string option"
  br_updatedAt :: int
  br_payload :: "branding_payload option"

record tenant_cache =
  tk_byId :: "(string, tenant_config \<times> int) jsmap"
  tk_bySbo :: "(string, tenant_config \<times> int) jsmap"

record control =
  ct_registrations :: "registration list"
  ct_tenants :: "tenant_config list"
  ct_mappings :: "mapping_row list"
  ct_users :: "user_row list"
  ct_resets :: "reset_row list"
  ct_branding :: "branding_row list option"
  ct_cache :: tenant_cache

record vault =
  vl_sha256 :: "string \<Rightarrow> string"
  vl_encrypt :: "string \<Rightarrow> string"
  vl_decrypt :: "string \<Rightarrow> string"
  vl_kdf :: kdf

text \<open>\<open>find({ where, order: { createdAt: 'DESC' } })\<close>\<close>

definition by_newest :: "('r \<Rightarrow> int) \<Rightarrow> 'r list \<Rightarrow> 'r list" where
  "by_newest created rows = sort_key (\<lambda>r. - created r) rows"

lemma set_by_newest [simp]: "set (by_newest f rows) = set rows"
  by (simp add: by_newest_def)

lemma by_newest_Nil_iff [simp]: "by_newest f rows = [] \<longleftrightarrow> rows = []"
  by (metis set_by_newest set_empty)

text \<open>\<open>repository.save\<close>: the row with the entity's key is overwritten, or a new row is inserted.\<close>

definition upsert :: "('r \<Rightarrow> string) \<Rightarrow> 'r \<Rightarrow> 'r list \<Rightarrow> 'r list" where
  "upsert key r t = (if key r \<in> key ` set t then tmodify key (key r) (\<lambda>_. r) t else t @ [r])"

lemma tfind_upsert: "tfind key k (upsert key r t) = (if k = key r then Some r else tfind key k t)"
proof (cases "key r \<in> key ` set t")
  case True
  have "tfind key k (tmodify key (key r) (\<lambda>_. r) t) =
      (if k = key r then map_option (\<lambda>_. r) (tfind key k t) else tfind key k t)"
    by (induction t) auto
  moreover have "tfind key (key r) t \<noteq> None" using True by (simp add: tfind_None_iff)
  ultimately show ?thesis using True by (auto simp: upsert_def)
next
  case False
  then have "tfind key (key r) t = None" by (simp add: tfind_None_iff)
  with False show ?thesis by (cases "tfind key k t") (auto simp: upsert_def tfind_append)
qed

lemma pk_upsert: "pk key t \<Longrightarrow> pk key (upsert key r t)"
proof -
  have "map key (tmodify key (key r) (\<lambda>_. r) t) = map key t" by (induction t) auto
  then show "pk key t \<Longrightarrow> pk key (upsert key r t)" by (auto simp: upsert_def pk_def)
qed

lemma set_upsertE:
  assumes "x \<in> set (upsert key r t)" obtains "x = r" | "x \<in> set t" and "key x \<noteq> key r"
proof (cases "key r \<in> key ` set t")
  case True
  with assms that show ?thesis by (auto simp: upsert_def tmodify_def set_tupdate split: if_splits)
next
  case False
  then have "key x \<noteq> key r" if "x \<in> set t" using that by (metis imageI)
  moreover have "x = r \<or> x \<in> set t" using assms False by (auto simp: upsert_def)
  ultimately show ?thesis using that by metis
qed

subsection \<open>The cache\<close>

definition cache_ttlMs :: int where
  "cache_ttlMs = 60 * 1000"

definition getValid :: "int \<Rightarrow> (tenant_config \<times> int) option \<Rightarrow> tenant_config option" where
  "getValid now e = (case e of None \<Rightarrow> None | Some (t, expires) \<Rightarrow> if expires \<le> now then None else Some t)"

definition getByTenantId :: "int \<Rightarrow> string \<Rightarrow> tenant_cache \<Rightarrow> tenant_config option" where
  "getByTenantId now k c = getValid now (mget k (tk_byId c))"

definition getBySboId :: "int \<Rightarrow> string \<Rightarrow> tenant_cache \<Rightarrow> tenant_config option" where
  "getBySboId now sbo c = getValid now (mget sbo (tk_bySbo c))"

definition cache_set :: "int \<Rightarrow> tenant_config \<Rightarrow> tenant_cache \<Rightarrow> tenant_cache" where
  "cache_set now t c =
     (let entry = (t, now + cache_ttlMs)
      in c\<lparr>tk_byId := mset (tc_id t) entry (tk_byId c), tk_bySbo := mset (tc_sbo t) entry (tk_bySbo c)\<rparr>)"

definition cache_invalidate :: "string \<Rightarrow> string \<Rightarrow> tenant_cache \<Rightarrow> tenant_cache" where
  "cache_invalidate k sbo c = c\<lparr>tk_byId := mdel k (tk_byId c), tk_bySbo := mdel sbo (tk_bySbo c)\<rparr>"

text \<open>\<open>cached t st\<close>: the state after \<open>tenantConfigCache.set(t)\<close>.\<close>

definition cached :: "int \<Rightarrow> tenant_config \<Rightarrow> control \<Rightarrow> control" where
  "cached now t st = st\<lparr>ct_cache := cache_set now t (ct_cache st)\<rparr>"

lemma cached_simps [simp]:
  "ct_registrations (cached now t st) = ct_registrations st" "ct_tenants (cached now t st) = ct_tenants st"
  "ct_mappings (cached now t st) = ct_mappings st" "ct_users (cached now t st) = ct_users st"
  "ct_resets (cached now t st) = ct_resets st" "ct_branding (cached now t st) = ct_branding st"
  "ct_cache (cached now t st) = cache_set now t (ct_cache st)"
  by (simp_all add: cached_def)

subsection \<open>Looking a tenant up\<close>

definition mapTenantRow :: "vault \<Rightarrow> tenant_config \<Rightarrow> tenant_config" where
  "mapTenantRow v row = row\<lparr>tc_dbUri := vl_decrypt v (tc_dbUri row), tc_stagedHash := or_null (tc_stagedHash row),
     tc_provError := or_null (tc_provError row)\<rparr>"

lemma mapTenantRow_simps [simp]:
  "tc_id (mapTenantRow v t) = tc_id t" "tc_slug (mapTenantRow v t) = tc_slug t" "tc_sbo (mapTenantRow v t) = tc_sbo t"
  "tc_status (mapTenantRow v t) = tc_status t" "tc_provisioning (mapTenantRow v t) = tc_provisioning t"
  "tc_owner (mapTenantRow v t) = tc_owner t" "tc_emailVerified (mapTenantRow v t) = tc_emailVerified t"
  "tc_stagedHash (mapTenantRow v t) = or_null (tc_stagedHash t)" "tc_levels (mapTenantRow v t) = tc_levels t"
  by (simp_all add: mapTenantRow_def)

definition getTenantById :: "vault \<Rightarrow> int \<Rightarrow> string \<Rightarrow> control \<Rightarrow> tenant_config option \<times> control" where
  "getTenantById v now k st = (case getByTenantId now k (ct_cache st) of
      Some t \<Rightarrow> (Some t, st)
    | None \<Rightarrow> (case tfind tc_id k (ct_tenants st) of
          None \<Rightarrow> (None, st)
        | Some row \<Rightarrow> (Some (mapTenantRow v row), cached now (mapTenantRow v row) st)))"

definition resolveTenantBySboId :: "vault \<Rightarrow> int \<Rightarrow> string \<Rightarrow> control \<Rightarrow> tenant_config result \<times> control" where
  "resolveTenantBySboId v now sbo st =
     (let tenant = (case getBySboId now sbo (ct_cache st) of
          Some t \<Rightarrow> Some t
        | None \<Rightarrow> map_option (mapTenantRow v) (tfind tc_sbo sbo (ct_tenants st)))
      in case tenant of
        None \<Rightarrow> (Inl (NotFound ''Organization not found for provided schoolBusinessOrganisationId''), st)
      | Some t \<Rightarrow> if tc_status t \<noteq> StActive then (Inl (BadRequest ''Organization is not active''), st)
                  else (Inr t, cached now t st))"

definition ready :: "tenant_config \<Rightarrow> bool" where
  "ready t \<longleftrightarrow> tc_status t = StActive \<and> tc_provisioning t = ProvReady"

text \<open>The first mapping whose tenant is ready; every lookup may fill the cache.\<close>

fun first_ready :: "vault \<Rightarrow> int \<Rightarrow> mapping_row list \<Rightarrow> control \<Rightarrow> tenant_config result \<times> control" where
  "first_ready v now [] st = (Inl (NotFound ''No ready tenant configuration found for user''), st)"
| "first_ready v now (m # ms) st = (case getTenantById v now (mp_tenant m) st of
      (Some t, st') \<Rightarrow> if ready t then (Inr t, st') else first_ready v now ms st'
    | (None, st') \<Rightarrow> first_ready v now ms st')"

definition resolveTenantForUserEmail :: "vault \<Rightarrow> int \<Rightarrow> string \<Rightarrow> string option \<Rightarrow> control \<Rightarrow> tenant_config result \<times> control" where
  "resolveTenantForUserEmail v now email sbo st = (case or_null sbo of
      Some b \<Rightarrow> (case resolveTenantBySboId v now b st of
          (Inl e, st') \<Rightarrow> (Inl e, st')
        | (Inr t, st') \<Rightarrow>
            if list_ex (\<lambda>m. mp_tenant m = tc_id t \<and> mp_email m = toLowerCase email \<and> mp_active m) (ct_mappings st')
            then (Inr t, st') else (Inl (NotFound ''User is not mapped to provided tenant''), st'))
    | None \<Rightarrow>
        let ms = by_newest mp_createdAt (filter (\<lambda>m. mp_email m = toLowerCase email \<and> mp_primary m \<and> mp_active m) (ct_mappings st))
        in if ms = [] then (Inl (NotFound ''No active tenant mapping found for user''), st)
           else first_ready v now ms st)"

definition no_ready_school :: "'a result" where
  "no_ready_school = Inl (NotFound ''No ready tenant configuration found for school'')"

definition resolveTenantBySlug :: "vault \<Rightarrow> int \<Rightarrow> string \<Rightarrow> control \<Rightarrow> tenant_config result \<times> control" where
  "resolveTenantBySlug v now slug st =
     (if \<not> isValidSchoolSlug slug then (no_ready_school, st)
      else (case find (\<lambda>t. tc_slug t = slug \<and> ready t) (ct_tenants st) of
          Some row \<Rightarrow> (Inr (mapTenantRow v row), st)
        | None \<Rightarrow> (case find (\<lambda>b. br_slug b = Some slug) (case ct_branding st of None \<Rightarrow> [] | Some bs \<Rightarrow> bs) of
              None \<Rightarrow> (no_ready_school, st)
            | Some b \<Rightarrow> if br_tenant b = [] then (no_ready_school, st)
                else (case getTenantById v now (br_tenant b) st of
                    (Some t, st') \<Rightarrow> if ready t then (Inr t, st') else (no_ready_school, st')
                  | (None, st') \<Rightarrow> (no_ready_school, st')))))"

definition getPublicLoginSlug :: "string \<Rightarrow> control \<Rightarrow> string option" where
  "getPublicLoginSlug k st = (case ct_branding st of
      None \<Rightarrow> None
    | Some bs \<Rightarrow>
        let slug = (case by_newest br_updatedAt (filter (\<lambda>b. br_tenant b = k) bs) of
            [] \<Rightarrow> [] | b # _ \<Rightarrow> toLowerCase (trim (or_else (br_slug b) [])))
        in if isValidSchoolSlug slug then Some slug else None)"

subsection \<open>Registering a school\<close>

record owner_input =
  oi_fullName :: string
  oi_email :: string
  oi_password :: "string option"
  oi_phone :: "string option"
  oi_installToken :: "string option"
  oi_deviceHash :: "string option"

definition code_ttlMs :: int where
  "code_ttlMs = 15 * 60000"

text \<open>The hash of a code is unique in the table.\<close>

definition save_registration :: "registration \<Rightarrow> control \<Rightarrow> control option" where
  "save_registration r st =
     (if list_ex (\<lambda>x. rg_id x \<noteq> rg_id r \<and> rg_tokenHash x = rg_tokenHash r) (ct_registrations st) then None
      else Some (st\<lparr>ct_registrations := upsert rg_id r (ct_registrations st)\<rparr>))"

definition default_organization :: "string \<Rightarrow> string" where
  "default_organization name = name @ [CHR 0x27] @ ''s Organization''"

definition staged :: "vault \<Rightarrow> int \<Rightarrow> string \<Rightarrow> owner_input \<Rightarrow> string option \<Rightarrow> string list \<Rightarrow> registration \<Rightarrow> registration" where
  "staged v now code i orgName levels r = r\<lparr>rg_fullName := oi_fullName i, rg_email := trim (toLowerCase (oi_email i)),
     rg_phone := or_null (oi_phone i), rg_installTokenHash := map_option (vl_sha256 v) (or_null (oi_installToken i)),
     rg_deviceHash := or_null (oi_deviceHash i), rg_organizationName := or_else orgName (default_organization (oi_fullName i)),
     rg_levels := levels,
     rg_password := (case or_null (oi_password i) of Some pw \<Rightarrow> vl_encrypt v pw | None \<Rightarrow> []),
     rg_tokenHash := vl_sha256 v code, rg_expiresAt := now + code_ttlMs, rg_consumedAt := None\<rparr>"

definition new_registration :: "int \<Rightarrow> string \<Rightarrow> registration" where
  "new_registration now k = \<lparr>rg_id = k, rg_fullName = [], rg_email = [], rg_phone = None, rg_installTokenHash = None,
     rg_deviceHash = None, rg_organizationName = [], rg_levels = [], rg_password = [], rg_tokenHash = [], rg_expiresAt = 0,
     rg_consumedAt = None, rg_createdAt = now\<rparr>"

definition registrations_of :: "string \<Rightarrow> control \<Rightarrow> registration list" where
  "registrations_of email st = by_newest rg_createdAt (filter (\<lambda>r. rg_email r = email) (ct_registrations st))"

text \<open>Answers the registration's identifier and the code that is mailed.\<close>

definition createTenantWithOwnerStaging :: "vault \<Rightarrow> int \<Rightarrow> string \<Rightarrow> string \<Rightarrow> string option \<Rightarrow> string list \<Rightarrow> owner_input \<Rightarrow>
    control \<Rightarrow> (string \<times> string) result \<times> control" where
  "createTenantWithOwnerStaging v now fresh code orgName levels i st =
     (let previous = registrations_of (trim (toLowerCase (oi_email i))) st
      in if list_ex (\<lambda>r. rg_consumedAt r \<noteq> None) previous
         then (Inl (Conflict ''This email is already associated with a completed school registration. Please use a different email address.''), st)
         else let r = staged v now code i orgName levels (case previous of [] \<Rightarrow> new_registration now fresh | p # _ \<Rightarrow> p)
           in (case save_registration r st of None \<Rightarrow> (Inl DbError, st) | Some st' \<Rightarrow> (Inr (rg_id r, code), st')))"

definition refreshOwnerVerificationToken :: "vault \<Rightarrow> int \<Rightarrow> string \<Rightarrow> string \<Rightarrow> control \<Rightarrow> (string \<times> string) option result \<times> control" where
  "refreshOwnerVerificationToken v now code email st =
     (let e = trim (toLowerCase email)
      in case registrations_of e st of
        [] \<Rightarrow> (Inr None, st)
      | r # _ \<Rightarrow>
          if rg_consumedAt r \<noteq> None \<or> rg_password r = [] then (Inr None, st)
          else (case save_registration (r\<lparr>rg_tokenHash := vl_sha256 v code, rg_expiresAt := now + code_ttlMs\<rparr>) st of
              None \<Rightarrow> (Inl DbError, st)
            | Some st' \<Rightarrow> (Inr (Some (e, code)), st')))"

text \<open>The identifiers drawn for a tenant, the salt of the owner's password hash, and the address of its database.\<close>

record tenant_ids =
  ti_tenant :: string
  ti_sbo :: string
  ti_salt :: string
  ti_dbUrl :: "string \<Rightarrow> string"

text \<open>\<open>ensureUniqueSlug\<close> and \<open>ensureUniqueSboId\<close> leave uniqueness to the constraints of the table.\<close>

definition ensureUniqueSlug :: "string \<Rightarrow> string" where
  "ensureUniqueSlug base = (if base = [] then ''organization'' else base)"

definition owner_of :: "registration \<Rightarrow> owner_payload" where
  "owner_of r = \<lparr>op_fullName = rg_fullName r, op_email = rg_email r, op_phone = rg_phone r,
     op_installTokenHash = or_null (rg_installTokenHash r), op_deviceHash = or_null (rg_deviceHash r), op_stagedAt = rg_createdAt r\<rparr>"

definition tenant_of :: "vault \<Rightarrow> int \<Rightarrow> tenant_ids \<Rightarrow> registration \<Rightarrow> string \<Rightarrow> tenant_config" where
  "tenant_of v now ids r hash =
     (let dbName = ''tenant_'' @ ti_tenant ids
      in \<lparr>tc_id = ti_tenant ids, tc_slug = ensureUniqueSlug (generateSlugFromName (rg_organizationName r)), tc_sbo = ti_sbo ids,
          tc_name = rg_organizationName r, tc_status = StPending, tc_dbName = dbName, tc_dbUri = ti_dbUrl ids dbName,
          tc_levels = rg_levels r, tc_owner = Some (owner_of r), tc_stagedHash = Some hash, tc_emailVerified = True,
          tc_provisioning = ProvPending, tc_provError = None, tc_createdAt = now, tc_updatedAt = now\<rparr>)"

definition save_tenant :: "tenant_config \<Rightarrow> control \<Rightarrow> control option" where
  "save_tenant t st =
     (if list_ex (\<lambda>x. tc_id x \<noteq> tc_id t \<and> (tc_slug x = tc_slug t \<or> tc_sbo x = tc_sbo t)) (ct_tenants st) then None
      else Some (st\<lparr>ct_tenants := upsert tc_id t (ct_tenants st)\<rparr>))"

definition code_refused :: "'a result" where
  "code_refused = Inl (BadRequest ''Invalid or expired verification code'')"

definition verifyOwnerEmail :: "vault \<Rightarrow> int \<Rightarrow> tenant_ids \<Rightarrow> string \<Rightarrow> control \<Rightarrow> tenant_config result \<times> control" where
  "verifyOwnerEmail v now ids code st = (case find (\<lambda>r. rg_tokenHash r = vl_sha256 v code) (ct_registrations st) of
      None \<Rightarrow> (code_refused, st)
    | Some r \<Rightarrow>
        if rg_consumedAt r \<noteq> None then (code_refused, st)
        else if rg_expiresAt r < now then (code_refused, st)
        else if rg_password r = [] then (Inl (BadRequest ''Registration details are incomplete''), st)
        else (case hashPassword (vl_kdf v) (ti_salt ids) (vl_decrypt v (rg_password r)) of
            None \<Rightarrow> (Inl DbError, st)
          | Some hash \<Rightarrow>
              let t = tenant_of v now ids r hash
              in (case save_tenant (t\<lparr>tc_dbUri := vl_encrypt v (tc_dbUri t)\<rparr>) st of
                    None \<Rightarrow> (Inl DbError, st)
                  | Some st1 \<Rightarrow> (case save_registration (r\<lparr>rg_consumedAt := Some now\<rparr>) st1 of
                        None \<Rightarrow> (Inl DbError, st1)
                      | Some st2 \<Rightarrow> (Inr t, cached now t st2)))))"

text \<open>The outcome of the provisioning itself: \<open>None\<close>, or the exception it throws and its message.\<close>

definition provisionVerifiedTenant :: "int \<Rightarrow> (http_error \<times> string) option \<Rightarrow> tenant_config \<Rightarrow> control \<Rightarrow> tenant_config result \<times> control" where
  "provisionVerifiedTenant now outcome t st = (case outcome of
      None \<Rightarrow>
        let t' = t\<lparr>tc_status := StActive, tc_provisioning := ProvReady, tc_provError := None, tc_updatedAt := now\<rparr>
        in (Inr t', cached now t' (st\<lparr>ct_tenants := tmodify tc_id (tc_id t)
              (\<lambda>x. x\<lparr>tc_status := StActive, tc_provisioning := ProvReady, tc_provError := None, tc_updatedAt := now\<rparr>) (ct_tenants st)\<rparr>))
    | Some (err, message) \<Rightarrow>
        let t' = t\<lparr>tc_provisioning := ProvFailed, tc_provError := Some message\<rparr>
        in (Inl err, cached now t' (st\<lparr>ct_tenants := tmodify tc_id (tc_id t)
              (\<lambda>x. x\<lparr>tc_provisioning := ProvFailed, tc_provError := Some message, tc_updatedAt := now\<rparr>) (ct_tenants st)\<rparr>)))"

subsection \<open>The primary owner\<close>

definition ALL_ROLES :: "string list" where
  "ALL_ROLES = [''director'', ''school_admin'', ''it_admin'', ''bursar'', ''administrative_staff'']"

text \<open>\<open>INSERT INTO users\<close> in a tenant's database: the identifier and the address are unique there.\<close>

definition insert_user :: "user_row \<Rightarrow> control \<Rightarrow> control option" where
  "insert_user u st =
     (if list_ex (\<lambda>x. us_tenant x = us_tenant u \<and> (us_id x = us_id u \<or> us_email x = us_email u)) (ct_users st) then None
      else Some (st\<lparr>ct_users := ct_users st @ [u]\<rparr>))"

definition deactivate_elsewhere :: "string \<Rightarrow> string \<Rightarrow> mapping_row list \<Rightarrow> mapping_row list" where
  "deactivate_elsewhere email tenantId =
     tupdate (\<lambda>m. mp_email m = email \<and> mp_primary m \<and> mp_active m \<and> mp_tenant m \<noteq> tenantId) (\<lambda>m. m\<lparr>mp_active := False\<rparr>)"

definition owner_check :: "tenant_config \<Rightarrow> string \<Rightarrow> control \<Rightarrow> string result" where
  "owner_check t email st =
     (if toLowerCase (case tc_owner t of Some p \<Rightarrow> op_email p | None \<Rightarrow> []) \<noteq> toLowerCase email
        then Inl (BadRequest ''Email does not match staged owner email'')
      else if \<not> tc_emailVerified t then Inl (BadRequest ''Owner email is not verified'')
      else (case or_null (tc_stagedHash t) of
          None \<Rightarrow> Inl (BadRequest ''No staged owner password found for tenant'')
        | Some hash \<Rightarrow>
            if list_ex (\<lambda>m. mp_tenant m = tc_id t \<and> mp_email m = toLowerCase email \<and> mp_active m) (ct_mappings st)
            then Inl (Conflict ''User already mapped to this tenant'') else Inr hash))"

definition owner_row :: "tenant_config \<Rightarrow> string \<Rightarrow> string \<Rightarrow> string \<Rightarrow> user_row" where
  "owner_row t userId email hash =
     \<lparr>us_tenant = tc_id t, us_id = userId, us_email = toLowerCase email,
      us_name = or_else (map_option op_fullName (tc_owner t)) ''Primary Owner'',
      us_phone = (case tc_owner t of Some p \<Rightarrow> or_null (op_phone p) | None \<Rightarrow> None), us_level = None, us_hash = hash,
      us_roles = ALL_ROLES, us_permissions = [''*''], us_capabilities = [''*''], us_active = True\<rparr>"

definition clear_staged :: "int \<Rightarrow> tenant_config \<Rightarrow> tenant_config" where
  "clear_staged now t = t\<lparr>tc_stagedHash := None, tc_updatedAt := now\<rparr>"

definition createPrimaryOwnerUser :: "vault \<Rightarrow> int \<Rightarrow> string \<Rightarrow> string \<Rightarrow> string \<Rightarrow> string \<Rightarrow> control \<Rightarrow>
    (tenant_config \<times> user_row) result \<times> control" where
  "createPrimaryOwnerUser v now userId mapId sbo email st = (case resolveTenantBySboId v now sbo st of
      (Inl e, st1) \<Rightarrow> (Inl e, st1)
    | (Inr t, st1) \<Rightarrow> (case owner_check t email st1 of
          Inl e \<Rightarrow> (Inl e, st1)
        | Inr hash \<Rightarrow>
            let u = owner_row t userId email hash;
                st2 = st1\<lparr>ct_mappings := upsert mp_id \<lparr>mp_id = mapId, mp_user = userId, mp_tenant = tc_id t, mp_email = us_email u,
                    mp_primary = True, mp_active = True, mp_createdAt = now\<rparr>
                  (deactivate_elsewhere (us_email u) (tc_id t) (ct_mappings st1))\<rparr>
            in (case insert_user u st2 of
                  None \<Rightarrow> (Inl DbError, st2)
                | Some st3 \<Rightarrow>
                    let t' = clear_staged now t
                    in (Inr (t', u), cached now t' (st3\<lparr>ct_tenants := tmodify tc_id (tc_id t) (clear_staged now) (ct_tenants st3)\<rparr>)))))"

subsection \<open>The users of a tenant\<close>

definition tenant_user_of :: "user_row \<Rightarrow> tenant_user" where
  "tenant_user_of u = \<lparr>tu_id = us_id u, tu_email = us_email u, tu_name = us_name u, tu_schoolLevel = us_level u,
     tu_roles = us_roles u, tu_permissions = us_permissions u, tu_capabilities = us_capabilities u, tu_active = us_active u\<rparr>"

definition user_where :: "string \<Rightarrow> (user_row \<Rightarrow> bool) \<Rightarrow> control \<Rightarrow> user_row option" where
  "user_where k P st = find (\<lambda>u. us_tenant u = k \<and> P u) (ct_users st)"

definition bad_credentials :: "'a result" where
  "bad_credentials = Inl (BadRequest ''Invalid credentials'')"

definition credentials_check :: "vault \<Rightarrow> string \<Rightarrow> user_row option \<Rightarrow> tenant_user result" where
  "credentials_check v password row = (case row of
      None \<Rightarrow> bad_credentials
    | Some u \<Rightarrow>
        if \<not> us_active u \<or> us_hash u = [] then bad_credentials
        else (case verifyPassword (vl_kdf v) password (us_hash u) of
            None \<Rightarrow> Inl DbError
          | Some matches \<Rightarrow> if matches then Inr (tenant_user_of u) else bad_credentials))"

definition validateUserByTenant :: "vault \<Rightarrow> int \<Rightarrow> string \<Rightarrow> string \<Rightarrow> string \<Rightarrow> control \<Rightarrow> tenant_user result \<times> control" where
  "validateUserByTenant v now k email password st = (case getTenantById v now k st of
      (None, st') \<Rightarrow> (Inl (BadRequest ''Unknown tenant''), st')
    | (Some _, st') \<Rightarrow> (credentials_check v password (user_where k (\<lambda>u. us_email u = toLowerCase email) st'), st'))"

definition findUserByEmail :: "vault \<Rightarrow> int \<Rightarrow> string \<Rightarrow> string \<Rightarrow> control \<Rightarrow> tenant_user option \<times> control" where
  "findUserByEmail v now k email st = (case getTenantById v now k st of
      (None, st') \<Rightarrow> (None, st')
    | (Some t, st') \<Rightarrow> (case user_where (tc_id t) (\<lambda>u. toLowerCase (us_email u) = toLowerCase (trim email)) st' of
          None \<Rightarrow> (None, st')
        | Some u \<Rightarrow> if \<not> us_active u then (None, st') else (Some (tenant_user_of u), st')))"

definition getUserById :: "vault \<Rightarrow> int \<Rightarrow> string \<Rightarrow> string \<Rightarrow> control \<Rightarrow> tenant_user option \<times> control" where
  "getUserById v now k userId st = (case getTenantById v now k st of
      (None, st') \<Rightarrow> (None, st')
    | (Some _, st') \<Rightarrow> (map_option tenant_user_of (user_where k (\<lambda>u. us_id u = userId) st'), st'))"

definition validateUserExists :: "vault \<Rightarrow> int \<Rightarrow> string \<Rightarrow> string \<Rightarrow> control \<Rightarrow> string option \<times> control" where
  "validateUserExists v now k email st = (case getTenantById v now k st of
      (None, st') \<Rightarrow> (None, st')
    | (Some _, st') \<Rightarrow> (map_option us_id (user_where k (\<lambda>u. us_email u = email \<and> us_active u) st'), st'))"

subsection \<open>Resetting a password\<close>

definition reset_ttlMs :: int where
  "reset_ttlMs = 60 * 60000"

record reset_created =
  rz_token :: string
  rz_tenantId :: string
  rz_tenantSlug :: string
  rz_userId :: string

text \<open>\<open>None\<close> is the answer \<open>created: false\<close>.\<close>

definition createPasswordResetToken :: "vault \<Rightarrow> int \<Rightarrow> string \<Rightarrow> string \<Rightarrow> string option \<Rightarrow> control \<Rightarrow> reset_created option result \<times> control" where
  "createPasswordResetToken v now token email slug st =
     (let normalized = trim (toLowerCase email)
      in case (case or_null slug of Some s \<Rightarrow> resolveTenantBySlug v now s st | None \<Rightarrow> resolveTenantForUserEmail v now normalized None st) of
        (Inl _, st1) \<Rightarrow> (Inr None, st1)
      | (Inr t, st1) \<Rightarrow> (case validateUserExists v now (tc_id t) normalized st1 of
            (None, st2) \<Rightarrow> (Inr None, st2)
          | (Some userId, st2) \<Rightarrow>
              (case tinsert rt_token \<lparr>rt_token = token, rt_tenant = tc_id t, rt_user = userId, rt_email = normalized,
                   rt_expiresAt = now + reset_ttlMs, rt_usedAt = None\<rparr> (ct_resets st2) of
                 None \<Rightarrow> (Inl DbError, st2)
               | Some rows \<Rightarrow> (Inr (Some \<lparr>rz_token = token, rz_tenantId = tc_id t, rz_tenantSlug = tc_slug t, rz_userId = userId\<rparr>),
                   st2\<lparr>ct_resets := rows\<rparr>))))"

definition reset_refused :: "'a result" where
  "reset_refused = Inl (BadRequest ''Invalid or expired reset token'')"

definition set_password :: "string \<Rightarrow> string \<Rightarrow> string \<Rightarrow> control \<Rightarrow> control" where
  "set_password k userId hash st =
     st\<lparr>ct_users := tupdate (\<lambda>u. us_tenant u = k \<and> us_id u = userId) (\<lambda>u. u\<lparr>us_hash := hash\<rparr>) (ct_users st)\<rparr>"

definition mark_used :: "int \<Rightarrow> string \<Rightarrow> control \<Rightarrow> control" where
  "mark_used now token st = st\<lparr>ct_resets := tmodify rt_token token (\<lambda>r. r\<lparr>rt_usedAt := Some now\<rparr>) (ct_resets st)\<rparr>"

definition resetPasswordWithToken :: "vault \<Rightarrow> int \<Rightarrow> string \<Rightarrow> string \<Rightarrow> string \<Rightarrow> control \<Rightarrow> unit result \<times> control" where
  "resetPasswordWithToken v now salt token newPassword st = (case tfind rt_token token (ct_resets st) of
      None \<Rightarrow> (reset_refused, st)
    | Some r \<Rightarrow>
        if rt_usedAt r \<noteq> None then (reset_refused, st)
        else if rt_expiresAt r < now then (reset_refused, st)
        else (case getTenantById v now (rt_tenant r) st of
            (None, st') \<Rightarrow> (reset_refused, st')
          | (Some t, st') \<Rightarrow> (case hashPassword (vl_kdf v) salt newPassword of
                None \<Rightarrow> (Inl DbError, st')
              | Some hash \<Rightarrow> (Inr (), mark_used now token (set_password (tc_id t) (rt_user r) hash st')))))"

subsection \<open>Finding a school by name\<close>

text \<open>\<open>replace(/\s+/g, ' ')\<close>, \<open>replace(/[\s-]+/g, '')\<close> and \<open>split(/\s+/)[0]\<close>.\<close>

fun collapse_spaces :: "string \<Rightarrow> string" where
  "collapse_spaces [] = []"
| "collapse_spaces [c] = (if js_space c then '' '' else [c])"
| "collapse_spaces (c # d # s) =
     (if js_space c then (if js_space d then collapse_spaces (d # s) else CHR '' '' # collapse_spaces (d # s))
      else c # collapse_spaces (d # s))"

definition compact :: "string \<Rightarrow> string" where
  "compact s = toLowerCase (filter (\<lambda>c. \<not> is_sep c) s)"

definition schoolSearchThreshold :: "string \<Rightarrow> nat" where
  "schoolSearchThreshold name =
     (let n = length (takeWhile (\<lambda>c. \<not> js_space c) (trim name)) in if n \<le> 5 then 3 else (n + 1) div 2)"

definition matchesSchoolSearch :: "string \<Rightarrow> string \<Rightarrow> bool" where
  "matchesSchoolSearch name query =
     (let n = collapse_spaces (trim name); q = collapse_spaces (trim query)
      in schoolSearchThreshold n \<le> length q \<and>
         (startsWith (toLowerCase n) (toLowerCase q) \<or> startsWith (compact n) (compact q)))"

text \<open>The name and the slug a branding row lists; \<open>None\<close> when it lists no school.\<close>

definition listed_school :: "branding_row \<Rightarrow> (string \<times> string) option" where
  "listed_school b = (case br_payload b of
      None \<Rightarrow> None
    | Some p \<Rightarrow>
        let name = trim (or_else (bp_name p) (or_else (bp_schoolName p) (or_else (bp_organizationName p) [])));
            slug = toLowerCase (trim (or_else (bp_slug p) (or_else (br_slug b) [])))
        in if name \<noteq> [] \<and> isValidSchoolSlug slug then Some (name, slug) else None)"

definition searchReadySchools :: "string \<Rightarrow> control \<Rightarrow> (string \<times> string) list" where
  "searchReadySchools query st =
     (let q = collapse_spaces (trim query)
      in if length q < 1 \<or> 100 < length q then []
         else (case ct_branding st of
             None \<Rightarrow> []
           | Some bs \<Rightarrow> take 10 (filter (\<lambda>(name, _). matchesSchoolSearch name q)
               (List.map_filter listed_school (take 500 (by_newest br_updatedAt bs))))))"

text \<open>A blank or overlong query finds nothing; what is found is named, has a valid slug and starts with the query.\<close>

lemma found_schools_match:
  assumes "(name, slug) \<in> set (searchReadySchools query st)"
  shows "name \<noteq> [] \<and> isValidSchoolSlug slug \<and> matchesSchoolSearch name (collapse_spaces (trim query))"
proof -
  from assms obtain bs where "(name, slug) \<in> set (take 10 (filter (\<lambda>(name, _). matchesSchoolSearch name (collapse_spaces (trim query)))
      (List.map_filter listed_school (take 500 (by_newest br_updatedAt bs)))))"
    by (auto simp: searchReadySchools_def Let_def split: if_splits option.splits)
  from in_set_takeD [OF this]
  have "matchesSchoolSearch name (collapse_spaces (trim query))"
    and "(name, slug) \<in> set (List.map_filter listed_school (take 500 (by_newest br_updatedAt bs)))"
    by auto
  then show ?thesis
    by (auto simp: List.map_filter_def listed_school_def Let_def split: option.splits if_splits)
qed

lemma found_schools_at_most_ten: "length (searchReadySchools query st) \<le> 10"
  by (simp add: searchReadySchools_def Let_def split: option.splits)

subsection \<open>What the lookups leave alone\<close>

text \<open>A lookup changes the cache only.\<close>

definition same_tables :: "control \<Rightarrow> control \<Rightarrow> bool" where
  "same_tables st st' \<longleftrightarrow> ct_registrations st' = ct_registrations st \<and> ct_tenants st' = ct_tenants st \<and>
     ct_mappings st' = ct_mappings st \<and> ct_users st' = ct_users st \<and> ct_resets st' = ct_resets st \<and> ct_branding st' = ct_branding st"

named_theorems lookup_frames

lemma same_tables_refl [simp]: "same_tables st st"
  by (simp add: same_tables_def)

lemma same_tables_trans: "same_tables st st1 \<Longrightarrow> same_tables st1 st2 \<Longrightarrow> same_tables st st2"
  by (simp add: same_tables_def)

lemma same_tables_cached [simp]: "same_tables st (cached now t st)"
  by (simp add: same_tables_def)

lemma getTenantById_frame [lookup_frames]: "same_tables st (snd (getTenantById v now k st))"
  by (simp add: getTenantById_def split: option.splits)

lemma resolveTenantBySboId_frame [lookup_frames]: "same_tables st (snd (resolveTenantBySboId v now sbo st))"
  by (simp add: resolveTenantBySboId_def Let_def split: option.splits)

lemma first_ready_frame [lookup_frames]: "same_tables st (snd (first_ready v now ms st))"
proof (induction v now ms st rule: first_ready.induct)
  case (2 v now m ms st)
  obtain x st' where x: "getTenantById v now (mp_tenant m) st = (x, st')" by fastforce
  then have "same_tables st st'" using getTenantById_frame [of st v now "mp_tenant m"] by simp
  with 2 x show ?case by (cases x) (auto intro: same_tables_trans)
qed simp

lemma resolveTenantForUserEmail_frame [lookup_frames]: "same_tables st (snd (resolveTenantForUserEmail v now email sbo st))"
proof (cases "or_null sbo")
  case (Some b)
  obtain x st' where x: "resolveTenantBySboId v now b st = (x, st')" by fastforce
  then have "same_tables st st'" using resolveTenantBySboId_frame [of st v now b] by simp
  with Some x show ?thesis by (cases x) (auto simp: resolveTenantForUserEmail_def)
qed (simp add: resolveTenantForUserEmail_def Let_def first_ready_frame)

lemma resolveTenantBySlug_frame [lookup_frames]: "same_tables st (snd (resolveTenantBySlug v now slug st))"
proof -
  have "same_tables st st'" if "getTenantById v now k st = (x, st')" for k x st'
    using getTenantById_frame [of st v now k] by (simp add: that)
  then show ?thesis by (auto simp: resolveTenantBySlug_def split: option.splits prod.splits)
qed

lemma user_lookups_frame [lookup_frames]:
  "same_tables st (snd (validateUserByTenant v now k email password st))"
  "same_tables st (snd (findUserByEmail v now k email st))"
  "same_tables st (snd (getUserById v now k email st))"
  "same_tables st (snd (validateUserExists v now k email st))"
proof -
  have "same_tables st st'" if "getTenantById v now k st = (x, st')" for x st'
    using getTenantById_frame [of st v now k] by (simp add: that)
  then show "same_tables st (snd (validateUserByTenant v now k email password st))"
    "same_tables st (snd (findUserByEmail v now k email st))"
    "same_tables st (snd (getUserById v now k email st))"
    "same_tables st (snd (validateUserExists v now k email st))"
    by (auto simp: validateUserByTenant_def findUserByEmail_def getUserById_def validateUserExists_def split: option.splits prod.splits)
qed

lemma lookup_frameD:
  "getTenantById v now k st = (x, st') \<Longrightarrow> same_tables st st'"
  "resolveTenantBySboId v now sbo st = (r, st') \<Longrightarrow> same_tables st st'"
  "resolveTenantForUserEmail v now email sbo' st = (r, st') \<Longrightarrow> same_tables st st'"
  "resolveTenantBySlug v now slug st = (r, st') \<Longrightarrow> same_tables st st'"
  "validateUserByTenant v now k email password st = (u, st') \<Longrightarrow> same_tables st st'"
  "validateUserExists v now k email st = (y, st') \<Longrightarrow> same_tables st st'"
  by (metis lookup_frames snd_conv)+

text \<open>Only the two reset operations touch the reset tokens.\<close>

lemma save_registration_resets [simp]: "save_registration r st = Some st' \<Longrightarrow> ct_resets st' = ct_resets st"
  by (auto simp: save_registration_def split: if_splits)

lemma save_tenant_resets [simp]: "save_tenant t st = Some st' \<Longrightarrow> ct_resets st' = ct_resets st"
  by (auto simp: save_tenant_def split: if_splits)

lemma insert_user_resets [simp]: "insert_user u st = Some st' \<Longrightarrow> ct_resets st' = ct_resets st"
  by (auto simp: insert_user_def split: if_splits)

lemma staging_resets [simp]:
  "ct_resets (snd (createTenantWithOwnerStaging v now fresh code orgName levels i st)) = ct_resets st"
  "ct_resets (snd (refreshOwnerVerificationToken v now code email st)) = ct_resets st"
  by (simp_all add: createTenantWithOwnerStaging_def refreshOwnerVerificationToken_def Let_def split: list.splits option.splits)

lemma verifyOwnerEmail_resets [simp]: "ct_resets (snd (verifyOwnerEmail v now ids code st)) = ct_resets st"
  by (simp add: verifyOwnerEmail_def Let_def code_refused_def split: option.splits)

lemma provision_resets [simp]: "ct_resets (snd (provisionVerifiedTenant now outcome t st)) = ct_resets st"
  by (simp add: provisionVerifiedTenant_def Let_def split: option.splits)

lemma owner_resets [simp]: "ct_resets (snd (createPrimaryOwnerUser v now userId mapId sbo email st)) = ct_resets st"
  by (auto simp: createPrimaryOwnerUser_def Let_def same_tables_def dest!: lookup_frameD split: prod.splits sum.splits option.splits)

lemma createPasswordResetToken_resets:
  "ct_resets (snd (createPasswordResetToken v now token email slug st)) = ct_resets st \<or>
   (\<exists>r. rt_token r = token \<and> rt_usedAt r = None \<and> rt_expiresAt r = now + reset_ttlMs \<and> token \<notin> rt_token ` set (ct_resets st) \<and>
      ct_resets (snd (createPasswordResetToken v now token email slug st)) = ct_resets st @ [r])"
  by (auto simp: createPasswordResetToken_def Let_def same_tables_def
      dest!: lookup_frameD tinsert_SomeD split: prod.splits sum.splits option.splits)

text \<open>A lookup by the business identifier renews the entry it answers from: asked at least once a minute, it serves
  one configuration for ever, whatever the table says.\<close>

fun lookups :: "vault \<Rightarrow> string \<Rightarrow> int list \<Rightarrow> control \<Rightarrow> tenant_config result list" where
  "lookups v sbo [] st = []"
| "lookups v sbo (now # clock) st =
     (case resolveTenantBySboId v now sbo st of (r, st') \<Rightarrow> r # lookups v sbo clock st')"

lemma stale_organization_served:
  assumes "mget (tc_sbo t) (tk_bySbo (ct_cache st)) = Some (t, expires)" and "tc_status t = StActive"
    and "successively (\<lambda>a b. b < a + cache_ttlMs) ((expires - cache_ttlMs) # clock)"
  shows "lookups v (tc_sbo t) clock st = map (\<lambda>_. Inr t) clock"
  using assms
proof (induction clock arbitrary: st expires)
  case (Cons now clock)
  then have hit: "resolveTenantBySboId v now (tc_sbo t) st = (Inr t, cached now t st)"
    by (simp add: resolveTenantBySboId_def getBySboId_def getValid_def)
  have "lookups v (tc_sbo t) clock (cached now t st) = map (\<lambda>_. Inr t) clock"
    by (rule Cons.IH [of _ "now + cache_ttlMs"]) (use Cons.prems in \<open>auto simp: cache_set_def Let_def\<close>)
  with hit show ?case by simp
qed simp

text \<open>Every entry of the cache is kept under its own identifiers.\<close>

definition cache_ok :: "tenant_cache \<Rightarrow> bool" where
  "cache_ok c \<longleftrightarrow> (\<forall>k e. mget k (tk_byId c) = Some e \<longrightarrow> tc_id (fst e) = k) \<and>
     (\<forall>k e. mget k (tk_bySbo c) = Some e \<longrightarrow> tc_sbo (fst e) = k)"

lemma cache_ok_set [simp]: "cache_ok c \<Longrightarrow> cache_ok (cache_set now t c)"
  by (simp add: cache_ok_def cache_set_def Let_def)

lemma getTenantById_id: "cache_ok (ct_cache st) \<Longrightarrow> getTenantById v now k st = (Some t, st') \<Longrightarrow> tc_id t = k \<and> cache_ok (ct_cache st')"
  by (auto simp: getTenantById_def getByTenantId_def getValid_def cache_ok_def cache_set_def Let_def
      split: option.splits if_splits dest: tfind_SomeD)

text \<open>What a validated user is.\<close>

definition signs_in :: "vault \<Rightarrow> string \<Rightarrow> string \<Rightarrow> string \<Rightarrow> control \<Rightarrow> user_row \<Rightarrow> bool" where
  "signs_in v k email password st u \<longleftrightarrow> user_where k (\<lambda>x. us_email x = toLowerCase email) st = Some u \<and> us_active u \<and>
     us_hash u \<noteq> [] \<and> verifyPassword (vl_kdf v) password (us_hash u) = Some True"

lemma credentials_check_ok:
  "credentials_check v password row = Inr w \<longleftrightarrow>
     (\<exists>u. row = Some u \<and> us_active u \<and> us_hash u \<noteq> [] \<and> verifyPassword (vl_kdf v) password (us_hash u) = Some True \<and> w = tenant_user_of u)"
  by (auto simp: credentials_check_def bad_credentials_def split: option.splits)

lemma validateUserByTenant_ok:
  assumes "validateUserByTenant v now k email password st = (Inr w, st')"
  shows "\<exists>u. signs_in v k email password st u \<and> w = tenant_user_of u"
proof -
  obtain t c where t: "getTenantById v now k st = (Some t, c)"
    and "credentials_check v password (user_where k (\<lambda>u. us_email u = toLowerCase email) c) = Inr w"
    using assms by (auto simp: validateUserByTenant_def split: option.splits prod.splits)
  moreover have "ct_users c = ct_users st" using lookup_frameD(1) [OF t] by (simp add: same_tables_def)
  ultimately show ?thesis by (auto simp: credentials_check_ok signs_in_def user_where_def)
qed

subsection \<open>What happens to the registrations\<close>

text \<open>A registration is put: a new one, or one with the same address is overwritten; none of the address is consumed.\<close>

inductive regs_change :: "string list \<Rightarrow> registration list \<Rightarrow> registration list \<Rightarrow> bool" for ids where
  keep: "regs_change ids t t"
| create: "rg_id r \<in> set ids \<Longrightarrow> rg_consumedAt r = None \<Longrightarrow> rg_email r \<notin> rg_email ` set t \<Longrightarrow> regs_change ids t (upsert rg_id r t)"
| renew: "x \<in> set t \<Longrightarrow> rg_id r = rg_id x \<Longrightarrow> rg_email r = rg_email x \<Longrightarrow> rg_consumedAt x = None \<Longrightarrow>
    regs_change ids t (upsert rg_id r t)"

lemma save_registration_regs: "save_registration r st = Some st' \<Longrightarrow> ct_registrations st' = upsert rg_id r (ct_registrations st)"
  by (auto simp: save_registration_def split: if_splits)

lemma save_tenant_regs: "save_tenant t st = Some st' \<Longrightarrow> ct_registrations st' = ct_registrations st"
  by (auto simp: save_tenant_def split: if_splits)

lemma insert_user_regs: "insert_user u st = Some st' \<Longrightarrow> ct_registrations st' = ct_registrations st"
  by (auto simp: insert_user_def split: if_splits)

lemma registrations_of_mem: "r \<in> set (registrations_of e st) \<longleftrightarrow> r \<in> set (ct_registrations st) \<and> rg_email r = e"
  by (auto simp: registrations_of_def)

lemma registrations_of_Nil: "registrations_of e st = [] \<longleftrightarrow> e \<notin> rg_email ` set (ct_registrations st)"
  by (auto simp: registrations_of_def filter_empty_conv)

lemma staging_regs:
  "regs_change [fresh] (ct_registrations st) (ct_registrations (snd (createTenantWithOwnerStaging v now fresh code orgName levels i st)))"
proof -
  let ?e = "trim (toLowerCase (oi_email i))"
  let ?r = "staged v now code i orgName levels (case registrations_of ?e st of [] \<Rightarrow> new_registration now fresh | p # _ \<Rightarrow> p)"
  have "regs_change [fresh] (ct_registrations st) (ct_registrations st')"
    if ok: "save_registration ?r st = Some st'" and none: "\<not> list_ex (\<lambda>r. rg_consumedAt r \<noteq> None) (registrations_of ?e st)" for st'
  proof (cases "registrations_of ?e st")
    case Nil
    then have "?e \<notin> rg_email ` set (ct_registrations st)" by (simp add: registrations_of_Nil)
    with Nil ok show ?thesis
      by (auto simp: save_registration_regs staged_def new_registration_def intro!: regs_change.create)
  next
    case (Cons p ps)
    then have "p \<in> set (ct_registrations st)" "rg_email p = ?e" "rg_consumedAt p = None"
      using registrations_of_mem [of p ?e st] none by auto
    with Cons ok show ?thesis
      by (auto simp: save_registration_regs staged_def intro!: regs_change.renew [of p])
  qed
  then show ?thesis
    by (simp add: createTenantWithOwnerStaging_def Let_def regs_change.keep split: option.splits)
qed

lemma refresh_regs:
  "regs_change ids (ct_registrations st) (ct_registrations (snd (refreshOwnerVerificationToken v now code email st)))"
proof (cases "registrations_of (trim (toLowerCase email)) st")
  case (Cons r rs)
  then have "r \<in> set (ct_registrations st)" using registrations_of_mem [of r "trim (toLowerCase email)" st] by simp
  with Cons show ?thesis
    by (auto simp: refreshOwnerVerificationToken_def Let_def save_registration_regs regs_change.keep
        intro!: regs_change.renew [of r] split: option.splits)
qed (simp add: refreshOwnerVerificationToken_def regs_change.keep)

lemma find_SomeD: "find P xs = Some x \<Longrightarrow> x \<in> set xs \<and> P x"
  by (auto simp: find_Some_iff)

lemma verify_regs: "regs_change ids (ct_registrations st) (ct_registrations (snd (verifyOwnerEmail v now tids code st)))"
proof (cases "find (\<lambda>r. rg_tokenHash r = vl_sha256 v code) (ct_registrations st)")
  case (Some r)
  then have "r \<in> set (ct_registrations st)" by (auto dest: find_SomeD)
  with Some show ?thesis
    by (auto simp: verifyOwnerEmail_def Let_def code_refused_def save_registration_regs save_tenant_regs regs_change.keep
        intro!: regs_change.renew [of r] split: option.splits)
qed (simp add: verifyOwnerEmail_def code_refused_def regs_change.keep)

text \<open>A verification that succeeds consumes the registration of the address the tenant is made for.\<close>

lemma verify_consumes:
  assumes "verifyOwnerEmail v now tids code st = (Inr t, st')"
  obtains r where "r \<in> set (ct_registrations st)" and "rg_tokenHash r = vl_sha256 v code" and "rg_consumedAt r = None"
    and "now \<le> rg_expiresAt r" and "tc_owner t = Some (owner_of r)"
    and "ct_registrations st' = upsert rg_id (r\<lparr>rg_consumedAt := Some now\<rparr>) (ct_registrations st)"
proof -
  from assms obtain r where r: "find (\<lambda>r. rg_tokenHash r = vl_sha256 v code) (ct_registrations st) = Some r"
    by (cases "find (\<lambda>r. rg_tokenHash r = vl_sha256 v code) (ct_registrations st)") (auto simp: verifyOwnerEmail_def code_refused_def)
  show ?thesis
    by (rule that [of r]) (use find_SomeD [OF r] assms r in \<open>auto simp: verifyOwnerEmail_def Let_def code_refused_def tenant_of_def
      save_registration_regs save_tenant_regs split: option.splits if_splits\<close>)
qed

lemma provision_regs [simp]: "ct_registrations (snd (provisionVerifiedTenant now outcome t st)) = ct_registrations st"
  by (simp add: provisionVerifiedTenant_def Let_def split: option.splits)

lemma owner_regs [simp]: "ct_registrations (snd (createPrimaryOwnerUser v now userId mapId sbo email st)) = ct_registrations st"
  by (auto simp: createPrimaryOwnerUser_def Let_def same_tables_def insert_user_regs
      dest!: lookup_frameD split: prod.splits sum.splits option.splits)

lemma reset_regs [simp]:
  "ct_registrations (snd (createPasswordResetToken v now token email slug st)) = ct_registrations st"
  "ct_registrations (snd (resetPasswordWithToken v now salt token newPassword st)) = ct_registrations st"
  by (auto simp: createPasswordResetToken_def resetPasswordWithToken_def mark_used_def set_password_def reset_refused_def
      Let_def same_tables_def dest!: lookup_frameD split: prod.splits sum.splits option.splits)

text \<open>One registration for an address.\<close>

definition regs_ok :: "registration list \<Rightarrow> bool" where
  "regs_ok t \<longleftrightarrow> (\<forall>x\<in>set t. \<forall>y\<in>set t. rg_email x = rg_email y \<or> rg_id x = rg_id y \<longrightarrow> x = y)"

definition address_used :: "string \<Rightarrow> registration list \<Rightarrow> bool" where
  "address_used e t \<longleftrightarrow> (\<exists>r\<in>set t. rg_email r = e \<and> rg_consumedAt r \<noteq> None)"

lemma regs_ok_insert:
  assumes "regs_ok t" and "\<forall>y\<in>set t - {x}. rg_id y \<noteq> rg_id r \<and> rg_email y \<noteq> rg_email r"
    and "set t' = insert r (set t - {x})"
  shows "regs_ok t'"
  unfolding regs_ok_def
proof (intro ballI impI)
  fix y z assume y: "y \<in> set t'" and z: "z \<in> set t'" and eq: "rg_email y = rg_email z \<or> rg_id y = rg_id z"
  show "y = z"
  proof (cases "y = r \<or> z = r")
    case True
    with y z eq assms(2,3) show ?thesis by (metis DiffI insertE)
  next
    case False
    with y z assms(3) have "y \<in> set t" "z \<in> set t" by simp_all
    with assms(1) eq show ?thesis unfolding regs_ok_def by blast
  qed
qed

lemma regs_change_ok:
  assumes "regs_change ids t t'" and "regs_ok t" and "set ids \<inter> rg_id ` set t = {}"
  shows "regs_ok t' \<and> (address_used e t \<longrightarrow> address_used e t')"
  using assms
proof (induction rule: regs_change.induct)
  case (create r t)
  then have id: "rg_id r \<notin> rg_id ` set t" by blast
  then have t': "upsert rg_id r t = t @ [r]" by (simp add: upsert_def)
  have "\<forall>y\<in>set t - {r}. rg_id y \<noteq> rg_id r \<and> rg_email y \<noteq> rg_email r" using id create(3) by (metis DiffD1 imageI)
  then have "regs_ok (t @ [r])" by (rule regs_ok_insert [OF create(4)]) auto
  then show ?case by (auto simp: t' address_used_def)
next
  case (renew x t r)
  have same: "y = x" if "y \<in> set t" "rg_id y = rg_id x" for y
    using that renew(1,5) unfolding regs_ok_def by blast
  have others: "\<forall>y\<in>set t - {x}. rg_id y \<noteq> rg_id r \<and> rg_email y \<noteq> rg_email r"
    using renew(1,2,3,5) unfolding regs_ok_def by (metis DiffD1 DiffD2 singletonI)
  have elems: "set (upsert rg_id r t) = insert r (set t - {x})"
  proof -
    have "rg_id r \<in> rg_id ` set t" using renew(1,2) by (metis imageI)
    then have "set (upsert rg_id r t) = (\<lambda>y. if rg_id y = rg_id r then r else y) ` set t"
      by (simp add: upsert_def tmodify_def set_tupdate)
    then show ?thesis using renew(1,2) same by (auto simp: image_iff)
  qed
  have "regs_ok (upsert rg_id r t)" by (rule regs_ok_insert [OF renew(5) others elems])
  moreover have "address_used e t \<longrightarrow> address_used e (upsert rg_id r t)"
    unfolding address_used_def elems using renew(4) by auto
  ultimately show ?case by simp
qed simp

end
