(* ===== verification/Login.thy ===== *)
theory Login
  imports Tenants
begin

section \<open>Registering, signing in, resetting a password\<close>

text \<open>
  \<open>auth/auth.service.ts\<close> on top of the tenant registry (\<open>Tenants\<close>), the tokens (\<open>Sessions\<close>) and the runtime
  configuration (\<open>FeatureFlags\<close>, \<open>Enforcement\<close>).  A request carries what the call reads from outside: the clock,
  the drawn identifiers, the configuration \<open>getConfig\<close> answers for a tenant, and the answers of the control plane,
  of the mail provider and of the provisioning.  The state is the registry, the onboarding jobs that
  \<open>verifyEmail\<close> leaves running in the background, and the codes and reset tokens sent by mail.
\<close>

record auth_env =
  ae_jwt :: jwt_env
  ae_codec :: jwt_codec
  ae_vault :: vault
  ae_sha :: digest_fn
  ae_config :: "string \<Rightarrow> runtime_config"
  ae_controlConfigured :: bool
  ae_mailWorks :: bool

definition ae_production :: "auth_env \<Rightarrow> bool" where
  "ae_production env = je_production (ae_jwt env)"

record auth_state =
  au_control :: control
  au_jobs :: "(tenant_config \<times> string) list"
  au_mails :: "(string \<times> string) list"   \<comment> \<open>address and secret\<close>

definition no_claims :: policy_claims where
  "no_claims = \<lparr>config_version = None, features_digest = None\<rparr>"

text \<open>\<open>flags.resolve\<close> without the claims of a token: the cached configuration is not consulted.\<close>

definition feature :: "auth_env \<Rightarrow> string \<Rightarrow> string \<Rightarrow> bool" where
  "feature env k key = resolve (ae_production env) (ae_sha env) k key no_claims None (ae_config env k)"

definition allowed_by_control :: "auth_env \<Rightarrow> string \<Rightarrow> enforcement_opts \<Rightarrow> unit result" where
  "allowed_by_control env k opts = assertTenantAllowed (ae_sha env) no_claims None (ae_config env k) opts"

definition policySnapshotForTenant :: "auth_env \<Rightarrow> string \<Rightarrow> policy_snapshot option" where
  "policySnapshotForTenant env k =
     (let cfg = ae_config env k
      in if rc_configVersion cfg \<le> 0 then None
         else Some \<lparr>ps_configVersion = nat (rc_configVersion cfg),
            ps_tenantStatus = (case rc_status cfg of Active \<Rightarrow> ''active'' | Suspended \<Rightarrow> ''suspended'' | Restricted \<Rightarrow> ''restricted''
              | Blacklisted \<Rightarrow> ''blacklisted'' | Provisioning \<Rightarrow> ''provisioning'' | Archived \<Rightarrow> ''archived''),
            ps_featuresDigest = ae_sha env (rc_configVersion cfg) (enabled_features cfg)\<rparr>)"

text \<open>\<open>catch (error) { if (error instanceof HttpException) throw error; throw new BadRequestException(m) }\<close>\<close>

definition http_or :: "string \<Rightarrow> 'a result \<Rightarrow> 'a result" where
  "http_or m r = (case r of Inl DbError \<Rightarrow> Inl (BadRequest m) | _ \<Rightarrow> r)"

definition with_control :: "('a result \<times> control) \<Rightarrow> auth_state \<Rightarrow> 'a result \<times> auth_state" where
  "with_control rc s = (fst rc, s\<lparr>au_control := snd rc\<rparr>)"

subsection \<open>Registration\<close>

record step1_response =
  s1_message :: string
  s1_code :: "string option"

definition code_message :: string where
  "code_message = ''Check your email for a 6-digit verification code.''"

definition send_mail :: "auth_env \<Rightarrow> string \<Rightarrow> string \<Rightarrow> auth_state \<Rightarrow> auth_state" where
  "send_mail env address secret s = (if ae_mailWorks env then s\<lparr>au_mails := au_mails s @ [(address, secret)]\<rparr> else s)"

text \<open>\<open>refusal\<close> is the answer of \<open>checkRegistration\<close>: the exception it throws, \<open>None\<close> when the registration is
  allowed, its message (or none) otherwise.\<close>

definition registration_gate :: "auth_env \<Rightarrow> string option option result \<Rightarrow> unit result" where
  "registration_gate env refusal = (case assertEnabled (feature env ''__registration__'' ''auth.register'') ''auth.register'' of
      Inl e \<Rightarrow> Inl e
    | Inr _ \<Rightarrow> (case (if ae_controlConfigured env \<and> ae_production env then refusal else Inr None) of
          Inl e \<Rightarrow> Inl e
        | Inr None \<Rightarrow> Inr ()
        | Inr (Some m) \<Rightarrow> Inl (Forbidden (or_else m ''Registration cannot be completed. Please contact support.''))))"

definition registerStep1_body :: "auth_env \<Rightarrow> int \<Rightarrow> string option option result \<Rightarrow> string \<Rightarrow> string \<Rightarrow> owner_input \<Rightarrow> auth_state \<Rightarrow>
    step1_response result \<times> auth_state" where
  "registerStep1_body env now refusal fresh code i s = (case registration_gate env refusal of
      Inl e \<Rightarrow> (Inl e, s)
    | Inr _ \<Rightarrow> (case createTenantWithOwnerStaging (ae_vault env) now fresh code None [] i (au_control s) of
          (Inl e, c) \<Rightarrow> (Inl e, s\<lparr>au_control := c\<rparr>)
        | (Inr (_, drawn), c) \<Rightarrow>
            let s' = send_mail env (oi_email i) drawn (s\<lparr>au_control := c\<rparr>)
            in if \<not> ae_mailWorks env \<and> ae_production env
               then (Inl (ServiceUnavailable ''Registration email delivery is temporarily unavailable''), s')
               else (Inr \<lparr>s1_message = code_message, s1_code = (if ae_production env then None else Some drawn)\<rparr>, s')))"

definition registerStep1 :: "auth_env \<Rightarrow> int \<Rightarrow> string option option result \<Rightarrow> string \<Rightarrow> string \<Rightarrow> owner_input \<Rightarrow> auth_state \<Rightarrow>
    step1_response result \<times> auth_state" where
  "registerStep1 env now refusal fresh code i s =
     (case registerStep1_body env now refusal fresh code i s of (r, s') \<Rightarrow> (http_or ''Failed to setup'' r, s'))"

text \<open>The answers of \<open>registerTenant\<close> and \<open>activateTenant\<close>: \<open>None\<close>, or the exception they throw.\<close>

record control_answers =
  ca_register :: "http_error option"
  ca_activate :: "http_error option"

definition announce :: "auth_env \<Rightarrow> control_answers \<Rightarrow> unit result" where
  "announce env ca =
     (if \<not> ae_controlConfigured env then Inr ()
      else (case ca_register ca of
          Some e \<Rightarrow> Inl e
        | None \<Rightarrow> (case ca_activate ca of
              Some e \<Rightarrow> if ae_production env then Inl e else Inr ()
            | None \<Rightarrow> Inr ())))"

text \<open>The answer is the tenant, for the statements below; the caller is told that its school is being set up.\<close>

definition verifyEmail :: "auth_env \<Rightarrow> int \<Rightarrow> tenant_ids \<Rightarrow> control_answers \<Rightarrow> string \<Rightarrow> auth_state \<Rightarrow> tenant_config result \<times> auth_state" where
  "verifyEmail env now ids ca code s = (case verifyOwnerEmail (ae_vault env) now ids code (au_control s) of
      (Inl e, c) \<Rightarrow> (http_or ''Unable to verify email'' (Inl e), s\<lparr>au_control := c\<rparr>)
    | (Inr t, c) \<Rightarrow> (case announce env ca of
          Inl e \<Rightarrow> (http_or ''Unable to verify email'' (Inl e), s\<lparr>au_control := c\<rparr>)
        | Inr _ \<Rightarrow> (Inr t, s\<lparr>au_control := c,
            au_jobs := au_jobs s @ [(t, toLowerCase (case tc_owner t of Some p \<Rightarrow> op_email p | None \<Rightarrow> []))]\<rparr>)))"

definition resendVerificationEmail :: "auth_env \<Rightarrow> int \<Rightarrow> string \<Rightarrow> string \<Rightarrow> auth_state \<Rightarrow> unit result \<times> auth_state" where
  "resendVerificationEmail env now code email s = (case refreshOwnerVerificationToken (ae_vault env) now code email (au_control s) of
      (Inl e, c) \<Rightarrow> (Inl e, s\<lparr>au_control := c\<rparr>)
    | (Inr None, c) \<Rightarrow> (Inr (), s\<lparr>au_control := c\<rparr>)
    | (Inr (Some (address, drawn)), c) \<Rightarrow>
        if ae_mailWorks env then (Inr (), send_mail env address drawn (s\<lparr>au_control := c\<rparr>))
        else (Inl DbError, s\<lparr>au_control := c\<rparr>))"

text \<open>One background job: provisioning, then the owner's account; every exception is logged and dropped.\<close>

definition finishVerifiedTenantOnboarding :: "auth_env \<Rightarrow> int \<Rightarrow> (http_error \<times> string) option \<Rightarrow> string \<Rightarrow> string \<Rightarrow>
    tenant_config \<times> string \<Rightarrow> control \<Rightarrow> control" where
  "finishVerifiedTenantOnboarding env now outcome userId mapId job c = (case job of (t, email) \<Rightarrow>
      (case provisionVerifiedTenant now outcome t c of
         (Inl _, c') \<Rightarrow> c'
       | (Inr t', c') \<Rightarrow> snd (createPrimaryOwnerUser (ae_vault env) now userId mapId (tc_sbo t') email c')))"

record step2_response =
  s2_tokens :: session_tokens
  s2_user :: tenant_user
  s2_level :: "string + string list"

definition session_response :: "auth_env \<Rightarrow> int \<Rightarrow> session_ids \<Rightarrow> tenant_config \<Rightarrow> tenant_user \<Rightarrow> step2_response result" where
  "session_response env now sx t u = map_sum id
     (\<lambda>tokens. \<lparr>s2_tokens = tokens, s2_user = u, s2_level = effectiveSchoolLevel (tu_schoolLevel u) (tu_roles u) (tc_levels t)\<rparr>)
     (issueSession (ae_codec env) (ae_jwt env) (now div 1000) sx
       (session_for u (tc_id t) (tu_permissions u) (policySnapshotForTenant env (tc_id t)) None))"

text \<open>The account of \<open>registerStep2\<close>: a ready tenant signs its user in, another gets its owner.\<close>

definition step2_user :: "auth_env \<Rightarrow> int \<Rightarrow> string \<Rightarrow> string \<Rightarrow> string \<Rightarrow> string \<Rightarrow> string \<Rightarrow> control \<Rightarrow>
    (tenant_config \<times> tenant_user) result \<times> control" where
  "step2_user env now userId mapId sbo email password c = (case resolveTenantBySboId (ae_vault env) now sbo c of
      (Inl e, c1) \<Rightarrow> (Inl e, c1)
    | (Inr t, c1) \<Rightarrow>
        if tc_provisioning t = ProvReady
        then (case resolveTenantForUserEmail (ae_vault env) now email (Some sbo) c1 of
            (Inl e, c2) \<Rightarrow> (Inl e, c2)
          | (Inr t', c2) \<Rightarrow> (case validateUserByTenant (ae_vault env) now (tc_id t') email password c2 of
                (Inl e, c3) \<Rightarrow> (Inl e, c3)
              | (Inr u, c3) \<Rightarrow> (Inr (t', u), c3)))
        else (case createPrimaryOwnerUser (ae_vault env) now userId mapId sbo email c1 of
            (Inl e, c2) \<Rightarrow> (Inl e, c2)
          | (Inr (t', row), c2) \<Rightarrow> (Inr (t', tenant_user_of row), c2)))"

definition registerStep2 :: "auth_env \<Rightarrow> int \<Rightarrow> session_ids \<Rightarrow> string \<Rightarrow> string \<Rightarrow> string \<Rightarrow> string \<Rightarrow> string \<Rightarrow> auth_state \<Rightarrow>
    step2_response result \<times> auth_state" where
  "registerStep2 env now sx userId mapId sbo email password s =
     (case assertEnabled (feature env ''__registration__'' ''auth.register'') ''auth.register'' of
        Inl e \<Rightarrow> (Inl e, s)
      | Inr _ \<Rightarrow> (case step2_user env now userId mapId sbo email password (au_control s) of
            (Inl e, c) \<Rightarrow> (http_or ''Failed to complete registration'' (Inl e), s\<lparr>au_control := c\<rparr>)
          | (Inr (t, u), c) \<Rightarrow> (http_or ''Failed to complete registration'' (session_response env now sx t u), s\<lparr>au_control := c\<rparr>)))"

subsection \<open>Signing in\<close>

record login_payload =
  lp_schoolSlug :: "string option"
  lp_sbo :: "string option"
  lp_email :: string
  lp_password :: string
  lp_rememberMe :: bool

record login_response =
  lr_tokens :: session_tokens
  lr_user :: tenant_user
  lr_slug :: string
  lr_level :: "string + string list"
  lr_permissions :: "string list"

definition remember_ttl :: "auth_env \<Rightarrow> tenant_config \<Rightarrow> login_payload \<Rightarrow> int option" where
  "remember_ttl env t p = (if lp_rememberMe p \<and> feature env (tc_id t) ''auth.remember_me'' then Some (60 * 60 * 24 * 30) else None)"

definition login_tenant :: "auth_env \<Rightarrow> int \<Rightarrow> login_payload \<Rightarrow> control \<Rightarrow> tenant_config result \<times> control" where
  "login_tenant env now p c = (case or_null (lp_schoolSlug p) of
      Some slug \<Rightarrow> resolveTenantBySlug (ae_vault env) now slug c
    | None \<Rightarrow> resolveTenantForUserEmail (ae_vault env) now (lp_email p) (lp_sbo p) c)"

definition gate_before :: "auth_env \<Rightarrow> tenant_config \<Rightarrow> login_payload \<Rightarrow> unit result" where
  "gate_before env t p = (case allowed_by_control env (tc_id t) \<lparr>o_userId = None, o_email = Some (lp_email p), o_ip = None\<rparr> of
      Inl e \<Rightarrow> Inl e
    | Inr _ \<Rightarrow> assertEnabled (feature env (tc_id t) ''auth.login'') ''auth.login'')"

definition gate_after :: "auth_env \<Rightarrow> tenant_config \<Rightarrow> login_payload \<Rightarrow> tenant_user \<Rightarrow> unit result" where
  "gate_after env t p u =
     (if \<not> truthy (lp_schoolSlug p) \<and> \<not> (List.member (tu_permissions u) ''*'' \<or> List.member (tu_roles u) ''director'')
      then Inl (Unauthorized ''Primary owner login required'')
      else allowed_by_control env (tc_id t) \<lparr>o_userId = Some (tu_id u), o_email = Some (tu_email u), o_ip = None\<rparr>)"

definition login_session :: "auth_env \<Rightarrow> int \<Rightarrow> session_ids \<Rightarrow> tenant_config \<Rightarrow> login_payload \<Rightarrow> tenant_user \<Rightarrow> login_response result" where
  "login_session env now sx t p u =
     (let perms = effectivePermissions (tu_roles u) (tu_permissions u)
      in map_sum id (\<lambda>tokens. \<lparr>lr_tokens = tokens, lr_user = u, lr_slug = tc_slug t,
            lr_level = effectiveSchoolLevel (tu_schoolLevel u) (tu_roles u) (tc_levels t), lr_permissions = perms\<rparr>)
          (issueSession (ae_codec env) (ae_jwt env) (now div 1000) sx
            (session_for u (tc_id t) perms (policySnapshotForTenant env (tc_id t)) (remember_ttl env t p))))"

definition login_body :: "auth_env \<Rightarrow> int \<Rightarrow> session_ids \<Rightarrow> login_payload \<Rightarrow> control \<Rightarrow> login_response result \<times> control" where
  "login_body env now sx p c = (case login_tenant env now p c of
      (Inl e, c1) \<Rightarrow> (Inl e, c1)
    | (Inr t, c1) \<Rightarrow> (case gate_before env t p of
          Inl e \<Rightarrow> (Inl e, c1)
        | Inr _ \<Rightarrow> (case validateUserByTenant (ae_vault env) now (tc_id t) (lp_email p) (lp_password p) c1 of
              (Inl e, c2) \<Rightarrow> (Inl e, c2)
            | (Inr u, c2) \<Rightarrow> (case gate_after env t p u of
                  Inl e \<Rightarrow> (Inl e, c2)
                | Inr _ \<Rightarrow> (login_session env now sx t p u, c2)))))"

text \<open>A refusal by the control plane is passed on, every other failure is the same \<open>401\<close>.\<close>

definition login_error :: "http_error \<Rightarrow> http_error" where
  "login_error e = (case e of Forbidden m \<Rightarrow> Forbidden m | _ \<Rightarrow> Unauthorized ''Invalid credentials'')"

definition login :: "auth_env \<Rightarrow> int \<Rightarrow> session_ids \<Rightarrow> login_payload \<Rightarrow> auth_state \<Rightarrow> login_response result \<times> auth_state" where
  "login env now sx p s = (case login_body env now sx p (au_control s) of
      (r, c) \<Rightarrow> (map_sum login_error id r, s\<lparr>au_control := c\<rparr>))"

subsection \<open>Password reset\<close>

record reset_answer =
  ra_message :: string
  ra_token :: "string option"   \<comment> \<open>of \<open>devResetUrl\<close>\<close>

definition reset_message :: string where
  "reset_message = ''If an account exists for that email, a reset link has been sent.''"

definition reset_gate :: "auth_env \<Rightarrow> unit result" where
  "reset_gate env = assertEnabled (feature env ''__registration__'' ''auth.password_reset'') ''auth.password_reset''"

definition requestPasswordReset :: "auth_env \<Rightarrow> int \<Rightarrow> string \<Rightarrow> string \<Rightarrow> string option \<Rightarrow> auth_state \<Rightarrow> reset_answer result \<times> auth_state" where
  "requestPasswordReset env now token email slug s = (case reset_gate env of
      Inl e \<Rightarrow> (Inl e, s)
    | Inr _ \<Rightarrow> (case createPasswordResetToken (ae_vault env) now token email slug (au_control s) of
          (Inl e, c) \<Rightarrow> (Inl e, s\<lparr>au_control := c\<rparr>)
        | (Inr None, c) \<Rightarrow> (Inr \<lparr>ra_message = reset_message, ra_token = None\<rparr>, s\<lparr>au_control := c\<rparr>)
        | (Inr (Some z), c) \<Rightarrow>
            let s1 = s\<lparr>au_control := c\<rparr>;
                s2 = (if feature env (rz_tenantId z) ''comms.email'' then send_mail env email (rz_token z) s1 else s1)
            in (Inr \<lparr>ra_message = reset_message, ra_token = (if ae_production env then None else Some (rz_token z))\<rparr>, s2)))"

definition confirmPasswordReset :: "auth_env \<Rightarrow> int \<Rightarrow> string \<Rightarrow> string \<Rightarrow> string \<Rightarrow> auth_state \<Rightarrow> unit result \<times> auth_state" where
  "confirmPasswordReset env now salt token password s = (case reset_gate env of
      Inl e \<Rightarrow> (Inl e, s)
    | Inr _ \<Rightarrow>
        if token = [] \<or> password = [] \<or> length password < 8
        then (Inl (BadRequest ''A valid token and password (min 8 characters) are required''), s)
        else with_control (resetPasswordWithToken (ae_vault env) now salt token password (au_control s)) s)"

subsection \<open>The service as a machine\<close>

datatype auth_request =
    Register auth_env int "string option option result" string string owner_input
  | Verify auth_env int tenant_ids control_answers string
  | Resend auth_env int string string
  | Onboard auth_env int "(http_error \<times> string) option" string string
  | Step2 auth_env int session_ids string string string string string
  | SignIn auth_env int session_ids login_payload
  | RequestReset auth_env int string string "string option"
  | ConfirmReset auth_env int string string string

datatype auth_answer =
    ARegister "step1_response result"
  | AVerify "tenant_config result"
  | AResend "unit result"
  | AJob
  | AStep2 "step2_response result"
  | ASignIn "login_response result"
  | ARequest "reset_answer result"
  | AConfirm string "unit result"

definition answer :: "('a result \<Rightarrow> auth_answer) \<Rightarrow> 'a result \<times> auth_state \<Rightarrow> auth_answer \<times> auth_state" where
  "answer wrap x = (wrap (fst x), snd x)"

lemma answer_simps [simp]: "fst (answer wrap x) = wrap (fst x)" "snd (answer wrap x) = snd x"
  by (simp_all add: answer_def)

text \<open>A job of the background ends whenever it does; it runs here as one step, the oldest first.\<close>

fun auth_step :: "auth_request \<Rightarrow> auth_state \<Rightarrow> auth_answer \<times> auth_state" where
  "auth_step (Register env now refusal fresh code i) s = answer ARegister (registerStep1 env now refusal fresh code i s)"
| "auth_step (Verify env now ids ca code) s = answer AVerify (verifyEmail env now ids ca code s)"
| "auth_step (Resend env now code email) s = answer AResend (resendVerificationEmail env now code email s)"
| "auth_step (Onboard env now outcome userId mapId) s = (case au_jobs s of
      [] \<Rightarrow> (AJob, s)
    | job # jobs \<Rightarrow> (AJob, s\<lparr>au_control := finishVerifiedTenantOnboarding env now outcome userId mapId job (au_control s), au_jobs := jobs\<rparr>))"
| "auth_step (Step2 env now sx userId mapId sbo email password) s =
     answer AStep2 (registerStep2 env now sx userId mapId sbo email password s)"
| "auth_step (SignIn env now sx p) s = answer ASignIn (login env now sx p s)"
| "auth_step (RequestReset env now token email slug) s = answer ARequest (requestPasswordReset env now token email slug s)"
| "auth_step (ConfirmReset env now salt token password) s = answer (AConfirm token) (confirmPasswordReset env now salt token password s)"

subsection \<open>A reset token is used once, in time, for one account\<close>

definition resets :: "auth_state \<Rightarrow> reset_row list" where
  "resets s = ct_resets (au_control s)"

lemma resets_simps [simp]:
  "resets (s\<lparr>au_control := c\<rparr>) = ct_resets c" "resets (s\<lparr>au_jobs := js\<rparr>) = resets s" "resets (s\<lparr>au_mails := ms\<rparr>) = resets s"
  "resets (send_mail env address secret s) = resets s" "resets (snd (with_control x s)) = ct_resets (snd x)"
  by (simp_all add: resets_def send_mail_def with_control_def)

lemma registration_resets [simp]:
  "resets (snd (registerStep1 env now refusal fresh code i s)) = resets s"
  "resets (snd (resendVerificationEmail env now code email s)) = resets s"
proof -
  have "ct_resets c = ct_resets st" if "createTenantWithOwnerStaging v now fresh code orgName levels i st = (r, c)"
    for v orgName levels st r c
    by (metis staging_resets(1) that snd_conv)
  then show "resets (snd (registerStep1 env now refusal fresh code i s)) = resets s"
    by (auto simp: registerStep1_def registerStep1_body_def Let_def resets_def send_mail_def split: sum.splits prod.splits)
  have "ct_resets c = ct_resets st" if "refreshOwnerVerificationToken v now code email st = (r, c)" for v st r c
    by (metis staging_resets(2) that snd_conv)
  then show "resets (snd (resendVerificationEmail env now code email s)) = resets s"
    by (auto simp: resendVerificationEmail_def resets_def send_mail_def split: sum.splits prod.splits option.splits)
qed

lemma verifyEmail_resets [simp]: "resets (snd (verifyEmail env now ids ca code s)) = resets s"
proof -
  have "ct_resets c = ct_resets st" if "verifyOwnerEmail v now ids code st = (r, c)" for v st r c
    by (metis verifyOwnerEmail_resets that snd_conv)
  then show ?thesis by (auto simp: verifyEmail_def resets_def split: sum.splits prod.splits)
qed

lemma onboarding_resets [simp]: "ct_resets (finishVerifiedTenantOnboarding env now outcome userId mapId job c) = ct_resets c"
proof -
  have "ct_resets c' = ct_resets c" if "provisionVerifiedTenant now outcome t c = (r, c')" for t r c'
    by (metis provision_resets that snd_conv)
  then show ?thesis by (auto simp: finishVerifiedTenantOnboarding_def split: prod.splits sum.splits)
qed

lemma step2_resets [simp]: "resets (snd (registerStep2 env now sx userId mapId sbo email password s)) = resets s"
proof -
  have owner: "ct_resets c' = ct_resets c" if "createPrimaryOwnerUser v now userId mapId sbo email c = (r, c')" for v r c c'
    by (metis owner_resets that snd_conv)
  have "ct_resets (snd (step2_user env now userId mapId sbo email password c)) = ct_resets c" for c
    by (auto simp: step2_user_def same_tables_def dest!: lookup_frameD owner split: prod.splits sum.splits)
  then have "ct_resets c' = ct_resets c" if "step2_user env now userId mapId sbo email password c = (r, c')" for r c c'
    by (metis that snd_conv)
  then show ?thesis by (auto simp: registerStep2_def resets_def split: prod.splits sum.splits)
qed

lemma login_body_tables: "same_tables c (snd (login_body env now sx p c))"
  by (auto simp: login_body_def login_tenant_def same_tables_def dest!: lookup_frameD
      split: prod.splits sum.splits option.splits)

lemma login_resets [simp]: "resets (snd (login env now sx p s)) = resets s"
  using login_body_tables [of "au_control s" env now sx p]
  by (auto simp: login_def same_tables_def resets_def split: prod.splits)

lemma request_resets:
  "resets (snd (requestPasswordReset env now token email slug s)) = resets s \<or>
   (\<exists>r. rt_token r = token \<and> rt_usedAt r = None \<and> rt_expiresAt r = now + reset_ttlMs \<and> token \<notin> rt_token ` set (resets s) \<and>
      resets (snd (requestPasswordReset env now token email slug s)) = resets s @ [r])"
proof (cases "reset_gate env")
  case (Inr u)
  obtain r c where c: "createPasswordResetToken (ae_vault env) now token email slug (au_control s) = (r, c)" by fastforce
  have "resets (snd (requestPasswordReset env now token email slug s)) = ct_resets c"
    by (simp add: requestPasswordReset_def Inr c Let_def split: sum.splits option.splits)
  with createPasswordResetToken_resets [of "ae_vault env" now token email slug "au_control s"] c show ?thesis
    by (simp add: resets_def)
qed (simp add: requestPasswordReset_def)

lemma confirm_resets:
  "resets (snd (confirmPasswordReset env now salt token password s)) = resets s \<or>
   resets (snd (confirmPasswordReset env now salt token password s)) = tmodify rt_token token (\<lambda>r. r\<lparr>rt_usedAt := Some now\<rparr>) (resets s)"
  by (auto simp: confirmPasswordReset_def resetPasswordWithToken_def with_control_def mark_used_def set_password_def resets_def same_tables_def
      dest!: lookup_frameD split: sum.splits option.splits prod.splits)

lemma confirm_spends:
  assumes "fst (confirmPasswordReset env now salt token password s) = Inr ()"
  obtains r where "tfind rt_token token (resets s) = Some r" and "rt_usedAt r = None" and "now \<le> rt_expiresAt r"
    and "resets (snd (confirmPasswordReset env now salt token password s)) =
      tmodify rt_token token (\<lambda>r. r\<lparr>rt_usedAt := Some now\<rparr>) (resets s)"
  using assms
  by (fastforce simp: confirmPasswordReset_def resetPasswordWithToken_def with_control_def mark_used_def set_password_def
      resets_def same_tables_def reset_refused_def dest!: lookup_frameD split: sum.splits option.splits prod.splits if_splits)

definition spent_token :: "string \<Rightarrow> auth_state \<Rightarrow> bool" where
  "spent_token tk s = (case tfind rt_token tk (resets s) of Some r \<Rightarrow> rt_usedAt r \<noteq> None | None \<Rightarrow> False)"

lemma reset_step_cases:
  obtains "resets (snd (auth_step q s)) = resets s"
  | r where "resets (snd (auth_step q s)) = resets s @ [r]" and "rt_token r \<notin> rt_token ` set (resets s)" and "rt_usedAt r = None"
  | token now where "resets (snd (auth_step q s)) = tmodify rt_token token (\<lambda>r. r\<lparr>rt_usedAt := Some now\<rparr>) (resets s)"
proof (cases q)
  case (Onboard env now outcome userId mapId)
  then show ?thesis using that(1) by (cases "au_jobs s") (auto simp: resets_def)
next
  case (RequestReset env now token email slug)
  then show ?thesis using that(1,2) request_resets [of env now token email slug s] by auto
next
  case (ConfirmReset env now salt token password)
  then show ?thesis using that(1,3) confirm_resets [of env now salt token password s] by auto
qed (use that(1) in simp_all)

interpretation reset: one_shot auth_step "\<lambda>s. pk rt_token (resets s)" "spent_token tk" "\<lambda>a. a = AConfirm tk (Inr ())" for tk
proof
  fix s q
  show "pk rt_token (resets s) \<Longrightarrow> pk rt_token (resets (snd (auth_step q s)))"
    by (cases rule: reset_step_cases [of q s]) (auto simp: pk_append pk_tmodify)
  show "spent_token tk s \<Longrightarrow> spent_token tk (snd (auth_step q s))"
    by (cases rule: reset_step_cases [of q s]) (auto simp: spent_token_def tfind_append tfind_tmodify split: option.splits)
  show "spent_token tk s \<Longrightarrow> fst (auth_step q s) \<noteq> AConfirm tk (Inr ())"
  proof (cases q)
    case (ConfirmReset env now salt token password)
    assume "spent_token tk s"
    with ConfirmReset show ?thesis
      by (auto simp: spent_token_def elim!: confirm_spends)
  qed (auto split: list.splits)
  show "fst (auth_step q s) = AConfirm tk (Inr ()) \<Longrightarrow> spent_token tk (snd (auth_step q s))"
  proof (cases q)
    case (ConfirmReset env now salt token password)
    assume "fst (auth_step q s) = AConfirm tk (Inr ())"
    with ConfirmReset show ?thesis
      by (auto simp: spent_token_def tfind_tmodify elim!: confirm_spends)
  qed (auto split: list.splits)
qed

declare enabled_features_def [code del]

text \<open>A school with one teacher, and a reset token for it.\<close>

definition sample_vault :: vault where
  "sample_vault = \<lparr>vl_sha256 = rev, vl_encrypt = (#) CHR ''x'', vl_decrypt = tl, vl_kdf = sample_kdf\<rparr>"

definition open_config :: runtime_config where
  "open_config = \<lparr>rc_tenantId = ''t1'', rc_status = Active, rc_features = Map.empty, rc_providers = Map.empty,
     rc_enforcement = \<lparr>schoolBlacklisted = False, blockedUserIds = [''u9''], blockedEmails = [], blockedIpCidrs = [],
       capabilityFreezes = [], denyLogin = False, enf_message = None\<rparr>,
     rc_killSwitches = [], rc_feeSplits = [], rc_ttlSeconds = None, rc_configVersion = 0\<rparr>"

definition sample_auth :: auth_env where
  "sample_auth = \<lparr>ae_jwt = demo_env, ae_codec = demo_codec, ae_vault = sample_vault, ae_sha = (\<lambda>_ _. []), ae_config = (\<lambda>_. open_config),
     ae_controlConfigured = False, ae_mailWorks = True\<rparr>"

definition sample_tenant :: tenant_config where
  "sample_tenant = \<lparr>tc_id = ''t1'', tc_slug = ''hill-school'', tc_sbo = ''SBO-1'', tc_name = ''Hill School'', tc_status = StActive,
     tc_dbName = ''tenant_t1'', tc_dbUri = ''db'', tc_levels = [''primary''], tc_owner = None, tc_stagedHash = None, tc_emailVerified = True,
     tc_provisioning = ProvReady, tc_provError = None, tc_createdAt = 0, tc_updatedAt = 0\<rparr>"

definition sample_hash :: string where
  "sample_hash = the (hashPassword sample_kdf ''ab'' ''old secret'')"

definition sample_auth_state :: auth_state where
  "sample_auth_state = \<lparr>au_control = \<lparr>ct_registrations = [], ct_tenants = [sample_tenant], ct_mappings = [],
       ct_users = [\<lparr>us_tenant = ''t1'', us_id = ''u1'', us_email = ''ada@hill.ng'', us_name = ''Ada'', us_phone = None, us_level = None,
         us_hash = sample_hash, us_roles = [''class_teacher''], us_permissions = [], us_capabilities = [], us_active = True\<rparr>],
       ct_resets = [\<lparr>rt_token = ''pwr_1'', rt_tenant = ''t1'', rt_user = ''u1'', rt_email = ''ada@hill.ng'', rt_expiresAt = 3600000,
         rt_usedAt = None\<rparr>],
       ct_branding = None, ct_cache = \<lparr>tk_byId = [], tk_bySbo = []\<rparr>\<rparr>, au_jobs = [], au_mails = []\<rparr>"



text \<open>a reset that succeeds used a token that was unused and not expired; it changes the password hash of the
  account the token was made for and of no other, to one that accepts the new password.\<close>

theorem reset_sets_password:
  assumes "kdf_ok (vl_kdf (ae_vault env))" and "CHR ''$'' \<notin> set salt" and "cache_ok (ct_cache (au_control s))"
    and "confirmPasswordReset env now salt token password s = (Inr (), s')"
  shows "\<exists>r hash. tfind rt_token token (resets s) = Some r \<and> rt_usedAt r = None \<and> now \<le> rt_expiresAt r \<and> 8 \<le> length password \<and>
    verifyPassword (vl_kdf (ae_vault env)) password hash = Some True \<and>
    ct_users (au_control s') = tupdate (\<lambda>u. us_tenant u = rt_tenant r \<and> us_id u = rt_user r) (\<lambda>u. u\<lparr>us_hash := hash\<rparr>) (ct_users (au_control s))"
proof -
  let ?v = "ae_vault env" and ?c = "au_control s"
  have len: "8 \<le> length password" and inner: "resetPasswordWithToken ?v now salt token password ?c = (Inr (), au_control s')"
    using assms(4) by (auto simp: confirmPasswordReset_def with_control_def prod_eq_iff split: sum.splits if_splits)
  obtain r t c hash where r: "tfind rt_token token (ct_resets ?c) = Some r" "rt_usedAt r = None" "now \<le> rt_expiresAt r"
    and t: "getTenantById ?v now (rt_tenant r) ?c = (Some t, c)"
    and hash: "hashPassword (vl_kdf ?v) salt password = Some hash"
    and s': "au_control s' = mark_used now token (set_password (tc_id t) (rt_user r) hash c)"
    using inner by (auto simp: resetPasswordWithToken_def reset_refused_def split: option.splits prod.splits if_splits)
  have "tc_id t = rt_tenant r" using getTenantById_id [OF assms(3) t] by simp
  moreover have "ct_users c = ct_users ?c" using lookup_frameD(1) [OF t] by (simp add: same_tables_def)
  moreover have "verifyPassword (vl_kdf ?v) password hash = Some True"
    using password_hash_accepts [OF assms(1,2)] hash by auto
  ultimately show ?thesis using len r hash by (auto simp: s' mark_used_def set_password_def resets_def)
qed

lemma sample_reset: "fst (confirmPasswordReset sample_auth 1000 ''cd'' ''pwr_1'' ''new secret'' sample_auth_state) = Inr ()"
  by code_simp

theorem reset_sets_password_witness:
  "\<exists>hash. verifyPassword sample_kdf ''new secret'' hash = Some True \<and>
     map us_hash (ct_users (au_control (snd (confirmPasswordReset sample_auth 1000 ''cd'' ''pwr_1'' ''new secret'' sample_auth_state)))) = [hash]"
proof -
  obtain s' where s': "confirmPasswordReset sample_auth 1000 ''cd'' ''pwr_1'' ''new secret'' sample_auth_state = (Inr (), s')"
    using sample_reset by (metis prod.collapse)
  have "kdf_ok (vl_kdf (ae_vault sample_auth))" by (simp add: sample_auth_def sample_vault_def sample_kdf_ok)
  moreover have "cache_ok (ct_cache (au_control sample_auth_state))" by (simp add: cache_ok_def sample_auth_state_def)
  ultimately obtain hash where "verifyPassword (vl_kdf (ae_vault sample_auth)) ''new secret'' hash = Some True"
    and "map us_hash (ct_users (au_control s')) = [hash]"
    using reset_sets_password [OF _ _ _ s'] by (auto simp: sample_auth_state_def resets_def)
  moreover have "vl_kdf (ae_vault sample_auth) = sample_kdf" by (simp add: sample_auth_def sample_vault_def)
  ultimately show ?thesis unfolding s' snd_conv by auto
qed

text \<open>C21: a sign-in succeeds only for an active user of the tenant whose stored hash accepts the password, when the
  tenant's configuration blocks neither the school nor the user and its login feature is on, and without a school's
  own login page only for owners and directors; the tokens are those of a session with the user's effective
  permissions.\<close>

theorem login_sound:
  assumes "login env now sx p s = (Inr resp, s')"
  shows "\<exists>t u perms. signs_in (ae_vault env) (tc_id t) (lp_email p) (lp_password p) (au_control s) u \<and>
    lr_user resp = tenant_user_of u \<and>
    assertFromConfig (ae_config env (tc_id t)) \<lparr>o_userId = None, o_email = Some (lp_email p), o_ip = None\<rparr> = Inr () \<and>
    assertFromConfig (ae_config env (tc_id t)) \<lparr>o_userId = Some (us_id u), o_email = Some (us_email u), o_ip = None\<rparr> = Inr () \<and>
    feature env (tc_id t) ''auth.login'' \<and>
    (truthy (lp_schoolSlug p) \<or> ''*'' \<in> set (us_permissions u) \<or> ''director'' \<in> set (us_roles u)) \<and>
    perms = effectivePermissions (us_roles u) (us_permissions u) \<and>
    issueSession (ae_codec env) (ae_jwt env) (now div 1000) sx
      (session_for (tenant_user_of u) (tc_id t) perms (policySnapshotForTenant env (tc_id t)) (remember_ttl env t p)) = Inr (lr_tokens resp)"
proof -
  obtain c where "login_body env now sx p (au_control s) = (Inr resp, c)"
    using assms by (auto simp: login_def map_sum_result split: prod.splits)
  then obtain t c1 w where t: "login_tenant env now p (au_control s) = (Inr t, c1)" and before: "gate_before env t p = Inr ()"
    and w: "validateUserByTenant (ae_vault env) now (tc_id t) (lp_email p) (lp_password p) c1 = (Inr w, c)"
    and after: "gate_after env t p w = Inr ()" and session: "login_session env now sx t p w = Inr resp"
    by (auto simp: login_body_def split: prod.splits sum.splits)
  have "same_tables (au_control s) c1"
    using t by (auto simp: login_tenant_def dest: lookup_frameD split: option.splits)
  then have users: "ct_users c1 = ct_users (au_control s)" by (simp add: same_tables_def)
  obtain u where u: "signs_in (ae_vault env) (tc_id t) (lp_email p) (lp_password p) c1 u" and wu: "w = tenant_user_of u"
    using validateUserByTenant_ok [OF w] by blast
  from session have resp: "lr_user resp = w \<and> issueSession (ae_codec env) (ae_jwt env) (now div 1000) sx
      (session_for w (tc_id t) (effectivePermissions (tu_roles w) (tu_permissions w)) (policySnapshotForTenant env (tc_id t))
        (remember_ttl env t p)) = Inr (lr_tokens resp)"
    by (auto simp: login_session_def Let_def map_sum_result)
  from before have "assertFromConfig (ae_config env (tc_id t)) \<lparr>o_userId = None, o_email = Some (lp_email p), o_ip = None\<rparr> = Inr () \<and>
      feature env (tc_id t) ''auth.login''"
    by (auto simp: gate_before_def allowed_by_control_def assertTenantAllowed_def policySnapshotMatches_def assertEnabled_def
        split: sum.splits if_splits)
  moreover from after have "(truthy (lp_schoolSlug p) \<or> ''*'' \<in> set (us_permissions u) \<or> ''director'' \<in> set (us_roles u)) \<and>
      assertFromConfig (ae_config env (tc_id t)) \<lparr>o_userId = Some (us_id u), o_email = Some (us_email u), o_ip = None\<rparr> = Inr ()"
    by (auto simp: gate_after_def allowed_by_control_def assertTenantAllowed_def policySnapshotMatches_def wu tenant_user_of_def
        split: if_splits)
  moreover have "signs_in (ae_vault env) (tc_id t) (lp_email p) (lp_password p) (au_control s) u"
    using u by (simp add: signs_in_def user_where_def users)
  moreover have "tu_roles w = us_roles u" "tu_permissions w = us_permissions u" by (simp_all add: wu tenant_user_of_def)
  ultimately show ?thesis using resp by (intro exI [of _ t] exI [of _ u]) (simp add: wu)
qed

definition sample_login :: login_payload where
  "sample_login = \<lparr>lp_schoolSlug = Some ''hill-school'', lp_sbo = None, lp_email = ''Ada@hill.ng'', lp_password = ''old secret'', lp_rememberMe = True\<rparr>"

lemma sample_signs_in: "is_ok (fst (login sample_auth 100000 demo_ids sample_login sample_auth_state))"
  by code_simp

theorem login_sound_witness:
  "\<exists>k u. signs_in sample_vault k ''Ada@hill.ng'' ''old secret'' (au_control sample_auth_state) u"
proof -
  obtain r s' where r: "login sample_auth 100000 demo_ids sample_login sample_auth_state = (Inr r, s')"
    using sample_signs_in by (auto elim: is_ok_E simp: prod_eq_iff)
  from login_sound [OF r] obtain t :: tenant_config and u where "signs_in (ae_vault sample_auth) (tc_id t) (lp_email sample_login) (lp_password sample_login)
      (au_control sample_auth_state) u" by auto
  then show ?thesis by (auto simp: sample_auth_def sample_login_def)
qed

lemma login_error_cases: "(\<exists>m. login_error e = Forbidden m) \<or> login_error e = Unauthorized ''Invalid credentials''"
  by (cases e) (simp_all add: login_error_def)

text \<open>whatever goes wrong in a sign-in, the caller sees a refusal by the control plane or the one message for bad
  credentials: no answer tells an unknown address from a wrong password.\<close>

theorem login_error_uniform:
  "case fst (login env now sx p s) of Inr _ \<Rightarrow> True | Inl e \<Rightarrow> (\<exists>m. e = Forbidden m) \<or> e = Unauthorized ''Invalid credentials''"
  using login_error_cases by (auto simp: login_def map_sum_result split: prod.splits sum.splits)

subsection \<open>One school for an address\<close>

definition regs :: "auth_state \<Rightarrow> registration list" where
  "regs s = ct_registrations (au_control s)"

fun drawn_ids :: "auth_request \<Rightarrow> string list" where
  "drawn_ids (Register env now refusal fresh code i) = [fresh]"
| "drawn_ids q = []"

text \<open>No identifier drawn in a run is one already in the table.\<close>

primrec fresh_run :: "auth_request list \<Rightarrow> auth_state \<Rightarrow> bool" where
  "fresh_run [] s = True"
| "fresh_run (q # qs) s =
     (list_all (\<lambda>k. \<not> List.member (map rg_id (regs s)) k) (drawn_ids q) \<and> fresh_run qs (snd (auth_step q s)))"

definition opened_for :: "string \<Rightarrow> auth_answer \<Rightarrow> bool" where
  "opened_for e a = (case a of AVerify (Inr t) \<Rightarrow> map_option op_email (tc_owner t) = Some e | _ \<Rightarrow> False)"

lemma same_tables_regs: "same_tables c c' \<Longrightarrow> ct_registrations c' = ct_registrations c"
  by (simp add: same_tables_def)

lemma register_regs: "regs_change [fresh] (regs s) (regs (snd (registerStep1 env now refusal fresh code i s)))"
proof (cases "registration_gate env refusal")
  case (Inr u)
  obtain r c where c: "createTenantWithOwnerStaging (ae_vault env) now fresh code None [] i (au_control s) = (r, c)" by fastforce
  have "regs (snd (registerStep1 env now refusal fresh code i s)) = ct_registrations c"
    by (auto simp: registerStep1_def registerStep1_body_def Inr c Let_def regs_def send_mail_def split: sum.splits prod.splits)
  with staging_regs [of fresh "au_control s" "ae_vault env" now code None "[]" i] c show ?thesis by (simp add: regs_def)
qed (simp add: registerStep1_def registerStep1_body_def regs_change.keep)

lemma verifyEmail_control: "au_control (snd (verifyEmail env now ids ca code s)) = snd (verifyOwnerEmail (ae_vault env) now ids code (au_control s))"
  by (simp add: verifyEmail_def split: sum.splits prod.splits)

lemma resend_control: "au_control (snd (resendVerificationEmail env now code email s)) =
    snd (refreshOwnerVerificationToken (ae_vault env) now code email (au_control s))"
  by (simp add: resendVerificationEmail_def send_mail_def split: sum.splits prod.splits option.splits)

lemma step2_regs: "regs (snd (registerStep2 env now sx userId mapId sbo email password s)) = regs s"
proof -
  have owner: "ct_registrations c' = ct_registrations c" if "createPrimaryOwnerUser v now userId mapId sbo email c = (r, c')" for v r c c'
    by (metis owner_regs that snd_conv)
  have "ct_registrations (snd (step2_user env now userId mapId sbo email password c)) = ct_registrations c" for c
    by (auto simp: step2_user_def same_tables_def dest!: lookup_frameD owner split: prod.splits sum.splits)
  then have "ct_registrations c' = ct_registrations c" if "step2_user env now userId mapId sbo email password c = (r, c')" for r c c'
    by (metis that snd_conv)
  then show ?thesis by (auto simp: registerStep2_def regs_def split: prod.splits sum.splits)
qed

lemma onboarding_regs: "ct_registrations (finishVerifiedTenantOnboarding env now outcome userId mapId job c) = ct_registrations c"
proof -
  have "ct_registrations c' = ct_registrations c" if "provisionVerifiedTenant now outcome t c = (r, c')" for t r c'
    by (metis provision_regs that snd_conv)
  then show ?thesis by (auto simp: finishVerifiedTenantOnboarding_def split: prod.splits sum.splits)
qed

lemma request_regs: "regs (snd (requestPasswordReset env now token email slug s)) = regs s"
proof -
  have "ct_registrations c' = ct_registrations c" if "createPasswordResetToken v now token email slug c = (r, c')" for v c r c'
    by (metis reset_regs(1) that snd_conv)
  then show ?thesis
    by (auto simp: requestPasswordReset_def regs_def send_mail_def Let_def split: prod.splits sum.splits option.splits)
qed

lemma confirm_regs: "regs (snd (confirmPasswordReset env now salt token password s)) = regs s"
  by (simp add: confirmPasswordReset_def with_control_def regs_def split: sum.splits)

lemma step_regs: "regs_change (drawn_ids q) (regs s) (regs (snd (auth_step q s)))"
proof (cases q)
  case (Register env now refusal fresh code i)
  then show ?thesis by (simp add: register_regs)
next
  case (Verify env now ids ca code)
  then show ?thesis by (simp add: regs_def verifyEmail_control verify_regs)
next
  case (Resend env now code email)
  then show ?thesis by (simp add: regs_def resend_control refresh_regs)
next
  case (Onboard env now outcome userId mapId)
  then show ?thesis by (cases "au_jobs s") (simp_all add: regs_def onboarding_regs regs_change.keep)
next
  case (SignIn env now sx p)
  then show ?thesis
    using same_tables_regs [OF login_body_tables [of "au_control s" env now sx p]]
    by (auto simp: login_def regs_def regs_change.keep split: prod.splits)
qed (simp_all add: step2_regs request_regs confirm_regs regs_change.keep)

lemma opened_consumes:
  assumes "opened_for e (fst (auth_step q s))" and "regs_ok (regs s)"
  shows "\<not> address_used e (regs s) \<and> address_used e (regs (snd (auth_step q s)))"
proof -
  from assms(1) obtain env now ids ca code where q: "q = Verify env now ids ca code"
    by (cases q) (auto simp: opened_for_def split: list.splits)
  obtain t c where t: "verifyOwnerEmail (ae_vault env) now ids code (au_control s) = (Inr t, c)"
    and e: "map_option op_email (tc_owner t) = Some e"
    using assms(1) by (auto simp: q opened_for_def verifyEmail_def http_or_def split: sum.splits prod.splits http_error.splits)
  obtain r where r: "r \<in> set (regs s)" "rg_consumedAt r = None" "tc_owner t = Some (owner_of r)"
    and c: "ct_registrations c = upsert rg_id (r\<lparr>rg_consumedAt := Some now\<rparr>) (regs s)"
    by (rule verify_consumes [OF t]) (auto simp: regs_def)
  have "rg_email r = e" using e r(3) by (simp add: owner_of_def)
  moreover have "regs (snd (auth_step q s)) = ct_registrations c" by (simp add: q regs_def verifyEmail_control t)
  moreover have "r\<lparr>rg_consumedAt := Some now\<rparr> \<in> set (ct_registrations c)"
  proof -
    have "tfind rg_id (rg_id r) (ct_registrations c) = Some (r\<lparr>rg_consumedAt := Some now\<rparr>)"
      by (simp add: c tfind_upsert)
    from tfind_SomeD [OF this] show ?thesis by simp
  qed
  then have "address_used (rg_email r) (ct_registrations c)"
    unfolding address_used_def by (rule bexI [rotated]) simp
  moreover have "\<not> address_used (rg_email r) (regs s)"
    using assms(2) r(1,2) by (auto simp: regs_ok_def address_used_def)
  ultimately show ?thesis by simp
qed

lemma opened_at_most_once:
  "regs_ok (regs s) \<Longrightarrow> fresh_run qs s \<Longrightarrow>
     length (filter (opened_for e) (answers auth_step qs s)) + (if address_used e (regs s) then 1 else 0) \<le> 1"
proof (induction qs arbitrary: s)
  case (Cons q qs)
  let ?s = "snd (auth_step q s)"
  have "set (drawn_ids q) \<inter> rg_id ` set (regs s) = {}"
    using Cons.prems(2) by (auto simp: list_all_iff)
  from regs_change_ok [OF step_regs Cons.prems(1) this]
  have ok: "regs_ok (regs ?s)" and stays: "address_used e (regs s) \<longrightarrow> address_used e (regs ?s)" by auto
  have "length (filter (opened_for e) (answers auth_step qs ?s)) + (if address_used e (regs ?s) then 1 else 0) \<le> 1"
    using Cons.IH [OF ok] Cons.prems(2) by simp
  then show ?case
    using stays opened_consumes [of e q s] Cons.prems(1) by (cases "opened_for e (fst (auth_step q s))") (auto split: if_splits)
qed simp

text \<open>C23: an e-mail address opens at most one school: however often it registers, asks for a new code and sends
  codes, at most one verification for it succeeds.\<close>

theorem one_school_per_address:
  assumes "regs_ok (regs s)" and "fresh_run qs s"
  shows "length (filter (opened_for e) (answers auth_step qs s)) \<le> 1"
  using opened_at_most_once [OF assms, of e] by (simp split: if_splits)

definition sample_owner :: owner_input where
  "sample_owner = \<lparr>oi_fullName = ''Ada Obi'', oi_email = ''Ada@hill.ng '', oi_password = Some ''old secret'', oi_phone = None, oi_installToken = None,
     oi_deviceHash = None\<rparr>"

definition sample_ids :: "string \<Rightarrow> tenant_ids" where
  "sample_ids k = \<lparr>ti_tenant = k, ti_sbo = ''SBO-'' @ k, ti_salt = ''ab'', ti_dbUrl = id\<rparr>"

definition accepted :: control_answers where
  "accepted = \<lparr>ca_register = None, ca_activate = None\<rparr>"

definition sample_requests :: "auth_request list" where
  "sample_requests = [Register sample_auth 1000 (Inr None) ''reg_1'' ''123456'' sample_owner,
     Verify sample_auth 2000 (sample_ids ''t2'') accepted ''123456'', Verify sample_auth 3000 (sample_ids ''t3'') accepted ''123456'',
     Register sample_auth 4000 (Inr None) ''reg_2'' ''654321'' sample_owner]"

lemma sample_opened: "map (opened_for ''ada@hill.ng'') (answers auth_step sample_requests sample_auth_state) = [False, True, False, False]"
  by code_simp

theorem one_school_per_address_witness:
  "length (filter (opened_for ''ada@hill.ng'') (answers auth_step sample_requests sample_auth_state)) \<le> 1"
proof (rule one_school_per_address)
  show "regs_ok (regs sample_auth_state)" by (simp add: regs_ok_def regs_def sample_auth_state_def)
  show "fresh_run sample_requests sample_auth_state" by code_simp
qed

end
