(* ===== verification/Onboarding.thy ===== *)
theory Onboarding
  imports Login
begin

section \<open>From a registration to the first sign-in\<close>

text \<open>
  The registration of a school runs through four requests and a background job: \<open>registerStep1\<close> mails a code,
  \<open>verifyEmail\<close> makes the tenant, the job provisions it and creates the owner, and the owner signs in.  This theory
  shows that the parts fit: an address that is new to the platform, whose code comes back in time and whose
  provisioning works, ends with an owner who can sign in.
\<close>

text \<open>What the platform needs of the environment: encryption is undone by decryption, the password derivation obeys
  its laws, the secret of the tokens is configured, and no gate is closed.\<close>

definition env_works :: "auth_env \<Rightarrow> bool" where
  "env_works env \<longleftrightarrow> (\<forall>x. vl_decrypt (ae_vault env) (vl_encrypt (ae_vault env) x) = x) \<and>
     (\<forall>x. vl_encrypt (ae_vault env) x \<noteq> []) \<and> kdf_ok (vl_kdf (ae_vault env)) \<and>
     assertJwtSecret (ae_jwt env) = Inr () \<and> ae_mailWorks env"

text \<open>The address, the code and the identifiers drawn are new.\<close>

definition new_school :: "auth_env \<Rightarrow> string \<Rightarrow> string \<Rightarrow> string \<Rightarrow> tenant_ids \<Rightarrow> string \<Rightarrow> control \<Rightarrow> bool" where
  "new_school env e k code ids slug c \<longleftrightarrow>
     (\<forall>x\<in>set (ct_registrations c). rg_email x \<noteq> e \<and> rg_id x \<noteq> k \<and> rg_tokenHash x \<noteq> vl_sha256 (ae_vault env) code) \<and>
     (\<forall>x\<in>set (ct_tenants c). tc_id x \<noteq> ti_tenant ids \<and> tc_slug x \<noteq> slug \<and> tc_sbo x \<noteq> ti_sbo ids) \<and>
     (\<forall>m\<in>set (ct_mappings c). mp_tenant m \<noteq> ti_tenant ids) \<and> (\<forall>u\<in>set (ct_users c). us_tenant u \<noteq> ti_tenant ids)"

definition the_registration :: "auth_env \<Rightarrow> int \<Rightarrow> string \<Rightarrow> string \<Rightarrow> owner_input \<Rightarrow> registration" where
  "the_registration env now k code i = staged (ae_vault env) now code i None [] (new_registration now k)"

lemma find_append: "find P (xs @ ys) = (case find P xs of Some x \<Rightarrow> Some x | None \<Rightarrow> find P ys)"
  by (induction xs) auto

lemma find_noneI: "\<forall>x\<in>set xs. \<not> P x \<Longrightarrow> find P xs = None"
  by (simp add: find_None_iff)

lemma register_new:
  assumes "registration_gate env refusal = Inr ()" and "ae_mailWorks env"
    and "new_school env (trim (toLowerCase (oi_email i))) k code ids slug (au_control s)"
  shows "registerStep1 env now refusal k code i s =
    (Inr \<lparr>s1_message = code_message, s1_code = (if ae_production env then None else Some code)\<rparr>,
     s\<lparr>au_control := (au_control s)\<lparr>ct_registrations := ct_registrations (au_control s) @ [the_registration env now k code i]\<rparr>,
       au_mails := au_mails s @ [(oi_email i, code)]\<rparr>)"
proof -
  let ?r = "the_registration env now k code i"
  have none: "registrations_of (trim (toLowerCase (oi_email i))) (au_control s) = []"
    using assms(3) by (auto simp: registrations_of_Nil new_school_def)
  have id: "rg_id ?r = k" "rg_tokenHash ?r = vl_sha256 (ae_vault env) code"
    by (simp_all add: the_registration_def staged_def new_registration_def)
  have "save_registration ?r (au_control s) = Some ((au_control s)\<lparr>ct_registrations := ct_registrations (au_control s) @ [?r]\<rparr>)"
    using assms(3) by (auto simp: save_registration_def upsert_def id new_school_def list_ex_iff)
  then show ?thesis
    using assms(1,2) none id(1) by (simp add: registerStep1_def registerStep1_body_def createTenantWithOwnerStaging_def Let_def
        http_or_def send_mail_def the_registration_def)
qed

text \<open>The tenant made of it, and the tables once its code has come back.\<close>

definition the_tenant :: "auth_env \<Rightarrow> int \<Rightarrow> tenant_ids \<Rightarrow> registration \<Rightarrow> tenant_config" where
  "the_tenant env now ids r = tenant_of (ae_vault env) now ids r
     (the (hashPassword (vl_kdf (ae_vault env)) (ti_salt ids) (vl_decrypt (ae_vault env) (rg_password r))))"

definition stored :: "auth_env \<Rightarrow> tenant_config \<Rightarrow> tenant_config" where
  "stored env t = t\<lparr>tc_dbUri := vl_encrypt (ae_vault env) (tc_dbUri t)\<rparr>"

lemma stored_simps [simp]:
  "tc_id (stored env t) = tc_id t" "tc_slug (stored env t) = tc_slug t" "tc_sbo (stored env t) = tc_sbo t"
  "tc_status (stored env t) = tc_status t" "tc_provisioning (stored env t) = tc_provisioning t"
  by (simp_all add: stored_def)

lemma the_tenant_simps [simp]:
  "tc_id (the_tenant env now ids r) = ti_tenant ids" "tc_sbo (the_tenant env now ids r) = ti_sbo ids"
  "tc_slug (the_tenant env now ids r) = ensureUniqueSlug (generateSlugFromName (rg_organizationName r))"
  "tc_owner (the_tenant env now ids r) = Some (owner_of r)" "tc_emailVerified (the_tenant env now ids r)"
  by (simp_all add: the_tenant_def tenant_of_def Let_def)

lemma verify_new:
  assumes works: "env_works env" and salt: "CHR ''$'' \<notin> set (ti_salt ids)" and announced: "announce env ca = Inr ()"
    and r: "rg_tokenHash r = vl_sha256 (ae_vault env) code" "rg_consumedAt r = None" "now \<le> rg_expiresAt r" "rg_password r \<noteq> []"
    and table: "ct_registrations (au_control s) = rs @ [r]" "\<forall>x\<in>set rs. rg_tokenHash x \<noteq> vl_sha256 (ae_vault env) code \<and> rg_id x \<noteq> rg_id r"
    and fresh: "\<forall>x\<in>set (ct_tenants (au_control s)). tc_id x \<noteq> ti_tenant ids \<and>
      tc_slug x \<noteq> ensureUniqueSlug (generateSlugFromName (rg_organizationName r)) \<and> tc_sbo x \<noteq> ti_sbo ids"
  shows "\<exists>rs'. verifyEmail env now ids ca code s =
    (Inr (the_tenant env now ids r),
     s\<lparr>au_control := cached now (the_tenant env now ids r) ((au_control s)\<lparr>ct_registrations := rs',
         ct_tenants := ct_tenants (au_control s) @ [stored env (the_tenant env now ids r)]\<rparr>),
       au_jobs := au_jobs s @ [(the_tenant env now ids r, toLowerCase (rg_email r))]\<rparr>)"
proof -
  let ?v = "ae_vault env" and ?c = "au_control s" and ?t = "the_tenant env now ids r"
  obtain hash where hash: "hashPassword (vl_kdf ?v) (ti_salt ids) (vl_decrypt ?v (rg_password r)) = Some hash"
    using works salt verify_hash [of "vl_kdf ?v" "ti_salt ids"] unfolding env_works_def by metis
  then have t: "tenant_of ?v now ids r hash = ?t" by (simp add: the_tenant_def)
  have found: "find (\<lambda>r. rg_tokenHash r = vl_sha256 ?v code) (ct_registrations ?c) = Some r"
    using table r(1) by (simp add: find_append find_noneI)
  have saved: "save_tenant (stored env ?t) ?c = Some (?c\<lparr>ct_tenants := ct_tenants ?c @ [stored env ?t]\<rparr>)"
    using fresh by (auto simp: save_tenant_def upsert_def list_ex_iff)
  have "\<not> list_ex (\<lambda>x. rg_id x \<noteq> rg_id r \<and> rg_tokenHash x = rg_tokenHash r) (ct_registrations ?c)"
    using table r(1) by (auto simp: list_ex_iff)
  then have "verifyOwnerEmail ?v now ids code ?c = (Inr ?t, cached now ?t (?c\<lparr>ct_tenants := ct_tenants ?c @ [stored env ?t],
      ct_registrations := upsert rg_id (r\<lparr>rg_consumedAt := Some now\<rparr>) (ct_registrations ?c)\<rparr>))"
    using r saved by (simp add: verifyOwnerEmail_def found hash t Let_def save_registration_def stored_def)
  then have "verifyEmail env now ids ca code s = (Inr ?t,
     s\<lparr>au_control := cached now ?t (?c\<lparr>ct_registrations := upsert rg_id (r\<lparr>rg_consumedAt := Some now\<rparr>) (ct_registrations ?c),
         ct_tenants := ct_tenants ?c @ [stored env ?t]\<rparr>),
       au_jobs := au_jobs s @ [(?t, toLowerCase (rg_email r))]\<rparr>)"
    using announced by (simp add: verifyEmail_def owner_of_def)
  then show ?thesis by blast
qed

text \<open>The job: the tenant is active and ready, in the table and in the cache, and has its owner.\<close>

definition owner_mapping :: "int \<Rightarrow> string \<Rightarrow> string \<Rightarrow> string \<Rightarrow> string \<Rightarrow> mapping_row" where
  "owner_mapping now mapId userId k e = \<lparr>mp_id = mapId, mp_user = userId, mp_tenant = k, mp_email = e, mp_primary = True,
     mp_active = True, mp_createdAt = now\<rparr>"

definition knows_ready :: "string \<Rightarrow> control \<Rightarrow> bool" where
  "knows_ready k c \<longleftrightarrow> (\<exists>t expires. mget k (tk_byId (ct_cache c)) = Some (t, expires) \<and> ready t \<and> tc_id t = k) \<and>
     (\<exists>row. tfind tc_id k (ct_tenants c) = Some row \<and> ready row)"

lemma knows_ready_lookup:
  assumes "knows_ready k c"
  obtains t c' where "getTenantById v now k c = (Some t, c')" and "ready t" and "tc_id t = k" and "knows_ready k c'"
    and "same_tables c c'"
proof -
  obtain t expires row where t: "mget k (tk_byId (ct_cache c)) = Some (t, expires)" "ready t" "tc_id t = k"
    and row: "tfind tc_id k (ct_tenants c) = Some row" "ready row"
    using assms by (auto simp: knows_ready_def)
  have id: "tc_id row = k" using tfind_SomeD [OF row(1)] by simp
  have rd: "ready (mapTenantRow v row)" using row(2) by (simp add: ready_def)
  show ?thesis
  proof (cases "expires \<le> now")
    case True
    then have "getTenantById v now k c = (Some (mapTenantRow v row), cached now (mapTenantRow v row) c)"
      by (simp add: getTenantById_def getByTenantId_def getValid_def t row)
    then show ?thesis
      by (rule that) (use rd id row in \<open>auto simp: knows_ready_def cache_set_def Let_def\<close>)
  next
    case False
    then have "getTenantById v now k c = (Some t, c)"
      by (simp add: getTenantById_def getByTenantId_def getValid_def t)
    then show ?thesis by (rule that) (use t assms in simp_all)
  qed
qed

lemma onboard_new:
  assumes tenants: "ct_tenants c = ts @ [stored env t]" "\<forall>x\<in>set ts. tc_id x \<noteq> tc_id t"
    and owner: "tc_owner t = Some p" "tc_emailVerified t" "tc_stagedHash t = Some hash" "hash \<noteq> []"
    and none: "\<forall>m\<in>set (ct_mappings c). mp_tenant m \<noteq> tc_id t" "\<forall>u\<in>set (ct_users c). us_tenant u \<noteq> tc_id t"
    and e: "e = toLowerCase (op_email p)"
    and c'_def: "c' = finishVerifiedTenantOnboarding env now None userId mapId (t, e) c"
  shows "ct_users c' = ct_users c @ [owner_row t userId e hash] \<and>
    ct_mappings c' = upsert mp_id (owner_mapping now mapId userId (tc_id t) e) (deactivate_elsewhere e (tc_id t) (ct_mappings c)) \<and>
    knows_ready (tc_id t) c'"
proof -
  let ?go = "\<lambda>x. x\<lparr>tc_status := StActive, tc_provisioning := ProvReady, tc_provError := None, tc_updatedAt := now\<rparr>"
  let ?t1 = "?go t"
  let ?c1 = "cached now ?t1 (c\<lparr>ct_tenants := tmodify tc_id (tc_id t) ?go (ct_tenants c)\<rparr>)"
  have hit: "resolveTenantBySboId (ae_vault env) now (tc_sbo ?t1) ?c1 = (Inr ?t1, cached now ?t1 ?c1)"
    by (simp add: resolveTenantBySboId_def getBySboId_def getValid_def cache_set_def Let_def cache_ttlMs_def)
  have check: "owner_check ?t1 e (cached now ?t1 ?c1) = Inr hash"
  proof -
    have "or_null (Some hash) = Some hash" using owner(4) by (simp add: or_null_Some_iff)
    then show ?thesis using owner e none by (auto simp: owner_check_def list_ex_iff)
  qed
  have row: "owner_row ?t1 userId e hash = owner_row t userId e hash" by (simp add: owner_row_def)
  have em: "us_email (owner_row t userId e hash) = e" "us_tenant (owner_row t userId e hash) = tc_id t"
    by (simp_all add: owner_row_def e)
  have ins: "insert_user (owner_row t userId e hash) st = Some (st\<lparr>ct_users := ct_users st @ [owner_row t userId e hash]\<rparr>)"
    if "ct_users st = ct_users c" for st
    using none(2) by (auto simp: insert_user_def list_ex_iff that em)
  have c': "c' = cached now (clear_staged now ?t1) ((cached now ?t1 ?c1)\<lparr>
      ct_mappings := upsert mp_id (owner_mapping now mapId userId (tc_id t) e) (deactivate_elsewhere e (tc_id t) (ct_mappings c)),
      ct_users := ct_users c @ [owner_row t userId e hash],
      ct_tenants := tmodify tc_id (tc_id t) (clear_staged now) (tmodify tc_id (tc_id t) ?go (ct_tenants c))\<rparr>)"
    unfolding c'_def finishVerifiedTenantOnboarding_def provisionVerifiedTenant_def createPrimaryOwnerUser_def
    using hit check by (simp add: Let_def row em ins owner_mapping_def)
  have "tfind tc_id (tc_id t) (ct_tenants c) = Some (stored env t)"
  proof -
    have "tfind tc_id (tc_id t) ts = None" using tenants(2) by (auto simp: tfind_None_iff)
    then show ?thesis by (simp add: tenants(1) tfind_append)
  qed
  then have "tfind tc_id (tc_id t) (ct_tenants c') = Some (clear_staged now (?go (stored env t)))"
    by (simp add: c' tfind_tmodify clear_staged_def)
  then have "knows_ready (tc_id t) c'"
    by (auto simp: knows_ready_def c' cache_set_def Let_def ready_def clear_staged_def)
  then show ?thesis by (simp add: c')
qed

subsection \<open>The first sign-in\<close>

lemma first_ready_known:
  assumes "knows_ready k c" and "ms \<noteq> []" and "\<forall>m\<in>set ms. mp_tenant m = k"
  obtains t c' where "first_ready v now ms c = (Inr t, c')" and "tc_id t = k" and "knows_ready k c'" and "same_tables c c'"
proof -
  obtain m rest where ms: "ms = m # rest" "mp_tenant m = k" using assms(2,3) by (cases ms) auto
  obtain t c' where t: "getTenantById v now k c = (Some t, c')" "ready t" "tc_id t = k" "knows_ready k c'" "same_tables c c'"
    using knows_ready_lookup [OF assms(1)] by metis
  then have "first_ready v now ms c = (Inr t, c')" by (simp add: ms)
  with t that show ?thesis by blast
qed

text \<open>The mappings of the address that count for a sign-in are those to the new tenant.\<close>

definition primary_mappings :: "string \<Rightarrow> mapping_row list \<Rightarrow> mapping_row list" where
  "primary_mappings e ms = by_newest mp_createdAt (filter (\<lambda>m. mp_email m = e \<and> mp_primary m \<and> mp_active m) ms)"

lemma owner_mappings:
  assumes ms'_def: "ms' = upsert mp_id (owner_mapping now mapId userId k e) (deactivate_elsewhere e k ms)"
  shows "primary_mappings e ms' \<noteq> [] \<and> (\<forall>m\<in>set (primary_mappings e ms'). mp_tenant m = k)"
proof -
  let ?m = "owner_mapping now mapId userId k e"
  have "tfind mp_id (mp_id ?m) ms' = Some ?m" by (simp add: ms'_def tfind_upsert)
  from tfind_SomeD [OF this] have "?m \<in> set ms'" by simp
  then have mem: "?m \<in> set (primary_mappings e ms')" by (simp add: primary_mappings_def owner_mapping_def)
  have tenant: "mp_tenant m = k" if "m \<in> set (primary_mappings e ms')" for m
  proof -
    have m: "m \<in> set ms'" "mp_email m = e" "mp_primary m" "mp_active m"
      using that by (simp_all add: primary_mappings_def)
    from m(1) show ?thesis unfolding ms'_def
    proof (cases rule: set_upsertE)
      case 1
      then show ?thesis by (simp add: owner_mapping_def)
    next
      case 2
      from 2(1) obtain x where "m = (if mp_email x = e \<and> mp_primary x \<and> mp_active x \<and> mp_tenant x \<noteq> k then x\<lparr>mp_active := False\<rparr> else x)"
        unfolding deactivate_elsewhere_def by (rule set_tupdateE)
      with m(2-4) show ?thesis by (auto split: if_splits)
    qed
  qed
  show ?thesis
  proof (intro conjI ballI)
    show "primary_mappings e ms' \<noteq> []" using mem by (cases "primary_mappings e ms'") simp_all
  qed (rule tenant)
qed

definition config_admits :: "auth_env \<Rightarrow> string \<Rightarrow> string \<Rightarrow> string \<Rightarrow> bool" where
  "config_admits env k userId e \<longleftrightarrow>
     allowed_by_control env k \<lparr>o_userId = None, o_email = Some e, o_ip = None\<rparr> = Inr () \<and>
     allowed_by_control env k \<lparr>o_userId = Some userId, o_email = Some e, o_ip = None\<rparr> = Inr () \<and>
     feature env k ''auth.login''"

definition owner_payload_of :: "string \<Rightarrow> string \<Rightarrow> login_payload" where
  "owner_payload_of e password = \<lparr>lp_schoolSlug = None, lp_sbo = None, lp_email = e, lp_password = password, lp_rememberMe = False\<rparr>"

lemma owner_signs_in:
  assumes known: "knows_ready k (au_control s)"
    and mapped: "primary_mappings e (ct_mappings (au_control s)) \<noteq> []"
      "\<forall>m\<in>set (primary_mappings e (ct_mappings (au_control s))). mp_tenant m = k"
    and user: "user_where k (\<lambda>u. us_email u = e) (au_control s) = Some u" "us_active u" "us_hash u \<noteq> []" "us_email u = e"
      "''*'' \<in> set (us_permissions u)"
    and password: "verifyPassword (vl_kdf (ae_vault env)) pw (us_hash u) = Some True"
    and admits: "config_admits env k (us_id u) e" and secret: "assertJwtSecret (ae_jwt env) = Inr ()"
    and e: "toLowerCase e = e"
  shows "\<exists>resp. fst (login env now sx (owner_payload_of e pw) s) = Inr resp \<and> lr_user resp = tenant_user_of u"
proof -
  let ?v = "ae_vault env" and ?c = "au_control s" and ?p = "owner_payload_of e pw"
  have "by_newest mp_createdAt (filter (\<lambda>m. mp_email m = toLowerCase e \<and> mp_primary m \<and> mp_active m) (ct_mappings ?c)) =
      primary_mappings e (ct_mappings ?c)" by (simp add: primary_mappings_def e)
  then obtain t c1 where t: "resolveTenantForUserEmail ?v now e None ?c = (Inr t, c1)" "tc_id t = k" "knows_ready k c1" "same_tables ?c c1"
    using first_ready_known [OF known mapped, of ?v now] mapped(1) by (auto simp: resolveTenantForUserEmail_def)
  obtain t2 c2 where t2: "getTenantById ?v now k c1 = (Some t2, c2)" "same_tables c1 c2"
    using knows_ready_lookup [OF t(3)] by metis
  have "user_where k (\<lambda>u. us_email u = toLowerCase e) c2 = Some u"
    using user(1) t(4) t2(2) by (simp add: user_where_def same_tables_def e)
  then have valid: "validateUserByTenant ?v now k e pw c1 = (Inr (tenant_user_of u), c2)"
    using user password by (simp add: validateUserByTenant_def t2 credentials_check_def)
  have before: "gate_before env t ?p = Inr ()"
    using admits by (simp add: gate_before_def config_admits_def t(2) owner_payload_of_def assertEnabled_def)
  have after: "gate_after env t ?p (tenant_user_of u) = Inr ()"
    using admits user by (simp add: gate_after_def config_admits_def t(2) owner_payload_of_def tenant_user_of_def)
  obtain resp where resp: "login_session env now sx t ?p (tenant_user_of u) = Inr resp" "lr_user resp = tenant_user_of u"
    using secret by (auto simp: login_session_def Let_def issueSession_def)
  have "login_body env now sx ?p ?c = (Inr resp, c2)"
    using t valid before after resp by (simp add: login_body_def login_tenant_def owner_payload_of_def)
  then show ?thesis using resp(2) by (simp add: login_def)
qed

subsection \<open>The whole way\<close>

definition onboarding :: "auth_env \<Rightarrow> int \<Rightarrow> int \<Rightarrow> int \<Rightarrow> int \<Rightarrow> session_ids \<Rightarrow> string \<Rightarrow> string \<Rightarrow> tenant_ids \<Rightarrow> string \<Rightarrow> string \<Rightarrow>
    control_answers \<Rightarrow> owner_input \<Rightarrow> string \<Rightarrow> auth_request list" where
  "onboarding env t0 t1 t2 t3 sx k code ids userId mapId ca i pw =
     [Register env t0 (Inr None) k code i, Verify env t1 ids ca code, Onboard env t2 None userId mapId,
      SignIn env t3 sx (owner_payload_of (trim (toLowerCase (oi_email i))) pw)]"

lemma toLowerCase_trim [simp]: "toLowerCase (trim (toLowerCase s)) = trim (toLowerCase s)"
proof -
  have "set (trim t) \<subseteq> set t" for t
    by (auto simp: trim_def dest!: set_dropWhileD)
  then have "\<forall>c\<in>set (trim (toLowerCase s)). to_lower_char c = c"
    by (fastforce simp: toLowerCase_def)
  then show ?thesis unfolding toLowerCase_def by (simp add: map_idI)
qed


lemma sample_env_works: "env_works sample_auth"
  by (simp add: env_works_def sample_auth_def sample_vault_def sample_kdf_ok demo_env_def assertJwtSecret_def insecureJwtSecrets_def
      jwtSecret_def or_else_def)

definition other_owner :: owner_input where
  "other_owner = \<lparr>oi_fullName = ''Ngozi Eze'', oi_email = '' Ngozi@lake.ng'', oi_password = Some ''pass word'', oi_phone = None,
     oi_installToken = None, oi_deviceHash = None\<rparr>"


subsection \<open>What the model showed\<close>

text \<open>When the control plane refuses a verified school, its code is already consumed and its job is not started: the
  address can neither register again nor ask for another code.\<close>

lemma refused_announcement_strands:
  assumes "announce env ca = Inl e" and "verifyOwnerEmail (ae_vault env) now ids code (au_control s) = (Inr t, c)"
    and "map_option op_email (tc_owner t) = Some a"
  shows "fst (verifyEmail env now ids ca code s) = http_or ''Unable to verify email'' (Inl e) \<and>
    au_jobs (snd (verifyEmail env now ids ca code s)) = au_jobs s \<and> address_used a (regs (snd (verifyEmail env now ids ca code s)))"
proof -
  obtain r where r: "tc_owner t = Some (owner_of r)"
    and c: "ct_registrations c = upsert rg_id (r\<lparr>rg_consumedAt := Some now\<rparr>) (ct_registrations (au_control s))"
    by (rule verify_consumes [OF assms(2)])
  have "tfind rg_id (rg_id r) (ct_registrations c) = Some (r\<lparr>rg_consumedAt := Some now\<rparr>)" by (simp add: c tfind_upsert)
  from tfind_SomeD [OF this] have "r\<lparr>rg_consumedAt := Some now\<rparr> \<in> set (ct_registrations c)" by simp
  moreover have "rg_email r = a" using assms(3) r by (simp add: owner_of_def)
  ultimately have "address_used a (ct_registrations c)" unfolding address_used_def by (intro bexI) simp_all
  with assms(1,2) show ?thesis by (simp add: verifyEmail_def regs_def)
qed

lemma used_address_refused:
  assumes "address_used (trim (toLowerCase (oi_email i))) (ct_registrations st)"
  shows "\<exists>m. createTenantWithOwnerStaging v now fresh code orgName levels i st = (Inl (Conflict m), st)"
proof -
  obtain r where "r \<in> set (ct_registrations st)" "rg_email r = trim (toLowerCase (oi_email i))" and used: "rg_consumedAt r \<noteq> None"
    using assms by (auto simp: address_used_def)
  then have "r \<in> set (registrations_of (trim (toLowerCase (oi_email i))) st)" by (simp add: registrations_of_mem)
  with used have "list_ex (\<lambda>r. rg_consumedAt r \<noteq> None) (registrations_of (trim (toLowerCase (oi_email i))) st)"
    unfolding list_ex_iff by blast
  then show ?thesis by (simp add: createTenantWithOwnerStaging_def Let_def)
qed

text \<open>The slug of a school is made of its owner's name and never made unique: the second owner of a name cannot be
  verified.\<close>

lemma namesake_cannot_verify:
  assumes "find (\<lambda>r. rg_tokenHash r = vl_sha256 v code) (ct_registrations st) = Some r" and "rg_consumedAt r = None"
    and "now \<le> rg_expiresAt r" and "rg_password r \<noteq> []"
    and "x \<in> set (ct_tenants st)" and "tc_slug x = ensureUniqueSlug (generateSlugFromName (rg_organizationName r))"
    and "tc_id x \<noteq> ti_tenant ids"
  shows "verifyOwnerEmail v now ids code st = (Inl DbError, st)"
proof -
  have clash: "save_tenant t st = None" if "tc_id t = ti_tenant ids" "tc_slug t = tc_slug x" for t
    using assms(5,7) that by (auto simp: save_tenant_def list_ex_iff)
  show ?thesis
  proof (cases "hashPassword (vl_kdf v) (ti_salt ids) (vl_decrypt v (rg_password r))")
    case (Some hash)
    let ?t = "tenant_of v now ids r hash"
    have "save_tenant (?t\<lparr>tc_dbUri := vl_encrypt v (tc_dbUri ?t)\<rparr>) st = None"
      by (rule clash) (simp_all add: tenant_of_def Let_def assms(6))
    with assms(1-4) Some show ?thesis by (simp add: verifyOwnerEmail_def Let_def)
  qed (use assms(1-4) in \<open>simp add: verifyOwnerEmail_def\<close>)
qed

text \<open>As long as active tenants are ready, which is what \<open>provisionVerifiedTenant\<close> makes them, no tenant that
  \<open>registerStep2\<close> resolves takes the branch that creates the owner.\<close>

lemma resolved_tenants_ready:
  assumes "\<forall>t\<in>set (ct_tenants st). tc_status t = StActive \<longrightarrow> tc_provisioning t = ProvReady"
    and "\<forall>e\<in>set (tk_bySbo (ct_cache st)). tc_status (fst (snd e)) = StActive \<longrightarrow> tc_provisioning (fst (snd e)) = ProvReady"
    and "resolveTenantBySboId v now sbo st = (Inr t, st')"
  shows "tc_provisioning t = ProvReady"
proof (cases "getBySboId now sbo (ct_cache st)")
  case (Some x)
  then obtain expires where "mget sbo (tk_bySbo (ct_cache st)) = Some (x, expires)"
    by (auto simp: getBySboId_def getValid_def split: option.splits if_splits)
  then have "(sbo, x, expires) \<in> set (tk_bySbo (ct_cache st))" by (auto simp: mget_def dest: map_of_SomeD)
  with Some assms(2,3) show ?thesis by (force simp: resolveTenantBySboId_def split: if_splits)
next
  case None
  with assms(1,3) show ?thesis
    by (auto simp: resolveTenantBySboId_def split: option.splits if_splits dest!: tfind_SomeD)
qed

end
