(* ===== verification/SchoolSession.thy ===== *)
theory SchoolSession
  imports Complex_Main Enforcement
begin

section \<open>The school day\<close>

text \<open>
  \<open>common/utils/school-session.util.ts\<close>: the attendance settings of a school, the verification window, the end of
  the session and the roles that must verify each day.  \<open>localParts\<close> (\<open>Intl\<close> in the school's time zone) is the
  record \<open>school_now\<close>: the date, the weekday with Sunday 0, and the minute of the day.
\<close>

record school_now =
  sn_date :: string
  sn_weekday :: int
  sn_minute :: int

record location =
  lo_id :: string
  lo_name :: string
  lo_latitude :: rat
  lo_longitude :: rat
  lo_radius :: rat

record attendance_config =
  ac_requireLocation :: bool
  ac_locations :: "location list"
  ac_sessionStart :: "string option"
  ac_sessionEnd :: "string option"
  ac_windowStart :: "string option"
  ac_windowEnd :: "string option"
  ac_businessDays :: "int list option"
  ac_manualCode :: "string option"
  ac_manualCodeAt :: "int option"
  ac_requiredRoles :: "string list option"
  ac_lastFinalize :: "string option"

text \<open>\<open>/^(\d{1,2}):(\d{2})(?::\d{2})?$/\<close> on the trimmed text, with hours to 23 and minutes to 59.\<close>

definition digits_of_length :: "nat list \<Rightarrow> string \<Rightarrow> int option" where
  "digits_of_length lens s = (if List.member lens (length s) then digits_val 0 s else None)"

definition clock_minutes :: "string \<Rightarrow> string \<Rightarrow> int option" where
  "clock_minutes h m = (case (digits_of_length [1, 2] h, digits_of_length [2] m) of
      (Some hours, Some minutes) \<Rightarrow> if 23 < hours \<or> 59 < minutes then None else Some (hours * 60 + minutes)
    | _ \<Rightarrow> None)"

definition parseTimeToMinutes :: "string option \<Rightarrow> int option" where
  "parseTimeToMinutes value = (case or_null value of
      None \<Rightarrow> None
    | Some s \<Rightarrow> (case split_on CHR '':'' (trim s) of
          [h, m] \<Rightarrow> clock_minutes h m
        | [h, m, sec] \<Rightarrow> if digits_of_length [2] sec = None then None else clock_minutes h m
        | _ \<Rightarrow> None))"

record session_times =
  st_sessionStart :: string
  st_sessionEnd :: string
  st_windowStart :: string
  st_windowEnd :: string
  st_businessDays :: "int list"

definition resolveSessionConfig :: "attendance_config \<Rightarrow> session_times" where
  "resolveSessionConfig c =
     \<lparr>st_sessionStart = or_else (ac_sessionStart c) ''08:00'', st_sessionEnd = or_else (ac_sessionEnd c) ''16:00'',
      st_windowStart = or_else (ac_windowStart c) (or_else (ac_sessionStart c) ''08:00''),
      st_windowEnd = or_else (ac_windowEnd c) (or_else (ac_sessionEnd c) ''16:00''),
      st_businessDays = (case ac_businessDays c of Some (d # ds) \<Rightarrow> d # ds | _ \<Rightarrow> [1, 2, 3, 4, 5])\<rparr>"

definition isBusinessDay :: "attendance_config \<Rightarrow> int \<Rightarrow> bool" where
  "isBusinessDay c weekday = List.member (st_businessDays (resolveSessionConfig c)) weekday"

definition within_window :: "string \<Rightarrow> string \<Rightarrow> int \<Rightarrow> bool" where
  "within_window opens closes minute = (case (parseTimeToMinutes (Some opens), parseTimeToMinutes (Some closes)) of
      (Some a, Some b) \<Rightarrow> a \<le> minute \<and> minute \<le> b
    | _ \<Rightarrow> True)"

definition isVerificationWindowOpen :: "attendance_config \<Rightarrow> school_now \<Rightarrow> bool" where
  "isVerificationWindowOpen c now =
     (isBusinessDay c (sn_weekday now) \<and>
      within_window (st_windowStart (resolveSessionConfig c)) (st_windowEnd (resolveSessionConfig c)) (sn_minute now))"

definition isSessionEnded :: "attendance_config \<Rightarrow> school_now \<Rightarrow> bool" where
  "isSessionEnded c now =
     (if \<not> isBusinessDay c (sn_weekday now) then False
      else (case parseTimeToMinutes (Some (st_sessionEnd (resolveSessionConfig c))) of
          None \<Rightarrow> False
        | Some e \<Rightarrow> e < sn_minute now))"

definition hasVerificationWindowConfigured :: "attendance_config \<Rightarrow> bool" where
  "hasVerificationWindowConfigured c =
     (truthy (ac_windowStart c) \<and> truthy (ac_windowEnd c) \<or> truthy (ac_sessionStart c) \<and> truthy (ac_sessionEnd c))"

definition DEFAULT_VERIFICATION_REQUIRED_ROLES :: "string list" where
  "DEFAULT_VERIFICATION_REQUIRED_ROLES = [''class_teacher'', ''subject_teacher'']"

definition resolveVerificationRequiredRoles :: "attendance_config \<Rightarrow> string list" where
  "resolveVerificationRequiredRoles c = (case ac_requiredRoles c of
      Some (r # rs) \<Rightarrow> filter (\<lambda>x. x \<noteq> []) (map role_slug (r # rs))
    | _ \<Rightarrow> DEFAULT_VERIFICATION_REQUIRED_ROLES)"

definition userRequiresDailyVerification :: "string list \<Rightarrow> attendance_config \<Rightarrow> bool" where
  "userRequiresDailyVerification roles c =
     (if \<not> hasVerificationWindowConfigured c then False
      else if list_ex (\<lambda>r. role_slug r = ''director'') roles then False
      else list_ex (\<lambda>r. List.member (resolveVerificationRequiredRoles c) (role_slug r)) roles)"

subsection \<open>Facts\<close>

lemma digits_val_bounds:
  assumes "digits_val acc s = Some n" and "0 \<le> acc"
  shows "acc * 10 ^ length s \<le> n \<and> n < (acc + 1) * 10 ^ length s"
  using assms
proof (induction s arbitrary: acc)
  case (Cons c s)
  then obtain d where d: "digit_val c = Some d" "digits_val (10 * acc + d) s = Some n" by (auto split: option.splits)
  then have "0 \<le> d" "d \<le> 9" by (auto simp: digit_val_def Let_def split: if_splits)
  with Cons.IH [OF d(2)] Cons.prems(2)
  have ih: "(10 * acc + d) * 10 ^ length s \<le> n" "n < (10 * acc + d + 1) * 10 ^ length s" by simp_all
  have "acc * 10 ^ length (c # s) \<le> (10 * acc + d) * 10 ^ length s"
    using \<open>0 \<le> d\<close> by (simp add: algebra_simps)
  moreover have "(10 * acc + d + 1) * 10 ^ length s \<le> (acc + 1) * 10 ^ length (c # s)"
  proof -
    have "10 * acc + d + 1 \<le> 10 * (acc + 1)" using \<open>d \<le> 9\<close> by simp
    then have "(10 * acc + d + 1) * 10 ^ length s \<le> 10 * (acc + 1) * 10 ^ length s" by (rule mult_right_mono) simp
    then show ?thesis by (simp add: algebra_simps)
  qed
  ultimately show ?case using ih by linarith
qed simp

text \<open>a time of day that is accepted is a minute of the day.\<close>

theorem time_of_day_bounds:
  "case parseTimeToMinutes value of None \<Rightarrow> True | Some n \<Rightarrow> 0 \<le> n \<and> n < 24 * 60"
proof -
  have "0 \<le> n" if "digits_of_length ls s = Some n" for ls s n
    using digits_val_bounds [of 0 s n] that by (simp add: digits_of_length_def split: if_splits)
  then have "0 \<le> n \<and> n < 24 * 60" if "clock_minutes h m = Some n" for h m n
    using that by (fastforce simp: clock_minutes_def split: option.splits if_splits)
  then show ?thesis
    by (auto simp: parseTimeToMinutes_def split: option.splits list.splits if_splits)
qed

text \<open>The session has not ended while its verification window is open, unless the window was configured past it.\<close>

lemma open_window_before_end:
  assumes "ac_windowEnd c = None" and "isVerificationWindowOpen c now"
    and "parseTimeToMinutes (Some (st_windowStart (resolveSessionConfig c))) \<noteq> None"
  shows "\<not> isSessionEnded c now"
proof -
  have "st_windowEnd (resolveSessionConfig c) = st_sessionEnd (resolveSessionConfig c)"
    using assms(1) by (simp add: resolveSessionConfig_def or_else_def)
  with assms(2,3) show ?thesis
    by (auto simp: isVerificationWindowOpen_def isSessionEnded_def within_window_def split: option.splits)
qed

lemma director_never_required: "role_slug r = ''director'' \<Longrightarrow> r \<in> set roles \<Longrightarrow> \<not> userRequiresDailyVerification roles c"
  by (auto simp: userRequiresDailyVerification_def list_ex_iff)

lemma no_window_no_requirement: "\<not> hasVerificationWindowConfigured c \<Longrightarrow> \<not> userRequiresDailyVerification roles c"
  by (simp add: userRequiresDailyVerification_def)

end
