(* ===== verification/Biometric.thy ===== *)
theory Biometric
  imports Machines Tables JsMap
begin

section \<open>Biometric assertions\<close>

text \<open>
  \<open>biometric/biometric.service.ts\<close>: enrolment of WebAuthn credentials, authentication, and the one-time assertions
  that prove to other services that it took place.  The WebAuthn library (\<open>@simplewebauthn/server\<close>) is not under
  \<open>src\<close>: its answers, a challenge or the outcome of a verification, come with the request, as do random identifiers.
  The challenges and the assertions are kept in memory; times are milliseconds.
\<close>

record credential =
  cd_id :: string
  cd_user :: string
  cd_credential :: string
  cd_key :: string
  cd_counter :: int

record assertion =
  as_user :: string
  as_tenant :: string
  as_purpose :: string
  as_expires :: int
  as_used :: bool

text \<open>The credentials of each tenant's database, \<open>biometric_credentials\<close>, with the tenant.\<close>

record bio_state =
  bo_register :: "(string, string \<times> int) jsmap"
  bo_auth :: "(string, string \<times> int) jsmap"
  bo_assertions :: "(string, assertion) jsmap"
  bo_credentials :: "(string \<times> credential) list"

definition challengeKey :: "string \<Rightarrow> string \<Rightarrow> string" where
  "challengeKey tenantId userId = tenantId @ '':'' @ userId"

definition purgeExpired :: "int \<Rightarrow> bio_state \<Rightarrow> bio_state" where
  "purgeExpired now s = s\<lparr>bo_register := filter (\<lambda>(_, _, e). now \<le> e) (bo_register s),
     bo_auth := filter (\<lambda>(_, _, e). now \<le> e) (bo_auth s),
     bo_assertions := filter (\<lambda>(_, a). now \<le> as_expires a \<and> \<not> as_used a) (bo_assertions s)\<rparr>"

definition credentials_of :: "string \<Rightarrow> string \<Rightarrow> bio_state \<Rightarrow> credential list" where
  "credentials_of tenantId userId s = map snd (filter (\<lambda>(t, c). t = tenantId \<and> cd_user c = userId) (bo_credentials s))"

definition enrolled :: "string \<Rightarrow> string \<Rightarrow> bio_state \<Rightarrow> bool" where
  "enrolled tenantId userId s = (credentials_of tenantId userId s \<noteq> [])"

text \<open>\<open>/^[A-Za-z0-9_-]+$/\<close>\<close>

definition base64url_char :: "char \<Rightarrow> bool" where
  "base64url_char c = (let n = of_char c :: nat in
     (65 \<le> n \<and> n \<le> 90) \<or> (97 \<le> n \<and> n \<le> 122) \<or> (48 \<le> n \<and> n \<le> 57) \<or> c = CHR ''_'' \<or> c = CHR ''-'')"

definition buildCredentialDescriptors :: "credential list \<Rightarrow> string list" where
  "buildCredentialDescriptors rows = filter (\<lambda>k. k \<noteq> [] \<and> list_all base64url_char k) (map cd_credential rows)"

definition challenge_ttl :: int where
  "challenge_ttl = 5 * 60000"

definition assertion_ttl :: int where
  "assertion_ttl = 10 * 60000"

text \<open>\<open>options\<close> is the challenge the library made, or the message of its error.\<close>

definition beginRegistration :: "int \<Rightarrow> string \<Rightarrow> string \<Rightarrow> string + string \<Rightarrow> bio_state \<Rightarrow> string result \<times> bio_state" where
  "beginRegistration now tenantId userId options s =
     (if trim userId = [] then (Inl (BadRequest ''Authenticated user id is required for biometric enrollment''), s)
      else let s' = purgeExpired now s in
        (case options of
           Inl m \<Rightarrow> (Inl (BadRequest (''Could not start biometric enrollment: '' @ m)), s')
         | Inr challenge \<Rightarrow> (Inr challenge, s'\<lparr>bo_register := mset (challengeKey tenantId userId) (challenge, now + challenge_ttl) (bo_register s')\<rparr>)))"

text \<open>What a verification of a registration yields: the credential, its public key and counter; \<open>Inl\<close> the message of
  an error, \<open>Inr None\<close> when it is not verified.\<close>

type_synonym registration_outcome = "string + (string \<times> string \<times> int) option"

definition finishRegistration :: "int \<Rightarrow> string \<Rightarrow> string \<Rightarrow> string \<Rightarrow> (string \<Rightarrow> registration_outcome) \<Rightarrow> bio_state \<Rightarrow> string result \<times> bio_state" where
  "finishRegistration now tenantId userId fresh verify s =
     (let s' = purgeExpired now s; key = challengeKey tenantId userId in
      case mget key (bo_register s') of
        None \<Rightarrow> (Inl (BadRequest ''Registration challenge expired. Try again.''), s')
      | Some (challenge, _) \<Rightarrow> (case verify challenge of
            Inl m \<Rightarrow> (Inl (BadRequest m), s')
          | Inr None \<Rightarrow> (Inl (BadRequest ''Biometric registration could not be verified''), s')
          | Inr (Some (cred, pubkey, counter)) \<Rightarrow>
              if list_ex (\<lambda>(t, c). t = tenantId \<and> (cd_id c = fresh \<or> cd_credential c = cred)) (bo_credentials s') then (Inl DbError, s')
              else (Inr fresh, s'\<lparr>bo_credentials := bo_credentials s' @ [(tenantId, \<lparr>cd_id = fresh, cd_user = userId, cd_credential = cred,
                    cd_key = pubkey, cd_counter = counter\<rparr>)], bo_register := mdel key (bo_register s')\<rparr>)))"

definition beginAuthentication :: "int \<Rightarrow> string \<Rightarrow> string \<Rightarrow> string \<Rightarrow> bio_state \<Rightarrow> string result \<times> bio_state" where
  "beginAuthentication now tenantId userId challenge s =
     (let s' = purgeExpired now s; rows = credentials_of tenantId userId s' in
      if rows = [] then (Inl (BadRequest ''No biometric credential enrolled. Enroll a passkey/fingerprint in Settings first.''), s')
      else if buildCredentialDescriptors rows = []
        then (Inl (BadRequest ''Stored biometric credentials are invalid. Remove them in Settings and enroll again.''), s')
      else (Inr challenge, s'\<lparr>bo_auth := mset (challengeKey tenantId userId) (challenge, now + challenge_ttl) (bo_auth s')\<rparr>))"

text \<open>\<open>verify\<close> of the challenge and the stored credential: the message of an error, \<open>None\<close> when it is not verified,
  or the new counter.\<close>

definition finishAuthentication :: "int \<Rightarrow> string \<Rightarrow> string \<Rightarrow> string \<Rightarrow> string \<Rightarrow> string \<Rightarrow> (string \<Rightarrow> credential \<Rightarrow> string + int option) \<Rightarrow>
    bio_state \<Rightarrow> string result \<times> bio_state" where
  "finishAuthentication now tenantId userId credId purpose fresh verify s =
     (let s' = purgeExpired now s; key = challengeKey tenantId userId in
      case mget key (bo_auth s') of
        None \<Rightarrow> (Inl (BadRequest ''Authentication challenge expired. Try again.''), s')
      | Some (challenge, _) \<Rightarrow>
          (case find (\<lambda>c. cd_credential c = credId) (credentials_of tenantId userId s') of
             None \<Rightarrow> (Inl (Unauthorized ''Unknown biometric credential''), s')
           | Some c \<Rightarrow>
               if cd_credential c = [] \<or> cd_key c = [] then (Inl (Unauthorized ''Unknown biometric credential''), s')
               else (case verify challenge c of
                   Inl m \<Rightarrow> (Inl (Unauthorized m), s')
                 | Inr None \<Rightarrow> (Inl (Unauthorized ''Biometric verification failed''), s')
                 | Inr (Some counter) \<Rightarrow>
                     (Inr fresh, s'\<lparr>bo_credentials := map (\<lambda>(t, x). (t, if t = tenantId \<and> cd_id x = cd_id c then x\<lparr>cd_counter := counter\<rparr> else x)) (bo_credentials s'),
                        bo_auth := mdel key (bo_auth s'),
                        bo_assertions := mset fresh \<lparr>as_user = userId, as_tenant = tenantId, as_purpose = purpose,
                          as_expires = now + assertion_ttl, as_used = False\<rparr> (bo_assertions s')\<rparr>))))"

definition purpose_matches :: "string \<Rightarrow> string \<Rightarrow> bool" where
  "purpose_matches given wanted =
     (given = wanted \<or> given = ''general'' \<or> wanted = ''staff_attendance'' \<and> given = ''staff_login'')"

definition consumeAssertion :: "int \<Rightarrow> string \<Rightarrow> string \<Rightarrow> string \<Rightarrow> string \<Rightarrow> bio_state \<Rightarrow> unit result \<times> bio_state" where
  "consumeAssertion now k tenantId userId purpose s =
     (let s' = purgeExpired now s in
      case mget k (bo_assertions s') of
        None \<Rightarrow> (Inl (Unauthorized ''Biometric assertion is invalid or already used''), s')
      | Some a \<Rightarrow>
          if as_used a then (Inl (Unauthorized ''Biometric assertion is invalid or already used''), s')
          else if as_expires a < now
            then (Inl (Unauthorized ''Biometric assertion expired''), s'\<lparr>bo_assertions := mdel k (bo_assertions s')\<rparr>)
          else if as_tenant a \<noteq> tenantId \<or> as_user a \<noteq> userId
            then (Inl (Unauthorized ''Biometric assertion does not belong to this user''), s')
          else if \<not> purpose_matches (as_purpose a) purpose
            then (Inl (Unauthorized (''Biometric assertion was issued for '' @ as_purpose a @ '', not '' @ purpose)), s')
          else (Inr (), s'\<lparr>bo_assertions := mdel k (bo_assertions s')\<rparr>))"

definition removeCredential :: "string \<Rightarrow> string \<Rightarrow> string \<Rightarrow> bio_state \<Rightarrow> string \<times> bio_state" where
  "removeCredential tenantId userId k s =
     (k, s\<lparr>bo_credentials := filter (\<lambda>(t, c). \<not> (t = tenantId \<and> cd_id c = k \<and> cd_user c = userId)) (bo_credentials s)\<rparr>)"

subsection \<open>The service as a machine\<close>

datatype bio_request =
    BeginRegistration int string string "string + string"
  | FinishRegistration int string string string "string \<Rightarrow> registration_outcome"
  | BeginAuthentication int string string string
  | FinishAuthentication int string string string string string "string \<Rightarrow> credential \<Rightarrow> string + int option"
  | Consume int string string string string
  | RemoveCredential string string string

datatype bio_answer = BText "string result" | BConsumed string string string "unit result"

fun bio_step :: "bio_request \<Rightarrow> bio_state \<Rightarrow> bio_answer \<times> bio_state" where
  "bio_step (BeginRegistration now t u opts) s = map_prod BText id (beginRegistration now t u opts s)"
| "bio_step (FinishRegistration now t u fresh verify) s = map_prod BText id (finishRegistration now t u fresh verify s)"
| "bio_step (BeginAuthentication now t u challenge) s = map_prod BText id (beginAuthentication now t u challenge s)"
| "bio_step (FinishAuthentication now t u credId purpose fresh verify) s =
     map_prod BText id (finishAuthentication now t u credId purpose fresh verify s)"
| "bio_step (Consume now k t u purpose) s = map_prod (BConsumed k t u) id (consumeAssertion now k t u purpose s)"
| "bio_step (RemoveCredential t u k) s = map_prod (BText \<circ> Inr) id (removeCredential t u k s)"

subsection \<open>An assertion is used once\<close>

text \<open>Requests that do not issue an assertion under the identifier.\<close>

definition issues_other :: "string \<Rightarrow> bio_request \<Rightarrow> bool" where
  "issues_other k q = (case q of FinishAuthentication _ _ _ _ _ fresh _ \<Rightarrow> fresh \<noteq> k | _ \<Rightarrow> True)"

lemma mget_filter_None: "mget k m = None \<Longrightarrow> mget k (filter P m) = None"
  by (auto simp: mget_def map_of_eq_None_iff)

lemma assertion_gone:
  "issues_other k q \<Longrightarrow> mget k (bo_assertions s) = None \<Longrightarrow> mget k (bo_assertions (snd (bio_step q s))) = None"
  by (cases q) (auto simp: beginRegistration_def finishRegistration_def beginAuthentication_def finishAuthentication_def
      consumeAssertion_def removeCredential_def purgeExpired_def issues_other_def Let_def mget_filter_None
      split: sum.splits option.splits)

interpretation assertion: one_shot_on bio_step "\<lambda>_. True" "\<lambda>s. mget k (bo_assertions s) = None" "\<lambda>a. \<exists>t u. a = BConsumed k t u (Inr ())"
    "issues_other k" for k
proof
  fix q s
  show "issues_other k q \<Longrightarrow> mget k (bo_assertions s) = None \<Longrightarrow> mget k (bo_assertions (snd (bio_step q s))) = None"
    by (rule assertion_gone)
  show "mget k (bo_assertions s) = None \<Longrightarrow> \<not> (\<exists>t u. fst (bio_step q s) = BConsumed k t u (Inr ()))"
    by (cases q) (auto simp: consumeAssertion_def purgeExpired_def Let_def mget_filter_None)
  show "\<exists>t u. fst (bio_step q s) = BConsumed k t u (Inr ()) \<Longrightarrow> mget k (bo_assertions (snd (bio_step q s))) = None"
    by (cases q) (auto simp: consumeAssertion_def Let_def split: option.splits if_splits)
qed simp

text \<open>an assertion proves one act: after it is issued it is consumed at most once, whatever requests follow.\<close>

theorem assertion_consumed_once:
  assumes "list_all (issues_other k) qs"
  shows "length (filter (\<lambda>a. \<exists>t u. a = BConsumed k t u (Inr ())) (answers bio_step qs s)) \<le> 1"
  using assms by (rule assertion.at_most_once) simp

theorem assertion_consumed_once_witness:
  "length (filter (\<lambda>a. \<exists>t u. a = BConsumed ''assert_1'' t u (Inr ()))
     (answers bio_step [Consume 1 ''assert_1'' ''t'' ''u'' ''payment'', Consume 2 ''assert_1'' ''t'' ''u'' ''payment'']
       \<lparr>bo_register = [], bo_auth = [], bo_assertions = [(''assert_1'', \<lparr>as_user = ''u'', as_tenant = ''t'', as_purpose = ''payment'',
          as_expires = 9, as_used = False\<rparr>)], bo_credentials = []\<rparr>)) \<le> 1"
  by (rule assertion_consumed_once) (simp add: issues_other_def)

text \<open>who consumes an assertion is its user in its tenant, within ten minutes of the authentication, for the
  purpose it was made for (or made for any).\<close>

theorem assertion_bound:
  assumes "consumeAssertion now k tenantId userId purpose s = (Inr (), s')"
  shows "\<exists>a. (k, a) \<in> set (bo_assertions s) \<and> as_user a = userId \<and> as_tenant a = tenantId \<and> now \<le> as_expires a \<and>
    \<not> as_used a \<and> purpose_matches (as_purpose a) purpose \<and> mget k (bo_assertions s') = None"
proof -
  have mem: "(k, a) \<in> set (bo_assertions s)" if "mget k (filter P (bo_assertions s)) = Some a" for a P
    using that by (auto simp: mget_def dest!: map_of_SomeD)
  show ?thesis
    using assms by (auto simp: consumeAssertion_def purgeExpired_def Let_def dest: mem split: option.splits if_splits)
qed

theorem assertion_bound_witness:
  "\<exists>a. (''k'', a) \<in> set [(''k'', \<lparr>as_user = ''u'', as_tenant = ''t'', as_purpose = ''staff_login'', as_expires = 9, as_used = False\<rparr>)] \<and>
     as_user a = ''u'' \<and> purpose_matches (as_purpose a) ''staff_attendance''"
proof -
  let ?s = "\<lparr>bo_register = [], bo_auth = [], bo_assertions = [(''k'', \<lparr>as_user = ''u'', as_tenant = ''t'', as_purpose = ''staff_login'',
      as_expires = 9, as_used = False\<rparr>)], bo_credentials = []\<rparr>"
  have "consumeAssertion 5 ''k'' ''t'' ''u'' ''staff_attendance'' ?s = (Inr (), ?s\<lparr>bo_assertions := []\<rparr>)"
    by (simp add: consumeAssertion_def purgeExpired_def mget_def mdel_def purpose_matches_def Let_def)
  from assertion_bound [OF this] show ?thesis by simp
qed

end
