(* ===== verification/Attendance.thy ===== *)
theory Attendance
  imports SchoolSession Biometric AcademicCalendar RuntimeConfig
begin

section \<open>Attendance\<close>

text \<open>
  \<open>attendance/attendance.service.ts\<close>: the register of the pupils, the daily verification of the staff by a biometric
  assertion or the manual code, and the end of the day.  A table's rows stand in the order of their insertion, and a
  query without \<open>ORDER BY\<close> reads them in that order.  The database is Postgres, which folds an unquoted alias to
  lower case: \<open>start_date as startDate\<close> comes back as \<open>startdate\<close>, so \<open>row.startDate\<close> is undefined, except where the
  code reads through \<open>rowField\<close>.  The format of a date is checked by class-validator: requests come with dates it
  accepts.  Message texts are ASCII.
\<close>

subsection \<open>Users, as this service reads them\<close>

text \<open>The text of \<open>users.roles\<close>, by what \<open>JSON.parse\<close> makes of it: \<open>ROther\<close> is a value that is neither an array nor a
  string and does not contain the words \<open>student\<close> or \<open>parent\<close>; a \<open>RText\<close> is no JSON.\<close>

datatype roles_cell = RArray "string list" | RString string | ROther | RText string

record att_user =
  au_id :: string
  au_name :: string
  au_email :: string
  au_phone :: "string option"
  au_roles :: roles_cell
  au_level :: "string option"

text \<open>\<open>roles LIKE '%"r"%'\<close>\<close>

fun like_role :: "string \<Rightarrow> roles_cell \<Rightarrow> bool" where
  "like_role r (RArray rs) = List.member rs r"
| "like_role r (RString s) = (s = r)"
| "like_role r ROther = False"
| "like_role r (RText s) = contains s ([char_of (34 :: nat)] @ r @ [char_of (34 :: nat)])"

fun scope_cell :: "roles_cell \<Rightarrow> json_column" where
  "scope_cell (RArray rs) = JArray rs"
| "scope_cell (RString s) = JOther"
| "scope_cell ROther = JOther"
| "scope_cell (RText s) = JText s"

definition nonempty :: "string list \<Rightarrow> string list" where
  "nonempty xs = filter (\<lambda>x. x \<noteq> []) xs"

fun parseRoles :: "roles_cell \<Rightarrow> string list" where
  "parseRoles (RArray rs) = nonempty (map role_slug rs)"
| "parseRoles (RString s) = nonempty [role_slug s]"
| "parseRoles ROther = []"
| "parseRoles (RText s) = (if trim s = [] then [] else nonempty [role_slug (trim s)])"

subsection \<open>State\<close>

record register_row =
  rr_id :: string
  rr_student :: string
  rr_class :: "string option"
  rr_date :: string
  rr_status :: string
  rr_by :: string
  rr_correctedBy :: "string option"
  rr_reason :: "string option"
  rr_correctedAt :: "int option"
  rr_created :: int

record staff_row =
  fr_id :: string
  fr_staff :: string
  fr_date :: string
  fr_status :: string
  fr_signIn :: string
  fr_location :: string
  fr_verified :: bool
  fr_by :: string

text \<open>\<open>at_org\<close> is the newest row of \<open>business_org\<close>, by its attendance settings: \<open>None\<close> without a row, \<open>Some None\<close>
  with no settings.  The rows of the scope other than the users are \<open>at_scope\<close>.\<close>

record att_db =
  at_users :: "att_user list"
  at_scope :: scope_db
  at_terms :: "acad_term list"
  at_register :: "register_row list"
  at_staff :: "staff_row list"
  at_org :: "attendance_config option option"
  at_bio :: bio_state
  at_notes :: "(string \<times> string) list"

definition scope_of :: "att_db \<Rightarrow> scope_db" where
  "scope_of db = (at_scope db)\<lparr>user_roles := (\<lambda>u. map_option (scope_cell \<circ> au_roles) (tfind au_id u (at_users db)))\<rparr>"

text \<open>What a call reads from outside: the clock (milliseconds, and as \<open>localParts\<close>), the time it writes as the sign-in
  time, fresh identifiers and codes, and whether the notification and the branding of the school can be written.\<close>

record att_env =
  ae_now :: int
  ae_clock :: school_now
  ae_time :: string
  ae_fresh :: string
  ae_code :: string
  ae_notified :: bool
  ae_synced :: bool

definition no_config :: attendance_config where
  "no_config = \<lparr>ac_requireLocation = False, ac_locations = [], ac_sessionStart = None, ac_sessionEnd = None,
     ac_windowStart = None, ac_windowEnd = None, ac_businessDays = None, ac_manualCode = None, ac_manualCodeAt = None,
     ac_requiredRoles = None, ac_lastFinalize = None\<rparr>"

definition getAttendanceConfig :: "att_db \<Rightarrow> attendance_config" where
  "getAttendanceConfig db = (case at_org db of Some (Some c) \<Rightarrow> c | _ \<Rightarrow> no_config)"

text \<open>\<open>updateBusinessOrganization\<close> with a complete \<open>attendanceConfig\<close>, as this service calls it; the branding is written
  after the row.\<close>

definition save_config :: "att_env \<Rightarrow> attendance_config \<Rightarrow> att_db \<Rightarrow> unit result \<times> att_db" where
  "save_config e c db = (if ae_synced e then Inr () else Inl DbError, db\<lparr>at_org := Some (Some c)\<rparr>)"

subsection \<open>The register of the pupils\<close>

record mark =
  mk_student :: string
  mk_class :: "string option"
  mk_date :: string
  mk_status :: string

text \<open>The checks of \<open>MarkStudentAttendanceDto\<close> beside the date's format.\<close>

definition mark_valid :: "mark \<Rightarrow> bool" where
  "mark_valid m = (mk_student m \<noteq> [] \<and> List.member [''present'', ''absent'', ''late''] (mk_status m))"

text \<open>\<open>COALESCE(class_id, '')\<close>\<close>

definition slot :: "string \<Rightarrow> string option \<Rightarrow> string \<Rightarrow> string \<times> string \<times> string" where
  "slot student cls date = (student, date, case cls of None \<Rightarrow> [] | Some c \<Rightarrow> c)"

definition row_slot :: "register_row \<Rightarrow> string \<times> string \<times> string" where
  "row_slot r = slot (rr_student r) (rr_class r) (rr_date r)"

definition mark_slot :: "mark \<Rightarrow> string \<times> string \<times> string" where
  "mark_slot m = slot (mk_student m) (or_null (mk_class m)) (mk_date m)"

definition mark_checks :: "string \<Rightarrow> mark \<Rightarrow> att_db \<Rightarrow> unit result" where
  "mark_checks userId m db = (case assertClassTeacherMayAccess (scope_of db) userId (mk_class m) of
      Inl e \<Rightarrow> Inl e
    | Inr _ \<Rightarrow> assertTeacherMayMarkClass (scope_of db) userId (mk_class m))"

definition immutable_message :: string where
  "immutable_message = ''This register entry is immutable. Use the authorized correction workflow with a reason.''"

text \<open>\<open>varchar(16)\<close> for the date and the status.\<close>

definition columns_fit :: "mark \<Rightarrow> bool" where
  "columns_fit m = (length (mk_date m) \<le> 16 \<and> length (mk_status m) \<le> 16)"

definition markStudentAttendance :: "att_env \<Rightarrow> string \<Rightarrow> mark \<Rightarrow> att_db \<Rightarrow> string result \<times> att_db" where
  "markStudentAttendance e userId m db =
     (if \<not> mark_valid m then (Inl (BadRequest ''Validation failed''), db)
      else case mark_checks userId m db of Inl x \<Rightarrow> (Inl x, db) | Inr _ \<Rightarrow>
      if find (\<lambda>r. row_slot r = mark_slot m) (at_register db) \<noteq> None then (Inl (BadRequest immutable_message), db)
      else if \<not> columns_fit m then (Inl DbError, db)
      else (case tinsert rr_id \<lparr>rr_id = ae_fresh e, rr_student = mk_student m, rr_class = or_null (mk_class m), rr_date = mk_date m,
              rr_status = mk_status m, rr_by = userId, rr_correctedBy = None, rr_reason = None, rr_correctedAt = None,
              rr_created = ae_now e\<rparr> (at_register db) of
          None \<Rightarrow> (Inl DbError, db)
        | Some t \<Rightarrow> (Inr (ae_fresh e), db\<lparr>at_register := t\<rparr>)))"

text \<open>The body of a correction is an intersection type, which the validation pipe does not check.\<close>

definition correctStudentAttendance :: "att_env \<Rightarrow> string \<Rightarrow> mark \<Rightarrow> string option \<Rightarrow> att_db \<Rightarrow> string result \<times> att_db" where
  "correctStudentAttendance e actor m reason db =
     (if (case reason of None \<Rightarrow> True | Some r \<Rightarrow> trim r = []) then (Inl (BadRequest ''A correction reason is required''), db)
      else (case find (\<lambda>r. row_slot r = mark_slot m) (at_register db) of
          None \<Rightarrow> (Inl (NotFound ''Register entry not found''), db)
        | Some r \<Rightarrow>
            if 16 < length (mk_status m) then (Inl DbError, db)
            else (Inr (rr_id r), db\<lparr>at_register := tmodify rr_id (rr_id r) (\<lambda>x. x\<lparr>rr_status := mk_status m, rr_correctedBy := Some actor,
                   rr_reason := map_option trim reason, rr_correctedAt := Some (ae_now e)\<rparr>) (at_register db)\<rparr>)))"

record register_line =
  rl_id :: string
  rl_name :: string
  rl_email :: string
  rl_status :: string
  rl_time :: "int option"

definition class_pupils :: "att_db \<Rightarrow> string option \<Rightarrow> att_user list" where
  "class_pupils db cls = (let pupils = filter (\<lambda>u. like_role ''student'' (au_roles u)) (at_users db) in
     sort_key au_name (if truthy cls
       then concat (map (\<lambda>u. map (\<lambda>_. u) (filter (\<lambda>(s, c). s = au_id u \<and> c = the cls) (enrollments (at_scope db)))) pupils)
       else pupils))"

definition listStudentAttendance :: "string \<Rightarrow> string option \<Rightarrow> string option \<Rightarrow> att_db \<Rightarrow> register_line list result" where
  "listStudentAttendance date cls actor db =
     map_sum id (\<lambda>_.
       let rows = filter (\<lambda>r. rr_date r = date \<and> (truthy cls \<longrightarrow> rr_class r = cls)) (at_register db) in
       map (\<lambda>u. let found = find (\<lambda>r. rr_student r = au_id u) (rev rows) in
          \<lparr>rl_id = au_id u, rl_name = au_name u, rl_email = au_email u,
           rl_status = or_else (map_option rr_status found) ''absent'', rl_time = map_option rr_created found\<rparr>)
         (class_pupils db cls))
     (if truthy actor then assertClassTeacherMayAccess (scope_of db) (the actor) cls else Inr ())"

subsection \<open>The staff list\<close>

definition normalizeSchoolLevel :: "string option \<Rightarrow> string" where
  "normalizeSchoolLevel level = (let value = toLowerCase (trim (or_else level [])) in
     if value = ''jss'' \<or> value = ''sss'' then ''secondary'' else value)"

definition att_levelMatches :: "string \<Rightarrow> string option \<Rightarrow> bool" where
  "att_levelMatches requested actual = (let value = normalizeSchoolLevel actual in
     value = requested \<or> value = [] \<and> requested = ''all'')"

record staff_line =
  fl_id :: string
  fl_name :: string
  fl_date :: string
  fl_status :: string
  fl_signIn :: "string option"
  fl_location :: string
  fl_verified :: bool
  fl_recorded :: bool

definition is_staff :: "att_user \<Rightarrow> bool" where
  "is_staff u = (\<not> like_role ''student'' (au_roles u) \<and> \<not> like_role ''parent'' (au_roles u))"

text \<open>\<open>weekday\<close> is the day of the week of \<open>date\<close> at noon.  The current term's dates (\<open>currentTerm.startDate\<close>) and the
  level of a user (\<open>s.schoolLevel\<close>) are undefined under their folded aliases.\<close>

definition staff_line_of :: "school_now \<Rightarrow> attendance_config \<Rightarrow> string \<Rightarrow> int \<Rightarrow> staff_row list \<Rightarrow> att_user \<Rightarrow> staff_line" where
  "staff_line_of now c date weekday rows u =
     (let found = find (\<lambda>r. fr_staff r = au_id u) (rev rows);
          awaiting = (date = sn_date now \<and> isBusinessDay c weekday \<and> \<not> (date = sn_date now \<and> isSessionEnded c now)) in
      \<lparr>fl_id = au_id u, fl_name = au_name u, fl_date = date,
       fl_status = (case found of Some r \<Rightarrow> or_else (Some (fr_status r)) ''absent'' | None \<Rightarrow> if awaiting then ''pending'' else ''absent''),
       fl_signIn = or_null (map_option fr_signIn found),
       fl_location = or_else (map_option fr_location found)
         (case found of Some r \<Rightarrow> if fr_verified r then ''Verified'' else ''Unverified''
          | None \<Rightarrow> if awaiting then ''Awaiting verification'' else ''Unverified''),
       fl_verified = (case found of Some r \<Rightarrow> fr_verified r | None \<Rightarrow> False), fl_recorded = (found \<noteq> None)\<rparr>)"

definition listStaffAttendance :: "school_now \<Rightarrow> string \<Rightarrow> int \<Rightarrow> string option \<Rightarrow> att_db \<Rightarrow> staff_line list" where
  "listStaffAttendance now date weekday level db =
     (let requested = normalizeSchoolLevel level;
          staff = filter (\<lambda>u. requested = [] \<or> att_levelMatches requested None) (sort_key au_name (filter is_staff (at_users db)));
          rows = filter (\<lambda>r. fr_date r = date) (at_staff db) in
      map (staff_line_of now (getAttendanceConfig db) date weekday rows) staff)"

record my_attendance =
  ma_term :: "acad_term option"
  ma_records :: "staff_row list"
  ma_present :: nat
  ma_late :: nat
  ma_absent :: nat

text \<open>\<open>ORDER BY date DESC\<close>.\<close>

definition by_date_desc :: "staff_row list \<Rightarrow> staff_row list" where
  "by_date_desc rows = rev (sort_key fr_date (rev rows))"

definition listMyStaffAttendance :: "string \<Rightarrow> att_db \<Rightarrow> my_attendance" where
  "listMyStaffAttendance staffId db =
     (let term = (case newest trm_createdAt 1 (filter trm_current (at_terms db)) of t # _ \<Rightarrow> Some t | [] \<Rightarrow> None);
          records = by_date_desc (filter (\<lambda>r. fr_staff r = staffId) (at_staff db));
          tally = (\<lambda>s. length (filter (\<lambda>r. fr_status r = s) records)) in
      \<lparr>ma_term = term, ma_records = records, ma_present = tally ''present'', ma_late = tally ''late'', ma_absent = tally ''absent''\<rparr>)"

subsection \<open>The verification of a member of the staff\<close>

definition getStaffRoles :: "att_db \<Rightarrow> string \<Rightarrow> string list" where
  "getStaffRoles db staffId = (case tfind au_id staffId (at_users db) of None \<Rightarrow> [] | Some u \<Rightarrow> parseRoles (au_roles u))"

definition isVerificationTarget :: "roles_cell \<Rightarrow> attendance_config \<Rightarrow> bool" where
  "isVerificationTarget cell c = userRequiresDailyVerification (parseRoles cell) c"

record verification_status =
  vs_required :: bool
  vs_verifiedToday :: bool
  vs_enrolled :: bool
  vs_requiredRoles :: "string list"
  vs_userRoles :: "string list"
  vs_windowOpen :: bool
  vs_session :: session_times
  vs_today :: string
  vs_attendance :: "(string \<times> string) option"

definition loadStaffDailyVerificationStatus :: "school_now \<Rightarrow> string \<Rightarrow> string \<Rightarrow> string list \<Rightarrow> att_db \<Rightarrow> verification_status" where
  "loadStaffDailyVerificationStatus now tenantId userId jwtRoles db =
     (let c = getAttendanceConfig db;
          roles = js_uniq (getStaffRoles db userId @ nonempty (map role_slug jwtRoles));
          needed = userRequiresDailyVerification roles c;
          row = (if needed then find (\<lambda>r. fr_staff r = userId \<and> fr_date r = sn_date now \<and> fr_verified r) (at_staff db) else None) in
      \<lparr>vs_required = needed, vs_verifiedToday = (row \<noteq> None), vs_enrolled = enrolled tenantId userId (at_bio db),
       vs_requiredRoles = resolveVerificationRequiredRoles c, vs_userRoles = roles,
       vs_windowOpen = isVerificationWindowOpen c now, vs_session = resolveSessionConfig c, vs_today = sn_date now,
       vs_attendance = map_option (\<lambda>r. (fr_status r, fr_signIn r)) row\<rparr>)"

definition verificationStatusCacheKey :: "string \<Rightarrow> string \<Rightarrow> string \<Rightarrow> string" where
  "verificationStatusCacheKey tenantId userId date = ''tenant:'' @ tenantId @ '':attendance:verification-status:'' @ userId @ '':'' @ date"

definition window_message :: "session_times \<Rightarrow> string" where
  "window_message t = ''Staff verification is only available during the configured window ('' @ st_windowStart t @ ''-'' @
     st_windowEnd t @ '' on business days). Applies to fingerprint and manual code.''"

definition assertVerificationWindow :: "school_now \<Rightarrow> attendance_config \<Rightarrow> unit result" where
  "assertVerificationWindow now c =
     (if isVerificationWindowOpen c now then Inr () else Inl (BadRequest (window_message (resolveSessionConfig c))))"

definition verified_on :: "string \<Rightarrow> string \<Rightarrow> staff_row \<Rightarrow> bool" where
  "verified_on staffId date r = (fr_staff r = staffId \<and> fr_date r = date \<and> fr_verified r)"

definition assertNotAlreadyVerified :: "string \<Rightarrow> string \<Rightarrow> att_db \<Rightarrow> unit result" where
  "assertNotAlreadyVerified staffId date db =
     (if find (verified_on staffId date) (at_staff db) \<noteq> None
      then Inl (BadRequest ''You have already completed biometric verification for today. Only one verification per day is allowed.'')
      else Inr ())"

text \<open>\<open>persistStaffAttendance\<close>: the old row goes, the new one is inserted (or the insertion fails and none is left), the
  notification follows a verification.  The answer carries the key of the status cache that is dropped.\<close>

definition staff_row_fits :: "staff_row \<Rightarrow> bool" where
  "staff_row_fits r = (length (fr_date r) \<le> 16 \<and> length (fr_status r) \<le> 16 \<and> length (fr_signIn r) \<le> 32 \<and> length (fr_location r) \<le> 64)"

definition persistStaffAttendance :: "att_env \<Rightarrow> string \<Rightarrow> staff_row \<Rightarrow> att_db \<Rightarrow> (staff_row \<times> string) result \<times> att_db" where
  "persistStaffAttendance e tenantId r db =
     (let rest = tdelete (\<lambda>x. fr_staff x = fr_staff r \<and> fr_date x = fr_date r) (at_staff db) in
      if \<not> staff_row_fits r then (Inl DbError, db\<lparr>at_staff := rest\<rparr>)
      else (case tinsert fr_id r rest of
          None \<Rightarrow> (Inl DbError, db\<lparr>at_staff := rest\<rparr>)
        | Some t \<Rightarrow>
            if fr_verified r \<and> \<not> ae_notified e then (Inl DbError, db\<lparr>at_staff := t\<rparr>)
            else (Inr (r, verificationStatusCacheKey tenantId (fr_staff r) (take 10 (fr_date r))),
              db\<lparr>at_staff := t, at_notes := (if fr_verified r then (fr_by r, ''Staff attendance signed in'') # at_notes db else at_notes db)\<rparr>)))"

subsection \<open>The end of the day\<close>

definition absent_row :: "string \<Rightarrow> string \<Rightarrow> string \<Rightarrow> string \<Rightarrow> staff_row" where
  "absent_row fresh time staffId date = \<lparr>fr_id = fresh, fr_staff = staffId, fr_date = date, fr_status = ''absent'', fr_signIn = time,
     fr_location = ''Auto-marked (no verification)'', fr_verified = False, fr_by = staffId\<rparr>"

text \<open>\<open>fresh\<close> gives the identifier of each row.\<close>

primrec mark_absent :: "att_env \<Rightarrow> string \<Rightarrow> (string \<Rightarrow> string) \<Rightarrow> string \<Rightarrow> attendance_config \<Rightarrow> att_user list \<Rightarrow> nat \<Rightarrow> att_db \<Rightarrow> nat result \<times> att_db" where
  "mark_absent e tenantId fresh date c [] n db = (Inr n, db)"
| "mark_absent e tenantId fresh date c (u # us) n db =
     (if \<not> isVerificationTarget (au_roles u) c \<or> list_ex (\<lambda>r. fr_staff r = au_id u \<and> fr_date r = date) (at_staff db)
      then mark_absent e tenantId fresh date c us n db
      else (case persistStaffAttendance e tenantId (absent_row (fresh (au_id u)) (ae_time e) (au_id u) date) db of
          (Inl x, db') \<Rightarrow> (Inl x, db')
        | (Inr _, db') \<Rightarrow> mark_absent e tenantId fresh date c us (Suc n) db'))"

definition processEndOfDayAbsent :: "att_env \<Rightarrow> string \<Rightarrow> (string \<Rightarrow> string) \<Rightarrow> string \<Rightarrow> att_db \<Rightarrow> nat result \<times> att_db" where
  "processEndOfDayAbsent e tenantId fresh date db =
     (let c = getAttendanceConfig db in
      if \<not> isSessionEnded c (ae_clock e) then (Inr 0, db)
      else mark_absent e tenantId fresh date c (filter is_staff (at_users db)) 0 db)"

definition maybeFinalizeStaffDay :: "att_env \<Rightarrow> string \<Rightarrow> (string \<Rightarrow> string) \<Rightarrow> string option \<Rightarrow> string option \<Rightarrow> att_db \<Rightarrow> nat result \<times> att_db" where
  "maybeFinalizeStaffDay e tenantId fresh date actor db =
     (let today = or_else date (sn_date (ae_clock e)); c = getAttendanceConfig db in
      if \<not> isSessionEnded c (ae_clock e) then (Inr 0, db)
      else if ac_lastFinalize c = Some today then (Inr 0, db)
      else (case processEndOfDayAbsent e tenantId fresh today db of
          (Inl x, db') \<Rightarrow> (Inl x, db')
        | (Inr n, db') \<Rightarrow>
            if at_org db \<noteq> None \<and> truthy actor
            then (case save_config e (c\<lparr>ac_lastFinalize := Some today\<rparr>) db' of (Inl x, db'') \<Rightarrow> (Inl x, db'') | (Inr _, db'') \<Rightarrow> (Inr n, db''))
            else (Inr n, db')))"

subsection \<open>The manual code\<close>

definition regenerateManualVerificationCode :: "att_env \<Rightarrow> att_db \<Rightarrow> (string \<times> int) result \<times> att_db" where
  "regenerateManualVerificationCode e db =
     (if at_org db = None then (Inl (NotFound ''Organization not found''), db)
      else (case save_config e ((getAttendanceConfig db)\<lparr>ac_manualCode := Some (ae_code e), ac_manualCodeAt := Some (ae_now e)\<rparr>) db of
          (Inl x, db') \<Rightarrow> (Inl x, db')
        | (Inr _, db') \<Rightarrow> (Inr (ae_code e, ae_now e), db')))"

definition getManualVerificationCode :: "att_env \<Rightarrow> att_db \<Rightarrow> (string \<times> int option) result \<times> att_db" where
  "getManualVerificationCode e db = (case or_null (ac_manualCode (getAttendanceConfig db)) of
      Some code \<Rightarrow> (Inr (code, ac_manualCodeAt (getAttendanceConfig db)), db)
    | None \<Rightarrow> map_prod (map_sum id (\<lambda>(c, t). (c, Some t))) id (regenerateManualVerificationCode e db))"

definition consumeManualVerificationCode :: "att_env \<Rightarrow> string \<Rightarrow> att_db \<Rightarrow> unit result \<times> att_db" where
  "consumeManualVerificationCode e submitted db =
     (let expected = trim (or_else (ac_manualCode (getAttendanceConfig db)) []) in
      if expected = [] \<or> expected \<noteq> trim submitted
      then (Inl (BadRequest ''Invalid verification code. Ask your school admin for the current code.''), db)
      else map_prod (map_sum id (\<lambda>_. ())) id (regenerateManualVerificationCode e db))"

subsection \<open>Signing in\<close>

definition matchVerificationLocation :: "(rat \<Rightarrow> rat \<Rightarrow> rat \<Rightarrow> rat \<Rightarrow> rat) \<Rightarrow> location list \<Rightarrow> rat \<Rightarrow> rat \<Rightarrow> location option" where
  "matchVerificationLocation distance locations lat long =
     find (\<lambda>l. distance lat long (lo_latitude l) (lo_longitude l) \<le> lo_radius l) locations"

definition far_message :: string where
  "far_message = ''You are not within an approved staff sign-in location. Move closer to a configured campus/site and try again.''"

definition resolveStaffSignInLocation :: "(rat \<Rightarrow> rat \<Rightarrow> rat \<Rightarrow> rat \<Rightarrow> rat) \<Rightarrow> attendance_config \<Rightarrow> (rat \<times> rat) option \<Rightarrow> string option \<Rightarrow> string result" where
  "resolveStaffSignInLocation distance c place hint =
     (let here = (case place of None \<Rightarrow> None | Some (lat, long) \<Rightarrow> matchVerificationLocation distance (ac_locations c) lat long);
          otherwise = or_else (map_option trim hint) ''Biometric verified'' in
      if ac_requireLocation c \<and> ac_locations c \<noteq> [] then
        (if place = None then Inl (BadRequest ''Location access is required. Enable location on your device and try again.'')
         else case here of None \<Rightarrow> Inl (BadRequest far_message) | Some l \<Rightarrow> Inr (lo_name l))
      else (case here of Some l \<Rightarrow> Inr (lo_name l) | None \<Rightarrow> Inr otherwise))"

text \<open>The body of the two sign-in requests, with the checks of their classes beside the date's format; the proof is a
  biometric assertion or the manual code.  \<open>place\<close> is there when both coordinates are.\<close>

record sign_in =
  si_staff :: "string option"
  si_date :: string
  si_status :: string
  si_location :: "string option"
  si_place :: "(rat \<times> rat) option"

datatype sign_in_proof = ByAssertion string | ByCode string

definition sign_in_valid :: "sign_in \<Rightarrow> sign_in_proof \<Rightarrow> bool" where
  "sign_in_valid b p = (List.member [''present'', ''absent'', ''late''] (si_status b) \<and>
     (case p of ByAssertion k \<Rightarrow> k \<noteq> [] | ByCode code \<Rightarrow> length code = 20))"

definition self_message :: "sign_in_proof \<Rightarrow> string" where
  "self_message p = (case p of
      ByAssertion _ \<Rightarrow> ''You can only biometric-sign yourself in. Ask an admin to override manually.''
    | ByCode _ \<Rightarrow> ''You can only verify yourself in.'')"

definition sign_in_checks :: "att_env \<Rightarrow> string \<Rightarrow> string \<Rightarrow> sign_in \<Rightarrow> sign_in_proof \<Rightarrow> att_db \<Rightarrow> unit result" where
  "sign_in_checks e actor staffId b p db =
     (let c = getAttendanceConfig db in
      if actor \<noteq> staffId then Inl (BadRequest (self_message p))
      else if \<not> isVerificationTarget (RArray (getStaffRoles db staffId)) c
        then Inl (BadRequest ''Daily staff verification applies only to roles configured by your school admin.'')
      else case assertVerificationWindow (ae_clock e) c of Inl x \<Rightarrow> Inl x
      | Inr _ \<Rightarrow> assertNotAlreadyVerified staffId (si_date b) db)"

definition consume_proof :: "att_env \<Rightarrow> string \<Rightarrow> string \<Rightarrow> sign_in_proof \<Rightarrow> att_db \<Rightarrow> unit result \<times> att_db" where
  "consume_proof e tenantId actor p db = (case p of
      ByAssertion k \<Rightarrow> (case consumeAssertion (ae_now e) k tenantId actor ''staff_attendance'' (at_bio db) of
          (r, bio) \<Rightarrow> (r, db\<lparr>at_bio := bio\<rparr>))
    | ByCode code \<Rightarrow> consumeManualVerificationCode e code db)"

definition location_hint :: "sign_in \<Rightarrow> sign_in_proof \<Rightarrow> string option" where
  "location_hint b p = (case p of ByAssertion _ \<Rightarrow> si_location b | ByCode _ \<Rightarrow> Some (or_else (si_location b) ''Manual code verified''))"

text \<open>\<open>markStaffAttendance\<close> and \<open>markStaffAttendanceWithManualCode\<close>; the settings are read before the proof is used.\<close>

definition signIn :: "att_env \<Rightarrow> (rat \<Rightarrow> rat \<Rightarrow> rat \<Rightarrow> rat \<Rightarrow> rat) \<Rightarrow> string \<Rightarrow> string \<Rightarrow> sign_in \<Rightarrow> sign_in_proof \<Rightarrow> att_db \<Rightarrow>
    (staff_row \<times> string) result \<times> att_db" where
  "signIn e distance tenantId actor b p db =
     (let staffId = or_else (si_staff b) actor in
      if \<not> sign_in_valid b p then (Inl (BadRequest ''Validation failed''), db)
      else case sign_in_checks e actor staffId b p db of Inl x \<Rightarrow> (Inl x, db)
      | Inr _ \<Rightarrow> (case consume_proof e tenantId actor p db of (Inl x, db') \<Rightarrow> (Inl x, db')
      | (Inr _, db') \<Rightarrow> (case resolveStaffSignInLocation distance (getAttendanceConfig db) (si_place b) (location_hint b p) of
            Inl x \<Rightarrow> (Inl x, db')
          | Inr place \<Rightarrow> persistStaffAttendance e tenantId \<lparr>fr_id = ae_fresh e, fr_staff = staffId, fr_date = si_date b, fr_status = si_status b,
              fr_signIn = ae_time e, fr_location = place, fr_verified = True, fr_by = actor\<rparr> db')))"

definition markStaffAttendance :: "att_env \<Rightarrow> (rat \<Rightarrow> rat \<Rightarrow> rat \<Rightarrow> rat \<Rightarrow> rat) \<Rightarrow> string \<Rightarrow> string \<Rightarrow> sign_in \<Rightarrow> string \<Rightarrow> att_db \<Rightarrow>
    (staff_row \<times> string) result \<times> att_db" where
  "markStaffAttendance e distance tenantId actor b assertionId = signIn e distance tenantId actor b (ByAssertion assertionId)"

definition markStaffAttendanceWithManualCode :: "att_env \<Rightarrow> (rat \<Rightarrow> rat \<Rightarrow> rat \<Rightarrow> rat \<Rightarrow> rat) \<Rightarrow> string \<Rightarrow> string \<Rightarrow> sign_in \<Rightarrow> string \<Rightarrow> att_db \<Rightarrow>
    (staff_row \<times> string) result \<times> att_db" where
  "markStaffAttendanceWithManualCode e distance tenantId actor b code = signIn e distance tenantId actor b (ByCode code)"

subsection \<open>The service as a machine\<close>

text \<open>The requests of the controller, the calls of the biometric service on the same state, the end of the day, and
  \<open>SaveConfig\<close>, the settings the school saves through the organization service.\<close>

datatype att_request =
    MarkPupil att_env string mark
  | CorrectPupil att_env string mark "string option"
  | SignInByAssertion att_env "rat \<Rightarrow> rat \<Rightarrow> rat \<Rightarrow> rat \<Rightarrow> rat" string string sign_in string
  | SignInByCode att_env "rat \<Rightarrow> rat \<Rightarrow> rat \<Rightarrow> rat \<Rightarrow> rat" string string sign_in string
  | GetCode att_env
  | NewCode att_env
  | FinalizeDay att_env string "string \<Rightarrow> string" "string option" "string option"
  | Bio bio_request
  | SaveConfig att_env attendance_config

datatype att_answer =
    PupilMarked mark "string result"
  | PupilCorrected mark "string result"
  | StaffSignedIn "(staff_row \<times> string) result"
  | CodeShown "(string \<times> int option) result"
  | CodeMade "(string \<times> int) result"
  | DayFinalized "nat result"
  | BioAnswer bio_answer
  | ConfigSaved "unit result"

fun att_step :: "att_request \<Rightarrow> att_db \<Rightarrow> att_answer \<times> att_db" where
  "att_step (MarkPupil e u m) db = map_prod (PupilMarked m) id (markStudentAttendance e u m db)"
| "att_step (CorrectPupil e u m reason) db = map_prod (PupilCorrected m) id (correctStudentAttendance e u m reason db)"
| "att_step (SignInByAssertion e d t u b k) db = map_prod StaffSignedIn id (markStaffAttendance e d t u b k db)"
| "att_step (SignInByCode e d t u b code) db = map_prod StaffSignedIn id (markStaffAttendanceWithManualCode e d t u b code db)"
| "att_step (GetCode e) db = map_prod CodeShown id (getManualVerificationCode e db)"
| "att_step (NewCode e) db = map_prod CodeMade id (regenerateManualVerificationCode e db)"
| "att_step (FinalizeDay e t fresh date actor) db = map_prod DayFinalized id (maybeFinalizeStaffDay e t fresh date actor db)"
| "att_step (Bio q) db = (let (a, bio) = bio_step q (at_bio db) in (BioAnswer a, db\<lparr>at_bio := bio\<rparr>))"
| "att_step (SaveConfig e c) db = map_prod ConfigSaved id (save_config e c db)"

subsection \<open>The register refines a write-once map\<close>

text \<open>What the register promises: a map from pupil, date and class to a status, where an entry is made once and changed
  only by a correction.\<close>

type_synonym register_map = "string \<times> string \<times> string \<rightharpoonup> string"

datatype register_event = Entered "string \<times> string \<times> string" string | Amended "string \<times> string \<times> string" string

fun register_step :: "register_event \<Rightarrow> register_map \<Rightarrow> register_map option" where
  "register_step (Entered k st) m = (if m k = None then Some (m(k \<mapsto> st)) else None)"
| "register_step (Amended k st) m = (if m k = None then None else Some (m(k \<mapsto> st)))"

definition register_map :: "att_db \<Rightarrow> register_map" where
  "register_map db k = map_option rr_status (tfind row_slot k (at_register db))"

fun seen_event :: "att_answer \<Rightarrow> register_event option" where
  "seen_event (PupilMarked m (Inr _)) = Some (Entered (mark_slot m) (mk_status m))"
| "seen_event (PupilCorrected m (Inr _)) = Some (Amended (mark_slot m) (mk_status m))"
| "seen_event _ = None"

definition register_ok :: "att_db \<Rightarrow> bool" where
  "register_ok db = (pk rr_id (at_register db) \<and> pk row_slot (at_register db))"

lemma persist_register: "at_register (snd (persistStaffAttendance e t r db)) = at_register db"
  by (simp add: persistStaffAttendance_def Let_def split: option.split)

lemma save_config_simps:
  "snd (save_config e c db) = db\<lparr>at_org := Some (Some c)\<rparr>"
  by (simp add: save_config_def)

lemma regenerate_snd: "snd (regenerateManualVerificationCode e db) = db \<or>
   snd (regenerateManualVerificationCode e db) = db\<lparr>at_org := Some (Some ((getAttendanceConfig db)\<lparr>ac_manualCode := Some (ae_code e), ac_manualCodeAt := Some (ae_now e)\<rparr>))\<rparr>"
  by (simp add: regenerateManualVerificationCode_def save_config_def)

lemma consume_code_register: "at_register (snd (consumeManualVerificationCode e k db)) = at_register db"
  using regenerate_snd [of e db] by (auto simp: consumeManualVerificationCode_def Let_def)

lemma consume_register: "at_register (snd (consume_proof e t a p db)) = at_register db"
  by (simp add: consume_proof_def consume_code_register split: sign_in_proof.split prod.split)

lemma signIn_register: "at_register (snd (signIn e d t a b p db)) = at_register db"
proof -
  obtain r db' where c: "consume_proof e t a p db = (r, db')" by (cases "consume_proof e t a p db")
  then have "at_register db' = at_register db" using consume_register [of e t a p db] by simp
  then show ?thesis by (simp add: signIn_def Let_def c persist_register split: sum.split)
qed

lemma mark_absent_register: "at_register (snd (mark_absent e t fresh date c us n db)) = at_register db"
proof (induction us arbitrary: n db)
  case (Cons u us)
  obtain r db' where p: "persistStaffAttendance e t (absent_row (fresh (au_id u)) (ae_time e) (au_id u) date) db = (r, db')"
    by (cases "persistStaffAttendance e t (absent_row (fresh (au_id u)) (ae_time e) (au_id u) date) db")
  then have "at_register db' = at_register db" using persist_register [of e t _ db] by (metis snd_conv)
  with Cons p show ?case by (simp split: sum.split)
qed simp

lemma finalize_register: "at_register (snd (maybeFinalizeStaffDay e t fresh date actor db)) = at_register db"
proof -
  have day: "at_register (snd (processEndOfDayAbsent e t fresh d db)) = at_register db" for d
    by (simp add: processEndOfDayAbsent_def Let_def mark_absent_register)
  obtain r db' where p: "processEndOfDayAbsent e t fresh (or_else date (sn_date (ae_clock e))) db = (r, db')"
    by (cases "processEndOfDayAbsent e t fresh (or_else date (sn_date (ae_clock e))) db")
  then have "at_register db' = at_register db" using day [of "or_else date (sn_date (ae_clock e))"] by simp
  then show ?thesis by (simp add: maybeFinalizeStaffDay_def Let_def p save_config_def split: sum.split)
qed

lemma get_code_register: "at_register (snd (getManualVerificationCode e db)) = at_register db"
  using regenerate_snd [of e db] by (auto simp: getManualVerificationCode_def split: option.split)

lemma regenerate_register: "at_register (snd (regenerateManualVerificationCode e db)) = at_register db"
  using regenerate_snd [of e db] by auto

lemmas register_frames = persist_register consume_register signIn_register finalize_register get_code_register regenerate_register

lemma markStudent_cases:
  "(\<exists>x. markStudentAttendance e u m db = (Inl x, db)) \<or>
   (\<exists>r. markStudentAttendance e u m db = (Inr (ae_fresh e), db\<lparr>at_register := at_register db @ [r]\<rparr>) \<and>
      rr_id r = ae_fresh e \<and> ae_fresh e \<notin> rr_id ` set (at_register db) \<and> row_slot r = mark_slot m \<and> rr_status r = mk_status m \<and>
      tfind row_slot (mark_slot m) (at_register db) = None)"
  by (auto simp: markStudentAttendance_def tfind_def row_slot_def mark_slot_def tinsert_def split: sum.split)

lemma correctStudent_cases:
  "(\<exists>x. correctStudentAttendance e u m reason db = (Inl x, db)) \<or>
   (\<exists>r f. correctStudentAttendance e u m reason db = (Inr (rr_id r), db\<lparr>at_register := tmodify rr_id (rr_id r) f (at_register db)\<rparr>) \<and>
      tfind row_slot (mark_slot m) (at_register db) = Some r \<and>
      (\<forall>x. rr_id (f x) = rr_id x \<and> row_slot (f x) = row_slot x \<and> rr_status (f x) = mk_status m))"
  by (auto simp: correctStudentAttendance_def tfind_def row_slot_def split: option.split)

text \<open>In a table with unique identifiers, changing the status of the row at a slot changes the map there only.\<close>

lemma tmodify_slot:
  assumes "pk rr_id t" "pk row_slot t" "tfind row_slot k t = Some r"
    and "\<And>x. rr_id (f x) = rr_id x" "\<And>x. row_slot (f x) = row_slot x" "\<And>x. rr_status (f x) = st"
  shows "map_option rr_status (tfind row_slot k' (tmodify rr_id (rr_id r) f t)) =
    (if k' = k then Some st else map_option rr_status (tfind row_slot k' t))"
proof -
  have r: "r \<in> set t" "row_slot r = k" using tfind_SomeD [OF assms(3)] by auto
  have same: "rr_id x = rr_id r \<longleftrightarrow> row_slot x = k" if "x \<in> set t" for x
  proof -
    have "inj_on rr_id (set t)" "inj_on row_slot (set t)" using assms(1,2) by (simp_all add: pk_def distinct_map)
    then have "rr_id x = rr_id r \<longleftrightarrow> x = r" "row_slot x = row_slot r \<longleftrightarrow> x = r" using that r(1) by (simp_all add: inj_on_eq_iff)
    then show ?thesis using r(2) by simp
  qed
  have "tfind row_slot k' (tmodify rr_id (rr_id r) f t) = map_option (\<lambda>x. if rr_id x = rr_id r then f x else x) (tfind row_slot k' t)"
    unfolding tmodify_def by (rule tfind_tupdate) (rule assms(5))
  moreover have "rr_id x = rr_id r \<longleftrightarrow> k' = k" if "tfind row_slot k' t = Some x" for x
    using tfind_SomeD [OF that] same [of x] by auto
  ultimately show ?thesis
    using assms(3,6) by (cases "tfind row_slot k' t") auto
qed

lemma register_map_append:
  assumes "tfind row_slot (row_slot r) (at_register db) = None"
  shows "register_map (db\<lparr>at_register := at_register db @ [r]\<rparr>) = (register_map db)(row_slot r \<mapsto> rr_status r)"
proof
  fix k show "register_map (db\<lparr>at_register := at_register db @ [r]\<rparr>) k = ((register_map db)(row_slot r \<mapsto> rr_status r)) k"
    using assms by (cases "tfind row_slot k (at_register db)") (auto simp: register_map_def tfind_append)
qed

lemma register_frame:
  assumes "at_register (snd (att_step q db)) = at_register db"
  shows "register_map (snd (att_step q db)) = register_map db" "register_ok db \<Longrightarrow> register_ok (snd (att_step q db))"
  using assms by (auto simp: register_map_def register_ok_def fun_eq_iff)

lemma other_register:
  "(case q of MarkPupil _ _ _ \<Rightarrow> False | CorrectPupil _ _ _ _ \<Rightarrow> False | _ \<Rightarrow> True) \<Longrightarrow>
   at_register (snd (att_step q db)) = at_register db \<and> seen_event (fst (att_step q db)) = None"
  by (cases q) (simp_all add: markStaffAttendance_def markStaffAttendanceWithManualCode_def register_frames save_config_def
      Let_def split: prod.split)

interpretation register: refinement att_step register_ok seen_event register_step register_map
proof
  fix q :: att_request and db :: att_db
  assume ok: "register_ok db"
  have visible: "register_ok (snd (att_step q db)) \<and>
     (case seen_event (fst (att_step q db)) of
        None \<Rightarrow> register_map (snd (att_step q db)) = register_map db
      | Some ev \<Rightarrow> register_step ev (register_map db) = Some (register_map (snd (att_step q db))))"
  proof (cases "case q of MarkPupil _ _ _ \<Rightarrow> False | CorrectPupil _ _ _ _ \<Rightarrow> False | _ \<Rightarrow> True")
    case True
    from other_register [OF this, of db] ok show ?thesis by (simp add: register_frame)
  next
    case False
    then consider (mark) e u m where "q = MarkPupil e u m" | (correct) e u m reason where "q = CorrectPupil e u m reason"
      by (cases q) auto
    then show ?thesis
    proof cases
      case mark
      from markStudent_cases [of e u m db] ok show ?thesis
        by (elim disjE exE conjE; simp add: mark)
          (simp add: register_ok_def pk_append register_map_append tfind_None_iff register_map_def [of db])
    next
      case correct
      from correctStudent_cases [of e u m reason db] show ?thesis
      proof (elim disjE exE conjE)
        fix x assume "correctStudentAttendance e u m reason db = (Inl x, db)"
        with ok show ?thesis by (simp add: correct)
      next
        fix r f assume c: "correctStudentAttendance e u m reason db = (Inr (rr_id r), db\<lparr>at_register := tmodify rr_id (rr_id r) f (at_register db)\<rparr>)"
          and r: "tfind row_slot (mark_slot m) (at_register db) = Some r"
          and f: "\<forall>x. rr_id (f x) = rr_id x \<and> row_slot (f x) = row_slot x \<and> rr_status (f x) = mk_status m"
        have "pk row_slot (tmodify rr_id (rr_id r) f (at_register db))"
          using ok f by (simp add: register_ok_def tmodify_def pk_tupdate)
        with ok f c r show ?thesis
          by (simp add: correct register_ok_def register_map_def fun_eq_iff tmodify_slot [where k = "mark_slot m" and st = "mk_status m"] pk_tmodify)
      qed
    qed
  qed
  then show "register_ok (snd (att_step q db))" by simp
  show "seen_event (fst (att_step q db)) = None \<Longrightarrow> register_map (snd (att_step q db)) = register_map db"
    using visible by simp
  show "seen_event (fst (att_step q db)) = Some ev \<Longrightarrow> register_step ev (register_map db) = Some (register_map (snd (att_step q db)))" for ev
    using visible by simp
qed

text \<open>C17: the register implements a write-once map: whatever requests come, from an empty register, the entries and
  corrections it confirms are accepted by the map machine in their order, and the register then stands for the map they give.\<close>

theorem register_refines_map:
  "replay register_step (events_of seen_event (answers att_step qs (db\<lparr>at_register := []\<rparr>))) Map.empty =
     Some (register_map (run_reqs att_step qs (db\<lparr>at_register := []\<rparr>)))"
proof -
  have start: "register_ok (db\<lparr>at_register := []\<rparr>)" "register_map (db\<lparr>at_register := []\<rparr>) = Map.empty"
    by (auto simp: register_ok_def register_map_def)
  from register.trace [OF start(1), of qs] show ?thesis by (simp only: start(2))
qed

subsection \<open>A member of the staff signs in once a day\<close>

definition is_verified :: "string \<Rightarrow> string \<Rightarrow> att_db \<Rightarrow> bool" where
  "is_verified u d db = list_ex (verified_on u d) (at_staff db)"

definition signed_in :: "string \<Rightarrow> string \<Rightarrow> att_answer \<Rightarrow> bool" where
  "signed_in u d a = (case a of StaffSignedIn (Inr (r, _)) \<Rightarrow> fr_staff r = u \<and> fr_date r = d | _ \<Rightarrow> False)"

lemma persist_keeps:
  "is_verified u d db \<Longrightarrow> \<not> (fr_staff r = u \<and> fr_date r = d) \<Longrightarrow> is_verified u d (snd (persistStaffAttendance e t r db))"
  by (auto simp: persistStaffAttendance_def is_verified_def verified_on_def list_ex_iff Let_def set_tdelete
      split: option.split dest!: tinsert_SomeD)

lemma persist_Inr:
  "persistStaffAttendance e t r db = (Inr (r', k), db') \<Longrightarrow> r' = r \<and> r \<in> set (at_staff db') \<and>
     at_bio db' = at_bio db \<and> at_org db' = at_org db \<and> k = verificationStatusCacheKey t (fr_staff r) (take 10 (fr_date r))"
  by (auto simp: persistStaffAttendance_def Let_def split: option.splits if_splits dest!: tinsert_SomeD)

lemma consume_staff: "at_staff (snd (consume_proof e t a p db)) = at_staff db"
  using regenerate_snd [of e db]
  by (auto simp: consume_proof_def consumeManualVerificationCode_def Let_def split: sign_in_proof.split prod.split)

lemma checks_not_verified: "sign_in_checks e actor staffId b p db = Inr () \<longleftrightarrow>
    actor = staffId \<and> isVerificationTarget (RArray (getStaffRoles db staffId)) (getAttendanceConfig db) \<and>
    isVerificationWindowOpen (getAttendanceConfig db) (ae_clock e) \<and> \<not> is_verified staffId (si_date b) db"
  by (auto simp: sign_in_checks_def assertVerificationWindow_def assertNotAlreadyVerified_def is_verified_def list_ex_iff
      find_None_iff Let_def split: sum.split)

text \<open>What a successful sign-in went through.\<close>

lemma signIn_Inr:
  assumes "signIn e d t actor b p db = (Inr (r, k), db')"
  obtains db1 place where "sign_in_checks e actor actor b p db = Inr ()" "or_else (si_staff b) actor = actor"
    "consume_proof e t actor p db = (Inr (), db1)" "sign_in_valid b p"
    "resolveStaffSignInLocation d (getAttendanceConfig db) (si_place b) (location_hint b p) = Inr place"
    "r = \<lparr>fr_id = ae_fresh e, fr_staff = actor, fr_date = si_date b, fr_status = si_status b, fr_signIn = ae_time e,
       fr_location = place, fr_verified = True, fr_by = actor\<rparr>"
    "r \<in> set (at_staff db')" "at_bio db' = at_bio db1" "at_org db' = at_org db1"
proof -
  let ?staff = "or_else (si_staff b) actor"
  from assms have valid: "sign_in_valid b p" and checks: "sign_in_checks e actor ?staff b p db = Inr ()"
    by (auto simp: signIn_def Let_def split: if_splits sum.splits)
  then have self: "?staff = actor" by (simp add: checks_not_verified)
  obtain x db1 where c: "consume_proof e t actor p db = (x, db1)" by (cases "consume_proof e t actor p db")
  with assms valid checks self obtain place where place: "x = Inr ()"
      "resolveStaffSignInLocation d (getAttendanceConfig db) (si_place b) (location_hint b p) = Inr place"
      "persistStaffAttendance e t \<lparr>fr_id = ae_fresh e, fr_staff = actor, fr_date = si_date b, fr_status = si_status b, fr_signIn = ae_time e,
       fr_location = place, fr_verified = True, fr_by = actor\<rparr> db1 = (Inr (r, k), db')"
    by (auto simp: signIn_def Let_def split: sum.splits)
  with persist_Inr [OF place(3)] that [of db1 place] valid checks self c show ?thesis by simp
qed

lemma signIn_keeps:
  assumes "is_verified u d db"
  shows "is_verified u d (snd (signIn e distance t actor b p db))"
proof (cases "sign_in_valid b p \<and> sign_in_checks e actor (or_else (si_staff b) actor) b p db = Inr ()")
  case True
  obtain x db1 where c: "consume_proof e t actor p db = (x, db1)" by (cases "consume_proof e t actor p db")
  then have kept: "is_verified u d db1" using assms consume_staff [of e t actor p db] by (simp add: is_verified_def)
  have other: "\<not> (or_else (si_staff b) actor = u \<and> si_date b = d)" using True assms by (auto simp: checks_not_verified)
  show ?thesis
    using True kept other by (auto simp: signIn_def Let_def c persist_keeps split: sum.split)
next
  case False
  with assms show ?thesis by (auto simp: signIn_def Let_def split: sum.split)
qed

lemma mark_absent_keeps: "is_verified u d db \<Longrightarrow> is_verified u d (snd (mark_absent e t fresh date c us n db))"
proof (induction us arbitrary: n db)
  case (Cons x us)
  show ?case
  proof (cases "isVerificationTarget (au_roles x) c \<and> \<not> list_ex (\<lambda>r. fr_staff r = au_id x \<and> fr_date r = date) (at_staff db)")
    case True
    let ?r = "absent_row (fresh (au_id x)) (ae_time e) (au_id x) date"
    obtain y db' where p: "persistStaffAttendance e t ?r db = (y, db')" by (cases "persistStaffAttendance e t ?r db")
    have "\<not> (au_id x = u \<and> date = d)" using True Cons.prems by (auto simp: is_verified_def verified_on_def list_ex_iff)
    then have "is_verified u d db'" using persist_keeps [OF Cons.prems, of ?r e t] p by (simp add: absent_row_def)
    with True p Cons.IH show ?thesis by (simp split: sum.split)
  qed (use Cons in simp)
qed simp

lemma finalize_keeps:
  assumes "is_verified u d db"
  shows "is_verified u d (snd (maybeFinalizeStaffDay e t fresh date actor db))"
proof -
  have "is_verified u d (snd (processEndOfDayAbsent e t fresh x db))" for x
    using assms by (simp add: processEndOfDayAbsent_def Let_def mark_absent_keeps)
  moreover obtain y db' where p: "processEndOfDayAbsent e t fresh (or_else date (sn_date (ae_clock e))) db = (y, db')"
    by (cases "processEndOfDayAbsent e t fresh (or_else date (sn_date (ae_clock e))) db")
  ultimately have "is_verified u d db'" by (metis snd_conv)
  with assms p show ?thesis
    by (simp add: maybeFinalizeStaffDay_def Let_def save_config_def is_verified_def split: sum.split)
qed

lemma other_staff:
  "(case q of SignInByAssertion _ _ _ _ _ _ \<Rightarrow> False | SignInByCode _ _ _ _ _ _ \<Rightarrow> False | FinalizeDay _ _ _ _ _ \<Rightarrow> False | _ \<Rightarrow> True) \<Longrightarrow>
   at_staff (snd (att_step q db)) = at_staff db"
  using markStudent_cases correctStudent_cases regenerate_snd
  by (cases q) (fastforce simp: markStudentAttendance_def correctStudentAttendance_def getManualVerificationCode_def
      regenerateManualVerificationCode_def save_config_def Let_def split: sum.split option.split prod.split)+

lemma verified_step:
  assumes "is_verified u d db"
  shows "is_verified u d (snd (att_step q db))"
proof (cases "case q of SignInByAssertion _ _ _ _ _ _ \<Rightarrow> False | SignInByCode _ _ _ _ _ _ \<Rightarrow> False | FinalizeDay _ _ _ _ _ \<Rightarrow> False | _ \<Rightarrow> True")
  case True
  from other_staff [OF this, of db] assms show ?thesis by (simp add: is_verified_def)
next
  case False
  with assms show ?thesis
    by (cases q) (simp_all add: markStaffAttendance_def markStaffAttendanceWithManualCode_def signIn_keeps finalize_keeps)
qed

lemma signed_in_step:
  assumes "signed_in u d (fst (att_step q db))"
  shows "\<not> is_verified u d db" "is_verified u d (snd (att_step q db))"
proof -
  from assms obtain e distance t actor b p r k where q: "att_step q db = map_prod StaffSignedIn id (signIn e distance t actor b p db)"
      "fst (signIn e distance t actor b p db) = Inr (r, k)" "fr_staff r = u" "fr_date r = d"
    by (cases q) (auto simp: signed_in_def markStaffAttendance_def markStaffAttendanceWithManualCode_def Let_def split: sum.splits prod.splits)
  then obtain db' where s: "signIn e distance t actor b p db = (Inr (r, k), db')" by (cases "signIn e distance t actor b p db") auto
  obtain place where c: "sign_in_checks e actor actor b p db = Inr ()"
      "r = \<lparr>fr_id = ae_fresh e, fr_staff = actor, fr_date = si_date b, fr_status = si_status b, fr_signIn = ae_time e,
       fr_location = place, fr_verified = True, fr_by = actor\<rparr>" "r \<in> set (at_staff db')"
    using signIn_Inr [OF s] by metis
  with q(3,4) have "actor = u" "si_date b = d" by simp_all
  with c(1) show "\<not> is_verified u d db" by (simp add: checks_not_verified)
  from c q(3,4) have "verified_on u d r" by (simp add: verified_on_def)
  with c(3) show "is_verified u d (snd (att_step q db))" by (auto simp: q(1) s is_verified_def list_ex_iff)
qed

interpretation verification: one_shot att_step "\<lambda>_. True" "is_verified u d" "signed_in u d" for u d
  by unfold_locales (auto simp: verified_step dest: signed_in_step)


text \<open>C18: who is signed in is the actor himself, has a role the school verifies, is within the window of a business day, was
  not signed in for the date, and gave a proof that is now used: an assertion made for him in his tenant, in time and for
  this purpose, or the school's current code, which has been replaced.\<close>

theorem sign_in_sound:
  assumes "signIn e distance t actor b p db = (Inr (r, k), db')"
  shows "fr_staff r = actor \<and> r \<in> set (at_staff db') \<and> isVerificationTarget (RArray (getStaffRoles db actor)) (getAttendanceConfig db) \<and>
    isVerificationWindowOpen (getAttendanceConfig db) (ae_clock e) \<and> \<not> is_verified actor (fr_date r) db \<and>
    (case p of
       ByAssertion i \<Rightarrow> (\<exists>a. (i, a) \<in> set (bo_assertions (at_bio db)) \<and> as_user a = actor \<and> as_tenant a = t \<and> ae_now e \<le> as_expires a \<and>
          purpose_matches (as_purpose a) ''staff_attendance'') \<and> mget i (bo_assertions (at_bio db')) = None
     | ByCode code \<Rightarrow> (\<exists>c. ac_manualCode (getAttendanceConfig db) = Some c \<and> c \<noteq> [] \<and> trim c = trim code) \<and>
          ac_manualCode (getAttendanceConfig db') = Some (ae_code e))"
proof -
  from assms obtain db1 place where s: "sign_in_checks e actor actor b p db = Inr ()" "consume_proof e t actor p db = (Inr (), db1)"
      "r = \<lparr>fr_id = ae_fresh e, fr_staff = actor, fr_date = si_date b, fr_status = si_status b, fr_signIn = ae_time e,
       fr_location = place, fr_verified = True, fr_by = actor\<rparr>" "r \<in> set (at_staff db')" "at_bio db' = at_bio db1" "at_org db' = at_org db1"
    by (rule signIn_Inr)
  show ?thesis
  proof (cases p)
    case (ByAssertion i)
    with s(2) have "consumeAssertion (ae_now e) i t actor ''staff_attendance'' (at_bio db) = (Inr (), at_bio db')"
      by (auto simp: consume_proof_def s(5) split: prod.splits)
    from assertion_bound [OF this] s(1,3,4) show ?thesis
      by (auto simp: ByAssertion checks_not_verified)
  next
    case (ByCode code)
    with s(2) have "consumeManualVerificationCode e code db = (Inr (), db1)" by (simp add: consume_proof_def)
    then have used: "trim (or_else (ac_manualCode (getAttendanceConfig db)) []) = trim code" "trim code \<noteq> []"
        "ac_manualCode (getAttendanceConfig db1) = Some (ae_code e)"
      by (auto simp: consumeManualVerificationCode_def regenerateManualVerificationCode_def save_config_def Let_def
          getAttendanceConfig_def [of "_\<lparr>at_org := _\<rparr>"] split: if_splits)
    have "trim [] = []" by (simp add: trim_def)
    with used(1,2) obtain c where "ac_manualCode (getAttendanceConfig db) = Some c" "c \<noteq> []" "trim c = trim code"
      by (cases "or_null (ac_manualCode (getAttendanceConfig db))") (auto simp: or_else_def or_null_Some_iff)
    moreover have "getAttendanceConfig db' = getAttendanceConfig db1" by (simp add: getAttendanceConfig_def s(6))
    ultimately show ?thesis using s(1,3,4) used(3) by (simp add: ByCode checks_not_verified)
  qed
qed

definition sample_clock :: school_now where
  "sample_clock = \<lparr>sn_date = ''2025-01-06'', sn_weekday = 1, sn_minute = 480\<rparr>"

definition sample_att_env :: att_env where
  "sample_att_env = \<lparr>ae_now = 1000, ae_clock = sample_clock, ae_time = ''8:00:00 AM'', ae_fresh = ''att_1'',
     ae_code = ''11111111111111111111'', ae_notified = True, ae_synced = True\<rparr>"

definition sample_att :: att_db where
  "sample_att = \<lparr>at_users = [\<lparr>au_id = ''t1'', au_name = ''Ada'', au_email = ''ada@s.ng'', au_phone = None,
        au_roles = RArray [''class_teacher''], au_level = None\<rparr>],
     at_scope = nobody, at_terms = [], at_register = [], at_staff = [],
     at_org = Some (Some (no_config\<lparr>ac_sessionStart := Some ''07:30'', ac_sessionEnd := Some ''15:00'', ac_manualCode := Some ''01234567890123456789''\<rparr>)),
     at_bio = \<lparr>bo_register = [], bo_auth = [], bo_assertions = [], bo_credentials = []\<rparr>, at_notes = []\<rparr>"

definition sample_sign_in :: sign_in where
  "sample_sign_in = \<lparr>si_staff = None, si_date = ''2025-01-06'', si_status = ''present'', si_location = None, si_place = None\<rparr>"

lemma sample_signs_in_today:
  "(case signIn sample_att_env (\<lambda>a b c d. 0) ''school'' ''t1'' sample_sign_in (ByCode ''01234567890123456789'') sample_att of
      (Inr (r, _), _) \<Rightarrow> fr_location r = ''Manual code verified'' | _ \<Rightarrow> False)"
  by code_simp

theorem sign_in_sound_witness:
  "\<exists>r k db'. signIn sample_att_env (\<lambda>a b c d. 0) ''school'' ''t1'' sample_sign_in (ByCode ''01234567890123456789'') sample_att = (Inr (r, k), db') \<and>
     fr_staff r = ''t1'' \<and> ac_manualCode (getAttendanceConfig db') = Some ''11111111111111111111''"
proof -
  obtain r k db' where s: "signIn sample_att_env (\<lambda>a b c d. 0) ''school'' ''t1'' sample_sign_in (ByCode ''01234567890123456789'') sample_att = (Inr (r, k), db')"
    using sample_signs_in_today by (auto split: prod.splits sum.splits)
  from sign_in_sound [OF s] s show ?thesis by (simp add: sample_att_env_def)
qed

subsection \<open>What the code lets happen\<close>

text \<open>The correction takes a status no entry can have.\<close>

lemma correction_takes_any_status:
  assumes "tfind row_slot (mark_slot m) (at_register db) = Some r" and "trim reason \<noteq> []" and "mk_status m = ''holiday''"
  shows "fst (correctStudentAttendance e u m (Some reason) db) = Inr (rr_id r)"
  using assms by (simp add: correctStudentAttendance_def tfind_def)

text \<open>A level other than \<open>all\<close> empties the staff list, whoever works at that level.\<close>

lemma level_empties_staff_list:
  "normalizeSchoolLevel level \<noteq> [] \<Longrightarrow> normalizeSchoolLevel level \<noteq> ''all'' \<Longrightarrow> listStaffAttendance now date weekday level db = []"
  by (simp add: listStaffAttendance_def Let_def att_levelMatches_def normalizeSchoolLevel_def [of None] or_else_def trim_def toLowerCase_def)

text \<open>A code is used up when the location is then refused.\<close>

lemma refused_location_burns_code:
  assumes "sign_in_valid b (ByCode code)" and "sign_in_checks e u (or_else (si_staff b) u) b (ByCode code) db = Inr ()"
    and "consumeManualVerificationCode e code db = (Inr (), db1)"
    and "ac_requireLocation (getAttendanceConfig db)" and "ac_locations (getAttendanceConfig db) \<noteq> []" and "si_place b = None"
  shows "snd (signIn e distance t u b (ByCode code) db) = db1" and "\<not> is_ok (fst (signIn e distance t u b (ByCode code) db))"
  using assms by (simp_all add: signIn_def consume_proof_def resolveStaffSignInLocation_def)

end
