(* ===== verification/AbsenceAlerts.thy ===== *)
theory AbsenceAlerts
  imports Attendance
begin

section \<open>Absence alerts\<close>

text \<open>
  \<open>attendance/absence-alerts.service.ts\<close>: the settings of the alerts and the scan of the register.  Times are
  milliseconds.  Whether a notification can be written and a message sent is asked of two functions; the scan reads the
  groups of its query in the order of each pupil's first absence.
\<close>

record alert_config =
  al_threshold :: int
  al_window :: int
  al_parents :: bool
  al_staff :: bool

record alert_row =
  ar_id :: string
  ar_student :: string
  ar_count :: int
  ar_sent :: int

datatype alert_message = Note string string | Sms string string | Mail string string

record alert_db =
  ad_att :: att_db
  ad_config :: "alert_config option"
  ad_sent :: "alert_row list"
  ad_out :: "alert_message list"

definition default_alerts :: alert_config where
  "default_alerts = \<lparr>al_threshold = 3, al_window = 14, al_parents = True, al_staff = True\<rparr>"

definition getConfig :: "alert_db \<Rightarrow> alert_config" where
  "getConfig db = (case ad_config db of Some c \<Rightarrow> c | None \<Rightarrow> default_alerts)"

record alert_patch =
  ap_threshold :: "int option"
  ap_window :: "int option"
  ap_parents :: "bool option"
  ap_staff :: "bool option"

definition given :: "'a option \<Rightarrow> 'a \<Rightarrow> 'a" where
  "given x d = (case x of Some y \<Rightarrow> y | None \<Rightarrow> d)"

definition merge_alerts :: "alert_patch \<Rightarrow> alert_config \<Rightarrow> alert_config" where
  "merge_alerts p c = \<lparr>al_threshold = given (ap_threshold p) (al_threshold c), al_window = given (ap_window p) (al_window c),
     al_parents = given (ap_parents p) (al_parents c), al_staff = given (ap_staff p) (al_staff c)\<rparr>"

definition setConfig :: "call \<Rightarrow> alert_patch \<Rightarrow> alert_db \<Rightarrow> alert_config result \<times> alert_db" where
  "setConfig c p db = with_service ''attendance.absence_alerts'' c db (\<lambda>db.
     let next_config = merge_alerts p (getConfig db) in (Inr next_config, db\<lparr>ad_config := Some next_config\<rparr>))"

definition day_ms :: int where
  "day_ms = 86400000"

text \<open>\<open>Math.max(1, Number(config.windowDays) || 14)\<close>\<close>

definition window_of :: "alert_config \<Rightarrow> int" where
  "window_of c = max 1 (if al_window c = 0 then 14 else al_window c)"

text \<open>The absences of the scan, counted by the day they were entered.\<close>

definition absences :: "int \<Rightarrow> att_db \<Rightarrow> string list" where
  "absences since db = map rr_student (filter (\<lambda>r. toLowerCase (rr_status r) = ''absent'' \<and> since \<le> rr_created r) (at_register db))"

definition absence_groups :: "int \<Rightarrow> int \<Rightarrow> att_db \<Rightarrow> (string \<times> int) list" where
  "absence_groups since threshold db = (let xs = absences since db in
     filter (\<lambda>(_, n). threshold \<le> n) (map (\<lambda>s. (s, int (length (filter ((=) s) xs)))) (js_uniq xs)))"

definition alerted_since :: "int \<Rightarrow> string \<Rightarrow> alert_row list \<Rightarrow> bool" where
  "alerted_since t student rows = list_ex (\<lambda>r. ar_student r = student \<and> t \<le> ar_sent r) rows"

text \<open>The messages to one parent: a text and then a mail, where an error of the first skips the second.\<close>

definition parent_messages :: "(alert_message \<Rightarrow> bool) \<Rightarrow> att_db \<Rightarrow> string \<Rightarrow> string \<Rightarrow> alert_message list" where
  "parent_messages works db parentId msg = (case tfind au_id parentId (at_users db) of
      None \<Rightarrow> []
    | Some u \<Rightarrow>
        let sms = (if truthy (au_phone u) then [Sms (the (au_phone u)) msg] else []);
            mail = (if au_email u \<noteq> [] then [Mail (au_email u) msg] else []) in
        if list_all works sms then filter works (sms @ mail) else [])"

primrec notify_linked :: "(string \<Rightarrow> bool) \<Rightarrow> (alert_message \<Rightarrow> bool) \<Rightarrow> string \<Rightarrow> string list \<Rightarrow> alert_db \<Rightarrow> unit result \<times> alert_db" where
  "notify_linked noted works msg [] db = (Inr (), db)"
| "notify_linked noted works msg (p # ps) db =
     (if \<not> noted p then (Inl DbError, db)
      else notify_linked noted works msg ps (db\<lparr>ad_out := ad_out db @ Note p msg # parent_messages works (ad_att db) p msg\<rparr>))"

record alert_env =
  le_now :: int
  le_fresh :: "string \<Rightarrow> string"
  le_noted :: "string \<Rightarrow> bool"
  le_works :: "alert_message \<Rightarrow> bool"
  le_text :: "string \<Rightarrow> int \<Rightarrow> int \<Rightarrow> string"

definition alert_student :: "alert_env \<Rightarrow> alert_config \<Rightarrow> string \<times> int \<Rightarrow> alert_db \<Rightarrow> bool result \<times> alert_db" where
  "alert_student e c g db = (case g of (student, n) \<Rightarrow>
     if alerted_since (le_now e - 7 * day_ms) student (ad_sent db) then (Inr False, db)
     else (let linked = map fst (filter (\<lambda>(_, s). s = student) (parent_links (at_scope (ad_att db)))) in
       case (if al_parents c then notify_linked (le_noted e) (le_works e) (le_text e student n (al_window c)) linked db else (Inr (), db)) of
         (Inl x, db') \<Rightarrow> (Inl x, db')
       | (Inr _, db') \<Rightarrow>
           (case tinsert ar_id \<lparr>ar_id = le_fresh e student, ar_student = student, ar_count = n, ar_sent = le_now e\<rparr> (ad_sent db') of
              None \<Rightarrow> (Inl DbError, db')
            | Some t \<Rightarrow> (Inr True, db'\<lparr>ad_sent := t\<rparr>))))"

primrec alert_all :: "alert_env \<Rightarrow> alert_config \<Rightarrow> (string \<times> int) list \<Rightarrow> (string \<times> int) list \<Rightarrow> alert_db \<Rightarrow> (string \<times> int) list result \<times> alert_db" where
  "alert_all e c [] alerts db = (Inr alerts, db)"
| "alert_all e c (g # gs) alerts db = (case alert_student e c g db of
      (Inl x, db') \<Rightarrow> (Inl x, db')
    | (Inr sent, db') \<Rightarrow> alert_all e c gs (if sent then alerts @ [g] else alerts) db')"

definition run_alerts :: "call \<Rightarrow> alert_env \<Rightarrow> alert_db \<Rightarrow> (string \<times> int) list result \<times> alert_db" where
  "run_alerts c e db = with_service ''attendance.absence_alerts'' c db (\<lambda>db.
     let cfg = getConfig db in
     alert_all e cfg (absence_groups (le_now e - window_of cfg * day_ms) (al_threshold cfg) (ad_att db)) [] db)"

subsection \<open>Whom a scan alerts\<close>

lemma notify_linked_frame:
  "ad_sent (snd (notify_linked noted works msg ps db)) = ad_sent db \<and> ad_att (snd (notify_linked noted works msg ps db)) = ad_att db \<and>
   ad_config (snd (notify_linked noted works msg ps db)) = ad_config db"
  by (induction ps arbitrary: db) simp_all

lemma alert_student_sent:
  assumes "alert_student e c (student, n) db = (Inr True, db')"
  shows "\<not> alerted_since (le_now e - 7 * day_ms) student (ad_sent db)"
    and "\<exists>r. ad_sent db' = ad_sent db @ [r] \<and> ar_student r = student \<and> ar_sent r = le_now e"
proof -
  have frame: "ad_sent x = ad_sent db" if "notify_linked (le_noted e) (le_works e) msg ps db = (r, x)" for msg ps r x
    using notify_linked_frame [of "le_noted e" "le_works e" msg ps db] that by simp
  from assms show "\<not> alerted_since (le_now e - 7 * day_ms) student (ad_sent db)" by (auto simp: alert_student_def)
  from assms show "\<exists>r. ad_sent db' = ad_sent db @ [r] \<and> ar_student r = student \<and> ar_sent r = le_now e"
    by (auto simp: alert_student_def Let_def split: if_splits prod.splits sum.splits option.splits dest!: tinsert_SomeD frame)
qed

lemma alert_student_grows: "set (ad_sent db) \<subseteq> set (ad_sent (snd (alert_student e c g db)))"
proof -
  have "ad_sent x = ad_sent db" if "notify_linked (le_noted e) (le_works e) msg ps db = (r, x)" for msg ps r x
    using notify_linked_frame [of "le_noted e" "le_works e" msg ps db] that by simp
  then show ?thesis
    by (cases g) (auto simp: alert_student_def Let_def split: prod.split sum.split option.split dest!: tinsert_SomeD)
qed

lemma alerted_mono: "set xs \<subseteq> set ys \<Longrightarrow> alerted_since t s xs \<Longrightarrow> alerted_since t s ys"
  by (auto simp: alerted_since_def list_ex_iff)

text \<open>A pupil alerted in the last week is not alerted by a scan, and a scan alerts a pupil at most once.\<close>

lemma alert_all_fresh:
  assumes "alert_all e c gs alerts db = (Inr out, db')"
  shows "\<exists>new. out = alerts @ new \<and> set new \<subseteq> set gs \<and> (\<forall>(s, n)\<in>set new. \<not> alerted_since (le_now e - 7 * day_ms) s (ad_sent db)) \<and>
    distinct (map fst new)"
  using assms
proof (induction gs arbitrary: alerts db)
  case (Cons g gs)
  obtain s n where g: "g = (s, n)" by (cases g)
  obtain sent db1 where step: "alert_student e c g db = (Inr sent, db1)"
    and rest: "alert_all e c gs (if sent then alerts @ [g] else alerts) db1 = (Inr out, db')"
    using Cons.prems by (auto split: prod.splits sum.splits)
  obtain new where new: "out = (if sent then alerts @ [g] else alerts) @ new" "set new \<subseteq> set gs"
      "\<forall>(s, n)\<in>set new. \<not> alerted_since (le_now e - 7 * day_ms) s (ad_sent db1)" "distinct (map fst new)"
    using Cons.IH [OF rest] by blast
  have older: "\<not> alerted_since (le_now e - 7 * day_ms) s' (ad_sent db)" if "(s', n') \<in> set new" for s' n'
    using new(3) that alerted_mono [of "ad_sent db" "ad_sent db1"] alert_student_grows [of db e c g] step by fastforce
  show ?case
  proof (cases sent)
    case True
    with step g have not: "\<not> alerted_since (le_now e - 7 * day_ms) s (ad_sent db)" "alerted_since (le_now e - 7 * day_ms) s (ad_sent db1)"
      using alert_student_sent [of e c s n db db1] by (auto simp: alerted_since_def day_ms_def)
    have "s \<notin> fst ` set new" using new(3) not(2) by fastforce
    with True new not(1) older g show ?thesis by (intro exI [of _ "g # new"]) auto
  next
    case False
    with new older show ?thesis by (intro exI [of _ new]) auto
  qed
qed simp

lemma absence_groups_count:
  "(s, n) \<in> set (absence_groups since k db) \<Longrightarrow>
     k \<le> n \<and> n = int (length (filter (\<lambda>r. rr_student r = s \<and> toLowerCase (rr_status r) = ''absent'' \<and> since \<le> rr_created r) (at_register db)))"
proof -
  assume a: "(s, n) \<in> set (absence_groups since k db)"
  have "filter ((=) s) (absences since db) =
      map rr_student (filter (\<lambda>r. rr_student r = s \<and> toLowerCase (rr_status r) = ''absent'' \<and> since \<le> rr_created r) (at_register db))"
    by (simp add: absences_def filter_map comp_def conj_commute conj_left_commute eq_commute)
  then have "length (filter ((=) s) (absences since db)) = length (filter (\<lambda>r. rr_student r = s \<and> toLowerCase (rr_status r) = ''absent'' \<and> since \<le> rr_created r) (at_register db))"
    by simp
  with a show ?thesis by (auto simp: absence_groups_def Let_def)
qed

text \<open>a scan alerts each pupil at most once, only for as many absences as the threshold entered within the window,
  and never a pupil an alert was sent for in the last week.\<close>

theorem alerts_justified:
  assumes "run_alerts c e db = (Inr alerts, db')"
  shows "distinct (map fst alerts) \<and> (\<forall>(s, n)\<in>set alerts. al_threshold (getConfig db) \<le> n \<and>
      n = int (length (filter (\<lambda>r. rr_student r = s \<and> toLowerCase (rr_status r) = ''absent'' \<and>
        le_now e - window_of (getConfig db) * day_ms \<le> rr_created r) (at_register (ad_att db)))) \<and>
      \<not> alerted_since (le_now e - 7 * day_ms) s (ad_sent db))"
proof -
  let ?gs = "absence_groups (le_now e - window_of (getConfig db) * day_ms) (al_threshold (getConfig db)) (ad_att db)"
  from assms have "alert_all e (getConfig db) ?gs [] db = (Inr alerts, db')"
    by (simp add: run_alerts_def with_service_def Let_def split: if_splits)
  from alert_all_fresh [OF this]
  have facts: "set alerts \<subseteq> set ?gs" "\<forall>(s, n)\<in>set alerts. \<not> alerted_since (le_now e - 7 * day_ms) s (ad_sent db)" "distinct (map fst alerts)"
    by auto
  then show ?thesis using absence_groups_count by fast
qed

definition absent_on :: "string \<Rightarrow> string \<Rightarrow> register_row" where
  "absent_on k d = \<lparr>rr_id = k, rr_student = ''s1'', rr_class = None, rr_date = d, rr_status = ''absent'', rr_by = ''t1'',
     rr_correctedBy = None, rr_reason = None, rr_correctedAt = None, rr_created = 1000\<rparr>"

definition sample_alerts :: alert_db where
  "sample_alerts = \<lparr>ad_att = sample_att\<lparr>at_register := [absent_on ''a'' ''1'', absent_on ''b'' ''2'', absent_on ''c'' ''3'']\<rparr>,
     ad_config = None, ad_sent = [], ad_out = []\<rparr>"

definition sample_alert_env :: alert_env where
  "sample_alert_env = \<lparr>le_now = 2000, le_fresh = (\<lambda>s. ''aal_'' @ s), le_noted = (\<lambda>_. True), le_works = (\<lambda>_. True), le_text = (\<lambda>s n w. s)\<rparr>"

lemma sample_scan: "fst (run_alerts \<lparr>feature_on = True, tenant_found = True\<rparr> sample_alert_env sample_alerts) = Inr [(''s1'', 3)]"
  by code_simp

theorem alerts_justified_witness:
  "\<exists>db'. run_alerts \<lparr>feature_on = True, tenant_found = True\<rparr> sample_alert_env sample_alerts = (Inr [(''s1'', 3)], db') \<and>
     al_threshold (getConfig sample_alerts) \<le> 3"
proof -
  obtain db' where s: "run_alerts \<lparr>feature_on = True, tenant_found = True\<rparr> sample_alert_env sample_alerts = (Inr [(''s1'', 3)], db')"
    using sample_scan by (metis prod.collapse)
  from alerts_justified [OF s] s show ?thesis by simp
qed

text \<open>A notification that fails for the second parent stops the scan before the alert is recorded: the next scan notifies
  the first parent again.\<close>

lemma failed_notice_repeats:
  assumes "al_parents c" and "\<not> alerted_since (le_now e - 7 * day_ms) s (ad_sent db)"
    and "map fst (filter (\<lambda>(_, x). x = s) (parent_links (at_scope (ad_att db)))) = [p, q]" and "le_noted e p" and "\<not> le_noted e q"
  shows "\<exists>db'. alert_student e c (s, n) db = (Inl DbError, db') \<and> ad_sent db' = ad_sent db \<and>
    Note p (le_text e s n (al_window c)) \<in> set (ad_out db')"
  using assms by (simp add: alert_student_def Let_def)

end
