(* ===== verification/Payroll.thy ===== *)
theory Payroll
  imports SchoolLevel
begin

section \<open>Payroll and budgets\<close>

text \<open>
  \<open>finance/payroll/payroll.service.ts\<close> and \<open>finance/budgets/budgets.service.ts\<close>.  The bodies are not checked by a
  validation class; amounts are given as rationals (the numbers of the body, exact).  A column \<open>decimal(15,2)\<close> rounds
  half away from zero to two places and refuses more than thirteen digits before them.
\<close>

definition sql_money :: "rat \<Rightarrow> rat option" where
  "sql_money x = (let y = sgn x * round2 \<bar>x\<bar> in if \<bar>y\<bar> < 10 ^ 13 then Some y else None)"

record pay_line =
  pl_staff :: string
  pl_gross :: rat
  pl_paye :: "rat option"
  pl_allowances :: "rat option"
  pl_deductions :: "rat option"

record run_body =
  pb_title :: "string option"
  pb_start :: string
  pb_end :: string
  pb_currency :: "string option"
  pb_lines :: "pay_line list"
  pb_salary :: "string option"
  pb_operating :: "string option"

record pay_run =
  pr_id :: string
  pr_title :: string
  pr_start :: string
  pr_end :: string
  pr_status :: string
  pr_gross :: rat
  pr_net :: rat
  pr_salary :: "string option"
  pr_operating :: "string option"
  pr_approvedBy :: "string option"
  pr_approvedAt :: "int option"
  pr_currency :: string
  pr_createdAt :: int

record paye_row =
  py_id :: string
  py_run :: string
  py_staff :: string
  py_gross :: rat
  py_paye :: rat
  py_allowances :: rat
  py_deductions :: rat
  py_net :: rat

record payroll_db =
  pay_scope :: scope_db
  pay_runs :: "pay_run list"
  pay_lines :: "paye_row list"

definition payrollNet :: "rat \<Rightarrow> rat \<Rightarrow> rat \<Rightarrow> rat option \<Rightarrow> rat \<times> rat" where
  "payrollNet gross allowances deductions paye =
     (let tax = (case paye of None \<Rightarrow> max 0 ((gross + allowances - deductions) * (1 / 10)) | Some t \<Rightarrow> t) in
      (tax, gross + allowances - deductions - tax))"

definition canAdvancePayrollStatus :: "string \<Rightarrow> string \<Rightarrow> bool" where
  "canAdvancePayrollStatus status next_status =
     (if next_status = ''approved'' then status = ''draft'' else status = ''approved'')"

definition payroll_roles :: "string list" where
  "payroll_roles = [''director'', ''school_admin'', ''it_admin'', ''principal'', ''bursar'', ''administrative_staff'']"

definition payroll_assertAccess :: "scope_db \<Rightarrow> string \<Rightarrow> unit result" where
  "payroll_assertAccess sc actorId =
     require_that (NotFound ''Payroll access is restricted to authorized finance staff'')
       (has_any_role (getUserRoles sc actorId) payroll_roles)"

definition or_zero :: "rat option \<Rightarrow> rat" where
  "or_zero x = (case x of Some y \<Rightarrow> y | None \<Rightarrow> 0)"

definition line_net :: "pay_line \<Rightarrow> rat \<times> rat" where
  "line_net l = payrollNet (pl_gross l) (or_zero (pl_allowances l)) (or_zero (pl_deductions l)) (pl_paye l)"

definition line_valid :: "pay_line \<Rightarrow> bool" where
  "line_valid l = (pl_staff l \<noteq> [] \<and> 0 < pl_gross l \<and> 0 \<le> or_zero (pl_allowances l) \<and> 0 \<le> or_zero (pl_deductions l) \<and>
     0 \<le> fst (line_net l))"

definition run_check :: "run_body \<Rightarrow> unit result" where
  "run_check b =
     (if trim (case pb_title b of Some t \<Rightarrow> t | None \<Rightarrow> []) = [] \<or> pb_start b = [] \<or> pb_end b = [] \<or> pb_end b < pb_start b
      then Inl (NotFound ''Payroll period is invalid'')
      else require_that (NotFound ''Payroll employee line is invalid'') (list_all line_valid (pb_lines b)))"

definition total_gross :: "pay_line list \<Rightarrow> rat" where
  "total_gross ls = sum_list (map (\<lambda>l. pl_gross l + or_zero (pl_allowances l)) ls)"

definition total_net :: "pay_line list \<Rightarrow> rat" where
  "total_net ls = sum_list (map (\<lambda>l. pl_gross l + or_zero (pl_allowances l) - or_zero (pl_deductions l) - fst (line_net l)) ls)"

definition run_row :: "int \<Rightarrow> string \<Rightarrow> run_body \<Rightarrow> pay_run option" where
  "run_row now fresh b = (case (sql_money (total_gross (pb_lines b)), sql_money (total_net (pb_lines b))) of
      (Some g, Some n) \<Rightarrow>
        if width_of 255 (map_option trim (pb_title b)) \<and> width_of 32 (Some (pb_start b)) \<and> width_of 32 (Some (pb_end b)) \<and>
           width_of 255 (pb_salary b) \<and> width_of 255 (pb_operating b) \<and> width_of 8 (pb_currency b)
        then Some \<lparr>pr_id = fresh, pr_title = trim (case pb_title b of Some t \<Rightarrow> t | None \<Rightarrow> []), pr_start = pb_start b, pr_end = pb_end b,
          pr_status = ''draft'', pr_gross = g, pr_net = n, pr_salary = or_null (pb_salary b), pr_operating = or_null (pb_operating b),
          pr_approvedBy = None, pr_approvedAt = None, pr_currency = or_else (pb_currency b) ''NGN'', pr_createdAt = now\<rparr>
        else None
    | _ \<Rightarrow> None)"

definition paye_row_of :: "string \<Rightarrow> string \<Rightarrow> pay_line \<Rightarrow> paye_row option" where
  "paye_row_of fresh run l =
     (case (sql_money (pl_gross l), sql_money (fst (line_net l)), sql_money (or_zero (pl_allowances l)),
            sql_money (or_zero (pl_deductions l)), sql_money (snd (line_net l))) of
        (Some g, Some p, Some a, Some d, Some n) \<Rightarrow>
          if width_of 64 (Some (pl_staff l)) then Some \<lparr>py_id = fresh, py_run = run, py_staff = pl_staff l, py_gross = g, py_paye = p,
            py_allowances = a, py_deductions = d, py_net = n\<rparr> else None
      | _ \<Rightarrow> None)"

text \<open>The lines are inserted one by one; an error leaves the run and the lines before it.\<close>

primrec insert_lines :: "(nat \<Rightarrow> string) \<Rightarrow> nat \<Rightarrow> string \<Rightarrow> pay_line list \<Rightarrow> payroll_db \<Rightarrow> unit result \<times> payroll_db" where
  "insert_lines fresh i run [] db = (Inr (), db)"
| "insert_lines fresh i run (l # ls) db = (case paye_row_of (fresh i) run l of
      None \<Rightarrow> (Inl DbError, db)
    | Some r \<Rightarrow> (case tinsert py_id r (pay_lines db) of
          None \<Rightarrow> (Inl DbError, db)
        | Some t \<Rightarrow> insert_lines fresh (Suc i) run ls (db\<lparr>pay_lines := t\<rparr>)))"

definition createRun_body :: "int \<Rightarrow> string \<Rightarrow> (nat \<Rightarrow> string) \<Rightarrow> string \<Rightarrow> run_body \<Rightarrow> payroll_db \<Rightarrow> (string \<times> rat) result \<times> payroll_db" where
  "createRun_body now fresh freshes actorId b db =
     (case and_then (payroll_assertAccess (pay_scope db) actorId) (run_check b) of
        Inl e \<Rightarrow> (Inl e, db)
      | Inr _ \<Rightarrow> (case Option.bind (run_row now fresh b) (\<lambda>r. tinsert pr_id r (pay_runs db)) of
            None \<Rightarrow> (Inl DbError, db)
          | Some t \<Rightarrow> (case insert_lines freshes 0 fresh (pb_lines b) (db\<lparr>pay_runs := t\<rparr>) of
                (Inl e, db') \<Rightarrow> (Inl e, db')
              | (Inr _, db') \<Rightarrow> (Inr (fresh, total_gross (pb_lines b)), db'))))"

definition createRun :: "call \<Rightarrow> int \<Rightarrow> string \<Rightarrow> (nat \<Rightarrow> string) \<Rightarrow> string \<Rightarrow> run_body \<Rightarrow> payroll_db \<Rightarrow> (string \<times> rat) result \<times> payroll_db" where
  "createRun c now fresh freshes actorId b db = with_service ''finance.payroll_paye'' c db (createRun_body now fresh freshes actorId b)"

text \<open>The status checks of the two steps; the value is nothing, the error the first that applies.\<close>

definition advance_check :: "string \<Rightarrow> string \<Rightarrow> string \<Rightarrow> payroll_db \<Rightarrow> unit result" where
  "advance_check actorId runId next_status db =
     and_then (payroll_assertAccess (pay_scope db) actorId)
       (case tfind pr_id runId (pay_runs db) of
          None \<Rightarrow> Inl (NotFound ''Payroll run not found'')
        | Some r \<Rightarrow>
            if \<not> canAdvancePayrollStatus (pr_status r) next_status
            then Inl (NotFound (if next_status = ''approved'' then ''Only draft payroll runs can be approved'' else ''Payroll must be approved first''))
            else if next_status = ''payout_ready'' \<and> \<not> truthy (pr_salary r) then Inl (NotFound ''Salary account reference is required'')
            else Inr ())"

definition approveRun :: "call \<Rightarrow> int \<Rightarrow> string \<Rightarrow> string \<Rightarrow> payroll_db \<Rightarrow> string result \<times> payroll_db" where
  "approveRun c now actorId runId db = with_service ''finance.payroll_paye'' c db (\<lambda>db.
     case advance_check actorId runId ''approved'' db of
       Inl e \<Rightarrow> (Inl e, db)
     | Inr _ \<Rightarrow> (Inr runId, db\<lparr>pay_runs := tmodify pr_id runId (\<lambda>r. r\<lparr>pr_status := ''approved'', pr_approvedBy := Some actorId,
          pr_approvedAt := Some now\<rparr>) (pay_runs db)\<rparr>))"

definition markPayoutReady :: "call \<Rightarrow> string \<Rightarrow> string \<Rightarrow> payroll_db \<Rightarrow> string result \<times> payroll_db" where
  "markPayoutReady c actorId runId db = with_service ''finance.payroll_paye'' c db (\<lambda>db.
     case advance_check actorId runId ''payout_ready'' db of
       Inl e \<Rightarrow> (Inl e, db)
     | Inr _ \<Rightarrow> (Inr runId, db\<lparr>pay_runs := tmodify pr_id runId (\<lambda>r. r\<lparr>pr_status := ''payout_ready''\<rparr>) (pay_runs db)\<rparr>))"

definition listRuns :: "call \<Rightarrow> string \<Rightarrow> payroll_db \<Rightarrow> (pay_run \<times> paye_row list) list result" where
  "listRuns c actorId db = fst (with_service ''finance.payroll_paye'' c db (\<lambda>db.
     (map_sum id (\<lambda>_. map (\<lambda>r. (r, filter (\<lambda>l. py_run l = pr_id r) (pay_lines db))) (newest pr_createdAt 100 (pay_runs db)))
        (payroll_assertAccess (pay_scope db) actorId), db)))"

datatype payroll_request =
    NewRun call int string "nat \<Rightarrow> string" string run_body
  | Approve call int string string
  | PayoutReady call string string

fun payroll_step :: "payroll_request \<Rightarrow> payroll_db \<Rightarrow> string result \<times> payroll_db" where
  "payroll_step (NewRun c now fresh freshes a b) db = map_prod (map_sum id fst) id (createRun c now fresh freshes a b db)"
| "payroll_step (Approve c now a k) db = approveRun c now a k db"
| "payroll_step (PayoutReady c a k) db = markPayoutReady c a k db"

subsection \<open>Budgets\<close>

record budget_line =
  bg_id :: string
  bg_category :: string
  bg_term :: string
  bg_session :: "string option"
  bg_planned :: rat
  bg_spent :: rat
  bg_currency :: string
  bg_createdAt :: int

record budget_body =
  bb_category :: "string option"
  bb_term :: "string option"
  bb_session :: "string option"
  bb_planned :: "rat option"
  bb_currency :: "string option"

record budget_db =
  bud_scope :: scope_db
  bud_lines :: "budget_line list"

definition budget_roles :: "string list" where
  "budget_roles = [''director'', ''school_admin'', ''it_admin'', ''principal'', ''head_teacher'', ''administrative_staff'', ''bursar'']"

definition budget_assertAccess :: "scope_db \<Rightarrow> string \<Rightarrow> bool \<Rightarrow> unit result" where
  "budget_assertAccess sc actorId write =
     (let roles = getUserRoles sc actorId in
      if \<not> has_any_role roles budget_roles then Inl (NotFound ''Budget access is restricted to authorized finance staff'')
      else if write \<and> \<not> has_any_role roles budget_roles then Inl (NotFound ''Budget writes are restricted to authorized finance staff'')
      else Inr ())"

definition budget_list :: "call \<Rightarrow> string \<Rightarrow> string option \<Rightarrow> budget_db \<Rightarrow> budget_line list result" where
  "budget_list c actorId term db = fst (with_service ''finance.budgets'' c db (\<lambda>db.
     (map_sum id (\<lambda>_. if truthy term then sort_key bg_category (filter (\<lambda>l. bg_term l = the term) (bud_lines db))
        else newest bg_createdAt 200 (bud_lines db)) (budget_assertAccess (bud_scope db) actorId False), db)))"

text \<open>A \<open>plannedAmount\<close> that is no finite number is \<open>None\<close>.\<close>

definition budget_create :: "call \<Rightarrow> int \<Rightarrow> string \<Rightarrow> string \<Rightarrow> budget_body \<Rightarrow> budget_db \<Rightarrow> string result \<times> budget_db" where
  "budget_create c now fresh actorId b db = with_service ''finance.budgets'' c db (\<lambda>db.
     case budget_assertAccess (bud_scope db) actorId True of Inl e \<Rightarrow> (Inl e, db) | Inr _ \<Rightarrow>
     let category = (case bb_category b of Some x \<Rightarrow> x | None \<Rightarrow> []); term = (case bb_term b of Some x \<Rightarrow> x | None \<Rightarrow> []);
         planned = or_zero (bb_planned b) in
     if trim category = [] \<or> trim term = [] \<or> planned \<le> 0 then (Inl (NotFound ''Budget line values are invalid''), db)
     else (case sql_money planned of
         None \<Rightarrow> (Inl DbError, db)
       | Some p \<Rightarrow>
           if \<not> (width_of 128 (Some category) \<and> width_of 32 (Some term) \<and> width_of 64 (bb_session b) \<and> width_of 8 (bb_currency b)) then (Inl DbError, db)
           else (case tinsert bg_id \<lparr>bg_id = fresh, bg_category = category, bg_term = term, bg_session = or_null (bb_session b),
                   bg_planned = p, bg_spent = 0, bg_currency = or_else (bb_currency b) ''NGN'', bg_createdAt = now\<rparr> (bud_lines db) of
               None \<Rightarrow> (Inl DbError, db)
             | Some t \<Rightarrow> (Inr fresh, db\<lparr>bud_lines := t\<rparr>))))"

definition recordSpend :: "call \<Rightarrow> string \<Rightarrow> string \<Rightarrow> rat option \<Rightarrow> budget_db \<Rightarrow> string result \<times> budget_db" where
  "recordSpend c actorId k amount db = with_service ''finance.budgets'' c db (\<lambda>db.
     case budget_assertAccess (bud_scope db) actorId True of Inl e \<Rightarrow> (Inl e, db) | Inr _ \<Rightarrow>
     if or_zero amount \<le> 0 then (Inl (NotFound ''Spend amount is invalid''), db)
     else (case tfind bg_id k (bud_lines db) of
         None \<Rightarrow> (Inl (NotFound ''Budget line not found''), db)
       | Some l \<Rightarrow> (case sql_money (bg_spent l + or_zero amount) of
             None \<Rightarrow> (Inl DbError, db)
           | Some s \<Rightarrow> (Inr k, db\<lparr>bud_lines := tmodify bg_id k (\<lambda>x. x\<lparr>bg_spent := s\<rparr>) (bud_lines db)\<rparr>))))"

subsection \<open>An approved run is final\<close>

lemma insert_lines_frame:
  "\<exists>new. pay_lines (snd (insert_lines fresh i run ls db)) = pay_lines db @ new \<and> (\<forall>l\<in>set new. py_run l = run)"
proof (induction ls arbitrary: i db)
  case (Cons l ls)
  show ?case
  proof (cases "paye_row_of (fresh i) run l")
    case (Some r)
    then have run: "py_run r = run" by (auto simp: paye_row_of_def split: option.splits if_splits)
    show ?thesis
    proof (cases "tinsert py_id r (pay_lines db)")
      case (Some t)
      from tinsert_SomeD [OF this] have t: "t = pay_lines db @ [r]" by simp
      from Cons.IH [of "Suc i" "db\<lparr>pay_lines := t\<rparr>"] obtain new where
        "pay_lines (snd (insert_lines fresh (Suc i) run ls (db\<lparr>pay_lines := t\<rparr>))) = t @ new" "\<forall>l\<in>set new. py_run l = run" by auto
      with Some t run \<open>paye_row_of (fresh i) run l = Some r\<close> show ?thesis by (auto intro!: exI [of _ "r # new"])
    qed (simp add: Some)
  qed simp
qed simp

lemma insert_lines_runs: "pay_runs (snd (insert_lines fresh i run ls db)) = pay_runs db"
  by (induction ls arbitrary: i db) (auto split: option.split)

definition lines_of :: "string \<Rightarrow> payroll_db \<Rightarrow> paye_row list" where
  "lines_of k db = filter (\<lambda>l. py_run l = k) (pay_lines db)"

lemma run_row_id: "run_row now fresh b = Some r \<Longrightarrow> pr_id r = fresh"
  by (auto simp: run_row_def split: option.splits if_splits)

lemma createRun_keeps:
  assumes "tfind pr_id k (pay_runs db) = Some r"
  shows "tfind pr_id k (pay_runs (snd (createRun c now fresh freshes a b db))) = Some r \<and>
    lines_of k (snd (createRun c now fresh freshes a b db)) = lines_of k db"
proof (cases "\<exists>u. and_then (payroll_assertAccess (pay_scope db) a) (run_check b) = Inr u \<and> open_service c")
  case True
  then obtain u where "and_then (payroll_assertAccess (pay_scope db) a) (run_check b) = Inr u" "open_service c" by blast
  then have body: "createRun c now fresh freshes a b db =
      (case Option.bind (run_row now fresh b) (\<lambda>r. tinsert pr_id r (pay_runs db)) of
            None \<Rightarrow> (Inl DbError, db)
          | Some t \<Rightarrow> (case insert_lines freshes 0 fresh (pb_lines b) (db\<lparr>pay_runs := t\<rparr>) of
                (Inl e, db') \<Rightarrow> (Inl e, db')
              | (Inr _, db') \<Rightarrow> (Inr (fresh, total_gross (pb_lines b)), db')))"
    by (simp add: createRun_def with_service_open createRun_body_def and_then_def)
  show ?thesis
  proof (cases "Option.bind (run_row now fresh b) (\<lambda>r. tinsert pr_id r (pay_runs db))")
    case None
    then show ?thesis using assms by (simp add: body)
  next
    case (Some t)
    then obtain row where row: "run_row now fresh b = Some row" "tinsert pr_id row (pay_runs db) = Some t"
      by (auto simp: bind_eq_Some_conv)
    from tinsert_SomeD [OF row(2)] run_row_id [OF row(1)] have t: "t = pay_runs db @ [row]" "fresh \<notin> pr_id ` set (pay_runs db)" by auto
    with assms have "fresh \<noteq> k" by (auto dest: tfind_SomeD)
    obtain x db' where i: "insert_lines freshes 0 fresh (pb_lines b) (db\<lparr>pay_runs := t\<rparr>) = (x, db')"
      by (cases "insert_lines freshes 0 fresh (pb_lines b) (db\<lparr>pay_runs := t\<rparr>)")
    have "pay_runs db' = t" using insert_lines_runs [of freshes 0 fresh "pb_lines b" "db\<lparr>pay_runs := t\<rparr>"] i by simp
    moreover have "lines_of k db' = lines_of k db"
      using insert_lines_frame [of freshes 0 fresh "pb_lines b" "db\<lparr>pay_runs := t\<rparr>"] i \<open>fresh \<noteq> k\<close>
      by (auto simp: lines_of_def filter_empty_conv)
    ultimately show ?thesis using assms by (simp add: body Some i [unfolded t(1)] t(1) tfind_append split: sum.split)
  qed
next
  case False
  then show ?thesis
  proof (cases "open_service c")
    case True
    with False assms show ?thesis by (auto simp: createRun_def with_service_open createRun_body_def split: sum.split)
  next
    case False
    with assms show ?thesis by (simp add: createRun_def with_service_closed_snd)
  qed
qed

definition later :: "pay_run \<Rightarrow> pay_run \<Rightarrow> bool" where
  "later r r' = (r' = r \<or> r' = r\<lparr>pr_status := ''payout_ready''\<rparr>)"

definition settled_run :: "string \<Rightarrow> pay_run \<Rightarrow> paye_row list \<Rightarrow> payroll_db \<Rightarrow> bool" where
  "settled_run k r ls db = (pr_status r \<in> {''approved'', ''payout_ready''} \<and> (\<exists>r'. tfind pr_id k (pay_runs db) = Some r' \<and> later r r' \<and> lines_of k db = ls))"

lemma advance_ok:
  "advance_check a k st db = Inr u \<Longrightarrow> \<exists>r. tfind pr_id k (pay_runs db) = Some r \<and> canAdvancePayrollStatus (pr_status r) st \<and>
     (st = ''payout_ready'' \<longrightarrow> truthy (pr_salary r)) \<and> has_any_role (getUserRoles (pay_scope db) a) payroll_roles"
  by (auto simp: advance_check_def payroll_assertAccess_def split: option.splits if_splits)

lemma settled_step:
  assumes "settled_run k r ls db"
  shows "settled_run k r ls (snd (payroll_step q db))"
proof -
  from assms obtain r' where r': "tfind pr_id k (pay_runs db) = Some r'" "later r r'" "lines_of k db = ls" "pr_status r \<in> {''approved'', ''payout_ready''}" by (auto simp: settled_run_def)
  have st: "pr_status r' = ''approved'' \<or> pr_status r' = ''payout_ready''" using r'(2,4) by (auto simp: later_def)
  show ?thesis
  proof (cases q)
    case (NewRun c now fresh freshes a b)
    then show ?thesis using createRun_keeps [OF r'(1), of c now fresh freshes a b] r' by (auto simp: settled_run_def)
  next
    case (Approve c now a k')
    have "k' \<noteq> k" if "advance_check a k' ''approved'' db = Inr u" for u
      using advance_ok [OF that] r'(1) st by (auto simp: canAdvancePayrollStatus_def)
    then show ?thesis using assms(1) r'
      by (cases "open_service c") (auto simp: Approve approveRun_def with_service_open with_service_closed_snd settled_run_def
          tfind_tmodify lines_of_def split: sum.split)
  next
    case (PayoutReady c a k')
    have "later r (r'\<lparr>pr_status := ''payout_ready''\<rparr>)" using r'(2) by (auto simp: later_def)
    then show ?thesis using assms(1) r'
      by (cases "open_service c") (auto simp: PayoutReady markPayoutReady_def with_service_open with_service_closed_snd settled_run_def
          tfind_tmodify lines_of_def split: sum.split)
  qed
qed

interpretation settled: stable_machine payroll_step "\<lambda>_. True" "settled_run k r ls" for k r ls
  by unfold_locales (simp_all add: settled_step)

text \<open>C13: a payroll run that was approved stays as it was: whatever requests follow, its amounts, its lines and who approved
  it are the same, and all that can happen is that it is made ready for payout.\<close>

theorem approved_run_final:
  assumes "tfind pr_id k (pay_runs db) = Some r" and "pr_status r \<in> {''approved'', ''payout_ready''}"
  shows "\<exists>r'. tfind pr_id k (pay_runs (run_reqs payroll_step qs db)) = Some r' \<and> later r r' \<and>
    lines_of k (run_reqs payroll_step qs db) = lines_of k db"
proof -
  have "settled_run k r (lines_of k db) db" using assms by (auto simp: settled_run_def later_def)
  from settled.run_mark [OF _ this] show ?thesis by (auto simp: settled_run_def)
qed

definition sample_run :: pay_run where
  "sample_run = \<lparr>pr_id = ''r1'', pr_title = ''May'', pr_start = ''2025-05-01'', pr_end = ''2025-05-31'', pr_status = ''approved'',
     pr_gross = 100, pr_net = 90, pr_salary = Some ''acc'', pr_operating = None, pr_approvedBy = Some ''d1'', pr_approvedAt = Some 5,
     pr_currency = ''NGN'', pr_createdAt = 1\<rparr>"

theorem approved_run_final_witness:
  "\<exists>r'. tfind pr_id ''r1'' (pay_runs (run_reqs payroll_step [Approve \<lparr>feature_on = True, tenant_found = True\<rparr> 9 ''d2'' ''r1'',
        PayoutReady \<lparr>feature_on = True, tenant_found = True\<rparr> ''d1'' ''r1'']
      \<lparr>pay_scope = nobody, pay_runs = [sample_run], pay_lines = []\<rparr>)) = Some r' \<and> later sample_run r'"
  using approved_run_final [of "''r1''" "\<lparr>pay_scope = nobody, pay_runs = [sample_run], pay_lines = []\<rparr>" sample_run
      "[Approve \<lparr>feature_on = True, tenant_found = True\<rparr> 9 ''d2'' ''r1'', PayoutReady \<lparr>feature_on = True, tenant_found = True\<rparr> ''d1'' ''r1'']"]
  by (auto simp: sample_run_def)

subsection \<open>The totals of a run\<close>

definition cents :: "rat \<Rightarrow> bool" where
  "cents x = (\<exists>n :: int. x * 100 = of_int n)"

lemma cents_add: "cents x \<Longrightarrow> cents y \<Longrightarrow> cents (x + y)"
  unfolding cents_def by (metis distrib_right of_int_add)

lemma cents_diff: "cents x \<Longrightarrow> cents y \<Longrightarrow> cents (x - y)"
  unfolding cents_def by (metis left_diff_distrib of_int_diff)

lemma cents_0 [simp]: "cents 0"
  by (auto simp: cents_def intro: exI [of _ 0])

lemma cents_sum: "(\<And>x. x \<in> set xs \<Longrightarrow> cents (f x)) \<Longrightarrow> cents (sum_list (map f xs))"
  by (induction xs) (auto intro: cents_add)

lemma round2_cents: "cents x \<Longrightarrow> round2 x = x"
proof -
  assume "cents x"
  then obtain n :: int where n: "x * 100 = of_int n" by (auto simp: cents_def)
  have "\<lfloor>x * 100 + 1 / 2\<rfloor> = n" unfolding n by linarith
  then have "round2 x = of_int n / 100" by (simp add: round2_def)
  with n show ?thesis by simp
qed

lemma sql_money_cents: "cents x \<Longrightarrow> sql_money x = Some y \<Longrightarrow> y = x"
proof -
  assume c: "cents x" and m: "sql_money x = Some y"
  from c have "cents \<bar>x\<bar>" unfolding cents_def by (metis abs_if minus_mult_left of_int_minus)
  with m show ?thesis by (auto simp: sql_money_def Let_def round2_cents abs_sgn mult.commute split: if_splits)
qed

definition line_cents :: "pay_line \<Rightarrow> bool" where
  "line_cents l = (cents (pl_gross l) \<and> cents (or_zero (pl_allowances l)) \<and> cents (or_zero (pl_deductions l)) \<and> cents (fst (line_net l)))"

lemma snd_line_net: "snd (line_net l) = pl_gross l + or_zero (pl_allowances l) - or_zero (pl_deductions l) - fst (line_net l)"
  by (simp add: line_net_def payrollNet_def Let_def)

lemma paye_row_values:
  assumes "line_cents l" and "paye_row_of fresh run l = Some r"
  shows "py_run r = run \<and> py_staff r = pl_staff l \<and> py_gross r + py_allowances r = pl_gross l + or_zero (pl_allowances l) \<and>
    py_net r = snd (line_net l)"
proof -
  have "cents (snd (line_net l))" using assms(1) by (simp add: snd_line_net line_cents_def cents_add cents_diff)
  with assms show ?thesis
    by (auto simp: paye_row_of_def line_cents_def split: option.splits if_splits dest!: sql_money_cents)
qed

lemma inserted_lines:
  assumes "insert_lines fresh i run ls db = (Inr (), db')" and "\<And>l. l \<in> set ls \<Longrightarrow> line_cents l"
  shows "\<exists>new. pay_lines db' = pay_lines db @ new \<and> (\<forall>l\<in>set new. py_run l = run) \<and> map py_staff new = map pl_staff ls \<and>
    sum_list (map (\<lambda>l. py_gross l + py_allowances l) new) = total_gross ls \<and> sum_list (map py_net new) = total_net ls"
  using assms
proof (induction ls arbitrary: i db)
  case (Cons l ls)
  from Cons.prems(1) obtain r t where r: "paye_row_of (fresh i) run l = Some r" "tinsert py_id r (pay_lines db) = Some t"
      and rest: "insert_lines fresh (Suc i) run ls (db\<lparr>pay_lines := t\<rparr>) = (Inr (), db')"
    by (auto split: option.splits)
  from tinsert_SomeD [OF r(2)] have t: "t = pay_lines db @ [r]" by simp
  from Cons.IH [OF rest] Cons.prems(2) obtain new where new: "pay_lines db' = t @ new" "\<forall>l\<in>set new. py_run l = run"
      "map py_staff new = map pl_staff ls" "sum_list (map (\<lambda>l. py_gross l + py_allowances l) new) = total_gross ls"
      "sum_list (map py_net new) = total_net ls" by auto
  from paye_row_values [OF _ r(1)] Cons.prems(2) new t show ?case
    by (intro exI [of _ "r # new"]) (simp add: total_gross_def total_net_def snd_line_net)
qed (simp add: total_gross_def total_net_def)

lemma createRun_Inr:
  assumes "createRun c now k freshes a b db = (Inr (k', g), db')"
  shows "\<exists>row t. run_row now k b = Some row \<and> tinsert pr_id row (pay_runs db) = Some t \<and>
    insert_lines freshes 0 k (pb_lines b) (db\<lparr>pay_runs := t\<rparr>) = (Inr (), db') \<and> k' = k \<and> g = total_gross (pb_lines b)"
proof -
  have "open_service c" using assms by (auto simp: createRun_def with_service_def open_service_def split: if_splits)
  then have body: "createRun_body now k freshes a b db = (Inr (k', g), db')" using assms by (simp add: createRun_def with_service_open)
  then obtain t where t: "Option.bind (run_row now k b) (\<lambda>r. tinsert pr_id r (pay_runs db)) = Some t"
    by (cases "Option.bind (run_row now k b) (\<lambda>r. tinsert pr_id r (pay_runs db))") (simp_all add: createRun_body_def split: sum.splits)
  obtain x db1 where "insert_lines freshes 0 k (pb_lines b) (db\<lparr>pay_runs := t\<rparr>) = (x, db1)" by (rule prod.exhaust)
  with body t show ?thesis
    by (cases x) (auto simp: createRun_body_def bind_eq_Some_conv split: sum.splits)
qed

text \<open>C14: the totals of a new run are those of its lines, when the amounts are whole kobo: the run records the sum of gross pay
  and allowances, and of the net pay, of the lines it stores, one for each line of the request.\<close>

theorem payroll_totals:
  assumes "createRun c now k freshes a b db = (Inr (k', g), db')" and "lines_of k db = []"
    and "\<And>l. l \<in> set (pb_lines b) \<Longrightarrow> line_cents l"
  shows "k' = k \<and> map py_staff (lines_of k db') = map pl_staff (pb_lines b) \<and>
    (\<exists>r. tfind pr_id k (pay_runs db') = Some r \<and> pr_status r = ''draft'' \<and> pr_gross r = g \<and>
      pr_gross r = sum_list (map (\<lambda>l. py_gross l + py_allowances l) (lines_of k db')) \<and>
      pr_net r = sum_list (map py_net (lines_of k db')))"
proof -
  from assms(1) obtain row t where row: "run_row now k b = Some row" "tinsert pr_id row (pay_runs db) = Some t"
      and lines: "insert_lines freshes 0 k (pb_lines b) (db\<lparr>pay_runs := t\<rparr>) = (Inr (), db')" and out: "k' = k" "g = total_gross (pb_lines b)"
    using createRun_Inr [OF assms(1)] by metis
  have sums: "cents (total_gross (pb_lines b))" "cents (total_net (pb_lines b))"
    using assms(3) by (auto simp: total_gross_def total_net_def line_cents_def intro!: cents_sum cents_add cents_diff)
  from row(1) sums have r: "pr_id row = k" "pr_status row = ''draft''" "pr_gross row = total_gross (pb_lines b)" "pr_net row = total_net (pb_lines b)"
    by (auto simp: run_row_def split: option.splits if_splits dest!: sql_money_cents)
  from tinsert_SomeD [OF row(2)] r(1) have "tfind pr_id k t = Some row"
    by (auto simp: tfind_append tfind_None_iff [symmetric])
  moreover have "pay_runs db' = t" using insert_lines_runs [of freshes 0 k "pb_lines b" "db\<lparr>pay_runs := t\<rparr>"] lines by simp
  moreover obtain new where new: "pay_lines db' = pay_lines db @ new" "\<forall>l\<in>set new. py_run l = k" "map py_staff new = map pl_staff (pb_lines b)"
      "sum_list (map (\<lambda>l. py_gross l + py_allowances l) new) = total_gross (pb_lines b)" "sum_list (map py_net new) = total_net (pb_lines b)"
    using inserted_lines [OF lines assms(3)] by auto
  moreover have "lines_of k db' = new" using new(1,2) assms(2) by (simp add: lines_of_def)
  ultimately show ?thesis using out r by auto
qed

definition sample_pay_body :: run_body where
  "sample_pay_body = \<lparr>pb_title = Some ''May'', pb_start = ''2025-05-01'', pb_end = ''2025-05-31'', pb_currency = None,
     pb_lines = [\<lparr>pl_staff = ''t1'', pl_gross = 100, pl_paye = Some 10, pl_allowances = Some 20, pl_deductions = Some 5\<rparr>],
     pb_salary = Some ''acc'', pb_operating = None\<rparr>"

definition sample_pay :: payroll_db where
  "sample_pay = \<lparr>pay_scope = nobody\<lparr>user_roles := [''d1'' \<mapsto> JArray [''director'']]\<rparr>, pay_runs = [], pay_lines = []\<rparr>"

lemma sample_pay_created:
  "fst (createRun \<lparr>feature_on = True, tenant_found = True\<rparr> 1 ''r1'' (\<lambda>i. ''l1'') ''d1'' sample_pay_body sample_pay) = Inr (''r1'', 120)"
  by code_simp

theorem payroll_totals_witness:
  "\<exists>db' r. createRun \<lparr>feature_on = True, tenant_found = True\<rparr> 1 ''r1'' (\<lambda>i. ''l1'') ''d1'' sample_pay_body sample_pay = (Inr (''r1'', 120), db') \<and>
     tfind pr_id ''r1'' (pay_runs db') = Some r \<and> pr_gross r = 120 \<and> pr_net r = sum_list (map py_net (lines_of ''r1'' db'))"
proof -
  obtain db' where s: "createRun \<lparr>feature_on = True, tenant_found = True\<rparr> 1 ''r1'' (\<lambda>i. ''l1'') ''d1'' sample_pay_body sample_pay = (Inr (''r1'', 120), db')"
    using sample_pay_created by (metis prod.collapse)
  have "lines_of ''r1'' sample_pay = []" by (simp add: sample_pay_def lines_of_def)
  moreover have "line_cents l" if "l \<in> set (pb_lines sample_pay_body)" for l
  proof -
    have "cents (of_int n)" for n by (auto simp: cents_def intro: exI [of _ "n * 100"])
    from this [of 100] this [of 20] this [of 5] this [of 10] that show ?thesis
      by (simp add: sample_pay_body_def line_cents_def line_net_def payrollNet_def or_zero_def Let_def)
  qed
  ultimately show ?thesis using payroll_totals [OF s] s by auto
qed

subsection \<open>What the code lets happen\<close>

text \<open>Without \<open>paye\<close> a tenth is taken, which need not be whole kobo: the lines round, and their sum is not the total.\<close>

definition tenth_line :: pay_line where
  "tenth_line = \<lparr>pl_staff = ''t'', pl_gross = 10005 / 100, pl_paye = None, pl_allowances = None, pl_deductions = None\<rparr>"

lemma floor_18009: "\<lfloor>36019 / 2 :: rat\<rfloor> = 18009"
  by (rule floor_unique) simp_all

lemma rounded_lines_miss_total:
  "map_option py_net (paye_row_of f k tenth_line) = Some (9005 / 100)" "sql_money (total_net [tenth_line, tenth_line]) = Some (18009 / 100)"
  by (simp_all add: paye_row_of_def tenth_line_def line_net_def payrollNet_def or_zero_def sql_money_def total_net_def width_of_def round2_def Let_def floor_18009)

text \<open>Deductions may be more than the pay.\<close>

lemma negative_net_accepted:
  "line_valid \<lparr>pl_staff = ''t'', pl_gross = 100, pl_paye = None, pl_allowances = None, pl_deductions = Some 500\<rparr>"
  "snd (line_net \<lparr>pl_staff = ''t'', pl_gross = 100, pl_paye = None, pl_allowances = None, pl_deductions = Some 500\<rparr>) = - 400"
  by (simp_all add: line_valid_def line_net_def payrollNet_def or_zero_def Let_def)

text \<open>A line that cannot be inserted leaves the run with the totals of all its lines.\<close>

lemma failed_line_leaves_run:
  assumes "open_service c" and "payroll_assertAccess (pay_scope db) a = Inr ()" and "run_check b = Inr ()"
    and "run_row now k b = Some r" and "tinsert pr_id r (pay_runs db) = Some t" and "pb_lines b = [l]" and "paye_row_of (fs 0) k l = None"
  shows "createRun c now k fs a b db = (Inl DbError, db\<lparr>pay_runs := t\<rparr>)"
  using assms by (simp add: createRun_def with_service_open createRun_body_def and_then_def)

end
