(* ===== verification/Users.thy ===== *)
theory Users
  imports RolePermissions Tenants Machines "HOL-Library.List_Lexorder"
begin

section \<open>Users of a school\<close>

text \<open>
  \<open>users/users.service.ts\<close>: creating, changing and removing the users of a tenant, and who may change a privilege.
  The JSON columns hold arrays of strings, as this service writes them.  A field of an update is absent (\<open>None\<close>), null
  (\<open>Some None\<close>) or a value; the lengths and the address format that the request classes check are those of requests that
  arrive here.  An alias without quotes comes back in lower case: \<open>mapUserRow\<close> reads \<open>schoollevel\<close>, \<open>isactive\<close> and
  \<open>passportphoto\<close>, but not \<open>admissionno\<close>.  \<open>ur_dropped\<close> records what is dropped from the caches.
\<close>

type_synonym 'a field = "'a option option"

record tenant_user_row =
  pu_id :: string
  pu_email :: string
  pu_name :: string
  pu_phone :: "string option"
  pu_major :: "string option"
  pu_level :: "string option"
  pu_gender :: "string option"
  pu_admission :: "string option"
  pu_hash :: string
  pu_roles :: "string list"
  pu_permissions :: "string list"
  pu_capabilities :: "string list"
  pu_active :: bool
  pu_photo :: "string option"
  pu_archived :: "string option"
  pu_createdAt :: int

record privilege_change =
  pc_actor :: string
  pc_target :: string
  pc_reason :: string
  pc_before :: "string list \<times> string list"
  pc_after :: "string list \<times> string list"

datatype dropped = Authority string | UserLists

record users_db =
  ur_users :: "tenant_user_row list"
  ur_links :: "(string \<times> string) list"
  ur_mappings :: "mapping_row list"
  ur_audit :: "privilege_change list"
  ur_dropped :: "dropped list"

record claims =
  cl_id :: string
  cl_rights :: actor

text \<open>What a call reads from outside: the tenant and whether it is found, the clock, the answer of the feature \<open>roles.ops_staff\<close>,
  identifiers, the drawn admission numbers, the key derivation and its salt, and whether the control database takes the
  mapping and the audit entry.\<close>

record users_env =
  ue_tenant :: string
  ue_found :: bool
  ue_now :: int
  ue_ops :: bool
  ue_user :: string
  ue_mapping :: string
  ue_draws :: "string list"
  ue_kdf :: kdf
  ue_salt :: string
  ue_mapped :: bool
  ue_audited :: bool

definition OPS_STAFF_ROLES :: "string list" where
  "OPS_STAFF_ROLES = [''driver'', ''guard'', ''nurse'']"

definition SCHOOL_LEVELS :: "string list" where
  "SCHOOL_LEVELS = [''all'', ''nursery'', ''primary'', ''secondary'', ''jss'', ''sss'']"

definition GENDERS :: "string list" where
  "GENDERS = [''male'', ''female'']"

definition LEVEL_REQUIRED_ROLES :: "string list" where
  "LEVEL_REQUIRED_ROLES = [''head_teacher'', ''assistant_head_teacher'', ''principal'', ''vice_principal'', ''class_teacher'',
     ''subject_teacher'', ''bursar'', ''student'']"

definition primary_role :: "string list \<Rightarrow> bool" where
  "primary_role roles = list_ex (List.member [''head_teacher'', ''assistant_head_teacher'']) roles"

definition secondary_role :: "string list \<Rightarrow> bool" where
  "secondary_role roles = list_ex (List.member [''principal'', ''vice_principal'']) roles"

definition level_required :: "string list \<Rightarrow> bool" where
  "level_required roles = list_ex (List.member LEVEL_REQUIRED_ROLES) roles"

definition assertCanAssignPrivileges :: "claims option \<Rightarrow> unit result" where
  "assertCanAssignPrivileges a = (case a of
      Some c \<Rightarrow> if actorHasPermission (cl_rights c) ''roles:assign'' then Inr ()
        else Inl (Forbidden ''roles:assign permission is required to change roles or custom capabilities'')
    | None \<Rightarrow> Inl (Forbidden ''roles:assign permission is required to change roles or custom capabilities''))"

definition assertNotSelfPrivilegeChange :: "claims \<Rightarrow> string \<Rightarrow> unit result" where
  "assertNotSelfPrivilegeChange c target =
     (if actorHasWildcard (cl_rights c) then Inr ()
      else if cl_id c \<noteq> [] \<and> cl_id c = target
        then Inl (Forbidden ''You cannot change your own roles or custom capabilities. Ask another authorized administrator.'')
      else Inr ())"

definition assertCapabilitiesAllowed :: "string list \<Rightarrow> unit result" where
  "assertCapabilitiesAllowed caps =
     (if findUnknownCapabilities caps \<noteq> [] then Inl (BadRequest ''Unknown or disallowed capabilities'')
      else if findRoleOnlyCapabilities caps \<noteq> []
        then Inl (BadRequest ''These capabilities require assigning the matching role (cannot be custom overrides)'')
      else Inr ())"

definition requirePrivilegeReason :: "string option \<Rightarrow> string result" where
  "requirePrivilegeReason reason = (let trimmed = trim (or_else reason []) in
     if length trimmed < 3 then Inl (BadRequest ''privilegeChangeReason is required (min 3 chars)'') else Inr trimmed)"

definition assertOpsRolesAllowed :: "users_env \<Rightarrow> string list \<Rightarrow> unit result" where
  "assertOpsRolesAllowed e roles =
     (if list_ex (List.member OPS_STAFF_ROLES) roles \<and> \<not> ue_ops e then Inl (Forbidden ''Feature disabled: roles.ops_staff'') else Inr ())"

definition users_schoolLevel :: "string option \<Rightarrow> string list \<Rightarrow> string option result" where
  "users_schoolLevel value roles = (case or_null value of
      None \<Rightarrow>
        if primary_role roles \<and> \<not> secondary_role roles then Inr (Some ''primary'')
        else if secondary_role roles \<and> \<not> primary_role roles then Inr (Some ''secondary'')
        else if \<not> level_required roles then Inr (Some ''all'')
        else Inr None
    | Some v \<Rightarrow> (let level = toLowerCase (trim v) in
        if \<not> List.member SCHOOL_LEVELS level then Inl (BadRequest (''Unknown school level: '' @ v))
        else if primary_role roles \<and> \<not> List.member [''nursery'', ''primary''] level
          then Inl (BadRequest ''Primary academic roles require a primary or nursery school level'')
        else if secondary_role roles \<and> \<not> List.member [''secondary'', ''jss'', ''sss''] level
          then Inl (BadRequest ''Secondary academic roles require a secondary school level'')
        else Inr (Some level)))"

definition generateAdmissionNo :: "users_env \<Rightarrow> users_db \<Rightarrow> string result" where
  "generateAdmissionNo e db = (case find (\<lambda>n. \<not> list_ex (\<lambda>u. pu_admission u = Some n) (ur_users db)) (take 10 (ue_draws e)) of
      Some n \<Rightarrow> Inr n
    | None \<Rightarrow> Inl (BadRequest ''Unable to generate a unique admission number''))"

text \<open>\<open>image/(jpeg|jpg|png|webp)\<close>, without regard to case.\<close>

definition assertPassportPhoto :: "string option \<Rightarrow> string option result" where
  "assertPassportPhoto value = (case or_null value of
      None \<Rightarrow> Inr None
    | Some v \<Rightarrow>
        if 280000 < length v then Inl (BadRequest ''Passport photo is too large. Use a passport-size JPEG under ~200KB.'')
        else if \<not> list_ex (\<lambda>kind. startsWith (toLowerCase v) (''data:image/'' @ kind @ '';base64,'')) [''jpeg'', ''jpg'', ''png'', ''webp'']
          then Inl (BadRequest ''Passport photo must be a JPEG, PNG, or WebP data URL'')
        else Inr (Some v))"

definition gender_of :: "string option \<Rightarrow> string option result" where
  "gender_of value = (case or_null value of
      None \<Rightarrow> Inr None
    | Some v \<Rightarrow> (let g = toLowerCase (trim v) in
        if g \<noteq> [] \<and> \<not> List.member GENDERS g then Inl (BadRequest ''Gender must be male or female'') else Inr (Some g)))"

subsection \<open>Reading\<close>

text \<open>\<open>mapUserRow\<close>: the level shown for a row without one, and the admission number, which is never found.\<close>

definition shown_level :: "tenant_user_row \<Rightarrow> string" where
  "shown_level u = or_else (pu_level u)
     (if List.member (pu_roles u) ''head_teacher'' \<or> List.member (pu_roles u) ''assistant_head_teacher'' then ''primary''
      else if List.member (pu_roles u) ''principal'' \<or> List.member (pu_roles u) ''vice_principal'' then ''secondary''
      else ''all'')"

record user_view =
  vw_id :: string
  vw_email :: string
  vw_name :: string
  vw_phone :: "string option"
  vw_major :: "string option"
  vw_level :: string
  vw_gender :: "string option"
  vw_admission :: "string option"
  vw_roles :: "string list"
  vw_capabilities :: "string list"
  vw_role :: "string option"
  vw_active :: bool
  vw_photo :: "string option"
  vw_parent :: "string option"
  vw_student :: "string option"

definition mapUserRow :: "tenant_user_row \<Rightarrow> user_view" where
  "mapUserRow u = \<lparr>vw_id = pu_id u, vw_email = pu_email u, vw_name = pu_name u, vw_phone = pu_phone u, vw_major = or_null (pu_major u),
     vw_level = shown_level u, vw_gender = or_null (pu_gender u), vw_admission = None, vw_roles = pu_roles u,
     vw_capabilities = pu_capabilities u, vw_role = (case pu_roles u of [] \<Rightarrow> None | r # _ \<Rightarrow> or_null (Some r)), vw_active = pu_active u,
     vw_photo = or_null (pu_photo u), vw_parent = None, vw_student = None\<rparr>"

definition getTenantUserById :: "string \<Rightarrow> users_db \<Rightarrow> user_view option" where
  "getTenantUserById k db = map_option mapUserRow (tfind pu_id k (ur_users db))"

datatype user_category = Academic | AdministrativeFinancial | StudentParent

definition academic_roles_of :: "string list" where
  "academic_roles_of = [''head_teacher'', ''principal'', ''assistant_head_teacher'', ''vice_principal'', ''class_teacher'', ''subject_teacher'']"

fun in_category :: "user_category \<Rightarrow> string list \<Rightarrow> bool" where
  "in_category Academic roles = list_ex (List.member roles) academic_roles_of"
| "in_category StudentParent roles = list_ex (List.member roles) [''student'', ''parent'']"
| "in_category AdministrativeFinancial roles = (\<not> list_ex (List.member roles) ([''student'', ''parent''] @ academic_roles_of))"

definition link_view :: "(string \<times> string) list \<Rightarrow> user_view \<Rightarrow> user_view" where
  "link_view links v =
     (if vw_role v = Some ''student'' then v\<lparr>vw_parent := or_null (map_option fst (find (\<lambda>(p, s). s = vw_id v) (rev links)))\<rparr>
      else if vw_role v = Some ''parent'' then v\<lparr>vw_student := or_null (map_option snd (find (\<lambda>(p, s). p = vw_id v) (rev links)))\<rparr>
      else v)"

record user_page =
  pg_rows :: "user_view list"
  pg_page :: int
  pg_size :: int
  pg_total :: int
  pg_pages :: int

text \<open>The rows of a filter (a role without wildcards of \<open>LIKE\<close>) in the order of the list; \<open>Inl\<close> a plain list, \<open>Inr\<close> a page.  The numbers of the page are given floored.\<close>

definition matching_users :: "string option \<Rightarrow> user_category option \<Rightarrow> users_db \<Rightarrow> tenant_user_row list" where
  "matching_users role category db =
     sort_key (\<lambda>u. - pu_createdAt u) (rev (sort_key pu_id (filter (\<lambda>u. (truthy role \<longrightarrow> List.member (pu_roles u) (the role)) \<and>
       (case category of None \<Rightarrow> True | Some c \<Rightarrow> in_category c (pu_roles u))) (ur_users db))))"

definition page_number :: "int option \<Rightarrow> int" where
  "page_number p = max 1 (case p of Some n \<Rightarrow> n | None \<Rightarrow> 1)"

definition page_size :: "int option \<Rightarrow> int" where
  "page_size l = min 50 (max 1 (case l of Some n \<Rightarrow> n | None \<Rightarrow> 50))"

definition listTenantUsersUncached :: "string option \<Rightarrow> user_category option \<Rightarrow> int option \<Rightarrow> int option \<Rightarrow> users_db \<Rightarrow> user_view list + user_page" where
  "listTenantUsersUncached role category page limit db =
     (let rows = matching_users role category db; show_all = map (link_view (ur_links db) \<circ> mapUserRow) in
      if category = None \<and> page = None \<and> limit = None then Inl (show_all (take 1000 rows))
      else (let size = page_size limit; n = page_number page; total = int (length rows) in
        Inr \<lparr>pg_rows = show_all (take (nat size) (drop (nat ((n - 1) * size)) rows)), pg_page = n, pg_size = size, pg_total = total,
          pg_pages = (total + size - 1) div size\<rparr>))"

subsection \<open>Creating a user\<close>


record new_user =
  nu_fullName :: string
  nu_email :: string
  nu_password :: string
  nu_roles :: "string list"
  nu_phone :: "string option"
  nu_major :: "string option"
  nu_level :: "string option"
  nu_gender :: "string option"
  nu_reason :: "string option"

text \<open>The widths of the columns and the unique indexes.\<close>

definition user_row_fits :: "tenant_user_row \<Rightarrow> bool" where
  "user_row_fits u = (length (pu_email u) \<le> 255 \<and> length (pu_name u) \<le> 255 \<and> width_of 32 (pu_phone u) \<and> width_of 128 (pu_major u) \<and>
     width_of 32 (pu_level u) \<and> width_of 16 (pu_gender u) \<and> width_of 12 (pu_admission u))"

definition users_unique :: "tenant_user_row \<Rightarrow> tenant_user_row list \<Rightarrow> bool" where
  "users_unique u others = (\<not> list_ex (\<lambda>x. pu_email x = pu_email u \<or> pu_admission u \<noteq> None \<and> pu_admission x = pu_admission u) others)"

definition user_of :: "users_env \<Rightarrow> new_user \<Rightarrow> string option \<Rightarrow> string option \<Rightarrow> string option \<Rightarrow> string \<Rightarrow> tenant_user_row" where
  "user_of e b level gender admission hash = \<lparr>pu_id = ue_user e, pu_email = toLowerCase (nu_email b), pu_name = nu_fullName b,
              pu_phone = or_null (nu_phone b), pu_major = or_null (nu_major b), pu_level = level, pu_gender = gender,
              pu_admission = admission, pu_hash = hash, pu_roles = nu_roles b, pu_permissions = derivePermissionsForRoles (nu_roles b),
              pu_capabilities = [], pu_active = True, pu_photo = None, pu_archived = None, pu_createdAt = ue_now e\<rparr>"

definition created_user :: "users_env \<Rightarrow> new_user \<Rightarrow> users_db \<Rightarrow> tenant_user_row result" where
  "created_user e b db =
     (if nu_roles b = [] then Inl (BadRequest ''At least one role is required'')
      else if findInvalidRoles (nu_roles b) \<noteq> [] then Inl (BadRequest ''Unknown roles'')
      else bind_result (assertOpsRolesAllowed e (nu_roles b)) (\<lambda>_.
        bind_result (users_schoolLevel (nu_level b) (nu_roles b)) (\<lambda>level.
        bind_result (gender_of (nu_gender b)) (\<lambda>gender.
        bind_result (if List.member (nu_roles b) ''student'' then map_sum id Some (generateAdmissionNo e db) else Inr None) (\<lambda>admission.
        if level_required (nu_roles b) \<and> level = None then Inl (BadRequest ''A school level is required for this role'')
        else if list_ex (\<lambda>u. pu_email u = toLowerCase (nu_email b)) (ur_users db)
          then Inl (BadRequest ''A user with this email already exists'')
        else (case hashPassword (ue_kdf e) (ue_salt e) (nu_password b) of
            None \<Rightarrow> Inl DbError
          | Some hash \<Rightarrow> Inr (user_of e b level gender admission hash)))))))"

definition add_mapping :: "users_env \<Rightarrow> string \<Rightarrow> mapping_row list \<Rightarrow> mapping_row list" where
  "add_mapping e email ms =
     (if list_ex (\<lambda>m. mp_tenant m = ue_tenant e \<and> mp_email m = email \<and> mp_active m) ms then ms
      else ms @ [\<lparr>mp_id = ue_mapping e, mp_user = ue_user e, mp_tenant = ue_tenant e, mp_email = email,
        mp_primary = (\<not> list_ex (\<lambda>m. mp_email m = email \<and> mp_primary m \<and> mp_active m) ms), mp_active = True, mp_createdAt = ue_now e\<rparr>])"

definition createTenantUser :: "users_env \<Rightarrow> claims \<Rightarrow> new_user \<Rightarrow> users_db \<Rightarrow> string result \<times> users_db" where
  "createTenantUser e actor b db =
     (case bind_result (assertCanAssignPrivileges (Some actor)) (\<lambda>_. requirePrivilegeReason (nu_reason b)) of
        Inl x \<Rightarrow> (Inl x, db)
      | Inr reason \<Rightarrow>
     if \<not> ue_found e then (Inl DbError, db)
     else case created_user e b db of
        Inl x \<Rightarrow> (Inl x, db)
      | Inr u \<Rightarrow>
     if \<not> user_row_fits u \<or> \<not> users_unique u (ur_users db) then (Inl DbError, db)
     else case tinsert pu_id u (ur_users db) of
        None \<Rightarrow> (Inl DbError, db)
      | Some t \<Rightarrow>
     let db1 = db\<lparr>ur_users := t\<rparr> in
     if \<not> ue_mapped e then (Inl DbError, db1)
     else let db2 = db1\<lparr>ur_mappings := add_mapping e (pu_email u) (ur_mappings db)\<rparr> in
     if \<not> ue_audited e then (Inl DbError, db2)
     else (Inr (pu_id u), db2\<lparr>ur_audit := \<lparr>pc_actor = cl_id actor, pc_target = pu_id u, pc_reason = reason, pc_before = ([], []),
        pc_after = (pu_roles u, [])\<rparr> # ur_audit db, ur_dropped := UserLists # ur_dropped db\<rparr>))"

subsection \<open>Changing a user\<close>

record user_patch =
  up_name :: "string field"
  up_email :: "string field"
  up_roles :: "string list field"
  up_capabilities :: "string list field"
  up_reason :: "string option"
  up_active :: "bool field"
  up_password :: "string option"
  up_phone :: "string field"
  up_major :: "string field"
  up_level :: "string field"
  up_gender :: "string field"
  up_photo :: "string field"

text \<open>What the roles and the capabilities of the patch come to: the next roles, level and admission number, and the next
  capabilities; with \<open>existing\<close> as it is shown.\<close>

definition next_roles :: "users_env \<Rightarrow> user_patch \<Rightarrow> user_view \<Rightarrow> users_db \<Rightarrow> (string list \<times> string option \<times> string option) result" where
  "next_roles e p v db = (case up_roles p of
      None \<Rightarrow> (case up_level p of
          None \<Rightarrow> Inr (vw_roles v, Some (vw_level v), vw_admission v)
        | Some l \<Rightarrow> map_sum id (\<lambda>level. (vw_roles v, level, vw_admission v)) (users_schoolLevel l (vw_roles v)))
    | Some given \<Rightarrow> (let roles = (case given of Some rs \<Rightarrow> rs | None \<Rightarrow> []) in
        if roles = [] then Inl (BadRequest ''At least one role is required'')
        else if findInvalidRoles roles \<noteq> [] then Inl (BadRequest ''Unknown roles'')
        else bind_result (assertOpsRolesAllowed e roles) (\<lambda>_.
          bind_result (users_schoolLevel (case up_level p of Some (Some l) \<Rightarrow> Some l | _ \<Rightarrow> Some (vw_level v)) roles) (\<lambda>level.
          if level_required roles \<and> level = None then Inl (BadRequest ''A school level is required for this role'')
          else if List.member roles ''student'' \<and> \<not> truthy (vw_admission v)
            then map_sum id (\<lambda>n. (roles, level, Some n)) (generateAdmissionNo e db)
          else Inr (roles, level, vw_admission v)))))"

definition next_capabilities :: "user_patch \<Rightarrow> user_view \<Rightarrow> string list" where
  "next_capabilities p v = (case up_capabilities p of
      None \<Rightarrow> vw_capabilities v
    | Some given \<Rightarrow> map trim (filter (\<lambda>c. trim c \<noteq> []) (case given of Some cs \<Rightarrow> cs | None \<Rightarrow> [])))"

definition roles_changing :: "user_patch \<Rightarrow> user_view \<Rightarrow> string list \<Rightarrow> bool" where
  "roles_changing p v roles = (up_roles p \<noteq> None \<and> \<not> arraysEqualAsSets (vw_roles v) roles)"

definition capabilities_changing :: "user_patch \<Rightarrow> user_view \<Rightarrow> bool" where
  "capabilities_changing p v = (up_capabilities p \<noteq> None \<and> \<not> arraysEqualAsSets (vw_capabilities v) (next_capabilities p v))"

definition set_field :: "'a option \<Rightarrow> ('a \<Rightarrow> 'u \<Rightarrow> 'u) \<Rightarrow> 'u \<Rightarrow> 'u" where
  "set_field x f u = (case x of None \<Rightarrow> u | Some y \<Rightarrow> f y u)"

definition profile_columns :: "user_patch \<Rightarrow> string option \<Rightarrow> string option \<Rightarrow> string option \<Rightarrow> string \<Rightarrow> tenant_user_row \<Rightarrow> tenant_user_row" where
  "profile_columns p gender level photo hash u =
     set_field (up_name p) (\<lambda>x r. r\<lparr>pu_name := the x\<rparr>) (set_field (up_email p) (\<lambda>x r. r\<lparr>pu_email := toLowerCase (the x)\<rparr>)
       (set_field (up_active p) (\<lambda>x r. r\<lparr>pu_active := (x = Some True)\<rparr>) (set_field (up_phone p) (\<lambda>x r. r\<lparr>pu_phone := or_null x\<rparr>)
       (set_field (up_major p) (\<lambda>x r. r\<lparr>pu_major := or_null x\<rparr>)
         (u\<lparr>pu_gender := gender, pu_level := level, pu_photo := photo, pu_hash := hash\<rparr>)))))"

text \<open>The columns a patch sets besides roles and capabilities, with the level as it was computed; \<open>email.toLowerCase()\<close> of a null is a \<open>TypeError\<close>, a
  null name is refused by the column.\<close>

definition set_profile :: "users_env \<Rightarrow> user_patch \<Rightarrow> string option result \<Rightarrow> tenant_user_row \<Rightarrow> tenant_user_row result" where
  "set_profile e p level u =
     (if up_email p = Some None then Inl DbError
      else bind_result (case up_gender p of None \<Rightarrow> Inr (pu_gender u) | Some g \<Rightarrow> gender_of g) (\<lambda>gender.
        bind_result level (\<lambda>l.
        bind_result (case up_photo p of None \<Rightarrow> Inr (pu_photo u) | Some x \<Rightarrow> assertPassportPhoto x) (\<lambda>photo.
        bind_result (if truthy (up_password p) then (case hashPassword (ue_kdf e) (ue_salt e) (the (up_password p)) of None \<Rightarrow> Inl DbError | Some h \<Rightarrow> Inr h)
          else Inr (pu_hash u)) (\<lambda>hash.
        if up_name p = Some None then Inl DbError
        else Inr (profile_columns p gender l photo hash u))))))"

definition set_privileges :: "user_patch \<Rightarrow> user_view \<Rightarrow> string list \<times> string option \<times> string option \<Rightarrow> tenant_user_row \<Rightarrow> tenant_user_row" where
  "set_privileges p v nxt u = (case nxt of (roles, level, admission) \<Rightarrow>
     let changing = roles_changing p v roles;
         u1 = (if changing then u\<lparr>pu_roles := roles, pu_permissions := derivePermissionsForRoles roles\<rparr> else u);
         u2 = (if up_level p \<noteq> None \<or> changing then u1\<lparr>pu_level := level\<rparr> else u1);
         u3 = (if changing \<and> List.member roles ''student'' then u2\<lparr>pu_admission := admission\<rparr> else u2) in
     if capabilities_changing p v then u3\<lparr>pu_capabilities := next_capabilities p v\<rparr> else u3)"

text \<open>\<open>UPDATE users SET ... WHERE id = ?\<close>, when there is something to set.\<close>

definition nothing_to_set :: "user_patch \<Rightarrow> bool" where
  "nothing_to_set p = (up_name p = None \<and> up_email p = None \<and> up_active p = None \<and> up_phone p = None \<and> up_major p = None \<and>
     up_gender p = None \<and> up_level p = None \<and> up_photo p = None \<and> \<not> truthy (up_password p))"

definition write_user :: "tenant_user_row \<Rightarrow> users_db \<Rightarrow> users_db option" where
  "write_user u db =
     (if user_row_fits u \<and> users_unique u (filter (\<lambda>x. pu_id x \<noteq> pu_id u) (ur_users db))
      then Some (db\<lparr>ur_users := tmodify pu_id (pu_id u) (\<lambda>_. u) (ur_users db), ur_dropped := Authority (pu_id u) # ur_dropped db\<rparr>)
      else None)"

definition update_privileged :: "users_env \<Rightarrow> claims option \<Rightarrow> user_patch \<Rightarrow> user_view \<Rightarrow> string list \<times> string option \<times> string option \<Rightarrow>
    tenant_user_row \<Rightarrow> users_db \<Rightarrow> user_view option result \<times> users_db" where
  "update_privileged e actor p v nxt u db =
     (case bind_result (assertCanAssignPrivileges actor) (\<lambda>_. bind_result (assertNotSelfPrivilegeChange (the actor) (pu_id u)) (\<lambda>_.
         bind_result (requirePrivilegeReason (up_reason p)) (\<lambda>reason. map_sum id (Pair reason) (set_profile e p (Inr (pu_level (set_privileges p v nxt u))) (set_privileges p v nxt u))))) of
        Inl x \<Rightarrow> (Inl x, db)
      | Inr (reason, u') \<Rightarrow> (case write_user u' db of
            None \<Rightarrow> (Inl DbError, db)
          | Some db1 \<Rightarrow>
              if \<not> ue_audited e then (Inl DbError, db1)
              else (let db2 = db1\<lparr>ur_audit := \<lparr>pc_actor = cl_id (the actor), pc_target = pu_id u, pc_reason = reason,
                    pc_before = (vw_roles v, vw_capabilities v), pc_after = (fst nxt, next_capabilities p v)\<rparr> # ur_audit db1\<rparr> in
                (Inr (getTenantUserById (pu_id u) db2), db2))))"

definition update_plain :: "users_env \<Rightarrow> user_patch \<Rightarrow> string list \<Rightarrow> tenant_user_row \<Rightarrow> users_db \<Rightarrow> user_view option result \<times> users_db" where
  "update_plain e p roles u db =
     (if nothing_to_set p then (let db1 = db\<lparr>ur_dropped := UserLists # ur_dropped db\<rparr> in (Inr (getTenantUserById (pu_id u) db1), db1))
      else case set_profile e p (case up_level p of None \<Rightarrow> Inr (pu_level u) | Some l \<Rightarrow> users_schoolLevel l roles) u of
        Inl x \<Rightarrow> (Inl x, db)
      | Inr u' \<Rightarrow> (case write_user u' db of
            None \<Rightarrow> (Inl DbError, db)
          | Some db1 \<Rightarrow> let db2 = db1\<lparr>ur_dropped := UserLists # ur_dropped db1\<rparr> in (Inr (getTenantUserById (pu_id u) db2), db2)))"

definition updateTenantUser :: "users_env \<Rightarrow> claims option \<Rightarrow> string \<Rightarrow> user_patch \<Rightarrow> users_db \<Rightarrow> user_view option result \<times> users_db" where
  "updateTenantUser e actor k p db =
     (if \<not> ue_found e then (Inl DbError, db)
      else case tfind pu_id k (ur_users db) of
        None \<Rightarrow> (Inl (NotFound ''User not found''), db)
      | Some u \<Rightarrow> (let v = mapUserRow u in
         case bind_result (next_roles e p v db) (\<lambda>nxt.
             bind_result (if capabilities_changing p v then assertCapabilitiesAllowed (next_capabilities p v) else Inr ()) (\<lambda>_. Inr nxt)) of
           Inl x \<Rightarrow> (Inl x, db)
         | Inr nxt \<Rightarrow>
             if roles_changing p v (fst nxt) \<or> capabilities_changing p v then update_privileged e actor p v nxt u db
             else update_plain e p (fst nxt) u db))"

definition no_patch :: user_patch where
  "no_patch = \<lparr>up_name = None, up_email = None, up_roles = None, up_capabilities = None, up_reason = None, up_active = None,
     up_password = None, up_phone = None, up_major = None, up_level = None, up_gender = None, up_photo = None\<rparr>"

definition updateOwnPassportPhoto :: "users_env \<Rightarrow> string \<Rightarrow> string option \<Rightarrow> users_db \<Rightarrow> user_view option result \<times> users_db" where
  "updateOwnPassportPhoto e k photo db = updateTenantUser e None k (no_patch\<lparr>up_photo := Some photo\<rparr>) db"

subsection \<open>Removing a user\<close>

definition deactivate :: "string \<Rightarrow> tenant_user_row \<Rightarrow> tenant_user_row" where
  "deactivate why u = u\<lparr>pu_active := False, pu_archived := Some why\<rparr>"

definition close_mappings :: "string \<Rightarrow> string \<Rightarrow> mapping_row list \<Rightarrow> mapping_row list" where
  "close_mappings tenantId userId ms = tupdate (\<lambda>m. mp_tenant m = tenantId \<and> mp_user m = userId) (\<lambda>m. m\<lparr>mp_active := False\<rparr>) ms"

definition active_children :: "string \<Rightarrow> users_db \<Rightarrow> bool" where
  "active_children parent db = list_ex (\<lambda>(p, s). p = parent \<and> list_ex (\<lambda>u. pu_id u = s \<and> pu_active u) (ur_users db)) (ur_links db)"

text \<open>A parent none of whose children is active; the update asks for the role, the mapping does not.\<close>

definition retire_parent :: "users_env \<Rightarrow> string \<Rightarrow> users_db \<Rightarrow> users_db result" where
  "retire_parent e parent db =
     (if active_children parent db then Inr db
      else if \<not> ue_mapped e then Inl DbError
      else Inr (db\<lparr>ur_users := tupdate (\<lambda>u. pu_id u = parent \<and> List.member (pu_roles u) ''parent'') (deactivate ''no_active_children'') (ur_users db),
        ur_mappings := close_mappings (ue_tenant e) parent (ur_mappings db)\<rparr>))"

text \<open>An exception leaves what was written before it: the state that goes with it.\<close>

definition retired_user :: "string \<Rightarrow> users_db \<Rightarrow> users_db" where
  "retired_user parent db = db\<lparr>ur_users := tupdate (\<lambda>u. pu_id u = parent \<and> List.member (pu_roles u) ''parent'') (deactivate ''no_active_children'') (ur_users db)\<rparr>"

primrec retire_parents :: "users_env \<Rightarrow> string list \<Rightarrow> users_db \<Rightarrow> unit result \<times> users_db" where
  "retire_parents e [] db = (Inr (), db)"
| "retire_parents e (p # ps) db = (case retire_parent e p db of
      Inl x \<Rightarrow> (Inl x, retired_user p db)
    | Inr db' \<Rightarrow> retire_parents e ps db')"

definition parents_of :: "string \<Rightarrow> users_db \<Rightarrow> string list" where
  "parents_of student db = js_uniq (map fst (filter (\<lambda>(p, s). s = student) (ur_links db)))"

definition deleteTenantUser :: "users_env \<Rightarrow> string \<Rightarrow> users_db \<Rightarrow> string result \<times> users_db" where
  "deleteTenantUser e k db =
     (if \<not> ue_found e then (Inl DbError, db)
      else case tfind pu_id k (ur_users db) of
        None \<Rightarrow> (Inl (NotFound ''User not found''), db)
      | Some u \<Rightarrow> (let db1 = db\<lparr>ur_users := tmodify pu_id k (deactivate ''left_school'') (ur_users db)\<rparr> in
         case (if List.member (pu_roles u) ''student'' then retire_parents e (parents_of k db1) db1 else (Inr (), db1)) of
           (Inl x, db2) \<Rightarrow> (Inl x, db2)
         | (Inr _, db2) \<Rightarrow>
             if \<not> ue_mapped e then (Inl DbError, db2)
             else (Inr k, db2\<lparr>ur_mappings := close_mappings (ue_tenant e) k (ur_mappings db2),
               ur_dropped := UserLists # Authority k # ur_dropped db2\<rparr>)))"

text \<open>\<open>temporary\<close> is the password drawn when none is given.\<close>

definition adminResetPassword :: "users_env \<Rightarrow> string \<Rightarrow> string \<Rightarrow> string option \<Rightarrow> users_db \<Rightarrow> (string \<times> string option) result \<times> users_db" where
  "adminResetPassword e temporary k password db =
     (if \<not> ue_found e then (Inl DbError, db)
      else case tfind pu_id k (ur_users db) of
        None \<Rightarrow> (Inl (NotFound ''User not found''), db)
      | Some u \<Rightarrow> (let chosen = trim (or_else password []); generated = (if chosen = [] then Some temporary else None);
           next_password = (case or_null generated of Some g \<Rightarrow> g | None \<Rightarrow> chosen) in
         if length next_password < 8 then (Inl (BadRequest ''Password must be at least 8 characters''), db)
         else (case hashPassword (ue_kdf e) (ue_salt e) next_password of
             None \<Rightarrow> (Inl DbError, db)
           | Some h \<Rightarrow> (Inr (k, generated), db\<lparr>ur_users := tmodify pu_id k (\<lambda>x. x\<lparr>pu_hash := h\<rparr>) (ur_users db),
               ur_dropped := Authority k # ur_dropped db\<rparr>))))"

subsection \<open>The service as a machine\<close>

datatype users_request =
    Create users_env claims new_user
  | Update users_env "claims option" string user_patch
  | Remove users_env string
  | ResetPassword users_env string string "string option"

datatype users_answer = UId "string result" | UView "user_view option result" | UReset "(string \<times> string option) result"

fun users_step :: "users_request \<Rightarrow> users_db \<Rightarrow> users_answer \<times> users_db" where
  "users_step (Create e a b) db = map_prod UId id (createTenantUser e a b db)"
| "users_step (Update e a k p) db = map_prod UView id (updateTenantUser e a k p db)"
| "users_step (Remove e k) db = map_prod UId id (deleteTenantUser e k db)"
| "users_step (ResetPassword e t k pw) db = map_prod UReset id (adminResetPassword e t k pw db)"

subsection \<open>Privileges\<close>

definition sound_user :: "tenant_user_row \<Rightarrow> bool" where
  "sound_user u = (pu_roles u \<noteq> [] \<and> findInvalidRoles (pu_roles u) = [] \<and> pu_permissions u = derivePermissionsForRoles (pu_roles u) \<and>
     findUnknownCapabilities (pu_capabilities u) = [] \<and> findRoleOnlyCapabilities (pu_capabilities u) = [])"

definition users_ok :: "users_db \<Rightarrow> bool" where
  "users_ok db = (pk pu_id (ur_users db) \<and> pk pu_email (ur_users db) \<and> (\<forall>u\<in>set (ur_users db). sound_user u))"

definition same_rights :: "tenant_user_row \<Rightarrow> tenant_user_row \<Rightarrow> bool" where
  "same_rights u u' = (pu_roles u' = pu_roles u \<and> pu_permissions u' = pu_permissions u \<and> pu_capabilities u' = pu_capabilities u \<and> pu_id u' = pu_id u)"

lemma set_field_simps [simp]: "set_field None f u = u" "set_field (Some y) f u = f y u"
  by (simp_all add: set_field_def)

lemma set_field_rights:
  "(\<And>y r. same_rights u r \<Longrightarrow> same_rights u (f y r)) \<Longrightarrow> same_rights u r \<Longrightarrow> same_rights u (set_field x f r)"
  by (cases x) simp_all

lemma profile_columns_rights: "same_rights u (profile_columns p gender level photo hash u)"
  unfolding profile_columns_def by (intro set_field_rights) (simp_all add: same_rights_def)

lemma set_profile_rights: "set_profile e p level u = Inr u' \<Longrightarrow> same_rights u u'"
  by (auto simp: set_profile_def profile_columns_rights split: if_splits)

lemma deactivate_rights: "same_rights u (deactivate w u)" "pu_email (deactivate w u) = pu_email u"
  by (simp_all add: deactivate_def same_rights_def)

lemma sound_same: "same_rights u u' \<Longrightarrow> sound_user u \<Longrightarrow> sound_user u'"
  by (simp add: same_rights_def sound_user_def)

lemma replaced_unique:
  assumes "pk key t" and "pk f t" and "\<And>x. x \<in> set t \<Longrightarrow> key x \<noteq> key u \<Longrightarrow> f x \<noteq> f u"
  shows "pk f (tmodify key (key u) (\<lambda>_. u) t)"
  using assms
proof (induction t)
  case (Cons x t)
  have same: "tmodify key (key u) (\<lambda>_. u) t = t" if "key u \<notin> key ` set t" using that by (induction t) auto
  have IH: "pk f (tmodify key (key u) (\<lambda>_. u) t)" using Cons by (simp add: pk_def)
  show ?case
  proof (cases "key x = key u")
    case True
    then have "key u \<notin> key ` set t" using Cons.prems(1) by (simp add: pk_def)
    moreover have "f y \<noteq> f u" if "y \<in> set t" for y
    proof -
      have "key y \<noteq> key u" using that \<open>key u \<notin> key ` set t\<close> by (metis imageI)
      then show ?thesis using Cons.prems(3) [of y] that by simp
    qed
    then have "f u \<notin> f ` set t" by (metis imageE)
    ultimately show ?thesis using True Cons.prems(2) by (simp add: same pk_def)
  next
    case False
    then have "f x \<noteq> f u" "f x \<notin> f ` set t" using Cons.prems(2,3) by (auto simp: pk_def)
    then have "f x \<notin> f ` set (tmodify key (key u) (\<lambda>_. u) t)" by (auto simp: tmodify_def set_tupdate)
    with False IH show ?thesis by (simp add: pk_def)
  qed
qed simp

lemma write_user_Some:
  assumes "write_user u db = Some db'" and "users_ok db" and "u0 \<in> set (ur_users db)" and "pu_id u0 = pu_id u" and "sound_user u"
  shows "users_ok db'"
proof -
  from assms(1) have db': "db' = db\<lparr>ur_users := tmodify pu_id (pu_id u) (\<lambda>_. u) (ur_users db), ur_dropped := Authority (pu_id u) # ur_dropped db\<rparr>"
    and uniq: "users_unique u (filter (\<lambda>x. pu_id x \<noteq> pu_id u) (ur_users db))"
    by (auto simp: write_user_def split: if_splits)
  have keys: "map pu_id (tmodify pu_id (pu_id u) (\<lambda>_. u) t) = map pu_id t" for t
    by (induction t) auto
  have "pk pu_id (ur_users db')" using assms(2) by (simp add: db' users_ok_def pk_def keys)
  moreover have "pk pu_email (tmodify pu_id (pu_id u) (\<lambda>_. u) (ur_users db))"
    using assms(2) uniq by (intro replaced_unique) (auto simp: users_ok_def users_unique_def list_ex_iff)
  then have "pk pu_email (ur_users db')" by (simp add: db')
  ultimately show ?thesis using assms(2,5) by (auto simp: db' users_ok_def tmodify_def set_tupdate)
qed

lemma users_ok_tupdate:
  assumes "\<And>r. same_rights r (f r)" and "\<And>r. pu_email (f r) = pu_email r" and "users_ok db"
  shows "users_ok (db\<lparr>ur_users := tupdate P f (ur_users db)\<rparr>)"
proof -
  have "\<And>r. pu_id (f r) = pu_id r" using assms(1) by (simp add: same_rights_def)
  with assms(2,3) have "pk pu_id (tupdate P f (ur_users db)) \<and> pk pu_email (tupdate P f (ur_users db))"
    by (simp add: users_ok_def pk_tupdate)
  moreover have "sound_user (f r)" if "sound_user r" for r using sound_same [OF assms(1) that] .
  ultimately show ?thesis using assms(3) by (auto simp: users_ok_def set_tupdate)
qed

lemma users_ok_only_users:
  "users_ok (db\<lparr>ur_mappings := m\<rparr>) = users_ok db" "users_ok (db\<lparr>ur_audit := a\<rparr>) = users_ok db" "users_ok (db\<lparr>ur_dropped := d\<rparr>) = users_ok db"
  by (simp_all add: users_ok_def)

lemma created_sound:
  assumes "created_user e b db = Inr u"
  shows "sound_user u \<and> pu_id u = ue_user e \<and> pu_roles u = nu_roles b \<and> pu_capabilities u = [] \<and> pu_email u \<notin> pu_email ` set (ur_users db)"
proof -
  from assms have "nu_roles b \<noteq> []" "findInvalidRoles (nu_roles b) = []" by (auto simp: created_user_def split: if_splits)
  moreover from assms this obtain level gender admission hash where "\<not> list_ex (\<lambda>u. pu_email u = toLowerCase (nu_email b)) (ur_users db)"
      and u: "u = user_of e b level gender admission hash"
    by (auto simp: created_user_def split: if_splits option.splits)
  ultimately show ?thesis
    by (auto simp: u user_of_def sound_user_def findUnknownCapabilities_def findRoleOnlyCapabilities_def list_ex_iff)
qed

text \<open>What a creation leaves in the table: nothing, or one row it was allowed to make.\<close>

lemma create_users:
  obtains "ur_users (snd (createTenantUser e actor b db)) = ur_users db" "fst (createTenantUser e actor b db) \<noteq> Inr k"
      "ur_audit (snd (createTenantUser e actor b db)) = ur_audit db"
  | u where "created_user e b db = Inr u" "pu_id u \<notin> pu_id ` set (ur_users db)"
      "ur_users (snd (createTenantUser e actor b db)) = ur_users db @ [u]" "actorHasPermission (cl_rights actor) ''roles:assign''"
proof -
  show ?thesis
  proof (cases "bind_result (assertCanAssignPrivileges (Some actor)) (\<lambda>_. requirePrivilegeReason (nu_reason b))")
    case (Inl x)
    then show ?thesis by (intro that(1)) (simp_all add: createTenantUser_def)
  next
    case (Inr reason)
    then have can: "actorHasPermission (cl_rights actor) ''roles:assign''"
      by (auto simp: assertCanAssignPrivileges_def split: if_splits)
    show ?thesis
    proof (cases "created_user e b db")
      case (Inl x)
      then show ?thesis by (intro that(1)) (simp_all add: createTenantUser_def Inr)
    next
      case u: (Inr u)
      show ?thesis
      proof (cases "ue_found e \<and> user_row_fits u \<and> users_unique u (ur_users db) \<and> tinsert pu_id u (ur_users db) \<noteq> None")
        case True
        then obtain t where t: "tinsert pu_id u (ur_users db) = Some t" by blast
        from tinsert_SomeD [OF t] u can True show ?thesis
          by (intro that(2) [of u]) (simp_all add: createTenantUser_def Inr t Let_def)
      next
        case False
        then show ?thesis by (intro that(1)) (auto simp: createTenantUser_def Inr u)
      qed
    qed
  qed
qed

lemma create_ok: "users_ok db \<Longrightarrow> users_ok (snd (createTenantUser e actor b db))"
  by (rule create_users [of e actor b db "[]"]) (auto simp: users_ok_def pk_append dest: created_sound)

lemma retire_parent_ok: "users_ok db \<Longrightarrow> users_ok (retired_user p db)"
  unfolding retired_user_def by (rule users_ok_tupdate) (simp_all add: deactivate_rights)

lemma retire_parent_Inr: "retire_parent e p db = Inr db' \<Longrightarrow> db' = db \<or> db' = (retired_user p db)\<lparr>ur_mappings := close_mappings (ue_tenant e) p (ur_mappings db)\<rparr>"
  by (auto simp: retire_parent_def retired_user_def split: if_splits)

lemma retire_parents_ok: "users_ok db \<Longrightarrow> users_ok (snd (retire_parents e ps db))"
proof (induction ps arbitrary: db)
  case (Cons p ps)
  show ?case
  proof (cases "retire_parent e p db")
    case (Inr db')
    with retire_parent_Inr [OF this] Cons show ?thesis by (auto simp: users_ok_only_users retire_parent_ok)
  qed (simp add: Cons retire_parent_ok)
qed simp

lemma delete_ok:
  assumes "users_ok db"
  shows "users_ok (snd (deleteTenantUser e k db))"
proof -
  have ok1: "users_ok (db\<lparr>ur_users := tmodify pu_id k (deactivate ''left_school'') (ur_users db)\<rparr>)"
    unfolding tmodify_def by (rule users_ok_tupdate) (simp_all add: deactivate_rights assms)
  let ?db1 = "db\<lparr>ur_users := tmodify pu_id k (deactivate ''left_school'') (ur_users db)\<rparr>"
  obtain x db2 where r: "retire_parents e (parents_of k ?db1) ?db1 = (x, db2)" by (rule prod.exhaust)
  then have "users_ok db2" using retire_parents_ok [OF ok1, of e "parents_of k ?db1"] by simp
  with ok1 assms show ?thesis
    by (simp add: deleteTenantUser_def Let_def r users_ok_only_users split: option.split sum.split)
qed

lemma reset_ok: "users_ok db \<Longrightarrow> users_ok (snd (adminResetPassword e tmp k pw db))"
proof -
  assume ok: "users_ok db"
  have "users_ok (db\<lparr>ur_users := tmodify pu_id k (\<lambda>x. x\<lparr>pu_hash := h\<rparr>) (ur_users db)\<rparr>)" for h
    unfolding tmodify_def by (rule users_ok_tupdate) (simp_all add: same_rights_def ok)
  with ok show ?thesis
    by (simp add: adminResetPassword_def Let_def users_ok_def split: option.split)
qed

lemma next_roles_valid:
  assumes "next_roles e p v db = Inr nxt" and "vw_roles v \<noteq> []" and "findInvalidRoles (vw_roles v) = []"
  shows "fst nxt \<noteq> [] \<and> findInvalidRoles (fst nxt) = [] \<and> (up_roles p = None \<longrightarrow> fst nxt = vw_roles v)"
proof (cases "up_roles p")
  case None
  with assms show ?thesis by (cases "up_level p") (auto simp: next_roles_def map_sum_result split: sum.splits)
next
  case (Some given)
  with assms(1) show ?thesis
    by (auto simp: next_roles_def Let_def map_sum_result split: if_splits sum.splits)
qed

lemma set_privileges_same: "pu_id (set_privileges p v nxt u) = pu_id u"
  by (cases nxt) (simp add: set_privileges_def Let_def)

lemma set_privileges_sound:
  assumes "sound_user u" and "fst nxt \<noteq> []" and "findInvalidRoles (fst nxt) = []"
    and "capabilities_changing p v \<Longrightarrow> assertCapabilitiesAllowed (next_capabilities p v) = Inr ()"
  shows "sound_user (set_privileges p v nxt u)"
  using assms by (cases nxt) (auto simp: set_privileges_def Let_def sound_user_def assertCapabilitiesAllowed_def split: if_splits)

text \<open>What an update leaves: nothing but dropped caches, or the row of the user written anew.\<close>

definition allowed_change :: "claims option \<Rightarrow> string \<Rightarrow> string option \<Rightarrow> bool" where
  "allowed_change actor k reason = (case actor of None \<Rightarrow> False
    | Some c \<Rightarrow> actorHasPermission (cl_rights c) ''roles:assign'' \<and> (actorHasWildcard (cl_rights c) \<or> cl_id c = [] \<or> cl_id c \<noteq> k) \<and>
        3 \<le> length (trim (or_else reason [])))"

lemma privilege_checks:
  "bind_result (assertCanAssignPrivileges actor) (\<lambda>_. bind_result (assertNotSelfPrivilegeChange (the actor) k) (\<lambda>_.
     bind_result (requirePrivilegeReason r) (\<lambda>reason. map_sum id (Pair reason) x))) = Inr (reason, u') \<Longrightarrow>
   allowed_change actor k r \<and> x = Inr u' \<and> reason = trim (or_else r [])"
  by (auto simp: assertCanAssignPrivileges_def assertNotSelfPrivilegeChange_def requirePrivilegeReason_def Let_def allowed_change_def
      map_sum_result split: option.splits if_splits sum.splits)

lemma update_cases:
  obtains "ur_users (snd (updateTenantUser e actor k p db)) = ur_users db"
  | u u' db1 where "tfind pu_id k (ur_users db) = Some u" "write_user u' db = Some db1" "pu_id u' = k"
      "ur_users (snd (updateTenantUser e actor k p db)) = ur_users db1" "same_rights u u'"
  | u u' db1 nxt where "tfind pu_id k (ur_users db) = Some u" "write_user u' db = Some db1" "pu_id u' = k"
      "ur_users (snd (updateTenantUser e actor k p db)) = ur_users db1" "next_roles e p (mapUserRow u) db = Inr nxt"
      "capabilities_changing p (mapUserRow u) \<Longrightarrow> assertCapabilitiesAllowed (next_capabilities p (mapUserRow u)) = Inr ()"
      "same_rights (set_privileges p (mapUserRow u) nxt u) u'" "allowed_change actor k (up_reason p)"
      "is_ok (fst (updateTenantUser e actor k p db)) \<Longrightarrow> ur_audit (snd (updateTenantUser e actor k p db)) =
         \<lparr>pc_actor = cl_id (the actor), pc_target = k, pc_reason = trim (or_else (up_reason p) []),
           pc_before = (pu_roles u, pu_capabilities u), pc_after = (fst nxt, next_capabilities p (mapUserRow u))\<rparr> # ur_audit db"
proof (cases "ue_found e \<and> tfind pu_id k (ur_users db) \<noteq> None")
  case False
  then show thesis by (intro that(1)) (auto simp: updateTenantUser_def)
next
  case True
  then obtain u where u: "tfind pu_id k (ur_users db) = Some u" by blast
  then have id: "pu_id u = k" by (auto dest: tfind_SomeD)
  let ?v = "mapUserRow u"
  show thesis
  proof (cases "bind_result (next_roles e p ?v db) (\<lambda>nxt.
             bind_result (if capabilities_changing p ?v then assertCapabilitiesAllowed (next_capabilities p ?v) else Inr ()) (\<lambda>_. Inr nxt))")
    case (Inl x)
    with True u show thesis by (intro that(1)) (simp add: updateTenantUser_def Let_def)
  next
    case (Inr nxt)
    then have nxt: "next_roles e p ?v db = Inr nxt"
        "capabilities_changing p ?v \<Longrightarrow> assertCapabilitiesAllowed (next_capabilities p ?v) = Inr ()" by (auto split: if_splits)
    show thesis
    proof (cases "roles_changing p ?v (fst nxt) \<or> capabilities_changing p ?v")
      case False
      with Inr True u have upd: "updateTenantUser e actor k p db = update_plain e p (fst nxt) u db"
        by (simp add: updateTenantUser_def Let_def del: bind_result_Inr)
      show thesis
      proof (cases "nothing_to_set p")
        case False
        show thesis
        proof (cases "set_profile e p (case up_level p of None \<Rightarrow> Inr (pu_level u) | Some l \<Rightarrow> users_schoolLevel l (fst nxt)) u")
          case (Inr u')
          then have rights: "same_rights u u'" by (rule set_profile_rights)
          then have "pu_id u' = k" using id by (simp add: same_rights_def)
          show thesis
          proof (cases "write_user u' db")
            case (Some db1)
            with False Inr u rights \<open>pu_id u' = k\<close> show thesis by (intro that(2) [of u u' db1]) (simp_all add: upd update_plain_def Let_def)
          qed (use False Inr in \<open>intro that(1); simp add: upd update_plain_def\<close>)
        qed (use False in \<open>intro that(1); simp add: upd update_plain_def\<close>)
      qed (intro that(1); simp add: upd update_plain_def Let_def)
    next
      case changing: True
      with Inr True u have upd: "updateTenantUser e actor k p db = update_privileged e actor p ?v nxt u db"
        by (simp add: updateTenantUser_def Let_def del: bind_result_Inr)
      let ?r = "set_profile e p (Inr (pu_level (set_privileges p ?v nxt u))) (set_privileges p ?v nxt u)"
      show thesis
      proof (cases "bind_result (assertCanAssignPrivileges actor) (\<lambda>_. bind_result (assertNotSelfPrivilegeChange (the actor) (pu_id u)) (\<lambda>_.
         bind_result (requirePrivilegeReason (up_reason p)) (\<lambda>reason. map_sum id (Pair reason) ?r)))")
        case (Inl x)
        then show thesis by (intro that(1)) (simp add: upd update_privileged_def)
      next
        case res: (Inr x)
        obtain reason u' where x: "x = (reason, u')" by (cases x)
        from privilege_checks [OF res [unfolded x]] have c: "allowed_change actor k (up_reason p)" "?r = Inr u'" "reason = trim (or_else (up_reason p) [])"
          by (simp_all add: id)
        from set_profile_rights [OF c(2)] have rights: "same_rights (set_privileges p ?v nxt u) u'" .
        then have "pu_id u' = k" using id by (simp add: same_rights_def set_privileges_same)
        show thesis
        proof (cases "write_user u' db")
          case None
          then show thesis by (intro that(1)) (simp add: upd update_privileged_def res x)
        next
          case (Some db1)
          then have audit: "ur_audit db1 = ur_audit db" by (auto simp: write_user_def split: if_splits)
          have view: "vw_roles ?v = pu_roles u" "vw_capabilities ?v = pu_capabilities u" by (simp_all add: mapUserRow_def)
          have body: "update_privileged e actor p ?v nxt u db = (if \<not> ue_audited e then (Inl DbError, db1)
              else (let db2 = db1\<lparr>ur_audit := \<lparr>pc_actor = cl_id (the actor), pc_target = pu_id u, pc_reason = reason,
                    pc_before = (vw_roles ?v, vw_capabilities ?v), pc_after = (fst nxt, next_capabilities p ?v)\<rparr> # ur_audit db1\<rparr> in
                (Inr (getTenantUserById (pu_id u) db2), db2)))"
            by (simp add: update_privileged_def res x Some)
          show thesis
            by (rule that(3) [OF u Some \<open>pu_id u' = k\<close> _ nxt rights c(1)])
              (simp_all add: upd body Let_def audit view c(3) id split: if_splits)
        qed
      qed
    qed
  qed
qed

lemma update_ok:
  assumes "users_ok db"
  shows "users_ok (snd (updateTenantUser e actor k p db))"
proof -
  have frame: "users_ok x = users_ok y" if "ur_users x = ur_users y" for x y by (simp add: users_ok_def that)
  have sound: "sound_user u" "u \<in> set (ur_users db)" "pu_id u = k" if "tfind pu_id k (ur_users db) = Some u" for u
    using assms tfind_SomeD [OF that] by (auto simp: users_ok_def)
  show ?thesis
  proof (rule update_cases [of e actor k p db])
    assume "ur_users (snd (updateTenantUser e actor k p db)) = ur_users db"
    with assms show ?thesis by (simp add: users_ok_def)
  next
    fix u u' db1 assume a: "tfind pu_id k (ur_users db) = Some u" "write_user u' db = Some db1" "pu_id u' = k"
      "ur_users (snd (updateTenantUser e actor k p db)) = ur_users db1" "same_rights u u'"
    with write_user_Some [OF a(2) assms, of u] sound [OF a(1)] sound_same [OF a(5)] frame [OF a(4)] show ?thesis by simp
  next
    fix u u' db1 nxt assume a: "tfind pu_id k (ur_users db) = Some u" "write_user u' db = Some db1" "pu_id u' = k"
      "ur_users (snd (updateTenantUser e actor k p db)) = ur_users db1" "next_roles e p (mapUserRow u) db = Inr nxt"
      "capabilities_changing p (mapUserRow u) \<Longrightarrow> assertCapabilitiesAllowed (next_capabilities p (mapUserRow u)) = Inr ()"
      "same_rights (set_privileges p (mapUserRow u) nxt u) u'"
    have "vw_roles (mapUserRow u) \<noteq> []" "findInvalidRoles (vw_roles (mapUserRow u)) = []"
      using sound(1) [OF a(1)] by (simp_all add: mapUserRow_def sound_user_def)
    from next_roles_valid [OF a(5) this] have "sound_user (set_privileges p (mapUserRow u) nxt u)"
      using set_privileges_sound [OF sound(1) [OF a(1)], of nxt p "mapUserRow u"] a(6) by simp
    from sound_same [OF a(7) this] write_user_Some [OF a(2) assms, of u] sound [OF a(1)] a(3) frame [OF a(4)] show ?thesis by simp
  qed
qed

lemma users_step_ok: "users_ok db \<Longrightarrow> users_ok (snd (users_step q db))"
  by (cases q) (simp_all add: create_ok update_ok delete_ok reset_ok)

interpretation users: invariant_machine users_step users_ok
  by unfold_locales (rule users_step_ok)


definition director_row :: tenant_user_row where
  "director_row = \<lparr>pu_id = ''d1'', pu_email = ''d@s.ng'', pu_name = ''Dayo'', pu_phone = None, pu_major = None, pu_level = Some ''all'',
     pu_gender = None, pu_admission = None, pu_hash = ''h'', pu_roles = [''bursar''], pu_permissions = derivePermissionsForRoles [''bursar''],
     pu_capabilities = [], pu_active = True, pu_photo = None, pu_archived = None, pu_createdAt = 1\<rparr>"

definition sample_users :: users_db where
  "sample_users = \<lparr>ur_users = [director_row], ur_links = [], ur_mappings = [], ur_audit = [], ur_dropped = []\<rparr>"

lemma sample_users_ok: "users_ok sample_users"
proof -
  have "findInvalidRoles [''bursar''] = []" by code_simp
  then show ?thesis
    by (simp add: users_ok_def sample_users_def sound_user_def director_row_def pk_def findUnknownCapabilities_def findRoleOnlyCapabilities_def)
qed


subsection \<open>Who changes privileges\<close>

definition rights_of :: "string \<Rightarrow> users_db \<Rightarrow> (string list \<times> string list) option" where
  "rights_of k db = map_option (\<lambda>u. (pu_roles u, pu_capabilities u)) (tfind pu_id k (ur_users db))"

lemma rights_tupdate:
  assumes "\<And>r. same_rights r (f r)"
  shows "rights_of k (db\<lparr>ur_users := tupdate P f (ur_users db)\<rparr>) = rights_of k db"
proof -
  have "tfind pu_id k (tupdate P f (ur_users db)) = map_option (\<lambda>r. if P r then f r else r) (tfind pu_id k (ur_users db))"
    by (rule tfind_tupdate) (use assms in \<open>simp add: same_rights_def\<close>)
  with assms show ?thesis by (cases "tfind pu_id k (ur_users db)") (simp_all add: rights_of_def same_rights_def)
qed

lemma rights_only_users:
  "rights_of k (db\<lparr>ur_mappings := m\<rparr>) = rights_of k db" "rights_of k (db\<lparr>ur_audit := a\<rparr>) = rights_of k db" "rights_of k (db\<lparr>ur_dropped := d\<rparr>) = rights_of k db"
  by (simp_all add: rights_of_def)

lemma retire_parents_rights: "rights_of k (snd (retire_parents e ps db)) = rights_of k db"
proof (induction ps arbitrary: db)
  case (Cons p ps)
  have retired: "rights_of k (retired_user p db) = rights_of k db"
    unfolding retired_user_def by (rule rights_tupdate) (simp add: deactivate_rights)
  show ?case
  proof (cases "retire_parent e p db")
    case (Inr db')
    with retire_parent_Inr [OF this] Cons retired show ?thesis by (auto simp: rights_only_users)
  qed (simp add: retired)
qed simp

lemma other_rights:
  assumes "tfind pu_id k (ur_users db) = Some u" and "\<And>e a p. q \<noteq> Update e a k p"
  shows "rights_of k (snd (users_step q db)) = rights_of k db"
proof (cases q)
  case (Create e a b)
  show ?thesis
    by (rule create_users [of e a b db "[]"]) (use assms(1) in \<open>auto simp: Create rights_of_def tfind_append\<close>)
next
  case (Update e a k' p)
  with assms(2) have "k' \<noteq> k" by auto
  have kept: "tfind pu_id k (ur_users db1) = tfind pu_id k (ur_users db)" if "write_user v db = Some db1" "pu_id v = k'" for v db1
  proof -
    have "ur_users db1 = tmodify pu_id k' (\<lambda>_. v) (ur_users db)" using that by (auto simp: write_user_def split: if_splits)
    moreover have "tfind pu_id k (tmodify pu_id k' (\<lambda>_. v) t) = tfind pu_id k t" for t
      using that(2) \<open>k' \<noteq> k\<close> by (induction t) auto
    ultimately show ?thesis by simp
  qed
  show ?thesis
    by (rule update_cases [of e a k' p db]) (simp_all add: Update rights_of_def kept)
next
  case (Remove e k')
  let ?db1 = "db\<lparr>ur_users := tmodify pu_id k' (deactivate ''left_school'') (ur_users db)\<rparr>"
  have one: "rights_of k ?db1 = rights_of k db" unfolding tmodify_def by (rule rights_tupdate) (simp add: deactivate_rights)
  obtain x db2 where r: "retire_parents e (parents_of k' ?db1) ?db1 = (x, db2)" by (rule prod.exhaust)
  then have "rights_of k db2 = rights_of k db" using retire_parents_rights [of k e "parents_of k' ?db1" ?db1] one by simp
  with one show ?thesis
    by (simp add: Remove deleteTenantUser_def Let_def r rights_only_users split: option.split sum.split)
next
  case (ResetPassword e t k' pw)
  have "rights_of k (db\<lparr>ur_users := tmodify pu_id k' (\<lambda>x. x\<lparr>pu_hash := h\<rparr>) (ur_users db)\<rparr>) = rights_of k db" for h
    unfolding tmodify_def by (rule rights_tupdate) (simp add: same_rights_def)
  then show ?thesis by (simp add: ResetPassword adminResetPassword_def Let_def rights_of_def split: option.split)
qed

text \<open>C4: the roles or the capabilities of a user change by an update alone, made by an actor who may assign roles, for another user
  than himself unless he holds every right, and with a reason; when the request succeeds the change is in the audit log with
  what the user had before.\<close>

theorem privilege_changes_checked:
  assumes "tfind pu_id k (ur_users db) = Some u" and "rights_of k (snd (users_step q db)) \<noteq> rights_of k db"
  shows "\<exists>e actor p. q = Update e (Some actor) k p \<and> allowed_change (Some actor) k (up_reason p) \<and>
    (\<not> is_ok (fst (updateTenantUser e (Some actor) k p db)) \<or>
     (\<exists>c. ur_audit (snd (users_step q db)) = c # ur_audit db \<and> pc_actor c = cl_id actor \<and> pc_target c = k \<and>
        pc_before c = (pu_roles u, pu_capabilities u)))"
proof -
  from other_rights [OF assms(1), of q] assms(2) obtain e a p where q: "q = Update e a k p" by blast
  show ?thesis
  proof (rule update_cases [of e a k p db])
    assume "ur_users (snd (updateTenantUser e a k p db)) = ur_users db"
    with assms(2) show ?thesis by (simp add: q rights_of_def)
  next
    fix v v' db1 assume w: "tfind pu_id k (ur_users db) = Some v" "write_user v' db = Some db1" "pu_id v' = k"
      "ur_users (snd (updateTenantUser e a k p db)) = ur_users db1" "same_rights v v'"
    then have "ur_users db1 = tmodify pu_id k (\<lambda>_. v') (ur_users db)" by (auto simp: write_user_def split: if_splits)
    moreover have "tfind pu_id k (tmodify pu_id k (\<lambda>_. v') t) = map_option (\<lambda>_. v') (tfind pu_id k t)" for t
      using w(3) by (induction t) auto
    ultimately have "rights_of k (snd (users_step q db)) = rights_of k db"
      using w by (simp add: q rights_of_def same_rights_def)
    with assms(2) show ?thesis by simp
  next
    fix v v' db1 nxt assume w: "tfind pu_id k (ur_users db) = Some v" "allowed_change a k (up_reason p)"
      "is_ok (fst (updateTenantUser e a k p db)) \<Longrightarrow> ur_audit (snd (updateTenantUser e a k p db)) =
         \<lparr>pc_actor = cl_id (the a), pc_target = k, pc_reason = trim (or_else (up_reason p) []),
           pc_before = (pu_roles v, pu_capabilities v), pc_after = (fst nxt, next_capabilities p (mapUserRow v))\<rparr> # ur_audit db"
    then obtain actor where a: "a = Some actor" by (cases a) (simp_all add: allowed_change_def)
    with w assms(1) show ?thesis by (auto simp: q)
  qed
qed

definition sample_users_env :: users_env where
  "sample_users_env = \<lparr>ue_tenant = ''t'', ue_found = True, ue_now = 5, ue_ops = True, ue_user = ''u9'', ue_mapping = ''m9'',
     ue_draws = [''100000000000''], ue_kdf = sample_kdf, ue_salt = ''s'', ue_mapped = True, ue_audited = True\<rparr>"

definition sample_owner :: claims where
  "sample_owner = \<lparr>cl_id = ''o1'', cl_rights = \<lparr>permissions = [''*''], capabilities = []\<rparr>\<rparr>"

definition sample_patch :: user_patch where
  "sample_patch = no_patch\<lparr>up_roles := Some (Some [''bursar'', ''nurse'']), up_reason := Some ''clinic cover''\<rparr>"

lemma sample_rights_change:
  "rights_of ''d1'' (snd (users_step (Update sample_users_env (Some sample_owner) ''d1'' sample_patch) sample_users)) = Some ([''bursar'', ''nurse''], [])"
  by code_simp

theorem privilege_changes_checked_witness:
  "\<exists>e actor p. Update sample_users_env (Some sample_owner) ''d1'' sample_patch = Update e (Some actor) ''d1'' p \<and>
     allowed_change (Some actor) ''d1'' (up_reason p)"
proof -
  have found: "tfind pu_id ''d1'' (ur_users sample_users) = Some director_row" by (simp add: sample_users_def director_row_def)
  have changed: "rights_of ''d1'' (snd (users_step (Update sample_users_env (Some sample_owner) ''d1'' sample_patch) sample_users)) \<noteq> rights_of ''d1'' sample_users"
    unfolding sample_rights_change by (simp add: rights_of_def found director_row_def)
  from privilege_changes_checked [OF found changed] show ?thesis by blast
qed

subsection \<open>Removing a pupil\<close>

text \<open>A user and what a removal may make of it, when the removal of a pupil ends in \<open>db'\<close>.\<close>

definition spared :: "string list \<Rightarrow> users_db \<Rightarrow> tenant_user_row \<Rightarrow> tenant_user_row \<Rightarrow> bool" where
  "spared ps db' u u' = (same_rights u u' \<and> (pu_active u' \<longrightarrow> pu_active u) \<and>
     (pu_active u \<and> \<not> pu_active u' \<longrightarrow> pu_id u \<in> set ps \<and> List.member (pu_roles u) ''parent'' \<and> \<not> active_children (pu_id u) db'))"

definition fewer_active :: "tenant_user_row \<Rightarrow> tenant_user_row \<Rightarrow> bool" where
  "fewer_active u u' = (pu_id u' = pu_id u \<and> (pu_active u' \<longrightarrow> pu_active u))"

lemma children_mono:
  assumes "list_all2 fewer_active (ur_users db) (ur_users db')" and "ur_links db' = ur_links db" and "active_children p db'"
  shows "active_children p db"
proof -
  from assms(2,3) obtain s u' where s: "(p, s) \<in> set (ur_links db)" "u' \<in> set (ur_users db')" "pu_id u' = s" "pu_active u'"
    by (auto simp: active_children_def list_ex_iff)
  from list_all2_in2 [OF assms(1) s(2)] obtain u where "u \<in> set (ur_users db)" "fewer_active u u'" by blast
  with s show ?thesis by (auto simp: active_children_def list_ex_iff fewer_active_def)
qed

lemma retired_fewer: "list_all2 fewer_active t (tupdate P (deactivate w) t)"
  by (induction t) (simp_all add: fewer_active_def deactivate_def)

lemma fewer_trans: "list_all2 fewer_active xs ys \<Longrightarrow> list_all2 fewer_active ys zs \<Longrightarrow> list_all2 fewer_active xs zs"
  by (rule list_all2_trans [of fewer_active]) (auto simp: fewer_active_def)

lemma spared_refl: "list_all2 (spared ps db') t t"
  by (simp add: list_all2_same spared_def same_rights_def)

text \<open>The parents that were active and are not at the end have no active child at the end.\<close>

lemma retire_parents_spare:
  assumes "retire_parents e ps db = (Inr (), db')"
  shows "ur_links db' = ur_links db \<and> list_all2 fewer_active (ur_users db) (ur_users db') \<and> list_all2 (spared ps db') (ur_users db) (ur_users db')"
  using assms
proof (induction ps arbitrary: db)
  case Nil
  then show ?case by (auto simp: list_all2_same fewer_active_def spared_def same_rights_def)
next
  case (Cons p ps)
  then obtain db1 where step: "retire_parent e p db = Inr db1" and rest: "retire_parents e ps db1 = (Inr (), db')"
    by (auto split: sum.splits)
  from Cons.IH [OF rest] have IH: "ur_links db' = ur_links db1" "list_all2 fewer_active (ur_users db1) (ur_users db')"
    "list_all2 (spared ps db') (ur_users db1) (ur_users db')" by simp_all
  show ?case
  proof (cases "active_children p db")
    case True
    with step have "db1 = db" by (simp add: retire_parent_def)
    moreover have "spared (p # ps) db' u u'" if "spared ps db' u u'" for u u' using that by (auto simp: spared_def)
    ultimately show ?thesis using IH by (auto elim: list_all2_mono)
  next
    case False
    with step have users: "ur_users db1 = tupdate (\<lambda>u. pu_id u = p \<and> List.member (pu_roles u) ''parent'') (deactivate ''no_active_children'') (ur_users db)"
      and links: "ur_links db1 = ur_links db" by (auto simp: retire_parent_def split: if_splits)
    have fewer: "list_all2 fewer_active (ur_users db) (ur_users db1)" unfolding users by (rule retired_fewer)
    have none: "\<not> active_children p db'"
      using False children_mono [OF fewer_trans [OF fewer IH(2)]] IH(1) links by auto
    have "list_all2 (spared (p # ps) db') t t'"
      if "list_all2 (spared ps db') (tupdate (\<lambda>u. pu_id u = p \<and> List.member (pu_roles u) ''parent'') (deactivate ''no_active_children'') t) t'" for t t'
      using that
    proof (induction t arbitrary: t')
      case (Cons u t)
      then obtain u' t'' where t': "t' = u' # t''" by (cases t') auto
      from Cons.prems have u: "spared ps db' (if pu_id u = p \<and> List.member (pu_roles u) ''parent'' then deactivate ''no_active_children'' u else u) u'"
        and rest: "list_all2 (spared ps db') (tupdate (\<lambda>u. pu_id u = p \<and> List.member (pu_roles u) ''parent'') (deactivate ''no_active_children'') t) t''"
        by (simp_all add: t')
      have "spared (p # ps) db' u u'"
      proof (cases "pu_id u = p \<and> List.member (pu_roles u) ''parent''")
        case True
        with u have "spared ps db' (deactivate ''no_active_children'' u) u'" by (simp only: if_P)
        with True none show ?thesis by (auto simp: spared_def deactivate_def same_rights_def)
      next
        case False
        from u have "spared ps db' u u'" by (simp only: if_not_P [OF False])
        then show ?thesis by (auto simp: spared_def)
      qed
      with Cons.IH [OF rest] show ?case by (simp add: t')
    qed simp
    with IH users links fewer show ?thesis by (simp add: fewer_trans [OF fewer])
  qed
qed

text \<open>removing a user ends that account and takes along only parents of the pupil without an active child left:
  whoever else was active stays active.\<close>

theorem removal_spares_parents:
  assumes "deleteTenantUser e k db = (Inr x, db')" and "u \<in> set (ur_users db)" and "pu_active u"
  shows "\<exists>u'\<in>set (ur_users db'). same_rights u u' \<and>
    (if pu_id u = k then \<not> pu_active u'
     else pu_active u' \<or> List.member (pu_roles u) ''parent'' \<and> pu_id u \<in> set (parents_of k db) \<and> \<not> active_children (pu_id u) db')"
proof -
  from assms(1) obtain v where v: "tfind pu_id k (ur_users db) = Some v" by (auto simp: deleteTenantUser_def split: if_splits option.splits)
  let ?db1 = "db\<lparr>ur_users := tmodify pu_id k (deactivate ''left_school'') (ur_users db)\<rparr>"
  let ?u1 = "if pu_id u = k then deactivate ''left_school'' u else u"
  have u1: "?u1 \<in> set (ur_users ?db1)" using assms(2) by (auto simp: tmodify_def set_tupdate)
  have parents: "parents_of k ?db1 = parents_of k db" by (simp add: parents_of_def)
  have rights1: "same_rights u ?u1" by (simp add: same_rights_def deactivate_def)
  show ?thesis
  proof (cases "List.member (pu_roles v) ''student''")
    case False
    with assms(1) v have "ur_users db' = ur_users ?db1" by (auto simp: deleteTenantUser_def Let_def split: if_splits)
    with u1 rights1 assms(3) show ?thesis by (intro bexI [of _ ?u1]) (simp_all add: deactivate_def)
  next
    case True
    obtain y db2 where ry: "retire_parents e (parents_of k db) ?db1 = (y, db2)" by (rule prod.exhaust)
    have "y = Inr () \<and> ur_users db' = ur_users db2 \<and> ur_links db' = ur_links db2"
      using assms(1) True by (cases y) (auto simp: deleteTenantUser_def Let_def parents v ry split: if_splits)
    with ry have r: "retire_parents e (parents_of k db) ?db1 = (Inr (), db2)" and db': "ur_users db' = ur_users db2" "ur_links db' = ur_links db2"
      by simp_all
    from retire_parents_spare [OF r] have spare: "list_all2 (spared (parents_of k db) db2) (ur_users ?db1) (ur_users db2)" by simp
    from list_all2_in1 [OF spare u1] obtain u' where u': "u' \<in> set (ur_users db2)" "spared (parents_of k db) db2 ?u1 u'"
      by blast
    have children: "active_children p db2 = active_children p db'" for p by (simp add: active_children_def db')
    have rights: "same_rights u u'" using u'(2) rights1 by (simp add: spared_def same_rights_def)
    have "if pu_id u = k then \<not> pu_active u'
      else pu_active u' \<or> List.member (pu_roles u) ''parent'' \<and> pu_id u \<in> set (parents_of k db) \<and> \<not> active_children (pu_id u) db'"
    proof (cases "pu_id u = k")
      case True
      with u'(2) show ?thesis by (simp add: spared_def deactivate_def)
    next
      case False
      with u'(2) assms(3) show ?thesis by (auto simp: spared_def children)
    qed
    with rights u'(1) show ?thesis by (intro bexI [of _ u']) (simp_all add: db')
  qed
qed

definition pupil_row :: tenant_user_row where
  "pupil_row = director_row\<lparr>pu_id := ''s1'', pu_email := ''s@s.ng'', pu_roles := [''student'']\<rparr>"

definition parent_row :: tenant_user_row where
  "parent_row = director_row\<lparr>pu_id := ''p1'', pu_email := ''p@s.ng'', pu_roles := [''parent'']\<rparr>"

definition sample_family :: users_db where
  "sample_family = sample_users\<lparr>ur_users := [pupil_row, parent_row], ur_links := [(''p1'', ''s1'')]\<rparr>"

lemma sample_removal: "fst (deleteTenantUser sample_users_env ''s1'' sample_family) = Inr ''s1''"
  by code_simp

theorem removal_spares_parents_witness:
  "\<exists>db' u'. deleteTenantUser sample_users_env ''s1'' sample_family = (Inr ''s1'', db') \<and> u' \<in> set (ur_users db') \<and>
     pu_id u' = ''s1'' \<and> \<not> pu_active u'"
proof -
  obtain db' where s: "deleteTenantUser sample_users_env ''s1'' sample_family = (Inr ''s1'', db')"
    using sample_removal by (metis prod.collapse)
  have "pupil_row \<in> set (ur_users sample_family)" "pu_active pupil_row" "pu_id pupil_row = ''s1''"
    by (simp_all add: sample_family_def sample_users_def pupil_row_def director_row_def)
  with removal_spares_parents [OF s this(1,2)] s show ?thesis by (auto simp: same_rights_def)
qed

subsection \<open>What the code lets happen\<close>

text \<open>The admission number is never read back: a pupil who is given another set of roles gets a new number.\<close>

lemma roles_change_renumbers:
  assumes "up_roles p = Some (Some roles)" and "List.member roles ''student''" and "next_roles e p (mapUserRow u) db = Inr (rs, level, n)"
  shows "\<exists>k. n = Some k \<and> generateAdmissionNo e db = Inr k"
  using assms by (auto simp: next_roles_def Let_def mapUserRow_def map_sum_result split: if_splits sum.splits)

text \<open>A change of privileges does not drop the lists of users.\<close>

lemma privileged_update_keeps_lists:
  assumes "update_privileged e actor p v nxt u db = (Inr x, db')"
  shows "\<exists>k. ur_dropped db' = Authority k # ur_dropped db"
proof -
  have w: "ur_dropped db1 = Authority (pu_id w) # ur_dropped db" if "write_user w db = Some db1" for w db1
    using that by (auto simp: write_user_def split: if_splits)
  show ?thesis using assms
    by (auto simp: update_privileged_def Let_def dest!: w split: sum.splits option.splits prod.splits if_splits)
qed

text \<open>A removal drops the cached authority of the removed user only, not that of the parents it retires.\<close>

lemma removal_keeps_parent_authority:
  assumes "deleteTenantUser e k db = (Inr x, db')"
  shows "ur_dropped db' = UserLists # Authority k # ur_dropped db"
proof -
  have "ur_dropped (snd (retire_parents e ps d)) = ur_dropped d" for ps d
  proof (induction ps arbitrary: d)
    case (Cons p ps)
    then show ?case by (auto simp: retire_parent_def retired_user_def split: if_splits)
  qed simp
  then have r: "ur_dropped d' = ur_dropped d" if "retire_parents e ps d = (y, d')" for ps d y d' by (metis snd_conv that)
  show ?thesis
    using assms by (auto simp: deleteTenantUser_def Let_def dest!: r split: if_splits option.splits sum.splits prod.splits)
qed

text \<open>A user whose mapping could not be stored can never sign in, and can not be created again.\<close>

lemma unmapped_user_stranded:
  assumes "created_user e' b db' = Inr u'" and "u \<in> set (ur_users db')"
  shows "pu_email u \<noteq> pu_email u'"
  using created_sound [OF assms(1)] assms(2) by (metis imageI)

end
