(* ===== verification/TenantConnections.thy ===== *)
theory TenantConnections
  imports JsMap Machines Complex_Main
begin

section \<open>Connections to the tenant databases\<close>

text \<open>
  \<open>database/tenant-connection.service.ts\<close>: one pool of connections per tenant, at most so many, least recently used
  first out.  The service awaits the opening and the closing of pools, so it is a machine of events: a call, the end of
  an await, the sweep of idle pools, a release.  A pool is a number, its tenant and address stand in \<open>tn_pools\<close> at that
  number; \<open>tn_open\<close> are the pools with open connections.  Whether a pool opens is part of the event.
\<close>

record cache_entry =
  ce_ds :: nat
  ce_url :: string
  ce_used :: int

datatype create_stage = Evicting | Initializing nat

record create_task =
  ct_tenant :: string
  ct_url :: string
  ct_stage :: create_stage

record tenant_pools =
  tn_max :: nat
  tn_idle :: int
  tn_pools :: "(string \<times> string) list"
  tn_open :: "nat list"
  tn_cache :: "(string, cache_entry) jsmap"
  tn_pending :: "(string, nat) jsmap"
  tn_tasks :: "(nat, create_task) jsmap"
  tn_waiting :: "(nat \<times> string \<times> nat) list"
  tn_paused :: "(nat \<times> string \<times> string) list"
  tn_sweep :: "string list"
  tn_next :: nat

text \<open>An answer to a call: the call, its tenant, and the pool, or nothing when the creation failed.\<close>

type_synonym pool_answer = "nat \<times> string \<times> nat option"

definition assertPostgresUrl :: "string \<Rightarrow> bool" where
  "assertPostgresUrl url = (startsWith (toLowerCase url) ''postgres://'' \<or> startsWith (toLowerCase url) ''postgresql://'')"

text \<open>A variable that holds no finite number is \<open>None\<close>.\<close>

definition intFromEnv :: "rat option \<Rightarrow> int \<Rightarrow> int" where
  "intFromEnv parsed fallback = (case parsed of Some n \<Rightarrow> if 0 < n then \<lfloor>n\<rfloor> else fallback | None \<Rightarrow> fallback)"

definition start_pools :: "rat option \<Rightarrow> rat option \<Rightarrow> tenant_pools" where
  "start_pools max_cached idle_ms = \<lparr>tn_max = nat (intFromEnv max_cached 20), tn_idle = intFromEnv idle_ms 600000, tn_pools = [], tn_open = [],
     tn_cache = [], tn_pending = [], tn_tasks = [], tn_waiting = [], tn_paused = [], tn_sweep = [], tn_next = 0\<rparr>"

text \<open>\<open>release\<close> up to its await: the entry goes, the pool closes.\<close>

definition release :: "string \<Rightarrow> tenant_pools \<Rightarrow> tenant_pools" where
  "release tenantId s = (case mget tenantId (tn_cache s) of
      None \<Rightarrow> s
    | Some e \<Rightarrow> s\<lparr>tn_cache := mdel tenantId (tn_cache s), tn_open := filter (\<lambda>d. d \<noteq> ce_ds e) (tn_open s)\<rparr>)"

text \<open>The choice of \<open>evictToCapacity\<close>: nobody while there is room, or when the oldest entry has an empty identifier.\<close>

definition victim :: "tenant_pools \<Rightarrow> string option" where
  "victim s = (if length (tn_cache s) < tn_max s then None
     else case oldest ce_used (tn_cache s) of None \<Rightarrow> None | Some (k, _) \<Rightarrow> or_null (Some k))"

text \<open>A creation after an await of its eviction loop, or at its start: it releases the next victim, or opens the pool.\<close>

definition put_task :: "nat \<Rightarrow> create_task \<Rightarrow> tenant_pools \<Rightarrow> tenant_pools" where
  "put_task k t s = s\<lparr>tn_tasks := mset k t (tn_tasks s)\<rparr>"

definition finish_task :: "nat \<Rightarrow> create_task \<Rightarrow> nat option \<Rightarrow> tenant_pools \<Rightarrow> pool_answer list \<times> tenant_pools" where
  "finish_task k t ds s =
     (map (\<lambda>(c, tenant, _). (c, tenant, ds)) (filter (\<lambda>(_, _, j). j = k) (tn_waiting s)),
      s\<lparr>tn_tasks := mdel k (tn_tasks s), tn_pending := mdel (ct_tenant t) (tn_pending s),
        tn_waiting := filter (\<lambda>(_, _, j). j \<noteq> k) (tn_waiting s)\<rparr>)"

definition advance :: "nat \<Rightarrow> create_task \<Rightarrow> tenant_pools \<Rightarrow> pool_answer list \<times> tenant_pools" where
  "advance k t s = (case victim s of
      Some v \<Rightarrow> ([], put_task k (t\<lparr>ct_stage := Evicting\<rparr>) (release v s))
    | None \<Rightarrow>
        if \<not> assertPostgresUrl (ct_url t) then finish_task k t None s
        else ([], put_task k (t\<lparr>ct_stage := Initializing (length (tn_pools s))\<rparr>) (s\<lparr>tn_pools := tn_pools s @ [(ct_tenant t, ct_url t)]\<rparr>)))"

text \<open>The second half of \<open>getOrCreate\<close>: join a creation under way, or start one.\<close>

definition join_or_create :: "nat \<Rightarrow> string \<Rightarrow> string \<Rightarrow> tenant_pools \<Rightarrow> pool_answer list \<times> tenant_pools" where
  "join_or_create c tenantId url s = (case mget tenantId (tn_pending s) of
      Some k \<Rightarrow> ([], s\<lparr>tn_waiting := tn_waiting s @ [(c, tenantId, k)]\<rparr>)
    | None \<Rightarrow> (let k = tn_next s in
        advance k \<lparr>ct_tenant = tenantId, ct_url = url, ct_stage = Evicting\<rparr>
          (s\<lparr>tn_next := Suc k, tn_pending := mset tenantId k (tn_pending s), tn_waiting := tn_waiting s @ [(c, tenantId, k)]\<rparr>)))"

text \<open>A cached pool whose connections were closed elsewhere is opened again.\<close>

definition getOrCreate :: "nat \<Rightarrow> string \<Rightarrow> string \<Rightarrow> int \<Rightarrow> tenant_pools \<Rightarrow> pool_answer list \<times> tenant_pools" where
  "getOrCreate c tenantId url now s = (case mget tenantId (tn_cache s) of
      None \<Rightarrow> join_or_create c tenantId url s
    | Some e \<Rightarrow>
        if ce_url e \<noteq> url then ([], (release tenantId s)\<lparr>tn_paused := tn_paused s @ [(c, tenantId, url)]\<rparr>)
        else ([(c, tenantId, Some (ce_ds e))], s\<lparr>tn_cache := mset tenantId (e\<lparr>ce_used := now\<rparr>) (tn_cache s),
          tn_open := (if List.member (tn_open s) (ce_ds e) then tn_open s else ce_ds e # tn_open s)\<rparr>))"

text \<open>The pool of the old address is closed, or closing it failed.\<close>

definition resume :: "nat \<Rightarrow> bool \<Rightarrow> tenant_pools \<Rightarrow> pool_answer list \<times> tenant_pools" where
  "resume c works s = (case find (\<lambda>(d, _). d = c) (tn_paused s) of
      None \<Rightarrow> ([], s)
    | Some (_, tenantId, url) \<Rightarrow> (let s = s\<lparr>tn_paused := filter (\<lambda>(d, _). d \<noteq> c) (tn_paused s)\<rparr> in
        if works then join_or_create c tenantId url s else ([(c, tenantId, None)], s)))"

text \<open>The end of an await of a creation.\<close>

definition evicted :: "nat \<Rightarrow> bool \<Rightarrow> tenant_pools \<Rightarrow> pool_answer list \<times> tenant_pools" where
  "evicted k works s = (case mget k (tn_tasks s) of
      Some t \<Rightarrow> if ct_stage t \<noteq> Evicting then ([], s) else if works then advance k t s else finish_task k t None s
    | None \<Rightarrow> ([], s))"

definition initialized :: "nat \<Rightarrow> bool \<Rightarrow> int \<Rightarrow> tenant_pools \<Rightarrow> pool_answer list \<times> tenant_pools" where
  "initialized k works now s = (case mget k (tn_tasks s) of
      None \<Rightarrow> ([], s)
    | Some t \<Rightarrow> (case ct_stage t of
        Evicting \<Rightarrow> ([], s)
      | Initializing d \<Rightarrow>
          if \<not> works then finish_task k t None s
          else finish_task k t (Some d) (s\<lparr>tn_cache := mset (ct_tenant t) \<lparr>ce_ds = d, ce_url = ct_url t, ce_used = now\<rparr> (tn_cache s),
            tn_open := d # tn_open s\<rparr>)))"

definition evictIdle :: "int \<Rightarrow> tenant_pools \<Rightarrow> tenant_pools" where
  "evictIdle now s = s\<lparr>tn_sweep := map fst (filter (\<lambda>(_, e). ce_used e < now - tn_idle s) (tn_cache s))\<rparr>"

definition sweep_next :: "tenant_pools \<Rightarrow> tenant_pools" where
  "sweep_next s = (case tn_sweep s of [] \<Rightarrow> s | k # ks \<Rightarrow> (release k s)\<lparr>tn_sweep := ks\<rparr>)"

definition onModuleDestroy :: "tenant_pools \<Rightarrow> tenant_pools" where
  "onModuleDestroy s = fold release (map fst (tn_cache s)) s"

definition TENANT_POOL_MAX :: "rat option \<Rightarrow> nat" where
  "TENANT_POOL_MAX parsed = nat (intFromEnv parsed 5)"

definition stats :: "rat option \<Rightarrow> tenant_pools \<Rightarrow> nat \<times> nat \<times> nat" where
  "stats pool_max s = (length (tn_cache s), tn_max s, tn_max s * TENANT_POOL_MAX pool_max)"

datatype pool_event =
    GetOrCreate nat string string int
  | Resume nat bool
  | Evicted nat bool
  | Initialized nat bool int
  | EvictIdle int
  | SweepNext
  | Release string
  | Shutdown

fun pool_step :: "pool_event \<Rightarrow> tenant_pools \<Rightarrow> pool_answer list \<times> tenant_pools" where
  "pool_step (GetOrCreate c t u now) s = getOrCreate c t u now s"
| "pool_step (Resume c works) s = resume c works s"
| "pool_step (Evicted k works) s = evicted k works s"
| "pool_step (Initialized k works now) s = initialized k works now s"
| "pool_step (EvictIdle now) s = ([], evictIdle now s)"
| "pool_step SweepNext s = ([], sweep_next s)"
| "pool_step (Release t) s = ([], release t s)"
| "pool_step Shutdown s = ([], onModuleDestroy s)"

subsection \<open>The loop that makes room\<close>

text \<open>\<open>evictToCapacity\<close> on its own, with nothing between its awaits: \<open>None\<close> is a loop that does not end.\<close>

partial_function (option) evictToCapacity :: "tenant_pools \<Rightarrow> tenant_pools option" where
  "evictToCapacity s = (case victim s of None \<Rightarrow> Some s | Some v \<Rightarrow> evictToCapacity (release v s))"

lemma release_frame [simp]:
  "tn_max (release t s) = tn_max s" "tn_pools (release t s) = tn_pools s" "tn_tasks (release t s) = tn_tasks s"
  "tn_pending (release t s) = tn_pending s" "tn_waiting (release t s) = tn_waiting s" "tn_paused (release t s) = tn_paused s"
  "tn_next (release t s) = tn_next s" "tn_sweep (release t s) = tn_sweep s" "tn_idle (release t s) = tn_idle s"
  by (simp_all add: release_def split: option.split)

lemma release_cache: "tn_cache (release t s) = mdel t (tn_cache s)"
proof (cases "mget t (tn_cache s)")
  case None
  then have "mdel t (tn_cache s) = tn_cache s" unfolding mdel_def by (intro filter_True) (auto simp: mget_None_iff)
  with None show ?thesis by (simp add: release_def)
qed (simp add: release_def)

lemma oldest_entry: "oldest age m = Some (k, a) \<Longrightarrow> \<exists>v. (k, v) \<in> set m \<and> age v = a"
  by (induction m arbitrary: k a) (auto split: option.splits if_splits)

lemma victim_Some:
  assumes "victim s = Some v"
  shows "mget v (tn_cache s) \<noteq> None" "tn_max s \<le> length (tn_cache s)" "\<exists>a. oldest ce_used (tn_cache s) = Some (v, a)"
proof -
  from assms obtain a where "oldest ce_used (tn_cache s) = Some (v, a)" "tn_max s \<le> length (tn_cache s)"
    by (auto simp: victim_def or_null_Some_iff split: if_splits option.splits)
  then show "mget v (tn_cache s) \<noteq> None" "tn_max s \<le> length (tn_cache s)" "\<exists>a. oldest ce_used (tn_cache s) = Some (v, a)"
    using oldest_mem [of ce_used "tn_cache s" v a] unfolding mget_None_iff by blast+
qed

lemma victim_None:
  assumes "victim s = None" and "mget [] (tn_cache s) = None" and "0 < tn_max s"
  shows "length (tn_cache s) < tn_max s"
proof (rule ccontr)
  assume full: "\<not> length (tn_cache s) < tn_max s"
  then obtain k a where o: "oldest ce_used (tn_cache s) = Some (k, a)"
    using assms(3) by (cases "oldest ce_used (tn_cache s)") auto
  with full assms(1) have "k = []" by (auto simp: victim_def or_null_None_iff)
  with oldest_mem [OF o] assms(2) show False by (simp add: mget_None_iff)
qed

text \<open>C29: the loop that makes room for a new pool ends, whatever is cached: afterwards there is room, when at least one pool may
  be cached and no tenant has the empty identifier, and only pools used no later than all that stay were released.\<close>

theorem eviction_terminates:
  assumes "0 < tn_max s" and "wf_map (tn_cache s)" and "mget [] (tn_cache s) = None"
  shows "\<exists>s'. evictToCapacity s = Some s' \<and> length (tn_cache s') < tn_max s \<and> set (tn_cache s') \<subseteq> set (tn_cache s) \<and>
    (\<forall>out\<in>set (tn_cache s) - set (tn_cache s'). \<forall>stay\<in>set (tn_cache s'). ce_used (snd out) \<le> ce_used (snd stay))"
  using assms
proof (induction "length (tn_cache s)" arbitrary: s rule: less_induct)
  case less
  show ?case
  proof (cases "victim s")
    case None
    then have "evictToCapacity s = Some s" by (simp add: evictToCapacity.simps)
    moreover have "length (tn_cache s) < tn_max s" using victim_None [OF None less.prems(3,1)] .
    ultimately show ?thesis by simp
  next
    case (Some v)
    let ?s = "release v s"
    have smaller: "length (tn_cache ?s) < length (tn_cache s)"
      using victim_Some(1) [OF Some] by (simp add: release_cache length_mdel_mem)
    have "mget [] (tn_cache ?s) = None" "wf_map (tn_cache ?s)" using less.prems(2,3) by (simp_all add: release_cache)
    from less.hyps [OF smaller _ this(2,1)] less.prems(1) obtain s' where s': "evictToCapacity ?s = Some s'"
        "length (tn_cache s') < tn_max s" "set (tn_cache s') \<subseteq> set (tn_cache ?s)"
        "\<And>out stay. out \<in> set (tn_cache ?s) - set (tn_cache s') \<Longrightarrow> stay \<in> set (tn_cache s') \<Longrightarrow> ce_used (snd out) \<le> ce_used (snd stay)"
      by auto
    have sub: "set (tn_cache ?s) \<subseteq> set (tn_cache s)" by (auto simp: release_cache mdel_def)
    have "ce_used (snd out) \<le> ce_used (snd stay)" if "out \<in> set (tn_cache s) - set (tn_cache s')" "stay \<in> set (tn_cache s')" for out stay
    proof (cases "out \<in> set (tn_cache ?s)")
      case True
      with s'(4) that show ?thesis by blast
    next
      case False
      with that(1) have out: "out \<in> set (tn_cache s)" "fst out = v" by (auto simp: release_cache mdel_def)
      obtain a where old: "oldest ce_used (tn_cache s) = Some (v, a)" using victim_Some(3) [OF Some] by blast
      from oldest_entry [OF old] obtain e where "(v, e) \<in> set (tn_cache s)" "ce_used e = a" by blast
      with out less.prems(2) have "ce_used (snd out) = a"
        by (metis eq_key_imp_eq_value prod.collapse wf_map_def)
      moreover have "stay \<in> set (tn_cache s)" using that(2) s'(3) sub by auto
      ultimately show ?thesis using oldest_least [OF old] by simp
    qed
    moreover have "evictToCapacity s = Some s'" using s'(1) Some by (simp add: evictToCapacity.simps [of s])
    ultimately show ?thesis using s'(2,3) sub by auto
  qed
qed

definition full_pools :: tenant_pools where
  "full_pools = (start_pools (Some 1) None)\<lparr>tn_cache := [(''a'', \<lparr>ce_ds = 0, ce_url = ''postgres://a'', ce_used = 1\<rparr>)]\<rparr>"

theorem eviction_terminates_witness:
  "\<exists>s'. evictToCapacity full_pools = Some s' \<and> length (tn_cache s') < tn_max full_pools"
proof -
  have "0 < tn_max full_pools" "wf_map (tn_cache full_pools)" "mget [] (tn_cache full_pools) = None"
    by (simp_all add: full_pools_def start_pools_def intFromEnv_def wf_map_def mget_def)
  from eviction_terminates [OF this] show ?thesis by blast
qed

subsection \<open>A pool is the pool of its tenant\<close>

definition pool_of :: "tenant_pools \<Rightarrow> nat \<Rightarrow> string \<Rightarrow> string \<Rightarrow> bool" where
  "pool_of s d tenant url = (d < length (tn_pools s) \<and> tn_pools s ! d = (tenant, url))"

definition stage_ok :: "tenant_pools \<Rightarrow> create_task \<Rightarrow> bool" where
  "stage_ok s t = (case ct_stage t of Evicting \<Rightarrow> True | Initializing d \<Rightarrow> pool_of s d (ct_tenant t) (ct_url t))"

definition pools_ok :: "tenant_pools \<Rightarrow> bool" where
  "pools_ok s = ((\<forall>t e. mget t (tn_cache s) = Some e \<longrightarrow> pool_of s (ce_ds e) t (ce_url e)) \<and>
     (\<forall>k t. mget k (tn_tasks s) = Some t \<longrightarrow> k < tn_next s \<and> mget (ct_tenant t) (tn_pending s) = Some k \<and> stage_ok s t) \<and>
     (\<forall>tenant k. mget tenant (tn_pending s) = Some k \<longrightarrow> (\<exists>t. mget k (tn_tasks s) = Some t \<and> ct_tenant t = tenant)) \<and>
     (\<forall>(c, tenant, k)\<in>set (tn_waiting s). \<exists>t. mget k (tn_tasks s) = Some t \<and> ct_tenant t = tenant))"

lemma pools_okI:
  assumes "\<And>t e. mget t (tn_cache s) = Some e \<Longrightarrow> pool_of s (ce_ds e) t (ce_url e)"
    and "\<And>k t. mget k (tn_tasks s) = Some t \<Longrightarrow> k < tn_next s \<and> mget (ct_tenant t) (tn_pending s) = Some k \<and> stage_ok s t"
    and "\<And>tenant k. mget tenant (tn_pending s) = Some k \<Longrightarrow> \<exists>t. mget k (tn_tasks s) = Some t \<and> ct_tenant t = tenant"
    and "\<And>c tenant k. (c, tenant, k) \<in> set (tn_waiting s) \<Longrightarrow> \<exists>t. mget k (tn_tasks s) = Some t \<and> ct_tenant t = tenant"
  shows "pools_ok s"
  using assms unfolding pools_ok_def by blast

lemma pools_okD:
  assumes "pools_ok s"
  shows "mget t (tn_cache s) = Some e \<Longrightarrow> pool_of s (ce_ds e) t (ce_url e)"
    and "mget k (tn_tasks s) = Some x \<Longrightarrow> k < tn_next s \<and> mget (ct_tenant x) (tn_pending s) = Some k \<and> stage_ok s x"
    and "mget tenant (tn_pending s) = Some k \<Longrightarrow> \<exists>t. mget k (tn_tasks s) = Some t \<and> ct_tenant t = tenant"
    and "(c, tenant, k) \<in> set (tn_waiting s) \<Longrightarrow> \<exists>t. mget k (tn_tasks s) = Some t \<and> ct_tenant t = tenant"
  using assms unfolding pools_ok_def by blast+

text \<open>The invariant reads the cache, the tasks, the pending creations, the waiting calls and the pools.\<close>

lemma pools_ok_frame:
  assumes "pools_ok s" and "tn_tasks s' = tn_tasks s" "tn_pending s' = tn_pending s" "tn_waiting s' = tn_waiting s"
    "tn_pools s' = tn_pools s" "tn_next s' = tn_next s"
    and "\<And>t e. mget t (tn_cache s') = Some e \<Longrightarrow> pool_of s (ce_ds e) t (ce_url e)"
  shows "pools_ok s'"
proof (rule pools_okI)
  have same: "pool_of s' = pool_of s" "stage_ok s' = stage_ok s" by (auto simp: pool_of_def stage_ok_def fun_eq_iff assms(5) split: create_stage.split)
  show "mget t (tn_cache s') = Some e \<Longrightarrow> pool_of s' (ce_ds e) t (ce_url e)" for t e using assms(7) by (simp add: same)
  show "mget k (tn_tasks s') = Some t \<Longrightarrow> k < tn_next s' \<and> mget (ct_tenant t) (tn_pending s') = Some k \<and> stage_ok s' t" for k t
    using pools_okD(2) [OF assms(1)] by (simp add: assms same)
  show "mget tenant (tn_pending s') = Some k \<Longrightarrow> \<exists>t. mget k (tn_tasks s') = Some t \<and> ct_tenant t = tenant" for tenant k
    using pools_okD(3) [OF assms(1)] by (simp add: assms)
  show "(c, tenant, k) \<in> set (tn_waiting s') \<Longrightarrow> \<exists>t. mget k (tn_tasks s') = Some t \<and> ct_tenant t = tenant" for c tenant k
    using pools_okD(4) [OF assms(1)] by (simp add: assms)
qed

lemma release_pool_ok: "pools_ok s \<Longrightarrow> pools_ok (release t s)"
  by (rule pools_ok_frame [of s]) (auto simp: release_cache pools_okD(1) split: if_splits)

text \<open>A creation that ends leaves nothing of itself, and answers the calls that wait for it.\<close>

lemma finish_ok:
  assumes ok: "pools_ok (put_task k t s)"
  shows "pools_ok (snd (finish_task k t ds s))"
    and "(c, tenant, d) \<in> set (fst (finish_task k t ds s)) \<Longrightarrow> tenant = ct_tenant t \<and> d = ds"
proof -
  let ?p = "put_task k t s" and ?s = "snd (finish_task k t ds s)"
  have task: "mget k (tn_tasks ?p) = Some t" by (simp add: put_task_def)
  have same: "pool_of ?s = pool_of ?p" "stage_ok ?s = stage_ok ?p" "tn_next ?s = tn_next ?p" "tn_cache ?s = tn_cache ?p"
    by (auto simp: put_task_def finish_task_def pool_of_def stage_ok_def fun_eq_iff split: create_stage.split)
  have tasks: "mget j (tn_tasks ?s) = Some x \<longleftrightarrow> j \<noteq> k \<and> mget j (tn_tasks ?p) = Some x" for j x
    by (simp add: put_task_def finish_task_def)
  have pending: "mget tn (tn_pending ?s) = (if tn = ct_tenant t then None else mget tn (tn_pending ?p))" for tn
    by (simp add: put_task_def finish_task_def)
  show "pools_ok ?s"
  proof (rule pools_okI)
    show "mget u (tn_cache ?s) = Some e \<Longrightarrow> pool_of ?s (ce_ds e) u (ce_url e)" for u e
      using pools_okD(1) [OF ok] by (simp add: same)
    show "j < tn_next ?s \<and> mget (ct_tenant x) (tn_pending ?s) = Some j \<and> stage_ok ?s x" if "mget j (tn_tasks ?s) = Some x" for j x
    proof -
      from that have j: "j \<noteq> k" "mget j (tn_tasks ?p) = Some x" by (simp_all add: tasks)
      from pools_okD(2) [OF ok j(2)] pools_okD(2) [OF ok task] j(1) show ?thesis by (auto simp: same pending)
    qed
    show "\<exists>x. mget j (tn_tasks ?s) = Some x \<and> ct_tenant x = u" if "mget u (tn_pending ?s) = Some j" for u j
    proof -
      from that have u: "u \<noteq> ct_tenant t" "mget u (tn_pending ?p) = Some j" by (auto simp: pending split: if_splits)
      from pools_okD(3) [OF ok u(2)] task u(1) show ?thesis by (auto simp: tasks)
    qed
    show "\<exists>x. mget j (tn_tasks ?s) = Some x \<and> ct_tenant x = u" if "(c, u, j) \<in> set (tn_waiting ?s)" for c u j
    proof -
      from that have j: "j \<noteq> k" "(c, u, j) \<in> set (tn_waiting ?p)" by (auto simp: finish_task_def put_task_def)
      from pools_okD(4) [OF ok j(2)] j(1) show ?thesis by (simp add: tasks)
    qed
  qed
  assume "(c, tenant, d) \<in> set (fst (finish_task k t ds s))"
  then have "(c, tenant, k) \<in> set (tn_waiting ?p)" "d = ds" by (auto simp: finish_task_def put_task_def)
  with pools_okD(4) [OF ok this(1)] task show "tenant = ct_tenant t \<and> d = ds" by simp
qed

lemma put_put: "put_task k t (put_task k u s) = put_task k t s"
proof -
  have "mset k t (mset k u m) = mset k t m" for m :: "(nat, create_task) jsmap" by (induction m) auto
  then show ?thesis by (simp add: put_task_def)
qed

text \<open>A creation that moves to another stage of the same tenant and address.\<close>

lemma restage_ok:
  assumes ok: "pools_ok (put_task k t s)" and "ct_tenant u = ct_tenant t" and "stage_ok s u"
  shows "pools_ok (put_task k u s)"
proof (rule pools_okI)
  let ?p = "put_task k t s" and ?q = "put_task k u s"
  have same: "pool_of ?q = pool_of ?p" "stage_ok ?q = stage_ok ?p" "stage_ok ?q = stage_ok s"
    by (auto simp: put_task_def pool_of_def stage_ok_def fun_eq_iff split: create_stage.split)
  have other: "tn_cache ?q = tn_cache ?p" "tn_next ?q = tn_next ?p" "tn_pending ?q = tn_pending ?p" "tn_waiting ?q = tn_waiting ?p"
    by (simp_all add: put_task_def)
  have task: "mget k (tn_tasks ?p) = Some t" by (simp add: put_task_def)
  have tasks: "mget j (tn_tasks ?q) = (if j = k then Some u else mget j (tn_tasks ?p))" for j by (simp add: put_task_def)
  show "mget x (tn_cache ?q) = Some e \<Longrightarrow> pool_of ?q (ce_ds e) x (ce_url e)" for x e
    using pools_okD(1) [OF ok] by (simp add: same(1) other)
  show "j < tn_next ?q \<and> mget (ct_tenant x) (tn_pending ?q) = Some j \<and> stage_ok ?q x" if "mget j (tn_tasks ?q) = Some x" for j x
  proof (cases "j = k")
    case True
    with that have "x = u" by (simp add: tasks)
    with True pools_okD(2) [OF ok task] assms(2,3) show ?thesis by (simp add: other same(3))
  next
    case False
    with that pools_okD(2) [OF ok, of j x] show ?thesis by (simp add: tasks other same(2))
  qed
  show "\<exists>x. mget j (tn_tasks ?q) = Some x \<and> ct_tenant x = y" if "mget y (tn_pending ?q) = Some j" for y j
    using pools_okD(3) [OF ok, of y j] that task assms(2) by (auto simp: tasks other)
  show "\<exists>x. mget j (tn_tasks ?q) = Some x \<and> ct_tenant x = y" if "(c, y, j) \<in> set (tn_waiting ?q)" for c y j
    using pools_okD(4) [OF ok, of c y j] that task assms(2) by (auto simp: tasks other)
qed

lemma more_pools_ok: "pools_ok s \<Longrightarrow> pools_ok (s\<lparr>tn_pools := tn_pools s @ ps\<rparr>)"
proof -
  assume ok: "pools_ok s"
  let ?s = "s\<lparr>tn_pools := tn_pools s @ ps\<rparr>"
  have pool: "pool_of s d t u \<Longrightarrow> pool_of ?s d t u" for d t u by (auto simp: pool_of_def nth_append)
  have stage: "stage_ok s t \<Longrightarrow> stage_ok ?s t" for t by (auto simp: stage_ok_def pool split: create_stage.splits)
  show ?thesis
    by (rule pools_okI) (use pools_okD [OF ok] pool stage in auto)
qed

lemma put_commute: "put_task k t (release v s) = release v (put_task k t s)"
  by (simp add: put_task_def release_def split: option.split)

lemma advance_pools_ok:
  assumes ok: "pools_ok (put_task k t s)"
  shows "pools_ok (snd (advance k t s))" and "(c, tenant, d) \<in> set (fst (advance k t s)) \<Longrightarrow> d = None"
proof -
  have fin: "pools_ok (snd (finish_task k t None s))" using finish_ok(1) [OF ok] .
  show "pools_ok (snd (advance k t s))"
  proof (cases "victim s")
    case (Some v)
    have "pools_ok (put_task k (t\<lparr>ct_stage := Evicting\<rparr>) s)" by (rule restage_ok [OF ok]) (simp_all add: stage_ok_def)
    with Some show ?thesis by (simp add: advance_def put_commute release_pool_ok)
  next
    case None
    let ?s = "s\<lparr>tn_pools := tn_pools s @ [(ct_tenant t, ct_url t)]\<rparr>"
    have "put_task k t ?s = (put_task k t s)\<lparr>tn_pools := tn_pools (put_task k t s) @ [(ct_tenant t, ct_url t)]\<rparr>" by (simp add: put_task_def)
    with more_pools_ok [OF ok] have "pools_ok (put_task k t ?s)" by simp
    then have "pools_ok (put_task k (t\<lparr>ct_stage := Initializing (length (tn_pools s))\<rparr>) ?s)"
      by (rule restage_ok) (simp_all add: stage_ok_def pool_of_def)
    with None fin show ?thesis by (simp add: advance_def)
  qed
  show "(c, tenant, d) \<in> set (fst (advance k t s)) \<Longrightarrow> d = None"
    using finish_ok(2) [OF ok, of c tenant d None] by (auto simp: advance_def split: option.splits if_splits)
qed

lemma wait_ok:
  assumes "pools_ok s" and "mget tenant (tn_pending s) = Some k"
  shows "pools_ok (s\<lparr>tn_waiting := tn_waiting s @ [(c, tenant, k)]\<rparr>)"
proof -
  let ?s = "s\<lparr>tn_waiting := tn_waiting s @ [(c, tenant, k)]\<rparr>"
  have same: "pool_of ?s = pool_of s" "stage_ok ?s = stage_ok s" by (auto simp: pool_of_def stage_ok_def fun_eq_iff split: create_stage.split)
  show ?thesis
    by (rule pools_okI) (use pools_okD [OF assms(1)] assms(2) in \<open>auto simp: same\<close>)
qed

lemma new_task_ok:
  assumes ok: "pools_ok s" and none: "mget tenant (tn_pending s) = None" and t: "ct_tenant t = tenant" "ct_stage t = Evicting"
  shows "pools_ok (put_task (tn_next s) t (s\<lparr>tn_next := Suc (tn_next s), tn_pending := mset tenant (tn_next s) (tn_pending s),
    tn_waiting := tn_waiting s @ [(c, tenant, tn_next s)]\<rparr>))" (is "pools_ok ?s")
proof (rule pools_okI)
  have same: "pool_of ?s = pool_of s" "stage_ok ?s = stage_ok s" by (auto simp: put_task_def pool_of_def stage_ok_def fun_eq_iff split: create_stage.split)
  have tasks: "mget j (tn_tasks ?s) = (if j = tn_next s then Some t else mget j (tn_tasks s))" for j by (simp add: put_task_def)
  have pending: "mget u (tn_pending ?s) = (if u = tenant then Some (tn_next s) else mget u (tn_pending s))" for u by (simp add: put_task_def)
  show "mget x (tn_cache ?s) = Some e \<Longrightarrow> pool_of ?s (ce_ds e) x (ce_url e)" for x e
    using pools_okD(1) [OF ok] by (simp only: same) (simp add: put_task_def)
  show "j < tn_next ?s \<and> mget (ct_tenant x) (tn_pending ?s) = Some j \<and> stage_ok ?s x" if "mget j (tn_tasks ?s) = Some x" for j x
  proof (cases "j = tn_next s")
    case True
    with that t show ?thesis by (simp add: tasks pending stage_ok_def) (simp add: put_task_def)
  next
    case False
    with that have old: "j < tn_next s \<and> mget (ct_tenant x) (tn_pending s) = Some j \<and> stage_ok s x"
      using pools_okD(2) [OF ok, of j x] by (simp add: tasks)
    moreover from old none have "ct_tenant x \<noteq> tenant" by auto
    ultimately show ?thesis by (simp only: same pending) (simp add: put_task_def)
  qed
  show "\<exists>x. mget j (tn_tasks ?s) = Some x \<and> ct_tenant x = u" if "mget u (tn_pending ?s) = Some j" for u j
  proof (cases "u = tenant")
    case True
    with that have "j = tn_next s" by (simp add: pending)
    then have "mget j (tn_tasks ?s) = Some t" "ct_tenant t = u" using t(1) True by (simp_all add: tasks)
    then show ?thesis by blast
  next
    case False
    with that have "mget u (tn_pending s) = Some j" by (simp add: pending)
    from pools_okD(3) [OF ok this] obtain x where x: "mget j (tn_tasks s) = Some x" "ct_tenant x = u" by blast
    then have "j \<noteq> tn_next s" using pools_okD(2) [OF ok x(1)] by auto
    with x show ?thesis by (simp add: tasks)
  qed
  show "\<exists>x. mget j (tn_tasks ?s) = Some x \<and> ct_tenant x = u" if w: "(c', u, j) \<in> set (tn_waiting ?s)" for c' u j
  proof (cases "(c', u, j) \<in> set (tn_waiting s)")
    case True
    from pools_okD(4) [OF ok this] obtain x where x: "mget j (tn_tasks s) = Some x" "ct_tenant x = u" by blast
    then have "j \<noteq> tn_next s" using pools_okD(2) [OF ok x(1)] by auto
    with x show ?thesis by (simp add: tasks)
  next
    case False
    with w have "u = tenant \<and> j = tn_next s" by (auto simp: put_task_def)
    then have "mget j (tn_tasks ?s) = Some t" "ct_tenant t = u" using t(1) by (simp_all add: tasks)
    then show ?thesis by blast
  qed
qed

lemma join_ok:
  assumes "pools_ok s"
  shows "pools_ok (snd (join_or_create c tenant url s))" and "(c', u, d) \<in> set (fst (join_or_create c tenant url s)) \<Longrightarrow> d = None"
proof -
  show "pools_ok (snd (join_or_create c tenant url s))"
  proof (cases "mget tenant (tn_pending s)")
    case None
    with advance_pools_ok(1) [OF new_task_ok [OF assms None, of "\<lparr>ct_tenant = tenant, ct_url = url, ct_stage = Evicting\<rparr>" c]]
    show ?thesis by (simp add: join_or_create_def Let_def)
  qed (simp add: join_or_create_def wait_ok assms)
  assume a: "(c', u, d) \<in> set (fst (join_or_create c tenant url s))"
  then have "mget tenant (tn_pending s) = None" by (auto simp: join_or_create_def split: option.splits)
  with a advance_pools_ok(2) [OF new_task_ok [OF assms this, of "\<lparr>ct_tenant = tenant, ct_url = url, ct_stage = Evicting\<rparr>" c]]
  show "d = None" by (simp add: join_or_create_def Let_def)
qed

lemma put_same: "mget k (tn_tasks s) = Some t \<Longrightarrow> put_task k t s = s"
proof -
  have "mget k m = Some t \<Longrightarrow> mset k t m = m" for m :: "(nat, create_task) jsmap" by (induction m) (auto simp: mget_def split: if_splits)
  then show "mget k (tn_tasks s) = Some t \<Longrightarrow> put_task k t s = s" by (simp add: put_task_def)
qed

lemma pools_ok_start: "pools_ok (start_pools a b)"
  by (simp add: pools_ok_def start_pools_def)

lemma none_answers:
  "(\<And>c tenant d. (c, tenant, d) \<in> set as \<Longrightarrow> d = None) \<Longrightarrow>
    \<forall>(c, tenant, d)\<in>set as. case d of None \<Rightarrow> True | Some i \<Rightarrow> \<exists>url. pool_of s i tenant url"
  by (fastforce split: option.splits)

lemma advance_answers:
  assumes "pools_ok (put_task k t s)"
  shows "\<forall>(c, tenant, d)\<in>set (fst (advance k t s)). case d of None \<Rightarrow> True | Some i \<Rightarrow> \<exists>url. pool_of s' i tenant url"
  by (rule none_answers) (rule advance_pools_ok(2) [OF assms])

lemma failed_answers:
  assumes "pools_ok (put_task k t s)"
  shows "\<forall>(c, tenant, d)\<in>set (fst (finish_task k t None s)). case d of None \<Rightarrow> True | Some i \<Rightarrow> \<exists>url. pool_of s' i tenant url"
  by (rule none_answers) (use finish_ok(2) [OF assms] in blast)

lemma join_answers:
  assumes "pools_ok s"
  shows "\<forall>(c, tenant, d)\<in>set (fst (join_or_create a b u s)). case d of None \<Rightarrow> True | Some i \<Rightarrow> \<exists>url. pool_of s' i tenant url"
  by (rule none_answers) (rule join_ok(2) [OF assms])

lemma one_pool_answers:
  assumes "pools_ok (put_task k t s)" and "pool_of s' d (ct_tenant t) url"
  shows "\<forall>(c, tenant, x)\<in>set (fst (finish_task k t (Some d) s)). case x of None \<Rightarrow> True | Some i \<Rightarrow> \<exists>url. pool_of s' i tenant url"
proof (clarify)
  fix c tenant x
  assume "(c, tenant, x) \<in> set (fst (finish_task k t (Some d) s))"
  from finish_ok(2) [OF assms(1) this] assms(2) show "case x of None \<Rightarrow> True | Some i \<Rightarrow> \<exists>url. pool_of s' i tenant url" by auto
qed

text \<open>Every event keeps the invariant, and answers a call with a pool that was made for its tenant.\<close>

lemma pool_step_ok:
  assumes ok: "pools_ok s"
  shows "pools_ok (snd (pool_step q s)) \<and>
    (\<forall>(c, tenant, d)\<in>set (fst (pool_step q s)). case d of None \<Rightarrow> True | Some i \<Rightarrow> \<exists>url. pool_of (snd (pool_step q s)) i tenant url)"
proof (cases q)
  case (GetOrCreate c tenant url now)
  show ?thesis
  proof (cases "mget tenant (tn_cache s)")
    case None
    then show ?thesis using join_ok(1) [OF ok, of c tenant url] join_answers [OF ok, of c tenant url]
      by (simp add: GetOrCreate getOrCreate_def)
  next
    case (Some e)
    show ?thesis
    proof (cases "ce_url e = url")
      case False
      have "pools_ok ((release tenant s)\<lparr>tn_paused := x\<rparr>)" for x
        by (rule pools_ok_frame [OF release_pool_ok [OF ok, of tenant]]) (simp_all add: pools_okD(1) [OF release_pool_ok [OF ok, of tenant]])
      with False Some show ?thesis by (simp add: GetOrCreate getOrCreate_def)
    next
      case True
      let ?s = "s\<lparr>tn_cache := mset tenant (e\<lparr>ce_used := now\<rparr>) (tn_cache s), tn_open := (if List.member (tn_open s) (ce_ds e) then tn_open s else ce_ds e # tn_open s)\<rparr>"
      have pool: "pool_of s (ce_ds e) tenant (ce_url e)" using pools_okD(1) [OF ok Some] .
      have "pools_ok ?s" by (rule pools_ok_frame [OF ok]) (use pool pools_okD(1) [OF ok] in \<open>auto split: if_splits\<close>)
      moreover have "pool_of ?s (ce_ds e) tenant (ce_url e)" using pool by (simp add: pool_of_def)
      ultimately show ?thesis using True Some by (auto simp: GetOrCreate getOrCreate_def)
    qed
  qed
next
  case (Resume c works)
  have frame: "pools_ok (s\<lparr>tn_paused := x\<rparr>)" for x by (rule pools_ok_frame [OF ok]) (simp_all add: pools_okD(1) [OF ok])
  show ?thesis
  proof (cases "find (\<lambda>(d, _). d = c) (tn_paused s)")
    case (Some p)
    obtain d tenant url where p: "p = (d, tenant, url)" by (cases p)
    let ?s = "s\<lparr>tn_paused := filter (\<lambda>(d, _). d \<noteq> c) (tn_paused s)\<rparr>"
    have step: "pool_step q s = (if works then join_or_create c tenant url ?s else ([(c, tenant, None)], ?s))"
      by (simp add: Resume resume_def Some p Let_def)
    show ?thesis
    proof (cases works)
      case True
      with step have "pool_step q s = join_or_create c tenant url ?s" by simp
      with join_ok(1) [OF frame, of c tenant url] join_answers [OF frame, of c tenant url] show ?thesis by simp
    qed (simp add: step frame)
  qed (simp add: Resume resume_def ok)
next
  case (Evicted k works)
  show ?thesis
  proof (cases "mget k (tn_tasks s)")
    case (Some t)
    have "pools_ok (put_task k t s)" using put_same [OF Some] ok by simp
    note facts = advance_pools_ok(1) [OF this] advance_answers [OF this] finish_ok(1) [OF this, of None] failed_answers [OF this]
    have "pool_step q s = (if ct_stage t \<noteq> Evicting then ([], s) else if works then advance k t s else finish_task k t None s)"
      by (simp add: Evicted evicted_def Some)
    then show ?thesis using ok facts by simp
  qed (simp add: Evicted evicted_def ok)
next
  case (Initialized k works now)
  show ?thesis
  proof (cases "mget k (tn_tasks s)")
    case (Some t)
    have put: "pools_ok (put_task k t s)" using put_same [OF Some] ok by simp
    show ?thesis
    proof (cases "ct_stage t")
      case (Initializing d)
      then have pool: "pool_of s d (ct_tenant t) (ct_url t)" using pools_okD(2) [OF ok Some] by (simp add: stage_ok_def)
      let ?s = "s\<lparr>tn_cache := mset (ct_tenant t) \<lparr>ce_ds = d, ce_url = ct_url t, ce_used = now\<rparr> (tn_cache s), tn_open := d # tn_open s\<rparr>"
      have "pools_ok ?s" by (rule pools_ok_frame [OF ok]) (use pool pools_okD(1) [OF ok] in \<open>auto split: if_splits\<close>)
      then have put': "pools_ok (put_task k t ?s)" using put_same [of k ?s t] Some by simp
      show ?thesis
      proof (cases works)
        case True
        then have step: "pool_step q s = finish_task k t (Some d) ?s" by (simp add: Initialized initialized_def Some Initializing)
        have "pool_of (snd (finish_task k t (Some d) ?s)) d (ct_tenant t) (ct_url t)"
          using pool by (simp add: finish_task_def pool_of_def)
        then show ?thesis unfolding step using finish_ok(1) [OF put', of "Some d"] one_pool_answers [OF put'] by blast
      next
        case False
        then have "pool_step q s = finish_task k t None s" by (simp add: Initialized initialized_def Some Initializing)
        with finish_ok(1) [OF put, of None] failed_answers [OF put] show ?thesis by simp
      qed
    qed (simp add: Initialized initialized_def Some ok)
  qed (simp add: Initialized initialized_def ok)
next
  case (EvictIdle now)
  have "pools_ok (evictIdle now s)" unfolding evictIdle_def by (rule pools_ok_frame [OF ok]) (simp_all add: pools_okD(1) [OF ok])
  then show ?thesis by (simp add: EvictIdle)
next
  case SweepNext
  have "pools_ok ((release k s)\<lparr>tn_sweep := ks\<rparr>)" for k ks
    by (rule pools_ok_frame [OF release_pool_ok [OF ok, of k]]) (simp_all add: pools_okD(1) [OF release_pool_ok [OF ok, of k]])
  then show ?thesis by (simp add: SweepNext sweep_next_def ok split: list.split)
next
  case (Release t)
  then show ?thesis by (simp add: release_pool_ok ok)
next
  case Shutdown
  have "pools_ok (fold release ts s)" for ts using ok by (induction ts arbitrary: s) (simp_all add: release_pool_ok)
  then show ?thesis by (simp add: Shutdown onModuleDestroy_def)
qed

interpretation pools: invariant_machine pool_step pools_ok
  by unfold_locales (simp add: pool_step_ok)

text \<open>C28: whatever calls, openings, evictions and sweeps follow each other, and however they interleave, a call is answered only with
  a pool that was opened for its own tenant.\<close>

theorem pools_isolate_tenants:
  assumes "s = run_reqs pool_step qs (start_pools max_cached idle_ms)" and "(c, tenant, Some d) \<in> set (fst (pool_step q s))"
  shows "\<exists>url. tn_pools (snd (pool_step q s)) ! d = (tenant, url)"
proof -
  have "pools_ok s" unfolding assms(1) by (rule pools.run_inv) (rule pools_ok_start)
  with pool_step_ok [OF this, of q] assms(2) show ?thesis by (fastforce simp: pool_of_def)
qed

definition sample_pool_run :: "pool_event list" where
  "sample_pool_run = [GetOrCreate 1 ''t1'' ''postgres://a'' 5, GetOrCreate 2 ''t1'' ''postgres://a'' 6]"

theorem pools_isolate_tenants_witness:
  "\<exists>url. tn_pools (snd (pool_step (Initialized 0 True 7) (run_reqs pool_step sample_pool_run (start_pools (Some 1) None)))) ! 0 = (''t1'', url)"
proof -
  have "List.member (fst (pool_step (Initialized 0 True 7) (run_reqs pool_step sample_pool_run (start_pools (Some 1) None)))) (2, ''t1'', Some 0)"
    by code_simp
  then show ?thesis by (intro pools_isolate_tenants [OF refl, of 2 "''t1''" 0]) simp
qed

subsection \<open>What the code lets happen\<close>

text \<open>Two creations that interleave both find room where there is room for one: more pools are cached than may be.\<close>

lemma interleaved_creations_exceed_capacity:
  "length (tn_cache (run_reqs pool_step [GetOrCreate 1 ''a'' ''postgres://a'' 1, GetOrCreate 2 ''b'' ''postgres://b'' 2,
     Initialized 0 True 3, Initialized 1 True 4] (start_pools (Some 1) None))) = 2"
  by code_simp

text \<open>While a pool of the old address closes, another call opens the new one; the first call goes on without looking again, opens a
  second one over it, and the first stays open with nothing left to close it.\<close>

lemma moved_tenant_leaks_pool:
  "(let s = run_reqs pool_step [GetOrCreate 1 ''a'' ''postgres://a'' 1, Initialized 0 True 2,
      GetOrCreate 2 ''a'' ''postgres://b'' 3, GetOrCreate 3 ''a'' ''postgres://b'' 4, Initialized 1 True 5, Resume 2 True, Initialized 2 True 6]
      (start_pools (Some 5) None)
    in (map (ce_ds \<circ> snd) (tn_cache s), tn_open s)) = ([2], [2, 1])"
  by code_simp

text \<open>A ceiling between zero and one passes the test for a positive number and is then rounded down to none.\<close>

lemma fractional_ceiling_is_zero: "tn_max (start_pools (Some (1 / 2)) None) = 0"
  by (simp add: start_pools_def intFromEnv_def)

text \<open>A call that comes while a pool of another address is opened is given that pool.\<close>

lemma pending_pool_of_old_address:
  "(let s = run_reqs pool_step [GetOrCreate 1 ''a'' ''postgres://a'' 1, GetOrCreate 2 ''a'' ''postgres://b'' 2] (start_pools (Some 5) None)
    in (fst (pool_step (Initialized 0 True 3) s), tn_pools (snd (pool_step (Initialized 0 True 3) s))))
   = ([(1, ''a'', Some 0), (2, ''a'', Some 0)], [(''a'', ''postgres://a'')])"
  by code_simp

end
