(* ===== verification/ClassStructure.thy ===== *)
theory ClassStructure
  imports Results
begin

section \<open>Classes, subjects and the default structure of a school\<close>

text \<open>
  \<open>academic/academic.service.ts\<close>: the catalogue of classes, subjects and subject categories, and who sees it.  The link
  tables stay in the \<open>scope_db\<close> of \<open>TeacherScope\<close>, whose class and subject rows are read off the catalogue
  (\<open>structure_env\<close>), so what is written here is what the teacher scope decides by.  \<open>so_dropped\<close> records the prefixes
  of the lists that were dropped from the list cache.
\<close>

record class_row =
  kl_id :: string
  kl_name :: string
  kl_code :: string
  kl_level :: string
  kl_teacher :: "string option"
  kl_capacity :: "int option"
  kl_active :: bool
  kl_archived :: bool

record subject_row =
  ju_id :: string
  ju_name :: string
  ju_code :: string
  ju_level :: string
  ju_description :: "string option"
  ju_category :: "string option"
  ju_classes :: json_column
  ju_active :: bool
  ju_archived :: bool

record category_row =
  kc_id :: string
  kc_name :: string
  kc_slug :: string
  kc_active :: bool

record promotion_row =
  pm_id :: string
  pm_student :: string
  pm_from :: "string option"
  pm_class :: string
  pm_session :: "string option"
  pm_by :: "string option"
  pm_notes :: "string option"

record history_row =
  hi_id :: string
  hi_student :: string
  hi_session :: "string option"
  hi_class :: string
  hi_from :: "string option"
  hi_by :: "string option"

record structure_db =
  so_env :: school_env
  so_classes :: "class_row list"
  so_subjects :: "subject_row list"
  so_categories :: "category_row list"
  so_results :: "(string \<times> string) list"      \<comment> \<open>academic_results: class, student\<close>
  so_promotions :: "promotion_row list"
  so_history :: "history_row list"
  so_dropped :: "string list"

text \<open>What the other components read of the catalogue.\<close>

definition structure_scope :: "structure_db \<Rightarrow> scope_db" where
  "structure_scope db = (env_scope (so_env db))\<lparr>class_rows := map (\<lambda>c. (kl_id c, kl_teacher c)) (so_classes db),
     subject_rows := map (\<lambda>s. (ju_id s, ju_classes s)) (so_subjects db)\<rparr>"

definition structure_env :: "structure_db \<Rightarrow> school_env" where
  "structure_env db = (so_env db)\<lparr>env_scope := structure_scope db,
     env_class_levels := (\<lambda>k. map_option (\<lambda>c. Some (kl_level c)) (tfind kl_id k (so_classes db))),
     env_subject_levels := (\<lambda>k. map_option (\<lambda>s. Some (ju_level s)) (tfind ju_id k (so_subjects db)))\<rparr>"

definition dropped :: "string \<Rightarrow> structure_db \<Rightarrow> structure_db" where
  "dropped prefix db = db\<lparr>so_dropped := prefix # so_dropped db\<rparr>"

subsection \<open>Classes\<close>

text \<open>The bodies of the two endpoints; \<open>None\<close> is a field that is not sent, \<open>Some None\<close> is \<open>null\<close>.\<close>

record class_body =
  kb_name :: "string option"
  kb_code :: "string option"
  kb_level :: "string option"
  kb_teacher :: "string option option"
  kb_capacity :: "int option option"
  kb_active :: "bool option"

definition or_no_number :: "int option \<Rightarrow> int option" where
  "or_no_number x = (case x of Some n \<Rightarrow> if n = 0 then None else Some n | None \<Rightarrow> None)"

definition keep :: "'a option \<Rightarrow> 'a \<Rightarrow> 'a" where
  "keep sent old = (case sent of Some x \<Rightarrow> x | None \<Rightarrow> old)"

lemma keep_simps [simp]: "keep None x = x" "keep (Some y) x = y"
  by (simp_all add: keep_def)

definition class_fits :: "class_row \<Rightarrow> bool" where
  "class_fits c = (length (kl_id c) \<le> 64 \<and> length (kl_name c) \<le> 255 \<and> length (kl_code c) \<le> 64 \<and> length (kl_level c) \<le> 32 \<and>
     width_of 64 (kl_teacher c))"

definition insert_class :: "class_row \<Rightarrow> structure_db \<Rightarrow> structure_db option" where
  "insert_class c db = (if \<not> class_fits c then None
     else map_option (\<lambda>t. db\<lparr>so_classes := t\<rparr>) (tinsert kl_id c (so_classes db)))"

definition merge_class :: "class_body \<Rightarrow> class_row \<Rightarrow> class_row" where
  "merge_class b c = c\<lparr>kl_name := keep (kb_name b) (kl_name c), kl_code := keep (kb_code b) (kl_code c),
     kl_level := keep (kb_level b) (kl_level c), kl_teacher := or_null (keep (kb_teacher b) (kl_teacher c)),
     kl_capacity := or_no_number (keep (kb_capacity b) (kl_capacity c)), kl_active := keep (kb_active b) (kl_active c)\<rparr>"

text \<open>A column that must not be null refuses a row with a name, code or level that is not sent.\<close>

definition upsertClass :: "string \<Rightarrow> string option \<Rightarrow> class_body \<Rightarrow> structure_db \<Rightarrow> string result \<times> structure_db" where
  "upsertClass fresh k b db = (if \<not> truthy k then
       (case (kb_name b, kb_code b, kb_level b) of
          (Some name, Some code, Some level) \<Rightarrow>
            (case insert_class \<lparr>kl_id = fresh, kl_name = name, kl_code = code, kl_level = level, kl_teacher = or_null (keep (kb_teacher b) None),
                kl_capacity = or_no_number (keep (kb_capacity b) None), kl_active = (kb_active b \<noteq> Some False), kl_archived = False\<rparr> db of
               None \<Rightarrow> (Inl DbError, db)
             | Some db' \<Rightarrow> (Inr fresh, dropped ''classes:'' db'))
        | _ \<Rightarrow> (Inl DbError, db))
     else (case tfind kl_id (the k) (so_classes db) of
         None \<Rightarrow> (Inl (NotFound ''Class not found''), db)
       | Some c \<Rightarrow>
           if \<not> class_fits (merge_class b c) then (Inl DbError, db)
           else (Inr (the k), dropped ''classes:'' (db\<lparr>so_classes := tmodify kl_id (the k) (\<lambda>_. merge_class b c) (so_classes db)\<rparr>))))"

definition deleteClass :: "string \<Rightarrow> structure_db \<Rightarrow> string result \<times> structure_db" where
  "deleteClass k db = (Inr k, dropped ''classes:''
     (db\<lparr>so_classes := tmodify kl_id k (\<lambda>c. c\<lparr>kl_active := False, kl_archived := True\<rparr>) (so_classes db)\<rparr>))"

subsection \<open>Subjects and their categories\<close>

record subject_body =
  jb_name :: "string option"
  jb_code :: "string option"
  jb_level :: "string option"
  jb_description :: "string option option"
  jb_category :: "string option option"
  jb_classes :: "string list option"
  jb_active :: "bool option"

definition subject_fits :: "subject_row \<Rightarrow> bool" where
  "subject_fits s = (length (ju_id s) \<le> 64 \<and> length (ju_name s) \<le> 255 \<and> length (ju_code s) \<le> 64 \<and> length (ju_level s) \<le> 32 \<and>
     width_of 64 (ju_category s))"

definition insert_subject :: "subject_row \<Rightarrow> structure_db \<Rightarrow> structure_db option" where
  "insert_subject s db = (if \<not> subject_fits s then None
     else map_option (\<lambda>t. db\<lparr>so_subjects := t\<rparr>) (tinsert ju_id s (so_subjects db)))"

definition merge_subject :: "subject_body \<Rightarrow> subject_row \<Rightarrow> subject_row" where
  "merge_subject b s = s\<lparr>ju_name := keep (jb_name b) (ju_name s), ju_code := keep (jb_code b) (ju_code s),
     ju_level := keep (jb_level b) (ju_level s), ju_description := or_null (keep (jb_description b) (ju_description s)),
     ju_category := or_null (keep (jb_category b) (ju_category s)),
     ju_classes := (case jb_classes b of Some cs \<Rightarrow> JArray cs | None \<Rightarrow> ju_classes s), ju_active := keep (jb_active b) (ju_active s)\<rparr>"

definition upsertSubject :: "string \<Rightarrow> string option \<Rightarrow> subject_body \<Rightarrow> structure_db \<Rightarrow> string result \<times> structure_db" where
  "upsertSubject fresh k b db = (if \<not> truthy k then
       (case (jb_name b, jb_code b, jb_level b) of
          (Some name, Some code, Some level) \<Rightarrow>
            (case insert_subject \<lparr>ju_id = fresh, ju_name = name, ju_code = code, ju_level = level,
                ju_description = or_null (keep (jb_description b) None), ju_category = or_null (keep (jb_category b) None),
                ju_classes = JArray (keep (jb_classes b) []), ju_active = (jb_active b \<noteq> Some False), ju_archived = False\<rparr> db of
               None \<Rightarrow> (Inl DbError, db)
             | Some db' \<Rightarrow> (Inr fresh, dropped ''subjects:'' db'))
        | _ \<Rightarrow> (Inl DbError, db))
     else (case tfind ju_id (the k) (so_subjects db) of
         None \<Rightarrow> (Inl (NotFound ''Subject not found''), db)
       | Some s \<Rightarrow>
           if \<not> subject_fits (merge_subject b s) then (Inl DbError, db)
           else (Inr (the k), dropped ''subjects:'' (db\<lparr>so_subjects := tmodify ju_id (the k) (\<lambda>_. merge_subject b s) (so_subjects db)\<rparr>))))"

text \<open>The list of the subjects stays in the cache when one is archived.\<close>

definition deleteSubject :: "string \<Rightarrow> structure_db \<Rightarrow> string result \<times> structure_db" where
  "deleteSubject k db = (Inr k,
     db\<lparr>so_subjects := tmodify ju_id k (\<lambda>s. s\<lparr>ju_active := False, ju_archived := True\<rparr>) (so_subjects db)\<rparr>)"

text \<open>The slug of a category is unique.\<close>

definition category_fits :: "category_row \<Rightarrow> bool" where
  "category_fits c = (length (kc_id c) \<le> 64 \<and> length (kc_name c) \<le> 128 \<and> length (kc_slug c) \<le> 128)"

definition createSubjectCategory :: "string \<Rightarrow> string \<Rightarrow> string \<Rightarrow> structure_db \<Rightarrow> category_row result \<times> structure_db" where
  "createSubjectCategory fresh name slug db =
     (let c = \<lparr>kc_id = fresh, kc_name = trim name, kc_slug = toLowerCase (trim slug), kc_active = True\<rparr> in
      if \<not> category_fits c \<or> list_ex (\<lambda>x. kc_slug x = kc_slug c) (so_categories db) then (Inl DbError, db)
      else (case tinsert kc_id c (so_categories db) of
          None \<Rightarrow> (Inl DbError, db)
        | Some t \<Rightarrow> (Inr c, db\<lparr>so_categories := t\<rparr>)))"

definition listSubjectCategories :: "structure_db \<Rightarrow> category_row list" where
  "listSubjectCategories db = sort_key kc_name (filter kc_active (so_categories db))"

subsection \<open>The default structure\<close>

text \<open>Name, code and level of the classes every school starts with, and its categories of subjects.\<close>

definition digit :: "nat \<Rightarrow> string" where
  "digit n = [char_of (48 + n)]"

definition DEFAULT_CLASSES :: "(string \<times> string \<times> string) list" where
  "DEFAULT_CLASSES =
     map (\<lambda>i. (''Nursery '' @ digit i, ''NUR'' @ digit i, ''nursery'')) [1, 2, 3] @
     map (\<lambda>i. (''Primary '' @ digit i, ''PRI'' @ digit i, ''primary'')) [1, 2, 3, 4, 5, 6] @
     map (\<lambda>i. (''JSS '' @ digit i, ''JSS'' @ digit i, ''jss'')) [1, 2, 3] @
     map (\<lambda>i. (''SSS '' @ digit i, ''SSS'' @ digit i, ''sss'')) [1, 2, 3]"

definition DEFAULT_CATEGORIES :: "(string \<times> string) list" where
  "DEFAULT_CATEGORIES = [(''Science'', ''science''), (''Art'', ''art''), (''Commercial'', ''commercial'')]"

record structure_status =
  dst_ready :: bool
  dst_classes_present :: nat
  dst_classes_missing :: "string list"
  dst_categories_present :: nat
  dst_categories_missing :: "string list"

definition getDefaultStructureStatus :: "structure_db \<Rightarrow> structure_status" where
  "getDefaultStructureStatus db =
     (let codes = js_uniq (filter (List.member (map (fst \<circ> snd) DEFAULT_CLASSES)) (map kl_code (so_classes db)));
          slugs = js_uniq (filter (List.member (map snd DEFAULT_CATEGORIES)) (map kc_slug (so_categories db)))
      in \<lparr>dst_ready = (length codes = length DEFAULT_CLASSES \<and> length slugs = length DEFAULT_CATEGORIES),
          dst_classes_present = length codes,
          dst_classes_missing = map (fst \<circ> snd) (filter (\<lambda>c. \<not> List.member codes (fst (snd c))) DEFAULT_CLASSES),
          dst_categories_present = length slugs,
          dst_categories_missing = map snd (filter (\<lambda>c. \<not> List.member slugs (snd c)) DEFAULT_CATEGORIES)\<rparr>)"

text \<open>\<open>INSERT ... ON CONFLICT (slug) DO UPDATE\<close>; a clash of identifiers is an error.\<close>

definition put_default_category :: "string \<Rightarrow> string \<times> string \<Rightarrow> structure_db \<Rightarrow> structure_db option" where
  "put_default_category fresh c db = (case c of (name, slug) \<Rightarrow>
     if list_ex (\<lambda>x. kc_slug x = slug) (so_categories db)
     then Some (db\<lparr>so_categories := tupdate (\<lambda>x. kc_slug x = slug) (\<lambda>x. x\<lparr>kc_active := True, kc_name := name\<rparr>) (so_categories db)\<rparr>)
     else map_option (\<lambda>t. db\<lparr>so_categories := t\<rparr>)
       (tinsert kc_id \<lparr>kc_id = fresh, kc_name = name, kc_slug = slug, kc_active = True\<rparr> (so_categories db)))"

definition put_default_class :: "string \<Rightarrow> string \<times> string \<times> string \<Rightarrow> structure_db \<Rightarrow> structure_db option" where
  "put_default_class fresh c db = (case c of (name, code, level) \<Rightarrow>
     if list_ex (\<lambda>x. kl_code x = code) (so_classes db)
     then Some (db\<lparr>so_classes := tupdate (\<lambda>x. kl_code x = code) (\<lambda>x. x\<lparr>kl_active := True, kl_archived := False\<rparr>) (so_classes db)\<rparr>)
     else insert_class \<lparr>kl_id = fresh, kl_name = name, kl_code = code, kl_level = level, kl_teacher = None, kl_capacity = None,
       kl_active = True, kl_archived = False\<rparr> db)"

text \<open>The rows are written one by one; what precedes a failed one stays.\<close>

primrec put_all :: "(string \<Rightarrow> 'c \<Rightarrow> structure_db \<Rightarrow> structure_db option) \<Rightarrow> (string \<times> 'c) list \<Rightarrow> structure_db \<Rightarrow> unit result \<times> structure_db" where
  "put_all f [] db = (Inr (), db)"
| "put_all f (x # xs) db = (case f (fst x) (snd x) db of None \<Rightarrow> (Inl DbError, db) | Some db' \<Rightarrow> put_all f xs db')"

definition repairDefaultStructure :: "(nat \<Rightarrow> string) \<Rightarrow> structure_db \<Rightarrow> structure_status result \<times> structure_db" where
  "repairDefaultStructure fresh db =
     (case put_all put_default_category (zip (map fresh [0..<length DEFAULT_CATEGORIES]) DEFAULT_CATEGORIES) db of
        (Inl e, db') \<Rightarrow> (Inl e, db')
      | (Inr _, db') \<Rightarrow>
          (case put_all put_default_class (zip (map fresh [length DEFAULT_CATEGORIES..<length DEFAULT_CATEGORIES + length DEFAULT_CLASSES]) DEFAULT_CLASSES) db' of
             (Inl e, db'') \<Rightarrow> (Inl e, db'')
           | (Inr _, db'') \<Rightarrow> (Inr (getDefaultStructureStatus db''), db'')))"

subsection \<open>Who sees which classes and subjects\<close>

text \<open>Class catalogues are tenant-wide for those who manage them.\<close>

definition hasUnscopedClassAccess :: "string list \<Rightarrow> string list \<Rightarrow> bool" where
  "hasUnscopedClassAccess permissions capabilities =
     list_ex (List.member [''*'', ''classes:manage'', ''organization:view'', ''organization:manage'']) (permissions @ capabilities)"

record class_view =
  cv_row :: class_row
  cv_assigned :: nat
  cv_enrolled :: nat

text \<open>A pupil counts once, enrolled or with a result; the newest class comes first.  The names shown beside a class or a subject (of its
  teachers, its category, its classes) are left out.\<close>

definition class_view_of :: "structure_db \<Rightarrow> class_row \<Rightarrow> class_view" where
  "class_view_of db c = \<lparr>cv_row = c,
     cv_assigned = length (filter (\<lambda>l. snd l = kl_id c \<and> user_roles (env_scope (so_env db)) (fst l) \<noteq> None)
       (class_teacher_links (env_scope (so_env db)))),
     cv_enrolled = length (js_uniq (map fst (filter (\<lambda>e. snd e = kl_id c) (enrollments (env_scope (so_env db)))) @
       map snd (filter (\<lambda>r. fst r = kl_id c) (so_results db))))\<rparr>"

definition listClasses :: "string option \<Rightarrow> bool \<Rightarrow> structure_db \<Rightarrow> class_view list result" where
  "listClasses actor scopeToTeacher db =
     (let env = structure_env db; mapped = rev (map (class_view_of db) (so_classes db)) in
      bind_result (filterByActorSchoolLevel env actor (\<lambda>v. Some (kl_level (cv_row v))) mapped) (\<lambda>levelScoped.
        if \<not> truthy actor \<or> \<not> scopeToTeacher then Inr (if scopeToTeacher then levelScoped else mapped)
        else let scope = getTeacherScope (env_scope env) (the actor) in
          if \<not> isTeacher scope then Inr mapped
          else Inr (filter (\<lambda>v. List.member (classIds scope) (kl_id (cv_row v)) \<or>
            subjectIds scope \<noteq> [] \<and> List.member (subjectClassIds scope) (kl_id (cv_row v))) levelScoped)))"

text \<open>The class list of a subject as it is shown: text that is no JSON shows no class, and of a JSON value that is no array
  (which is shown as it is) only that it lists none is kept.\<close>

fun shown_classes :: "json_column \<Rightarrow> string list" where
  "shown_classes (JArray cs) = cs"
| "shown_classes JOther = []"
| "shown_classes (JText _) = []"

definition listSubjects :: "string option \<Rightarrow> bool \<Rightarrow> structure_db \<Rightarrow> (subject_row \<times> string list) list result" where
  "listSubjects actor scopeToTeacher db =
     (let env = structure_env db; mapped = rev (map (\<lambda>s. (s, shown_classes (ju_classes s))) (so_subjects db)) in
      bind_result (filterByActorSchoolLevel env actor (\<lambda>v. Some (ju_level (fst v))) mapped) (\<lambda>levelScoped.
        if \<not> truthy actor \<or> \<not> scopeToTeacher then Inr (if scopeToTeacher then levelScoped else mapped)
        else let scope = getTeacherScope (env_scope env) (the actor) in
          if \<not> isTeacher scope then Inr levelScoped
          else Inr (filter (\<lambda>v. List.member (subjectIds scope) (ju_id (fst v))) levelScoped)))"

subsection \<open>Facts\<close>

lemma dropped_simps [simp]:
  "so_env (dropped p db) = so_env db" "so_classes (dropped p db) = so_classes db" "so_subjects (dropped p db) = so_subjects db"
  "so_categories (dropped p db) = so_categories db" "so_results (dropped p db) = so_results db"
  "so_promotions (dropped p db) = so_promotions db" "so_history (dropped p db) = so_history db"
  "so_dropped (dropped p db) = p # so_dropped db"
  by (simp_all add: dropped_def)

lemma structure_scope_links [simp]:
  "user_roles (structure_scope db) = user_roles (env_scope (so_env db))"
  "parent_links (structure_scope db) = parent_links (env_scope (so_env db))"
  "enrollments (structure_scope db) = enrollments (env_scope (so_env db))"
  "class_teacher_links (structure_scope db) = class_teacher_links (env_scope (so_env db))"
  "subject_links (structure_scope db) = subject_links (env_scope (so_env db))"
  by (simp_all add: structure_scope_def)

lemma env_scope_structure [simp]: "env_scope (structure_env db) = structure_scope db"
  by (simp add: structure_env_def)

text \<open>Writing a row of the default structure leaves its code or slug there, and keeps every other.\<close>

lemma put_default_category_slugs:
  assumes "put_default_category fresh c db = Some db'"
  shows "set (map kc_slug (so_categories db')) = insert (snd c) (set (map kc_slug (so_categories db)))" "so_classes db' = so_classes db"
proof -
  obtain name slug where c: "c = (name, slug)" by (cases c)
  show "so_classes db' = so_classes db" using assms by (auto simp: put_default_category_def c split: if_splits)
  show "set (map kc_slug (so_categories db')) = insert (snd c) (set (map kc_slug (so_categories db)))"
  proof (cases "slug \<in> kc_slug ` set (so_categories db)")
    case True
    then have "list_ex (\<lambda>x. kc_slug x = slug) (so_categories db)" by (auto simp: list_ex_iff)
    with assms have "so_categories db' = tupdate (\<lambda>x. kc_slug x = slug) (\<lambda>x. x\<lparr>kc_active := True, kc_name := name\<rparr>) (so_categories db)"
      by (auto simp: put_default_category_def c)
    then have "map kc_slug (so_categories db') = map kc_slug (so_categories db)" by (simp add: map_key_tupdate)
    with True c show ?thesis by (simp add: insert_absorb)
  next
    case False
    then have "\<not> list_ex (\<lambda>x. kc_slug x = slug) (so_categories db)" by (auto simp: list_ex_iff)
    with assms show ?thesis by (auto simp: put_default_category_def c dest!: tinsert_SomeD split: if_splits)
  qed
qed

lemma put_default_class_codes:
  assumes "put_default_class fresh c db = Some db'"
  shows "set (map kl_code (so_classes db')) = insert (fst (snd c)) (set (map kl_code (so_classes db)))" "so_categories db' = so_categories db"
proof -
  obtain name code level where c: "c = (name, code, level)" by (cases c)
  show "so_categories db' = so_categories db" using assms by (auto simp: put_default_class_def insert_class_def c split: if_splits)
  show "set (map kl_code (so_classes db')) = insert (fst (snd c)) (set (map kl_code (so_classes db)))"
  proof (cases "code \<in> kl_code ` set (so_classes db)")
    case True
    then have "list_ex (\<lambda>x. kl_code x = code) (so_classes db)" by (auto simp: list_ex_iff)
    with assms have "so_classes db' = tupdate (\<lambda>x. kl_code x = code) (\<lambda>x. x\<lparr>kl_active := True, kl_archived := False\<rparr>) (so_classes db)"
      by (auto simp: put_default_class_def c)
    then have "map kl_code (so_classes db') = map kl_code (so_classes db)" by (simp add: map_key_tupdate)
    with True c show ?thesis by (simp add: insert_absorb)
  next
    case False
    then have "\<not> list_ex (\<lambda>x. kl_code x = code) (so_classes db)" by (auto simp: list_ex_iff)
    with assms show ?thesis by (auto simp: put_default_class_def insert_class_def c dest!: tinsert_SomeD split: if_splits)
  qed
qed

lemma put_categories:
  "put_all put_default_category xs db = (Inr u, db') \<Longrightarrow>
   set (map kc_slug (so_categories db')) = snd ` snd ` set xs \<union> set (map kc_slug (so_categories db)) \<and> so_classes db' = so_classes db"
proof (induction xs arbitrary: db)
  case (Cons x xs)
  then obtain db1 where db1: "put_default_category (fst x) (snd x) db = Some db1" "put_all put_default_category xs db1 = (Inr u, db')"
    by (auto split: option.splits)
  from Cons.IH [OF db1(2)] put_default_category_slugs [OF db1(1)] show ?case by simp
qed simp

lemma put_classes:
  "put_all put_default_class xs db = (Inr u, db') \<Longrightarrow>
   set (map kl_code (so_classes db')) = (fst \<circ> snd) ` snd ` set xs \<union> set (map kl_code (so_classes db)) \<and> so_categories db' = so_categories db"
proof (induction xs arbitrary: db)
  case (Cons x xs)
  then obtain db1 where db1: "put_default_class (fst x) (snd x) db = Some db1" "put_all put_default_class xs db1 = (Inr u, db')"
    by (auto split: option.splits)
  from Cons.IH [OF db1(2)] put_default_class_codes [OF db1(1)] show ?case by simp
qed simp

text \<open>The status is \<open>ready\<close> exactly when nothing is missing.\<close>

lemma length_js_uniq: "length (js_uniq xs) = card (set xs)"
  by (simp add: js_uniq_def length_remdups_card_conv)

lemma all_present:
  assumes "distinct ds"
  shows "length (js_uniq (filter (List.member ds) xs)) = length ds \<longleftrightarrow> set ds \<subseteq> set xs"
proof -
  have "set (filter (List.member ds) xs) = set ds \<inter> set xs" by auto
  moreover have "card (set ds \<inter> set xs) = card (set ds) \<longleftrightarrow> set ds \<subseteq> set xs"
    by (metis Int_absorb2 card_subset_eq finite_set inf_le1 inf_le2)
  ultimately show ?thesis using assms by (simp add: length_js_uniq distinct_card)
qed

lemma default_codes_distinct: "distinct (map (fst \<circ> snd) DEFAULT_CLASSES)" "distinct (map snd DEFAULT_CATEGORIES)"
  by code_simp+

lemma status_ready_iff:
  "dst_ready (getDefaultStructureStatus db) \<longleftrightarrow>
   set (map (fst \<circ> snd) DEFAULT_CLASSES) \<subseteq> set (map kl_code (so_classes db)) \<and>
   set (map snd DEFAULT_CATEGORIES) \<subseteq> set (map kc_slug (so_categories db))"
  using all_present [OF default_codes_distinct(1), of "map kl_code (so_classes db)"]
    all_present [OF default_codes_distinct(2), of "map kc_slug (so_categories db)"]
  by (simp add: getDefaultStructureStatus_def Let_def)

subsection \<open>Properties\<close>

text \<open>A repair that does not fail leaves the default structure complete, with the classes and categories there were.\<close>

theorem repair_makes_ready:
  assumes "repairDefaultStructure fresh db = (Inr st, db')"
  shows "dst_ready st" "st = getDefaultStructureStatus db'"
    "set (map kl_code (so_classes db)) \<subseteq> set (map kl_code (so_classes db'))"
    "set (map kc_slug (so_categories db)) \<subseteq> set (map kc_slug (so_categories db'))"
proof -
  let ?cats = "zip (map fresh [0..<length DEFAULT_CATEGORIES]) DEFAULT_CATEGORIES"
  let ?cls = "zip (map fresh [length DEFAULT_CATEGORIES..<length DEFAULT_CATEGORIES + length DEFAULT_CLASSES]) DEFAULT_CLASSES"
  from assms obtain db1 u v where "put_all put_default_category ?cats db = (Inr u, db1)" and "put_all put_default_class ?cls db1 = (Inr v, db')"
      and st: "st = getDefaultStructureStatus db'"
    by (auto simp: repairDefaultStructure_def split: prod.splits sum.splits)
  note facts = put_categories [OF this(1)] put_classes [OF this(2)]
  have pairs: "snd ` set ?cats = set DEFAULT_CATEGORIES" "snd ` set ?cls = set DEFAULT_CLASSES"
    by (simp_all flip: set_map)
  show "st = getDefaultStructureStatus db'" by (rule st)
  show "dst_ready st" unfolding st status_ready_iff using facts unfolding pairs by auto
  show "set (map kl_code (so_classes db)) \<subseteq> set (map kl_code (so_classes db'))"
    "set (map kc_slug (so_categories db)) \<subseteq> set (map kc_slug (so_categories db'))"
    using facts by auto
qed

text \<open>A field that is not sent keeps its value when a class is changed, and no other class changes.\<close>

lemma patch_keeps_unsent:
  assumes "fst (upsertClass fresh (Some k) b db) = Inr x" and "k \<noteq> []"
  shows "x = k" "so_classes (snd (upsertClass fresh (Some k) b db)) = tmodify kl_id k (\<lambda>c. merge_class b (the (tfind kl_id k (so_classes db)))) (so_classes db)"
    "kb_code b = None \<Longrightarrow> kl_code (merge_class b c) = kl_code c" "kb_capacity b = None \<Longrightarrow> kl_capacity c \<noteq> Some 0 \<Longrightarrow> kl_capacity (merge_class b c) = kl_capacity c"
  using assms by (auto simp: upsertClass_def merge_class_def or_no_number_def split: option.splits if_splits)

subsection \<open>What the code lets happen\<close>

definition sample_structure :: structure_db where
  "sample_structure = \<lparr>so_env = \<lparr>env_scope = sample_scope_db\<lparr>user_roles := [''h'' \<mapsto> JArray [''head_teacher'']]\<rparr>, env_levels = Map.empty, env_names = Map.empty,
       env_class_levels = Map.empty, env_subject_levels = Map.empty\<rparr>,
     so_classes = [\<lparr>kl_id = ''k'', kl_name = ''SSS 1'', kl_code = ''SSS1'', kl_level = ''sss'', kl_teacher = None, kl_capacity = None, kl_active = True, kl_archived = False\<rparr>],
     so_subjects = [\<lparr>ju_id = ''m'', ju_name = ''Maths'', ju_code = ''M'', ju_level = ''sss'', ju_description = None, ju_category = None, ju_classes = JArray [''k''],
       ju_active = True, ju_archived = False\<rparr>],
     so_categories = [], so_results = [], so_promotions = [], so_history = [], so_dropped = []\<rparr>"

text \<open>A head teacher of a primary school, who is no teacher, sees the classes of every level, though only the subjects of his own.\<close>

lemma level_filter_lost_for_classes:
  "map_sum id (map (kl_id \<circ> cv_row)) (listClasses (Some ''h'') True sample_structure) = Inr [''k'']"
  "listSubjects (Some ''h'') True sample_structure = Inr []"
  by code_simp+

text \<open>Archiving a subject drops no cached list, which archiving a class does; nor does the repair of the structure.\<close>

lemma archived_subject_stays_listed:
  "so_dropped (snd (deleteSubject ''m'' sample_structure)) = []"
  "so_dropped (snd (deleteClass ''k'' sample_structure)) = [''classes:'']"
  "so_dropped (snd (repairDefaultStructure digit sample_structure)) = []"
  by code_simp+

end
