(* ===== verification/ClassLinks.thy ===== *)
theory ClassLinks
  imports ClassStructure
begin

section \<open>Who teaches, attends and is a parent of whom\<close>

text \<open>
  The link tables of \<open>academic/academic.service.ts\<close>: the classes and subjects of a teacher, the pupils of a parent and of
  a class, and the promotion of a pupil.  Every operation reconciles the links of one owner with a wanted list: it inserts
  what is missing and deletes what is not wanted.  The locale \<open>link_column\<close> is that contract, interpreted on the four
  tables.  The identifiers of link rows are random and read by nobody.
\<close>

subsection \<open>Reconciling the links of an owner\<close>

definition targets :: "string \<Rightarrow> (string \<times> string) list \<Rightarrow> string list" where
  "targets k links = map snd (filter (\<lambda>l. fst l = k) links)"

definition insert_missing :: "string \<Rightarrow> string list \<Rightarrow> (string \<times> string) list \<Rightarrow> (string \<times> string) list" where
  "insert_missing k wanted links = links @ map (Pair k) (filter (\<lambda>t. \<not> List.member (targets k links) t) (js_uniq wanted))"

definition remove_extra :: "string \<Rightarrow> string list \<Rightarrow> string list \<Rightarrow> (string \<times> string) list \<Rightarrow> (string \<times> string) list" where
  "remove_extra k existing wanted links = tdelete (\<lambda>l. fst l = k \<and> List.member existing (snd l) \<and> \<not> List.member wanted (snd l)) links"

definition reconcile :: "string \<Rightarrow> string list \<Rightarrow> (string \<times> string) list \<Rightarrow> (string \<times> string) list" where
  "reconcile k wanted links = remove_extra k (targets k links) wanted (insert_missing k wanted links)"

lemma set_targets [simp]: "t \<in> set (targets k links) \<longleftrightarrow> (k, t) \<in> set links"
  by (force simp: targets_def)

lemma set_insert_missing: "(j, t) \<in> set (insert_missing k wanted links) \<longleftrightarrow> (j, t) \<in> set links \<or> j = k \<and> t \<in> set wanted"
  by (auto simp: insert_missing_def)

lemma reconcile_links:
  "(j, t) \<in> set (reconcile k wanted links) \<longleftrightarrow> (if j = k then t \<in> set wanted else (j, t) \<in> set links)"
  by (auto simp: reconcile_def remove_extra_def set_tdelete set_insert_missing)

lemma distinct_insert_missing: "distinct links \<Longrightarrow> distinct (insert_missing k wanted links)"
  by (auto simp: insert_missing_def distinct_map inj_on_def)

lemma distinct_reconcile: "distinct links \<Longrightarrow> distinct (reconcile k wanted links)"
  by (simp add: reconcile_def remove_extra_def tdelete_def distinct_insert_missing)

text \<open>Links that stay are the rows there were: a second identical request writes nothing.\<close>

lemma reconcile_id:
  assumes "\<And>t. (k, t) \<in> set links \<longleftrightarrow> t \<in> set wanted"
  shows "reconcile k wanted links = links"
proof -
  have "filter (\<lambda>t. \<not> List.member (targets k links) t) (js_uniq wanted) = []" by (rule filter_False) (simp add: assms)
  then have "insert_missing k wanted links = links" by (simp add: insert_missing_def)
  moreover have "filter (\<lambda>l. \<not> (fst l = k \<and> List.member (targets k links) (snd l) \<and> \<not> List.member wanted (snd l))) links = links"
    by (rule filter_True) (use assms in auto)
  ultimately show ?thesis by (simp add: reconcile_def remove_extra_def tdelete_def)
qed

text \<open>A column of links of the database: how it is read and how it is changed.\<close>

locale link_column =
  fixes get :: "scope_db \<Rightarrow> (string \<times> string) list"
    and put :: "((string \<times> string) list \<Rightarrow> (string \<times> string) list) \<Rightarrow> scope_db \<Rightarrow> scope_db"
  assumes get_put: "get (put f db) = f (get db)"
    and put_roles: "user_roles (put f db) = user_roles db"
begin

definition linked :: "scope_db \<Rightarrow> string \<Rightarrow> string set" where
  "linked db k = {t. (k, t) \<in> set (get db)}"

lemma linked_reconcile: "linked (put (reconcile k wanted) db) j = (if j = k then set wanted else linked db j)"
  by (auto simp: linked_def get_put reconcile_links split: if_splits)

lemma reconcile_twice: "get (put (reconcile k wanted) (put (reconcile k wanted) db)) = get (put (reconcile k wanted) db)"
  by (simp add: get_put reconcile_id reconcile_links)

lemma distinct_put: "distinct (get db) \<Longrightarrow> distinct (get (put (reconcile k wanted) db))"
  by (simp add: get_put distinct_reconcile)

end

definition swap_links :: "(string \<times> string) list \<Rightarrow> (string \<times> string) list" where
  "swap_links links = map (\<lambda>(a, b). (b, a)) links"

lemma swap_swap [simp]: "swap_links (swap_links links) = links"
  by (induction links) (auto simp: swap_links_def)

lemma set_swap_links [simp]: "(a, b) \<in> set (swap_links links) \<longleftrightarrow> (b, a) \<in> set links"
  by (auto simp: swap_links_def)

lemma distinct_swap [simp]: "distinct (swap_links links) = distinct links"
  by (auto simp: swap_links_def distinct_map inj_on_def)

text \<open>The links of the enrolments belong to the class.\<close>

definition update_pupils :: "((string \<times> string) list \<Rightarrow> (string \<times> string) list) \<Rightarrow> scope_db \<Rightarrow> scope_db" where
  "update_pupils f = enrollments_update (swap_links \<circ> f \<circ> swap_links)"

interpretation class_links: link_column class_teacher_links class_teacher_links_update
  by unfold_locales simp_all

interpretation subj_links: link_column subject_links subject_links_update
  by unfold_locales simp_all

interpretation wards: link_column parent_links parent_links_update
  by unfold_locales simp_all

interpretation pupils: link_column "swap_links \<circ> enrollments" update_pupils
  by unfold_locales (simp_all add: update_pupils_def)

subsection \<open>The operations\<close>

definition map_scope :: "(scope_db \<Rightarrow> scope_db) \<Rightarrow> structure_db \<Rightarrow> structure_db" where
  "map_scope f db = db\<lparr>so_env := (so_env db)\<lparr>env_scope := f (env_scope (so_env db))\<rparr>\<rparr>"

definition active_classes :: "structure_db \<Rightarrow> string list \<Rightarrow> class_row list" where
  "active_classes db ks = filter (\<lambda>c. kl_active c \<and> List.member ks (kl_id c)) (so_classes db)"

definition active_subjects :: "structure_db \<Rightarrow> string list \<Rightarrow> subject_row list" where
  "active_subjects db ks = filter (\<lambda>s. ju_active s \<and> List.member ks (ju_id s)) (so_subjects db)"

definition unknown_class :: http_error where
  "unknown_class = BadRequest ''Teacher scope contains an unknown or inactive class''"

definition unknown_subject :: http_error where
  "unknown_subject = BadRequest ''Teacher scope contains an unknown or inactive subject''"

definition linkTeacherToClasses :: "string \<Rightarrow> string list \<Rightarrow> structure_db \<Rightarrow> string list result \<times> structure_db" where
  "linkTeacherToClasses teacherId ks db = (case academic_roles (structure_env db) teacherId of
      Inl e \<Rightarrow> (Inl e, db)
    | Inr roles \<Rightarrow>
        if \<not> List.member roles ''class_teacher'' \<and> \<not> List.member roles ''subject_teacher''
          then (Inl (BadRequest ''Only class_teacher or subject_teacher can be assigned classes''), db)
        else if ks \<noteq> [] \<and> length (active_classes db ks) \<noteq> length (js_uniq ks) then (Inl unknown_class, db)
        else (Inr (js_uniq ks), dropped [] (map_scope (class_teacher_links_update (reconcile teacherId ks)) db)))"

definition linkTeacherToSubjects :: "string \<Rightarrow> string list \<Rightarrow> structure_db \<Rightarrow> string list result \<times> structure_db" where
  "linkTeacherToSubjects teacherId ks db = (case academic_roles (structure_env db) teacherId of
      Inl e \<Rightarrow> (Inl e, db)
    | Inr roles \<Rightarrow>
        if \<not> List.member roles ''subject_teacher''
          then (Inl (BadRequest ''Only subject_teacher can be assigned subjects''), db)
        else if ks \<noteq> [] \<and> length (active_subjects db ks) \<noteq> length (js_uniq ks) then (Inl unknown_subject, db)
        else (Inr (js_uniq ks), dropped [] (map_scope (subject_links_update (reconcile teacherId ks)) db)))"

text \<open>\<open>linkTeacherScope\<close>: one transaction, so a refusal leaves nothing.  A JSON value that is no array fails only where it
  is asked for a role.\<close>

definition scope_roles_check :: "json_column option \<Rightarrow> string list \<Rightarrow> string list \<Rightarrow> unit result" where
  "scope_roles_check col cs ss = (case col of
      None \<Rightarrow> Inl (BadRequest ''Teacher not found'')
    | Some JOther \<Rightarrow> if cs = [] \<and> ss = [] then Inr () else Inl DbError
    | Some c \<Rightarrow> bind_result (parse_roles c) (\<lambda>roles.
        if cs \<noteq> [] \<and> \<not> List.member roles ''class_teacher'' \<and> \<not> List.member roles ''subject_teacher'' \<or>
           ss \<noteq> [] \<and> \<not> List.member roles ''subject_teacher''
        then Inl (BadRequest ''Teacher roles do not permit the requested class or subject scope'')
        else Inr ()))"

definition scope_classes_check :: "structure_db \<Rightarrow> string list \<Rightarrow> string list \<Rightarrow> unit result" where
  "scope_classes_check db cs levels = (if cs = [] then Inr ()
     else let rows = active_classes db cs in
       if length rows \<noteq> length cs then Inl unknown_class
       else if levels \<noteq> [] \<and> list_ex (\<lambda>c. \<not> List.member levels (toLowerCase (kl_level c))) rows
         then Inl (BadRequest ''Selected classes do not match the selected school levels'')
       else Inr ())"

definition scope_subjects_check :: "structure_db \<Rightarrow> string list \<Rightarrow> string list \<Rightarrow> unit result" where
  "scope_subjects_check db ss levels = (if ss = [] then Inr ()
     else let rows = active_subjects db ss; older = List.member levels ''jss'' \<or> List.member levels ''sss'' in
       if length rows \<noteq> length ss then Inl unknown_subject
       else if levels \<noteq> [] \<and> list_ex (\<lambda>s. let level = toLowerCase (ju_level s) in
           \<not> List.member levels level \<and> \<not> older \<and> \<not> (level = ''secondary'' \<and> list_ex (\<lambda>v. v = ''jss'' \<or> v = ''sss'') levels)) rows
         then Inl (BadRequest ''Selected subjects do not match the selected school levels'')
       else Inr ())"

definition replace_links :: "string \<Rightarrow> string list \<Rightarrow> (string \<times> string) list \<Rightarrow> (string \<times> string) list" where
  "replace_links k wanted links = tdelete (\<lambda>l. fst l = k) links @ map (Pair k) wanted"

definition linkTeacherScope :: "string \<Rightarrow> string list \<Rightarrow> string list \<Rightarrow> string list \<Rightarrow> structure_db \<Rightarrow>
    (string list \<times> string list \<times> string list) result \<times> structure_db" where
  "linkTeacherScope teacherId class_ids subject_ids schoolLevels db =
     (let cs = js_uniq class_ids; ss = js_uniq subject_ids; levels = js_uniq (map toLowerCase schoolLevels);
          checks = and_then (scope_roles_check (user_roles (env_scope (so_env db)) teacherId) cs ss)
            (and_then (scope_classes_check db cs levels) (scope_subjects_check db ss levels))
      in case checks of
           Inl e \<Rightarrow> (Inl e, db)
         | Inr _ \<Rightarrow> (Inr (cs, ss, levels), dropped [] (map_scope
             (subject_links_update (replace_links teacherId ss) \<circ> class_teacher_links_update (replace_links teacherId cs)) db)))"

text \<open>The roles of the pupils are checked one by one.\<close>

primrec all_students :: "school_env \<Rightarrow> string list \<Rightarrow> unit result" where
  "all_students env [] = Inr ()"
| "all_students env (s # ss) = bind_result (academic_roles env s) (\<lambda>roles.
     if List.member roles ''student'' then all_students env ss
     else Inl (BadRequest (''User '' @ s @ '' is not a student'')))"

definition linkParentToStudents :: "string \<Rightarrow> string list \<Rightarrow> structure_db \<Rightarrow> string list result \<times> structure_db" where
  "linkParentToStudents parentId ks db = (case academic_roles (structure_env db) parentId of
      Inl e \<Rightarrow> (Inl e, db)
    | Inr roles \<Rightarrow>
        if \<not> List.member roles ''parent'' then (Inl (BadRequest ''Provided parentId does not belong to a parent user''), db)
        else (case all_students (structure_env db) ks of
            Inl e \<Rightarrow> (Inl e, db)
          | Inr _ \<Rightarrow> (Inr (js_uniq ks), map_scope (parent_links_update (reconcile parentId ks)) db)))"

definition getTeacherLinks :: "string \<Rightarrow> structure_db \<Rightarrow> string list \<times> string list" where
  "getTeacherLinks teacherId db = (targets teacherId (class_teacher_links (env_scope (so_env db))),
     targets teacherId (subject_links (env_scope (so_env db))))"

definition getParentLinks :: "string \<Rightarrow> structure_db \<Rightarrow> string list" where
  "getParentLinks parentId db = targets parentId (parent_links (env_scope (so_env db)))"

text \<open>Pupils without a row in \<open>users\<close> come last.\<close>

definition getClassEnrollments :: "string \<Rightarrow> string option \<Rightarrow> structure_db \<Rightarrow> (string \<times> string option) list result" where
  "getClassEnrollments k actor db = bind_result (assertActorSchoolLevel (structure_env db) actor (Some k) None) (\<lambda>_.
     let rows = map (\<lambda>s. (s, env_names (so_env db) s)) (targets k (swap_links (enrollments (env_scope (so_env db)))))
     in Inr (sort_key (\<lambda>p. the (snd p)) (filter (\<lambda>p. snd p \<noteq> None) rows) @ filter (\<lambda>p. snd p = None) rows))"

definition enrollStudentsInClass :: "string \<Rightarrow> string list \<Rightarrow> string option \<Rightarrow> structure_db \<Rightarrow> string list result \<times> structure_db" where
  "enrollStudentsInClass k ks actor db = (case assertActorSchoolLevel (structure_env db) actor (Some k) None of
      Inl e \<Rightarrow> (Inl e, db)
    | Inr _ \<Rightarrow>
        if tfind kl_id k (so_classes db) = None then (Inl (NotFound ''Class not found''), db)
        else (case all_students (structure_env db) ks of
            Inl e \<Rightarrow> (Inl e, db)
          | Inr _ \<Rightarrow> (Inr (js_uniq ks), map_scope (update_pupils (reconcile k ks)) db)))"

record promote_body =
  pb_student :: string
  pb_class :: string
  pb_session :: "string option"
  pb_by :: "string option"
  pb_notes :: "string option"

text \<open>The class of the newest enrolment; enrolments stand in the order of their creation.\<close>

definition current_class :: "string \<Rightarrow> structure_db \<Rightarrow> string option" where
  "current_class s db = (case targets s (enrollments (env_scope (so_env db))) of [] \<Rightarrow> None | cs \<Rightarrow> or_null (Some (last cs)))"

definition enroll_only :: "string \<Rightarrow> string \<Rightarrow> scope_db \<Rightarrow> scope_db" where
  "enroll_only s k = enrollments_update (\<lambda>es. insert_missing s [k] (tdelete (\<lambda>e. fst e = s) es))"

text \<open>Two identifiers are drawn; a row of the promotion stays when the row of the history cannot be written.\<close>

definition promoteStudent :: "string \<Rightarrow> string \<Rightarrow> promote_body \<Rightarrow> structure_db \<Rightarrow> (string \<times> string option) result \<times> structure_db" where
  "promoteStudent fresh fresh2 b db =
     (if \<not> list_ex (\<lambda>c. kl_id c = pb_class b \<and> kl_active c) (so_classes db) then (Inl (NotFound ''Target class not found''), db)
      else let current = current_class (pb_student b) db;
               row = \<lparr>pm_id = fresh, pm_student = pb_student b, pm_from = current, pm_class = pb_class b,
                 pm_session = or_null (pb_session b), pm_by = or_null (pb_by b), pm_notes = or_null (pb_notes b)\<rparr>;
               event = \<lparr>hi_id = fresh2, hi_student = pb_student b, hi_session = or_null (pb_session b), hi_class = pb_class b,
                 hi_from = current, hi_by = or_null (pb_by b)\<rparr>
           in if \<not> (width_of 64 (Some (pb_student b)) \<and> width_of 64 (pb_session b) \<and> width_of 64 (pb_by b)) then (Inl DbError, db)
              else (case tinsert pm_id row (so_promotions db) of
                  None \<Rightarrow> (Inl DbError, db)
                | Some ps \<Rightarrow>
                    (let db1 = db\<lparr>so_promotions := ps\<rparr> in case tinsert hi_id event (so_history db1) of
                        None \<Rightarrow> (Inl DbError, db1)
                      | Some hs \<Rightarrow> (Inr (fresh, current), map_scope (enroll_only (pb_student b) (pb_class b)) (db1\<lparr>so_history := hs\<rparr>)))))"

definition getStudentHistory :: "string \<Rightarrow> structure_db \<Rightarrow> history_row list \<times> promotion_row list" where
  "getStudentHistory s db = (filter (\<lambda>h. hi_student h = s) (so_history db), filter (\<lambda>p. pm_student p = s) (so_promotions db))"

subsection \<open>Requests\<close>

datatype structure_request =
    UpsertClass string "string option" class_body
  | DeleteClass string
  | UpsertSubject string "string option" subject_body
  | DeleteSubject string
  | CreateCategory string string string
  | RepairStructure "nat \<Rightarrow> string"
  | TeacherClasses string "string list"
  | TeacherSubjects string "string list"
  | TeacherScopeOf string "string list" "string list" "string list"
  | ParentStudents string "string list"
  | EnrollStudents string "string list" "string option"
  | PromoteStudent string string promote_body

datatype structure_reply =
    Row "string result"
  | Links "string list result"
  | Scope "(string list \<times> string list \<times> string list) result"
  | Category "category_row result"
  | Status "structure_status result"
  | Promoted "(string \<times> string option) result"

fun structure_step :: "structure_request \<Rightarrow> structure_db \<Rightarrow> structure_reply \<times> structure_db" where
  "structure_step (UpsertClass f k b) db = map_prod Row id (upsertClass f k b db)"
| "structure_step (DeleteClass k) db = map_prod Row id (deleteClass k db)"
| "structure_step (UpsertSubject f k b) db = map_prod Row id (upsertSubject f k b db)"
| "structure_step (DeleteSubject k) db = map_prod Row id (deleteSubject k db)"
| "structure_step (CreateCategory f n sl) db = map_prod Category id (createSubjectCategory f n sl db)"
| "structure_step (RepairStructure f) db = map_prod Status id (repairDefaultStructure f db)"
| "structure_step (TeacherClasses t ks) db = map_prod Links id (linkTeacherToClasses t ks db)"
| "structure_step (TeacherSubjects t ks) db = map_prod Links id (linkTeacherToSubjects t ks db)"
| "structure_step (TeacherScopeOf t cs ss ls) db = map_prod Scope id (linkTeacherScope t cs ss ls db)"
| "structure_step (ParentStudents p ks) db = map_prod Links id (linkParentToStudents p ks db)"
| "structure_step (EnrollStudents k ks a) db = map_prod Links id (enrollStudentsInClass k ks a db)"
| "structure_step (PromoteStudent f g b) db = map_prod Promoted id (promoteStudent f g b db)"

subsection \<open>Facts\<close>

lemma map_scope_simps [simp]:
  "env_scope (so_env (map_scope f db)) = f (env_scope (so_env db))" "so_classes (map_scope f db) = so_classes db"
  "so_subjects (map_scope f db) = so_subjects db" "so_promotions (map_scope f db) = so_promotions db"
  "so_history (map_scope f db) = so_history db" "so_categories (map_scope f db) = so_categories db"
  "env_names (so_env (map_scope f db)) = env_names (so_env db)" "so_dropped (map_scope f db) = so_dropped db"
  by (simp_all add: map_scope_def)

text \<open>As many rows as wanted identifiers: every one of them exists.\<close>

lemma rows_cover:
  assumes "length (filter (\<lambda>c. p c \<and> List.member ks (key c)) rows) = length (js_uniq ks)" and "pk key rows"
  shows "set ks \<subseteq> key ` {c \<in> set rows. p c}"
proof -
  let ?rows = "filter (\<lambda>c. p c \<and> List.member ks (key c)) rows"
  have "distinct (map key ?rows)" using assms(2) by (simp add: pk_def distinct_map_filter)
  then have "card (key ` set ?rows) = card (set ks)" using assms(1) distinct_card [of "map key ?rows"] by (simp add: length_js_uniq)
  moreover have "key ` set ?rows \<subseteq> set ks" by auto
  ultimately have "key ` set ?rows = set ks" by (simp add: card_subset_eq)
  then show ?thesis by auto
qed

text \<open>No row of the catalogue stands twice.\<close>

definition rows_sound :: "class_row list \<Rightarrow> subject_row list \<Rightarrow> bool" where
  "rows_sound cs ss = (pk kl_id cs \<and> pk ju_id ss)"

lemma classes_cover:
  assumes "ks \<noteq> [] \<longrightarrow> length (active_classes db ks) = length (js_uniq ks)" and "rows_sound (so_classes db) (so_subjects db)"
  shows "set ks \<subseteq> kl_id ` {c \<in> set (so_classes db). kl_active c}"
  using rows_cover [of kl_active ks kl_id "so_classes db"] assms by (cases "ks = []") (simp_all add: active_classes_def rows_sound_def)

lemma subjects_cover:
  assumes "ks \<noteq> [] \<longrightarrow> length (active_subjects db ks) = length (js_uniq ks)" and "rows_sound (so_classes db) (so_subjects db)"
  shows "set ks \<subseteq> ju_id ` {s \<in> set (so_subjects db). ju_active s}"
  using rows_cover [of ju_active ks ju_id "so_subjects db"] assms by (cases "ks = []") (simp_all add: active_subjects_def rows_sound_def)

lemma replace_links_set: "(j, t) \<in> set (replace_links k wanted links) \<longleftrightarrow> (if j = k then t \<in> set wanted else (j, t) \<in> set links)"
  by (auto simp: replace_links_def set_tdelete)

lemma distinct_replace_links: "distinct links \<Longrightarrow> distinct wanted \<Longrightarrow> distinct (replace_links k wanted links)"
  by (auto simp: replace_links_def tdelete_def distinct_map inj_on_def)

subsection \<open>Links are sound\<close>

text \<open>No link stands twice, and every link to a class or a subject is to one that exists.\<close>

definition scope_sound :: "string set \<Rightarrow> string set \<Rightarrow> scope_db \<Rightarrow> bool" where
  "scope_sound cs ss sc = (distinct (class_teacher_links sc) \<and> distinct (subject_links sc) \<and> distinct (parent_links sc) \<and>
     distinct (enrollments sc) \<and> snd ` set (class_teacher_links sc) \<subseteq> cs \<and> snd ` set (subject_links sc) \<subseteq> ss \<and>
     snd ` set (enrollments sc) \<subseteq> cs)"

definition links_sound :: "structure_db \<Rightarrow> bool" where
  "links_sound db = (rows_sound (so_classes db) (so_subjects db) \<and>
     scope_sound (kl_id ` set (so_classes db)) (ju_id ` set (so_subjects db)) (env_scope (so_env db)))"

lemma scope_sound_mono: "scope_sound cs ss sc \<Longrightarrow> cs \<subseteq> cs' \<Longrightarrow> ss \<subseteq> ss' \<Longrightarrow> scope_sound cs' ss' sc"
  unfolding scope_sound_def by blast

text \<open>The catalogue only grows: a step that keeps the links and the identifiers keeps the invariant.\<close>

lemma catalogue_sound:
  assumes "links_sound db" and "so_env db' = so_env db" and "rows_sound (so_classes db') (so_subjects db')"
    and "kl_id ` set (so_classes db) \<subseteq> kl_id ` set (so_classes db')" "ju_id ` set (so_subjects db) \<subseteq> ju_id ` set (so_subjects db')"
  shows "links_sound db'"
  using assms scope_sound_mono unfolding links_sound_def by metis

lemma insert_class_sound: "links_sound db \<Longrightarrow> insert_class c db = Some db' \<Longrightarrow> links_sound db'"
  by (rule catalogue_sound [of db])
    (auto simp: insert_class_def links_sound_def rows_sound_def pk_append dest!: tinsert_SomeD split: if_splits)

lemma insert_subject_sound: "links_sound db \<Longrightarrow> insert_subject c db = Some db' \<Longrightarrow> links_sound db'"
  by (rule catalogue_sound [of db])
    (auto simp: insert_subject_def links_sound_def rows_sound_def pk_append dest!: tinsert_SomeD split: if_splits)

lemma dropped_sound [simp]: "links_sound (dropped p db) = links_sound db"
  by (simp add: links_sound_def)

lemma classes_update_sound:
  assumes "links_sound db" and "\<And>c. kl_id (f c) = kl_id c"
  shows "links_sound (db\<lparr>so_classes := tupdate p f (so_classes db)\<rparr>)"
proof -
  have ids: "map kl_id (tupdate p f (so_classes db)) = map kl_id (so_classes db)" using assms(2) by (simp add: map_key_tupdate)
  then have "kl_id ` set (tupdate p f (so_classes db)) = kl_id ` set (so_classes db)" by (metis set_map)
  with ids show ?thesis using assms(1) by (simp add: links_sound_def rows_sound_def pk_def)
qed

lemma subjects_update_sound:
  assumes "links_sound db" and "\<And>c. ju_id (f c) = ju_id c"
  shows "links_sound (db\<lparr>so_subjects := tupdate p f (so_subjects db)\<rparr>)"
proof -
  have ids: "map ju_id (tupdate p f (so_subjects db)) = map ju_id (so_subjects db)" using assms(2) by (simp add: map_key_tupdate)
  then have "ju_id ` set (tupdate p f (so_subjects db)) = ju_id ` set (so_subjects db)" by (metis set_map)
  with ids show ?thesis using assms(1) by (simp add: links_sound_def rows_sound_def pk_def)
qed

lemma categories_sound [simp]: "links_sound (db\<lparr>so_categories := t\<rparr>) = links_sound db"
  by (simp add: links_sound_def)

lemma put_all_sound:
  assumes "\<And>x c db db'. links_sound db \<Longrightarrow> f x c db = Some db' \<Longrightarrow> links_sound db'"
  shows "links_sound db \<Longrightarrow> links_sound (snd (put_all f xs db))"
  by (induction xs arbitrary: db) (auto split: option.split dest: assms)

lemma repair_sound:
  assumes "links_sound db"
  shows "links_sound (snd (repairDefaultStructure fresh db))"
proof -
  let ?cats = "zip (map fresh [0..<length DEFAULT_CATEGORIES]) DEFAULT_CATEGORIES"
  let ?cls = "zip (map fresh [length DEFAULT_CATEGORIES..<length DEFAULT_CATEGORIES + length DEFAULT_CLASSES]) DEFAULT_CLASSES"
  have category: "links_sound db \<Longrightarrow> put_default_category x c db = Some db' \<Longrightarrow> links_sound db'" for x c db db'
    by (auto simp: put_default_category_def split: prod.splits if_splits)
  have cls: "links_sound db \<Longrightarrow> put_default_class x c db = Some db' \<Longrightarrow> links_sound db'" for x c db db'
    by (auto simp: put_default_class_def classes_update_sound insert_class_sound split: prod.splits if_splits)
  obtain u db1 where cats: "put_all put_default_category ?cats db = (u, db1)" by (rule prod.exhaust)
  obtain v db2 where cl: "put_all put_default_class ?cls db1 = (v, db2)" by (rule prod.exhaust)
  have "links_sound (snd (put_all put_default_category ?cats db))" by (rule put_all_sound) (erule (1) category, rule assms)
  then have "links_sound db1" by (simp add: cats)
  have "links_sound (snd (put_all put_default_class ?cls db1))" by (rule put_all_sound) (erule (1) cls, rule \<open>links_sound db1\<close>)
  then have "links_sound db2" by (simp add: cl)
  with \<open>links_sound db1\<close> show ?thesis by (simp add: repairDefaultStructure_def cats cl split: sum.split)
qed

lemma upsert_sound:
  assumes "links_sound db"
  shows "links_sound (snd (upsertClass fresh k b db))" "links_sound (snd (upsertSubject fresh j a db))"
proof -
  have "links_sound (db\<lparr>so_classes := tmodify kl_id (the k) (\<lambda>_. merge_class b c) (so_classes db)\<rparr>)"
    if "tfind kl_id (the k) (so_classes db) = Some c" for c
  proof -
    have "tmodify kl_id (the k) (\<lambda>_. merge_class b c) (so_classes db) =
        tupdate (\<lambda>x. kl_id x = the k) (\<lambda>x. (merge_class b c)\<lparr>kl_id := kl_id x\<rparr>) (so_classes db)"
      using tfind_SomeD [OF that] by (auto simp: tmodify_def tupdate_def merge_class_def)
    then show ?thesis using classes_update_sound [OF assms, of "\<lambda>x. (merge_class b c)\<lparr>kl_id := kl_id x\<rparr>"] by simp
  qed
  with assms show "links_sound (snd (upsertClass fresh k b db))"
    by (auto simp: upsertClass_def dest: insert_class_sound split: option.split)
  have "links_sound (db\<lparr>so_subjects := tmodify ju_id (the j) (\<lambda>_. merge_subject a s) (so_subjects db)\<rparr>)"
    if "tfind ju_id (the j) (so_subjects db) = Some s" for s
  proof -
    have "tmodify ju_id (the j) (\<lambda>_. merge_subject a s) (so_subjects db) =
        tupdate (\<lambda>x. ju_id x = the j) (\<lambda>x. (merge_subject a s)\<lparr>ju_id := ju_id x\<rparr>) (so_subjects db)"
      using tfind_SomeD [OF that] by (auto simp: tmodify_def tupdate_def merge_subject_def)
    then show ?thesis using subjects_update_sound [OF assms, of "\<lambda>x. (merge_subject a s)\<lparr>ju_id := ju_id x\<rparr>"] by simp
  qed
  with assms show "links_sound (snd (upsertSubject fresh j a db))"
    by (auto simp: upsertSubject_def dest: insert_subject_sound split: option.split)
qed

text \<open>A change of the links alone.\<close>

lemma map_scope_sound:
  assumes "links_sound db" and "scope_sound (kl_id ` set (so_classes db)) (ju_id ` set (so_subjects db)) (f (env_scope (so_env db)))"
  shows "links_sound (map_scope f db)"
  using assms by (simp add: links_sound_def)

lemma reconcile_snd: "snd ` set (reconcile k wanted links) \<subseteq> set wanted \<union> snd ` set links"
  by (auto simp: reconcile_links split: if_splits)

lemma replace_snd: "snd ` set (replace_links k wanted links) \<subseteq> set wanted \<union> snd ` set links"
  by (auto simp: replace_links_set split: if_splits)

text \<open>What each table of links may become.\<close>

lemma class_links_sound:
  assumes "scope_sound C S sc" and "distinct (f (class_teacher_links sc))" and "snd ` set (f (class_teacher_links sc)) \<subseteq> C"
  shows "scope_sound C S (class_teacher_links_update f sc)"
  using assms by (simp add: scope_sound_def)

lemma subject_links_sound:
  assumes "scope_sound C S sc" and "distinct (f (subject_links sc))" and "snd ` set (f (subject_links sc)) \<subseteq> S"
  shows "scope_sound C S (subject_links_update f sc)"
  using assms by (simp add: scope_sound_def)

lemma enrolments_sound:
  assumes "scope_sound C S sc" and "distinct (f (enrollments sc))" and "snd ` set (f (enrollments sc)) \<subseteq> C"
  shows "scope_sound C S (enrollments_update f sc)"
  using assms by (simp add: scope_sound_def)

lemma scope_soundD:
  assumes "scope_sound C S sc"
  shows "distinct (class_teacher_links sc)" "distinct (subject_links sc)" "distinct (parent_links sc)" "distinct (enrollments sc)"
    "snd ` set (class_teacher_links sc) \<subseteq> C" "snd ` set (subject_links sc) \<subseteq> S" "snd ` set (enrollments sc) \<subseteq> C"
  using assms by (simp_all add: scope_sound_def)

lemma links_soundD:
  assumes "links_sound db"
  shows "rows_sound (so_classes db) (so_subjects db)"
    "scope_sound (kl_id ` set (so_classes db)) (ju_id ` set (so_subjects db)) (env_scope (so_env db))"
  using assms by (simp_all add: links_sound_def)

lemma snd_subset: "snd ` A \<subseteq> B \<union> snd ` D \<Longrightarrow> B \<subseteq> C \<Longrightarrow> snd ` D \<subseteq> C \<Longrightarrow> snd ` A \<subseteq> C"
  by blast

lemma teacher_classes_sound:
  assumes ok: "links_sound db"
  shows "links_sound (snd (linkTeacherToClasses t ks db))"
proof -
  note sc = links_soundD [OF ok]
  have "links_sound (map_scope (class_teacher_links_update (reconcile t ks)) db)"
    if "ks \<noteq> [] \<longrightarrow> length (active_classes db ks) = length (js_uniq ks)"
  proof (rule map_scope_sound [OF ok], rule class_links_sound [OF sc(2)])
    have "set ks \<subseteq> kl_id ` set (so_classes db)" using classes_cover [OF that sc(1)] by blast
    then show "snd ` set (reconcile t ks (class_teacher_links (env_scope (so_env db)))) \<subseteq> kl_id ` set (so_classes db)"
      by (rule snd_subset [OF reconcile_snd _ scope_soundD(5) [OF sc(2)]])
  qed (rule distinct_reconcile, rule scope_soundD [OF sc(2)])
  with ok show ?thesis by (simp add: linkTeacherToClasses_def split: sum.split) blast
qed

lemma teacher_subjects_sound:
  assumes ok: "links_sound db"
  shows "links_sound (snd (linkTeacherToSubjects t ks db))"
proof -
  note sc = links_soundD [OF ok]
  have "links_sound (map_scope (subject_links_update (reconcile t ks)) db)"
    if "ks \<noteq> [] \<longrightarrow> length (active_subjects db ks) = length (js_uniq ks)"
  proof (rule map_scope_sound [OF ok], rule subject_links_sound [OF sc(2)])
    have "set ks \<subseteq> ju_id ` set (so_subjects db)" using subjects_cover [OF that sc(1)] by blast
    then show "snd ` set (reconcile t ks (subject_links (env_scope (so_env db)))) \<subseteq> ju_id ` set (so_subjects db)"
      by (rule snd_subset [OF reconcile_snd _ scope_soundD(6) [OF sc(2)]])
  qed (rule distinct_reconcile, rule scope_soundD [OF sc(2)])
  with ok show ?thesis by (simp add: linkTeacherToSubjects_def split: sum.split) blast
qed

lemma scope_classes_checked:
  assumes "scope_classes_check db cs levels = Inr u" and "distinct cs" and "rows_sound (so_classes db) (so_subjects db)"
  shows "set cs \<subseteq> kl_id ` {c \<in> set (so_classes db). kl_active c}"
  by (rule classes_cover [OF _ assms(3)]) (use assms(1,2) in \<open>simp add: scope_classes_check_def Let_def js_uniq_id split: if_splits\<close>)

lemma scope_subjects_checked:
  assumes "scope_subjects_check db ss levels = Inr u" and "distinct ss" and "rows_sound (so_classes db) (so_subjects db)"
  shows "set ss \<subseteq> ju_id ` {s \<in> set (so_subjects db). ju_active s}"
  by (rule subjects_cover [OF _ assms(3)]) (use assms(1,2) in \<open>simp add: scope_subjects_check_def Let_def js_uniq_id split: if_splits\<close>)

lemma teacher_scope_sound:
  assumes ok: "links_sound db"
  shows "links_sound (snd (linkTeacherScope t class_ids subject_ids levels db))"
proof -
  let ?cs = "js_uniq class_ids" and ?ss = "js_uniq subject_ids" and ?ls = "js_uniq (map toLowerCase levels)"
  let ?C = "kl_id ` set (so_classes db)" and ?S = "ju_id ` set (so_subjects db)" and ?sc = "env_scope (so_env db)"
  note sc = links_soundD [OF ok]
  have "links_sound (map_scope (subject_links_update (replace_links t ?ss) \<circ> class_teacher_links_update (replace_links t ?cs)) db)"
    if "scope_classes_check db ?cs ?ls = Inr u" "scope_subjects_check db ?ss ?ls = Inr v" for u v
  proof (rule map_scope_sound [OF ok])
    have C: "set ?cs \<subseteq> ?C" using scope_classes_checked [OF that(1) distinct_js_uniq sc(1)] by blast
    have S: "set ?ss \<subseteq> ?S" using scope_subjects_checked [OF that(2) distinct_js_uniq sc(1)] by blast
    have cl: "scope_sound ?C ?S (class_teacher_links_update (replace_links t ?cs) ?sc)"
    proof (rule class_links_sound [OF sc(2)])
      show "snd ` set (replace_links t ?cs (class_teacher_links ?sc)) \<subseteq> ?C" by (rule snd_subset [OF replace_snd C scope_soundD(5) [OF sc(2)]])
    qed (rule distinct_replace_links [OF scope_soundD(1) [OF sc(2)] distinct_js_uniq])
    have "scope_sound ?C ?S (subject_links_update (replace_links t ?ss) (class_teacher_links_update (replace_links t ?cs) ?sc))"
    proof (rule subject_links_sound [OF cl])
      let ?links = "subject_links (class_teacher_links_update (replace_links t ?cs) ?sc)"
      show "snd ` set (replace_links t ?ss ?links) \<subseteq> ?S" by (rule snd_subset [OF replace_snd S scope_soundD(6) [OF cl]])
    qed (rule distinct_replace_links [OF scope_soundD(2) [OF cl] distinct_js_uniq])
    then show "scope_sound ?C ?S ((subject_links_update (replace_links t ?ss) \<circ> class_teacher_links_update (replace_links t ?cs)) ?sc)"
      by simp
  qed
  with ok show ?thesis by (simp add: linkTeacherScope_def Let_def and_then_def split: sum.split)
qed

lemma parent_links_sound:
  assumes ok: "links_sound db"
  shows "links_sound (snd (linkParentToStudents p ks db))"
proof -
  have "links_sound (map_scope (parent_links_update (reconcile p ks)) db)"
    by (rule map_scope_sound [OF ok]) (use links_soundD(2) [OF ok] in \<open>simp add: scope_sound_def distinct_reconcile\<close>)
  with ok show ?thesis by (simp add: linkParentToStudents_def split: sum.split)
qed

lemma pupils_snd: "snd ` set (swap_links (reconcile k ks (swap_links es))) \<subseteq> insert k (snd ` set es)"
  by (auto simp: reconcile_links image_iff split: if_splits)

lemma enrol_sound:
  assumes ok: "links_sound db"
  shows "links_sound (snd (enrollStudentsInClass k ks a db))"
proof -
  note sc = links_soundD(2) [OF ok]
  have "links_sound (map_scope (update_pupils (reconcile k ks)) db)" if "k \<in> kl_id ` set (so_classes db)"
    unfolding update_pupils_def
  proof (rule map_scope_sound [OF ok], rule enrolments_sound [OF sc])
    show "snd ` set ((swap_links \<circ> reconcile k ks \<circ> swap_links) (enrollments (env_scope (so_env db)))) \<subseteq> kl_id ` set (so_classes db)"
      using pupils_snd [of k ks "enrollments (env_scope (so_env db))"] scope_soundD(7) [OF sc] that unfolding comp_def by blast
    show "distinct ((swap_links \<circ> reconcile k ks \<circ> swap_links) (enrollments (env_scope (so_env db))))"
      by (simp add: distinct_reconcile scope_soundD(4) [OF sc])
  qed
  with ok show ?thesis by (simp add: enrollStudentsInClass_def tfind_None_iff split: sum.split)
qed

lemma promote_sound:
  assumes ok: "links_sound db"
  shows "links_sound (snd (promoteStudent f g b db))"
proof -
  let ?db = "\<lambda>ps hs. db\<lparr>so_promotions := ps, so_history := hs\<rparr>"
  note sc = links_soundD(2) [OF ok]
  have move: "scope_sound C S (enroll_only st k x)" if "scope_sound C S x" "k \<in> C" for C S st k x
    unfolding enroll_only_def
  proof (rule enrolments_sound [OF that(1)])
    show "snd ` set (insert_missing st [k] (tdelete (\<lambda>e. fst e = st) (enrollments x))) \<subseteq> C"
      using scope_soundD(7) [OF that(1)] that(2) by (fastforce simp: set_insert_missing set_tdelete)
    show "distinct (insert_missing st [k] (tdelete (\<lambda>e. fst e = st) (enrollments x)))"
      by (rule distinct_insert_missing) (simp add: tdelete_def scope_soundD(4) [OF that(1)])
  qed
  have "links_sound (map_scope (enroll_only (pb_student b) (pb_class b)) (?db ps hs))"
    if "c \<in> set (so_classes db)" "kl_id c = pb_class b" for ps hs c
  proof (rule map_scope_sound)
    have "pb_class b \<in> kl_id ` set (so_classes db)" using that by force
    then show "scope_sound (kl_id ` set (so_classes (?db ps hs))) (ju_id ` set (so_subjects (?db ps hs)))
        (enroll_only (pb_student b) (pb_class b) (env_scope (so_env (?db ps hs))))" by (simp add: move [OF sc])
  qed (use ok in \<open>simp add: links_sound_def\<close>)
  moreover have "links_sound (db\<lparr>so_promotions := ps\<rparr>)" for ps using ok by (simp add: links_sound_def)
  ultimately show ?thesis using ok by (auto simp: promoteStudent_def Let_def list_ex_iff split: option.split)
qed

lemma delete_sound: "links_sound db \<Longrightarrow> links_sound (snd (deleteClass k db))" "links_sound db \<Longrightarrow> links_sound (snd (deleteSubject k db))"
  by (simp_all add: deleteClass_def deleteSubject_def tmodify_def classes_update_sound subjects_update_sound)

lemma category_sound: "links_sound db \<Longrightarrow> links_sound (snd (createSubjectCategory f n sl db))"
  by (auto simp: createSubjectCategory_def Let_def split: option.split)

lemmas step_sound = upsert_sound delete_sound category_sound repair_sound teacher_classes_sound teacher_subjects_sound
  teacher_scope_sound parent_links_sound enrol_sound promote_sound

interpretation school: invariant_machine structure_step links_sound
proof
  fix db q
  assume "links_sound db"
  then show "links_sound (snd (structure_step q db))" by (cases q) (simp_all add: step_sound)
qed

subsection \<open>Properties\<close>

text \<open>A school whose users are known and whose catalogue is empty.\<close>

definition new_structure :: "school_env \<Rightarrow> structure_db" where
  "new_structure env = \<lparr>so_env = env\<lparr>env_scope := (env_scope env)\<lparr>parent_links := [], enrollments := [], class_teacher_links := [], subject_links := []\<rparr>\<rparr>,
     so_classes = [], so_subjects = [], so_categories = [], so_results = [], so_promotions = [], so_history = [], so_dropped = []\<rparr>"

lemma new_structure_sound: "links_sound (new_structure env)"
  by (simp add: links_sound_def rows_sound_def scope_sound_def new_structure_def)


text \<open>What an assignment of a teacher writes.\<close>

lemma linkTeacherScope_Inr:
  assumes "linkTeacherScope t cs ss levels db = (Inr x, db')"
  shows "so_classes db' = so_classes db" "so_subjects db' = so_subjects db"
    "user_roles (env_scope (so_env db')) = user_roles (env_scope (so_env db))"
    "class_links.linked (env_scope (so_env db')) j = (if j = t then set cs else class_links.linked (env_scope (so_env db)) j)"
    "subj_links.linked (env_scope (so_env db')) j = (if j = t then set ss else subj_links.linked (env_scope (so_env db)) j)"
  using assms
  by (auto simp: linkTeacherScope_def Let_def class_links.linked_def subj_links.linked_def replace_links_set split: sum.splits if_splits)


definition sample_school :: structure_db where
  "sample_school = sample_structure\<lparr>so_env := (so_env sample_structure)\<lparr>env_scope := (env_scope (so_env sample_structure))\<lparr>
     user_roles := [''t'' \<mapsto> JArray [''subject_teacher''], ''s'' \<mapsto> JArray [''student''], ''p'' \<mapsto> JArray [''parent'']],
     parent_links := [], enrollments := [], class_teacher_links := [], subject_links := []\<rparr>\<rparr>\<rparr>"


text \<open>A promotion moves the pupil: into the target class and out of every other, with the class left behind on record.\<close>

lemma promotion_moves_pupil:
  assumes "promoteStudent f g b db = (Inr x, db')"
  shows "targets (pb_student b) (enrollments (env_scope (so_env db'))) = [pb_class b]"
    "s \<noteq> pb_student b \<Longrightarrow> (s, k) \<in> set (enrollments (env_scope (so_env db'))) \<longleftrightarrow> (s, k) \<in> set (enrollments (env_scope (so_env db)))"
    "x = (f, current_class (pb_student b) db)"
    "\<exists>p. so_promotions db' = so_promotions db @ [p] \<and> pm_student p = pb_student b \<and> pm_from p = snd x \<and> pm_class p = pb_class b"
proof -
  have scope: "env_scope (so_env db') = enroll_only (pb_student b) (pb_class b) (env_scope (so_env db))"
    using assms by (auto simp: promoteStudent_def Let_def split: if_splits option.splits)
  have none: "filter (\<lambda>l. fst l = st) (filter (\<lambda>e. fst e \<noteq> st) es) = []" for st and es :: "(string \<times> string) list"
    by (rule filter_False) simp
  show "targets (pb_student b) (enrollments (env_scope (so_env db'))) = [pb_class b]"
    unfolding scope by (simp add: enroll_only_def targets_def insert_missing_def tdelete_def none js_uniq_def)
  show "s \<noteq> pb_student b \<Longrightarrow> (s, k) \<in> set (enrollments (env_scope (so_env db'))) \<longleftrightarrow> (s, k) \<in> set (enrollments (env_scope (so_env db)))"
    unfolding scope by (simp add: enroll_only_def set_insert_missing set_tdelete)
  show "x = (f, current_class (pb_student b) db)"
    using assms by (auto simp: promoteStudent_def Let_def split: if_splits option.splits)
  show "\<exists>p. so_promotions db' = so_promotions db @ [p] \<and> pm_student p = pb_student b \<and> pm_from p = snd x \<and> pm_class p = pb_class b"
    using assms by (auto simp: promoteStudent_def Let_def dest!: tinsert_SomeD split: if_splits option.splits)
qed

text \<open>An enrolment leaves exactly the pupils of the list in the class, each of them a student.\<close>

lemma all_students_roles: "all_students env ss = Inr u \<Longrightarrow> s \<in> set ss \<Longrightarrow> \<exists>roles. academic_roles env s = Inr roles \<and> ''student'' \<in> set roles"
  by (induction ss) (auto split: if_splits)

lemma enrolment_replaces_pupils:
  assumes "enrollStudentsInClass k ks a db = (Inr x, db')"
  shows "pupils.linked (env_scope (so_env db')) j = (if j = k then set ks else pupils.linked (env_scope (so_env db)) j)"
    "s \<in> set ks \<Longrightarrow> \<exists>roles. academic_roles (structure_env db) s = Inr roles \<and> ''student'' \<in> set roles"
proof -
  from assms obtain u where all: "all_students (structure_env db) ks = Inr u" and db': "db' = map_scope (update_pupils (reconcile k ks)) db"
    by (auto simp: enrollStudentsInClass_def split: sum.splits if_splits)
  show "pupils.linked (env_scope (so_env db')) j = (if j = k then set ks else pupils.linked (env_scope (so_env db)) j)"
    unfolding db' map_scope_simps by (rule pupils.linked_reconcile)
  show "s \<in> set ks \<Longrightarrow> \<exists>roles. academic_roles (structure_env db) s = Inr roles \<and> ''student'' \<in> set roles"
    by (rule all_students_roles [OF all])
qed

subsection \<open>What the code lets happen\<close>

text \<open>A promotion asks for no role: a user who is no pupil, or no user at all, is promoted into a class.\<close>

lemma anyone_is_promoted:
  "fst (promoteStudent ''x'' ''y'' \<lparr>pb_student = ''nobody'', pb_class = ''k'', pb_session = None, pb_by = None, pb_notes = None\<rparr> sample_school)
     = Inr (''x'', None)"
  by code_simp

text \<open>An archived class takes pupils (the capacity of a class is never read either), and the cached class list, which shows
  their number, is not dropped.\<close>

lemma archived_class_takes_pupils:
  "(let db = sample_school\<lparr>so_classes := [\<lparr>kl_id = ''k'', kl_name = ''SSS 1'', kl_code = ''SSS1'', kl_level = ''sss'', kl_teacher = None, kl_capacity = None,
       kl_active = False, kl_archived = True\<rparr>]\<rparr>; r = enrollStudentsInClass ''k'' [''s''] None db
    in (is_ok (fst r), enrollments (env_scope (so_env (snd r))), so_dropped (snd r))) = (True, [(''s'', ''k'')], [])"
  by code_simp

text \<open>With \<open>jss\<close> among the selected levels a subject of any level passes, one of the nursery too.\<close>

lemma any_subject_fits_jss:
  "is_ok (scope_subjects_check (sample_school\<lparr>so_subjects := [\<lparr>ju_id = ''n'', ju_name = ''Songs'', ju_code = ''N'', ju_level = ''nursery'', ju_description = None,
     ju_category = None, ju_classes = JArray [], ju_active = True, ju_archived = False\<rparr>]\<rparr>) [''n''] [''jss''])"
  by code_simp

end
