(* ===== verification/Spec2Isabelle.thy ===== *)
theory Spec2Isabelle
  imports
    RolePermissions PermissionsGuard TeacherScope FeatureFlags Enforcement RuntimeConfig
    ListCache ProviderSecrets ControlWebhook Library Inventory Hostel Safeguarding Gate Cbt
    Grading Finance FeesOps Gateway AcademicCalendar SchoolLevel ScoreSheets Results GeneratedResults
    Sessions Login Onboarding
    SchoolSession Biometric Attendance AbsenceAlerts Payroll Users TenantConnections ClassStructure ClassLinks
begin

text \<open>
  A verification library of the school gateway, \<open>src/web-server/src\<close>: the NestJS server every client of the platform
  talks to.  A request passes the guards (bearer token, permissions, enforcement), reaches the service of one
  component, and the service reads and writes the database of the tenant, or the control database that knows the
  tenants.  What a tenant may do comes from the control plane, through a cache of its configuration.

  \<^bold>\<open>How the code is modelled.\<close>  A service method is a function from its arguments and the state to a result and
  the state it leaves: an exception is \<open>Inl\<close>, and the writes made before it stay, since the services open no
  transaction (\<open>Prelude\<close>).  A table is the list of its rows, and the SQL statements are the operations of \<open>Tables\<close>;
  a JavaScript \<open>Map\<close> keeps its order of insertion (\<open>JsMap\<close>).  What a method reads elsewhere (the clock, a random
  identifier, an answer over HTTP, the feature gate) is an argument or a field of the request, so a service is a step
  function over requests, and a run is a list of them (\<open>Machines\<close>, \<open>Services\<close>).  Where a method awaits between a
  read and a write and the order matters, its halves are separate steps.  Amounts are integers or rationals, an IPv4
  address is a 32-bit word, times are integers.  Strings are ASCII.

  \<^bold>\<open>Interfaces.\<close>  \<open>keyed_store\<close> (\<open>Tables\<close>) is what services rely on in a table with a primary key;
  \<open>invariant_machine\<close>, \<open>stable_machine\<close>, \<open>gated_machine\<close> and \<open>one_shot\<close> (\<open>Machines\<close>) are the contracts of a
  service: an invariant every request keeps, a mark that stays, a gate that leaves the state alone, an answer given at
  most once; \<open>refinement\<close> is a service whose answers are a trace of an abstract machine.  Each component interprets them on its own step function.

  \<^bold>\<open>Access.\<close>  \<open>RolePermissions\<close> (\<open>common/auth/role-permissions.ts\<close>), \<open>PermissionsGuard\<close>
  (\<open>common/auth/permissions.guard.ts\<close>, \<open>control-plane/user-authority.service.ts\<close>), \<open>TeacherScope\<close>
  (\<open>common/auth/teacher-scope.util.ts\<close>): the guard's decision, overrides that confer no reserved power, what a
  teacher may mark.  \<open>Sessions\<close> (\<open>identification/identification.service.ts\<close>): signed tokens, their refresh and
  revocation.  \<open>Passwords\<close>, \<open>Tenants\<close> (\<open>control-plane/control-plane.service.ts\<close>), \<open>Login\<close> (\<open>auth/auth.service.ts\<close>)
  and \<open>Onboarding\<close>: registering a school, signing in, resetting a password, and that a new school reaches its first
  sign-in.  \<open>Users\<close> (\<open>users/users.service.ts\<close>): who may change a role or a capability, and that reserved powers come from
  roles alone.

  \<^bold>\<open>Configuration of a tenant.\<close>  \<open>FeatureFlags\<close>, \<open>Enforcement\<close>, \<open>RuntimeConfig\<close>, \<open>ProviderSecrets\<close>
  (\<open>platform-config\<close>), \<open>ListCache\<close> (\<open>common/cache\<close>), \<open>ControlWebhook\<close>: what is on, who is blocked, how old a served
  configuration may be, that no load started before an invalidation is stored after it, what happens when the control
  plane is silent.  \<open>TenantConnections\<close> (\<open>database/tenant-connection.service.ts\<close>): the pools of connections, at most so
  many, each handed only to the tenant it was opened for.  The caches are machines of events (a call, the arrival of an answer, an invalidation), so every
  interleaving of them is a run.

  \<^bold>\<open>Records of a school.\<close>  \<open>AcademicCalendar\<close>, \<open>SchoolLevel\<close>, \<open>ScoreSheets\<close>, \<open>Results\<close>, \<open>GeneratedResults\<close>,
  \<open>Grading\<close> (\<open>academic\<close>), \<open>Cbt\<close>: the calendar, marks and their limits, approval and release, ranking, examinations.
  \<open>ClassStructure\<close> and \<open>ClassLinks\<close>: the catalogue of classes and subjects, who teaches and attends what; no link dangles, and an
  assignment decides which registers a teacher may take.

  \<^bold>\<open>The school day.\<close>  \<open>SchoolSession\<close> (\<open>common/utils/school-session.util.ts\<close>), \<open>Biometric\<close> (\<open>biometric\<close>),
  \<open>Attendance\<close> and \<open>AbsenceAlerts\<close> (\<open>attendance\<close>): the register refines a write-once map that only a correction
  changes, a member of the staff signs in once a day with a proof that is used up, an alert is sent for absences there are.

  \<^bold>\<open>Money and goods.\<close>  \<open>Finance\<close> (\<open>financial\<close>), \<open>Gateway\<close> (\<open>financial/gateway-payments.service.ts\<close> and the adapters of
  the payment providers), \<open>FeesOps\<close>, \<open>Payroll\<close> (\<open>finance/payroll\<close> and \<open>finance/budgets\<close>),
  \<open>Inventory\<close>, \<open>Library\<close>, \<open>Hostel\<close>: an approved payroll is final, an invoice is settled by what was received,
  online money is credited once and in the amount paid, stock and copies are conserved.

  \<^bold>\<open>Children.\<close>  \<open>Safeguarding\<close> and \<open>Gate\<close>: a pass exists only with the consents it needs and is redeemed once.

  \<^bold>\<open>Bounds.\<close>  Nothing runs on fuel: the loops of the code are structural recursions over finite lists, and the one
  open-ended loop, \<open>evictToCapacity\<close>, is a partial function that is proved to return.

  \<^bold>\<open>Not modelled.\<close>  The HTTP layer (controllers, validation pipes, rate limits), rendering of files and mails, the text
  of prompts for the AI services, the drivers and the migrations of the databases, and the other programs of the repository
  (\<open>ai-service\<close>, \<open>payment-service\<close>, \<open>worker-service\<close> and the like): they are I/O, text, or code in other languages.
  Signatures, hashes, encryption and key derivation are arguments with their documented laws.  Concurrency is
  modelled where a component keeps state in memory or where the code is known to race; elsewhere a request is one step.
\<close>

end
